(* ===== verification/Prelude.thy ===== *)
theory Prelude
  imports Main "HOL-Library.Word"
begin

text \<open>
  Shared vocabulary of the development.

  \<^item> Machine integers of the Rust sources as words of their width.
  \<^item> The effect of a Rust function that PHP calls: \<open>('e, 'a) eff\<close> is the list of PHP
    exception objects handed to \<^verbatim>\<open>throw_object\<close> (which records the exception and
    returns to the caller) together with either a Rust panic or the returned value.
  \<^item> \<^verbatim>\<open>std::collections::HashMap\<close> as the list of its entries in iteration order, with
    the key comparison as a parameter, and the locale \<open>entry_map\<close> of the laws its clients
    use.
  \<^item> The locale \<open>enum_codec\<close> for the conversions between a protobuf enum and its
    \<^verbatim>\<open>i32\<close> wire number, and the locale \<open>code_table\<close> for the commands of a switch.
  \<^item> Byte order conversions (\<^verbatim>\<open>NetworkEndian::write_i64\<close>,
    \<^verbatim>\<open>read_u32::<LittleEndian>\<close>).
\<close>

unbundle bit_operations_syntax

named_theorems eff_simps \<open>computation rules of the effect type\<close>
named_theorems codec_defs \<open>definitions of the enum conversions\<close>

type_synonym u8 = "8 word"
type_synonym u16 = "16 word"
type_synonym u32 = "32 word"
type_synonym i32 = "32 word"
type_synonym u64 = "64 word"
type_synonym i64 = "64 word"
type_synonym bytes = "8 word list"

text \<open>A binary64 value is its bit pattern.\<close>
type_synonym f64 = "64 word"


section \<open>Effects: thrown PHP exceptions and Rust panics\<close>

datatype panic =
    UnwrapNone          \<comment> \<open>\<^verbatim>\<open>Option::unwrap\<close> or \<^verbatim>\<open>expect\<close> on \<^verbatim>\<open>None\<close>\<close>
  | ExpectErr           \<comment> \<open>\<^verbatim>\<open>Result::unwrap\<close> or \<^verbatim>\<open>expect\<close> on \<^verbatim>\<open>Err\<close>\<close>
  | Unreachable         \<comment> \<open>the macro \<^verbatim>\<open>unreachable!()\<close>\<close>
  | SliceOutOfRange     \<comment> \<open>a slice \<^verbatim>\<open>&x[a..b]\<close> with \<open>b\<close> past the end\<close>
  | IndexOutOfBounds    \<comment> \<open>an index \<^verbatim>\<open>x[i]\<close> past the end\<close>
  | GoPanic             \<comment> \<open>Go: \<^verbatim>\<open>panic(err)\<close> with an error of a library\<close>
  | NilDereference      \<comment> \<open>Go: a nil pointer is dereferenced\<close>
  | TypeAssertion       \<comment> \<open>Go: \<^verbatim>\<open>x.(T)\<close> on a value of another type\<close>
  | UnhashableKey       \<comment> \<open>Go: a slice or map as a map key\<close>

type_synonym ('e, 'a) eff = "'e list \<times> (panic + 'a)"

definition ret :: "'a \<Rightarrow> ('e, 'a) eff" where
  "ret x = ([], Inr x)"

definition panics :: "panic \<Rightarrow> ('e, 'a) eff" where
  "panics p = ([], Inl p)"

definition throw_object :: "'e \<Rightarrow> ('e, unit) eff" where
  "throw_object e = ([e], Inr ())"

definition emit :: "'e list \<Rightarrow> 'a \<Rightarrow> ('e, 'a) eff" where
  "emit es x = (es, Inr x)"

definition bnd :: "('e, 'a) eff \<Rightarrow> ('a \<Rightarrow> ('e, 'b) eff) \<Rightarrow> ('e, 'b) eff" where
  "bnd m f = (case m of
     (es, Inl p) \<Rightarrow> (es, Inl p)
   | (es, Inr x) \<Rightarrow> (case f x of (es', r) \<Rightarrow> (es @ es', r)))"

text \<open>A sum-valued (panic or value) computation that throws nothing.\<close>
definition lift_sum :: "panic + 'a \<Rightarrow> ('e, 'a) eff" where
  "lift_sum r = ([], r)"

definition unwrap :: "'a option \<Rightarrow> panic + 'a" where
  "unwrap o' = (case o' of None \<Rightarrow> Inl UnwrapNone | Some x \<Rightarrow> Inr x)"

definition thrown :: "('e, 'a) eff \<Rightarrow> 'e list" where
  "thrown m = fst m"

definition outcome :: "('e, 'a) eff \<Rightarrow> panic + 'a" where
  "outcome m = snd m"

lemma bnd_ret_left [simp, eff_simps]: "bnd (ret x) f = f x"
  by (simp add: bnd_def ret_def)

lemma bnd_ret_right [simp]: "bnd m ret = m"
  by (cases m) (auto simp: bnd_def ret_def split: sum.splits)

lemma bnd_assoc: "bnd (bnd m f) g = bnd m (\<lambda>x. bnd (f x) g)"
  by (cases m) (auto simp: bnd_def split: sum.splits prod.splits)

lemma bnd_panics [simp, eff_simps]: "bnd (panics p) f = panics p"
  by (simp add: bnd_def panics_def)

lemma bnd_throw [simp, eff_simps]:
  "bnd (throw_object e) f = (e # thrown (f ()), outcome (f ()))"
  by (simp add: bnd_def throw_object_def thrown_def outcome_def split: prod.splits)

lemma thrown_simps [simp, eff_simps]:
  "thrown (ret x) = []" "thrown (panics p) = []" "thrown (throw_object e) = [e]"
  "thrown (es, r) = es" "thrown (emit es x) = es" "thrown (lift_sum r) = []"
  by (simp_all add: thrown_def ret_def panics_def throw_object_def emit_def lift_sum_def)

lemma outcome_simps [simp, eff_simps]:
  "outcome (ret x) = Inr x" "outcome (panics p) = Inl p" "outcome (throw_object e) = Inr ()"
  "outcome (es, r) = r" "outcome (emit es x) = Inr x" "outcome (lift_sum r) = r"
  by (simp_all add: outcome_def ret_def panics_def throw_object_def emit_def lift_sum_def)

lemma bnd_emit [eff_simps]: "bnd (emit es x) f = (es @ thrown (f x), outcome (f x))"
  by (simp add: bnd_def emit_def thrown_def outcome_def split: prod.splits)

lemma emit_Nil [simp]: "emit [] x = ret x"
  by (simp add: emit_def ret_def)

lemma bnd_lift_sum [simp, eff_simps]:
  "bnd (lift_sum (Inr x)) f = f x" "bnd (lift_sum (Inl p)) f = panics p"
  by (simp_all add: bnd_def lift_sum_def panics_def)

lemma unwrap_simps [simp]: "unwrap (Some x) = Inr x" "unwrap None = Inl UnwrapNone"
  by (simp_all add: unwrap_def)

lemma eff_eq_ret_iff: "m = ret x \<longleftrightarrow> thrown m = [] \<and> outcome m = Inr x"
  by (cases m) (auto simp: ret_def thrown_def outcome_def)

lemma outcome_bnd_Inr:
  "outcome (bnd m f) = Inr y \<longleftrightarrow> (\<exists>x. outcome m = Inr x \<and> outcome (f x) = Inr y)"
  by (cases m) (auto simp: bnd_def outcome_def split: sum.splits prod.splits)

lemma outcome_bnd:
  "outcome (bnd m f) = (case outcome m of Inl p \<Rightarrow> Inl p | Inr x \<Rightarrow> outcome (f x))"
  by (cases m) (auto simp: bnd_def outcome_def split: sum.splits prod.splits)

lemma bnd_eq_ret: "bnd m f = ret y \<longleftrightarrow> (\<exists>x. m = ret x \<and> f x = ret y)"
  by (cases m) (auto simp: bnd_def ret_def split: sum.splits prod.splits)

lemma panics_neq_ret [simp]: "panics p \<noteq> ret x" "ret x \<noteq> panics p"
  by (simp_all add: panics_def ret_def)

lemma ret_eq_iff [simp]: "ret x = ret y \<longleftrightarrow> x = y"
  by (simp add: ret_def)

lemma lift_sum_eq_ret [simp]: "lift_sum r = ret x \<longleftrightarrow> r = Inr x"
  by (simp add: lift_sum_def ret_def)

lemma unwrap_eq_Inr [simp]: "unwrap o' = Inr x \<longleftrightarrow> o' = Some x"
  by (simp add: unwrap_def split: option.splits)

text \<open>The computation returns (does not panic).\<close>
definition runs :: "('e, 'a) eff \<Rightarrow> bool" where
  "runs m \<longleftrightarrow> (\<exists>v. outcome m = Inr v)"

lemma runs_simps [simp]:
  "runs (ret x)" "\<not> runs (panics p)" "runs (emit es x)" "runs (throw_object e)"
  "runs (lift_sum (Inr x))" "\<not> runs (lift_sum (Inl p))"
  by (simp_all add: runs_def)

lemma runs_bnd_const: "(\<And>x. runs (f x) \<longleftrightarrow> b) \<Longrightarrow> runs (bnd m f) \<longleftrightarrow> runs m \<and> b"
  by (auto simp: runs_def outcome_bnd_Inr)

lemma runs_bnd_total: "(\<And>x. runs (f x)) \<Longrightarrow> runs (bnd m f) \<longleftrightarrow> runs m"
  by (simp add: runs_bnd_const)

lemma runs_bnd_panics [simp]: "\<not> runs (bnd m (\<lambda>_. panics p))"
  by (simp add: runs_def outcome_bnd_Inr)

lemma runs_lift_unwrap [simp]: "runs (lift_sum (unwrap o')) \<longleftrightarrow> o' \<noteq> None"
  by (cases o') auto

lemma outcome_lift_unwrap [simp]: "outcome (lift_sum (unwrap o')) = Inr v \<longleftrightarrow> o' = Some v"
  by simp


section \<open>Computations that only fail\<close>

text \<open>The failure is a panic of the manager, or a type with the errors of a component.\<close>
definition sbind :: "'e + 'a \<Rightarrow> ('a \<Rightarrow> 'e + 'b) \<Rightarrow> 'e + 'b" where
  "sbind m f = (case m of Inl p \<Rightarrow> Inl p | Inr x \<Rightarrow> f x)"

text \<open>A loop that appends one result after the other.\<close>
fun ssequence :: "('e + 'a) list \<Rightarrow> 'e + 'a list" where
  "ssequence [] = Inr []"
| "ssequence (m # ms) = sbind m (\<lambda>x. sbind (ssequence ms) (\<lambda>xs. Inr (x # xs)))"

text \<open>An element of a Go slice.\<close>
definition go_index :: "(panic + 'a) list \<Rightarrow> nat \<Rightarrow> panic + 'a" where
  "go_index xs i = (if i < length xs then xs ! i else Inl IndexOutOfBounds)"

lemma sbind_simps [simp]: "sbind (Inl p) f = Inl p" "sbind (Inr x) f = f x"
  by (simp_all add: sbind_def)

lemma sbind_Inr_iff: "sbind m f = Inr y \<longleftrightarrow> (\<exists>x. m = Inr x \<and> f x = Inr y)"
  by (cases m) auto

lemma sbind_assoc: "sbind (sbind m f) g = sbind m (\<lambda>x. sbind (f x) g)"
  by (cases m) simp_all

lemma ssequence_Inr [simp]: "ssequence (map Inr xs) = Inr xs"
  by (induction xs) auto

lemma ssequence_map_Inr: "(\<And>x. x \<in> set xs \<Longrightarrow> f x = Inr (g x)) \<Longrightarrow> ssequence (map f xs) = Inr (map g xs)"
  by (induction xs) auto

lemma ssequence_runs: "(\<exists>ys. ssequence ms = Inr ys) \<longleftrightarrow> list_all (\<lambda>m. \<exists>y. m = Inr y) ms"
  by (induction ms) (auto simp: sbind_Inr_iff)


section \<open>Hash maps as lists of entries\<close>

text \<open>
  \<^verbatim>\<open>HashMap::insert\<close>: an entry with an equal key keeps its key and gets the new value,
  otherwise the entry is new. \<^verbatim>\<open>HashMap::get\<close>: the value of the entry with an equal
  key. The order of the list is the iteration order, of which nothing is promised.
\<close>

fun hm_insert :: "('k \<Rightarrow> 'k \<Rightarrow> bool) \<Rightarrow> 'k \<Rightarrow> 'v \<Rightarrow> ('k \<times> 'v) list \<Rightarrow> ('k \<times> 'v) list" where
  "hm_insert eq k v [] = [(k, v)]"
| "hm_insert eq k v ((k', v') # m) =
     (if eq k k' then (k', v) # m else (k', v') # hm_insert eq k v m)"

fun hm_get :: "('k \<Rightarrow> 'k \<Rightarrow> bool) \<Rightarrow> ('k \<times> 'v) list \<Rightarrow> 'k \<Rightarrow> 'v option" where
  "hm_get eq [] k = None"
| "hm_get eq ((k', v') # m) k = (if eq k k' then Some v' else hm_get eq m k)"

text \<open>No key of the map is equal to a later one: what \<open>hm_insert\<close> keeps.\<close>
fun hm_distinct :: "('k \<Rightarrow> 'k \<Rightarrow> bool) \<Rightarrow> ('k \<times> 'v) list \<Rightarrow> bool" where
  "hm_distinct eq [] = True"
| "hm_distinct eq ((k, v) # m) = (list_all (\<lambda>(k', v'). \<not> eq k' k) m \<and> hm_distinct eq m)"

lemma hm_insert_fresh:
  "list_all (\<lambda>(k', v'). \<not> eq k k') m \<Longrightarrow> hm_insert eq k v m = m @ [(k, v)]"
  by (induction m) auto

lemma set_hm_insert_keys: "fst ` set (hm_insert eq k v m) \<subseteq> insert k (fst ` set m)"
proof (induction m)
  case (Cons e m)
  then show ?case by (cases e) (auto simp: image_iff)
qed simp

lemma set_hm_insert_entries:
  "p \<in> set (hm_insert eq k v m) \<Longrightarrow> fst p \<in> insert k (fst ` set m)"
  by (drule imageI [of p _ fst]) (use set_hm_insert_keys [of eq k v m] in auto)

lemma length_hm_insert: "length (hm_insert eq k v m) \<le> Suc (length m)"
  by (induction m) auto

lemma hm_distinct_insert: "hm_distinct eq m \<Longrightarrow> hm_distinct eq (hm_insert eq k v m)"
proof (induction m)
  case (Cons e m)
  obtain a b where e: "e = (a, b)" by (cases e)
  have "\<not> eq k' a" if "(k', v') \<in> set (hm_insert eq k v m)" "\<not> eq k a" for k' v'
    using set_hm_insert_entries [OF that(1)] that(2) Cons.prems by (auto simp: e list_all_iff)
  with Cons show ?case by (auto simp: e list_all_iff)
qed simp

lemma hm_distinct_append:
  "hm_distinct eq (m @ n) \<longleftrightarrow>
     hm_distinct eq m \<and> hm_distinct eq n \<and> (\<forall>(k, v) \<in> set m. \<forall>(k', v') \<in> set n. \<not> eq k' k)"
  by (induction m) (fastforce simp: list_all_iff)+

lemma hm_insert_mem:
  "(a, b) \<in> set (hm_insert eq k v m) \<Longrightarrow> (a = k \<or> a \<in> fst ` set m) \<and> (b = v \<or> b \<in> snd ` set m)"
  by (induction eq k v m rule: hm_insert.induct) (auto split: if_splits intro: rev_image_eqI)

lemma hm_insert_fst_all: "\<forall>k' \<in> fst ` set m. P k' \<Longrightarrow> P k \<Longrightarrow> \<forall>k' \<in> fst ` set (hm_insert eq k v m). P k'"
  by (auto dest!: hm_insert_mem)

lemma hm_insert_snd_all: "\<forall>v' \<in> snd ` set m. P v' \<Longrightarrow> P v \<Longrightarrow> \<forall>v' \<in> snd ` set (hm_insert eq k v m). P v'"
  by (auto dest!: hm_insert_mem)

lemma map_fst_hm_insert:
  "map fst (hm_insert eq k v m) = (if list_ex (eq k) (map fst m) then map fst m else map fst m @ [k])"
  by (induction m) auto

lemma hm_distinct_keys:
  assumes "hm_distinct eq h" and "\<forall>k \<in> fst ` set h. k \<in> range c"
    and "\<And>a b. eq (c a) (c b) \<longleftrightarrow> a = b" and "\<And>a b. eq' (f (c a)) (f (c b)) \<longleftrightarrow> a = b"
  shows "hm_distinct eq' (map (map_prod f g) h)"
  using assms(1,2)
  by (induction h) (use assms(3,4) in \<open>force simp: list_all_iff\<close>)+

text \<open>
  The interface of the container: a key comparison that is an equivalence on the keys the
  client uses.
\<close>

locale entry_map =
  fixes eq :: "'k \<Rightarrow> 'k \<Rightarrow> bool" and dom_ok :: "'k \<Rightarrow> bool"
  assumes eq_refl: "dom_ok a \<Longrightarrow> eq a a"
    and eq_sym: "dom_ok a \<Longrightarrow> dom_ok b \<Longrightarrow> eq a b \<Longrightarrow> eq b a"
    and eq_trans: "dom_ok a \<Longrightarrow> dom_ok b \<Longrightarrow> dom_ok c \<Longrightarrow> eq a b \<Longrightarrow> eq b c \<Longrightarrow> eq a c"
begin

definition keys_ok :: "('k \<times> 'v) list \<Rightarrow> bool" where
  "keys_ok m \<longleftrightarrow> list_all (\<lambda>(k, v). dom_ok k) m"

lemma keys_ok_insert: "dom_ok k \<Longrightarrow> keys_ok m \<Longrightarrow> keys_ok (hm_insert eq k v m)"
  by (induction m) (auto simp: keys_ok_def)

lemma get_insert_same:
  "dom_ok k \<Longrightarrow> dom_ok k' \<Longrightarrow> keys_ok m \<Longrightarrow> eq k' k \<Longrightarrow> hm_get eq (hm_insert eq k v m) k' = Some v"
proof (induction m)
  case Nil
  then show ?case by simp
next
  case (Cons e m)
  obtain a b where e: "e = (a, b)" by (cases e)
  have a: "dom_ok a" and m: "keys_ok m"
    using Cons.prems(3) by (auto simp: keys_ok_def e)
  show ?case
  proof (cases "eq k a")
    case True
    then have "eq k' a" using Cons.prems a eq_trans by blast
    with True show ?thesis by (simp add: e)
  next
    case False
    then have "\<not> eq k' a" using Cons.prems a eq_sym eq_trans by blast
    with False show ?thesis using Cons m by (simp add: e)
  qed
qed

lemma get_insert_other:
  "dom_ok k \<Longrightarrow> dom_ok k' \<Longrightarrow> keys_ok m \<Longrightarrow> \<not> eq k' k \<Longrightarrow>
    hm_get eq (hm_insert eq k v m) k' = hm_get eq m k'"
proof (induction m)
  case Nil
  then show ?case by simp
next
  case (Cons e m)
  obtain a b where e: "e = (a, b)" by (cases e)
  have a: "dom_ok a" and m: "keys_ok m"
    using Cons.prems(3) by (auto simp: keys_ok_def e)
  show ?case
  proof (cases "eq k a")
    case True
    then have "\<not> eq k' a" using Cons.prems a eq_sym eq_trans by blast
    with True show ?thesis by (simp add: e)
  next
    case False
    then show ?thesis using Cons m by (simp add: e)
  qed
qed

end

text \<open>Maps with string keys (\<^verbatim>\<open>HashMap<String, _>\<close>) compare keys by equality.\<close>

interpretation string_map: entry_map "(=) :: string \<Rightarrow> string \<Rightarrow> bool" "\<lambda>_. True"
  by unfold_locales auto

lemma hm_get_eq_map_of: "hm_get (=) m k = map_of m k"
  by (induction m) auto

lemma hm_distinct_eq: "hm_distinct (=) m \<longleftrightarrow> distinct (map fst m)"
  by (induction m) (force simp: list_all_iff)+


section \<open>Enum conversions\<close>

text \<open>
  A prost enum is stored in a message as an \<^verbatim>\<open>i32\<close>; the client converts it back with a
  \<^verbatim>\<open>match\<close> whose last arm is \<^verbatim>\<open>unreachable!()\<close>.
\<close>

locale enum_codec =
  fixes enc :: "'a \<Rightarrow> i32" and dec :: "i32 \<Rightarrow> panic + 'a"
  assumes dec_enc: "dec (enc a) = Inr a"
    and enc_dec: "dec c = Inr a \<Longrightarrow> enc a = c"
begin

lemma enc_inj: "enc a = enc b \<Longrightarrow> a = b"
  by (metis dec_enc sum.inject(2))

lemma dec_total_iff: "(\<exists>a. dec c = Inr a) \<longleftrightarrow> c \<in> range enc"
  using dec_enc enc_dec by force

end


text \<open>
  A received number and the switch over the commands it may stand for: a table of all the
  commands with different numbers finds the command of a number, if there is one.
\<close>

locale code_table =
  fixes code :: "'a \<Rightarrow> 'c" and all :: "'a list"
  assumes complete: "x \<in> set all" and codes_distinct: "distinct (map code all)"
begin

lemma find_code: "find (\<lambda>y. code y = code x) all = Some x"
proof -
  have "find (\<lambda>y. code y = code x) xs = Some x" if "x \<in> set xs" and "distinct (map code xs)" for xs
    using that by (induction xs) (auto intro: rev_image_eqI)
  then show ?thesis using complete codes_distinct by blast
qed

lemma find_none_iff: "find (\<lambda>y. code y = c) all = None \<longleftrightarrow> c \<notin> range code"
  using complete by (auto simp: find_None_iff)

end


section \<open>Byte order\<close>

text \<open>\<^verbatim>\<open>NetworkEndian::write_i64\<close> into an 8-byte buffer: most significant byte first.\<close>
definition write_i64_be :: "i64 \<Rightarrow> bytes" where
  "write_i64_be w = map (\<lambda>i. ucast (drop_bit (8 * (7 - i)) w)) [0..<8]"

lemma length_write_i64_be [simp]: "length (write_i64_be w) = 8"
  by (simp add: write_i64_be_def)

lemma bit_write_i64_be:
  assumes "n < 64"
  shows "bit (write_i64_be w ! (7 - n div 8)) (n mod 8) = bit w n"
proof -
  have le: "n div 8 \<le> 7" using assms by linarith
  then have "write_i64_be w ! (7 - n div 8) = ucast (drop_bit (8 * (n div 8)) w)"
    using nth_upt [of 0 "7 - n div 8" 8] by (simp add: write_i64_be_def)
  moreover have "8 * (n div 8) + n mod 8 = n" by simp
  ultimately show ?thesis
    by (simp add: bit_ucast_iff bit_drop_bit_eq)
qed

lemma write_i64_be_inj: "write_i64_be v = write_i64_be w \<Longrightarrow> v = w"
  by (rule bit_word_eqI) (simp flip: bit_write_i64_be)

text \<open>\<^verbatim>\<open>Cursor::new(&d[0..4]).read_u32::<LittleEndian>()\<close>: least significant byte first.\<close>
definition read_u32_le :: "u8 \<Rightarrow> u8 \<Rightarrow> u8 \<Rightarrow> u8 \<Rightarrow> u32" where
  "read_u32_le b0 b1 b2 b3 =
     ucast b0 OR push_bit 8 (ucast b1) OR push_bit 16 (ucast b2) OR push_bit 24 (ucast b3)"

end
