(* ===== verification/Result_Codes.thy ===== *)
theory Result_Codes
  imports Prelude
begin

text \<open>
  \<^verbatim>\<open>ResultCode\<close> and \<^verbatim>\<open>AerospikeException\<close> of \<^verbatim>\<open>src/lib.rs\<close>: the result
  codes of the server and of the client library, their messages, and the exception object
  thrown into PHP. The lemmas show that the message table is a function of the code with an
  arm for every declared code, and what an exception built from a \<^verbatim>\<open>proto::Error\<close>
  carries.
\<close>

section \<open>Result codes\<close>

definition GRPC_ERROR :: i32 where "GRPC_ERROR = - 21"

definition BATCH_FAILED :: i32 where "BATCH_FAILED = - 20"

definition NO_RESPONSE :: i32 where "NO_RESPONSE = - 19"

definition NETWORK_ERROR :: i32 where "NETWORK_ERROR = - 18"

definition COMMON_ERROR :: i32 where "COMMON_ERROR = - 17"

definition MAX_RETRIES_EXCEEDED :: i32 where "MAX_RETRIES_EXCEEDED = - 16"

definition MAX_ERROR_RATE :: i32 where "MAX_ERROR_RATE = - 15"

definition RACK_NOT_DEFINED :: i32 where "RACK_NOT_DEFINED = - 13"

definition INVALID_CLUSTER_PARTITION_MAP :: i32 where "INVALID_CLUSTER_PARTITION_MAP = - 12"

definition SERVER_NOT_AVAILABLE :: i32 where "SERVER_NOT_AVAILABLE = - 11"

definition CLUSTER_NAME_MISMATCH_ERROR :: i32 where "CLUSTER_NAME_MISMATCH_ERROR = - 10"

definition RECORDSET_CLOSED :: i32 where "RECORDSET_CLOSED = - 9"

definition NO_AVAILABLE_CONNECTIONS_TO_NODE :: i32 where "NO_AVAILABLE_CONNECTIONS_TO_NODE = - 8"

definition TYPE_NOT_SUPPORTED :: i32 where "TYPE_NOT_SUPPORTED = - 7"

definition COMMAND_REJECTED :: i32 where "COMMAND_REJECTED = - 6"

definition QUERY_TERMINATED :: i32 where "QUERY_TERMINATED = - 5"

definition SCAN_TERMINATED :: i32 where "SCAN_TERMINATED = - 4"

definition INVALID_NODE_ERROR :: i32 where "INVALID_NODE_ERROR = - 3"

definition PARSE_ERROR :: i32 where "PARSE_ERROR = - 2"

definition SERIALIZE_ERROR :: i32 where "SERIALIZE_ERROR = - 1"

definition OK :: i32 where "OK = 0"

definition SERVER_ERROR :: i32 where "SERVER_ERROR = 1"

definition KEY_NOT_FOUND_ERROR :: i32 where "KEY_NOT_FOUND_ERROR = 2"

definition GENERATION_ERROR :: i32 where "GENERATION_ERROR = 3"

definition PARAMETER_ERROR :: i32 where "PARAMETER_ERROR = 4"

definition KEY_EXISTS_ERROR :: i32 where "KEY_EXISTS_ERROR = 5"

definition BIN_EXISTS_ERROR :: i32 where "BIN_EXISTS_ERROR = 6"

definition CLUSTER_KEY_MISMATCH :: i32 where "CLUSTER_KEY_MISMATCH = 7"

definition SERVER_MEM_ERROR :: i32 where "SERVER_MEM_ERROR = 8"

definition TIMEOUT :: i32 where "TIMEOUT = 9"

definition ALWAYS_FORBIDDEN :: i32 where "ALWAYS_FORBIDDEN = 10"

definition PARTITION_UNAVAILABLE :: i32 where "PARTITION_UNAVAILABLE = 11"

definition BIN_TYPE_ERROR :: i32 where "BIN_TYPE_ERROR = 12"

definition RECORD_TOO_BIG :: i32 where "RECORD_TOO_BIG = 13"

definition KEY_BUSY :: i32 where "KEY_BUSY = 14"

definition SCAN_ABORT :: i32 where "SCAN_ABORT = 15"

definition UNSUPPORTED_FEATURE :: i32 where "UNSUPPORTED_FEATURE = 16"

definition BIN_NOT_FOUND :: i32 where "BIN_NOT_FOUND = 17"

definition DEVICE_OVERLOAD :: i32 where "DEVICE_OVERLOAD = 18"

definition KEY_MISMATCH :: i32 where "KEY_MISMATCH = 19"

definition INVALID_NAMESPACE :: i32 where "INVALID_NAMESPACE = 20"

definition BIN_NAME_TOO_LONG :: i32 where "BIN_NAME_TOO_LONG = 21"

definition FAIL_FORBIDDEN :: i32 where "FAIL_FORBIDDEN = 22"

definition FAIL_ELEMENT_NOT_FOUND :: i32 where "FAIL_ELEMENT_NOT_FOUND = 23"

definition FAIL_ELEMENT_EXISTS :: i32 where "FAIL_ELEMENT_EXISTS = 24"

definition ENTERPRISE_ONLY :: i32 where "ENTERPRISE_ONLY = 25"

definition OP_NOT_APPLICABLE :: i32 where "OP_NOT_APPLICABLE = 26"

definition FILTERED_OUT :: i32 where "FILTERED_OUT = 27"

definition LOST_CONFLICT :: i32 where "LOST_CONFLICT = 28"

definition QUERY_END :: i32 where "QUERY_END = 50"

definition SECURITY_NOT_SUPPORTED :: i32 where "SECURITY_NOT_SUPPORTED = 51"

definition SECURITY_NOT_ENABLED :: i32 where "SECURITY_NOT_ENABLED = 52"

definition SECURITY_SCHEME_NOT_SUPPORTED :: i32 where "SECURITY_SCHEME_NOT_SUPPORTED = 53"

definition INVALID_COMMAND :: i32 where "INVALID_COMMAND = 54"

definition INVALID_FIELD :: i32 where "INVALID_FIELD = 55"

definition ILLEGAL_STATE :: i32 where "ILLEGAL_STATE = 56"

definition INVALID_USER :: i32 where "INVALID_USER = 60"

definition USER_ALREADY_EXISTS :: i32 where "USER_ALREADY_EXISTS = 61"

definition INVALID_PASSWORD :: i32 where "INVALID_PASSWORD = 62"

definition EXPIRED_PASSWORD :: i32 where "EXPIRED_PASSWORD = 63"

definition FORBIDDEN_PASSWORD :: i32 where "FORBIDDEN_PASSWORD = 64"

definition INVALID_CREDENTIAL :: i32 where "INVALID_CREDENTIAL = 65"

definition EXPIRED_SESSION :: i32 where "EXPIRED_SESSION = 66"

definition INVALID_ROLE :: i32 where "INVALID_ROLE = 70"

definition ROLE_ALREADY_EXISTS :: i32 where "ROLE_ALREADY_EXISTS = 71"

definition INVALID_PRIVILEGE :: i32 where "INVALID_PRIVILEGE = 72"

definition INVALID_WHITELIST :: i32 where "INVALID_WHITELIST = 73"

definition QUOTAS_NOT_ENABLED :: i32 where "QUOTAS_NOT_ENABLED = 74"

definition INVALID_QUOTA :: i32 where "INVALID_QUOTA = 75"

definition NOT_AUTHENTICATED :: i32 where "NOT_AUTHENTICATED = 80"

definition ROLE_VIOLATION :: i32 where "ROLE_VIOLATION = 81"

definition NOT_WHITELISTED :: i32 where "NOT_WHITELISTED = 82"

definition QUOTA_EXCEEDED :: i32 where "QUOTA_EXCEEDED = 83"

definition UDF_BAD_RESPONSE :: i32 where "UDF_BAD_RESPONSE = 100"

definition BATCH_DISABLED :: i32 where "BATCH_DISABLED = 150"

definition BATCH_MAX_REQUESTS_EXCEEDED :: i32 where "BATCH_MAX_REQUESTS_EXCEEDED = 151"

definition BATCH_QUEUES_FULL :: i32 where "BATCH_QUEUES_FULL = 152"

definition GEO_INVALID_GEOJSON :: i32 where "GEO_INVALID_GEOJSON = 160"

definition INDEX_FOUND :: i32 where "INDEX_FOUND = 200"

definition INDEX_NOT_FOUND :: i32 where "INDEX_NOT_FOUND = 201"

definition INDEX_OOM :: i32 where "INDEX_OOM = 202"

definition INDEX_NOT_READABLE :: i32 where "INDEX_NOT_READABLE = 203"

definition INDEX_GENERIC :: i32 where "INDEX_GENERIC = 204"

definition INDEX_NAME_MAX_LEN :: i32 where "INDEX_NAME_MAX_LEN = 205"

definition INDEX_MAX_COUNT :: i32 where "INDEX_MAX_COUNT = 206"

definition QUERY_ABORTED :: i32 where "QUERY_ABORTED = 210"

definition QUERY_QUEUE_FULL :: i32 where "QUERY_QUEUE_FULL = 211"

definition QUERY_TIMEOUT :: i32 where "QUERY_TIMEOUT = 212"

definition QUERY_GENERIC :: i32 where "QUERY_GENERIC = 213"

definition QUERY_NET_IO_ERR :: i32 where "QUERY_NET_IO_ERR = 214"

definition QUERY_DUPLICATE :: i32 where "QUERY_DUPLICATE = 215"

definition AEROSPIKE_ERR_UDF_NOT_FOUND :: i32 where "AEROSPIKE_ERR_UDF_NOT_FOUND = 1301"

definition AEROSPIKE_ERR_LUA_FILE_NOT_FOUND :: i32 where "AEROSPIKE_ERR_LUA_FILE_NOT_FOUND = 1302"

text \<open>
  The arms of \<^verbatim>\<open>ResultCode::to_string\<close> in source order; \<open>map_of\<close> takes the first
  arm that matches, as the \<^verbatim>\<open>match\<close> does.
\<close>

definition result_code_arms :: "(i32 \<times> string) list" where
  "result_code_arms = [
    (GRPC_ERROR, ''wrapped and directly returned from the grpc library''),
    (BATCH_FAILED, ''one or more keys failed in a batch''),
    (NO_RESPONSE, ''no response was received from the server''),
    (NETWORK_ERROR, ''a network error. Checked the wrapped error for detail''),
    (COMMON_ERROR, ''a common, none-aerospike error. Checked the wrapped error for detail''),
    (MAX_RETRIES_EXCEEDED, ''max retries limit reached''),
    (MAX_ERROR_RATE, ''max errors limit reached''),
    (RACK_NOT_DEFINED, ''requested Rack for node/namespace was not defined in the cluster''),
    (INVALID_CLUSTER_PARTITION_MAP, ''cluster has an invalid partition map, usually due to bad configuration''),
    (SERVER_NOT_AVAILABLE, ''server is not accepting requests''),
    (CLUSTER_NAME_MISMATCH_ERROR, ''cluster Name does not match the ClientPolicy.ClusterName value''),
    (RECORDSET_CLOSED, ''recordset has already been closed or cancelled''),
    (NO_AVAILABLE_CONNECTIONS_TO_NODE, ''there were no connections available to the node in the pool, and the pool was limited''),
    (TYPE_NOT_SUPPORTED, ''data type is not supported by aerospike server''),
    (COMMAND_REJECTED, ''info Command was rejected by the server''),
    (QUERY_TERMINATED, ''query was terminated by user''),
    (SCAN_TERMINATED, ''scan was terminated by user''),
    (INVALID_NODE_ERROR, ''chosen node is not currently active''),
    (PARSE_ERROR, ''client parse error''),
    (SERIALIZE_ERROR, ''client serialization error''),
    (OK, ''operation was successful''),
    (SERVER_ERROR, ''unknown server failure''),
    (KEY_NOT_FOUND_ERROR, ''on retrieving, touching or replacing a record that doesn't exist''),
    (GENERATION_ERROR, ''on modifying a record with unexpected generation''),
    (PARAMETER_ERROR, ''bad parameter(s) were passed in database operation call''),
    (KEY_EXISTS_ERROR, ''on create-only (write unique) operations on a record that already exists''),
    (BIN_EXISTS_ERROR, ''bin already exists on a create-only operation''),
    (CLUSTER_KEY_MISMATCH, ''expected cluster ID was not received''),
    (SERVER_MEM_ERROR, ''server has run out of memory''),
    (TIMEOUT, ''client or server has timed out''),
    (ALWAYS_FORBIDDEN, ''operation not allowed in current configuration''),
    (PARTITION_UNAVAILABLE, ''partition is unavailable''),
    (BIN_TYPE_ERROR, ''operation is not supported with configured bin type (single-bin or multi-bin)''),
    (RECORD_TOO_BIG, ''record size exceeds limit''),
    (KEY_BUSY, ''too many concurrent operations on the same record''),
    (SCAN_ABORT, ''scan aborted by server''),
    (UNSUPPORTED_FEATURE, ''unsupported Server Feature (e.g. Scan + UDF)''),
    (BIN_NOT_FOUND, ''bin not found on update-only operation''),
    (DEVICE_OVERLOAD, ''device not keeping up with writes''),
    (KEY_MISMATCH, ''key type mismatch''),
    (INVALID_NAMESPACE, ''invalid namespace''),
    (BIN_NAME_TOO_LONG, ''bin name length greater than 14 characters, or maximum number of unique bin names are exceeded''),
    (FAIL_FORBIDDEN, ''operation not allowed at this time''),
    (FAIL_ELEMENT_NOT_FOUND, ''element Not Found in CDT''),
    (FAIL_ELEMENT_EXISTS, ''element Already Exists in CDT''),
    (ENTERPRISE_ONLY, ''attempt to use an Enterprise feature on a Community server or a server without the applicable feature key''),
    (OP_NOT_APPLICABLE, ''the operation cannot be applied to the current bin value on the server''),
    (FILTERED_OUT, ''the transaction was not performed because the filter was false''),
    (LOST_CONFLICT, ''write command loses conflict to XDR''),
    (QUERY_END, ''there are no more records left for query''),
    (SECURITY_NOT_SUPPORTED, ''security type not supported by connected server''),
    (SECURITY_NOT_ENABLED, ''administration command is invalid''),
    (SECURITY_SCHEME_NOT_SUPPORTED, ''administration field is invalid''),
    (INVALID_COMMAND, ''administration command is invalid''),
    (INVALID_FIELD, ''administration field is invalid''),
    (ILLEGAL_STATE, ''security protocol not followed''),
    (INVALID_USER, ''user name is invalid''),
    (USER_ALREADY_EXISTS, ''user was previously created''),
    (INVALID_PASSWORD, ''password is invalid''),
    (EXPIRED_PASSWORD, ''security credential is invalid''),
    (FORBIDDEN_PASSWORD, ''forbidden password (e.g. recently used)''),
    (INVALID_CREDENTIAL, ''security credential is invalid''),
    (EXPIRED_SESSION, ''login session expired''),
    (INVALID_ROLE, ''role name is invalid''),
    (ROLE_ALREADY_EXISTS, ''role already exists''),
    (INVALID_PRIVILEGE, ''privilege is invalid''),
    (INVALID_WHITELIST, ''invalid IP address whiltelist''),
    (QUOTAS_NOT_ENABLED, ''Quotas not enabled on server''),
    (INVALID_QUOTA, ''invalid quota value''),
    (NOT_AUTHENTICATED, ''user must be authentication before performing database operations''),
    (ROLE_VIOLATION, ''user does not posses the required role to perform the database operation''),
    (NOT_WHITELISTED, ''command not allowed because sender IP address not whitelisted''),
    (QUOTA_EXCEEDED, ''Quota exceeded''),
    (UDF_BAD_RESPONSE, ''a user defined function returned an error code''),
    (BATCH_DISABLED, ''batch functionality has been disabled''),
    (BATCH_MAX_REQUESTS_EXCEEDED, ''batch max requests have been exceeded''),
    (BATCH_QUEUES_FULL, ''all batch queues are full''),
    (GEO_INVALID_GEOJSON, ''invalid GeoJSON on insert/update''),
    (INDEX_FOUND, ''secondary index already exists''),
    (INDEX_NOT_FOUND, ''requested secondary index does not exist''),
    (INDEX_OOM, ''secondary index memory space exceeded''),
    (INDEX_NOT_READABLE, ''secondary index not available''),
    (INDEX_GENERIC, ''generic secondary index error''),
    (INDEX_NAME_MAX_LEN, ''index name maximum length exceeded''),
    (INDEX_MAX_COUNT, ''maximum number of indexes exceeded''),
    (QUERY_ABORTED, ''secondary index query aborted''),
    (QUERY_QUEUE_FULL, ''secondary index queue full''),
    (QUERY_TIMEOUT, ''secondary index query timed out on server''),
    (QUERY_GENERIC, ''generic query error''),
    (QUERY_NET_IO_ERR, ''query NetIO error on server''),
    (QUERY_DUPLICATE, ''duplicate TaskId sent for the statement''),
    (AEROSPIKE_ERR_UDF_NOT_FOUND, ''UDF does not exist''),
    (AEROSPIKE_ERR_LUA_FILE_NOT_FOUND, ''LUA file does not exist'')]"

definition ResultCode_to_string :: "i32 \<Rightarrow> string" where
  "ResultCode_to_string code =
     (case map_of result_code_arms code of Some msg \<Rightarrow> msg | None \<Rightarrow> ''Unknown Error'')"

section \<open>The exception object\<close>

text \<open>\<^verbatim>\<open>proto::Error\<close>.\<close>
record proto_Error =
  result_code :: i32
  pe_in_doubt :: bool

record AerospikeException =
  message :: string
  exn_code :: i32
  exn_in_doubt :: bool

definition AerospikeException_new :: "string \<Rightarrow> AerospikeException" where
  "AerospikeException_new msg =
     \<lparr>message = msg, exn_code = COMMON_ERROR, exn_in_doubt = False\<rparr>"

text \<open>\<^verbatim>\<open>impl From<&proto::Error> for AerospikeException\<close>.\<close>
definition AerospikeException_from_Error :: "proto_Error \<Rightarrow> AerospikeException" where
  "AerospikeException_from_Error pe =
     \<lparr>message = ResultCode_to_string (result_code pe), exn_code = result_code pe,
      exn_in_doubt = pe_in_doubt pe\<rparr>"

text \<open>The effect type of the client: thrown exception objects and panics.\<close>
type_synonym 'a php = "(AerospikeException, 'a) eff"

section \<open>Lemmas\<close>

lemmas result_code_defs =
  GRPC_ERROR_def BATCH_FAILED_def NO_RESPONSE_def NETWORK_ERROR_def COMMON_ERROR_def
  MAX_RETRIES_EXCEEDED_def MAX_ERROR_RATE_def RACK_NOT_DEFINED_def
  INVALID_CLUSTER_PARTITION_MAP_def SERVER_NOT_AVAILABLE_def
  CLUSTER_NAME_MISMATCH_ERROR_def RECORDSET_CLOSED_def NO_AVAILABLE_CONNECTIONS_TO_NODE_def
  TYPE_NOT_SUPPORTED_def COMMAND_REJECTED_def QUERY_TERMINATED_def SCAN_TERMINATED_def
  INVALID_NODE_ERROR_def PARSE_ERROR_def SERIALIZE_ERROR_def OK_def SERVER_ERROR_def
  KEY_NOT_FOUND_ERROR_def GENERATION_ERROR_def PARAMETER_ERROR_def KEY_EXISTS_ERROR_def
  BIN_EXISTS_ERROR_def CLUSTER_KEY_MISMATCH_def SERVER_MEM_ERROR_def TIMEOUT_def
  ALWAYS_FORBIDDEN_def PARTITION_UNAVAILABLE_def BIN_TYPE_ERROR_def RECORD_TOO_BIG_def
  KEY_BUSY_def SCAN_ABORT_def UNSUPPORTED_FEATURE_def BIN_NOT_FOUND_def DEVICE_OVERLOAD_def
  KEY_MISMATCH_def INVALID_NAMESPACE_def BIN_NAME_TOO_LONG_def FAIL_FORBIDDEN_def
  FAIL_ELEMENT_NOT_FOUND_def FAIL_ELEMENT_EXISTS_def ENTERPRISE_ONLY_def
  OP_NOT_APPLICABLE_def FILTERED_OUT_def LOST_CONFLICT_def QUERY_END_def
  SECURITY_NOT_SUPPORTED_def SECURITY_NOT_ENABLED_def SECURITY_SCHEME_NOT_SUPPORTED_def
  INVALID_COMMAND_def INVALID_FIELD_def ILLEGAL_STATE_def INVALID_USER_def
  USER_ALREADY_EXISTS_def INVALID_PASSWORD_def EXPIRED_PASSWORD_def FORBIDDEN_PASSWORD_def
  INVALID_CREDENTIAL_def EXPIRED_SESSION_def INVALID_ROLE_def ROLE_ALREADY_EXISTS_def
  INVALID_PRIVILEGE_def INVALID_WHITELIST_def QUOTAS_NOT_ENABLED_def INVALID_QUOTA_def
  NOT_AUTHENTICATED_def ROLE_VIOLATION_def NOT_WHITELISTED_def QUOTA_EXCEEDED_def
  UDF_BAD_RESPONSE_def BATCH_DISABLED_def BATCH_MAX_REQUESTS_EXCEEDED_def
  BATCH_QUEUES_FULL_def GEO_INVALID_GEOJSON_def INDEX_FOUND_def INDEX_NOT_FOUND_def
  INDEX_OOM_def INDEX_NOT_READABLE_def INDEX_GENERIC_def INDEX_NAME_MAX_LEN_def
  INDEX_MAX_COUNT_def QUERY_ABORTED_def QUERY_QUEUE_FULL_def QUERY_TIMEOUT_def
  QUERY_GENERIC_def QUERY_NET_IO_ERR_def QUERY_DUPLICATE_def
  AEROSPIKE_ERR_UDF_NOT_FOUND_def AEROSPIKE_ERR_LUA_FILE_NOT_FOUND_def

lemma result_code_arms_distinct: "distinct (map fst result_code_arms)"
  by code_simp

lemma ResultCode_to_string_arm:
  "(c, msg) \<in> set result_code_arms \<Longrightarrow> ResultCode_to_string c = msg"
  using map_of_is_SomeI [OF result_code_arms_distinct] by (simp add: ResultCode_to_string_def)

lemma no_arm_says_unknown: "''Unknown Error'' \<notin> snd ` set result_code_arms"
  by code_simp

lemma ResultCode_to_string_unknown_iff:
  "ResultCode_to_string c = ''Unknown Error'' \<longleftrightarrow> c \<notin> fst ` set result_code_arms"
proof (cases "map_of result_code_arms c")
  case None
  then have "c \<notin> fst ` set result_code_arms" by (simp add: map_of_eq_None_iff)
  with None show ?thesis by (simp add: ResultCode_to_string_def)
next
  case (Some msg)
  then have mem: "(c, msg) \<in> set result_code_arms" by (rule map_of_SomeD)
  then have "msg \<noteq> ''Unknown Error''" using no_arm_says_unknown by force
  with Some mem show ?thesis by (force simp: ResultCode_to_string_def)
qed

lemma exception_from_Error_code [simp]:
  "exn_code (AerospikeException_from_Error pe) = result_code pe"
  "exn_in_doubt (AerospikeException_from_Error pe) = pe_in_doubt pe"
  by (simp_all add: AerospikeException_from_Error_def)

lemma AerospikeException_from_Error_inj:
  "AerospikeException_from_Error a = AerospikeException_from_Error b \<Longrightarrow> a = b"
  by (simp add: AerospikeException_from_Error_def)

end
