(* ===== verification/Values.thy ===== *)
theory Values
  imports Result_Codes
begin

text \<open>
  The value model of \<^verbatim>\<open>src/lib.rs\<close>: \<^verbatim>\<open>PHPValue\<close>, its \<^verbatim>\<open>Eq\<close> and
  \<^verbatim>\<open>Hash\<close>, its particle type and key bytes, the conversions from and to the protobuf
  \<^verbatim>\<open>Value\<close> and from PHP values (\<^verbatim>\<open>Zval\<close>), and the class \<^verbatim>\<open>Value\<close>. The
  lemmas show which values survive the trip through the wire format, that no value the
  client encodes can make its decoder panic, and what conversion from PHP keeps and drops.
\<close>

section \<open>Data\<close>

datatype PHPValue =
    PNil
  | PBool bool
  | PInt i64
  | PUInt u64
  | PFloat f64
  | PString string
  | PBlob bytes
  | PList "PHPValue list"
  | PHashMap "(PHPValue \<times> PHPValue) list"
  | PJson "(string \<times> PHPValue) list"
  | PGeoJSON string
  | PHLL bytes
  | PWildcard
  | PInfinity

text \<open>
  The protobuf \<^verbatim>\<open>Value\<close>: a message with one \<^verbatim>\<open>oneof\<close> field; \<open>V_unset\<close> is the
  message whose field is not set (\<^verbatim>\<open>v: None\<close>). Lists of \<^verbatim>\<open>MapEntry\<close> and
  \<^verbatim>\<open>JsonEntry\<close> messages have optional message fields.
\<close>

datatype proto_Value =
    V_unset
  | V_Nil bool
  | V_I i64
  | V_F f64
  | V_S string
  | V_B bool
  | V_Blob bytes
  | V_L "proto_Value list"
  | V_M "(proto_Value option \<times> proto_Value option) list"
  | V_Json "(string \<times> proto_Value option) list"
  | V_Geo string
  | V_Hll bytes
  | V_Wildcard bool
  | V_Infinity bool

text \<open>PHP values as the extension sees them.\<close>

datatype array_key = LongKey i64 | StringKey string

datatype zobject =
    ObjBLOB bytes | ObjHLL bytes | ObjGeoJSON string | ObjInfinity | ObjWildcard | ObjOther

datatype zval =
    ZUndef
  | ZNull
  | ZFalse
  | ZTrue
  | ZLong i64
  | ZDouble f64
  | ZString bytes
  | ZArray "(array_key \<times> zval) list"
  | ZObject zobject
  | ZOther

text \<open>
  Code of other packages that the client calls, as parameters: the comparison of
  \<^verbatim>\<open>ordered_float::OrderedFloat\<close>, the \<^verbatim>\<open>ripemd160\<close> and \<^verbatim>\<open>hex\<close> crates, and the
  two array predicates of \<^verbatim>\<open>ext_php_rs::types::ZendHashTable\<close>.
\<close>

record externs =
  ordered_float_eq :: "f64 \<Rightarrow> f64 \<Rightarrow> bool"
  ripemd160 :: "bytes \<Rightarrow> bytes"
  hex_encode :: "bytes \<Rightarrow> string"
  has_sequential_keys :: "array_key list \<Rightarrow> bool"
  has_numerical_keys :: "array_key list \<Rightarrow> bool"

text \<open>What the documentation of these packages promises.\<close>

definition externs_ok :: "externs \<Rightarrow> bool" where
  "externs_ok x \<longleftrightarrow>
     equivp (ordered_float_eq x) \<and>
     (\<forall>bs. length (ripemd160 x bs) = 20) \<and>
     (\<forall>bs. length (hex_encode x bs) = 2 * length bs) \<and>
     (\<forall>ks. has_sequential_keys x ks \<longleftrightarrow> ks = map (\<lambda>i. LongKey (of_nat i)) [0..<length ks]) \<and>
     (\<forall>ks. has_numerical_keys x ks \<longleftrightarrow> list_all (\<lambda>k. case k of LongKey _ \<Rightarrow> True | StringKey _ \<Rightarrow> False) ks)"

section \<open>Strings and bytes\<close>

definition as_bytes :: "string \<Rightarrow> bytes" where
  "as_bytes s = map (\<lambda>c. word_of_nat (of_char c)) s"

definition of_bytes :: "bytes \<Rightarrow> string" where
  "of_bytes bs = map (\<lambda>b. char_of (unat b)) bs"

text \<open>A concrete choice of the parameters, for evaluating the definitions.\<close>
definition externs0 :: externs where
  "externs0 = \<lparr>ordered_float_eq = (=), ripemd160 = (\<lambda>bs. take 20 (bs @ replicate 20 0)),
     hex_encode = (\<lambda>bs. replicate (2 * length bs) (CHR ''0'')),
     has_sequential_keys = (\<lambda>ks. ks = map (\<lambda>i. LongKey (of_nat i)) [0..<length ks]),
     has_numerical_keys = list_all (\<lambda>k. case k of LongKey _ \<Rightarrow> True | StringKey _ \<Rightarrow> False)\<rparr>"

definition utf8_cont :: "u8 \<Rightarrow> bool" where
  "utf8_cont b \<longleftrightarrow> 0x80 \<le> b \<and> b \<le> 0xBF"

text \<open>\<^verbatim>\<open>std::str::from_utf8\<close> accepts exactly the well-formed sequences.\<close>
fun utf8_valid :: "bytes \<Rightarrow> bool" where
  "utf8_valid [] = True"
| "utf8_valid (b # bs) =
     (if b < 0x80 then utf8_valid bs
      else if 0xC2 \<le> b \<and> b \<le> 0xDF then
        (case bs of c # r \<Rightarrow> utf8_cont c \<and> utf8_valid r | _ \<Rightarrow> False)
      else if 0xE0 \<le> b \<and> b \<le> 0xEF then
        (case bs of
           c # d # r \<Rightarrow> utf8_cont c \<and> (b = 0xE0 \<longrightarrow> 0xA0 \<le> c) \<and> (b = 0xED \<longrightarrow> c \<le> 0x9F) \<and>
             utf8_cont d \<and> utf8_valid r
         | _ \<Rightarrow> False)
      else if 0xF0 \<le> b \<and> b \<le> 0xF4 then
        (case bs of
           c # d # e # r \<Rightarrow> utf8_cont c \<and> (b = 0xF0 \<longrightarrow> 0x90 \<le> c) \<and> (b = 0xF4 \<longrightarrow> c \<le> 0x8F) \<and>
             utf8_cont d \<and> utf8_cont e \<and> utf8_valid r
         | _ \<Rightarrow> False)
      else False)"

section \<open>Equality and hashing of values\<close>

text \<open>
  \<^verbatim>\<open>#[derive(PartialEq, Eq)]\<close>; two hash maps are equal when they have as many entries
  and every entry of the first is found in the second.
\<close>

fun all_match :: "('a \<Rightarrow> bool) list \<Rightarrow> 'a list \<Rightarrow> bool" where
  "all_match [] [] = True"
| "all_match (p # ps) (y # ys) = (p y \<and> all_match ps ys)"
| "all_match _ _ = False"

text \<open>
  \<^verbatim>\<open>self.iter().all(|(k, v)| other.get(k).map_or(false, |v2| v == v2))\<close>, with the
  comparisons against each key and value of \<^verbatim>\<open>self\<close> given as predicates.
\<close>
definition entries_within :: "(('k \<Rightarrow> bool) \<times> ('v \<Rightarrow> bool)) list \<Rightarrow> ('k \<times> 'v) list \<Rightarrow> bool" where
  "entries_within l r =
     list_all (\<lambda>(is_k, is_v).
       case find (\<lambda>(k', v'). is_k k') r of None \<Rightarrow> False | Some (k', v') \<Rightarrow> is_v v') l"

primrec PHPValue_eq :: "externs \<Rightarrow> PHPValue \<Rightarrow> PHPValue \<Rightarrow> bool" where
  "PHPValue_eq x PNil = (\<lambda>b. b = PNil)"
| "PHPValue_eq x (PBool v) = (\<lambda>b. b = PBool v)"
| "PHPValue_eq x (PInt v) = (\<lambda>b. b = PInt v)"
| "PHPValue_eq x (PUInt v) = (\<lambda>b. b = PUInt v)"
| "PHPValue_eq x (PFloat f) = (\<lambda>b. case b of PFloat g \<Rightarrow> ordered_float_eq x f g | _ \<Rightarrow> False)"
| "PHPValue_eq x (PString v) = (\<lambda>b. b = PString v)"
| "PHPValue_eq x (PBlob v) = (\<lambda>b. b = PBlob v)"
| "PHPValue_eq x (PList l) =
     (\<lambda>b. case b of PList r \<Rightarrow> all_match (map (PHPValue_eq x) l) r | _ \<Rightarrow> False)"
| "PHPValue_eq x (PHashMap l) =
     (\<lambda>b. case b of
        PHashMap r \<Rightarrow> length l = length r \<and>
          entries_within (map (map_prod (PHPValue_eq x) (PHPValue_eq x)) l) r
      | _ \<Rightarrow> False)"
| "PHPValue_eq x (PJson l) =
     (\<lambda>b. case b of
        PJson r \<Rightarrow> length l = length r \<and>
          entries_within (map (map_prod (=) id) (map (map_prod (\<lambda>k. k) (PHPValue_eq x)) l)) r
      | _ \<Rightarrow> False)"
| "PHPValue_eq x (PGeoJSON v) = (\<lambda>b. b = PGeoJSON v)"
| "PHPValue_eq x (PHLL v) = (\<lambda>b. b = PHLL v)"
| "PHPValue_eq x PWildcard = (\<lambda>b. b = PWildcard)"
| "PHPValue_eq x PInfinity = (\<lambda>b. b = PInfinity)"

text \<open>
  \<^verbatim>\<open>impl Hash for PHPValue\<close>: what is fed to the hasher only selects a bucket; the
  exceptions it throws for values that are not meant to be map keys are its effect.
\<close>

fun PHPValue_hash :: "PHPValue \<Rightarrow> AerospikeException list" where
  "PHPValue_hash (PList l) = concat (map PHPValue_hash l)"
| "PHPValue_hash (PHashMap _) = [AerospikeException_new ''HashMaps cannot be used as map keys.'']"
| "PHPValue_hash (PJson _) = [AerospikeException_new ''Jsons cannot be used as map keys.'']"
| "PHPValue_hash PInfinity = [AerospikeException_new ''Infinity cannot be used as map keys.'']"
| "PHPValue_hash PWildcard = [AerospikeException_new ''Infinity cannot be used as map keys.'']"
| "PHPValue_hash _ = []"

text \<open>\<^verbatim>\<open>HashMap<PHPValue, PHPValue>::insert\<close>: hash the key, then insert.\<close>
definition HashMap_insert ::
  "externs \<Rightarrow> PHPValue \<Rightarrow> PHPValue \<Rightarrow> (PHPValue \<times> PHPValue) list \<Rightarrow> (PHPValue \<times> PHPValue) list php" where
  "HashMap_insert x k v h = emit (PHPValue_hash k) (hm_insert (PHPValue_eq x) k v h)"

section \<open>Particle types and key bytes\<close>

fun PHPValue_particle_type :: "PHPValue \<Rightarrow> panic + u32" where
  "PHPValue_particle_type PNil = Inr 0"
| "PHPValue_particle_type (PInt _) = Inr 1"
| "PHPValue_particle_type (PUInt _) = Inr 1"
| "PHPValue_particle_type (PFloat _) = Inr 2"
| "PHPValue_particle_type (PString _) = Inr 3"
| "PHPValue_particle_type (PBlob _) = Inr 4"
| "PHPValue_particle_type (PBool _) = Inr 17"
| "PHPValue_particle_type (PHLL _) = Inr 18"
| "PHPValue_particle_type (PHashMap _) = Inr 19"
| "PHPValue_particle_type (PJson _) = Inr 19"
| "PHPValue_particle_type (PList _) = Inr 20"
| "PHPValue_particle_type (PGeoJSON _) = Inr 23"
| "PHPValue_particle_type PInfinity = Inl Unreachable"
| "PHPValue_particle_type PWildcard = Inl Unreachable"

text \<open>
  \<^verbatim>\<open>write_key_bytes\<close> feeds the digest; the state of a streaming digest is the bytes fed
  so far. \<open>None\<close> is the error return (its text is dropped by the only caller).
\<close>

fun PHPValue_write_key_bytes :: "PHPValue \<Rightarrow> bytes \<Rightarrow> bytes option" where
  "PHPValue_write_key_bytes (PInt val) h = Some (h @ write_i64_be val)"
| "PHPValue_write_key_bytes (PString val) h = Some (h @ as_bytes val)"
| "PHPValue_write_key_bytes (PBlob val) h = Some (h @ val)"
| "PHPValue_write_key_bytes _ h = None"

section \<open>Conversion to the wire\<close>

text \<open>\<^verbatim>\<open>impl From<PHPValue> for proto::Value\<close>.\<close>

primrec Value_from_PHPValue :: "PHPValue \<Rightarrow> proto_Value" where
  "Value_from_PHPValue PNil = V_Nil True"
| "Value_from_PHPValue (PBool b) = V_B b"
| "Value_from_PHPValue (PInt i) = V_I i"
| "Value_from_PHPValue (PUInt ui) = V_I ui"
| "Value_from_PHPValue (PFloat f) = V_F f"
| "Value_from_PHPValue (PString s) = V_S s"
| "Value_from_PHPValue (PBlob b) = V_Blob b"
| "Value_from_PHPValue (PList l) = V_L (map Value_from_PHPValue l)"
| "Value_from_PHPValue (PHashMap h) =
     V_M (map (map_prod Some Some) (map (map_prod Value_from_PHPValue Value_from_PHPValue) h))"
| "Value_from_PHPValue (PJson h) =
     V_Json (map (map_prod (\<lambda>k. k) Some) (map (map_prod (\<lambda>k. k) Value_from_PHPValue) h))"
| "Value_from_PHPValue (PGeoJSON gj) = V_Geo gj"
| "Value_from_PHPValue (PHLL b) = V_Hll b"
| "Value_from_PHPValue PInfinity = V_Infinity True"
| "Value_from_PHPValue PWildcard = V_Wildcard True"

section \<open>Conversion from the wire\<close>

text \<open>
  \<^verbatim>\<open>impl From<proto::Value> for PHPValue\<close>. The three loops of the source run over the
  converted elements in order (each element is its conversion, not yet run) and fill the
  container given as last argument. A map entry without a key is skipped; every other
  missing part panics.
\<close>

fun fill_list :: "'a php list \<Rightarrow> 'a list \<Rightarrow> 'a list php" where
  "fill_list [] nl = ret nl"
| "fill_list (v # l) nl = bnd v (\<lambda>v'. fill_list l (nl @ [v']))"

fun fill_json ::
  "(string \<times> PHPValue php option) list \<Rightarrow> (string \<times> PHPValue) list \<Rightarrow> (string \<times> PHPValue) list php" where
  "fill_json [] arr = ret arr"
| "fill_json ((k, None) # j) arr = panics UnwrapNone"
| "fill_json ((k, Some v) # j) arr = bnd v (\<lambda>v'. fill_json j (hm_insert (=) k v' arr))"

fun fill_map ::
  "externs \<Rightarrow> (PHPValue php option \<times> PHPValue php option) list \<Rightarrow> (PHPValue \<times> PHPValue) list \<Rightarrow>
   (PHPValue \<times> PHPValue) list php" where
  "fill_map x [] arr = ret arr"
| "fill_map x ((None, v) # m) arr = fill_map x m arr"
| "fill_map x ((Some k, v) # m) arr =
     bnd k (\<lambda>k'. bnd (lift_sum (unwrap v)) (\<lambda>v. bnd v (\<lambda>v'.
       bnd (HashMap_insert x k' v' arr) (\<lambda>arr'. fill_map x m arr'))))"

primrec PHPValue_from_Value :: "externs \<Rightarrow> proto_Value \<Rightarrow> PHPValue php" where
  "PHPValue_from_Value x V_unset = panics UnwrapNone"
| "PHPValue_from_Value x (V_Nil n) = ret PNil"
| "PHPValue_from_Value x (V_B b) = ret (PBool b)"
| "PHPValue_from_Value x (V_I i) = ret (PInt i)"
| "PHPValue_from_Value x (V_F f) = ret (PFloat f)"
| "PHPValue_from_Value x (V_S s) = ret (PString s)"
| "PHPValue_from_Value x (V_Blob blob) = ret (PBlob blob)"
| "PHPValue_from_Value x (V_L l) =
     bnd (fill_list (map (PHPValue_from_Value x) l) []) (\<lambda>nl. ret (PList nl))"
| "PHPValue_from_Value x (V_Json j) =
     bnd (fill_json (map (map_prod (\<lambda>k. k) (map_option (PHPValue_from_Value x))) j) [])
       (\<lambda>arr. ret (PJson arr))"
| "PHPValue_from_Value x (V_M m) =
     bnd (fill_map x
           (map (map_prod (map_option (PHPValue_from_Value x)) (map_option (PHPValue_from_Value x))) m)
           [])
       (\<lambda>arr. ret (PHashMap arr))"
| "PHPValue_from_Value x (V_Geo gj) = ret (PGeoJSON gj)"
| "PHPValue_from_Value x (V_Hll b) = ret (PHLL b)"
| "PHPValue_from_Value x (V_Infinity b) = ret PInfinity"
| "PHPValue_from_Value x (V_Wildcard b) = ret PWildcard"

text \<open>\<^verbatim>\<open>impl From<HashMap<String, proto::Value>> for PHPValue\<close>.\<close>

definition PHPValue_from_bins :: "externs \<Rightarrow> (string \<times> proto_Value) list \<Rightarrow> PHPValue php" where
  "PHPValue_from_bins x h =
     bnd (fill_map x (map (\<lambda>(k, v). (Some (ret (PString k)), Some (PHPValue_from_Value x v))) h) [])
       (\<lambda>hash. ret (PHashMap hash))"

section \<open>Conversion from PHP\<close>

text \<open>
  \<^verbatim>\<open>fn from_zval\<close>. The array branches run over the entries with the conversion of each
  value; \<^verbatim>\<open>from_zval(v).unwrap()\<close> (or \<^verbatim>\<open>expect\<close>) panics on \<open>None\<close>.
\<close>

fun zarray_list :: "PHPValue option php list \<Rightarrow> PHPValue list \<Rightarrow> PHPValue list php" where
  "zarray_list [] val_arr = ret val_arr"
| "zarray_list (v # arr) val_arr =
     bnd v (\<lambda>o'. bnd (lift_sum (unwrap o')) (\<lambda>v'. zarray_list arr (val_arr @ [v'])))"

fun zarray_longs ::
  "externs \<Rightarrow> (array_key \<times> PHPValue option php) list \<Rightarrow> (PHPValue \<times> PHPValue) list \<Rightarrow>
   (PHPValue \<times> PHPValue) list php" where
  "zarray_longs x [] h = ret h"
| "zarray_longs x ((LongKey index, v) # arr) h =
     bnd v (\<lambda>o'. bnd (lift_sum (unwrap o')) (\<lambda>v'.
       bnd (HashMap_insert x (PUInt index) v' h) (\<lambda>h'. zarray_longs x arr h')))"
| "zarray_longs x ((StringKey s, v) # arr) h = zarray_longs x arr h"

fun zarray_strings ::
  "externs \<Rightarrow> (array_key \<times> PHPValue option php) list \<Rightarrow> (PHPValue \<times> PHPValue) list \<Rightarrow>
   (PHPValue \<times> PHPValue) list php" where
  "zarray_strings x [] h = ret h"
| "zarray_strings x ((LongKey index, v) # arr) h = zarray_strings x arr h"
| "zarray_strings x ((StringKey s, v) # arr) h =
     bnd v (\<lambda>o'. bnd (lift_sum (unwrap o')) (\<lambda>v'.
       bnd (HashMap_insert x (PString s) v' h) (\<lambda>h'. zarray_strings x arr h')))"

fun from_zobject :: "zobject \<Rightarrow> PHPValue option php" where
  "from_zobject (ObjBLOB v) = ret (Some (PBlob v))"
| "from_zobject (ObjHLL v) = ret (Some (PHLL v))"
| "from_zobject (ObjGeoJSON v) = ret (Some (PGeoJSON v))"
| "from_zobject ObjInfinity = ret (Some PInfinity)"
| "from_zobject ObjWildcard = ret (Some PWildcard)"
| "from_zobject ObjOther =
     bnd (throw_object (AerospikeException_new ''Invalid Object'')) (\<lambda>_. ret None)"

primrec from_zval :: "externs \<Rightarrow> zval \<Rightarrow> PHPValue option php" where
  "from_zval x (ZObject zo) = from_zobject zo"
| "from_zval x ZNull = ret (Some PNil)"
| "from_zval x ZFalse = ret (Some (PBool False))"
| "from_zval x ZTrue = ret (Some (PBool True))"
| "from_zval x (ZLong v) = ret (Some (PInt v))"
| "from_zval x (ZDouble v) = ret (Some (PFloat v))"
| "from_zval x (ZString v) = ret (if utf8_valid v then Some (PString (of_bytes v)) else None)"
| "from_zval x (ZArray arr) =
     (if has_sequential_keys x (map fst arr) then
        bnd (zarray_list (map snd (map (map_prod (\<lambda>k. k) (from_zval x)) arr)) [])
          (\<lambda>l. ret (Some (PList l)))
      else if has_numerical_keys x (map fst arr) then
        bnd (zarray_longs x (map (map_prod (\<lambda>k. k) (from_zval x)) arr) [])
          (\<lambda>h. ret (Some (PHashMap h)))
      else
        bnd (zarray_strings x (map (map_prod (\<lambda>k. k) (from_zval x)) arr) [])
          (\<lambda>h. ret (Some (PHashMap h))))"
| "from_zval x ZUndef = panics Unreachable"
| "from_zval x ZOther = panics Unreachable"

section \<open>The class Value\<close>

definition Value_nil :: PHPValue where "Value_nil = PNil"

definition Value_int :: "i64 \<Rightarrow> PHPValue" where "Value_int val = PInt val"

definition Value_uint :: "u64 \<Rightarrow> PHPValue" where "Value_uint val = PUInt val"

definition Value_float :: "f64 \<Rightarrow> PHPValue" where "Value_float val = PFloat val"

definition Value_bool :: "bool \<Rightarrow> PHPValue" where "Value_bool val = PBool val"

definition Value_string :: "string \<Rightarrow> PHPValue" where "Value_string val = PString val"

definition Value_list :: "PHPValue list \<Rightarrow> PHPValue" where "Value_list val = PList val"

definition Value_map :: "externs \<Rightarrow> zval \<Rightarrow> PHPValue php" where
  "Value_map x val = bnd (from_zval x val) (\<lambda>o'.
     case o' of
       Some (PHashMap hm) \<Rightarrow> ret (PHashMap hm)
     | _ \<Rightarrow> bnd (throw_object (AerospikeException_new ''Invalid value'')) (\<lambda>_. ret PNil))"

text \<open>
  One element of the array given to \<^verbatim>\<open>Value::blob\<close>: its byte, or a thrown exception
  and the byte 0. The message for an integer out of range prints the integer; \<open>show_i64\<close>
  is \<^verbatim>\<open>format!("{}")\<close> of an \<^verbatim>\<open>i64\<close>.
\<close>

fun show_nat :: "nat \<Rightarrow> string" where
  "show_nat n = (if n < 10 then [char_of (48 + n)]
     else show_nat (n div 10) @ [char_of (48 + n mod 10)])"

declare show_nat.simps [simp del]

definition show_i64 :: "i64 \<Rightarrow> string" where
  "show_i64 w = (if sint w < 0 then CHR ''-'' # show_nat (nat (- sint w)) else show_nat (nat (sint w)))"

definition Value_blob_byte :: "PHPValue option \<Rightarrow> u8 php" where
  "Value_blob_byte o' =
     (case o' of
        Some (PInt b) \<Rightarrow>
          (if 0 \<le> sint b \<and> sint b \<le> 255 then ret (ucast b)
           else bnd (throw_object (AerospikeException_new
               (''Invalid value '' @ show_i64 b @
                '' in array for Value::blob. Must be an array of integers [0, 255]''))) (\<lambda>_. ret 0))
      | _ \<Rightarrow> bnd (throw_object (AerospikeException_new
               ''Invalid array for Value::blob. Must be an array of integers [0, 255]'')) (\<lambda>_. ret 0))"

definition Value_blob :: "externs \<Rightarrow> zval \<Rightarrow> (string + PHPValue) php" where
  "Value_blob x z =
     (case z of
        ZString v \<Rightarrow> ret (Inr (PBlob v))
      | ZArray arr \<Rightarrow>
          (if has_sequential_keys x (map fst arr) then
             bnd (fill_list (map (\<lambda>(k, v). bnd (from_zval x v) Value_blob_byte) arr) [])
               (\<lambda>val_arr. ret (Inr (PBlob val_arr)))
           else ret (Inl ''Invalid Array type for Value::blob. Must be an array of integers [0, 255]''))
      | _ \<Rightarrow> ret (Inl ''Invalid Array type for Value::blob. Must be an array of integers [0, 255]''))"

definition Value_geo_json :: "string \<Rightarrow> PHPValue" where "Value_geo_json val = PGeoJSON val"

definition Value_hll :: "bytes \<Rightarrow> PHPValue" where "Value_hll val = PHLL val"

definition Value_json :: "(string \<times> PHPValue) list \<Rightarrow> PHPValue" where "Value_json val = PJson val"

definition Value_infinity :: PHPValue where "Value_infinity = PInfinity"

definition Value_wildcard :: PHPValue where "Value_wildcard = PWildcard"

section \<open>Checks of argument types\<close>

definition assert_map :: "PHPValue \<Rightarrow> bool php" where
  "assert_map val =
     (case val of
        PHashMap _ \<Rightarrow> ret True
      | _ \<Rightarrow> bnd (throw_object (AerospikeException_new ''Invalid type'')) (\<lambda>_. ret False))"

text \<open>\<^verbatim>\<open>find\<close> stops at the first value that is not an HLL value.\<close>
fun assert_hll_list :: "PHPValue list \<Rightarrow> bool php" where
  "assert_hll_list [] = ret True"
| "assert_hll_list (PHLL v # vs) = assert_hll_list vs"
| "assert_hll_list (v # vs) =
     bnd (throw_object (AerospikeException_new ''Invalid type'')) (\<lambda>_. ret False)"

end
