(* ===== verification/Value_Laws.thy ===== *)
theory Value_Laws
  imports Values
begin

text \<open>
  Laws of the value conversions. \<open>wire_form\<close> is what a value looks like after the wire
  format has forgotten the difference between signed and unsigned integers; \<open>wire_stable\<close>
  are the values that the wire format keeps; \<open>complete\<close> are the protobuf messages that the
  decoder accepts.
\<close>

section \<open>Strings and bytes\<close>

lemma as_bytes_inj: "as_bytes a = as_bytes b \<Longrightarrow> a = b"
proof -
  have inj: "inj (\<lambda>c. word_of_nat (of_char c) :: u8)"
  proof (rule injI)
    fix c d :: char
    assume "(word_of_nat (of_char c) :: u8) = word_of_nat (of_char d)"
    then have "unat (word_of_nat (of_char c) :: u8) = unat (word_of_nat (of_char d) :: u8)" by simp
    then have "(of_char c :: nat) = of_char d"
      by (simp add: unat_of_nat)
    then show "c = d" by simp
  qed
  assume "as_bytes a = as_bytes b"
  then show ?thesis using inj_map_eq_map [OF inj] by (simp add: as_bytes_def)
qed

lemma of_bytes_as_bytes: "of_bytes (as_bytes s) = s"
  by (simp add: of_bytes_def as_bytes_def unat_of_nat map_idI)

lemma externs0_ok: "externs_ok externs0"
  by (auto simp: externs_ok_def externs0_def identity_equivp)

section \<open>Decimal numerals\<close>

lemma show_nat_not_Nil [simp]: "show_nat n \<noteq> []"
  by (subst show_nat.simps) simp

lemma show_nat_digits: "c \<in> set (show_nat n) \<Longrightarrow> 48 \<le> (of_char c :: nat) \<and> (of_char c :: nat) < 58"
proof (induction n rule: show_nat.induct)
  case (1 n)
  then show ?case
    by (subst (asm) (2) show_nat.simps) (auto split: if_splits)
qed

text \<open>The value of a decimal numeral.\<close>
definition read_nat :: "string \<Rightarrow> nat" where
  "read_nat s = foldl (\<lambda>n c. 10 * n + (of_char c - 48)) 0 s"

lemma read_nat_show_nat: "read_nat (show_nat n) = n"
proof (induction n rule: show_nat.induct)
  case (1 n)
  then show ?case
    by (subst show_nat.simps) (auto simp: read_nat_def)
qed

lemma show_nat_inj: "show_nat m = show_nat n \<Longrightarrow> m = n"
  by (metis read_nat_show_nat)

lemma show_nat_not_minus: "show_nat m \<noteq> CHR ''-'' # s"
proof
  assume "show_nat m = CHR ''-'' # s"
  then have "CHR ''-'' \<in> set (show_nat m)" by simp
  from show_nat_digits [OF this] show False by simp
qed

lemma show_i64_inj: "show_i64 v = show_i64 w \<Longrightarrow> v = w"
proof -
  assume eq: "show_i64 v = show_i64 w"
  have "sint v = sint w"
    using eq show_nat_not_minus not_sym [OF show_nat_not_minus]
    by (auto simp: show_i64_def dest!: show_nat_inj split: if_splits)
  then show ?thesis by (rule signed_word_eqI)
qed

section \<open>Values that survive the wire\<close>

primrec wire_form :: "PHPValue \<Rightarrow> PHPValue" where
  "wire_form PNil = PNil"
| "wire_form (PBool b) = PBool b"
| "wire_form (PInt i) = PInt i"
| "wire_form (PUInt u) = PInt u"
| "wire_form (PFloat f) = PFloat f"
| "wire_form (PString s) = PString s"
| "wire_form (PBlob b) = PBlob b"
| "wire_form (PList l) = PList (map wire_form l)"
| "wire_form (PHashMap h) = PHashMap (map (map_prod wire_form wire_form) h)"
| "wire_form (PJson h) = PJson (map (map_prod (\<lambda>k. k) wire_form) h)"
| "wire_form (PGeoJSON s) = PGeoJSON s"
| "wire_form (PHLL b) = PHLL b"
| "wire_form PWildcard = PWildcard"
| "wire_form PInfinity = PInfinity"

primrec wire_stable :: "externs \<Rightarrow> PHPValue \<Rightarrow> bool" where
  "wire_stable x PNil = True"
| "wire_stable x (PBool b) = True"
| "wire_stable x (PInt i) = True"
| "wire_stable x (PUInt u) = False"
| "wire_stable x (PFloat f) = True"
| "wire_stable x (PString s) = True"
| "wire_stable x (PBlob b) = True"
| "wire_stable x (PList l) = list_all (\<lambda>b. b) (map (wire_stable x) l)"
| "wire_stable x (PHashMap h) =
     (list_all (\<lambda>(a, b). a \<and> b) (map (map_prod (wire_stable x) (wire_stable x)) h) \<and>
      list_all (\<lambda>(k, v). PHPValue_hash k = []) h \<and> hm_distinct (PHPValue_eq x) h)"
| "wire_stable x (PJson h) =
     (list_all snd (map (map_prod (\<lambda>k. k) (wire_stable x)) h) \<and> hm_distinct (=) h)"
| "wire_stable x (PGeoJSON s) = True"
| "wire_stable x (PHLL b) = True"
| "wire_stable x PWildcard = True"
| "wire_stable x PInfinity = True"

lemma fill_list_ret: "fill_list (map ret l) nl = ret (nl @ l)"
  by (induction l arbitrary: nl) auto

lemma fill_json_ret:
  "hm_distinct (=) (arr @ h) \<Longrightarrow>
    fill_json (map (map_prod (\<lambda>k. k) (\<lambda>v. Some (ret v))) h) arr = ret (arr @ h)"
proof (induction h arbitrary: arr)
  case (Cons e h)
  obtain k v where e: "e = (k, v)" by (cases e)
  have "hm_insert (=) k v arr = arr @ [(k, v)]"
    using Cons.prems by (intro hm_insert_fresh) (auto simp: e hm_distinct_append list_all_iff)
  with Cons show ?case by (simp add: e)
qed simp

lemma fill_map_ret:
  "hm_distinct (PHPValue_eq x) (arr @ h) \<Longrightarrow> list_all (\<lambda>(k, v). PHPValue_hash k = []) h \<Longrightarrow>
    fill_map x (map (map_prod (\<lambda>k. Some (ret k)) (\<lambda>v. Some (ret v))) h) arr = ret (arr @ h)"
proof (induction h arbitrary: arr)
  case (Cons e h)
  obtain k v where e: "e = (k, v)" by (cases e)
  have "hm_insert (PHPValue_eq x) k v arr = arr @ [(k, v)]"
    using Cons.prems by (intro hm_insert_fresh) (auto simp: e hm_distinct_append list_all_iff)
  then have "HashMap_insert x k v arr = ret (arr @ [(k, v)])"
    using Cons.prems by (simp add: e HashMap_insert_def emit_def ret_def)
  with Cons show ?case by (simp add: e)
qed simp

lemma PHPValue_nested_induct
  [case_names Nil Bool Int UInt Float String Blob List HashMap Json GeoJSON HLL Wildcard Infinity]:
  assumes "P PNil" "\<And>b. P (PBool b)" "\<And>i. P (PInt i)" "\<And>u. P (PUInt u)" "\<And>f. P (PFloat f)"
    "\<And>s. P (PString s)" "\<And>b. P (PBlob b)" "\<And>l. (\<And>v. v \<in> set l \<Longrightarrow> P v) \<Longrightarrow> P (PList l)"
    "\<And>h. (\<And>k v. (k, v) \<in> set h \<Longrightarrow> P k \<and> P v) \<Longrightarrow> P (PHashMap h)"
    "\<And>h. (\<And>k v. (k, v) \<in> set h \<Longrightarrow> P v) \<Longrightarrow> P (PJson h)"
    "\<And>s. P (PGeoJSON s)" "\<And>b. P (PHLL b)" "P PWildcard" "P PInfinity"
  shows "P v"
proof (induction v)
  case (PHashMap h)
  then show ?case by (intro assms(9)) force
next
  case (PJson h)
  then show ?case by (intro assms(10)) force
qed (use assms in auto)

lemma Value_from_PHPValue_wire_form: "Value_from_PHPValue (wire_form v) = Value_from_PHPValue v"
  by (induction v rule: PHPValue_nested_induct) (auto simp: map_prod_def)

lemma wire_stable_round_trip:
  "wire_stable x v \<Longrightarrow> PHPValue_from_Value x (Value_from_PHPValue v) = ret v"
proof (induction v rule: PHPValue_nested_induct)
  case (List l)
  then have "map (\<lambda>v. PHPValue_from_Value x (Value_from_PHPValue v)) l = map ret l"
    by (simp add: list_all_iff)
  then show ?case by (simp add: comp_def fill_list_ret del: map_eq_conv)
next
  case (HashMap h)
  then have "map (map_prod (\<lambda>k. Some (PHPValue_from_Value x (Value_from_PHPValue k)))
               (\<lambda>v. Some (PHPValue_from_Value x (Value_from_PHPValue v)))) h =
        map (map_prod (\<lambda>k. Some (ret k)) (\<lambda>v. Some (ret v))) h"
    by (auto simp: list_all_iff map_prod_def)
  with HashMap.prems show ?case
    by (simp add: comp_def map_prod.compositionality fill_map_ret [of x "[]", simplified]
        del: map_eq_conv)
next
  case (Json h)
  then have "map (map_prod (\<lambda>k. k) (\<lambda>v. Some (PHPValue_from_Value x (Value_from_PHPValue v)))) h =
        map (map_prod (\<lambda>k. k) (\<lambda>v. Some (ret v))) h"
    by (auto simp: list_all_iff map_prod_def)
  with Json.prems show ?case
    by (simp add: comp_def map_prod.compositionality fill_json_ret [of "[]", simplified]
        del: map_eq_conv)
qed simp_all

section \<open>Which messages decode\<close>

primrec complete :: "proto_Value \<Rightarrow> bool" where
  "complete V_unset = False"
| "complete (V_Nil b) = True"
| "complete (V_I i) = True"
| "complete (V_F f) = True"
| "complete (V_S s) = True"
| "complete (V_B b) = True"
| "complete (V_Blob b) = True"
| "complete (V_L l) = list_all (\<lambda>b. b) (map complete l)"
| "complete (V_M m) =
     list_all (\<lambda>(k, v). k = None \<or> k = Some True \<and> v = Some True)
       (map (map_prod (map_option complete) (map_option complete)) m)"
| "complete (V_Json j) =
     list_all (\<lambda>(k, v). v = Some True) (map (map_prod (\<lambda>k. k) (map_option complete)) j)"
| "complete (V_Geo s) = True"
| "complete (V_Hll b) = True"
| "complete (V_Wildcard b) = True"
| "complete (V_Infinity b) = True"

lemma proto_Value_nested_induct
  [case_names unset Nil I F S B Blob L M Json Geo Hll Wildcard Infinity]:
  assumes "P V_unset" "\<And>b. P (V_Nil b)" "\<And>i. P (V_I i)" "\<And>f. P (V_F f)" "\<And>s. P (V_S s)"
    "\<And>b. P (V_B b)" "\<And>b. P (V_Blob b)" "\<And>l. (\<And>v. v \<in> set l \<Longrightarrow> P v) \<Longrightarrow> P (V_L l)"
    "\<And>m. (\<And>k v. (Some k, v) \<in> set m \<Longrightarrow> P k) \<Longrightarrow> (\<And>k v. (k, Some v) \<in> set m \<Longrightarrow> P v) \<Longrightarrow> P (V_M m)"
    "\<And>j. (\<And>k v. (k, Some v) \<in> set j \<Longrightarrow> P v) \<Longrightarrow> P (V_Json j)"
    "\<And>s. P (V_Geo s)" "\<And>b. P (V_Hll b)" "\<And>b. P (V_Wildcard b)" "\<And>b. P (V_Infinity b)"
  shows "P p"
proof (induction p)
  case (V_M m)
  then show ?case by (intro assms(9)) force+
next
  case (V_Json j)
  then show ?case by (intro assms(10)) force
qed (use assms in auto)

lemma runs_fill_list: "runs (fill_list l nl) \<longleftrightarrow> list_all runs l"
  by (induction l arbitrary: nl) (simp_all add: runs_bnd_const)

lemma runs_fill_json:
  "runs (fill_json j arr) \<longleftrightarrow> list_all (\<lambda>(k, v). case v of None \<Rightarrow> False | Some m \<Rightarrow> runs m) j"
  by (induction j arr rule: fill_json.induct) (simp_all add: runs_bnd_const)

lemma runs_HashMap_insert [simp]: "runs (HashMap_insert x k v h)"
  by (simp add: HashMap_insert_def)

lemma runs_fill_map:
  "runs (fill_map x m arr) \<longleftrightarrow>
     list_all (\<lambda>(k, v). case k of None \<Rightarrow> True
       | Some mk \<Rightarrow> runs mk \<and> (case v of None \<Rightarrow> False | Some mv \<Rightarrow> runs mv)) m"
proof (induction m arbitrary: arr)
  case (Cons e m)
  obtain k v where e: "e = (k, v)" by (cases e)
  with Cons show ?case
    by (cases k; cases v) (simp_all add: runs_bnd_const)
qed simp

lemma runs_PHPValue_from_Value: "runs (PHPValue_from_Value x p) \<longleftrightarrow> complete p"
proof (induction p rule: proto_Value_nested_induct)
  case (L l)
  then show ?case by (simp add: runs_bnd_total runs_fill_list list_all_iff)
next
  case (M m)
  have "(case map_option (PHPValue_from_Value x) k of None \<Rightarrow> True
       | Some mk \<Rightarrow> runs mk \<and> (case map_option (PHPValue_from_Value x) v of None \<Rightarrow> False | Some mv \<Rightarrow> runs mv))
     \<longleftrightarrow> (k = None \<or> map_option complete k = Some True \<and> map_option complete v = Some True)"
    if "(k, v) \<in> set m" for k v
    using M that by (cases k; cases v) auto
  then show ?case by (force simp: runs_bnd_total runs_fill_map list_all_iff)
next
  case (Json j)
  have "(case map_option (PHPValue_from_Value x) v of None \<Rightarrow> False | Some mv \<Rightarrow> runs mv)
     \<longleftrightarrow> map_option complete v = Some True" if "(k, v) \<in> set j" for k v
    using Json that by (cases v) auto
  then show ?case by (force simp: runs_bnd_total runs_fill_json list_all_iff)
qed simp_all

lemma complete_Value_from_PHPValue: "complete (Value_from_PHPValue v)"
  by (induction v rule: PHPValue_nested_induct) (auto simp: list_all_iff)

section \<open>What the decoder returns\<close>

lemma fill_list_eq_ret: "fill_list l nl = ret r \<longleftrightarrow> (\<exists>vs. l = map ret vs \<and> r = nl @ vs)"
proof (induction l arbitrary: nl)
  case (Cons m l)
  show ?case
    by (auto simp: bnd_eq_ret Cons.IH Cons_eq_map_conv)
qed auto

lemma HashMap_insert_eq_ret:
  "HashMap_insert x k v h = ret h' \<longleftrightarrow> PHPValue_hash k = [] \<and> h' = hm_insert (PHPValue_eq x) k v h"
  by (auto simp: HashMap_insert_def emit_def ret_def)

lemma fill_json_stable:
  assumes "fill_json j arr = ret r" and "hm_distinct (=) arr" and "\<forall>v \<in> snd ` set arr. Q v"
    and "\<forall>(k, m) \<in> set j. \<forall>v. m = Some (ret v) \<longrightarrow> Q v"
  shows "hm_distinct (=) r \<and> (\<forall>v \<in> snd ` set r. Q v)"
  using assms
proof (induction j arr rule: fill_json.induct)
  case (3 k v j arr)
  then obtain w where w: "v = ret w" "fill_json j (hm_insert (=) k w arr) = ret r"
    by (auto simp: bnd_eq_ret)
  have "\<forall>v \<in> snd ` set (hm_insert (=) k w arr). Q v"
    by (rule hm_insert_snd_all) (use "3.prems" w in auto)
  with "3" w show ?case by (auto simp: hm_distinct_insert)
qed auto

lemma fill_map_stable:
  assumes "fill_map x m arr = ret r" and "hm_distinct (PHPValue_eq x) arr"
    and "\<forall>k \<in> fst ` set arr. PHPValue_hash k = [] \<and> Q k" and "\<forall>v \<in> snd ` set arr. Q v"
    and "\<forall>(a, b) \<in> set m. (\<forall>k. a = Some (ret k) \<longrightarrow> Q k) \<and> (\<forall>v. b = Some (ret v) \<longrightarrow> Q v)"
  shows "hm_distinct (PHPValue_eq x) r \<and>
    (\<forall>k \<in> fst ` set r. PHPValue_hash k = [] \<and> Q k) \<and> (\<forall>v \<in> snd ` set r. Q v)"
  using assms
proof (induction x m arr rule: fill_map.induct)
  case (3 x k v m arr)
  then obtain a b where ab: "k = ret a" "v = Some (ret b)" "PHPValue_hash a = []"
      "fill_map x m (hm_insert (PHPValue_eq x) a b arr) = ret r"
    by (auto simp: bnd_eq_ret HashMap_insert_eq_ret)
  have Q: "Q a" "Q b" using "3.prems"(5) ab by auto
  let ?arr = "hm_insert (PHPValue_eq x) a b arr"
  have "\<forall>k \<in> fst ` set ?arr. PHPValue_hash k = [] \<and> Q k"
    by (rule hm_insert_fst_all) (use "3.prems" Q ab in auto)
  moreover have "\<forall>v \<in> snd ` set ?arr. Q v"
    by (rule hm_insert_snd_all) (use "3.prems" Q in auto)
  moreover have "hm_distinct (PHPValue_eq x) ?arr"
    using "3.prems" by (simp add: hm_distinct_insert)
  ultimately show ?case
    using ab "3.prems"(5) by (intro "3.IH") auto
qed auto

lemma decoded_wire_stable: "PHPValue_from_Value x p = ret v \<Longrightarrow> wire_stable x v"
proof (induction p arbitrary: v rule: proto_Value_nested_induct)
  case (L l)
  then obtain vs where vs: "v = PList vs" "map (PHPValue_from_Value x) l = map ret vs"
    by (auto simp: bnd_eq_ret fill_list_eq_ret)
  have "wire_stable x w" if "w \<in> set vs" for w
  proof -
    have "ret w \<in> set (map (PHPValue_from_Value x) l)" using vs(2) that by simp
    then show ?thesis using L.IH by force
  qed
  then show ?case using vs by (simp add: list_all_iff)
next
  case (M m)
  then obtain r where r: "v = PHashMap r"
    "fill_map x (map (map_prod (map_option (PHPValue_from_Value x)) (map_option (PHPValue_from_Value x))) m) [] = ret r"
    by (auto simp: bnd_eq_ret)
  have "hm_distinct (PHPValue_eq x) r \<and> (\<forall>k \<in> fst ` set r. PHPValue_hash k = [] \<and> wire_stable x k) \<and>
      (\<forall>v \<in> snd ` set r. wire_stable x v)"
    by (rule fill_map_stable [OF r(2)]) (use M.IH in auto)
  with r show ?case by (auto simp: list_all_iff)
next
  case (Json j)
  then obtain r where r: "v = PJson r"
    "fill_json (map (map_prod (\<lambda>k. k) (map_option (PHPValue_from_Value x))) j) [] = ret r"
    by (auto simp: bnd_eq_ret)
  have "hm_distinct (=) r \<and> (\<forall>v \<in> snd ` set r. wire_stable x v)"
    by (rule fill_json_stable [OF r(2)]) (use Json.IH in auto)
  with r show ?case by (auto simp: list_all_iff)
qed auto

section \<open>Values that come from PHP\<close>

lemma zval_nested_induct
  [case_names Undef Null False True Long Double String Array Object Other]:
  assumes "P ZUndef" "P ZNull" "P ZFalse" "P ZTrue" "\<And>v. P (ZLong v)" "\<And>v. P (ZDouble v)"
    "\<And>v. P (ZString v)" "\<And>arr. (\<And>k v. (k, v) \<in> set arr \<Longrightarrow> P v) \<Longrightarrow> P (ZArray arr)"
    "\<And>zo. P (ZObject zo)" "P ZOther"
  shows "P z"
proof (induction z)
  case (ZArray arr)
  then show ?case by (intro assms(8)) force
qed (use assms in auto)

lemma outcome_HashMap_insert [simp]:
  "outcome (HashMap_insert x k v h) = Inr h' \<longleftrightarrow> h' = hm_insert (PHPValue_eq x) k v h"
  by (auto simp: HashMap_insert_def)

lemma zarray_list_all:
  assumes "outcome (zarray_list arr acc) = Inr r" and "\<forall>v \<in> set acc. Q v"
    and "\<forall>m \<in> set arr. \<forall>v. outcome m = Inr (Some v) \<longrightarrow> Q v"
  shows "\<forall>v \<in> set r. Q v"
  using assms
proof (induction arr acc rule: zarray_list.induct)
  case (2 v arr acc)
  then obtain w where w: "outcome v = Inr (Some w)" "outcome (zarray_list arr (acc @ [w])) = Inr r"
    by (auto simp: outcome_bnd_Inr)
  show ?case
    by (rule "2.IH") (use w "2.prems" in auto)
qed auto

lemma zarray_longs_all:
  assumes "outcome (zarray_longs x arr h) = Inr r" and "\<forall>v \<in> snd ` set h. Q v"
    and "\<forall>k \<in> fst ` set h. k \<in> range PUInt" and "hm_distinct (PHPValue_eq x) h"
    and "\<forall>(k, m) \<in> set arr. \<forall>v. outcome m = Inr (Some v) \<longrightarrow> Q v"
  shows "(\<forall>v \<in> snd ` set r. Q v) \<and> (\<forall>k \<in> fst ` set r. k \<in> range PUInt) \<and> hm_distinct (PHPValue_eq x) r"
  using assms
proof (induction x arr h rule: zarray_longs.induct)
  case (2 x index v arr h)
  then obtain w where w: "outcome v = Inr (Some w)"
      "outcome (zarray_longs x arr (hm_insert (PHPValue_eq x) (PUInt index) w h)) = Inr r"
    by (auto simp: outcome_bnd_Inr)
  have "Q w" using w "2.prems"(5) by auto
  show ?case
    by (rule "2.IH" [OF w(2) hm_insert_snd_all hm_insert_fst_all hm_distinct_insert])
      (use w \<open>Q w\<close> "2.prems" in auto)
qed auto

lemma zarray_strings_all:
  assumes "outcome (zarray_strings x arr h) = Inr r" and "\<forall>v \<in> snd ` set h. Q v"
    and "\<forall>k \<in> fst ` set h. k \<in> range PString" and "hm_distinct (PHPValue_eq x) h"
    and "\<forall>(k, m) \<in> set arr. \<forall>v. outcome m = Inr (Some v) \<longrightarrow> Q v"
  shows "(\<forall>v \<in> snd ` set r. Q v) \<and> (\<forall>k \<in> fst ` set r. k \<in> range PString) \<and> hm_distinct (PHPValue_eq x) r"
  using assms
proof (induction x arr h rule: zarray_strings.induct)
  case (3 x s v arr h)
  then obtain w where w: "outcome v = Inr (Some w)"
      "outcome (zarray_strings x arr (hm_insert (PHPValue_eq x) (PString s) w h)) = Inr r"
    by (auto simp: outcome_bnd_Inr)
  have "Q w" using w "3.prems"(5) by auto
  show ?case
    by (rule "3.IH" [OF w(2) hm_insert_snd_all hm_insert_fst_all hm_distinct_insert])
      (use w \<open>Q w\<close> "3.prems" in auto)
qed auto

lemma wire_stable_map:
  assumes "\<forall>v \<in> snd ` set h. wire_stable x (wire_form v)" and "hm_distinct (PHPValue_eq x) h"
    and "(\<forall>k \<in> fst ` set h. k \<in> range PUInt) \<or> (\<forall>k \<in> fst ` set h. k \<in> range PString)"
  shows "wire_stable x (wire_form (PHashMap h))"
proof -
  have keys: "\<forall>k \<in> fst ` set h. wire_stable x (wire_form k) \<and> PHPValue_hash (wire_form k) = []"
    using assms(3) by auto
  have "hm_distinct (PHPValue_eq x) (map (map_prod wire_form wire_form) h)"
    using assms(3)
  proof
    assume "\<forall>k \<in> fst ` set h. k \<in> range PUInt"
    then show ?thesis by (rule hm_distinct_keys [OF assms(2)]) auto
  next
    assume "\<forall>k \<in> fst ` set h. k \<in> range PString"
    then show ?thesis by (rule hm_distinct_keys [OF assms(2)]) auto
  qed
  with assms(1) keys show ?thesis by (force simp: list_all_iff)
qed

lemma from_zval_wire_stable:
  "outcome (from_zval x z) = Inr (Some w) \<Longrightarrow> wire_stable x (wire_form w)"
proof (induction z arbitrary: w rule: zval_nested_induct)
  case (Array arr)
  let ?conv = "map (map_prod (\<lambda>k. k) (from_zval x)) arr"
  have elems: "\<forall>(k, m) \<in> set ?conv. \<forall>v. outcome m = Inr (Some v) \<longrightarrow> wire_stable x (wire_form v)"
    using Array.IH by auto
  consider (list) l where "w = PList l" "outcome (zarray_list (map snd ?conv) []) = Inr l"
    | (longs) h where "w = PHashMap h" "outcome (zarray_longs x ?conv []) = Inr h"
    | (strings) h where "w = PHashMap h" "outcome (zarray_strings x ?conv []) = Inr h"
    using Array.prems by (auto simp: outcome_bnd_Inr split: if_splits)
  then show ?case
  proof cases
    case list
    have "\<forall>v \<in> set l. wire_stable x (wire_form v)"
      by (rule zarray_list_all [OF list(2)]) (use elems in auto)
    with list show ?thesis by (simp add: list_all_iff)
  next
    case longs
    have "wire_stable x (wire_form (PHashMap h))"
      by (rule wire_stable_map) (use zarray_longs_all [OF longs(2) _ _ _ elems] in auto)
    with longs(1) show ?thesis by simp
  next
    case strings
    have "wire_stable x (wire_form (PHashMap h))"
      by (rule wire_stable_map) (use zarray_strings_all [OF strings(2) _ _ _ elems] in auto)
    with strings(1) show ?thesis by simp
  qed
next
  case (Object zo)
  then show ?case by (cases zo) auto
qed (auto split: if_splits)

lemma zarray_strings_keys:
  assumes "outcome (zarray_strings x arr h) = Inr r"
  shows "fst ` set r = fst ` set h \<union> {PString s | s. StringKey s \<in> fst ` set arr}"
  using assms
proof (induction x arr h rule: zarray_strings.induct)
  case (3 x s v arr h)
  have ins: "fst ` set (hm_insert (PHPValue_eq x) (PString s) w h) = insert (PString s) (fst ` set h)" for w
    unfolding set_map [symmetric] map_fst_hm_insert by (auto simp: list_ex_iff)
  from "3.prems" obtain w where w: "outcome v = Inr (Some w)"
      "outcome (zarray_strings x arr (hm_insert (PHPValue_eq x) (PString s) w h)) = Inr r"
    by (auto simp: outcome_bnd_Inr)
  have "fst ` set r = fst ` set (hm_insert (PHPValue_eq x) (PString s) w h) \<union>
      {PString s | s. StringKey s \<in> fst ` set arr}"
    by (rule "3.IH" [OF w(2)])
  then show ?case by (auto simp: ins)
qed auto

section \<open>Maps keyed by values\<close>

text \<open>Keys without floats inside: the comparison is equality on them.\<close>

primrec plain_key :: "PHPValue \<Rightarrow> bool" where
  "plain_key PNil = True"
| "plain_key (PBool b) = True"
| "plain_key (PInt i) = True"
| "plain_key (PUInt u) = True"
| "plain_key (PFloat f) = False"
| "plain_key (PString s) = True"
| "plain_key (PBlob b) = True"
| "plain_key (PList l) = list_all (\<lambda>b. b) (map plain_key l)"
| "plain_key (PHashMap h) = False"
| "plain_key (PJson h) = False"
| "plain_key (PGeoJSON s) = True"
| "plain_key (PHLL b) = True"
| "plain_key PWildcard = False"
| "plain_key PInfinity = False"

lemma all_match_eq: "(\<And>a. a \<in> set l \<Longrightarrow> f a = (\<lambda>b. b = a)) \<Longrightarrow> all_match (map f l) r \<longleftrightarrow> r = l"
proof (induction l arbitrary: r)
  case Nil
  then show ?case by (cases r) auto
next
  case (Cons a l)
  then show ?case by (cases r) auto
qed

lemma PHPValue_eq_plain: "plain_key a \<Longrightarrow> PHPValue_eq x a = (\<lambda>b. b = a)"
proof (induction a rule: PHPValue_nested_induct)
  case (List l)
  then have "all_match (map (PHPValue_eq x) l) r \<longleftrightarrow> r = l" for r
    by (intro all_match_eq) (auto simp: list_all_iff)
  then show ?case by (auto simp: fun_eq_iff split: PHPValue.splits)
qed auto

interpretation php_map: entry_map "PHPValue_eq x" plain_key for x
  by unfold_locales (auto simp: PHPValue_eq_plain)

section \<open>Properties\<close>

text \<open>C3. The wire format of values loses nothing but the sign of integers: when the client decodes a
  message that the client itself encoded, it gets the same value, with unsigned integers read
  as signed ones of the same bits, and throws nothing. The condition asks that map keys are
  values meant as keys and stay different. This is about the two conversions of the client;
  the conversions of the manager between them have narrower domains, which have theorems of
  their own.\<close>
theorem value_wire_round_trip:
  "wire_stable x (wire_form v) \<Longrightarrow> PHPValue_from_Value x (Value_from_PHPValue v) = ret (wire_form v)"
  using wire_stable_round_trip [of x "wire_form v"] by (simp add: Value_from_PHPValue_wire_form)

theorem value_wire_round_trip_witness:
  "let v = PHashMap [(PUInt 7, PList [PString ''a'', PUInt 18446744073709551615]), (PString ''k'', PNil)] in
   wire_stable externs0 (wire_form v) \<and>
   PHPValue_from_Value externs0 (Value_from_PHPValue v) =
     ret (PHashMap [(PInt 7, PList [PString ''a'', PInt (- 1)]), (PString ''k'', PNil)])"
  using value_wire_round_trip [of externs0
      "PHashMap [(PUInt 7, PList [PString ''a'', PUInt 18446744073709551615]), (PString ''k'', PNil)]"]
  by simp

text \<open>C33. Decoding returns without a panic exactly for the messages in which no needed part is
  missing, and every message the client encodes is one of them.\<close>

theorem decode_total_iff_complete:
  "((\<exists>v. outcome (PHPValue_from_Value x p) = Inr v) \<longleftrightarrow> complete p) \<and>
   (\<exists>v. outcome (PHPValue_from_Value x (Value_from_PHPValue w)) = Inr v)"
  using runs_PHPValue_from_Value [of x] complete_Value_from_PHPValue [of w] by (simp add: runs_def)

text \<open>What the decoder returns without throwing is a fixed point of the wire format: sent
  again it comes back unchanged.\<close>

lemma decoded_value_resend:
  "PHPValue_from_Value x p = ret v \<Longrightarrow> PHPValue_from_Value x (Value_from_PHPValue v) = ret v"
  by (rule wire_stable_round_trip [OF decoded_wire_stable])

theorem decoded_value_resend_witness:
  "let p = V_M [(Some (V_S ''a''), Some (V_I 1)), (None, None), (Some (V_S ''a''), Some (V_L [V_B True]))];
       v = PHashMap [(PString ''a'', PList [PBool True])] in
   PHPValue_from_Value externs0 p = ret v \<and> PHPValue_from_Value externs0 (Value_from_PHPValue v) = ret v"
proof -
  have "PHPValue_from_Value externs0 (V_M [(Some (V_S ''a''), Some (V_I 1)), (None, None),
      (Some (V_S ''a''), Some (V_L [V_B True]))]) = ret (PHashMap [(PString ''a'', PList [PBool True])])"
    by (simp add: HashMap_insert_def)
  with decoded_value_resend [OF this] show ?thesis by (simp add: Let_def)
qed

text \<open>C5. Every value that the extension accepts from PHP (scalars, nested arrays, value
  objects) is carried by the wire format: what comes back is the value with its unsigned
  keys read as signed integers.\<close>

theorem php_value_wire_round_trip:
  "outcome (from_zval x z) = Inr (Some v) \<Longrightarrow>
    PHPValue_from_Value x (Value_from_PHPValue v) = ret (wire_form v)"
  using wire_stable_round_trip [OF from_zval_wire_stable] by (simp add: Value_from_PHPValue_wire_form)

theorem php_value_wire_round_trip_witness:
  "let z = ZArray [(LongKey 5, ZTrue), (LongKey 9, ZArray [(LongKey 0, ZLong 3)])];
       v = PHashMap [(PUInt 5, PBool True), (PUInt 9, PList [PInt 3])] in
   outcome (from_zval externs0 z) = Inr (Some v) \<and>
   PHPValue_from_Value externs0 (Value_from_PHPValue v) =
     ret (PHashMap [(PInt 5, PBool True), (PInt 9, PList [PInt 3])])"
proof -
  have "outcome (from_zval externs0 (ZArray [(LongKey 5, ZTrue), (LongKey 9, ZArray [(LongKey 0, ZLong 3)])]))
      = Inr (Some (PHashMap [(PUInt 5, PBool True), (PUInt 9, PList [PInt 3])]))"
    by (simp add: externs0_def HashMap_insert_def)
  with php_value_wire_round_trip [OF this] show ?thesis by (simp add: Let_def)
qed

text \<open>A PHP array with both string and integer keys becomes a map with exactly its string
  keys: the entries with integer keys are dropped without an error.\<close>

lemma mixed_array_drops_integer_keys:
  assumes "\<not> has_sequential_keys x (map fst arr)" and "\<not> has_numerical_keys x (map fst arr)"
    and "outcome (from_zval x (ZArray arr)) = Inr (Some v)"
  shows "\<exists>h. v = PHashMap h \<and> fst ` set h = {PString s | s. StringKey s \<in> fst ` set arr}"
proof -
  obtain h where h: "v = PHashMap h"
    "outcome (zarray_strings x (map (map_prod (\<lambda>k. k) (from_zval x)) arr) []) = Inr h"
    using assms by (auto simp: outcome_bnd_Inr)
  then show ?thesis using zarray_strings_keys [OF h(2)] by (simp add: image_image)
qed

theorem mixed_array_drops_integer_keys_witness:
  "let arr = [(StringKey ''a'', ZLong 1), (LongKey 5, ZLong 2)]; h = [(PString ''a'', PInt 1)] in
   outcome (from_zval externs0 (ZArray arr)) = Inr (Some (PHashMap h)) \<and>
   (\<exists>h'. PHashMap h = PHashMap h' \<and> fst ` set h' = {PString s | s. StringKey s \<in> fst ` set arr})"
proof -
  let ?arr = "[(StringKey ''a'', ZLong 1), (LongKey 5, ZLong 2)]"
  have seq: "\<not> has_sequential_keys externs0 (map fst ?arr)"
    and num: "\<not> has_numerical_keys externs0 (map fst ?arr)"
    by (simp_all add: externs0_def)
  have out: "outcome (from_zval externs0 (ZArray ?arr)) = Inr (Some (PHashMap [(PString ''a'', PInt 1)]))"
    by (simp add: externs0_def HashMap_insert_def)
  show ?thesis using mixed_array_drops_integer_keys [OF seq num out] out by (simp only: Let_def)
qed

end
