(* ===== verification/Enums.thy ===== *)
theory Enums
  imports Values
begin

text \<open>
  The enumeration classes of \<^verbatim>\<open>src/lib.rs\<close> and their numbers on the wire. A PHP class
  such as \<^verbatim>\<open>ReadModeAP\<close> wraps one value of a protobuf enum and has one static function
  per value; the datatype has one constructor for each of these functions. A message stores
  an enum as an \<^verbatim>\<open>i32\<close> with the number the \<^verbatim>\<open>.proto\<close> file gives
  (\<open>\<dots>_into_i32\<close>); the policy classes read it back with a \<^verbatim>\<open>match\<close> that ends in
  \<^verbatim>\<open>unreachable!()\<close> (\<open>\<dots>_from_i32\<close>). Each pair is an instance of the locale
  \<open>enum_codec\<close>. Expirations, concurrency levels and the nested-element contexts of the
  collection operations have their own encodings and laws.
\<close>

section \<open>Enums with a number\<close>

datatype ReadModeAP = AP_One | AP_All

datatype ReadModeSC = SC_Session | SC_Linearize | SC_AllowReplica | SC_AllowUnavailable

datatype RecordExistsAction =
  REA_Update | REA_UpdateOnly | REA_Replace | REA_ReplaceOnly | REA_CreateOnly

datatype QueryDuration = QD_Long | QD_Short | QD_LongRelaxAP

datatype CommitLevel = CL_CommitAll | CL_CommitMaster

datatype ConsistencyLevel = ConsistencyOne | ConsistencyAll

datatype GenerationPolicy = GP_None | GP_ExpectGenEqual | GP_ExpectGenGt

datatype ListOrderType = LO_Unordered | LO_Ordered

datatype MapOrderType = MO_Unordered | MO_KeyOrdered | MO_KeyValueOrdered

datatype IndexCollectionType = ICT_Default | ICT_List | ICT_MapKeys | ICT_MapValues

datatype IndexType = IT_Numeric | IT_String | IT_Blob | IT_Geo2DSphere

datatype UdfLanguage = Lua

datatype ExpType =
    ET_Nil | ET_Bool | ET_Int | ET_String | ET_List | ET_Map | ET_Blob | ET_Float | ET_Geo | ET_Hll

datatype ParticleType =
    PT_Null | PT_Integer | PT_Float | PT_String | PT_Blob | PT_Digest | PT_Bool | PT_Hll | PT_Map
  | PT_List | PT_Ldt | PT_GeoJson

fun ReadModeAP_into_i32 :: "ReadModeAP \<Rightarrow> i32" where
  "ReadModeAP_into_i32 AP_One = 0"
| "ReadModeAP_into_i32 AP_All = 1"

definition ReadModeAP_from_i32 :: "i32 \<Rightarrow> panic + ReadModeAP" where
  "ReadModeAP_from_i32 v = (if v = 0 then Inr AP_One else if v = 1 then Inr AP_All else Inl Unreachable)"

fun ReadModeSC_into_i32 :: "ReadModeSC \<Rightarrow> i32" where
  "ReadModeSC_into_i32 SC_Session = 0"
| "ReadModeSC_into_i32 SC_Linearize = 1"
| "ReadModeSC_into_i32 SC_AllowReplica = 2"
| "ReadModeSC_into_i32 SC_AllowUnavailable = 3"

definition ReadModeSC_from_i32 :: "i32 \<Rightarrow> panic + ReadModeSC" where
  "ReadModeSC_from_i32 v =
     (if v = 0 then Inr SC_Session else if v = 1 then Inr SC_Linearize
      else if v = 2 then Inr SC_AllowReplica else if v = 3 then Inr SC_AllowUnavailable
      else Inl Unreachable)"

fun RecordExistsAction_into_i32 :: "RecordExistsAction \<Rightarrow> i32" where
  "RecordExistsAction_into_i32 REA_Update = 0"
| "RecordExistsAction_into_i32 REA_UpdateOnly = 1"
| "RecordExistsAction_into_i32 REA_Replace = 2"
| "RecordExistsAction_into_i32 REA_ReplaceOnly = 3"
| "RecordExistsAction_into_i32 REA_CreateOnly = 4"

definition RecordExistsAction_from_i32 :: "i32 \<Rightarrow> panic + RecordExistsAction" where
  "RecordExistsAction_from_i32 v =
     (if v = 0 then Inr REA_Update else if v = 1 then Inr REA_UpdateOnly
      else if v = 2 then Inr REA_Replace else if v = 3 then Inr REA_ReplaceOnly
      else if v = 4 then Inr REA_CreateOnly else Inl Unreachable)"

fun QueryDuration_into_i32 :: "QueryDuration \<Rightarrow> i32" where
  "QueryDuration_into_i32 QD_Long = 0"
| "QueryDuration_into_i32 QD_Short = 1"
| "QueryDuration_into_i32 QD_LongRelaxAP = 2"

definition QueryDuration_from_i32 :: "i32 \<Rightarrow> panic + QueryDuration" where
  "QueryDuration_from_i32 v =
     (if v = 0 then Inr QD_Long else if v = 1 then Inr QD_Short
      else if v = 2 then Inr QD_LongRelaxAP else Inl Unreachable)"

fun CommitLevel_into_i32 :: "CommitLevel \<Rightarrow> i32" where
  "CommitLevel_into_i32 CL_CommitAll = 0"
| "CommitLevel_into_i32 CL_CommitMaster = 1"

definition CommitLevel_from_i32 :: "i32 \<Rightarrow> panic + CommitLevel" where
  "CommitLevel_from_i32 v =
     (if v = 0 then Inr CL_CommitAll else if v = 1 then Inr CL_CommitMaster else Inl Unreachable)"

fun GenerationPolicy_into_i32 :: "GenerationPolicy \<Rightarrow> i32" where
  "GenerationPolicy_into_i32 GP_None = 0"
| "GenerationPolicy_into_i32 GP_ExpectGenEqual = 1"
| "GenerationPolicy_into_i32 GP_ExpectGenGt = 2"

definition GenerationPolicy_from_i32 :: "i32 \<Rightarrow> panic + GenerationPolicy" where
  "GenerationPolicy_from_i32 v =
     (if v = 0 then Inr GP_None else if v = 1 then Inr GP_ExpectGenEqual
      else if v = 2 then Inr GP_ExpectGenGt else Inl Unreachable)"

fun UdfLanguage_into_i32 :: "UdfLanguage \<Rightarrow> i32" where
  "UdfLanguage_into_i32 Lua = 0"

definition UdfLanguage_from_i32 :: "i32 \<Rightarrow> panic + UdfLanguage" where
  "UdfLanguage_from_i32 v = (if v = 0 then Inr Lua else Inl Unreachable)"

fun ExpType_into_i32 :: "ExpType \<Rightarrow> i32" where
  "ExpType_into_i32 ET_Nil = 0"
| "ExpType_into_i32 ET_Bool = 1"
| "ExpType_into_i32 ET_Int = 2"
| "ExpType_into_i32 ET_String = 3"
| "ExpType_into_i32 ET_List = 4"
| "ExpType_into_i32 ET_Map = 5"
| "ExpType_into_i32 ET_Blob = 6"
| "ExpType_into_i32 ET_Float = 7"
| "ExpType_into_i32 ET_Geo = 8"
| "ExpType_into_i32 ET_Hll = 9"

fun ParticleType_into_i64 :: "ParticleType \<Rightarrow> i64" where
  "ParticleType_into_i64 PT_Null = 0"
| "ParticleType_into_i64 PT_Integer = 1"
| "ParticleType_into_i64 PT_Float = 2"
| "ParticleType_into_i64 PT_String = 3"
| "ParticleType_into_i64 PT_Blob = 4"
| "ParticleType_into_i64 PT_Digest = 6"
| "ParticleType_into_i64 PT_Bool = 17"
| "ParticleType_into_i64 PT_Hll = 18"
| "ParticleType_into_i64 PT_Map = 19"
| "ParticleType_into_i64 PT_List = 20"
| "ParticleType_into_i64 PT_Ldt = 21"
| "ParticleType_into_i64 PT_GeoJson = 23"

text \<open>Numbers of the enums that the client only writes.\<close>

fun ListOrderType_into_i32 :: "ListOrderType \<Rightarrow> i32" where
  "ListOrderType_into_i32 LO_Unordered = 0"
| "ListOrderType_into_i32 LO_Ordered = 1"

fun MapOrderType_into_i32 :: "MapOrderType \<Rightarrow> i32" where
  "MapOrderType_into_i32 MO_Unordered = 0"
| "MapOrderType_into_i32 MO_KeyOrdered = 1"
| "MapOrderType_into_i32 MO_KeyValueOrdered = 2"

fun IndexCollectionType_into_i32 :: "IndexCollectionType \<Rightarrow> i32" where
  "IndexCollectionType_into_i32 ICT_Default = 0"
| "IndexCollectionType_into_i32 ICT_List = 1"
| "IndexCollectionType_into_i32 ICT_MapKeys = 2"
| "IndexCollectionType_into_i32 ICT_MapValues = 3"

fun IndexType_into_i32 :: "IndexType \<Rightarrow> i32" where
  "IndexType_into_i32 IT_Numeric = 0"
| "IndexType_into_i32 IT_String = 1"
| "IndexType_into_i32 IT_Blob = 2"
| "IndexType_into_i32 IT_Geo2DSphere = 3"

section \<open>Expiration and concurrency\<close>

definition NAMESPACE_DEFAULT :: u32 where "NAMESPACE_DEFAULT = 0x00000000"

definition NEVER_EXPIRE :: u32 where "NEVER_EXPIRE = 0xFFFFFFFF"

definition DONT_UPDATE :: u32 where "DONT_UPDATE = 0xFFFFFFFE"

datatype Expiration = Seconds u32 | NamespaceDefault | Never | DontUpdate

fun Expiration_get_ttl :: "Expiration \<Rightarrow> u32 option" where
  "Expiration_get_ttl (Seconds secs) = Some secs"
| "Expiration_get_ttl _ = None"

definition Expiration_Never :: Expiration where
  "Expiration_Never = Never"

definition Expiration_Dont_Update :: Expiration where
  "Expiration_Dont_Update = DontUpdate"

definition Expiration_is_namespace_default :: "Expiration \<Rightarrow> bool" where
  "Expiration_is_namespace_default e \<longleftrightarrow> e = NamespaceDefault"

definition Expiration_will_never_expire :: "Expiration \<Rightarrow> bool" where
  "Expiration_will_never_expire e \<longleftrightarrow> e = Never"

definition Expiration_will_update_expiration :: "Expiration \<Rightarrow> bool" where
  "Expiration_will_update_expiration e \<longleftrightarrow> e \<noteq> DontUpdate"

fun Expiration_into_u32 :: "Expiration \<Rightarrow> u32" where
  "Expiration_into_u32 (Seconds secs) = secs"
| "Expiration_into_u32 NamespaceDefault = NAMESPACE_DEFAULT"
| "Expiration_into_u32 Never = NEVER_EXPIRE"
| "Expiration_into_u32 DontUpdate = DONT_UPDATE"

definition Expiration_from_u32 :: "u32 \<Rightarrow> Expiration" where
  "Expiration_from_u32 exp =
     (if exp = NAMESPACE_DEFAULT then NamespaceDefault
      else if exp = NEVER_EXPIRE then Never
      else if exp = DONT_UPDATE then DontUpdate
      else Seconds exp)"

datatype Concurrency = Sequential | Parallel | MaxThreads u32

fun Concurrency_into_u32 :: "Concurrency \<Rightarrow> u32" where
  "Concurrency_into_u32 Sequential = 1"
| "Concurrency_into_u32 Parallel = 0"
| "Concurrency_into_u32 (MaxThreads threads) = threads"

section \<open>Contexts of nested collection elements\<close>

datatype CDTContextType =
    CTX_ListIndex | CTX_ListRank | CTX_ListValue | CTX_MapIndex | CTX_MapRank | CTX_MapKey
  | CTX_MapValue

fun CDTContextType_as_i32 :: "CDTContextType \<Rightarrow> i32" where
  "CDTContextType_as_i32 CTX_ListIndex = 0x10"
| "CDTContextType_as_i32 CTX_ListRank = 0x11"
| "CDTContextType_as_i32 CTX_ListValue = 0x13"
| "CDTContextType_as_i32 CTX_MapIndex = 0x20"
| "CDTContextType_as_i32 CTX_MapRank = 0x21"
| "CDTContextType_as_i32 CTX_MapKey = 0x22"
| "CDTContextType_as_i32 CTX_MapValue = 0x23"

text \<open>\<^verbatim>\<open>proto::CdtContext\<close>.\<close>
record CDTContext =
  ctx_id :: i32
  ctx_value :: "proto_Value option"

definition CDTContext_construct :: CDTContext where
  "CDTContext_construct = \<lparr>ctx_id = 0, ctx_value = None\<rparr>"

fun ListOrderType_flag :: "ListOrderType \<Rightarrow> i32" where
  "ListOrderType_flag LO_Unordered = 0"
| "ListOrderType_flag LO_Ordered = 1"

fun MapOrderType_attr :: "MapOrderType \<Rightarrow> i32" where
  "MapOrderType_attr MO_Unordered = 0"
| "MapOrderType_attr MO_KeyOrdered = 1"
| "MapOrderType_attr MO_KeyValueOrdered = 3"

fun MapOrderType_flag :: "MapOrderType \<Rightarrow> i32" where
  "MapOrderType_flag MO_Unordered = 0x40"
| "MapOrderType_flag MO_KeyOrdered = 0x80"
| "MapOrderType_flag MO_KeyValueOrdered = 0xc0"

definition list_order_flag :: "ListOrderType \<Rightarrow> bool \<Rightarrow> i32" where
  "list_order_flag order pad =
     (if ListOrderType_flag order = 1 then 0xc0 else if pad then 0x80 else 0x40)"

text \<open>\<^verbatim>\<open>index.into()\<close> from \<^verbatim>\<open>i32\<close> to \<^verbatim>\<open>i64\<close> sign-extends.\<close>
definition i64_from_i32 :: "i32 \<Rightarrow> i64" where
  "i64_from_i32 w = scast w"

definition CDTContext_ListIndex :: "i32 \<Rightarrow> CDTContext" where
  "CDTContext_ListIndex index =
     \<lparr>ctx_id = CDTContextType_as_i32 CTX_ListIndex,
      ctx_value = Some (Value_from_PHPValue (PInt (i64_from_i32 index)))\<rparr>"

definition CDTContext_ListIndexCreate :: "i32 \<Rightarrow> ListOrderType \<Rightarrow> bool \<Rightarrow> CDTContext" where
  "CDTContext_ListIndexCreate index order pad =
     \<lparr>ctx_id = CDTContextType_as_i32 CTX_ListIndex OR list_order_flag order pad,
      ctx_value = Some (Value_from_PHPValue (PInt (i64_from_i32 index)))\<rparr>"

definition CDTContext_ListRank :: "i32 \<Rightarrow> CDTContext" where
  "CDTContext_ListRank rank =
     \<lparr>ctx_id = CDTContextType_as_i32 CTX_ListRank,
      ctx_value = Some (Value_from_PHPValue (PInt (i64_from_i32 rank)))\<rparr>"

definition CDTContext_ListValue :: "PHPValue \<Rightarrow> CDTContext" where
  "CDTContext_ListValue key =
     \<lparr>ctx_id = CDTContextType_as_i32 CTX_ListValue, ctx_value = Some (Value_from_PHPValue key)\<rparr>"

definition CDTContext_MapIndex :: "i32 \<Rightarrow> CDTContext" where
  "CDTContext_MapIndex index =
     \<lparr>ctx_id = CDTContextType_as_i32 CTX_MapIndex,
      ctx_value = Some (Value_from_PHPValue (PInt (i64_from_i32 index)))\<rparr>"

definition CDTContext_MapRank :: "i32 \<Rightarrow> CDTContext" where
  "CDTContext_MapRank rank =
     \<lparr>ctx_id = CDTContextType_as_i32 CTX_MapRank,
      ctx_value = Some (Value_from_PHPValue (PInt (i64_from_i32 rank)))\<rparr>"

definition CDTContext_MapKey :: "PHPValue \<Rightarrow> CDTContext" where
  "CDTContext_MapKey key =
     \<lparr>ctx_id = CDTContextType_as_i32 CTX_MapKey, ctx_value = Some (Value_from_PHPValue key)\<rparr>"

definition CDTContext_MapKeyCreate :: "PHPValue \<Rightarrow> MapOrderType \<Rightarrow> CDTContext" where
  "CDTContext_MapKeyCreate key order =
     \<lparr>ctx_id = CDTContextType_as_i32 CTX_MapKey OR MapOrderType_flag order,
      ctx_value = Some (Value_from_PHPValue key)\<rparr>"

definition CDTContext_MapValue :: "PHPValue \<Rightarrow> CDTContext" where
  "CDTContext_MapValue key =
     \<lparr>ctx_id = CDTContextType_as_i32 CTX_MapValue, ctx_value = Some (Value_from_PHPValue key)\<rparr>"

text \<open>\<^verbatim>\<open>ctx.map(|ctx| ctx.iter().map(|ctx| ctx._as.clone()).collect()).unwrap_or(vec![])\<close>.\<close>
definition ctx_or_empty :: "CDTContext list option \<Rightarrow> CDTContext list" where
  "ctx_or_empty ctx = (case ctx of None \<Rightarrow> [] | Some cs \<Rightarrow> cs)"

section \<open>Laws\<close>

lemmas enum_decoders = ReadModeAP_from_i32_def ReadModeSC_from_i32_def
  RecordExistsAction_from_i32_def QueryDuration_from_i32_def CommitLevel_from_i32_def
  GenerationPolicy_from_i32_def UdfLanguage_from_i32_def

interpretation ap_codec: enum_codec ReadModeAP_into_i32 ReadModeAP_from_i32
  by unfold_locales (rename_tac a, case_tac a, auto simp: enum_decoders split: if_splits)

interpretation sc_codec: enum_codec ReadModeSC_into_i32 ReadModeSC_from_i32
  by unfold_locales (rename_tac a, case_tac a, auto simp: enum_decoders split: if_splits)

interpretation exists_codec: enum_codec RecordExistsAction_into_i32 RecordExistsAction_from_i32
  by unfold_locales (rename_tac a, case_tac a, auto simp: enum_decoders split: if_splits)

interpretation duration_codec: enum_codec QueryDuration_into_i32 QueryDuration_from_i32
  by unfold_locales (rename_tac a, case_tac a, auto simp: enum_decoders split: if_splits)

interpretation commit_codec: enum_codec CommitLevel_into_i32 CommitLevel_from_i32
  by unfold_locales (rename_tac a, case_tac a, auto simp: enum_decoders split: if_splits)

interpretation generation_codec: enum_codec GenerationPolicy_into_i32 GenerationPolicy_from_i32
  by unfold_locales (rename_tac a, case_tac a, auto simp: enum_decoders split: if_splits)

interpretation udf_codec: enum_codec UdfLanguage_into_i32 UdfLanguage_from_i32
  by unfold_locales (rename_tac a, case_tac a, auto simp: enum_decoders split: if_splits)

lemmas codec_decodes [simp] = ap_codec.dec_enc sc_codec.dec_enc exists_codec.dec_enc
  duration_codec.dec_enc commit_codec.dec_enc generation_codec.dec_enc udf_codec.dec_enc

lemmas expiration_consts = NAMESPACE_DEFAULT_def NEVER_EXPIRE_def DONT_UPDATE_def

lemma Expiration_into_from [simp]: "Expiration_into_u32 (Expiration_from_u32 u) = u"
  by (simp add: Expiration_from_u32_def)

lemma Expiration_from_into:
  "Expiration_from_u32 (Expiration_into_u32 e) = e \<longleftrightarrow>
     e \<notin> {Seconds NAMESPACE_DEFAULT, Seconds NEVER_EXPIRE, Seconds DONT_UPDATE}"
  by (cases e) (auto simp: Expiration_from_u32_def expiration_consts)

end
