(* ===== verification/Keys.thy ===== *)
theory Keys
  imports Value_Laws Enums
begin

text \<open>
  Keys, bins and records of \<^verbatim>\<open>src/lib.rs\<close>: the digest that addresses a record, the
  partition it belongs to, and the accessors of a record. The properties say which keys have
  a digest and a partition, that partition ids are below \<^verbatim>\<open>PARTITIONS\<close>, and that the
  bytes that are hashed identify set and value.
\<close>

section \<open>Keys\<close>

definition PARTITIONS :: u16 where "PARTITIONS = 4096"

text \<open>\<^verbatim>\<open>proto::Key\<close>.\<close>
record Key =
  digest :: "bytes option"
  namespace :: "string option"
  setname :: "string option"
  key_value :: "proto_Value option"

definition Key_construct :: "string \<Rightarrow> string \<Rightarrow> PHPValue \<Rightarrow> Key" where
  "Key_construct ns set' key =
     \<lparr>digest = None, namespace = Some ns, setname = Some set',
      key_value = Some (Value_from_PHPValue key)\<rparr>"

definition Key_get_namespace :: "Key \<Rightarrow> string" where
  "Key_get_namespace k = (case namespace k of Some n \<Rightarrow> n | None \<Rightarrow> [])"

definition Key_get_setname :: "Key \<Rightarrow> string" where
  "Key_get_setname k = (case setname k of Some s \<Rightarrow> s | None \<Rightarrow> [])"

definition Key_get_value :: "externs \<Rightarrow> Key \<Rightarrow> PHPValue option php" where
  "Key_get_value x k =
     (case key_value k of
        None \<Rightarrow> ret None
      | Some v \<Rightarrow> bnd (PHPValue_from_Value x v) (\<lambda>v'. ret (Some v')))"

text \<open>
  The digest is fed the set name, the particle type as one byte and the key bytes; a value
  that cannot be a key gives the empty digest.
\<close>

definition Key_compute_digest :: "externs \<Rightarrow> Key \<Rightarrow> bytes php" where
  "Key_compute_digest x k =
     (case (setname k, key_value k) of
        (Some set', Some value) \<Rightarrow>
          bnd (PHPValue_from_Value x value) (\<lambda>value.
          bnd (lift_sum (PHPValue_particle_type value)) (\<lambda>pt.
            case PHPValue_write_key_bytes value (as_bytes set' @ [ucast pt]) of
              Some h \<Rightarrow> ret (ripemd160 x h)
            | None \<Rightarrow> ret []))
      | _ \<Rightarrow> ret [])"

text \<open>
  \<^verbatim>\<open>unwrap_or(self.compute_digest())\<close> evaluates its argument whether or not the key has a
  digest.
\<close>

definition Key_get_digest_bytes :: "externs \<Rightarrow> Key \<Rightarrow> bytes php" where
  "Key_get_digest_bytes x k =
     bnd (Key_compute_digest x k) (\<lambda>computed.
       ret (case digest k of Some d \<Rightarrow> d | None \<Rightarrow> computed))"

definition Key_get_digest :: "externs \<Rightarrow> Key \<Rightarrow> string php" where
  "Key_get_digest x k = bnd (Key_get_digest_bytes x k) (\<lambda>d. ret (hex_encode x d))"

definition Key_partition_id :: "externs \<Rightarrow> Key \<Rightarrow> u64 option php" where
  "Key_partition_id x k =
     bnd (Key_get_digest_bytes x k) (\<lambda>d.
       (case d of
          b0 # b1 # b2 # b3 # _ \<Rightarrow>
            ret (Some (ucast (read_u32_le b0 b1 b2 b3) AND (ucast PARTITIONS - 1)))
        | _ \<Rightarrow> panics SliceOutOfRange))"

section \<open>Bins and records\<close>

text \<open>\<^verbatim>\<open>proto::Bin\<close> and \<^verbatim>\<open>proto::Record\<close>; the bins of a record are a hash map.\<close>

record Bin =
  bin_name :: string
  bin_value :: "proto_Value option"

record Record =
  rec_key :: "Key option"
  rec_generation :: u32
  rec_expiration :: u32
  rec_bins :: "(string \<times> proto_Value) list"

definition Bin_construct :: "externs \<Rightarrow> string \<Rightarrow> zval \<Rightarrow> (string + Bin) php" where
  "Bin_construct x name value =
     bnd (from_zval x value) (\<lambda>v_op.
       case v_op of
         Some v \<Rightarrow> ret (Inr \<lparr>bin_name = name, bin_value = Some (Value_from_PHPValue v)\<rparr>)
       | None \<Rightarrow> ret (Inl ''Invalid input for argument `value`''))"

definition Record_bin :: "externs \<Rightarrow> Record \<Rightarrow> string \<Rightarrow> PHPValue option php" where
  "Record_bin x r name =
     (case hm_get (=) (rec_bins r) name of
        None \<Rightarrow> ret None
      | Some v \<Rightarrow> bnd (PHPValue_from_Value x v) (\<lambda>v'. ret (Some v')))"

definition Record_get_bins :: "externs \<Rightarrow> Record \<Rightarrow> PHPValue option php" where
  "Record_get_bins x r = bnd (PHPValue_from_bins x (rec_bins r)) (\<lambda>v. ret (Some v))"

definition Record_get_generation :: "Record \<Rightarrow> u32 option" where
  "Record_get_generation r = Some (rec_generation r)"

definition Record_get_expiration :: "Record \<Rightarrow> Expiration" where
  "Record_get_expiration r =
     (if rec_expiration r = 0 then Expiration_from_u32 NEVER_EXPIRE
      else Expiration_from_u32 (rec_expiration r))"

definition Record_get_ttl :: "Record \<Rightarrow> u32 option" where
  "Record_get_ttl r = Expiration_get_ttl (Record_get_expiration r)"

definition Record_get_key :: "Record \<Rightarrow> Key option" where
  "Record_get_key r = (case rec_key r of None \<Rightarrow> None | Some k \<Rightarrow> Some k)"

section \<open>Lemmas on digests\<close>

text \<open>The values a key may have, and the bytes that are hashed for them.\<close>

fun key_supported :: "PHPValue \<Rightarrow> bool" where
  "key_supported (PInt _) = True"
| "key_supported (PUInt _) = True"
| "key_supported (PString _) = True"
| "key_supported (PBlob _) = True"
| "key_supported _ = False"

fun digest_input :: "string \<Rightarrow> PHPValue \<Rightarrow> bytes" where
  "digest_input s (PInt i) = as_bytes s @ [1] @ write_i64_be i"
| "digest_input s (PUInt u) = as_bytes s @ [1] @ write_i64_be u"
| "digest_input s (PString t) = as_bytes s @ [3] @ as_bytes t"
| "digest_input s (PBlob b) = as_bytes s @ [4] @ b"
| "digest_input s _ = []"

lemma Key_construct_fields [simp]:
  "digest (Key_construct ns s v) = None" "namespace (Key_construct ns s v) = Some ns"
  "setname (Key_construct ns s v) = Some s"
  "key_value (Key_construct ns s v) = Some (Value_from_PHPValue v)"
  by (simp_all add: Key_construct_def)

lemma compute_digest_supported:
  "key_supported v \<Longrightarrow> Key_compute_digest x (Key_construct ns s v) = ret (ripemd160 x (digest_input s v))"
  by (cases v) (simp_all add: Key_compute_digest_def)

lemma externs_digest_length: "externs_ok x \<Longrightarrow> length (ripemd160 x bs) = 20"
  by (simp add: externs_ok_def)

text \<open>The outermost constructor of a value survives the wire.\<close>

lemma outcome_decode_shape:
  "\<exists>w. outcome (PHPValue_from_Value x (Value_from_PHPValue v)) = Inr w \<and>
     PHPValue_particle_type w = PHPValue_particle_type v \<and>
     (key_supported w \<longleftrightarrow> key_supported v) \<and> (w = wire_form v \<or> \<not> key_supported v)"
proof -
  obtain w where w: "outcome (PHPValue_from_Value x (Value_from_PHPValue v)) = Inr w"
    using runs_PHPValue_from_Value [of x] complete_Value_from_PHPValue [of v]
    by (auto simp: runs_def)
  then show ?thesis by (cases v) (auto simp: outcome_bnd_Inr)
qed

lemma write_key_bytes_unsupported: "\<not> key_supported w \<Longrightarrow> PHPValue_write_key_bytes w h = None"
  by (cases w) auto

lemma outcome_compute_digest:
  "outcome (Key_compute_digest x (Key_construct ns s v)) =
     (if v = PInfinity \<or> v = PWildcard then Inl Unreachable
      else if key_supported v then Inr (ripemd160 x (digest_input s v)) else Inr [])"
proof (cases "key_supported v")
  case True
  then show ?thesis using compute_digest_supported [OF True, of x ns s] by auto
next
  case False
  obtain w where w: "outcome (PHPValue_from_Value x (Value_from_PHPValue v)) = Inr w"
     "PHPValue_particle_type w = PHPValue_particle_type v" "\<not> key_supported w"
    using outcome_decode_shape [of x v] False by auto
  have "outcome (Key_compute_digest x (Key_construct ns s v)) =
      (case PHPValue_particle_type v of Inl p \<Rightarrow> Inl p | Inr _ \<Rightarrow> Inr [])"
    using w by (simp add: Key_compute_digest_def outcome_bnd
        write_key_bytes_unsupported split: sum.splits)
  then show ?thesis using False by (cases v) auto
qed

lemma partition_mask_bits:
  "(ucast (read_u32_le b0 b1 b2 b3) AND (ucast PARTITIONS - 1) :: u64) =
     ucast b0 OR push_bit 8 (ucast (b1 AND 15))"
proof -
  have m: "(ucast PARTITIONS - 1 :: u64) = mask 12" "(15 :: u8) = mask 4"
    by (simp_all add: PARTITIONS_def mask_eq_exp_minus_1)
  show ?thesis
    unfolding m read_u32_le_def
    by (rule bit_word_eqI) (auto simp: bit_simps dest: bit_imp_le_length)
qed

lemma partition_mask_bound: "unat (w AND (ucast PARTITIONS - 1) :: u64) < 4096"
proof -
  have "w AND (ucast PARTITIONS - 1) \<le> (ucast PARTITIONS - 1 :: u64)" by (rule word_and_le1)
  then have "unat (w AND (ucast PARTITIONS - 1)) \<le> unat (ucast PARTITIONS - 1 :: u64)"
    by (simp only: word_le_nat_alt)
  then show ?thesis by (simp add: PARTITIONS_def)
qed

lemma partition_id_of_digest:
  "outcome (Key_get_digest_bytes x k) = Inr (b0 # b1 # b2 # b3 # bs) \<Longrightarrow>
    outcome (Key_partition_id x k) = Inr (Some (ucast b0 OR push_bit 8 (ucast (b1 AND 15))))"
  by (simp add: Key_partition_id_def outcome_bnd partition_mask_bits)

lemma outcome_get_digest_bytes:
  "outcome (Key_get_digest_bytes x k) =
     (case outcome (Key_compute_digest x k) of
        Inl p \<Rightarrow> Inl p | Inr c \<Rightarrow> Inr (case digest k of Some d \<Rightarrow> d | None \<Rightarrow> c))"
  by (simp add: Key_get_digest_bytes_def outcome_bnd split: sum.splits)

lemma outcome_partition_id:
  "outcome (Key_partition_id x k) =
     (case outcome (Key_get_digest_bytes x k) of
        Inl p \<Rightarrow> Inl p
      | Inr (b0 # b1 # b2 # b3 # bs) \<Rightarrow> Inr (Some (ucast b0 OR push_bit 8 (ucast (b1 AND 15))))
      | Inr _ \<Rightarrow> Inl SliceOutOfRange)"
  by (simp add: Key_partition_id_def outcome_bnd partition_mask_bits split: sum.splits list.splits)

lemma split_at_separator:
  assumes "as @ [a] @ cs = bs @ [b] @ ds" and "a \<notin> set bs" and "b \<notin> set as"
  shows "as = bs \<and> a = b \<and> cs = ds"
  using assms
proof (induction as arbitrary: bs)
  case Nil
  then show ?case by (cases bs) auto
next
  case (Cons y as)
  then show ?case by (cases bs) auto
qed

lemma word_bytes_sum:
  "(ucast (b0 :: u8) OR push_bit 8 (ucast (b1 :: u8)) :: u64) = word_of_nat (unat b0 + 256 * unat b1)"
proof -
  have z: "(ucast b0 :: u64) AND push_bit 8 (ucast b1) = 0"
    by (rule bit_word_eqI) (auto simp: bit_simps dest: bit_imp_le_length)
  have "(ucast b0 OR push_bit 8 (ucast b1) :: u64) = ucast b0 + push_bit 8 (ucast b1)"
    using disjunctive_add_eq_or [OF z] by simp
  also have "\<dots> = word_of_nat (unat b0 + 256 * unat b1)"
    by (simp add: push_bit_eq_mult unsigned_ucast_eq unsigned_def)
  finally show ?thesis .
qed
lemma word_low12:
  "(ucast (b0 :: u8) OR push_bit 8 (ucast ((b1 :: u8) AND 15)) :: u64) =
     word_of_nat ((unat b0 + 256 * unat b1) mod 4096)"
proof -
  have m: "(15 :: u8) = mask 4" by (simp add: mask_eq_exp_minus_1)
  have "(ucast b0 OR push_bit 8 (ucast (b1 AND 15)) :: u64) = take_bit 12 (ucast b0 OR push_bit 8 (ucast b1))"
    unfolding m by (rule bit_word_eqI) (auto simp: bit_simps dest: bit_imp_le_length)
  also have "\<dots> = word_of_nat (take_bit 12 (unat b0 + 256 * unat b1))"
    unfolding word_bytes_sum by (rule take_bit_of_nat)
  finally show ?thesis by (simp add: take_bit_eq_mod)
qed

text \<open>Characters that are not particle types of keys.\<close>
definition no_separator :: "string \<Rightarrow> bool" where
  "no_separator s = list_all (\<lambda>b. b \<notin> {1, 3, 4}) (as_bytes s)"

lemma digest_input_form:
  "key_supported v \<Longrightarrow> \<exists>t r. digest_input s v = as_bytes s @ [t] @ r \<and> t \<in> {1, 3, 4} \<and>
    (\<forall>s'. digest_input s' v = as_bytes s' @ [t] @ r)"
  by (cases v) auto

lemma digest_input_inj:
  assumes "no_separator s" "no_separator t" "key_supported v" "key_supported w"
    and "digest_input s v = digest_input t w"
  shows "s = t \<and> wire_form v = wire_form w"
proof -
  obtain a r where v: "digest_input s v = as_bytes s @ [a] @ r" "a \<in> {1, 3, 4}"
      "\<forall>s'. digest_input s' v = as_bytes s' @ [a] @ r"
    using digest_input_form [OF assms(3), of s] by blast
  obtain b q where w: "digest_input t w = as_bytes t @ [b] @ q" "b \<in> {1, 3, 4}"
    using digest_input_form [OF assms(4), of t] by blast
  have "as_bytes s = as_bytes t \<and> a = b \<and> r = q"
    using assms(1,2,5) v w by (intro split_at_separator) (auto simp: no_separator_def list_all_iff)
  then have st: "s = t" and "digest_input [] v = digest_input [] w"
    using v(3) digest_input_form [OF assms(4), of t] w(1) as_bytes_inj by auto
  with assms(3,4) show ?thesis
    by (cases v; cases w) (auto simp: as_bytes_def [of "[]"] dest: write_i64_be_inj as_bytes_inj)
qed

lemma digest_input_wire_form: "digest_input s (wire_form v) = digest_input s v"
  by (cases v) auto

section \<open>Lemmas on records\<close>

lemma decode_bins_lookup:
  assumes "distinct (map fst h)" and "\<forall>k \<in> fst ` set h. PString k \<notin> fst ` set arr"
    and "list_all (\<lambda>(k, v). plain_key k) arr"
    and "outcome (fill_map x (map (\<lambda>(k, v). (Some (ret (PString k)), Some (PHPValue_from_Value x v))) h) arr) = Inr r"
  shows "hm_get (PHPValue_eq x) r (PString n) =
     (case map_of h n of
        None \<Rightarrow> hm_get (PHPValue_eq x) arr (PString n)
      | Some v \<Rightarrow> (case outcome (PHPValue_from_Value x v) of Inl p \<Rightarrow> None | Inr w \<Rightarrow> Some w))"
  using assms
proof (induction h arbitrary: arr)
  case (Cons e h)
  obtain k v where e: "e = (k, v)" by (cases e)
  obtain w where w: "outcome (PHPValue_from_Value x v) = Inr w"
    "outcome (fill_map x (map (\<lambda>(k, v). (Some (ret (PString k)), Some (PHPValue_from_Value x v))) h)
       (hm_insert (PHPValue_eq x) (PString k) w arr)) = Inr r"
    using Cons.prems(4) by (auto simp: e outcome_bnd_Inr)
  let ?arr = "hm_insert (PHPValue_eq x) (PString k) w arr"
  have arr: "php_map.keys_ok arr" using Cons.prems(3) by (simp add: php_map.keys_ok_def)
  have "php_map.keys_ok ?arr" using arr by (intro php_map.keys_ok_insert) auto
  moreover have "\<forall>k' \<in> fst ` set h. PString k' \<notin> fst ` set ?arr"
    using Cons.prems(1,2) by (auto simp: e dest!: hm_insert_mem) force+
  ultimately have IH: "hm_get (PHPValue_eq x) r (PString n) =
     (case map_of h n of
        None \<Rightarrow> hm_get (PHPValue_eq x) ?arr (PString n)
      | Some v \<Rightarrow> (case outcome (PHPValue_from_Value x v) of Inl p \<Rightarrow> None | Inr w \<Rightarrow> Some w))"
    using Cons.prems(1) w by (intro Cons.IH) (auto simp: e php_map.keys_ok_def)
  show ?case
  proof (cases "n = k")
    case True
    have "hm_get (PHPValue_eq x) ?arr (PString n) = Some w"
      by (rule php_map.get_insert_same [OF _ _ arr]) (simp_all add: True)
    moreover have "map_of h n = None" using Cons.prems(1) by (simp add: e True map_of_eq_None_iff)
    ultimately show ?thesis using IH w True by (simp add: e)
  next
    case False
    have "hm_get (PHPValue_eq x) ?arr (PString n) = hm_get (PHPValue_eq x) arr (PString n)"
      by (rule php_map.get_insert_other [OF _ _ arr]) (use False in auto)
    then show ?thesis using IH False by (simp add: e split: option.splits)
  qed
qed simp

section \<open>Properties\<close>

text \<open>C8. A key built from a value of a supported type (integer, string, blob) has a 20-byte
  digest and a partition id below \<^verbatim>\<open>PARTITIONS\<close>, the low twelve bits of its first
  two digest bytes in little-endian order. For every other value asking for the partition
  does not return: infinity and wildcard values stop at the particle type, the others at the
  slice of the empty digest.\<close>

theorem partition_id_of_constructed_key:
  assumes "externs_ok x"
  shows "if key_supported v then
      \<exists>d. outcome (Key_get_digest_bytes x (Key_construct ns s v)) = Inr d \<and> length d = 20 \<and>
        outcome (Key_partition_id x (Key_construct ns s v)) =
          Inr (Some (word_of_nat ((unat (d ! 0) + 256 * unat (d ! 1)) mod 4096)))
    else outcome (Key_partition_id x (Key_construct ns s v)) =
      Inl (if v = PInfinity \<or> v = PWildcard then Unreachable else SliceOutOfRange)"
proof (cases "key_supported v")
  case True
  let ?d = "ripemd160 x (digest_input s v)"
  have len: "length ?d = 20" using assms by (rule externs_digest_length)
  then obtain b0 b1 b2 b3 r where "?d = b0 # b1 # b2 # b3 # r"
    by (auto simp: length_Suc_conv eval_nat_numeral)
  with True len show ?thesis
    by (auto simp: outcome_partition_id outcome_get_digest_bytes outcome_compute_digest
        word_low12)
next
  case False
  then show ?thesis
    by (auto simp: outcome_partition_id outcome_get_digest_bytes outcome_compute_digest)
qed

theorem partition_id_of_constructed_key_witness:
  "externs_ok externs0 \<and>
   outcome (Key_partition_id externs0 (Key_construct ''test'' ''A'' (PInt 1))) = Inr (Some 321) \<and>
   outcome (Key_partition_id externs0 (Key_construct ''test'' ''A'' (PBool True))) = Inl SliceOutOfRange"
proof -
  have d: "ripemd160 externs0 (digest_input ''A'' (PInt 1)) =
      [65, 1, 0, 0, 0, 0, 0, 0, 0, 1, 0, 0, 0, 0, 0, 0, 0, 0, 0, 0]"
    by (simp add: externs0_def as_bytes_def write_i64_be_def upt_rec numeral_eq_Suc)
  show ?thesis
    using partition_id_of_constructed_key [OF externs0_ok, of "PInt 1" "''test''" "''A''"]
      partition_id_of_constructed_key [OF externs0_ok, of "PBool True" "''test''" "''A''"]
    by (simp add: externs0_ok outcome_get_digest_bytes outcome_compute_digest
        d [simplified])
qed

text \<open>C15. The digest hashes set name, type byte and key bytes, and not the namespace. Unless a
  set name contains one of the type bytes 1, 3 and 4, two keys hash the same bytes exactly
  when they have the same set and the same value on the wire; in particular an unsigned key
  and the signed key with the same bits are one key.\<close>

theorem digest_identifies_set_and_value:
  assumes "no_separator s" and "no_separator t" and "key_supported v" and "key_supported w"
  shows "Key_compute_digest x (Key_construct ns s v) = ret (ripemd160 x (digest_input s v)) \<and>
    (digest_input s v = digest_input t w \<longleftrightarrow> s = t \<and> wire_form v = wire_form w)"
  using compute_digest_supported [OF assms(3)] digest_input_inj [OF assms]
    digest_input_wire_form [of t v] digest_input_wire_form [of t w] by metis

theorem digest_identifies_set_and_value_witness:
  "no_separator ''users'' \<and> no_separator ''orders'' \<and>
   digest_input ''users'' (PInt 5) \<noteq> digest_input ''orders'' (PUInt 5) \<and>
   digest_input ''users'' (PInt 5) = digest_input ''users'' (PUInt 5)"
proof -
  have n: "no_separator ''users''" "no_separator ''orders''"
    by (simp_all add: no_separator_def as_bytes_def)
  show ?thesis
    using n digest_identifies_set_and_value [of "''users''" "''orders''" "PInt 5" "PUInt 5"]
      digest_identifies_set_and_value [of "''users''" "''users''" "PInt 5" "PUInt 5"] by simp
qed

text \<open>A key that carries a digest still has one computed before its own is returned: if
  set and value are present the call panics for an incomplete value and for infinity and
  wildcard values; in every other case it returns the stored digest.\<close>

lemma stored_digest_returned:
  assumes "digest k = Some d"
  shows "(case outcome (Key_get_digest_bytes x k) of
      Inr d' \<Rightarrow> d' = d
    | Inl p \<Rightarrow> (\<exists>s v. setname k = Some s \<and> key_value k = Some v \<and>
        (\<not> complete v \<or> outcome (PHPValue_from_Value x v) \<in> {Inr PInfinity, Inr PWildcard})))"
proof -
  have pt: "PHPValue_particle_type w = Inl p \<Longrightarrow> w = PInfinity \<or> w = PWildcard" for w p
    by (cases w) auto
  show ?thesis
  proof (cases "outcome (Key_compute_digest x k)")
    case (Inl p)
    obtain s v where sv: "setname k = Some s" "key_value k = Some v"
      using Inl by (auto simp: Key_compute_digest_def split: option.splits)
    show ?thesis
    proof (cases "outcome (PHPValue_from_Value x v)")
      case (Inl q)
      then have "\<not> complete v" using runs_PHPValue_from_Value [of x v] by (auto simp: runs_def)
      then show ?thesis using sv assms by (simp add: outcome_get_digest_bytes split: sum.splits)
    next
      case (Inr w)
      then have "PHPValue_particle_type w = Inl p"
        using \<open>outcome (Key_compute_digest x k) = Inl p\<close> sv
        by (auto simp: Key_compute_digest_def outcome_bnd split: sum.splits option.splits)
      then show ?thesis using pt Inr sv assms by (auto simp: outcome_get_digest_bytes split: sum.splits)
    qed
  qed (simp add: outcome_get_digest_bytes assms)
qed

theorem stored_digest_returned_witness:
  "let k = Key_construct ''test'' ''A'' (PBool True)\<lparr>digest := Some [1, 2, 3, 4]\<rparr> in
   digest k = Some [1, 2, 3, 4] \<and> outcome (Key_get_digest_bytes externs0 k) = Inr [1, 2, 3, 4]"
proof -
  let ?k = "Key_construct ''test'' ''A'' (PBool True)\<lparr>digest := Some [1, 2, 3, 4]\<rparr>"
  have d: "digest ?k = Some [1, 2, 3, 4]" by simp
  have "outcome (Key_get_digest_bytes externs0 ?k) = Inr [1, 2, 3, 4]"
    using stored_digest_returned [OF d, of externs0]
    by (auto simp: Key_construct_def split: sum.splits)
  with d show ?thesis by (simp add: Let_def)
qed

text \<open>The two ways to read a record agree: for every bin name, looking the name up in the
  map that \<^verbatim>\<open>getBins\<close> returns gives what \<^verbatim>\<open>bin\<close> returns for it, for names
  without a bin too.\<close>

lemma record_bins_agree:
  assumes "distinct (map fst (rec_bins r))" and "outcome (Record_get_bins x r) = Inr (Some m)"
  shows "\<exists>h. m = PHashMap h \<and>
    (\<forall>name. outcome (Record_bin x r name) = Inr (hm_get (PHPValue_eq x) h (PString name)))"
proof -
  let ?fill = "fill_map x (map (\<lambda>(k, v). (Some (ret (PString k)), Some (PHPValue_from_Value x v))) (rec_bins r)) []"
  obtain h where h: "m = PHashMap h" "outcome ?fill = Inr h"
    using assms(2) by (auto simp: Record_get_bins_def PHPValue_from_bins_def outcome_bnd_Inr)
  have "runs ?fill" using h(2) by (simp add: runs_def)
  then have ok: "\<exists>w. outcome (PHPValue_from_Value x v) = Inr w" if "(k, v) \<in> set (rec_bins r)" for k v
    using that by (auto simp: runs_fill_map list_all_iff simp flip: runs_def)
  have "outcome (Record_bin x r name) = Inr (hm_get (PHPValue_eq x) h (PString name))" for name
  proof (cases "map_of (rec_bins r) name")
    case None
    then show ?thesis
      using decode_bins_lookup [OF assms(1) _ _ h(2), of name]
      by (simp add: Record_bin_def hm_get_eq_map_of)
  next
    case (Some v)
    then obtain w where "outcome (PHPValue_from_Value x v) = Inr w" using ok map_of_SomeD by metis
    then show ?thesis
      using Some decode_bins_lookup [OF assms(1) _ _ h(2), of name]
      by (simp add: Record_bin_def hm_get_eq_map_of outcome_bnd)
  qed
  with h(1) show ?thesis by blast
qed

theorem record_bins_agree_witness:
  "let r = \<lparr>rec_key = None, rec_generation = 1, rec_expiration = 0,
            rec_bins = [(''a'', V_I 1), (''b'', V_L [V_S ''s''])]\<rparr>;
       h = [(PString ''a'', PInt 1), (PString ''b'', PList [PString ''s''])] in
   outcome (Record_get_bins externs0 r) = Inr (Some (PHashMap h)) \<and>
   (\<forall>name. outcome (Record_bin externs0 r name) = Inr (hm_get (PHPValue_eq externs0) h (PString name)))"
proof -
  let ?r = "\<lparr>rec_key = None, rec_generation = 1, rec_expiration = 0,
            rec_bins = [(''a'', V_I 1), (''b'', V_L [V_S ''s''])]\<rparr>"
  have d: "distinct (map fst (rec_bins ?r))" by simp
  have o': "outcome (Record_get_bins externs0 ?r) =
      Inr (Some (PHashMap [(PString ''a'', PInt 1), (PString ''b'', PList [PString ''s''])]))"
    by (simp add: Record_get_bins_def PHPValue_from_bins_def HashMap_insert_def)
  show ?thesis using record_bins_agree [OF d o'] o' by (simp add: Let_def)
qed

text \<open>The expiration of a record: zero reads as never, the two reserved numbers as their
  names and every other number as its seconds, and only the last have a time to live. The
  expiration, turned back into a number, is the one received unless that was zero.\<close>

lemma record_expiration_ttl:
  "Expiration_into_u32 (Record_get_expiration r) =
     (if rec_expiration r = 0 then NEVER_EXPIRE else rec_expiration r) \<and>
   Record_get_ttl r =
     (if rec_expiration r \<in> {0, NEVER_EXPIRE, DONT_UPDATE} then None else Some (rec_expiration r))"
  by (auto simp: Record_get_ttl_def Record_get_expiration_def Expiration_from_u32_def
      expiration_consts)

end
