(* ===== verification/Expressions.thy ===== *)
theory Expressions
  imports Value_Laws Enums
begin

text \<open>
  Filter expressions (class \<^verbatim>\<open>Expression\<close> of \<^verbatim>\<open>src/lib.rs\<close>): the protobuf message,
  the operation codes of \<^verbatim>\<open>asld_kvs.proto\<close> and one definition per builder function.
\<close>

section \<open>Operation codes\<close>

datatype (plugins only: code) ExpOp =
    EO_Unknown | EO_Eq | EO_Ne | EO_Gt | EO_Ge | EO_Lt
  | EO_Le | EO_Regex | EO_Geo | EO_And | EO_Or | EO_Not
  | EO_Exclusive | EO_Add | EO_Sub | EO_Mul | EO_Div | EO_Pow
  | EO_Log | EO_Mod | EO_Abs | EO_Floor | EO_Ceil | EO_ToInt
  | EO_ToFloat | EO_IntAnd | EO_IntOr | EO_IntXor | EO_IntNot | EO_IntLShift
  | EO_IntRShift | EO_IntArShift | EO_IntCount | EO_IntLScan | EO_IntRScan | EO_Min
  | EO_Max | EO_DigestModulo | EO_DeviceSize | EO_LastUpdate | EO_SinceUpdate | EO_VoidTime
  | EO_Ttl | EO_SetName | EO_KeyExists | EO_IsTombstone | EO_MemorySize | EO_RecordSize
  | EO_Key | EO_Bin | EO_BinType | EO_Cond | EO_Var | EO_Let
  | EO_Quoted | EO_Call

primrec ExpOp_into_i32 :: "ExpOp \<Rightarrow> i32" where
  "ExpOp_into_i32 EO_Unknown = 0"
| "ExpOp_into_i32 EO_Eq = 1"
| "ExpOp_into_i32 EO_Ne = 2"
| "ExpOp_into_i32 EO_Gt = 3"
| "ExpOp_into_i32 EO_Ge = 4"
| "ExpOp_into_i32 EO_Lt = 5"
| "ExpOp_into_i32 EO_Le = 6"
| "ExpOp_into_i32 EO_Regex = 7"
| "ExpOp_into_i32 EO_Geo = 8"
| "ExpOp_into_i32 EO_And = 16"
| "ExpOp_into_i32 EO_Or = 17"
| "ExpOp_into_i32 EO_Not = 18"
| "ExpOp_into_i32 EO_Exclusive = 19"
| "ExpOp_into_i32 EO_Add = 20"
| "ExpOp_into_i32 EO_Sub = 21"
| "ExpOp_into_i32 EO_Mul = 22"
| "ExpOp_into_i32 EO_Div = 23"
| "ExpOp_into_i32 EO_Pow = 24"
| "ExpOp_into_i32 EO_Log = 25"
| "ExpOp_into_i32 EO_Mod = 26"
| "ExpOp_into_i32 EO_Abs = 27"
| "ExpOp_into_i32 EO_Floor = 28"
| "ExpOp_into_i32 EO_Ceil = 29"
| "ExpOp_into_i32 EO_ToInt = 30"
| "ExpOp_into_i32 EO_ToFloat = 31"
| "ExpOp_into_i32 EO_IntAnd = 32"
| "ExpOp_into_i32 EO_IntOr = 33"
| "ExpOp_into_i32 EO_IntXor = 34"
| "ExpOp_into_i32 EO_IntNot = 35"
| "ExpOp_into_i32 EO_IntLShift = 36"
| "ExpOp_into_i32 EO_IntRShift = 37"
| "ExpOp_into_i32 EO_IntArShift = 38"
| "ExpOp_into_i32 EO_IntCount = 39"
| "ExpOp_into_i32 EO_IntLScan = 40"
| "ExpOp_into_i32 EO_IntRScan = 41"
| "ExpOp_into_i32 EO_Min = 50"
| "ExpOp_into_i32 EO_Max = 51"
| "ExpOp_into_i32 EO_DigestModulo = 64"
| "ExpOp_into_i32 EO_DeviceSize = 65"
| "ExpOp_into_i32 EO_LastUpdate = 66"
| "ExpOp_into_i32 EO_SinceUpdate = 67"
| "ExpOp_into_i32 EO_VoidTime = 68"
| "ExpOp_into_i32 EO_Ttl = 69"
| "ExpOp_into_i32 EO_SetName = 70"
| "ExpOp_into_i32 EO_KeyExists = 71"
| "ExpOp_into_i32 EO_IsTombstone = 72"
| "ExpOp_into_i32 EO_MemorySize = 73"
| "ExpOp_into_i32 EO_RecordSize = 74"
| "ExpOp_into_i32 EO_Key = 80"
| "ExpOp_into_i32 EO_Bin = 81"
| "ExpOp_into_i32 EO_BinType = 82"
| "ExpOp_into_i32 EO_Cond = 123"
| "ExpOp_into_i32 EO_Var = 124"
| "ExpOp_into_i32 EO_Let = 125"
| "ExpOp_into_i32 EO_Quoted = 126"
| "ExpOp_into_i32 EO_Call = 127"

section \<open>The message\<close>

text \<open>\<^verbatim>\<open>proto::Expression\<close>.\<close>
datatype Expression =
  Expression (exp_cmd: "i32 option") (exp_val: "proto_Value option") (exp_bin: "Expression option")
    (exp_flags: "i64 option") (exp_module: "i32 option") (exp_exps: "Expression list")

definition Expression_new ::
  "i32 option \<Rightarrow> PHPValue option \<Rightarrow> Expression option \<Rightarrow> i64 option \<Rightarrow> ExpType option \<Rightarrow>
   Expression list \<Rightarrow> Expression" where
  "Expression_new cmd val bn flags module exps =
     Expression cmd (map_option Value_from_PHPValue val) bn flags (map_option ExpType_into_i32 module) exps"

section \<open>The builders\<close>

definition Expression_key :: "ExpType \<Rightarrow> Expression" where
  "Expression_key exp_type =
     Expression_new (Some (ExpOp_into_i32 EO_Key))
       (Some (PInt (i64_from_i32 (ExpType_into_i32 exp_type)))) None None None []"

definition Expression_key_exists :: "Expression" where
  "Expression_key_exists =
     Expression_new (Some (ExpOp_into_i32 EO_KeyExists)) None None None None []"

definition Expression_int_bin :: "string \<Rightarrow> Expression" where
  "Expression_int_bin name =
     Expression_new (Some (ExpOp_into_i32 EO_Bin)) (Some (PString name)) None None (Some ET_Int) []"

definition Expression_string_bin :: "string \<Rightarrow> Expression" where
  "Expression_string_bin name =
     Expression_new (Some (ExpOp_into_i32 EO_Bin))
       (Some (PString name)) None None (Some ET_String) []"

definition Expression_blob_bin :: "string \<Rightarrow> Expression" where
  "Expression_blob_bin name =
     Expression_new (Some (ExpOp_into_i32 EO_Bin))
       (Some (PString name)) None None (Some ET_Blob) []"

definition Expression_float_bin :: "string \<Rightarrow> Expression" where
  "Expression_float_bin name =
     Expression_new (Some (ExpOp_into_i32 EO_Bin))
       (Some (PString name)) None None (Some ET_Float) []"

definition Expression_geo_bin :: "string \<Rightarrow> Expression" where
  "Expression_geo_bin name =
     Expression_new (Some (ExpOp_into_i32 EO_Bin)) (Some (PString name)) None None (Some ET_Geo) []"

definition Expression_list_bin :: "string \<Rightarrow> Expression" where
  "Expression_list_bin name =
     Expression_new (Some (ExpOp_into_i32 EO_Bin))
       (Some (PString name)) None None (Some ET_List) []"

definition Expression_map_bin :: "string \<Rightarrow> Expression" where
  "Expression_map_bin name =
     Expression_new (Some (ExpOp_into_i32 EO_Bin)) (Some (PString name)) None None (Some ET_Map) []"

definition Expression_hll_bin :: "string \<Rightarrow> Expression" where
  "Expression_hll_bin name =
     Expression_new (Some (ExpOp_into_i32 EO_Bin)) (Some (PString name)) None None (Some ET_Hll) []"

definition Expression_bin_type :: "string \<Rightarrow> Expression" where
  "Expression_bin_type name =
     Expression_new (Some (ExpOp_into_i32 EO_BinType)) (Some (PString name)) None None None []"

definition Expression_set_name :: "Expression" where
  "Expression_set_name =
     Expression_new (Some (ExpOp_into_i32 EO_SetName)) None None None None []"

definition Expression_device_size :: "Expression" where
  "Expression_device_size =
     Expression_new (Some (ExpOp_into_i32 EO_DeviceSize)) None None None None []"

definition Expression_memory_size :: "Expression" where
  "Expression_memory_size =
     Expression_new (Some (ExpOp_into_i32 EO_MemorySize)) None None None None []"

definition Expression_last_update :: "Expression" where
  "Expression_last_update =
     Expression_new (Some (ExpOp_into_i32 EO_LastUpdate)) None None None None []"

definition Expression_since_update :: "Expression" where
  "Expression_since_update =
     Expression_new (Some (ExpOp_into_i32 EO_SinceUpdate)) None None None None []"

definition Expression_void_time :: "Expression" where
  "Expression_void_time =
     Expression_new (Some (ExpOp_into_i32 EO_VoidTime)) None None None None []"

definition Expression_ttl :: "Expression" where
  "Expression_ttl =
     Expression_new (Some (ExpOp_into_i32 EO_Ttl)) None None None None []"

definition Expression_is_tombstone :: "Expression" where
  "Expression_is_tombstone =
     Expression_new (Some (ExpOp_into_i32 EO_IsTombstone)) None None None None []"

definition Expression_digest_modulo :: "i64 \<Rightarrow> Expression" where
  "Expression_digest_modulo m =
     Expression_new (Some (ExpOp_into_i32 EO_DigestModulo)) (Some (PInt m)) None None None []"

definition Expression_regex_compare :: "string \<Rightarrow> i64 \<Rightarrow> Expression \<Rightarrow> Expression" where
  "Expression_regex_compare regex flags bn =
     Expression_new (Some (ExpOp_into_i32 EO_Regex))
       (Some (PString regex)) (Some bn) (Some flags) None []"

definition Expression_geo_compare :: "Expression \<Rightarrow> Expression \<Rightarrow> Expression" where
  "Expression_geo_compare left right =
     Expression_new (Some (ExpOp_into_i32 EO_Geo)) None None None None [left, right]"

definition Expression_int_val :: "i64 \<Rightarrow> Expression" where
  "Expression_int_val val =
     Expression_new None (Some (PInt val)) None None None []"

definition Expression_bool_val :: "bool \<Rightarrow> Expression" where
  "Expression_bool_val val =
     Expression_new None (Some (PBool val)) None None None []"

definition Expression_string_val :: "string \<Rightarrow> Expression" where
  "Expression_string_val val =
     Expression_new None (Some (PString val)) None None None []"

definition Expression_float_val :: "f64 \<Rightarrow> Expression" where
  "Expression_float_val val =
     Expression_new None (Some (PFloat val)) None None None []"

definition Expression_blob_val :: "bytes \<Rightarrow> Expression" where
  "Expression_blob_val val =
     Expression_new None (Some (PBlob val)) None None None []"

definition Expression_list_val :: "PHPValue list \<Rightarrow> Expression" where
  "Expression_list_val val =
     Expression_new None (Some (PList val)) None None None []"

definition Expression_map_val :: "PHPValue \<Rightarrow> Expression option php" where
  "Expression_map_val val =
     bnd (assert_map val) (\<lambda>is_map.
       if \<not> is_map then ret None
       else ret (Some (Expression_new None (Some val) None None None [])))"

definition Expression_geo_val :: "string \<Rightarrow> Expression" where
  "Expression_geo_val val =
     Expression_new None (Some (PGeoJSON val)) None None None []"

definition Expression_nil :: "Expression" where
  "Expression_nil =
     Expression_new None (Some PNil) None None None []"

definition Expression_infinity :: "Expression" where
  "Expression_infinity =
     Expression_new None (Some PInfinity) None None None []"

definition Expression_wildcard :: "Expression" where
  "Expression_wildcard =
     Expression_new None (Some PWildcard) None None None []"

definition Expression_not :: "Expression \<Rightarrow> Expression" where
  "Expression_not e =
     Expression_new (Some (ExpOp_into_i32 EO_Not)) None None None None [e]"

definition Expression_and :: "Expression list \<Rightarrow> Expression" where
  "Expression_and exps =
     Expression_new (Some (ExpOp_into_i32 EO_And)) None None None None exps"

definition Expression_or :: "Expression list \<Rightarrow> Expression" where
  "Expression_or exps =
     Expression_new (Some (ExpOp_into_i32 EO_Or)) None None None None exps"

definition Expression_xor :: "Expression list \<Rightarrow> Expression" where
  "Expression_xor exps =
     Expression_new (Some (ExpOp_into_i32 EO_IntXor)) None None None None exps"

definition Expression_eq :: "Expression \<Rightarrow> Expression \<Rightarrow> Expression" where
  "Expression_eq left right =
     Expression_new (Some (ExpOp_into_i32 EO_Eq)) None None None None [left, right]"

definition Expression_ne :: "Expression \<Rightarrow> Expression \<Rightarrow> Expression" where
  "Expression_ne left right =
     Expression_new (Some (ExpOp_into_i32 EO_Ne)) None None None None [left, right]"

definition Expression_gt :: "Expression \<Rightarrow> Expression \<Rightarrow> Expression" where
  "Expression_gt left right =
     Expression_new (Some (ExpOp_into_i32 EO_Gt)) None None None None [left, right]"

definition Expression_ge :: "Expression \<Rightarrow> Expression \<Rightarrow> Expression" where
  "Expression_ge left right =
     Expression_new (Some (ExpOp_into_i32 EO_Ge)) None None None None [left, right]"

definition Expression_lt :: "Expression \<Rightarrow> Expression \<Rightarrow> Expression" where
  "Expression_lt left right =
     Expression_new (Some (ExpOp_into_i32 EO_Lt)) None None None None [left, right]"

definition Expression_le :: "Expression \<Rightarrow> Expression \<Rightarrow> Expression" where
  "Expression_le left right =
     Expression_new (Some (ExpOp_into_i32 EO_Le)) None None None None [left, right]"

definition Expression_num_add :: "Expression list \<Rightarrow> Expression" where
  "Expression_num_add exps =
     Expression_new (Some (ExpOp_into_i32 EO_Add)) None None None None exps"

definition Expression_num_sub :: "Expression list \<Rightarrow> Expression" where
  "Expression_num_sub exps =
     Expression_new (Some (ExpOp_into_i32 EO_Sub)) None None None None exps"

definition Expression_num_mul :: "Expression list \<Rightarrow> Expression" where
  "Expression_num_mul exps =
     Expression_new (Some (ExpOp_into_i32 EO_Mul)) None None None None exps"

definition Expression_num_div :: "Expression list \<Rightarrow> Expression" where
  "Expression_num_div exps =
     Expression_new (Some (ExpOp_into_i32 EO_Div)) None None None None exps"

definition Expression_num_pow :: "Expression \<Rightarrow> Expression \<Rightarrow> Expression" where
  "Expression_num_pow base exponent =
     Expression_new (Some (ExpOp_into_i32 EO_Pow)) None None None None [base, exponent]"

definition Expression_num_log :: "Expression \<Rightarrow> Expression \<Rightarrow> Expression" where
  "Expression_num_log num base =
     Expression_new (Some (ExpOp_into_i32 EO_Log)) None None None None [num, base]"

definition Expression_num_mod :: "Expression \<Rightarrow> Expression \<Rightarrow> Expression" where
  "Expression_num_mod numerator denominator =
     Expression_new (Some (ExpOp_into_i32 EO_Mod)) None None None None [numerator, denominator]"

definition Expression_num_abs :: "Expression \<Rightarrow> Expression" where
  "Expression_num_abs value =
     Expression_new (Some (ExpOp_into_i32 EO_Abs)) None None None None [value]"

definition Expression_num_floor :: "Expression \<Rightarrow> Expression" where
  "Expression_num_floor num =
     Expression_new (Some (ExpOp_into_i32 EO_Floor)) None None None None [num]"

definition Expression_num_ceil :: "Expression \<Rightarrow> Expression" where
  "Expression_num_ceil num =
     Expression_new (Some (ExpOp_into_i32 EO_Ceil)) None None None None [num]"

definition Expression_to_int :: "Expression \<Rightarrow> Expression" where
  "Expression_to_int num =
     Expression_new (Some (ExpOp_into_i32 EO_ToInt)) None None None None [num]"

definition Expression_to_float :: "Expression \<Rightarrow> Expression" where
  "Expression_to_float num =
     Expression_new (Some (ExpOp_into_i32 EO_ToFloat)) None None None None [num]"

definition Expression_int_and :: "Expression list \<Rightarrow> Expression" where
  "Expression_int_and exps =
     Expression_new (Some (ExpOp_into_i32 EO_IntAnd)) None None None None exps"

definition Expression_int_or :: "Expression list \<Rightarrow> Expression" where
  "Expression_int_or exps =
     Expression_new (Some (ExpOp_into_i32 EO_IntOr)) None None None None exps"

definition Expression_int_xor :: "Expression list \<Rightarrow> Expression" where
  "Expression_int_xor exps =
     Expression_new (Some (ExpOp_into_i32 EO_IntXor)) None None None None exps"

definition Expression_int_not :: "Expression \<Rightarrow> Expression" where
  "Expression_int_not e =
     Expression_new (Some (ExpOp_into_i32 EO_IntNot)) None None None None [e]"

definition Expression_int_lshift :: "Expression \<Rightarrow> Expression \<Rightarrow> Expression" where
  "Expression_int_lshift value shift =
     Expression_new (Some (ExpOp_into_i32 EO_IntLShift)) None None None None [value, shift]"

definition Expression_int_rshift :: "Expression \<Rightarrow> Expression \<Rightarrow> Expression" where
  "Expression_int_rshift value shift =
     Expression_new (Some (ExpOp_into_i32 EO_IntRShift)) None None None None [value, shift]"

definition Expression_int_arshift :: "Expression \<Rightarrow> Expression \<Rightarrow> Expression" where
  "Expression_int_arshift value shift =
     Expression_new (Some (ExpOp_into_i32 EO_IntArShift)) None None None None [value, shift]"

definition Expression_int_count :: "Expression \<Rightarrow> Expression" where
  "Expression_int_count e =
     Expression_new (Some (ExpOp_into_i32 EO_IntCount)) None None None None [e]"

definition Expression_int_lscan :: "Expression \<Rightarrow> Expression \<Rightarrow> Expression" where
  "Expression_int_lscan value search =
     Expression_new (Some (ExpOp_into_i32 EO_IntLScan)) None None None None [value, search]"

definition Expression_int_rscan :: "Expression \<Rightarrow> Expression \<Rightarrow> Expression" where
  "Expression_int_rscan value search =
     Expression_new (Some (ExpOp_into_i32 EO_IntRScan)) None None None None [value, search]"

definition Expression_min :: "Expression list \<Rightarrow> Expression" where
  "Expression_min exps =
     Expression_new (Some (ExpOp_into_i32 EO_Min)) None None None None exps"

definition Expression_max :: "Expression list \<Rightarrow> Expression" where
  "Expression_max exps =
     Expression_new (Some (ExpOp_into_i32 EO_Max)) None None None None exps"

definition Expression_cond :: "Expression list \<Rightarrow> Expression" where
  "Expression_cond exps =
     Expression_new (Some (ExpOp_into_i32 EO_Cond)) None None None None exps"

definition Expression_exp_let :: "Expression list \<Rightarrow> Expression" where
  "Expression_exp_let exps =
     Expression_new (Some (ExpOp_into_i32 EO_Let)) None None None None exps"

definition Expression_def :: "string \<Rightarrow> Expression \<Rightarrow> Expression" where
  "Expression_def name value =
     Expression_new None (Some (PString name)) None None None [value]"

definition Expression_var :: "string \<Rightarrow> Expression" where
  "Expression_var name =
     Expression_new (Some (ExpOp_into_i32 EO_Var)) (Some (PString name)) None None None []"

definition Expression_unknown :: "Expression" where
  "Expression_unknown =
     Expression_new (Some (ExpOp_into_i32 EO_Unknown)) None None None None []"

definition Expression_bin_exists :: "string \<Rightarrow> Expression" where
  "Expression_bin_exists name =
     Expression_ne (Expression_bin_type name) (Expression_int_val (ParticleType_into_i64 PT_Null))"

lemmas expression_builders =
  Expression_key_def Expression_key_exists_def Expression_int_bin_def
  Expression_string_bin_def Expression_blob_bin_def Expression_float_bin_def
  Expression_geo_bin_def Expression_list_bin_def Expression_map_bin_def
  Expression_hll_bin_def Expression_bin_type_def Expression_set_name_def
  Expression_device_size_def Expression_memory_size_def Expression_last_update_def
  Expression_since_update_def Expression_void_time_def Expression_ttl_def
  Expression_is_tombstone_def Expression_digest_modulo_def Expression_regex_compare_def
  Expression_geo_compare_def Expression_int_val_def Expression_bool_val_def
  Expression_string_val_def Expression_float_val_def Expression_blob_val_def
  Expression_list_val_def Expression_map_val_def Expression_geo_val_def
  Expression_nil_def Expression_infinity_def Expression_wildcard_def
  Expression_not_def Expression_and_def Expression_or_def
  Expression_xor_def Expression_eq_def Expression_ne_def
  Expression_gt_def Expression_ge_def Expression_lt_def
  Expression_le_def Expression_num_add_def Expression_num_sub_def
  Expression_num_mul_def Expression_num_div_def Expression_num_pow_def
  Expression_num_log_def Expression_num_mod_def Expression_num_abs_def
  Expression_num_floor_def Expression_num_ceil_def Expression_to_int_def
  Expression_to_float_def Expression_int_and_def Expression_int_or_def
  Expression_int_xor_def Expression_int_not_def Expression_int_lshift_def
  Expression_int_rshift_def Expression_int_arshift_def Expression_int_count_def
  Expression_int_lscan_def Expression_int_rscan_def Expression_min_def
  Expression_max_def Expression_cond_def Expression_exp_let_def
  Expression_def_def Expression_var_def Expression_unknown_def
  Expression_bin_exists_def

end
