(* ===== verification/Property_Tables.thy ===== *)
theory Property_Tables
  imports Expressions
begin

text \<open>
  PHP sees a policy object as a set of properties: \<^verbatim>\<open>#[getter]\<close> and \<^verbatim>\<open>#[setter]\<close>
  register, under a property name, the method that reads it and the method that writes it.
  This theory has the property names and values of the policy classes, the registration
  table of a class, and the locale \<open>property_bag\<close>: what a user of a policy object relies
  on, that a property reads back as it was last written and that writing one property
  leaves the others alone. The lemma \<open>writes_read_back\<close> proves from the laws that after
  any sequence of assignments every property has its last value or, if never assigned, its
  initial one.
\<close>

datatype (plugins only: code) property =
    F_max_retries | F_sleep_multiplier | F_total_timeout | F_socket_timeout
  | F_read_touch_ttl_percent | F_send_key | F_use_compression | F_exit_fast_on_exhausted_connection_pool
  | F_read_mode_ap | F_read_mode_sc | F_filter_expression | F_timeout
  | F_record_exists_action | F_generation_policy | F_commit_level | F_generation
  | F_expiration | F_respond_per_each_op | F_durable_delete | F_expected_duration
  | F_max_concurrent_nodes | F_record_queue_size | F_max_records | F_concurrent_nodes
  | F_allow_inline | F_allow_inline_ssd | F_respond_all_keys | F_allow_partial_results

datatype prop_value =
    P_u32 u32
  | P_u64 u64
  | P_i32 i32
  | P_f64 f64
  | P_bool bool
  | P_expression "Expression option"
  | P_expiration Expiration
  | P_read_mode_ap ReadModeAP
  | P_read_mode_sc ReadModeSC
  | P_record_exists_action RecordExistsAction
  | P_generation_policy GenerationPolicy
  | P_commit_level CommitLevel
  | P_query_duration QueryDuration

definition un_u32 :: "prop_value \<Rightarrow> u32 option" where
  "un_u32 v = (case v of P_u32 x \<Rightarrow> Some x | _ \<Rightarrow> None)"

definition un_u64 :: "prop_value \<Rightarrow> u64 option" where
  "un_u64 v = (case v of P_u64 x \<Rightarrow> Some x | _ \<Rightarrow> None)"

definition un_i32 :: "prop_value \<Rightarrow> i32 option" where
  "un_i32 v = (case v of P_i32 x \<Rightarrow> Some x | _ \<Rightarrow> None)"

definition un_f64 :: "prop_value \<Rightarrow> f64 option" where
  "un_f64 v = (case v of P_f64 x \<Rightarrow> Some x | _ \<Rightarrow> None)"

definition un_bool :: "prop_value \<Rightarrow> bool option" where
  "un_bool v = (case v of P_bool x \<Rightarrow> Some x | _ \<Rightarrow> None)"

definition un_expression :: "prop_value \<Rightarrow> (Expression option) option" where
  "un_expression v = (case v of P_expression x \<Rightarrow> Some x | _ \<Rightarrow> None)"

definition un_expiration :: "prop_value \<Rightarrow> Expiration option" where
  "un_expiration v = (case v of P_expiration x \<Rightarrow> Some x | _ \<Rightarrow> None)"

definition un_read_mode_ap :: "prop_value \<Rightarrow> ReadModeAP option" where
  "un_read_mode_ap v = (case v of P_read_mode_ap x \<Rightarrow> Some x | _ \<Rightarrow> None)"

definition un_read_mode_sc :: "prop_value \<Rightarrow> ReadModeSC option" where
  "un_read_mode_sc v = (case v of P_read_mode_sc x \<Rightarrow> Some x | _ \<Rightarrow> None)"

definition un_record_exists_action :: "prop_value \<Rightarrow> RecordExistsAction option" where
  "un_record_exists_action v = (case v of P_record_exists_action x \<Rightarrow> Some x | _ \<Rightarrow> None)"

definition un_generation_policy :: "prop_value \<Rightarrow> GenerationPolicy option" where
  "un_generation_policy v = (case v of P_generation_policy x \<Rightarrow> Some x | _ \<Rightarrow> None)"

definition un_commit_level :: "prop_value \<Rightarrow> CommitLevel option" where
  "un_commit_level v = (case v of P_commit_level x \<Rightarrow> Some x | _ \<Rightarrow> None)"

definition un_query_duration :: "prop_value \<Rightarrow> QueryDuration option" where
  "un_query_duration v = (case v of P_query_duration x \<Rightarrow> Some x | _ \<Rightarrow> None)"

lemmas un_prop_defs =
  un_u32_def un_u64_def un_i32_def un_f64_def un_bool_def un_expression_def
  un_expiration_def un_read_mode_ap_def un_read_mode_sc_def un_record_exists_action_def
  un_generation_policy_def un_commit_level_def un_query_duration_def

text \<open>
  An entry of the table: a reader, and a writer for the values that convert to the type of
  the property. A value that does not convert is refused by the extension layer before the
  method runs: the object stays as it is.
\<close>

type_synonym 's entry = "('s \<Rightarrow> panic + prop_value) \<times> (prop_value \<Rightarrow> ('s \<Rightarrow> panic + 's) option)"

definition entry ::
  "('a \<Rightarrow> prop_value) \<Rightarrow> (prop_value \<Rightarrow> 'a option) \<Rightarrow> ('s \<Rightarrow> panic + 'a) \<Rightarrow> ('a \<Rightarrow> 's \<Rightarrow> panic + 's) \<Rightarrow> 's entry" where
  "entry wrap unwr get set' = ((\<lambda>s. sbind (get s) (\<lambda>x. Inr (wrap x))), (\<lambda>v. map_option set' (unwr v)))"

definition read_property :: "(property \<times> 's entry) list \<Rightarrow> 's \<Rightarrow> property \<Rightarrow> (panic + prop_value) option" where
  "read_property tbl s f = map_option (\<lambda>e. fst e s) (map_of tbl f)"

definition write_property :: "(property \<times> 's entry) list \<Rightarrow> property \<Rightarrow> prop_value \<Rightarrow> 's \<Rightarrow> panic + 's" where
  "write_property tbl f v s =
     (case map_of tbl f of
        Some e \<Rightarrow> (case snd e v of Some assign \<Rightarrow> assign s | None \<Rightarrow> Inr s)
      | None \<Rightarrow> Inr s)"

text \<open>A sequence of assignments \<^verbatim>\<open>$policy->f = v\<close>.\<close>
fun writes :: "('f \<Rightarrow> 'v \<Rightarrow> 's \<Rightarrow> panic + 's) \<Rightarrow> ('f \<times> 'v) list \<Rightarrow> 's \<Rightarrow> panic + 's" where
  "writes set' [] s = Inr s"
| "writes set' ((f, v) # ws) s = sbind (set' f v s) (writes set' ws)"

text \<open>
  A value that can be assigned to the property and read back: it converts to the type of the
  property, and an expiration in seconds is not one of the reserved numbers.
\<close>

fun plain_prop :: "prop_value \<Rightarrow> bool" where
  "plain_prop (P_expiration e) = (Expiration_from_u32 (Expiration_into_u32 e) = e)"
| "plain_prop _ = True"

definition assignable :: "(property \<times> 's entry) list \<Rightarrow> property list \<Rightarrow> property \<Rightarrow> prop_value \<Rightarrow> bool" where
  "assignable tbl excluded f v \<longleftrightarrow>
     f \<notin> set excluded \<and> plain_prop v \<and>
     (case map_of tbl f of None \<Rightarrow> False | Some e \<Rightarrow> snd e v \<noteq> None)"

definition registered :: "(property \<times> 's entry) list \<Rightarrow> property list \<Rightarrow> property \<Rightarrow> bool" where
  "registered tbl excluded f \<longleftrightarrow> f \<in> fst ` set tbl \<and> f \<notin> set excluded"

section \<open>The contract of a policy object\<close>

locale property_bag =
  fixes fetch :: "'s \<Rightarrow> 'f \<Rightarrow> (panic + 'v) option" and assign :: "'f \<Rightarrow> 'v \<Rightarrow> 's \<Rightarrow> panic + 's"
    and accepts :: "'f \<Rightarrow> 'v \<Rightarrow> bool" and readable :: "'f \<Rightarrow> bool" and ok :: "'s \<Rightarrow> bool"
  assumes write_runs: "ok s \<Longrightarrow> accepts f v \<Longrightarrow> \<exists>s'. assign f v s = Inr s' \<and> ok s'"
    and read_write: "ok s \<Longrightarrow> accepts f v \<Longrightarrow> readable g \<Longrightarrow> assign f v s = Inr s' \<Longrightarrow>
      fetch s' g = (if g = f then Some (Inr v) else fetch s g)"
begin

lemma writes_read_back:
  "ok s \<Longrightarrow> list_all (\<lambda>(f, v). accepts f v) ws \<Longrightarrow>
    \<exists>s'. writes assign ws s = Inr s' \<and> ok s' \<and>
      (\<forall>g. readable g \<longrightarrow>
        fetch s' g = (case map_of (rev ws) g of Some v \<Rightarrow> Some (Inr v) | None \<Rightarrow> fetch s g))"
proof (induction ws arbitrary: s)
  case Nil
  then show ?case by simp
next
  case (Cons w ws)
  obtain f v where w: "w = (f, v)" by (cases w)
  with Cons.prems obtain s1 where s1: "assign f v s = Inr s1" "ok s1"
    using write_runs [of s f v] by auto
  with Cons.IH [of s1] Cons.prems obtain s' where s': "writes assign ws s1 = Inr s'" "ok s'"
      "\<And>g. readable g \<Longrightarrow>
        fetch s' g = (case map_of (rev ws) g of Some v \<Rightarrow> Some (Inr v) | None \<Rightarrow> fetch s1 g)"
    by (auto simp: w)
  have "fetch s' g = (case map_of (rev (w # ws)) g of Some v \<Rightarrow> Some (Inr v) | None \<Rightarrow> fetch s g)"
    if "readable g" for g
    using s'(3) [OF that] read_write [of s f v g s1] Cons.prems s1 that
    by (auto simp: w map_add_def split: option.splits)
  then show ?case using s1 s' by (auto simp: w)
qed

end

section \<open>Laws of tables\<close>

text \<open>
  A table satisfies the contract if every accepted assign succeeds, keeps the object ready
  for use and changes the registered properties as it should.
\<close>

definition table_law ::
  "(property \<times> 's entry) list \<Rightarrow> property list \<Rightarrow> property list \<Rightarrow> ('s \<Rightarrow> bool) \<Rightarrow> property \<times> 's entry \<Rightarrow> bool" where
  "table_law tbl nowrite noread ok e \<longleftrightarrow>
     (case e of (f, get, put) \<Rightarrow> f \<in> set nowrite \<or>
        (\<forall>v assign s. put v = Some assign \<and> plain_prop v \<and> ok s \<longrightarrow>
           (\<exists>s'. assign s = Inr s' \<and> ok s' \<and>
              (\<forall>(g, get', put') \<in> set tbl. g \<in> set noread \<or>
                 get' s' = (if g = f then Inr v else get' s)))))"

lemma table_property_bag:
  assumes "distinct (map fst tbl)" and "list_all (table_law tbl nowrite noread ok) tbl"
  shows "property_bag (read_property tbl) (write_property tbl) (assignable tbl nowrite)
    (registered tbl noread) ok"
proof
  have law: "\<exists>s'. write_property tbl f v s = Inr s' \<and> ok s' \<and> (\<forall>g. registered tbl noread g \<longrightarrow>
      read_property tbl s' g = (if g = f then Some (Inr v) else read_property tbl s g))"
    if ok: "ok s" and acc: "assignable tbl nowrite f v" for s f v
  proof -
    obtain get put where e: "map_of tbl f = Some (get, put)" "put v \<noteq> None"
      using acc by (auto simp: assignable_def split: option.splits)
    then obtain assign where assign: "put v = Some assign" by auto
    have "table_law tbl nowrite noread ok (f, get, put)"
      using assms(2) map_of_SomeD [OF e(1)] by (simp add: list_all_iff)
    then obtain s' where s': "assign s = Inr s'" "ok s'"
        "\<forall>(g, get', put') \<in> set tbl. g \<in> set noread \<or> get' s' = (if g = f then Inr v else get' s)"
      using acc assign ok unfolding table_law_def assignable_def by fastforce
    have "read_property tbl s' g = (if g = f then Some (Inr v) else read_property tbl s g)"
      if "registered tbl noread g" for g
    proof -
      obtain get' put' where g: "map_of tbl g = Some (get', put')"
        using \<open>registered tbl noread g\<close> by (force simp: registered_def map_of_eq_None_iff dest: weak_map_of_SomeI)
      then show ?thesis
        using s'(3) map_of_SomeD [OF g] that by (auto simp: read_property_def registered_def)
    qed
    moreover have "write_property tbl f v s = Inr s'"
      using e assign s'(1) by (simp add: write_property_def)
    ultimately show ?thesis using s'(2) by blast
  qed
  show "\<exists>s'. write_property tbl f v s = Inr s' \<and> ok s'" if "ok s" "assignable tbl nowrite f v" for s f v
    using law [OF that] by blast
  show "read_property tbl s' g = (if g = f then Some (Inr v) else read_property tbl s g)"
    if "ok s" "assignable tbl nowrite f v" "registered tbl noread g" "write_property tbl f v s = Inr s'"
    for s f v g s'
    using law [OF that(1,2)] that(3,4) by auto
qed

end
