(* ===== verification/Policies.thy ===== *)
theory Policies
  imports Property_Tables
begin

text \<open>
  The policy classes of \<^verbatim>\<open>src/lib.rs\<close> for single-record, scan and query commands: the
  protobuf records with their defaults, every getter and setter, and the property tables.
  Write policies hold an optional read policy, scan and query policies an optional multi
  policy that holds an optional read policy; getters unwrap these, setters either skip an
  absent one (\<^verbatim>\<open>as_mut().map\<close>) or panic (\<^verbatim>\<open>as_mut().unwrap()\<close>).
\<close>

text \<open>1.0 as a binary64 number.\<close>
definition f64_one :: f64 where "f64_one = 0x3FF0000000000000"

section \<open>ReadPolicy\<close>

record ReadPolicy =
  rp_filter_expression :: "Expression option"
  rp_read_mode_ap :: i32
  rp_read_mode_sc :: i32
  rp_total_timeout :: u64
  rp_socket_timeout :: u64
  rp_max_retries :: u32
  rp_sleep_between_retries :: i64
  rp_sleep_multiplier :: f64
  rp_exit_fast_on_exhausted_connection_pool :: bool
  rp_send_key :: bool
  rp_use_compression :: bool
  rp_replica_policy :: i32
  rp_read_touch_ttl_percent :: i32

definition ReadPolicy_default :: ReadPolicy where
  "ReadPolicy_default =
     \<lparr>rp_filter_expression = None,
      rp_read_mode_ap = ReadModeAP_into_i32 AP_One,
      rp_read_mode_sc = ReadModeSC_into_i32 SC_Session,
      rp_total_timeout = 1000,
      rp_socket_timeout = 500,
      rp_max_retries = 3,
      rp_sleep_between_retries = 1,
      rp_sleep_multiplier = f64_one,
      rp_exit_fast_on_exhausted_connection_pool = False,
      rp_send_key = False,
      rp_use_compression = False,
      rp_replica_policy = 1,
      rp_read_touch_ttl_percent = 0\<rparr>"

text \<open>\<^verbatim>\<open>proto::ReadPolicy::default()\<close>: a protobuf message with no field set.\<close>
definition proto_ReadPolicy_default :: ReadPolicy where
  "proto_ReadPolicy_default =
     \<lparr>rp_filter_expression = None,
      rp_read_mode_ap = 0,
      rp_read_mode_sc = 0,
      rp_total_timeout = 0,
      rp_socket_timeout = 0,
      rp_max_retries = 0,
      rp_sleep_between_retries = 0,
      rp_sleep_multiplier = 0,
      rp_exit_fast_on_exhausted_connection_pool = False,
      rp_send_key = False,
      rp_use_compression = False,
      rp_replica_policy = 0,
      rp_read_touch_ttl_percent = 0\<rparr>"

definition ReadPolicy_get_max_retries :: "ReadPolicy \<Rightarrow> panic + u32" where
  "ReadPolicy_get_max_retries s =
     Inr (rp_max_retries s)"

definition ReadPolicy_set_max_retries :: "u32 \<Rightarrow> ReadPolicy \<Rightarrow> panic + ReadPolicy" where
  "ReadPolicy_set_max_retries v s =
     Inr (s\<lparr>rp_max_retries := v\<rparr>)"

definition ReadPolicy_get_sleep_multiplier :: "ReadPolicy \<Rightarrow> panic + f64" where
  "ReadPolicy_get_sleep_multiplier s =
     Inr (rp_sleep_multiplier s)"

definition ReadPolicy_set_sleep_multiplier :: "f64 \<Rightarrow> ReadPolicy \<Rightarrow> panic + ReadPolicy" where
  "ReadPolicy_set_sleep_multiplier v s =
     Inr (s\<lparr>rp_sleep_multiplier := v\<rparr>)"

definition ReadPolicy_get_total_timeout :: "ReadPolicy \<Rightarrow> panic + u64" where
  "ReadPolicy_get_total_timeout s =
     Inr (rp_total_timeout s)"

definition ReadPolicy_set_total_timeout :: "u64 \<Rightarrow> ReadPolicy \<Rightarrow> panic + ReadPolicy" where
  "ReadPolicy_set_total_timeout v s =
     Inr (s\<lparr>rp_total_timeout := v\<rparr>)"

definition ReadPolicy_get_socket_timeout :: "ReadPolicy \<Rightarrow> panic + u64" where
  "ReadPolicy_get_socket_timeout s =
     Inr (rp_socket_timeout s)"

definition ReadPolicy_set_socket_timeout :: "u64 \<Rightarrow> ReadPolicy \<Rightarrow> panic + ReadPolicy" where
  "ReadPolicy_set_socket_timeout v s =
     Inr (s\<lparr>rp_socket_timeout := v\<rparr>)"

definition ReadPolicy_get_read_touch_ttl_percent :: "ReadPolicy \<Rightarrow> panic + i32" where
  "ReadPolicy_get_read_touch_ttl_percent s =
     Inr (rp_read_touch_ttl_percent s)"

definition ReadPolicy_set_read_touch_ttl_percent :: "i32 \<Rightarrow> ReadPolicy \<Rightarrow> panic + ReadPolicy" where
  "ReadPolicy_set_read_touch_ttl_percent v s =
     Inr (s\<lparr>rp_read_touch_ttl_percent := v\<rparr>)"

definition ReadPolicy_get_send_key :: "ReadPolicy \<Rightarrow> panic + bool" where
  "ReadPolicy_get_send_key s =
     Inr (rp_send_key s)"

definition ReadPolicy_set_send_key :: "bool \<Rightarrow> ReadPolicy \<Rightarrow> panic + ReadPolicy" where
  "ReadPolicy_set_send_key v s =
     Inr (s\<lparr>rp_send_key := v\<rparr>)"

definition ReadPolicy_get_use_compression :: "ReadPolicy \<Rightarrow> panic + bool" where
  "ReadPolicy_get_use_compression s =
     Inr (rp_use_compression s)"

definition ReadPolicy_set_use_compression :: "bool \<Rightarrow> ReadPolicy \<Rightarrow> panic + ReadPolicy" where
  "ReadPolicy_set_use_compression v s =
     Inr (s\<lparr>rp_use_compression := v\<rparr>)"

definition ReadPolicy_get_exit_fast_on_exhausted_connection_pool :: "ReadPolicy \<Rightarrow> panic + bool" where
  "ReadPolicy_get_exit_fast_on_exhausted_connection_pool s =
     Inr (rp_exit_fast_on_exhausted_connection_pool s)"

definition ReadPolicy_set_exit_fast_on_exhausted_connection_pool :: "bool \<Rightarrow> ReadPolicy \<Rightarrow> panic + ReadPolicy" where
  "ReadPolicy_set_exit_fast_on_exhausted_connection_pool v s =
     Inr (s\<lparr>rp_exit_fast_on_exhausted_connection_pool := v\<rparr>)"

definition ReadPolicy_get_read_mode_ap :: "ReadPolicy \<Rightarrow> panic + ReadModeAP" where
  "ReadPolicy_get_read_mode_ap s =
     ReadModeAP_from_i32 (rp_read_mode_ap s)"

definition ReadPolicy_set_read_mode_ap :: "ReadModeAP \<Rightarrow> ReadPolicy \<Rightarrow> panic + ReadPolicy" where
  "ReadPolicy_set_read_mode_ap v s =
     Inr (s\<lparr>rp_read_mode_ap := ReadModeAP_into_i32 v\<rparr>)"

definition ReadPolicy_get_read_mode_sc :: "ReadPolicy \<Rightarrow> panic + ReadModeSC" where
  "ReadPolicy_get_read_mode_sc s =
     ReadModeSC_from_i32 (rp_read_mode_ap s)"

definition ReadPolicy_set_read_mode_sc :: "ReadModeSC \<Rightarrow> ReadPolicy \<Rightarrow> panic + ReadPolicy" where
  "ReadPolicy_set_read_mode_sc v s =
     Inr (s\<lparr>rp_read_mode_sc := ReadModeSC_into_i32 v\<rparr>)"

definition ReadPolicy_get_filter_expression :: "ReadPolicy \<Rightarrow> panic + (Expression option)" where
  "ReadPolicy_get_filter_expression s =
     Inr (rp_filter_expression s)"

definition ReadPolicy_set_filter_expression :: "Expression option \<Rightarrow> ReadPolicy \<Rightarrow> panic + ReadPolicy" where
  "ReadPolicy_set_filter_expression v s =
     Inr (s\<lparr>rp_filter_expression := v\<rparr>)"

definition ReadPolicy_properties :: "(property \<times> ReadPolicy entry) list" where
  "ReadPolicy_properties =
    [(F_max_retries, entry P_u32 un_u32 ReadPolicy_get_max_retries ReadPolicy_set_max_retries),
     (F_sleep_multiplier, entry P_f64 un_f64 ReadPolicy_get_sleep_multiplier ReadPolicy_set_sleep_multiplier),
     (F_total_timeout, entry P_u64 un_u64 ReadPolicy_get_total_timeout ReadPolicy_set_total_timeout),
     (F_socket_timeout, entry P_u64 un_u64 ReadPolicy_get_socket_timeout ReadPolicy_set_socket_timeout),
     (F_read_touch_ttl_percent, entry P_i32 un_i32 ReadPolicy_get_read_touch_ttl_percent ReadPolicy_set_read_touch_ttl_percent),
     (F_send_key, entry P_bool un_bool ReadPolicy_get_send_key ReadPolicy_set_send_key),
     (F_use_compression, entry P_bool un_bool ReadPolicy_get_use_compression ReadPolicy_set_use_compression),
     (F_exit_fast_on_exhausted_connection_pool, entry P_bool un_bool ReadPolicy_get_exit_fast_on_exhausted_connection_pool ReadPolicy_set_exit_fast_on_exhausted_connection_pool),
     (F_read_mode_ap, entry P_read_mode_ap un_read_mode_ap ReadPolicy_get_read_mode_ap ReadPolicy_set_read_mode_ap),
     (F_read_mode_sc, entry P_read_mode_sc un_read_mode_sc ReadPolicy_get_read_mode_sc ReadPolicy_set_read_mode_sc),
     (F_filter_expression, entry P_expression un_expression ReadPolicy_get_filter_expression ReadPolicy_set_filter_expression)]"

section \<open>AdminPolicy and InfoPolicy\<close>

record AdminPolicy =
  ap_timeout :: u32

definition AdminPolicy_default :: AdminPolicy where
  "AdminPolicy_default =
     \<lparr>ap_timeout = 3000\<rparr>"

definition AdminPolicy_get_timeout :: "AdminPolicy \<Rightarrow> panic + u32" where
  "AdminPolicy_get_timeout s =
     Inr (ap_timeout s)"

definition AdminPolicy_set_timeout :: "u32 \<Rightarrow> AdminPolicy \<Rightarrow> panic + AdminPolicy" where
  "AdminPolicy_set_timeout v s =
     Inr (s\<lparr>ap_timeout := v\<rparr>)"

definition AdminPolicy_properties :: "(property \<times> AdminPolicy entry) list" where
  "AdminPolicy_properties =
    [(F_timeout, entry P_u32 un_u32 AdminPolicy_get_timeout AdminPolicy_set_timeout)]"

record InfoPolicy =
  ip_timeout :: u32

definition InfoPolicy_default :: InfoPolicy where
  "InfoPolicy_default =
     \<lparr>ip_timeout = 3000\<rparr>"

section \<open>WritePolicy\<close>

record WritePolicy =
  wp_policy :: "ReadPolicy option"
  wp_record_exists_action :: i32
  wp_generation_policy :: i32
  wp_commit_level :: i32
  wp_generation :: u32
  wp_expiration :: u32
  wp_respond_per_each_op :: bool
  wp_durable_delete :: bool

definition WritePolicy_default :: WritePolicy where
  "WritePolicy_default =
     \<lparr>wp_policy = Some proto_ReadPolicy_default,
      wp_record_exists_action = RecordExistsAction_into_i32 REA_Update,
      wp_generation_policy = GenerationPolicy_into_i32 GP_None,
      wp_commit_level = CommitLevel_into_i32 CL_CommitAll,
      wp_generation = 0,
      wp_expiration = 0,
      wp_respond_per_each_op = False,
      wp_durable_delete = False\<rparr>"

definition WritePolicy_get_record_exists_action :: "WritePolicy \<Rightarrow> panic + RecordExistsAction" where
  "WritePolicy_get_record_exists_action s =
     RecordExistsAction_from_i32 (wp_record_exists_action s)"

definition WritePolicy_set_record_exists_action :: "RecordExistsAction \<Rightarrow> WritePolicy \<Rightarrow> panic + WritePolicy" where
  "WritePolicy_set_record_exists_action v s =
     Inr (s\<lparr>wp_record_exists_action := RecordExistsAction_into_i32 v\<rparr>)"

definition WritePolicy_get_generation_policy :: "WritePolicy \<Rightarrow> panic + GenerationPolicy" where
  "WritePolicy_get_generation_policy s =
     GenerationPolicy_from_i32 (wp_generation_policy s)"

definition WritePolicy_set_generation_policy :: "GenerationPolicy \<Rightarrow> WritePolicy \<Rightarrow> panic + WritePolicy" where
  "WritePolicy_set_generation_policy v s =
     Inr (s\<lparr>wp_generation_policy := GenerationPolicy_into_i32 v\<rparr>)"

definition WritePolicy_get_commit_level :: "WritePolicy \<Rightarrow> panic + CommitLevel" where
  "WritePolicy_get_commit_level s =
     CommitLevel_from_i32 (wp_commit_level s)"

definition WritePolicy_set_commit_level :: "CommitLevel \<Rightarrow> WritePolicy \<Rightarrow> panic + WritePolicy" where
  "WritePolicy_set_commit_level v s =
     Inr (s\<lparr>wp_commit_level := CommitLevel_into_i32 v\<rparr>)"

definition WritePolicy_get_generation :: "WritePolicy \<Rightarrow> panic + u32" where
  "WritePolicy_get_generation s =
     Inr (wp_generation s)"

definition WritePolicy_set_generation :: "u32 \<Rightarrow> WritePolicy \<Rightarrow> panic + WritePolicy" where
  "WritePolicy_set_generation v s =
     Inr (s\<lparr>wp_generation := v\<rparr>)"

definition WritePolicy_get_expiration :: "WritePolicy \<Rightarrow> panic + Expiration" where
  "WritePolicy_get_expiration s =
     Inr (Expiration_from_u32 (wp_expiration s))"

definition WritePolicy_set_expiration :: "Expiration \<Rightarrow> WritePolicy \<Rightarrow> panic + WritePolicy" where
  "WritePolicy_set_expiration v s =
     Inr (s\<lparr>wp_expiration := Expiration_into_u32 v\<rparr>)"

definition WritePolicy_get_respond_per_each_op :: "WritePolicy \<Rightarrow> panic + bool" where
  "WritePolicy_get_respond_per_each_op s =
     Inr (wp_respond_per_each_op s)"

definition WritePolicy_set_respond_per_each_op :: "bool \<Rightarrow> WritePolicy \<Rightarrow> panic + WritePolicy" where
  "WritePolicy_set_respond_per_each_op v s =
     Inr (s\<lparr>wp_respond_per_each_op := v\<rparr>)"

definition WritePolicy_get_durable_delete :: "WritePolicy \<Rightarrow> panic + bool" where
  "WritePolicy_get_durable_delete s =
     Inr (wp_respond_per_each_op s)"

definition WritePolicy_set_durable_delete :: "bool \<Rightarrow> WritePolicy \<Rightarrow> panic + WritePolicy" where
  "WritePolicy_set_durable_delete v s =
     Inr (s\<lparr>wp_durable_delete := v\<rparr>)"

definition WritePolicy_get_max_retries :: "WritePolicy \<Rightarrow> panic + u32" where
  "WritePolicy_get_max_retries s =
     sbind (unwrap (wp_policy s)) (\<lambda>p. Inr (rp_max_retries p))"

definition WritePolicy_set_max_retries :: "u32 \<Rightarrow> WritePolicy \<Rightarrow> panic + WritePolicy" where
  "WritePolicy_set_max_retries v s =
     Inr (s\<lparr>wp_policy := map_option (\<lambda>p. p\<lparr>rp_max_retries := v\<rparr>) (wp_policy s)\<rparr>)"

definition WritePolicy_get_sleep_multiplier :: "WritePolicy \<Rightarrow> panic + f64" where
  "WritePolicy_get_sleep_multiplier s =
     sbind (unwrap (wp_policy s)) (\<lambda>p. Inr (rp_sleep_multiplier p))"

definition WritePolicy_set_sleep_multiplier :: "f64 \<Rightarrow> WritePolicy \<Rightarrow> panic + WritePolicy" where
  "WritePolicy_set_sleep_multiplier v s =
     Inr (s\<lparr>wp_policy := map_option (\<lambda>p. p\<lparr>rp_sleep_multiplier := v\<rparr>) (wp_policy s)\<rparr>)"

definition WritePolicy_get_total_timeout :: "WritePolicy \<Rightarrow> panic + u64" where
  "WritePolicy_get_total_timeout s =
     sbind (unwrap (wp_policy s)) (\<lambda>p. Inr (rp_total_timeout p))"

definition WritePolicy_set_total_timeout :: "u64 \<Rightarrow> WritePolicy \<Rightarrow> panic + WritePolicy" where
  "WritePolicy_set_total_timeout v s =
     Inr (s\<lparr>wp_policy := map_option (\<lambda>p. p\<lparr>rp_total_timeout := v\<rparr>) (wp_policy s)\<rparr>)"

definition WritePolicy_get_socket_timeout :: "WritePolicy \<Rightarrow> panic + u64" where
  "WritePolicy_get_socket_timeout s =
     sbind (unwrap (wp_policy s)) (\<lambda>p. Inr (rp_socket_timeout p))"

definition WritePolicy_set_socket_timeout :: "u64 \<Rightarrow> WritePolicy \<Rightarrow> panic + WritePolicy" where
  "WritePolicy_set_socket_timeout v s =
     Inr (s\<lparr>wp_policy := map_option (\<lambda>p. p\<lparr>rp_socket_timeout := v\<rparr>) (wp_policy s)\<rparr>)"

definition WritePolicy_get_send_key :: "WritePolicy \<Rightarrow> panic + bool" where
  "WritePolicy_get_send_key s =
     sbind (unwrap (wp_policy s)) (\<lambda>p. Inr (rp_send_key p))"

definition WritePolicy_set_send_key :: "bool \<Rightarrow> WritePolicy \<Rightarrow> panic + WritePolicy" where
  "WritePolicy_set_send_key v s =
     Inr (s\<lparr>wp_policy := map_option (\<lambda>p. p\<lparr>rp_send_key := v\<rparr>) (wp_policy s)\<rparr>)"

definition WritePolicy_get_use_compression :: "WritePolicy \<Rightarrow> panic + bool" where
  "WritePolicy_get_use_compression s =
     sbind (unwrap (wp_policy s)) (\<lambda>p. Inr (rp_use_compression p))"

definition WritePolicy_set_use_compression :: "bool \<Rightarrow> WritePolicy \<Rightarrow> panic + WritePolicy" where
  "WritePolicy_set_use_compression v s =
     Inr (s\<lparr>wp_policy := map_option (\<lambda>p. p\<lparr>rp_use_compression := v\<rparr>) (wp_policy s)\<rparr>)"

definition WritePolicy_get_exit_fast_on_exhausted_connection_pool :: "WritePolicy \<Rightarrow> panic + bool" where
  "WritePolicy_get_exit_fast_on_exhausted_connection_pool s =
     sbind (unwrap (wp_policy s)) (\<lambda>p. Inr (rp_exit_fast_on_exhausted_connection_pool p))"

definition WritePolicy_set_exit_fast_on_exhausted_connection_pool :: "bool \<Rightarrow> WritePolicy \<Rightarrow> panic + WritePolicy" where
  "WritePolicy_set_exit_fast_on_exhausted_connection_pool v s =
     Inr (s\<lparr>wp_policy := map_option (\<lambda>p. p\<lparr>rp_exit_fast_on_exhausted_connection_pool := v\<rparr>) (wp_policy s)\<rparr>)"

definition WritePolicy_get_read_mode_ap :: "WritePolicy \<Rightarrow> panic + ReadModeAP" where
  "WritePolicy_get_read_mode_ap s =
     sbind (unwrap (wp_policy s)) (\<lambda>p. ReadModeAP_from_i32 (rp_read_mode_ap p))"

definition WritePolicy_set_read_mode_ap :: "ReadModeAP \<Rightarrow> WritePolicy \<Rightarrow> panic + WritePolicy" where
  "WritePolicy_set_read_mode_ap v s =
     Inr (s\<lparr>wp_policy := map_option (\<lambda>p. p\<lparr>rp_read_mode_ap := ReadModeAP_into_i32 v\<rparr>) (wp_policy s)\<rparr>)"

definition WritePolicy_get_read_mode_sc :: "WritePolicy \<Rightarrow> panic + ReadModeSC" where
  "WritePolicy_get_read_mode_sc s =
     sbind (unwrap (wp_policy s)) (\<lambda>p. ReadModeSC_from_i32 (rp_read_mode_ap p))"

definition WritePolicy_set_read_mode_sc :: "ReadModeSC \<Rightarrow> WritePolicy \<Rightarrow> panic + WritePolicy" where
  "WritePolicy_set_read_mode_sc v s =
     Inr (s\<lparr>wp_policy := map_option (\<lambda>p. p\<lparr>rp_read_mode_sc := ReadModeSC_into_i32 v\<rparr>) (wp_policy s)\<rparr>)"

definition WritePolicy_get_filter_expression :: "WritePolicy \<Rightarrow> panic + (Expression option)" where
  "WritePolicy_get_filter_expression s =
     sbind (unwrap (wp_policy s)) (\<lambda>p. Inr (rp_filter_expression p))"

definition WritePolicy_set_filter_expression :: "Expression option \<Rightarrow> WritePolicy \<Rightarrow> panic + WritePolicy" where
  "WritePolicy_set_filter_expression v s =
     Inr (s\<lparr>wp_policy := map_option (\<lambda>p. p\<lparr>rp_filter_expression := v\<rparr>) (wp_policy s)\<rparr>)"

definition WritePolicy_properties :: "(property \<times> WritePolicy entry) list" where
  "WritePolicy_properties =
    [(F_record_exists_action, entry P_record_exists_action un_record_exists_action WritePolicy_get_record_exists_action WritePolicy_set_record_exists_action),
     (F_generation_policy, entry P_generation_policy un_generation_policy WritePolicy_get_generation_policy WritePolicy_set_generation_policy),
     (F_commit_level, entry P_commit_level un_commit_level WritePolicy_get_commit_level WritePolicy_set_commit_level),
     (F_generation, entry P_u32 un_u32 WritePolicy_get_generation WritePolicy_set_generation),
     (F_expiration, entry P_expiration un_expiration WritePolicy_get_expiration WritePolicy_set_expiration),
     (F_respond_per_each_op, entry P_bool un_bool WritePolicy_get_respond_per_each_op WritePolicy_set_respond_per_each_op),
     (F_durable_delete, entry P_bool un_bool WritePolicy_get_durable_delete WritePolicy_set_durable_delete),
     (F_max_retries, entry P_u32 un_u32 WritePolicy_get_max_retries WritePolicy_set_max_retries),
     (F_sleep_multiplier, entry P_f64 un_f64 WritePolicy_get_sleep_multiplier WritePolicy_set_sleep_multiplier),
     (F_total_timeout, entry P_u64 un_u64 WritePolicy_get_total_timeout WritePolicy_set_total_timeout),
     (F_socket_timeout, entry P_u64 un_u64 WritePolicy_get_socket_timeout WritePolicy_set_socket_timeout),
     (F_send_key, entry P_bool un_bool WritePolicy_get_send_key WritePolicy_set_send_key),
     (F_use_compression, entry P_bool un_bool WritePolicy_get_use_compression WritePolicy_set_use_compression),
     (F_exit_fast_on_exhausted_connection_pool, entry P_bool un_bool WritePolicy_get_exit_fast_on_exhausted_connection_pool WritePolicy_set_exit_fast_on_exhausted_connection_pool),
     (F_read_mode_ap, entry P_read_mode_ap un_read_mode_ap WritePolicy_get_read_mode_ap WritePolicy_set_read_mode_ap),
     (F_read_mode_sc, entry P_read_mode_sc un_read_mode_sc WritePolicy_get_read_mode_sc WritePolicy_set_read_mode_sc),
     (F_filter_expression, entry P_expression un_expression WritePolicy_get_filter_expression WritePolicy_set_filter_expression)]"

section \<open>MultiPolicy\<close>

record MultiPolicy =
  mp_read_policy :: "ReadPolicy option"
  mp_max_concurrent_nodes :: u32
  mp_max_records :: u64
  mp_records_per_second :: u64
  mp_record_queue_size :: u32
  mp_include_bin_data :: bool

text \<open>The default read policy with its total timeout set to zero.\<close>
definition MultiPolicy_default :: MultiPolicy where
  "MultiPolicy_default =
     \<lparr>mp_read_policy =
        (case ReadPolicy_set_total_timeout 0 ReadPolicy_default of Inr rp \<Rightarrow> Some rp | Inl _ \<Rightarrow> None),
      mp_max_concurrent_nodes = 0,
      mp_max_records = 0,
      mp_records_per_second = 0,
      mp_record_queue_size = 50,
      mp_include_bin_data = True\<rparr>"

section \<open>QueryPolicy\<close>

record QueryPolicy =
  qp_multi_policy :: "MultiPolicy option"
  qp_expected_duration :: i32

definition QueryPolicy_default :: QueryPolicy where
  "QueryPolicy_default =
     \<lparr>qp_multi_policy = Some MultiPolicy_default,
      qp_expected_duration = QueryDuration_into_i32 QD_Long\<rparr>"

definition QueryPolicy_get_expected_duration :: "QueryPolicy \<Rightarrow> panic + QueryDuration" where
  "QueryPolicy_get_expected_duration s =
     QueryDuration_from_i32 (qp_expected_duration s)"

definition QueryPolicy_set_expected_duration :: "QueryDuration \<Rightarrow> QueryPolicy \<Rightarrow> panic + QueryPolicy" where
  "QueryPolicy_set_expected_duration v s =
     Inr (s\<lparr>qp_expected_duration := QueryDuration_into_i32 v\<rparr>)"

definition QueryPolicy_get_max_concurrent_nodes :: "QueryPolicy \<Rightarrow> panic + u32" where
  "QueryPolicy_get_max_concurrent_nodes s =
     sbind (unwrap (qp_multi_policy s)) (\<lambda>m. Inr (mp_max_concurrent_nodes m))"

definition QueryPolicy_set_max_concurrent_nodes :: "u32 \<Rightarrow> QueryPolicy \<Rightarrow> panic + QueryPolicy" where
  "QueryPolicy_set_max_concurrent_nodes v s =
     sbind (unwrap (qp_multi_policy s)) (\<lambda>m.
       Inr (s\<lparr>qp_multi_policy := Some (m\<lparr>mp_max_concurrent_nodes := v\<rparr>)\<rparr>))"

definition QueryPolicy_get_record_queue_size :: "QueryPolicy \<Rightarrow> panic + u32" where
  "QueryPolicy_get_record_queue_size s =
     sbind (unwrap (qp_multi_policy s)) (\<lambda>m. Inr (mp_record_queue_size m))"

definition QueryPolicy_set_record_queue_size :: "u32 \<Rightarrow> QueryPolicy \<Rightarrow> panic + QueryPolicy" where
  "QueryPolicy_set_record_queue_size v s =
     sbind (unwrap (qp_multi_policy s)) (\<lambda>m.
       Inr (s\<lparr>qp_multi_policy := Some (m\<lparr>mp_record_queue_size := v\<rparr>)\<rparr>))"

definition QueryPolicy_get_max_retries :: "QueryPolicy \<Rightarrow> panic + u32" where
  "QueryPolicy_get_max_retries s =
     sbind (unwrap (qp_multi_policy s)) (\<lambda>m.
       sbind (unwrap (mp_read_policy m)) (\<lambda>p. Inr (rp_max_retries p)))"

definition QueryPolicy_set_max_retries :: "u32 \<Rightarrow> QueryPolicy \<Rightarrow> panic + QueryPolicy" where
  "QueryPolicy_set_max_retries v s =
     sbind (unwrap (qp_multi_policy s)) (\<lambda>m.
       Inr (s\<lparr>qp_multi_policy := Some (m\<lparr>mp_read_policy :=
         map_option (\<lambda>p. p\<lparr>rp_max_retries := v\<rparr>) (mp_read_policy m)\<rparr>)\<rparr>))"

definition QueryPolicy_get_sleep_multiplier :: "QueryPolicy \<Rightarrow> panic + f64" where
  "QueryPolicy_get_sleep_multiplier s =
     sbind (unwrap (qp_multi_policy s)) (\<lambda>m.
       sbind (unwrap (mp_read_policy m)) (\<lambda>p. Inr (rp_sleep_multiplier p)))"

definition QueryPolicy_set_sleep_multiplier :: "f64 \<Rightarrow> QueryPolicy \<Rightarrow> panic + QueryPolicy" where
  "QueryPolicy_set_sleep_multiplier v s =
     sbind (unwrap (qp_multi_policy s)) (\<lambda>m.
       Inr (s\<lparr>qp_multi_policy := Some (m\<lparr>mp_read_policy :=
         map_option (\<lambda>p. p\<lparr>rp_sleep_multiplier := v\<rparr>) (mp_read_policy m)\<rparr>)\<rparr>))"

definition QueryPolicy_get_total_timeout :: "QueryPolicy \<Rightarrow> panic + u64" where
  "QueryPolicy_get_total_timeout s =
     sbind (unwrap (qp_multi_policy s)) (\<lambda>m.
       sbind (unwrap (mp_read_policy m)) (\<lambda>p. Inr (rp_total_timeout p)))"

definition QueryPolicy_set_total_timeout :: "u64 \<Rightarrow> QueryPolicy \<Rightarrow> panic + QueryPolicy" where
  "QueryPolicy_set_total_timeout v s =
     sbind (unwrap (qp_multi_policy s)) (\<lambda>m.
       Inr (s\<lparr>qp_multi_policy := Some (m\<lparr>mp_read_policy :=
         map_option (\<lambda>p. p\<lparr>rp_total_timeout := v\<rparr>) (mp_read_policy m)\<rparr>)\<rparr>))"

definition QueryPolicy_get_socket_timeout :: "QueryPolicy \<Rightarrow> panic + u64" where
  "QueryPolicy_get_socket_timeout s =
     sbind (unwrap (qp_multi_policy s)) (\<lambda>m.
       sbind (unwrap (mp_read_policy m)) (\<lambda>p. Inr (rp_socket_timeout p)))"

definition QueryPolicy_set_socket_timeout :: "u64 \<Rightarrow> QueryPolicy \<Rightarrow> panic + QueryPolicy" where
  "QueryPolicy_set_socket_timeout v s =
     sbind (unwrap (qp_multi_policy s)) (\<lambda>m.
       Inr (s\<lparr>qp_multi_policy := Some (m\<lparr>mp_read_policy :=
         map_option (\<lambda>p. p\<lparr>rp_socket_timeout := v\<rparr>) (mp_read_policy m)\<rparr>)\<rparr>))"

definition QueryPolicy_get_send_key :: "QueryPolicy \<Rightarrow> panic + bool" where
  "QueryPolicy_get_send_key s =
     sbind (unwrap (qp_multi_policy s)) (\<lambda>m.
       sbind (unwrap (mp_read_policy m)) (\<lambda>p. Inr (rp_send_key p)))"

definition QueryPolicy_set_send_key :: "bool \<Rightarrow> QueryPolicy \<Rightarrow> panic + QueryPolicy" where
  "QueryPolicy_set_send_key v s =
     sbind (unwrap (qp_multi_policy s)) (\<lambda>m.
       Inr (s\<lparr>qp_multi_policy := Some (m\<lparr>mp_read_policy :=
         map_option (\<lambda>p. p\<lparr>rp_send_key := v\<rparr>) (mp_read_policy m)\<rparr>)\<rparr>))"

definition QueryPolicy_get_use_compression :: "QueryPolicy \<Rightarrow> panic + bool" where
  "QueryPolicy_get_use_compression s =
     sbind (unwrap (qp_multi_policy s)) (\<lambda>m.
       sbind (unwrap (mp_read_policy m)) (\<lambda>p. Inr (rp_use_compression p)))"

definition QueryPolicy_set_use_compression :: "bool \<Rightarrow> QueryPolicy \<Rightarrow> panic + QueryPolicy" where
  "QueryPolicy_set_use_compression v s =
     sbind (unwrap (qp_multi_policy s)) (\<lambda>m.
       Inr (s\<lparr>qp_multi_policy := Some (m\<lparr>mp_read_policy :=
         map_option (\<lambda>p. p\<lparr>rp_use_compression := v\<rparr>) (mp_read_policy m)\<rparr>)\<rparr>))"

definition QueryPolicy_get_exit_fast_on_exhausted_connection_pool :: "QueryPolicy \<Rightarrow> panic + bool" where
  "QueryPolicy_get_exit_fast_on_exhausted_connection_pool s =
     sbind (unwrap (qp_multi_policy s)) (\<lambda>m.
       sbind (unwrap (mp_read_policy m)) (\<lambda>p. Inr (rp_exit_fast_on_exhausted_connection_pool p)))"

definition QueryPolicy_set_exit_fast_on_exhausted_connection_pool :: "bool \<Rightarrow> QueryPolicy \<Rightarrow> panic + QueryPolicy" where
  "QueryPolicy_set_exit_fast_on_exhausted_connection_pool v s =
     sbind (unwrap (qp_multi_policy s)) (\<lambda>m.
       Inr (s\<lparr>qp_multi_policy := Some (m\<lparr>mp_read_policy :=
         map_option (\<lambda>p. p\<lparr>rp_exit_fast_on_exhausted_connection_pool := v\<rparr>) (mp_read_policy m)\<rparr>)\<rparr>))"

definition QueryPolicy_get_read_mode_ap :: "QueryPolicy \<Rightarrow> panic + ReadModeAP" where
  "QueryPolicy_get_read_mode_ap s =
     sbind (unwrap (qp_multi_policy s)) (\<lambda>m.
       sbind (unwrap (mp_read_policy m)) (\<lambda>p. ReadModeAP_from_i32 (rp_read_mode_ap p)))"

definition QueryPolicy_set_read_mode_ap :: "ReadModeAP \<Rightarrow> QueryPolicy \<Rightarrow> panic + QueryPolicy" where
  "QueryPolicy_set_read_mode_ap v s =
     sbind (unwrap (qp_multi_policy s)) (\<lambda>m.
       Inr (s\<lparr>qp_multi_policy := Some (m\<lparr>mp_read_policy :=
         map_option (\<lambda>p. p\<lparr>rp_read_mode_ap := ReadModeAP_into_i32 v\<rparr>) (mp_read_policy m)\<rparr>)\<rparr>))"

definition QueryPolicy_get_read_mode_sc :: "QueryPolicy \<Rightarrow> panic + ReadModeSC" where
  "QueryPolicy_get_read_mode_sc s =
     sbind (unwrap (qp_multi_policy s)) (\<lambda>m.
       sbind (unwrap (mp_read_policy m)) (\<lambda>p. ReadModeSC_from_i32 (rp_read_mode_ap p)))"

definition QueryPolicy_set_read_mode_sc :: "ReadModeSC \<Rightarrow> QueryPolicy \<Rightarrow> panic + QueryPolicy" where
  "QueryPolicy_set_read_mode_sc v s =
     sbind (unwrap (qp_multi_policy s)) (\<lambda>m.
       Inr (s\<lparr>qp_multi_policy := Some (m\<lparr>mp_read_policy :=
         map_option (\<lambda>p. p\<lparr>rp_read_mode_sc := ReadModeSC_into_i32 v\<rparr>) (mp_read_policy m)\<rparr>)\<rparr>))"

definition QueryPolicy_get_filter_expression :: "QueryPolicy \<Rightarrow> panic + (Expression option)" where
  "QueryPolicy_get_filter_expression s =
     sbind (unwrap (qp_multi_policy s)) (\<lambda>m.
       sbind (unwrap (mp_read_policy m)) (\<lambda>p. Inr (rp_filter_expression p)))"

definition QueryPolicy_set_filter_expression :: "Expression option \<Rightarrow> QueryPolicy \<Rightarrow> panic + QueryPolicy" where
  "QueryPolicy_set_filter_expression v s =
     sbind (unwrap (qp_multi_policy s)) (\<lambda>m.
       Inr (s\<lparr>qp_multi_policy := Some (m\<lparr>mp_read_policy :=
         map_option (\<lambda>p. p\<lparr>rp_filter_expression := v\<rparr>) (mp_read_policy m)\<rparr>)\<rparr>))"

definition QueryPolicy_properties :: "(property \<times> QueryPolicy entry) list" where
  "QueryPolicy_properties =
    [(F_expected_duration, entry P_query_duration un_query_duration QueryPolicy_get_expected_duration QueryPolicy_set_expected_duration),
     (F_max_concurrent_nodes, entry P_u32 un_u32 QueryPolicy_get_max_concurrent_nodes QueryPolicy_set_max_concurrent_nodes),
     (F_record_queue_size, entry P_u32 un_u32 QueryPolicy_get_record_queue_size QueryPolicy_set_record_queue_size),
     (F_max_retries, entry P_u32 un_u32 QueryPolicy_get_max_retries QueryPolicy_set_max_retries),
     (F_sleep_multiplier, entry P_f64 un_f64 QueryPolicy_get_sleep_multiplier QueryPolicy_set_sleep_multiplier),
     (F_total_timeout, entry P_u64 un_u64 QueryPolicy_get_total_timeout QueryPolicy_set_total_timeout),
     (F_socket_timeout, entry P_u64 un_u64 QueryPolicy_get_socket_timeout QueryPolicy_set_socket_timeout),
     (F_send_key, entry P_bool un_bool QueryPolicy_get_send_key QueryPolicy_set_send_key),
     (F_use_compression, entry P_bool un_bool QueryPolicy_get_use_compression QueryPolicy_set_use_compression),
     (F_exit_fast_on_exhausted_connection_pool, entry P_bool un_bool QueryPolicy_get_exit_fast_on_exhausted_connection_pool QueryPolicy_set_exit_fast_on_exhausted_connection_pool),
     (F_read_mode_ap, entry P_read_mode_ap un_read_mode_ap QueryPolicy_get_read_mode_ap QueryPolicy_set_read_mode_ap),
     (F_read_mode_sc, entry P_read_mode_sc un_read_mode_sc QueryPolicy_get_read_mode_sc QueryPolicy_set_read_mode_sc),
     (F_filter_expression, entry P_expression un_expression QueryPolicy_get_filter_expression QueryPolicy_set_filter_expression)]"

section \<open>ScanPolicy\<close>

record ScanPolicy =
  sp_multi_policy :: "MultiPolicy option"

definition ScanPolicy_default :: ScanPolicy where
  "ScanPolicy_default =
     \<lparr>sp_multi_policy = Some MultiPolicy_default\<rparr>"

definition ScanPolicy_get_max_records :: "ScanPolicy \<Rightarrow> panic + u64" where
  "ScanPolicy_get_max_records s =
     sbind (unwrap (sp_multi_policy s)) (\<lambda>m. Inr (mp_max_records m))"

definition ScanPolicy_set_max_records :: "u64 \<Rightarrow> ScanPolicy \<Rightarrow> panic + ScanPolicy" where
  "ScanPolicy_set_max_records v s =
     sbind (unwrap (sp_multi_policy s)) (\<lambda>m.
       Inr (s\<lparr>sp_multi_policy := Some (m\<lparr>mp_max_records := v\<rparr>)\<rparr>))"

definition ScanPolicy_get_max_concurrent_nodes :: "ScanPolicy \<Rightarrow> panic + u32" where
  "ScanPolicy_get_max_concurrent_nodes s =
     sbind (unwrap (sp_multi_policy s)) (\<lambda>m. Inr (mp_max_concurrent_nodes m))"

definition ScanPolicy_set_max_concurrent_nodes :: "u32 \<Rightarrow> ScanPolicy \<Rightarrow> panic + ScanPolicy" where
  "ScanPolicy_set_max_concurrent_nodes v s =
     sbind (unwrap (sp_multi_policy s)) (\<lambda>m.
       Inr (s\<lparr>sp_multi_policy := Some (m\<lparr>mp_max_concurrent_nodes := v\<rparr>)\<rparr>))"

definition ScanPolicy_get_record_queue_size :: "ScanPolicy \<Rightarrow> panic + u32" where
  "ScanPolicy_get_record_queue_size s =
     sbind (unwrap (sp_multi_policy s)) (\<lambda>m. Inr (mp_record_queue_size m))"

definition ScanPolicy_set_record_queue_size :: "u32 \<Rightarrow> ScanPolicy \<Rightarrow> panic + ScanPolicy" where
  "ScanPolicy_set_record_queue_size v s =
     sbind (unwrap (sp_multi_policy s)) (\<lambda>m.
       Inr (s\<lparr>sp_multi_policy := Some (m\<lparr>mp_record_queue_size := v\<rparr>)\<rparr>))"

definition ScanPolicy_get_max_retries :: "ScanPolicy \<Rightarrow> panic + u32" where
  "ScanPolicy_get_max_retries s =
     sbind (unwrap (sp_multi_policy s)) (\<lambda>m.
       sbind (unwrap (mp_read_policy m)) (\<lambda>p. Inr (rp_max_retries p)))"

definition ScanPolicy_set_max_retries :: "u32 \<Rightarrow> ScanPolicy \<Rightarrow> panic + ScanPolicy" where
  "ScanPolicy_set_max_retries v s =
     sbind (unwrap (sp_multi_policy s)) (\<lambda>m.
       Inr (s\<lparr>sp_multi_policy := Some (m\<lparr>mp_read_policy :=
         map_option (\<lambda>p. p\<lparr>rp_max_retries := v\<rparr>) (mp_read_policy m)\<rparr>)\<rparr>))"

definition ScanPolicy_get_sleep_multiplier :: "ScanPolicy \<Rightarrow> panic + f64" where
  "ScanPolicy_get_sleep_multiplier s =
     sbind (unwrap (sp_multi_policy s)) (\<lambda>m.
       sbind (unwrap (mp_read_policy m)) (\<lambda>p. Inr (rp_sleep_multiplier p)))"

definition ScanPolicy_set_sleep_multiplier :: "f64 \<Rightarrow> ScanPolicy \<Rightarrow> panic + ScanPolicy" where
  "ScanPolicy_set_sleep_multiplier v s =
     sbind (unwrap (sp_multi_policy s)) (\<lambda>m.
       Inr (s\<lparr>sp_multi_policy := Some (m\<lparr>mp_read_policy :=
         map_option (\<lambda>p. p\<lparr>rp_sleep_multiplier := v\<rparr>) (mp_read_policy m)\<rparr>)\<rparr>))"

definition ScanPolicy_get_total_timeout :: "ScanPolicy \<Rightarrow> panic + u64" where
  "ScanPolicy_get_total_timeout s =
     sbind (unwrap (sp_multi_policy s)) (\<lambda>m.
       sbind (unwrap (mp_read_policy m)) (\<lambda>p. Inr (rp_total_timeout p)))"

definition ScanPolicy_set_total_timeout :: "u64 \<Rightarrow> ScanPolicy \<Rightarrow> panic + ScanPolicy" where
  "ScanPolicy_set_total_timeout v s =
     sbind (unwrap (sp_multi_policy s)) (\<lambda>m.
       Inr (s\<lparr>sp_multi_policy := Some (m\<lparr>mp_read_policy :=
         map_option (\<lambda>p. p\<lparr>rp_total_timeout := v\<rparr>) (mp_read_policy m)\<rparr>)\<rparr>))"

definition ScanPolicy_get_socket_timeout :: "ScanPolicy \<Rightarrow> panic + u64" where
  "ScanPolicy_get_socket_timeout s =
     sbind (unwrap (sp_multi_policy s)) (\<lambda>m.
       sbind (unwrap (mp_read_policy m)) (\<lambda>p. Inr (rp_socket_timeout p)))"

definition ScanPolicy_set_socket_timeout :: "u64 \<Rightarrow> ScanPolicy \<Rightarrow> panic + ScanPolicy" where
  "ScanPolicy_set_socket_timeout v s =
     sbind (unwrap (sp_multi_policy s)) (\<lambda>m.
       Inr (s\<lparr>sp_multi_policy := Some (m\<lparr>mp_read_policy :=
         map_option (\<lambda>p. p\<lparr>rp_socket_timeout := v\<rparr>) (mp_read_policy m)\<rparr>)\<rparr>))"

definition ScanPolicy_get_send_key :: "ScanPolicy \<Rightarrow> panic + bool" where
  "ScanPolicy_get_send_key s =
     sbind (unwrap (sp_multi_policy s)) (\<lambda>m.
       sbind (unwrap (mp_read_policy m)) (\<lambda>p. Inr (rp_send_key p)))"

definition ScanPolicy_set_send_key :: "bool \<Rightarrow> ScanPolicy \<Rightarrow> panic + ScanPolicy" where
  "ScanPolicy_set_send_key v s =
     sbind (unwrap (sp_multi_policy s)) (\<lambda>m.
       Inr (s\<lparr>sp_multi_policy := Some (m\<lparr>mp_read_policy :=
         map_option (\<lambda>p. p\<lparr>rp_send_key := v\<rparr>) (mp_read_policy m)\<rparr>)\<rparr>))"

definition ScanPolicy_get_use_compression :: "ScanPolicy \<Rightarrow> panic + bool" where
  "ScanPolicy_get_use_compression s =
     sbind (unwrap (sp_multi_policy s)) (\<lambda>m.
       sbind (unwrap (mp_read_policy m)) (\<lambda>p. Inr (rp_use_compression p)))"

definition ScanPolicy_set_use_compression :: "bool \<Rightarrow> ScanPolicy \<Rightarrow> panic + ScanPolicy" where
  "ScanPolicy_set_use_compression v s =
     sbind (unwrap (sp_multi_policy s)) (\<lambda>m.
       Inr (s\<lparr>sp_multi_policy := Some (m\<lparr>mp_read_policy :=
         map_option (\<lambda>p. p\<lparr>rp_use_compression := v\<rparr>) (mp_read_policy m)\<rparr>)\<rparr>))"

definition ScanPolicy_get_exit_fast_on_exhausted_connection_pool :: "ScanPolicy \<Rightarrow> panic + bool" where
  "ScanPolicy_get_exit_fast_on_exhausted_connection_pool s =
     sbind (unwrap (sp_multi_policy s)) (\<lambda>m.
       sbind (unwrap (mp_read_policy m)) (\<lambda>p. Inr (rp_exit_fast_on_exhausted_connection_pool p)))"

definition ScanPolicy_set_exit_fast_on_exhausted_connection_pool :: "bool \<Rightarrow> ScanPolicy \<Rightarrow> panic + ScanPolicy" where
  "ScanPolicy_set_exit_fast_on_exhausted_connection_pool v s =
     sbind (unwrap (sp_multi_policy s)) (\<lambda>m.
       Inr (s\<lparr>sp_multi_policy := Some (m\<lparr>mp_read_policy :=
         map_option (\<lambda>p. p\<lparr>rp_exit_fast_on_exhausted_connection_pool := v\<rparr>) (mp_read_policy m)\<rparr>)\<rparr>))"

definition ScanPolicy_get_read_mode_ap :: "ScanPolicy \<Rightarrow> panic + ReadModeAP" where
  "ScanPolicy_get_read_mode_ap s =
     sbind (unwrap (sp_multi_policy s)) (\<lambda>m.
       sbind (unwrap (mp_read_policy m)) (\<lambda>p. ReadModeAP_from_i32 (rp_read_mode_ap p)))"

definition ScanPolicy_set_read_mode_ap :: "ReadModeAP \<Rightarrow> ScanPolicy \<Rightarrow> panic + ScanPolicy" where
  "ScanPolicy_set_read_mode_ap v s =
     sbind (unwrap (sp_multi_policy s)) (\<lambda>m.
       Inr (s\<lparr>sp_multi_policy := Some (m\<lparr>mp_read_policy :=
         map_option (\<lambda>p. p\<lparr>rp_read_mode_ap := ReadModeAP_into_i32 v\<rparr>) (mp_read_policy m)\<rparr>)\<rparr>))"

definition ScanPolicy_get_read_mode_sc :: "ScanPolicy \<Rightarrow> panic + ReadModeSC" where
  "ScanPolicy_get_read_mode_sc s =
     sbind (unwrap (sp_multi_policy s)) (\<lambda>m.
       sbind (unwrap (mp_read_policy m)) (\<lambda>p. ReadModeSC_from_i32 (rp_read_mode_ap p)))"

definition ScanPolicy_set_read_mode_sc :: "ReadModeSC \<Rightarrow> ScanPolicy \<Rightarrow> panic + ScanPolicy" where
  "ScanPolicy_set_read_mode_sc v s =
     sbind (unwrap (sp_multi_policy s)) (\<lambda>m.
       Inr (s\<lparr>sp_multi_policy := Some (m\<lparr>mp_read_policy :=
         map_option (\<lambda>p. p\<lparr>rp_read_mode_sc := ReadModeSC_into_i32 v\<rparr>) (mp_read_policy m)\<rparr>)\<rparr>))"

definition ScanPolicy_get_filter_expression :: "ScanPolicy \<Rightarrow> panic + (Expression option)" where
  "ScanPolicy_get_filter_expression s =
     sbind (unwrap (sp_multi_policy s)) (\<lambda>m.
       sbind (unwrap (mp_read_policy m)) (\<lambda>p. Inr (rp_filter_expression p)))"

definition ScanPolicy_set_filter_expression :: "Expression option \<Rightarrow> ScanPolicy \<Rightarrow> panic + ScanPolicy" where
  "ScanPolicy_set_filter_expression v s =
     sbind (unwrap (sp_multi_policy s)) (\<lambda>m.
       Inr (s\<lparr>sp_multi_policy := Some (m\<lparr>mp_read_policy :=
         map_option (\<lambda>p. p\<lparr>rp_filter_expression := v\<rparr>) (mp_read_policy m)\<rparr>)\<rparr>))"

definition ScanPolicy_properties :: "(property \<times> ScanPolicy entry) list" where
  "ScanPolicy_properties =
    [(F_max_records, entry P_u64 un_u64 ScanPolicy_get_max_records ScanPolicy_set_max_records),
     (F_max_concurrent_nodes, entry P_u32 un_u32 ScanPolicy_get_max_concurrent_nodes ScanPolicy_set_max_concurrent_nodes),
     (F_record_queue_size, entry P_u32 un_u32 ScanPolicy_get_record_queue_size ScanPolicy_set_record_queue_size),
     (F_max_retries, entry P_u32 un_u32 ScanPolicy_get_max_retries ScanPolicy_set_max_retries),
     (F_sleep_multiplier, entry P_f64 un_f64 ScanPolicy_get_sleep_multiplier ScanPolicy_set_sleep_multiplier),
     (F_total_timeout, entry P_u64 un_u64 ScanPolicy_get_total_timeout ScanPolicy_set_total_timeout),
     (F_socket_timeout, entry P_u64 un_u64 ScanPolicy_get_socket_timeout ScanPolicy_set_socket_timeout),
     (F_send_key, entry P_bool un_bool ScanPolicy_get_send_key ScanPolicy_set_send_key),
     (F_use_compression, entry P_bool un_bool ScanPolicy_get_use_compression ScanPolicy_set_use_compression),
     (F_exit_fast_on_exhausted_connection_pool, entry P_bool un_bool ScanPolicy_get_exit_fast_on_exhausted_connection_pool ScanPolicy_set_exit_fast_on_exhausted_connection_pool),
     (F_read_mode_ap, entry P_read_mode_ap un_read_mode_ap ScanPolicy_get_read_mode_ap ScanPolicy_set_read_mode_ap),
     (F_read_mode_sc, entry P_read_mode_sc un_read_mode_sc ScanPolicy_get_read_mode_sc ScanPolicy_set_read_mode_sc),
     (F_filter_expression, entry P_expression un_expression ScanPolicy_get_filter_expression ScanPolicy_set_filter_expression)]"

section \<open>Laws\<close>

lemmas ReadPolicy_accessors =
  ReadPolicy_get_max_retries_def ReadPolicy_set_max_retries_def
  ReadPolicy_get_sleep_multiplier_def ReadPolicy_set_sleep_multiplier_def
  ReadPolicy_get_total_timeout_def ReadPolicy_set_total_timeout_def
  ReadPolicy_get_socket_timeout_def ReadPolicy_set_socket_timeout_def
  ReadPolicy_get_read_touch_ttl_percent_def ReadPolicy_set_read_touch_ttl_percent_def
  ReadPolicy_get_send_key_def ReadPolicy_set_send_key_def
  ReadPolicy_get_use_compression_def ReadPolicy_set_use_compression_def
  ReadPolicy_get_exit_fast_on_exhausted_connection_pool_def ReadPolicy_set_exit_fast_on_exhausted_connection_pool_def
  ReadPolicy_get_read_mode_ap_def ReadPolicy_set_read_mode_ap_def
  ReadPolicy_get_read_mode_sc_def ReadPolicy_set_read_mode_sc_def
  ReadPolicy_get_filter_expression_def ReadPolicy_set_filter_expression_def

lemmas AdminPolicy_accessors =
  AdminPolicy_get_timeout_def AdminPolicy_set_timeout_def

lemmas WritePolicy_accessors =
  WritePolicy_get_record_exists_action_def WritePolicy_set_record_exists_action_def
  WritePolicy_get_generation_policy_def WritePolicy_set_generation_policy_def
  WritePolicy_get_commit_level_def WritePolicy_set_commit_level_def
  WritePolicy_get_generation_def WritePolicy_set_generation_def
  WritePolicy_get_expiration_def WritePolicy_set_expiration_def
  WritePolicy_get_respond_per_each_op_def WritePolicy_set_respond_per_each_op_def
  WritePolicy_get_durable_delete_def WritePolicy_set_durable_delete_def
  WritePolicy_get_max_retries_def WritePolicy_set_max_retries_def
  WritePolicy_get_sleep_multiplier_def WritePolicy_set_sleep_multiplier_def
  WritePolicy_get_total_timeout_def WritePolicy_set_total_timeout_def
  WritePolicy_get_socket_timeout_def WritePolicy_set_socket_timeout_def
  WritePolicy_get_send_key_def WritePolicy_set_send_key_def
  WritePolicy_get_use_compression_def WritePolicy_set_use_compression_def
  WritePolicy_get_exit_fast_on_exhausted_connection_pool_def WritePolicy_set_exit_fast_on_exhausted_connection_pool_def
  WritePolicy_get_read_mode_ap_def WritePolicy_set_read_mode_ap_def
  WritePolicy_get_read_mode_sc_def WritePolicy_set_read_mode_sc_def
  WritePolicy_get_filter_expression_def WritePolicy_set_filter_expression_def

lemmas QueryPolicy_accessors =
  QueryPolicy_get_expected_duration_def QueryPolicy_set_expected_duration_def
  QueryPolicy_get_max_concurrent_nodes_def QueryPolicy_set_max_concurrent_nodes_def
  QueryPolicy_get_record_queue_size_def QueryPolicy_set_record_queue_size_def
  QueryPolicy_get_max_retries_def QueryPolicy_set_max_retries_def
  QueryPolicy_get_sleep_multiplier_def QueryPolicy_set_sleep_multiplier_def
  QueryPolicy_get_total_timeout_def QueryPolicy_set_total_timeout_def
  QueryPolicy_get_socket_timeout_def QueryPolicy_set_socket_timeout_def
  QueryPolicy_get_send_key_def QueryPolicy_set_send_key_def
  QueryPolicy_get_use_compression_def QueryPolicy_set_use_compression_def
  QueryPolicy_get_exit_fast_on_exhausted_connection_pool_def QueryPolicy_set_exit_fast_on_exhausted_connection_pool_def
  QueryPolicy_get_read_mode_ap_def QueryPolicy_set_read_mode_ap_def
  QueryPolicy_get_read_mode_sc_def QueryPolicy_set_read_mode_sc_def
  QueryPolicy_get_filter_expression_def QueryPolicy_set_filter_expression_def

lemmas ScanPolicy_accessors =
  ScanPolicy_get_max_records_def ScanPolicy_set_max_records_def
  ScanPolicy_get_max_concurrent_nodes_def ScanPolicy_set_max_concurrent_nodes_def
  ScanPolicy_get_record_queue_size_def ScanPolicy_set_record_queue_size_def
  ScanPolicy_get_max_retries_def ScanPolicy_set_max_retries_def
  ScanPolicy_get_sleep_multiplier_def ScanPolicy_set_sleep_multiplier_def
  ScanPolicy_get_total_timeout_def ScanPolicy_set_total_timeout_def
  ScanPolicy_get_socket_timeout_def ScanPolicy_set_socket_timeout_def
  ScanPolicy_get_send_key_def ScanPolicy_set_send_key_def
  ScanPolicy_get_use_compression_def ScanPolicy_set_use_compression_def
  ScanPolicy_get_exit_fast_on_exhausted_connection_pool_def ScanPolicy_set_exit_fast_on_exhausted_connection_pool_def
  ScanPolicy_get_read_mode_ap_def ScanPolicy_set_read_mode_ap_def
  ScanPolicy_get_read_mode_sc_def ScanPolicy_set_read_mode_sc_def
  ScanPolicy_get_filter_expression_def ScanPolicy_set_filter_expression_def

text \<open>A policy object with its nested policies present, as the constructors make it.\<close>

definition WritePolicy_ok :: "WritePolicy \<Rightarrow> bool" where
  "WritePolicy_ok s \<longleftrightarrow> wp_policy s \<noteq> None"

definition MultiPolicy_ok :: "MultiPolicy option \<Rightarrow> bool" where
  "MultiPolicy_ok m \<longleftrightarrow> (case m of None \<Rightarrow> False | Some m \<Rightarrow> mp_read_policy m \<noteq> None)"

definition QueryPolicy_ok :: "QueryPolicy \<Rightarrow> bool" where
  "QueryPolicy_ok s \<longleftrightarrow> MultiPolicy_ok (qp_multi_policy s)"

definition ScanPolicy_ok :: "ScanPolicy \<Rightarrow> bool" where
  "ScanPolicy_ok s \<longleftrightarrow> MultiPolicy_ok (sp_multi_policy s)"

lemma MultiPolicy_okE:
  assumes "MultiPolicy_ok o'"
  obtains m p where "o' = Some m" and "mp_read_policy m = Some p"
  using assms by (auto simp: MultiPolicy_ok_def split: option.splits)

lemma MultiPolicy_ok_Some [simp]: "MultiPolicy_ok (Some m) \<longleftrightarrow> mp_read_policy m \<noteq> None"
  by (simp add: MultiPolicy_ok_def)

lemma ReadPolicy_table_law:
  "list_all (table_law ReadPolicy_properties [] [F_read_mode_sc] (\<lambda>_. True)) ReadPolicy_properties"
  unfolding list_all_iff
  by (auto simp: ReadPolicy_properties_def table_law_def entry_def un_prop_defs ReadPolicy_accessors
       split: prop_value.splits option.splits)

interpretation read_policy: property_bag "read_property ReadPolicy_properties" "write_property ReadPolicy_properties"
    "assignable ReadPolicy_properties []" "registered ReadPolicy_properties [F_read_mode_sc]" "(\<lambda>_. True)"
  by (rule table_property_bag [OF _ ReadPolicy_table_law]) (simp add: ReadPolicy_properties_def)

lemma AdminPolicy_table_law:
  "list_all (table_law AdminPolicy_properties [] [] (\<lambda>_. True)) AdminPolicy_properties"
  unfolding list_all_iff
  by (auto simp: AdminPolicy_properties_def table_law_def entry_def un_prop_defs AdminPolicy_accessors
       split: prop_value.splits option.splits)

interpretation admin_policy: property_bag "read_property AdminPolicy_properties" "write_property AdminPolicy_properties"
    "assignable AdminPolicy_properties []" "registered AdminPolicy_properties []" "(\<lambda>_. True)"
  by (rule table_property_bag [OF _ AdminPolicy_table_law]) (simp add: AdminPolicy_properties_def)

lemma WritePolicy_table_law:
  "list_all (table_law WritePolicy_properties [] [F_read_mode_sc, F_durable_delete] WritePolicy_ok) WritePolicy_properties"
  unfolding list_all_iff
  by (auto simp: WritePolicy_properties_def table_law_def entry_def un_prop_defs WritePolicy_accessors
      WritePolicy_ok_def split: prop_value.splits option.splits)

interpretation write_policy: property_bag "read_property WritePolicy_properties" "write_property WritePolicy_properties"
    "assignable WritePolicy_properties []" "registered WritePolicy_properties [F_read_mode_sc, F_durable_delete]" WritePolicy_ok
  by (rule table_property_bag [OF _ WritePolicy_table_law]) (simp add: WritePolicy_properties_def)

lemma QueryPolicy_table_law:
  "list_all (table_law QueryPolicy_properties [] [F_read_mode_sc] QueryPolicy_ok) QueryPolicy_properties"
  unfolding list_all_iff
  by (auto simp: QueryPolicy_properties_def table_law_def entry_def un_prop_defs QueryPolicy_accessors
      QueryPolicy_ok_def MultiPolicy_ok_def split: prop_value.splits option.splits)

interpretation query_policy: property_bag "read_property QueryPolicy_properties" "write_property QueryPolicy_properties"
    "assignable QueryPolicy_properties []" "registered QueryPolicy_properties [F_read_mode_sc]" QueryPolicy_ok
  by (rule table_property_bag [OF _ QueryPolicy_table_law]) (simp add: QueryPolicy_properties_def)

lemma ScanPolicy_table_law:
  "list_all (table_law ScanPolicy_properties [] [F_read_mode_sc] ScanPolicy_ok) ScanPolicy_properties"
  unfolding list_all_iff
  by (auto simp: ScanPolicy_properties_def table_law_def entry_def un_prop_defs ScanPolicy_accessors
      ScanPolicy_ok_def MultiPolicy_ok_def split: prop_value.splits option.splits)

interpretation scan_policy: property_bag "read_property ScanPolicy_properties" "write_property ScanPolicy_properties"
    "assignable ScanPolicy_properties []" "registered ScanPolicy_properties [F_read_mode_sc]" ScanPolicy_ok
  by (rule table_property_bag [OF _ ScanPolicy_table_law]) (simp add: ScanPolicy_properties_def)

lemma default_policies_ok:
  "WritePolicy_ok WritePolicy_default" "QueryPolicy_ok QueryPolicy_default"
  "ScanPolicy_ok ScanPolicy_default"
  by (simp_all add: WritePolicy_ok_def WritePolicy_default_def QueryPolicy_ok_def QueryPolicy_default_def
      ScanPolicy_ok_def ScanPolicy_default_def MultiPolicy_default_def ReadPolicy_set_total_timeout_def)

lemmas WritePolicy_default_ok = default_policies_ok(1)
lemmas QueryPolicy_default_ok = default_policies_ok(2)
lemmas ScanPolicy_default_ok = default_policies_ok(3)

section \<open>Properties\<close>

text \<open>A read policy keeps what is assigned to it: any sequence of assignments to its properties succeeds, and every property but the SC read mode then reads as its last assigned value, or as before if it was not assigned.\<close>

lemma read_policy_assignments:
  assumes "list_all (\<lambda>(f, v). assignable ReadPolicy_properties [] f v) ws"
  shows "\<exists>s'. writes (write_property ReadPolicy_properties) ws s = Inr s' \<and>
    (\<forall>g. registered ReadPolicy_properties [F_read_mode_sc] g \<longrightarrow>
      read_property ReadPolicy_properties s' g =
        (case map_of (rev ws) g of
           Some v \<Rightarrow> Some (Inr v) | None \<Rightarrow> read_property ReadPolicy_properties s g))"
  using read_policy.writes_read_back [OF TrueI assms] by simp

theorem read_policy_assignments_witness:
  "\<exists>s'. writes (write_property ReadPolicy_properties) [(F_max_retries, P_u32 5), (F_send_key, P_bool True), (F_max_retries, P_u32 7)] ReadPolicy_default = Inr s' \<and>
     read_property ReadPolicy_properties s' F_max_retries = Some (Inr (P_u32 7)) \<and>
     read_property ReadPolicy_properties s' F_send_key = Some (Inr (P_bool True))"
proof -
  have ok: "list_all (\<lambda>(f, v). assignable ReadPolicy_properties [] f v) [(F_max_retries, P_u32 5), (F_send_key, P_bool True), (F_max_retries, P_u32 7)]"
    by (auto simp: assignable_def ReadPolicy_properties_def entry_def un_prop_defs expiration_consts
        Expiration_from_u32_def)
  have reg: "registered ReadPolicy_properties [F_read_mode_sc] F_max_retries" "registered ReadPolicy_properties [F_read_mode_sc] F_send_key"
    by (simp_all add: registered_def ReadPolicy_properties_def)
  show ?thesis
    using read_policy_assignments [OF ok, of ReadPolicy_default] reg by auto
qed

text \<open>A write policy keeps what is assigned to it, in its own fields and in the read policy it holds: every property but the SC read mode and the durable-delete flag reads as its last assigned value, or as before. Expirations in seconds must not be one of the reserved numbers.\<close>

lemma write_policy_assignments:
  assumes "WritePolicy_ok s" and "list_all (\<lambda>(f, v). assignable WritePolicy_properties [] f v) ws"
  shows "\<exists>s'. writes (write_property WritePolicy_properties) ws s = Inr s' \<and> WritePolicy_ok s' \<and>
    (\<forall>g. registered WritePolicy_properties [F_read_mode_sc, F_durable_delete] g \<longrightarrow>
      read_property WritePolicy_properties s' g =
        (case map_of (rev ws) g of
           Some v \<Rightarrow> Some (Inr v) | None \<Rightarrow> read_property WritePolicy_properties s g))"
  using write_policy.writes_read_back [OF assms] by simp

theorem write_policy_assignments_witness:
  "\<exists>s'. writes (write_property WritePolicy_properties) [(F_expiration, P_expiration (Seconds 60)), (F_commit_level, P_commit_level CL_CommitMaster), (F_max_retries, P_u32 2)] WritePolicy_default = Inr s' \<and>
     read_property WritePolicy_properties s' F_expiration = Some (Inr (P_expiration (Seconds 60))) \<and>
     read_property WritePolicy_properties s' F_commit_level = Some (Inr (P_commit_level CL_CommitMaster)) \<and>
     read_property WritePolicy_properties s' F_max_retries = Some (Inr (P_u32 2))"
proof -
  have ok: "list_all (\<lambda>(f, v). assignable WritePolicy_properties [] f v) [(F_expiration, P_expiration (Seconds 60)), (F_commit_level, P_commit_level CL_CommitMaster), (F_max_retries, P_u32 2)]"
    by (auto simp: assignable_def WritePolicy_properties_def entry_def un_prop_defs expiration_consts
        Expiration_from_u32_def)
  have reg: "registered WritePolicy_properties [F_read_mode_sc, F_durable_delete] F_expiration" "registered WritePolicy_properties [F_read_mode_sc, F_durable_delete] F_commit_level" "registered WritePolicy_properties [F_read_mode_sc, F_durable_delete] F_max_retries"
    by (simp_all add: registered_def WritePolicy_properties_def)
  show ?thesis
    using write_policy_assignments [OF WritePolicy_default_ok ok] reg by auto
qed

text \<open>A query policy keeps what is assigned to it, through the multi policy and the read policy inside it, and no assignment removes these.\<close>

lemma query_policy_assignments:
  assumes "QueryPolicy_ok s" and "list_all (\<lambda>(f, v). assignable QueryPolicy_properties [] f v) ws"
  shows "\<exists>s'. writes (write_property QueryPolicy_properties) ws s = Inr s' \<and> QueryPolicy_ok s' \<and>
    (\<forall>g. registered QueryPolicy_properties [F_read_mode_sc] g \<longrightarrow>
      read_property QueryPolicy_properties s' g =
        (case map_of (rev ws) g of
           Some v \<Rightarrow> Some (Inr v) | None \<Rightarrow> read_property QueryPolicy_properties s g))"
  using query_policy.writes_read_back [OF assms] by simp

theorem query_policy_assignments_witness:
  "\<exists>s'. writes (write_property QueryPolicy_properties) [(F_expected_duration, P_query_duration QD_Short), (F_record_queue_size, P_u32 9), (F_total_timeout, P_u64 4)] QueryPolicy_default = Inr s' \<and>
     read_property QueryPolicy_properties s' F_expected_duration = Some (Inr (P_query_duration QD_Short)) \<and>
     read_property QueryPolicy_properties s' F_record_queue_size = Some (Inr (P_u32 9)) \<and>
     read_property QueryPolicy_properties s' F_total_timeout = Some (Inr (P_u64 4))"
proof -
  have ok: "list_all (\<lambda>(f, v). assignable QueryPolicy_properties [] f v) [(F_expected_duration, P_query_duration QD_Short), (F_record_queue_size, P_u32 9), (F_total_timeout, P_u64 4)]"
    by (auto simp: assignable_def QueryPolicy_properties_def entry_def un_prop_defs expiration_consts
        Expiration_from_u32_def)
  have reg: "registered QueryPolicy_properties [F_read_mode_sc] F_expected_duration" "registered QueryPolicy_properties [F_read_mode_sc] F_record_queue_size" "registered QueryPolicy_properties [F_read_mode_sc] F_total_timeout"
    by (simp_all add: registered_def QueryPolicy_properties_def)
  show ?thesis
    using query_policy_assignments [OF QueryPolicy_default_ok ok] reg by auto
qed

text \<open>A scan policy keeps what is assigned to it, through the multi policy and the read policy inside it, and no assignment removes these.\<close>

lemma scan_policy_assignments:
  assumes "ScanPolicy_ok s" and "list_all (\<lambda>(f, v). assignable ScanPolicy_properties [] f v) ws"
  shows "\<exists>s'. writes (write_property ScanPolicy_properties) ws s = Inr s' \<and> ScanPolicy_ok s' \<and>
    (\<forall>g. registered ScanPolicy_properties [F_read_mode_sc] g \<longrightarrow>
      read_property ScanPolicy_properties s' g =
        (case map_of (rev ws) g of
           Some v \<Rightarrow> Some (Inr v) | None \<Rightarrow> read_property ScanPolicy_properties s g))"
  using scan_policy.writes_read_back [OF assms] by simp

theorem scan_policy_assignments_witness:
  "\<exists>s'. writes (write_property ScanPolicy_properties) [(F_max_records, P_u64 100), (F_read_mode_ap, P_read_mode_ap AP_All)] ScanPolicy_default = Inr s' \<and>
     read_property ScanPolicy_properties s' F_max_records = Some (Inr (P_u64 100)) \<and>
     read_property ScanPolicy_properties s' F_read_mode_ap = Some (Inr (P_read_mode_ap AP_All))"
proof -
  have ok: "list_all (\<lambda>(f, v). assignable ScanPolicy_properties [] f v) [(F_max_records, P_u64 100), (F_read_mode_ap, P_read_mode_ap AP_All)]"
    by (auto simp: assignable_def ScanPolicy_properties_def entry_def un_prop_defs expiration_consts
        Expiration_from_u32_def)
  have reg: "registered ScanPolicy_properties [F_read_mode_sc] F_max_records" "registered ScanPolicy_properties [F_read_mode_sc] F_read_mode_ap"
    by (simp_all add: registered_def ScanPolicy_properties_def)
  show ?thesis
    using scan_policy_assignments [OF ScanPolicy_default_ok ok] reg by auto
qed

text \<open>The SC read mode of a policy cannot be read back: the getters of the read, write, query
  and scan policies decode the AP read mode, so they return \<^verbatim>\<open>Session\<close> or
  \<^verbatim>\<open>Linearize\<close> according to the AP mode whatever SC mode was assigned.\<close>

lemma read_mode_sc_reads_ap:
  assumes "WritePolicy_ok w" and "QueryPolicy_ok q" and "ScanPolicy_ok c"
  shows "let seen = Inr (case ap of AP_One \<Rightarrow> SC_Session | AP_All \<Rightarrow> SC_Linearize) in
    sbind (ReadPolicy_set_read_mode_ap ap r) (\<lambda>r. sbind (ReadPolicy_set_read_mode_sc m r)
      ReadPolicy_get_read_mode_sc) = seen \<and>
    sbind (WritePolicy_set_read_mode_ap ap w) (\<lambda>w. sbind (WritePolicy_set_read_mode_sc m w)
      WritePolicy_get_read_mode_sc) = seen \<and>
    sbind (QueryPolicy_set_read_mode_ap ap q) (\<lambda>q. sbind (QueryPolicy_set_read_mode_sc m q)
      QueryPolicy_get_read_mode_sc) = seen \<and>
    sbind (ScanPolicy_set_read_mode_ap ap c) (\<lambda>c. sbind (ScanPolicy_set_read_mode_sc m c)
      ScanPolicy_get_read_mode_sc) = seen"
proof -
  obtain wr where w: "wp_policy w = Some wr" using assms(1) by (auto simp: WritePolicy_ok_def)
  obtain qm qr where q: "qp_multi_policy q = Some qm" "mp_read_policy qm = Some qr"
    using assms(2) by (auto simp: QueryPolicy_ok_def elim: MultiPolicy_okE)
  obtain cm cr where c: "sp_multi_policy c = Some cm" "mp_read_policy cm = Some cr"
    using assms(3) by (auto simp: ScanPolicy_ok_def elim: MultiPolicy_okE)
  show ?thesis
    by (cases ap) (simp_all add: w q c Let_def ReadModeSC_from_i32_def
        ReadPolicy_accessors WritePolicy_accessors QueryPolicy_accessors ScanPolicy_accessors)
qed

text \<open>The durable-delete flag of a write policy is stored but its getter returns another
  flag, the one that asks for a response per operation.\<close>

lemma durable_delete_reads_respond_per_each_op:
  "\<exists>s'. WritePolicy_set_durable_delete b s = Inr s' \<and> wp_durable_delete s' = b \<and>
     WritePolicy_get_durable_delete s' = WritePolicy_get_respond_per_each_op s"
  by (simp add: WritePolicy_accessors)

text \<open>What a new policy object says: a read policy has timeouts of one second and half a
  second and three retries; the read policy inside a new write policy is the empty message,
  so a write has no timeouts and no retries; scans and queries have no total timeout and
  otherwise the settings of a read policy.\<close>

lemma default_timeouts_and_retries:
  "ReadPolicy_get_total_timeout ReadPolicy_default = Inr 1000 \<and>
   ReadPolicy_get_socket_timeout ReadPolicy_default = Inr 500 \<and>
   ReadPolicy_get_max_retries ReadPolicy_default = Inr 3 \<and>
   WritePolicy_get_total_timeout WritePolicy_default = Inr 0 \<and>
   WritePolicy_get_socket_timeout WritePolicy_default = Inr 0 \<and>
   WritePolicy_get_max_retries WritePolicy_default = Inr 0 \<and>
   QueryPolicy_get_total_timeout QueryPolicy_default = Inr 0 \<and>
   QueryPolicy_get_socket_timeout QueryPolicy_default = Inr 500 \<and>
   QueryPolicy_get_max_retries QueryPolicy_default = Inr 3 \<and>
   ScanPolicy_get_total_timeout ScanPolicy_default = Inr 0 \<and>
   ScanPolicy_get_max_records ScanPolicy_default = Inr 0 \<and>
   ScanPolicy_get_record_queue_size ScanPolicy_default = Inr 50"
  by (simp add: ReadPolicy_accessors WritePolicy_accessors QueryPolicy_accessors ScanPolicy_accessors
      ReadPolicy_default_def WritePolicy_default_def QueryPolicy_default_def ScanPolicy_default_def
      MultiPolicy_default_def proto_ReadPolicy_default_def)

end
