(* ===== verification/Batch_Policies.thy ===== *)
theory Batch_Policies
  imports Policies
begin

text \<open>
  The policy classes of batch commands: \<^verbatim>\<open>BatchPolicy\<close> for the whole batch and the
  policies of its read, write, delete and UDF records.
\<close>

section \<open>BatchPolicy\<close>

record BatchPolicy =
  bp_policy :: "ReadPolicy option"
  bp_concurrent_nodes :: "i32 option"
  bp_allow_inline :: bool
  bp_allow_inline_ssd :: bool
  bp_respond_all_keys :: bool
  bp_allow_partial_results :: bool

definition BatchPolicy_default :: BatchPolicy where
  "BatchPolicy_default =
     \<lparr>bp_policy = Some ReadPolicy_default,
      bp_concurrent_nodes = Some 1,
      bp_allow_inline = True,
      bp_allow_inline_ssd = False,
      bp_respond_all_keys = True,
      bp_allow_partial_results = False\<rparr>"

definition BatchPolicy_get_max_retries :: "BatchPolicy \<Rightarrow> panic + u32" where
  "BatchPolicy_get_max_retries s =
     sbind (unwrap (bp_policy s)) (\<lambda>p. Inr (rp_max_retries p))"

definition BatchPolicy_set_max_retries :: "u32 \<Rightarrow> BatchPolicy \<Rightarrow> panic + BatchPolicy" where
  "BatchPolicy_set_max_retries v s =
     Inr (s\<lparr>bp_policy := map_option (\<lambda>p. p\<lparr>rp_max_retries := v\<rparr>) (bp_policy s)\<rparr>)"

definition BatchPolicy_get_sleep_multiplier :: "BatchPolicy \<Rightarrow> panic + f64" where
  "BatchPolicy_get_sleep_multiplier s =
     sbind (unwrap (bp_policy s)) (\<lambda>p. Inr (rp_sleep_multiplier p))"

definition BatchPolicy_set_sleep_multiplier :: "f64 \<Rightarrow> BatchPolicy \<Rightarrow> panic + BatchPolicy" where
  "BatchPolicy_set_sleep_multiplier v s =
     Inr (s\<lparr>bp_policy := map_option (\<lambda>p. p\<lparr>rp_sleep_multiplier := v\<rparr>) (bp_policy s)\<rparr>)"

definition BatchPolicy_get_total_timeout :: "BatchPolicy \<Rightarrow> panic + u64" where
  "BatchPolicy_get_total_timeout s =
     sbind (unwrap (bp_policy s)) (\<lambda>p. Inr (rp_total_timeout p))"

definition BatchPolicy_set_total_timeout :: "u64 \<Rightarrow> BatchPolicy \<Rightarrow> panic + BatchPolicy" where
  "BatchPolicy_set_total_timeout v s =
     Inr (s\<lparr>bp_policy := map_option (\<lambda>p. p\<lparr>rp_total_timeout := v\<rparr>) (bp_policy s)\<rparr>)"

definition BatchPolicy_get_socket_timeout :: "BatchPolicy \<Rightarrow> panic + u64" where
  "BatchPolicy_get_socket_timeout s =
     sbind (unwrap (bp_policy s)) (\<lambda>p. Inr (rp_socket_timeout p))"

definition BatchPolicy_set_socket_timeout :: "u64 \<Rightarrow> BatchPolicy \<Rightarrow> panic + BatchPolicy" where
  "BatchPolicy_set_socket_timeout v s =
     Inr (s\<lparr>bp_policy := map_option (\<lambda>p. p\<lparr>rp_socket_timeout := v\<rparr>) (bp_policy s)\<rparr>)"

definition BatchPolicy_get_send_key :: "BatchPolicy \<Rightarrow> panic + bool" where
  "BatchPolicy_get_send_key s =
     sbind (unwrap (bp_policy s)) (\<lambda>p. Inr (rp_send_key p))"

definition BatchPolicy_set_send_key :: "bool \<Rightarrow> BatchPolicy \<Rightarrow> panic + BatchPolicy" where
  "BatchPolicy_set_send_key v s =
     Inr (s\<lparr>bp_policy := map_option (\<lambda>p. p\<lparr>rp_send_key := v\<rparr>) (bp_policy s)\<rparr>)"

definition BatchPolicy_get_use_compression :: "BatchPolicy \<Rightarrow> panic + bool" where
  "BatchPolicy_get_use_compression s =
     sbind (unwrap (bp_policy s)) (\<lambda>p. Inr (rp_use_compression p))"

definition BatchPolicy_set_use_compression :: "bool \<Rightarrow> BatchPolicy \<Rightarrow> panic + BatchPolicy" where
  "BatchPolicy_set_use_compression v s =
     Inr (s\<lparr>bp_policy := map_option (\<lambda>p. p\<lparr>rp_use_compression := v\<rparr>) (bp_policy s)\<rparr>)"

definition BatchPolicy_get_exit_fast_on_exhausted_connection_pool :: "BatchPolicy \<Rightarrow> panic + bool" where
  "BatchPolicy_get_exit_fast_on_exhausted_connection_pool s =
     sbind (unwrap (bp_policy s)) (\<lambda>p. Inr (rp_exit_fast_on_exhausted_connection_pool p))"

definition BatchPolicy_set_exit_fast_on_exhausted_connection_pool :: "bool \<Rightarrow> BatchPolicy \<Rightarrow> panic + BatchPolicy" where
  "BatchPolicy_set_exit_fast_on_exhausted_connection_pool v s =
     Inr (s\<lparr>bp_policy := map_option (\<lambda>p. p\<lparr>rp_exit_fast_on_exhausted_connection_pool := v\<rparr>) (bp_policy s)\<rparr>)"

definition BatchPolicy_get_read_mode_ap :: "BatchPolicy \<Rightarrow> panic + ReadModeAP" where
  "BatchPolicy_get_read_mode_ap s =
     sbind (unwrap (bp_policy s)) (\<lambda>p. ReadModeAP_from_i32 (rp_read_mode_ap p))"

definition BatchPolicy_set_read_mode_ap :: "ReadModeAP \<Rightarrow> BatchPolicy \<Rightarrow> panic + BatchPolicy" where
  "BatchPolicy_set_read_mode_ap v s =
     Inr (s\<lparr>bp_policy := map_option (\<lambda>p. p\<lparr>rp_read_mode_ap := ReadModeAP_into_i32 v\<rparr>) (bp_policy s)\<rparr>)"

definition BatchPolicy_get_read_mode_sc :: "BatchPolicy \<Rightarrow> panic + ReadModeSC" where
  "BatchPolicy_get_read_mode_sc s =
     sbind (unwrap (bp_policy s)) (\<lambda>p. ReadModeSC_from_i32 (rp_read_mode_sc p))"

definition BatchPolicy_set_read_mode_sc :: "ReadModeSC \<Rightarrow> BatchPolicy \<Rightarrow> panic + BatchPolicy" where
  "BatchPolicy_set_read_mode_sc v s =
     Inr (s\<lparr>bp_policy := map_option (\<lambda>p. p\<lparr>rp_read_mode_sc := ReadModeSC_into_i32 v\<rparr>) (bp_policy s)\<rparr>)"

definition BatchPolicy_get_filter_expression :: "BatchPolicy \<Rightarrow> panic + (Expression option)" where
  "BatchPolicy_get_filter_expression s =
     sbind (unwrap (bp_policy s)) (\<lambda>p. Inr (rp_filter_expression p))"

definition BatchPolicy_set_filter_expression :: "Expression option \<Rightarrow> BatchPolicy \<Rightarrow> panic + BatchPolicy" where
  "BatchPolicy_set_filter_expression v s =
     Inr (s\<lparr>bp_policy := map_option (\<lambda>p. p\<lparr>rp_filter_expression := v\<rparr>) (bp_policy s)\<rparr>)"

definition BatchPolicy_get_concurrent_nodes :: "BatchPolicy \<Rightarrow> panic + i32" where
  "BatchPolicy_get_concurrent_nodes s =
     Inr (case bp_concurrent_nodes s of Some nodes \<Rightarrow> nodes | None \<Rightarrow> 1)"

definition BatchPolicy_set_concurrent_nodes :: "i32 \<Rightarrow> BatchPolicy \<Rightarrow> panic + BatchPolicy" where
  "BatchPolicy_set_concurrent_nodes v s =
     Inr (s\<lparr>bp_concurrent_nodes := Some v\<rparr>)"

definition BatchPolicy_get_allow_inline :: "BatchPolicy \<Rightarrow> panic + bool" where
  "BatchPolicy_get_allow_inline s =
     Inr (bp_allow_inline s)"

definition BatchPolicy_set_allow_inline :: "bool \<Rightarrow> BatchPolicy \<Rightarrow> panic + BatchPolicy" where
  "BatchPolicy_set_allow_inline v s =
     Inr (s\<lparr>bp_allow_inline := v\<rparr>)"

definition BatchPolicy_get_allow_inline_ssd :: "BatchPolicy \<Rightarrow> panic + bool" where
  "BatchPolicy_get_allow_inline_ssd s =
     Inr (bp_allow_inline_ssd s)"

definition BatchPolicy_set_allow_inline_ssd :: "bool \<Rightarrow> BatchPolicy \<Rightarrow> panic + BatchPolicy" where
  "BatchPolicy_set_allow_inline_ssd v s =
     Inr (s\<lparr>bp_allow_inline_ssd := v\<rparr>)"

definition BatchPolicy_get_respond_all_keys :: "BatchPolicy \<Rightarrow> panic + bool" where
  "BatchPolicy_get_respond_all_keys s =
     Inr (bp_respond_all_keys s)"

definition BatchPolicy_set_respond_all_keys :: "bool \<Rightarrow> BatchPolicy \<Rightarrow> panic + BatchPolicy" where
  "BatchPolicy_set_respond_all_keys v s =
     Inr (s\<lparr>bp_respond_all_keys := v\<rparr>)"

definition BatchPolicy_get_allow_partial_results :: "BatchPolicy \<Rightarrow> panic + bool" where
  "BatchPolicy_get_allow_partial_results s =
     Inr (bp_allow_partial_results s)"

definition BatchPolicy_set_allow_partial_results :: "bool \<Rightarrow> BatchPolicy \<Rightarrow> panic + BatchPolicy" where
  "BatchPolicy_set_allow_partial_results v s =
     Inr (s\<lparr>bp_respond_all_keys := v\<rparr>)"

definition BatchPolicy_properties :: "(property \<times> BatchPolicy entry) list" where
  "BatchPolicy_properties =
    [(F_max_retries, entry P_u32 un_u32 BatchPolicy_get_max_retries BatchPolicy_set_max_retries),
     (F_sleep_multiplier, entry P_f64 un_f64 BatchPolicy_get_sleep_multiplier BatchPolicy_set_sleep_multiplier),
     (F_total_timeout, entry P_u64 un_u64 BatchPolicy_get_total_timeout BatchPolicy_set_total_timeout),
     (F_socket_timeout, entry P_u64 un_u64 BatchPolicy_get_socket_timeout BatchPolicy_set_socket_timeout),
     (F_send_key, entry P_bool un_bool BatchPolicy_get_send_key BatchPolicy_set_send_key),
     (F_use_compression, entry P_bool un_bool BatchPolicy_get_use_compression BatchPolicy_set_use_compression),
     (F_exit_fast_on_exhausted_connection_pool, entry P_bool un_bool BatchPolicy_get_exit_fast_on_exhausted_connection_pool BatchPolicy_set_exit_fast_on_exhausted_connection_pool),
     (F_read_mode_ap, entry P_read_mode_ap un_read_mode_ap BatchPolicy_get_read_mode_ap BatchPolicy_set_read_mode_ap),
     (F_read_mode_sc, entry P_read_mode_sc un_read_mode_sc BatchPolicy_get_read_mode_sc BatchPolicy_set_read_mode_sc),
     (F_filter_expression, entry P_expression un_expression BatchPolicy_get_filter_expression BatchPolicy_set_filter_expression),
     (F_concurrent_nodes, entry P_i32 un_i32 BatchPolicy_get_concurrent_nodes BatchPolicy_set_concurrent_nodes),
     (F_allow_inline, entry P_bool un_bool BatchPolicy_get_allow_inline BatchPolicy_set_allow_inline),
     (F_allow_inline_ssd, entry P_bool un_bool BatchPolicy_get_allow_inline_ssd BatchPolicy_set_allow_inline_ssd),
     (F_respond_all_keys, entry P_bool un_bool BatchPolicy_get_respond_all_keys BatchPolicy_set_respond_all_keys),
     (F_allow_partial_results, entry P_bool un_bool BatchPolicy_get_allow_partial_results BatchPolicy_set_allow_partial_results)]"

section \<open>BatchReadPolicy\<close>

record BatchReadPolicy =
  brp_filter_expression :: "Expression option"
  brp_read_mode_ap :: i32
  brp_read_mode_sc :: i32
  brp_read_touch_ttl_percent :: i32

definition BatchReadPolicy_default :: BatchReadPolicy where
  "BatchReadPolicy_default =
     \<lparr>brp_filter_expression = None,
      brp_read_mode_ap = ReadModeAP_into_i32 AP_One,
      brp_read_mode_sc = ReadModeSC_into_i32 SC_Session,
      brp_read_touch_ttl_percent = 0\<rparr>"

definition BatchReadPolicy_get_filter_expression :: "BatchReadPolicy \<Rightarrow> panic + (Expression option)" where
  "BatchReadPolicy_get_filter_expression s =
     Inr (brp_filter_expression s)"

definition BatchReadPolicy_set_filter_expression :: "Expression option \<Rightarrow> BatchReadPolicy \<Rightarrow> panic + BatchReadPolicy" where
  "BatchReadPolicy_set_filter_expression v s =
     Inr (s\<lparr>brp_filter_expression := v\<rparr>)"

definition BatchReadPolicy_get_read_mode_ap :: "BatchReadPolicy \<Rightarrow> panic + ReadModeAP" where
  "BatchReadPolicy_get_read_mode_ap s =
     ReadModeAP_from_i32 (brp_read_mode_ap s)"

definition BatchReadPolicy_set_read_mode_ap :: "ReadModeAP \<Rightarrow> BatchReadPolicy \<Rightarrow> panic + BatchReadPolicy" where
  "BatchReadPolicy_set_read_mode_ap v s =
     Inr (s\<lparr>brp_read_mode_ap := ReadModeAP_into_i32 v\<rparr>)"

definition BatchReadPolicy_get_read_mode_sc :: "BatchReadPolicy \<Rightarrow> panic + ReadModeSC" where
  "BatchReadPolicy_get_read_mode_sc s =
     ReadModeSC_from_i32 (brp_read_mode_ap s)"

definition BatchReadPolicy_set_read_mode_sc :: "ReadModeSC \<Rightarrow> BatchReadPolicy \<Rightarrow> panic + BatchReadPolicy" where
  "BatchReadPolicy_set_read_mode_sc v s =
     Inr (s\<lparr>brp_read_mode_sc := ReadModeSC_into_i32 v\<rparr>)"

definition BatchReadPolicy_get_read_touch_ttl_percent :: "BatchReadPolicy \<Rightarrow> panic + i32" where
  "BatchReadPolicy_get_read_touch_ttl_percent s =
     Inr (brp_read_touch_ttl_percent s)"

definition BatchReadPolicy_set_read_touch_ttl_percent :: "i32 \<Rightarrow> BatchReadPolicy \<Rightarrow> panic + BatchReadPolicy" where
  "BatchReadPolicy_set_read_touch_ttl_percent v s =
     Inr (s\<lparr>brp_read_touch_ttl_percent := v\<rparr>)"

definition BatchReadPolicy_properties :: "(property \<times> BatchReadPolicy entry) list" where
  "BatchReadPolicy_properties =
    [(F_filter_expression, entry P_expression un_expression BatchReadPolicy_get_filter_expression BatchReadPolicy_set_filter_expression),
     (F_read_mode_ap, entry P_read_mode_ap un_read_mode_ap BatchReadPolicy_get_read_mode_ap BatchReadPolicy_set_read_mode_ap),
     (F_read_mode_sc, entry P_read_mode_sc un_read_mode_sc BatchReadPolicy_get_read_mode_sc BatchReadPolicy_set_read_mode_sc),
     (F_read_touch_ttl_percent, entry P_i32 un_i32 BatchReadPolicy_get_read_touch_ttl_percent BatchReadPolicy_set_read_touch_ttl_percent)]"

section \<open>BatchWritePolicy\<close>

record BatchWritePolicy =
  bwp_filter_expression :: "Expression option"
  bwp_record_exists_action :: i32
  bwp_commit_level :: i32
  bwp_generation_policy :: i32
  bwp_generation :: u32
  bwp_expiration :: u32
  bwp_durable_delete :: bool
  bwp_send_key :: bool

definition BatchWritePolicy_default :: BatchWritePolicy where
  "BatchWritePolicy_default =
     \<lparr>bwp_filter_expression = None,
      bwp_record_exists_action = RecordExistsAction_into_i32 REA_Update,
      bwp_commit_level = CommitLevel_into_i32 CL_CommitAll,
      bwp_generation_policy = GenerationPolicy_into_i32 GP_None,
      bwp_generation = 0,
      bwp_expiration = 0,
      bwp_durable_delete = False,
      bwp_send_key = False\<rparr>"

definition BatchWritePolicy_get_filter_expression :: "BatchWritePolicy \<Rightarrow> panic + (Expression option)" where
  "BatchWritePolicy_get_filter_expression s =
     Inr (bwp_filter_expression s)"

definition BatchWritePolicy_set_filter_expression :: "Expression option \<Rightarrow> BatchWritePolicy \<Rightarrow> panic + BatchWritePolicy" where
  "BatchWritePolicy_set_filter_expression v s =
     Inr (s\<lparr>bwp_filter_expression := v\<rparr>)"

definition BatchWritePolicy_get_record_exists_action :: "BatchWritePolicy \<Rightarrow> panic + RecordExistsAction" where
  "BatchWritePolicy_get_record_exists_action s =
     RecordExistsAction_from_i32 (bwp_record_exists_action s)"

definition BatchWritePolicy_set_record_exists_action :: "RecordExistsAction \<Rightarrow> BatchWritePolicy \<Rightarrow> panic + BatchWritePolicy" where
  "BatchWritePolicy_set_record_exists_action v s =
     Inr (s\<lparr>bwp_record_exists_action := RecordExistsAction_into_i32 v\<rparr>)"

definition BatchWritePolicy_get_generation_policy :: "BatchWritePolicy \<Rightarrow> panic + GenerationPolicy" where
  "BatchWritePolicy_get_generation_policy s =
     GenerationPolicy_from_i32 (bwp_generation_policy s)"

definition BatchWritePolicy_set_generation_policy :: "GenerationPolicy \<Rightarrow> BatchWritePolicy \<Rightarrow> panic + BatchWritePolicy" where
  "BatchWritePolicy_set_generation_policy v s =
     Inr (s\<lparr>bwp_generation_policy := GenerationPolicy_into_i32 v\<rparr>)"

definition BatchWritePolicy_get_commit_level :: "BatchWritePolicy \<Rightarrow> panic + CommitLevel" where
  "BatchWritePolicy_get_commit_level s =
     CommitLevel_from_i32 (bwp_commit_level s)"

definition BatchWritePolicy_set_commit_level :: "CommitLevel \<Rightarrow> BatchWritePolicy \<Rightarrow> panic + BatchWritePolicy" where
  "BatchWritePolicy_set_commit_level v s =
     Inr (s\<lparr>bwp_commit_level := CommitLevel_into_i32 v\<rparr>)"

definition BatchWritePolicy_get_generation :: "BatchWritePolicy \<Rightarrow> panic + u32" where
  "BatchWritePolicy_get_generation s =
     Inr (bwp_generation s)"

definition BatchWritePolicy_set_generation :: "u32 \<Rightarrow> BatchWritePolicy \<Rightarrow> panic + BatchWritePolicy" where
  "BatchWritePolicy_set_generation v s =
     Inr (s\<lparr>bwp_generation := v\<rparr>)"

definition BatchWritePolicy_get_expiration :: "BatchWritePolicy \<Rightarrow> panic + Expiration" where
  "BatchWritePolicy_get_expiration s =
     Inr (Expiration_from_u32 (bwp_expiration s))"

definition BatchWritePolicy_set_expiration :: "Expiration \<Rightarrow> BatchWritePolicy \<Rightarrow> panic + BatchWritePolicy" where
  "BatchWritePolicy_set_expiration v s =
     Inr (s\<lparr>bwp_expiration := Expiration_into_u32 v\<rparr>)"

definition BatchWritePolicy_get_durable_delete :: "BatchWritePolicy \<Rightarrow> panic + bool" where
  "BatchWritePolicy_get_durable_delete s =
     Inr (bwp_durable_delete s)"

definition BatchWritePolicy_set_durable_delete :: "bool \<Rightarrow> BatchWritePolicy \<Rightarrow> panic + BatchWritePolicy" where
  "BatchWritePolicy_set_durable_delete v s =
     Inr (s\<lparr>bwp_durable_delete := v\<rparr>)"

definition BatchWritePolicy_get_send_key :: "BatchWritePolicy \<Rightarrow> panic + bool" where
  "BatchWritePolicy_get_send_key s =
     Inr (bwp_send_key s)"

definition BatchWritePolicy_set_send_key :: "bool \<Rightarrow> BatchWritePolicy \<Rightarrow> panic + BatchWritePolicy" where
  "BatchWritePolicy_set_send_key v s =
     Inr (s\<lparr>bwp_send_key := v\<rparr>)"

definition BatchWritePolicy_properties :: "(property \<times> BatchWritePolicy entry) list" where
  "BatchWritePolicy_properties =
    [(F_filter_expression, entry P_expression un_expression BatchWritePolicy_get_filter_expression BatchWritePolicy_set_filter_expression),
     (F_record_exists_action, entry P_record_exists_action un_record_exists_action BatchWritePolicy_get_record_exists_action BatchWritePolicy_set_record_exists_action),
     (F_generation_policy, entry P_generation_policy un_generation_policy BatchWritePolicy_get_generation_policy BatchWritePolicy_set_generation_policy),
     (F_commit_level, entry P_commit_level un_commit_level BatchWritePolicy_get_commit_level BatchWritePolicy_set_commit_level),
     (F_generation, entry P_u32 un_u32 BatchWritePolicy_get_generation BatchWritePolicy_set_generation),
     (F_expiration, entry P_expiration un_expiration BatchWritePolicy_get_expiration BatchWritePolicy_set_expiration),
     (F_durable_delete, entry P_bool un_bool BatchWritePolicy_get_durable_delete BatchWritePolicy_set_durable_delete),
     (F_send_key, entry P_bool un_bool BatchWritePolicy_get_send_key BatchWritePolicy_set_send_key)]"

section \<open>BatchDeletePolicy\<close>

record BatchDeletePolicy =
  bdp_filter_expression :: "Expression option"
  bdp_commit_level :: i32
  bdp_generation_policy :: i32
  bdp_generation :: u32
  bdp_durable_delete :: bool
  bdp_send_key :: bool

definition BatchDeletePolicy_default :: BatchDeletePolicy where
  "BatchDeletePolicy_default =
     \<lparr>bdp_filter_expression = None,
      bdp_commit_level = CommitLevel_into_i32 CL_CommitAll,
      bdp_generation_policy = GenerationPolicy_into_i32 GP_None,
      bdp_generation = 0,
      bdp_durable_delete = False,
      bdp_send_key = False\<rparr>"

definition BatchDeletePolicy_get_filter_expression :: "BatchDeletePolicy \<Rightarrow> panic + (Expression option)" where
  "BatchDeletePolicy_get_filter_expression s =
     Inr (bdp_filter_expression s)"

definition BatchDeletePolicy_set_filter_expression :: "Expression option \<Rightarrow> BatchDeletePolicy \<Rightarrow> panic + BatchDeletePolicy" where
  "BatchDeletePolicy_set_filter_expression v s =
     Inr (s\<lparr>bdp_filter_expression := v\<rparr>)"

definition BatchDeletePolicy_get_commit_level :: "BatchDeletePolicy \<Rightarrow> panic + CommitLevel" where
  "BatchDeletePolicy_get_commit_level s =
     CommitLevel_from_i32 (bdp_commit_level s)"

definition BatchDeletePolicy_set_commit_level :: "CommitLevel \<Rightarrow> BatchDeletePolicy \<Rightarrow> panic + BatchDeletePolicy" where
  "BatchDeletePolicy_set_commit_level v s =
     Inr (s\<lparr>bdp_commit_level := CommitLevel_into_i32 v\<rparr>)"

definition BatchDeletePolicy_get_generation :: "BatchDeletePolicy \<Rightarrow> panic + u32" where
  "BatchDeletePolicy_get_generation s =
     Inr (bdp_generation s)"

definition BatchDeletePolicy_set_generation :: "u32 \<Rightarrow> BatchDeletePolicy \<Rightarrow> panic + BatchDeletePolicy" where
  "BatchDeletePolicy_set_generation v s =
     Inr (s\<lparr>bdp_generation := v\<rparr>)"

definition BatchDeletePolicy_get_durable_delete :: "BatchDeletePolicy \<Rightarrow> panic + bool" where
  "BatchDeletePolicy_get_durable_delete s =
     Inr (bdp_durable_delete s)"

definition BatchDeletePolicy_set_durable_delete :: "bool \<Rightarrow> BatchDeletePolicy \<Rightarrow> panic + BatchDeletePolicy" where
  "BatchDeletePolicy_set_durable_delete v s =
     Inr (s\<lparr>bdp_durable_delete := v\<rparr>)"

definition BatchDeletePolicy_get_send_key :: "BatchDeletePolicy \<Rightarrow> panic + bool" where
  "BatchDeletePolicy_get_send_key s =
     Inr (bdp_send_key s)"

definition BatchDeletePolicy_set_send_key :: "bool \<Rightarrow> BatchDeletePolicy \<Rightarrow> panic + BatchDeletePolicy" where
  "BatchDeletePolicy_set_send_key v s =
     Inr (s\<lparr>bdp_send_key := v\<rparr>)"

definition BatchDeletePolicy_properties :: "(property \<times> BatchDeletePolicy entry) list" where
  "BatchDeletePolicy_properties =
    [(F_filter_expression, entry P_expression un_expression BatchDeletePolicy_get_filter_expression BatchDeletePolicy_set_filter_expression),
     (F_commit_level, entry P_commit_level un_commit_level BatchDeletePolicy_get_commit_level BatchDeletePolicy_set_commit_level),
     (F_generation, entry P_u32 un_u32 BatchDeletePolicy_get_generation BatchDeletePolicy_set_generation),
     (F_durable_delete, entry P_bool un_bool BatchDeletePolicy_get_durable_delete BatchDeletePolicy_set_durable_delete),
     (F_send_key, entry P_bool un_bool BatchDeletePolicy_get_send_key BatchDeletePolicy_set_send_key)]"

section \<open>BatchUdfPolicy\<close>

record BatchUdfPolicy =
  bup_filter_expression :: "Expression option"
  bup_commit_level :: i32
  bup_expiration :: u32
  bup_durable_delete :: bool
  bup_send_key :: bool

definition BatchUdfPolicy_default :: BatchUdfPolicy where
  "BatchUdfPolicy_default =
     \<lparr>bup_filter_expression = None,
      bup_commit_level = CommitLevel_into_i32 CL_CommitAll,
      bup_expiration = 0,
      bup_durable_delete = False,
      bup_send_key = False\<rparr>"

definition BatchUdfPolicy_get_filter_expression :: "BatchUdfPolicy \<Rightarrow> panic + (Expression option)" where
  "BatchUdfPolicy_get_filter_expression s =
     Inr (bup_filter_expression s)"

definition BatchUdfPolicy_set_filter_expression :: "Expression option \<Rightarrow> BatchUdfPolicy \<Rightarrow> panic + BatchUdfPolicy" where
  "BatchUdfPolicy_set_filter_expression v s =
     Inr (s\<lparr>bup_filter_expression := v\<rparr>)"

definition BatchUdfPolicy_get_commit_level :: "BatchUdfPolicy \<Rightarrow> panic + CommitLevel" where
  "BatchUdfPolicy_get_commit_level s =
     CommitLevel_from_i32 (bup_commit_level s)"

definition BatchUdfPolicy_set_commit_level :: "CommitLevel \<Rightarrow> BatchUdfPolicy \<Rightarrow> panic + BatchUdfPolicy" where
  "BatchUdfPolicy_set_commit_level v s =
     Inr (s\<lparr>bup_commit_level := CommitLevel_into_i32 v\<rparr>)"

definition BatchUdfPolicy_get_expiration :: "BatchUdfPolicy \<Rightarrow> panic + Expiration" where
  "BatchUdfPolicy_get_expiration s =
     Inr (Expiration_from_u32 (bup_expiration s))"

definition BatchUdfPolicy_set_expiration :: "Expiration \<Rightarrow> BatchUdfPolicy \<Rightarrow> panic + BatchUdfPolicy" where
  "BatchUdfPolicy_set_expiration v s =
     Inr (s\<lparr>bup_expiration := Expiration_into_u32 v\<rparr>)"

definition BatchUdfPolicy_get_durable_delete :: "BatchUdfPolicy \<Rightarrow> panic + bool" where
  "BatchUdfPolicy_get_durable_delete s =
     Inr (bup_durable_delete s)"

definition BatchUdfPolicy_set_durable_delete :: "bool \<Rightarrow> BatchUdfPolicy \<Rightarrow> panic + BatchUdfPolicy" where
  "BatchUdfPolicy_set_durable_delete v s =
     Inr (s\<lparr>bup_durable_delete := v\<rparr>)"

definition BatchUdfPolicy_get_send_key :: "BatchUdfPolicy \<Rightarrow> panic + bool" where
  "BatchUdfPolicy_get_send_key s =
     Inr (bup_send_key s)"

definition BatchUdfPolicy_set_send_key :: "bool \<Rightarrow> BatchUdfPolicy \<Rightarrow> panic + BatchUdfPolicy" where
  "BatchUdfPolicy_set_send_key v s =
     Inr (s\<lparr>bup_send_key := v\<rparr>)"

definition BatchUdfPolicy_properties :: "(property \<times> BatchUdfPolicy entry) list" where
  "BatchUdfPolicy_properties =
    [(F_filter_expression, entry P_expression un_expression BatchUdfPolicy_get_filter_expression BatchUdfPolicy_set_filter_expression),
     (F_commit_level, entry P_commit_level un_commit_level BatchUdfPolicy_get_commit_level BatchUdfPolicy_set_commit_level),
     (F_expiration, entry P_expiration un_expiration BatchUdfPolicy_get_expiration BatchUdfPolicy_set_expiration),
     (F_durable_delete, entry P_bool un_bool BatchUdfPolicy_get_durable_delete BatchUdfPolicy_set_durable_delete),
     (F_send_key, entry P_bool un_bool BatchUdfPolicy_get_send_key BatchUdfPolicy_set_send_key)]"

section \<open>Laws\<close>

lemmas BatchPolicy_accessors =
  BatchPolicy_get_max_retries_def BatchPolicy_set_max_retries_def
  BatchPolicy_get_sleep_multiplier_def BatchPolicy_set_sleep_multiplier_def
  BatchPolicy_get_total_timeout_def BatchPolicy_set_total_timeout_def
  BatchPolicy_get_socket_timeout_def BatchPolicy_set_socket_timeout_def
  BatchPolicy_get_send_key_def BatchPolicy_set_send_key_def
  BatchPolicy_get_use_compression_def BatchPolicy_set_use_compression_def
  BatchPolicy_get_exit_fast_on_exhausted_connection_pool_def BatchPolicy_set_exit_fast_on_exhausted_connection_pool_def
  BatchPolicy_get_read_mode_ap_def BatchPolicy_set_read_mode_ap_def
  BatchPolicy_get_read_mode_sc_def BatchPolicy_set_read_mode_sc_def
  BatchPolicy_get_filter_expression_def BatchPolicy_set_filter_expression_def
  BatchPolicy_get_concurrent_nodes_def BatchPolicy_set_concurrent_nodes_def
  BatchPolicy_get_allow_inline_def BatchPolicy_set_allow_inline_def
  BatchPolicy_get_allow_inline_ssd_def BatchPolicy_set_allow_inline_ssd_def
  BatchPolicy_get_respond_all_keys_def BatchPolicy_set_respond_all_keys_def
  BatchPolicy_get_allow_partial_results_def BatchPolicy_set_allow_partial_results_def

lemmas BatchReadPolicy_accessors =
  BatchReadPolicy_get_filter_expression_def BatchReadPolicy_set_filter_expression_def
  BatchReadPolicy_get_read_mode_ap_def BatchReadPolicy_set_read_mode_ap_def
  BatchReadPolicy_get_read_mode_sc_def BatchReadPolicy_set_read_mode_sc_def
  BatchReadPolicy_get_read_touch_ttl_percent_def BatchReadPolicy_set_read_touch_ttl_percent_def

lemmas BatchWritePolicy_accessors =
  BatchWritePolicy_get_filter_expression_def BatchWritePolicy_set_filter_expression_def
  BatchWritePolicy_get_record_exists_action_def BatchWritePolicy_set_record_exists_action_def
  BatchWritePolicy_get_generation_policy_def BatchWritePolicy_set_generation_policy_def
  BatchWritePolicy_get_commit_level_def BatchWritePolicy_set_commit_level_def
  BatchWritePolicy_get_generation_def BatchWritePolicy_set_generation_def
  BatchWritePolicy_get_expiration_def BatchWritePolicy_set_expiration_def
  BatchWritePolicy_get_durable_delete_def BatchWritePolicy_set_durable_delete_def
  BatchWritePolicy_get_send_key_def BatchWritePolicy_set_send_key_def

lemmas BatchDeletePolicy_accessors =
  BatchDeletePolicy_get_filter_expression_def BatchDeletePolicy_set_filter_expression_def
  BatchDeletePolicy_get_commit_level_def BatchDeletePolicy_set_commit_level_def
  BatchDeletePolicy_get_generation_def BatchDeletePolicy_set_generation_def
  BatchDeletePolicy_get_durable_delete_def BatchDeletePolicy_set_durable_delete_def
  BatchDeletePolicy_get_send_key_def BatchDeletePolicy_set_send_key_def

lemmas BatchUdfPolicy_accessors =
  BatchUdfPolicy_get_filter_expression_def BatchUdfPolicy_set_filter_expression_def
  BatchUdfPolicy_get_commit_level_def BatchUdfPolicy_set_commit_level_def
  BatchUdfPolicy_get_expiration_def BatchUdfPolicy_set_expiration_def
  BatchUdfPolicy_get_durable_delete_def BatchUdfPolicy_set_durable_delete_def
  BatchUdfPolicy_get_send_key_def BatchUdfPolicy_set_send_key_def

definition BatchPolicy_ok :: "BatchPolicy \<Rightarrow> bool" where
  "BatchPolicy_ok s \<longleftrightarrow> bp_policy s \<noteq> None"

lemma BatchPolicy_table_law:
  "list_all (table_law BatchPolicy_properties [F_allow_partial_results] [] BatchPolicy_ok) BatchPolicy_properties"
  unfolding list_all_iff
  by (auto simp: BatchPolicy_properties_def table_law_def entry_def un_prop_defs BatchPolicy_accessors
      BatchPolicy_ok_def split: prop_value.splits option.splits)

interpretation batch_policy: property_bag "read_property BatchPolicy_properties" "write_property BatchPolicy_properties"
    "assignable BatchPolicy_properties [F_allow_partial_results]" "registered BatchPolicy_properties []" BatchPolicy_ok
  by (rule table_property_bag [OF _ BatchPolicy_table_law]) (simp add: BatchPolicy_properties_def)

lemma BatchReadPolicy_table_law:
  "list_all (table_law BatchReadPolicy_properties [] [F_read_mode_sc] (\<lambda>_. True)) BatchReadPolicy_properties"
  unfolding list_all_iff
  by (auto simp: BatchReadPolicy_properties_def table_law_def entry_def un_prop_defs BatchReadPolicy_accessors
       split: prop_value.splits option.splits)

interpretation batch_read_policy: property_bag "read_property BatchReadPolicy_properties" "write_property BatchReadPolicy_properties"
    "assignable BatchReadPolicy_properties []" "registered BatchReadPolicy_properties [F_read_mode_sc]" "(\<lambda>_. True)"
  by (rule table_property_bag [OF _ BatchReadPolicy_table_law]) (simp add: BatchReadPolicy_properties_def)

lemma BatchWritePolicy_table_law:
  "list_all (table_law BatchWritePolicy_properties [] [] (\<lambda>_. True)) BatchWritePolicy_properties"
  unfolding list_all_iff
  by (auto simp: BatchWritePolicy_properties_def table_law_def entry_def un_prop_defs BatchWritePolicy_accessors
       split: prop_value.splits option.splits)

interpretation batch_write_policy: property_bag "read_property BatchWritePolicy_properties" "write_property BatchWritePolicy_properties"
    "assignable BatchWritePolicy_properties []" "registered BatchWritePolicy_properties []" "(\<lambda>_. True)"
  by (rule table_property_bag [OF _ BatchWritePolicy_table_law]) (simp add: BatchWritePolicy_properties_def)

lemma BatchDeletePolicy_table_law:
  "list_all (table_law BatchDeletePolicy_properties [] [] (\<lambda>_. True)) BatchDeletePolicy_properties"
  unfolding list_all_iff
  by (auto simp: BatchDeletePolicy_properties_def table_law_def entry_def un_prop_defs BatchDeletePolicy_accessors
       split: prop_value.splits option.splits)

interpretation batch_delete_policy: property_bag "read_property BatchDeletePolicy_properties" "write_property BatchDeletePolicy_properties"
    "assignable BatchDeletePolicy_properties []" "registered BatchDeletePolicy_properties []" "(\<lambda>_. True)"
  by (rule table_property_bag [OF _ BatchDeletePolicy_table_law]) (simp add: BatchDeletePolicy_properties_def)

lemma BatchUdfPolicy_table_law:
  "list_all (table_law BatchUdfPolicy_properties [] [] (\<lambda>_. True)) BatchUdfPolicy_properties"
  unfolding list_all_iff
  by (auto simp: BatchUdfPolicy_properties_def table_law_def entry_def un_prop_defs BatchUdfPolicy_accessors
       split: prop_value.splits option.splits)

interpretation batch_udf_policy: property_bag "read_property BatchUdfPolicy_properties" "write_property BatchUdfPolicy_properties"
    "assignable BatchUdfPolicy_properties []" "registered BatchUdfPolicy_properties []" "(\<lambda>_. True)"
  by (rule table_property_bag [OF _ BatchUdfPolicy_table_law]) (simp add: BatchUdfPolicy_properties_def)

lemma BatchPolicy_default_ok: "BatchPolicy_ok BatchPolicy_default"
  by (simp add: BatchPolicy_ok_def BatchPolicy_default_def)

section \<open>Properties\<close>

text \<open>A batch policy keeps what is assigned to it, the SC read mode included, as long as the property for partial results is not assigned.\<close>

lemma batch_policy_assignments:
  assumes "BatchPolicy_ok s" and "list_all (\<lambda>(f, v). assignable BatchPolicy_properties [F_allow_partial_results] f v) ws"
  shows "\<exists>s'. writes (write_property BatchPolicy_properties) ws s = Inr s' \<and> BatchPolicy_ok s' \<and>
    (\<forall>g. registered BatchPolicy_properties [] g \<longrightarrow>
      read_property BatchPolicy_properties s' g =
        (case map_of (rev ws) g of
           Some v \<Rightarrow> Some (Inr v) | None \<Rightarrow> read_property BatchPolicy_properties s g))"
  using batch_policy.writes_read_back [OF assms] by simp

theorem batch_policy_assignments_witness:
  "\<exists>s'. writes (write_property BatchPolicy_properties) [(F_concurrent_nodes, P_i32 8), (F_read_mode_sc, P_read_mode_sc SC_AllowUnavailable), (F_respond_all_keys, P_bool False)] BatchPolicy_default = Inr s' \<and>
     read_property BatchPolicy_properties s' F_concurrent_nodes = Some (Inr (P_i32 8)) \<and>
     read_property BatchPolicy_properties s' F_read_mode_sc = Some (Inr (P_read_mode_sc SC_AllowUnavailable)) \<and>
     read_property BatchPolicy_properties s' F_respond_all_keys = Some (Inr (P_bool False))"
proof -
  have ok: "list_all (\<lambda>(f, v). assignable BatchPolicy_properties [F_allow_partial_results] f v) [(F_concurrent_nodes, P_i32 8), (F_read_mode_sc, P_read_mode_sc SC_AllowUnavailable), (F_respond_all_keys, P_bool False)]"
    by (auto simp: assignable_def BatchPolicy_properties_def entry_def un_prop_defs expiration_consts
        Expiration_from_u32_def)
  have reg: "registered BatchPolicy_properties [] F_concurrent_nodes" "registered BatchPolicy_properties [] F_read_mode_sc" "registered BatchPolicy_properties [] F_respond_all_keys"
    by (simp_all add: registered_def BatchPolicy_properties_def)
  show ?thesis
    using batch_policy_assignments [OF BatchPolicy_default_ok ok] reg by auto
qed

text \<open>The policy of a batch write keeps every value assigned to it.\<close>

lemma batch_write_policy_assignments:
  assumes "list_all (\<lambda>(f, v). assignable BatchWritePolicy_properties [] f v) ws"
  shows "\<exists>s'. writes (write_property BatchWritePolicy_properties) ws s = Inr s' \<and>
    (\<forall>g. registered BatchWritePolicy_properties [] g \<longrightarrow>
      read_property BatchWritePolicy_properties s' g =
        (case map_of (rev ws) g of
           Some v \<Rightarrow> Some (Inr v) | None \<Rightarrow> read_property BatchWritePolicy_properties s g))"
  using batch_write_policy.writes_read_back [OF TrueI assms] by simp

theorem batch_write_policy_assignments_witness:
  "\<exists>s'. writes (write_property BatchWritePolicy_properties) [(F_generation_policy, P_generation_policy GP_ExpectGenGt), (F_generation, P_u32 4), (F_expiration, P_expiration Never)] BatchWritePolicy_default = Inr s' \<and>
     read_property BatchWritePolicy_properties s' F_generation_policy = Some (Inr (P_generation_policy GP_ExpectGenGt)) \<and>
     read_property BatchWritePolicy_properties s' F_generation = Some (Inr (P_u32 4)) \<and>
     read_property BatchWritePolicy_properties s' F_expiration = Some (Inr (P_expiration Never))"
proof -
  have ok: "list_all (\<lambda>(f, v). assignable BatchWritePolicy_properties [] f v) [(F_generation_policy, P_generation_policy GP_ExpectGenGt), (F_generation, P_u32 4), (F_expiration, P_expiration Never)]"
    by (auto simp: assignable_def BatchWritePolicy_properties_def entry_def un_prop_defs expiration_consts
        Expiration_from_u32_def)
  have reg: "registered BatchWritePolicy_properties [] F_generation_policy" "registered BatchWritePolicy_properties [] F_generation" "registered BatchWritePolicy_properties [] F_expiration"
    by (simp_all add: registered_def BatchWritePolicy_properties_def)
  show ?thesis
    using batch_write_policy_assignments [OF ok, of BatchWritePolicy_default] reg by auto
qed

text \<open>Assigning the property for partial results of a batch policy overwrites the one that
  asks for a response for every key, and leaves the property itself as it was.\<close>

lemma allow_partial_results_sets_respond_all_keys:
  "\<exists>s'. BatchPolicy_set_allow_partial_results b s = Inr s' \<and>
     BatchPolicy_get_allow_partial_results s' = BatchPolicy_get_allow_partial_results s \<and>
     BatchPolicy_get_respond_all_keys s' = Inr b"
  by (simp add: BatchPolicy_accessors)

text \<open>Properties of policies that reach another field: the getters of the SC read mode of the
  read, write, query and scan policies decode the AP read mode, so that they return
  \<^verbatim>\<open>Session\<close> or \<^verbatim>\<open>Linearize\<close> whatever SC mode was assigned; the durable-delete flag of
  a write policy is stored but reads as the flag that asks for a response per operation; and
  assigning the flag for partial results of a batch policy overwrites the one that asks for a
  response for every key.\<close>

lemma misdirected_policy_properties:
  assumes "WritePolicy_ok w" and "QueryPolicy_ok q" and "ScanPolicy_ok c"
  shows "let seen = Inr (case ap of AP_One \<Rightarrow> SC_Session | AP_All \<Rightarrow> SC_Linearize) in
    sbind (ReadPolicy_set_read_mode_ap ap r) (\<lambda>r. sbind (ReadPolicy_set_read_mode_sc m r)
      ReadPolicy_get_read_mode_sc) = seen \<and>
    sbind (WritePolicy_set_read_mode_ap ap w) (\<lambda>w. sbind (WritePolicy_set_read_mode_sc m w)
      WritePolicy_get_read_mode_sc) = seen \<and>
    sbind (QueryPolicy_set_read_mode_ap ap q) (\<lambda>q. sbind (QueryPolicy_set_read_mode_sc m q)
      QueryPolicy_get_read_mode_sc) = seen \<and>
    sbind (ScanPolicy_set_read_mode_ap ap c) (\<lambda>c. sbind (ScanPolicy_set_read_mode_sc m c)
      ScanPolicy_get_read_mode_sc) = seen \<and>
    (\<exists>w'. WritePolicy_set_durable_delete d w = Inr w' \<and> wp_durable_delete w' = d \<and>
      WritePolicy_get_durable_delete w' = WritePolicy_get_respond_per_each_op w) \<and>
    (\<exists>b'. BatchPolicy_set_allow_partial_results d b = Inr b' \<and>
      BatchPolicy_get_allow_partial_results b' = BatchPolicy_get_allow_partial_results b \<and>
      BatchPolicy_get_respond_all_keys b' = Inr d)"
  using read_mode_sc_reads_ap [OF assms, of ap r m] durable_delete_reads_respond_per_each_op [of d w]
    allow_partial_results_sets_respond_all_keys [of d b]
  unfolding Let_def by (intro conjI) (elim conjE, assumption)+

theorem misdirected_policy_properties_witness:
  "sbind (WritePolicy_set_read_mode_ap AP_One WritePolicy_default) (\<lambda>w.
     sbind (WritePolicy_set_read_mode_sc SC_AllowReplica w) WritePolicy_get_read_mode_sc) = Inr SC_Session"
  using misdirected_policy_properties [OF default_policies_ok, of AP_One _ SC_AllowReplica]
  by (simp only: Let_def ReadModeAP.case)

end
