(* ===== verification/Manager_Values.thy ===== *)
theory Manager_Values
  imports Value_Laws
begin

text \<open>
  Values on the other side of the socket: how the connection manager
  (\<^verbatim>\<open>aerospike-connection-manager/kvs.go\<close>) reads the values the client sends
  (\<^verbatim>\<open>toValue\<close>) and writes the values it sends back (\<^verbatim>\<open>fromValue\<close>). The
  Aerospike Go library is not part of the repository: a value made for it is the term of the
  conversion that makes it (\<open>aero_value\<close>), a value got from it is one of the Go types that
  \<^verbatim>\<open>fromValue\<close> distinguishes (\<open>go_any\<close>). The properties say which values of the client
  the manager can read, and compose the manager's writer with the client's decoder.
\<close>

section \<open>Values of the Go library\<close>

text \<open>
  A Go map made by a loop of assignments is the list of these assignments in order.
\<close>

datatype aero_value =
    NullValue
  | IntegerValue i64
  | StringValue string
  | FloatValue f64
  | BoolValue bool
  | BytesValue bytes
  | GeoJSONValue string
  | HLLValue bytes
  | WildCardValue
  | InfinityValue
  | JsonValue "(string \<times> aero_value) list"
  | MapValue "(aero_value \<times> aero_value) list"
  | ListValue "aero_value list"

text \<open>
  The values whose Go type is a slice or a map (they are conversions of one) cannot be map
  keys: the assignment panics.
\<close>
fun hashable :: "aero_value \<Rightarrow> bool" where
  "hashable (BytesValue b) = False"
| "hashable (HLLValue b) = False"
| "hashable (JsonValue j) = False"
| "hashable (MapValue m) = False"
| "hashable (ListValue l) = False"
| "hashable _ = True"

text \<open>The right-hand sides of the loops of \<^verbatim>\<open>toValue\<close>; an absent value is \<^verbatim>\<open>nil\<close>.\<close>

definition or_null :: "(panic + aero_value) option \<Rightarrow> panic + aero_value" where
  "or_null m = (case m of None \<Rightarrow> Inr NullValue | Some r \<Rightarrow> r)"

definition json_assign ::
  "string \<times> (panic + aero_value) option \<Rightarrow> panic + (string \<times> aero_value)" where
  "json_assign e = sbind (or_null (snd e)) (\<lambda>v. Inr (fst e, v))"

definition map_assign ::
  "(panic + aero_value) option \<times> (panic + aero_value) option \<Rightarrow> panic + (aero_value \<times> aero_value)" where
  "map_assign e =
     sbind (or_null (fst e)) (\<lambda>k. sbind (or_null (snd e)) (\<lambda>v.
       if hashable k then Inr (k, v) else Inl UnhashableKey))"

primrec toValue :: "proto_Value \<Rightarrow> panic + aero_value" where
  "toValue V_unset = Inl Unreachable"
| "toValue (V_Nil b) = Inr NullValue"
| "toValue (V_I i) = Inr (IntegerValue i)"
| "toValue (V_F f) = Inr (FloatValue f)"
| "toValue (V_S s) = Inr (StringValue s)"
| "toValue (V_B b) = Inr (BoolValue b)"
| "toValue (V_Blob b) = Inr (BytesValue b)"
| "toValue (V_L l) = sbind (ssequence (map toValue l)) (\<lambda>l'. Inr (ListValue l'))"
| "toValue (V_M m) =
     sbind (ssequence (map map_assign (map (map_prod (map_option toValue) (map_option toValue)) m)))
       (\<lambda>m'. Inr (MapValue m'))"
| "toValue (V_Json j) =
     sbind (ssequence (map json_assign (map (map_prod (\<lambda>k. k) (map_option toValue)) j)))
       (\<lambda>j'. Inr (JsonValue j'))"
| "toValue (V_Geo s) = Inr (GeoJSONValue s)"
| "toValue (V_Hll b) = Inr (HLLValue b)"
| "toValue (V_Wildcard b) = Inr WildCardValue"
| "toValue (V_Infinity b) = Inr InfinityValue"

definition toValue_opt :: "proto_Value option \<Rightarrow> panic + aero_value" where
  "toValue_opt v = or_null (map_option toValue v)"

text \<open>\<^verbatim>\<open>GetL\<close> of a value that is not a list is \<^verbatim>\<open>nil\<close>.\<close>
definition toListValue :: "proto_Value option \<Rightarrow> panic + aero_value list" where
  "toListValue v =
     (case v of
        Some (V_L l) \<Rightarrow> if length l > 0 then ssequence (map toValue l) else Inl Unreachable
      | _ \<Rightarrow> Inl NilDereference)"

section \<open>Values sent back\<close>

text \<open>
  The dynamic types of the type switch of \<^verbatim>\<open>fromValue\<close>: the Go types first, then the
  types of the library; a map is the list of its entries in iteration order. \<open>G_other\<close>
  stands for every type without a case.
\<close>

datatype go_any =
    G_nil
  | G_int i64
  | G_float64 f64
  | G_string string
  | G_bool bool
  | G_bytes bytes
  | G_slice "go_any list"
  | G_map "(go_any \<times> go_any) list"
  | G_MapPairs "(go_any \<times> go_any) list"
  | G_NullValue
  | G_IntegerValue i64
  | G_LongValue i64
  | G_FloatValue f64
  | G_StringValue string
  | G_BoolValue bool
  | G_BytesValue bytes
  | G_JsonValue "(string \<times> go_any) list"
  | G_HLLValue bytes
  | G_GeoJSONValue string
  | G_WildCardValue
  | G_InfinityValue
  | G_OpResults "go_any list"
  | G_other

text \<open>
  \<^verbatim>\<open>m := make([]*pb.MapEntry, len(v))\<close> followed by \<^verbatim>\<open>append\<close>: the slice has as
  many nil entries as the map has entries, and the entries after them. A nil entry of a
  repeated field is sent as an empty message.
\<close>

definition make_then_append :: "'a \<Rightarrow> 'a list \<Rightarrow> 'a list" where
  "make_then_append e xs = replicate (length xs) e @ xs"

definition map_message :: "((panic + proto_Value) \<times> (panic + proto_Value)) list \<Rightarrow> panic + proto_Value" where
  "map_message es =
     sbind (ssequence (map (\<lambda>(k, v). sbind k (\<lambda>k'. sbind v (\<lambda>v'. Inr (Some k', Some v')))) es))
       (\<lambda>m. Inr (V_M (make_then_append (None, None) m)))"

definition list_message :: "(panic + proto_Value) list \<Rightarrow> panic + proto_Value" where
  "list_message es = sbind (ssequence es) (\<lambda>l. Inr (V_L l))"

definition json_message :: "(string \<times> (panic + proto_Value)) list \<Rightarrow> panic + proto_Value" where
  "json_message es =
     sbind (ssequence (map (\<lambda>(k, v). sbind v (\<lambda>v'. Inr (k, Some v'))) es))
       (\<lambda>m. Inr (V_Json (make_then_append ([], None) m)))"

primrec fromValue :: "go_any \<Rightarrow> panic + proto_Value" where
  "fromValue G_nil = Inr (V_Nil True)"
| "fromValue (G_int i) = Inr (V_I i)"
| "fromValue (G_float64 f) = Inr (V_F f)"
| "fromValue (G_string s) = Inr (V_S s)"
| "fromValue (G_bool b) = Inr (V_B b)"
| "fromValue (G_bytes b) = Inr (V_Blob b)"
| "fromValue (G_slice l) = list_message (map fromValue l)"
| "fromValue (G_map m) = map_message (map (map_prod fromValue fromValue) m)"
| "fromValue (G_MapPairs m) = map_message (map (map_prod fromValue fromValue) m)"
| "fromValue G_NullValue = Inr (V_Nil True)"
| "fromValue (G_IntegerValue i) = Inr (V_I i)"
| "fromValue (G_LongValue i) = Inr (V_I i)"
| "fromValue (G_FloatValue f) = Inr (V_F f)"
| "fromValue (G_StringValue s) = Inr (V_S s)"
| "fromValue (G_BoolValue b) = Inr (V_B b)"
| "fromValue (G_BytesValue b) = Inr (V_Blob b)"
| "fromValue (G_JsonValue j) = json_message (map (map_prod (\<lambda>k. k) fromValue) j)"
| "fromValue (G_HLLValue b) = Inr (V_Hll b)"
| "fromValue (G_GeoJSONValue s) = Inr (V_Geo s)"
| "fromValue G_WildCardValue = Inr (V_Wildcard True)"
| "fromValue G_InfinityValue = Inr (V_Infinity True)"
| "fromValue (G_OpResults l) = list_message (map fromValue l)"
| "fromValue G_other = Inl Unreachable"

section \<open>Values the manager can read\<close>

text \<open>Values that may be keys of a Go map once converted.\<close>
fun go_key :: "PHPValue \<Rightarrow> bool" where
  "go_key (PBlob b) = False"
| "go_key (PHLL b) = False"
| "go_key (PJson h) = False"
| "go_key (PHashMap h) = False"
| "go_key (PList l) = False"
| "go_key _ = True"

primrec go_readable :: "PHPValue \<Rightarrow> bool" where
  "go_readable PNil = True"
| "go_readable (PBool b) = True"
| "go_readable (PInt i) = True"
| "go_readable (PUInt u) = True"
| "go_readable (PFloat f) = True"
| "go_readable (PString s) = True"
| "go_readable (PBlob b) = True"
| "go_readable (PList l) = list_all (\<lambda>b. b) (map go_readable l)"
| "go_readable (PHashMap h) =
     (list_all (\<lambda>(a, b). a \<and> b) (map (map_prod go_readable go_readable) h) \<and>
      list_all (\<lambda>(k, v). go_key k) h)"
| "go_readable (PJson h) = list_all snd (map (map_prod (\<lambda>k. k) go_readable) h)"
| "go_readable (PGeoJSON s) = True"
| "go_readable (PHLL b) = True"
| "go_readable PWildcard = True"
| "go_readable PInfinity = True"

lemma toValue_hashable: "toValue (Value_from_PHPValue k) = Inr a \<Longrightarrow> hashable a \<longleftrightarrow> go_key k"
  by (cases k) (auto simp: sbind_Inr_iff)

lemma toValue_readable: "(\<exists>a. toValue (Value_from_PHPValue v) = Inr a) \<longleftrightarrow> go_readable v"
proof (induction v rule: PHPValue_nested_induct)
  case (List l)
  then show ?case by (auto simp: sbind_Inr_iff ssequence_runs list_all_iff)
next
  case (HashMap h)
  have "(\<exists>a. map_assign (Some (toValue (Value_from_PHPValue k)), Some (toValue (Value_from_PHPValue v))) = Inr a)
      \<longleftrightarrow> go_readable k \<and> go_readable v \<and> go_key k" if "(k, v) \<in> set h" for k v
    using HashMap [OF that] toValue_hashable [of k]
    by (auto simp: map_assign_def or_null_def sbind_Inr_iff)
  then have "(\<forall>(k, v) \<in> set h. \<exists>a. map_assign (Some (toValue (Value_from_PHPValue k)),
        Some (toValue (Value_from_PHPValue v))) = Inr a) \<longleftrightarrow>
      (\<forall>(k, v) \<in> set h. go_readable k \<and> go_readable v \<and> go_key k)" by (intro ball_cong) auto
  then show ?case
    by (simp add: sbind_Inr_iff ssequence_runs list_all_iff map_prod_def case_prod_unfold) blast
next
  case (Json h)
  have "(\<exists>a. json_assign (k, Some (toValue (Value_from_PHPValue v))) = Inr a) \<longleftrightarrow> go_readable v"
    if "(k, v) \<in> set h" for k v
    using Json [OF that] by (auto simp: json_assign_def or_null_def sbind_Inr_iff)
  then have "(\<forall>(k, v) \<in> set h. \<exists>a. json_assign (k, Some (toValue (Value_from_PHPValue v))) = Inr a) \<longleftrightarrow>
      (\<forall>(k, v) \<in> set h. go_readable v)" by (intro ball_cong) auto
  then show ?case
    by (simp add: sbind_Inr_iff ssequence_runs list_all_iff map_prod_def case_prod_unfold)
qed auto

section \<open>What the client makes of the answers\<close>

text \<open>The PHP value that a Go value stands for.\<close>

primrec php_value_of :: "go_any \<Rightarrow> PHPValue" where
  "php_value_of G_nil = PNil"
| "php_value_of (G_int i) = PInt i"
| "php_value_of (G_float64 f) = PFloat f"
| "php_value_of (G_string s) = PString s"
| "php_value_of (G_bool b) = PBool b"
| "php_value_of (G_bytes b) = PBlob b"
| "php_value_of (G_slice l) = PList (map php_value_of l)"
| "php_value_of (G_map m) = PHashMap (map (map_prod php_value_of php_value_of) m)"
| "php_value_of (G_MapPairs m) = PHashMap (map (map_prod php_value_of php_value_of) m)"
| "php_value_of G_NullValue = PNil"
| "php_value_of (G_IntegerValue i) = PInt i"
| "php_value_of (G_LongValue i) = PInt i"
| "php_value_of (G_FloatValue f) = PFloat f"
| "php_value_of (G_StringValue s) = PString s"
| "php_value_of (G_BoolValue b) = PBool b"
| "php_value_of (G_BytesValue b) = PBlob b"
| "php_value_of (G_JsonValue j) = PJson (map (map_prod (\<lambda>k. k) php_value_of) j)"
| "php_value_of (G_HLLValue b) = PHLL b"
| "php_value_of (G_GeoJSONValue s) = PGeoJSON s"
| "php_value_of G_WildCardValue = PWildcard"
| "php_value_of G_InfinityValue = PInfinity"
| "php_value_of (G_OpResults l) = PList (map php_value_of l)"
| "php_value_of G_other = PNil"

text \<open>Values with no JSON value and no value of an unknown type inside.\<close>

primrec sendable :: "go_any \<Rightarrow> bool" where
  "sendable G_nil = True"
| "sendable (G_int i) = True"
| "sendable (G_float64 f) = True"
| "sendable (G_string s) = True"
| "sendable (G_bool b) = True"
| "sendable (G_bytes b) = True"
| "sendable (G_slice l) = list_all (\<lambda>b. b) (map sendable l)"
| "sendable (G_map m) = list_all (\<lambda>(a, b). a \<and> b) (map (map_prod sendable sendable) m)"
| "sendable (G_MapPairs m) = list_all (\<lambda>(a, b). a \<and> b) (map (map_prod sendable sendable) m)"
| "sendable G_NullValue = True"
| "sendable (G_IntegerValue i) = True"
| "sendable (G_LongValue i) = True"
| "sendable (G_FloatValue f) = True"
| "sendable (G_StringValue s) = True"
| "sendable (G_BoolValue b) = True"
| "sendable (G_BytesValue b) = True"
| "sendable (G_JsonValue j) = False"
| "sendable (G_HLLValue b) = True"
| "sendable (G_GeoJSONValue s) = True"
| "sendable G_WildCardValue = True"
| "sendable G_InfinityValue = True"
| "sendable (G_OpResults l) = list_all (\<lambda>b. b) (map sendable l)"
| "sendable G_other = False"

lemma fill_map_skips: "fill_map x (replicate n (None, v) @ m) arr = fill_map x m arr"
  by (induction n) auto

lemma decode_map_message:
  "PHPValue_from_Value x (V_M (make_then_append (None, None) m)) = PHPValue_from_Value x (V_M m)"
  by (simp add: make_then_append_def fill_map_skips)

lemma decode_padded_json:
  "j \<noteq> [] \<Longrightarrow> PHPValue_from_Value x (V_Json (make_then_append ([], None) j)) = panics UnwrapNone"
  by (cases j) (simp_all add: make_then_append_def)

text \<open>
  Element by element, the manager's message for a sendable value decodes to its PHP value.
\<close>

definition answers :: "externs \<Rightarrow> go_any \<Rightarrow> bool" where
  "answers x g \<longleftrightarrow> (\<exists>p. fromValue g = Inr p \<and> PHPValue_from_Value x p = ret (php_value_of g))"

lemma answers_list:
  assumes "\<And>g. g \<in> set l \<Longrightarrow> answers x g"
  shows "\<exists>p. list_message (map fromValue l) = Inr p \<and>
    PHPValue_from_Value x p = ret (PList (map php_value_of l))"
proof -
  define msg where "msg g = (SOME p. fromValue g = Inr p \<and> PHPValue_from_Value x p = ret (php_value_of g))" for g
  have msg: "fromValue g = Inr (msg g) \<and> PHPValue_from_Value x (msg g) = ret (php_value_of g)"
    if "g \<in> set l" for g
    using assms [OF that] unfolding answers_def msg_def by (rule someI_ex)
  have "ssequence (map fromValue l) = Inr (map msg l)"
    by (rule ssequence_map_Inr) (simp add: msg)
  moreover have "map (PHPValue_from_Value x) (map msg l) = map ret (map php_value_of l)"
    by (simp add: msg)
  ultimately show ?thesis by (simp add: list_message_def fill_list_ret del: map_map)
qed

lemma answers_map:
  assumes "\<And>k v. (k, v) \<in> set m \<Longrightarrow> answers x k \<and> answers x v"
    and "wire_stable x (PHashMap (map (map_prod php_value_of php_value_of) m))"
  shows "\<exists>p. map_message (map (map_prod fromValue fromValue) m) = Inr p \<and>
    PHPValue_from_Value x p = ret (PHashMap (map (map_prod php_value_of php_value_of) m))"
proof -
  define msg where "msg g = (SOME p. fromValue g = Inr p \<and> PHPValue_from_Value x p = ret (php_value_of g))" for g
  have msg: "fromValue g = Inr (msg g) \<and> PHPValue_from_Value x (msg g) = ret (php_value_of g)"
    if "answers x g" for g
    using that unfolding answers_def msg_def by (rule someI_ex)
  have m: "fromValue k = Inr (msg k)" "fromValue v = Inr (msg v)"
      "PHPValue_from_Value x (msg k) = ret (php_value_of k)" "PHPValue_from_Value x (msg v) = ret (php_value_of v)"
    if "(k, v) \<in> set m" for k v
    using assms(1) [OF that] msg by auto
  have "map_message (map (map_prod fromValue fromValue) m) =
      Inr (V_M (make_then_append (None, None) (map (\<lambda>(k, v). (Some (msg k), Some (msg v))) m)))"
    unfolding map_message_def map_map
    by (subst ssequence_map_Inr [where g = "\<lambda>(k, v). (Some (msg k), Some (msg v))"])
      (auto simp: m)
  moreover have "map (map_prod (map_option (PHPValue_from_Value x)) (map_option (PHPValue_from_Value x)))
      (map (\<lambda>(k, v). (Some (msg k), Some (msg v))) m) =
      map (map_prod (\<lambda>k. Some (ret k)) (\<lambda>v. Some (ret v))) (map (map_prod php_value_of php_value_of) m)"
    by (auto simp: m)
  moreover have "fill_map x (map (map_prod (\<lambda>k. Some (ret k)) (\<lambda>v. Some (ret v)))
      (map (map_prod php_value_of php_value_of) m)) [] = ret (map (map_prod php_value_of php_value_of) m)"
    using fill_map_ret [of x "[]" "map (map_prod php_value_of php_value_of) m"] assms(2) by simp
  ultimately have "map_message (map (map_prod fromValue fromValue) m) =
        Inr (V_M (make_then_append (None, None) (map (\<lambda>(k, v). (Some (msg k), Some (msg v))) m)))"
      "PHPValue_from_Value x (V_M (map (\<lambda>(k, v). (Some (msg k), Some (msg v))) m)) =
        ret (PHashMap (map (map_prod php_value_of php_value_of) m))"
    by (simp_all only: PHPValue_from_Value.simps bnd_ret_left)
  then show ?thesis by (auto simp only: decode_map_message)
qed

lemma go_any_nested_induct
  [case_names nil int float64 string bool bytes slice map pairs Null Integer Long Float String Bool
    Bytes Json HLL Geo WildCard Infinity OpResults other]:
  assumes "P G_nil" "\<And>i. P (G_int i)" "\<And>f. P (G_float64 f)" "\<And>s. P (G_string s)" "\<And>b. P (G_bool b)"
    "\<And>b. P (G_bytes b)" "\<And>l. (\<And>g. g \<in> set l \<Longrightarrow> P g) \<Longrightarrow> P (G_slice l)"
    "\<And>m. (\<And>k v. (k, v) \<in> set m \<Longrightarrow> P k \<and> P v) \<Longrightarrow> P (G_map m)"
    "\<And>m. (\<And>k v. (k, v) \<in> set m \<Longrightarrow> P k \<and> P v) \<Longrightarrow> P (G_MapPairs m)"
    "P G_NullValue" "\<And>i. P (G_IntegerValue i)" "\<And>i. P (G_LongValue i)" "\<And>f. P (G_FloatValue f)"
    "\<And>s. P (G_StringValue s)" "\<And>b. P (G_BoolValue b)" "\<And>b. P (G_BytesValue b)"
    "\<And>j. (\<And>k v. (k, v) \<in> set j \<Longrightarrow> P v) \<Longrightarrow> P (G_JsonValue j)" "\<And>b. P (G_HLLValue b)"
    "\<And>s. P (G_GeoJSONValue s)" "P G_WildCardValue" "P G_InfinityValue"
    "\<And>l. (\<And>g. g \<in> set l \<Longrightarrow> P g) \<Longrightarrow> P (G_OpResults l)" "P G_other"
  shows "P g"
proof (induction g)
  case (G_map m)
  then show ?case by (intro assms(8)) force
next
  case (G_MapPairs m)
  then show ?case by (intro assms(9)) force
next
  case (G_JsonValue j)
  then show ?case by (intro assms(17)) force
qed (use assms in auto)

lemma sendable_answers: "sendable g \<Longrightarrow> wire_stable x (php_value_of g) \<Longrightarrow> answers x g"
proof (induction g rule: go_any_nested_induct)
  case (slice l)
  then have "answers x g" if "g \<in> set l" for g using that by (auto simp: list_all_iff)
  then show ?case using answers_list [of l x] unfolding answers_def [of x "G_slice l"] by simp
next
  case (OpResults l)
  then have "answers x g" if "g \<in> set l" for g using that by (auto simp: list_all_iff)
  then show ?case using answers_list [of l x] unfolding answers_def [of x "G_OpResults l"] by simp
next
  case (map m)
  then have "answers x k \<and> answers x v" if "(k, v) \<in> set m" for k v
    using that by (fastforce simp: list_all_iff)
  then show ?case
    using answers_map [of m x] map.prems(2) unfolding answers_def [of x "G_map m"] by simp
next
  case (pairs m)
  then have "answers x k \<and> answers x v" if "(k, v) \<in> set m" for k v
    using that by (fastforce simp: list_all_iff)
  then show ?case
    using answers_map [of m x] pairs.prems(2) unfolding answers_def [of x "G_MapPairs m"] by simp
qed (simp_all add: answers_def)

section \<open>Properties\<close>

text \<open>C34. The connection manager can read a value exactly when no map in it, at any depth, has
  a key that becomes a Go slice or map (a blob, an HLL, a list or a map); for such a key the
  manager panics, although the client encodes the value without complaint.\<close>

theorem manager_reads_value_iff:
  "(\<exists>a. toValue (Value_from_PHPValue v) = Inr a) \<longleftrightarrow> go_readable v"
  by (rule toValue_readable)

text \<open>C13. A value that the manager can send back arrives in PHP as the value it stands for: the
  manager's writer puts an empty entry before a map's own entries for each of them, and the
  client's decoder skips exactly these. The value holds no JSON and nothing of a type that the
  writer does not know at any depth, and the keys of its maps are values meant as keys and
  stay different; a JSON answer with an entry makes the client panic.\<close>
theorem manager_answer_decodes:
  assumes "sendable g" and "wire_stable x (php_value_of g)"
  shows "\<exists>p. fromValue g = Inr p \<and> PHPValue_from_Value x p = ret (php_value_of g)"
  using sendable_answers [OF assms] by (simp add: answers_def)

theorem manager_answer_decodes_witness:
  "let g = G_map [(G_string ''a'', G_slice [G_int 1, G_nil]), (G_int 2, G_bool True)] in
   sendable g \<and> wire_stable externs0 (php_value_of g) \<and>
   (\<exists>p. fromValue g = Inr p \<and> PHPValue_from_Value externs0 p =
      ret (PHashMap [(PString ''a'', PList [PInt 1, PNil]), (PInt 2, PBool True)]))"
  using manager_answer_decodes
    [of "G_map [(G_string ''a'', G_slice [G_int 1, G_nil]), (G_int 2, G_bool True)]" externs0]
  by (simp del: PHPValue_from_Value.simps fromValue.simps)

text \<open>A JSON value with at least one entry makes the client panic when it comes back: the
  writer's empty entries have no value, and the decoder insists on one.\<close>

lemma json_answer_panics:
  assumes "j \<noteq> []" and "fromValue (G_JsonValue j) = Inr p"
  shows "PHPValue_from_Value x p = panics UnwrapNone"
proof -
  obtain m where m: "p = V_Json (make_then_append ([], None) m)"
      "ssequence (map (\<lambda>(k, v). sbind v (\<lambda>v'. Inr (k, Some v'))) (map (map_prod (\<lambda>k. k) fromValue) j)) = Inr m"
    using assms(2) by (auto simp: json_message_def sbind_Inr_iff)
  then have "m \<noteq> []" using assms(1) by (cases j) (auto simp: sbind_Inr_iff)
  then show ?thesis using m(1) decode_padded_json by simp
qed

theorem json_answer_panics_witness:
  "\<exists>p. fromValue (G_JsonValue [(''k'', G_int 1)]) = Inr p \<and>
     PHPValue_from_Value externs0 p = panics UnwrapNone"
proof -
  have "fromValue (G_JsonValue [(''k'', G_int 1)]) = Inr (V_Json [([], None), (''k'', Some (V_I 1))])"
    by (simp add: json_message_def make_then_append_def)
  with json_answer_panics [OF _ this] show ?thesis by blast
qed

end
