(* ===== verification/Batch.thy ===== *)
theory Batch
  imports Keys Batch_Policies Manager_Values
begin

text \<open>
  Single-record operations and the commands of a batch (classes \<^verbatim>\<open>Operation\<close>,
  \<^verbatim>\<open>BatchRead\<close>, \<^verbatim>\<open>BatchWrite\<close>, \<^verbatim>\<open>BatchDelete\<close>, \<^verbatim>\<open>BatchUdf\<close> and
  \<^verbatim>\<open>BatchRecord\<close> of \<^verbatim>\<open>src/lib.rs\<close>), and how the connection manager reads them
  (\<^verbatim>\<open>toStdOp\<close>, \<^verbatim>\<open>toOps\<close> and \<^verbatim>\<open>toBatchRecordIfc\<close> of \<^verbatim>\<open>kvs.go\<close>). The
  messages of the collection operations are a type parameter.
\<close>

section \<open>Operations\<close>

datatype OperationType =
    OT_Get | OT_GetHeader | OT_Put | OT_Add | OT_Append | OT_Prepend | OT_Touch | OT_Delete

fun OperationType_into_i32 :: "OperationType \<Rightarrow> i32" where
  "OperationType_into_i32 OT_Get = 0"
| "OperationType_into_i32 OT_GetHeader = 1"
| "OperationType_into_i32 OT_Put = 2"
| "OperationType_into_i32 OT_Add = 3"
| "OperationType_into_i32 OT_Append = 4"
| "OperationType_into_i32 OT_Prepend = 5"
| "OperationType_into_i32 OT_Touch = 6"
| "OperationType_into_i32 OT_Delete = 7"

text \<open>\<^verbatim>\<open>proto::StdOperation\<close> and its default, and the variants of an operation.\<close>

record StdOperation =
  so_op_type :: i32
  so_op_sub_type :: "i32 option"
  so_ctx :: "CDTContext list"
  so_bin_name :: "string option"
  so_bin_value :: "proto_Value option"

definition StdOperation_default :: StdOperation where
  "StdOperation_default =
     \<lparr>so_op_type = 0, so_op_sub_type = None, so_ctx = [], so_bin_name = None, so_bin_value = None\<rparr>"

datatype 'cdt Operation = Std StdOperation | Cdt 'cdt

definition Operation_get :: "string option \<Rightarrow> 'cdt Operation" where
  "Operation_get name =
     Std (StdOperation_default\<lparr>so_op_type := OperationType_into_i32 OT_Get, so_bin_name := name\<rparr>)"

definition Operation_get_header :: "'cdt Operation" where
  "Operation_get_header = Std (StdOperation_default\<lparr>so_op_type := OperationType_into_i32 OT_GetHeader\<rparr>)"

definition Operation_put :: "Bin \<Rightarrow> 'cdt Operation" where
  "Operation_put bin =
     Std (StdOperation_default\<lparr>so_op_type := OperationType_into_i32 OT_Put,
       so_bin_name := Some (bin_name bin), so_bin_value := bin_value bin\<rparr>)"

definition Operation_append :: "Bin \<Rightarrow> 'cdt Operation" where
  "Operation_append bin =
     Std (StdOperation_default\<lparr>so_op_type := OperationType_into_i32 OT_Append,
       so_bin_name := Some (bin_name bin), so_bin_value := bin_value bin\<rparr>)"

definition Operation_prepend :: "Bin \<Rightarrow> 'cdt Operation" where
  "Operation_prepend bin =
     Std (StdOperation_default\<lparr>so_op_type := OperationType_into_i32 OT_Prepend,
       so_bin_name := Some (bin_name bin), so_bin_value := bin_value bin\<rparr>)"

definition Operation_add :: "Bin \<Rightarrow> 'cdt Operation" where
  "Operation_add bin =
     Std (StdOperation_default\<lparr>so_op_type := OperationType_into_i32 OT_Add,
       so_bin_name := Some (bin_name bin), so_bin_value := bin_value bin\<rparr>)"

definition Operation_touch :: "'cdt Operation" where
  "Operation_touch = Std (StdOperation_default\<lparr>so_op_type := OperationType_into_i32 OT_Touch\<rparr>)"

definition Operation_delete :: "'cdt Operation" where
  "Operation_delete = Std (StdOperation_default\<lparr>so_op_type := OperationType_into_i32 OT_Delete\<rparr>)"

lemmas operation_defs = Operation_get_def Operation_get_header_def Operation_put_def
  Operation_append_def Operation_prepend_def Operation_add_def Operation_touch_def Operation_delete_def
  StdOperation_default_def

section \<open>Batch commands\<close>

text \<open>\<^verbatim>\<open>proto::BatchRecord\<close>, \<^verbatim>\<open>proto::BatchRead\<close> and the others.\<close>

record BatchRecord =
  brec_key :: "Key option"
  brec_record :: "Record option"
  brec_error :: "proto_Error option"

definition BatchRecord_get_key :: "BatchRecord \<Rightarrow> Key option" where
  "BatchRecord_get_key b = (case brec_key b of None \<Rightarrow> None | Some k \<Rightarrow> Some k)"

definition BatchRecord_get_record :: "BatchRecord \<Rightarrow> Record option" where
  "BatchRecord_get_record b = (case brec_record b of None \<Rightarrow> None | Some r \<Rightarrow> Some r)"

record 'cdt BatchRead =
  br_batch_record :: "BatchRecord option"
  br_policy :: "BatchReadPolicy option"
  br_bin_names :: "string list"
  br_read_all_bins :: bool
  br_ops :: "'cdt Operation list"

record 'cdt BatchWrite =
  bw_batch_record :: "BatchRecord option"
  bw_policy :: "BatchWritePolicy option"
  bw_ops :: "'cdt Operation list"

record BatchDelete =
  bd_batch_record :: "BatchRecord option"
  bd_policy :: "BatchDeletePolicy option"

record BatchUdf =
  bu_batch_record :: "BatchRecord option"
  bu_policy :: "BatchUdfPolicy option"
  bu_package_name :: string
  bu_function_name :: string
  bu_function_args :: "proto_Value list"

text \<open>The batch record of a new command.\<close>
definition new_batch_record :: "Key \<Rightarrow> BatchRecord option" where
  "new_batch_record key = Some \<lparr>brec_key = Some key, brec_record = None, brec_error = None\<rparr>"

definition BatchRead_construct :: "BatchReadPolicy \<Rightarrow> Key \<Rightarrow> string list option \<Rightarrow> 'cdt BatchRead" where
  "BatchRead_construct policy key bins =
     \<lparr>br_batch_record = new_batch_record key, br_policy = Some policy,
      br_bin_names = (case bins of Some l \<Rightarrow> l | None \<Rightarrow> []),
      br_read_all_bins = (case bins of None \<Rightarrow> False | Some l \<Rightarrow> length l = 0),
      br_ops = []\<rparr>"

definition BatchRead_ops :: "BatchReadPolicy \<Rightarrow> Key \<Rightarrow> 'cdt Operation list \<Rightarrow> 'cdt BatchRead" where
  "BatchRead_ops policy key ops =
     \<lparr>br_batch_record = new_batch_record key, br_policy = Some policy, br_bin_names = [],
      br_read_all_bins = False, br_ops = ops\<rparr>"

definition BatchRead_header :: "BatchReadPolicy \<Rightarrow> Key \<Rightarrow> 'cdt BatchRead" where
  "BatchRead_header policy key =
     \<lparr>br_batch_record = new_batch_record key, br_policy = Some policy, br_bin_names = [],
      br_read_all_bins = False, br_ops = []\<rparr>"

definition BatchWrite_construct :: "BatchWritePolicy \<Rightarrow> Key \<Rightarrow> 'cdt Operation list \<Rightarrow> 'cdt BatchWrite" where
  "BatchWrite_construct policy key ops =
     \<lparr>bw_batch_record = new_batch_record key, bw_policy = Some policy, bw_ops = ops\<rparr>"

definition BatchDelete_construct :: "BatchDeletePolicy \<Rightarrow> Key \<Rightarrow> BatchDelete" where
  "BatchDelete_construct policy key =
     \<lparr>bd_batch_record = new_batch_record key, bd_policy = Some policy\<rparr>"

definition BatchUdf_construct ::
  "BatchUdfPolicy \<Rightarrow> Key \<Rightarrow> string \<Rightarrow> string \<Rightarrow> PHPValue list \<Rightarrow> BatchUdf" where
  "BatchUdf_construct policy key package_name function_name function_args =
     \<lparr>bu_batch_record = new_batch_record key, bu_policy = Some policy,
      bu_package_name = package_name, bu_function_name = function_name,
      bu_function_args = map Value_from_PHPValue function_args\<rparr>"

text \<open>\<^verbatim>\<open>proto::BatchOperate\<close>: at most one of the four is set.\<close>

record 'cdt BatchOperate =
  bo_br :: "'cdt BatchRead option"
  bo_bw :: "'cdt BatchWrite option"
  bo_bd :: "BatchDelete option"
  bo_bu :: "BatchUdf option"

definition BatchOperate_default :: "'cdt BatchOperate" where
  "BatchOperate_default = \<lparr>bo_br = None, bo_bw = None, bo_bd = None, bo_bu = None\<rparr>"

section \<open>The manager's reading of a batch\<close>

text \<open>
  The library call for an operation; the conversions of keys and policies keep the message.
\<close>

datatype 'cdt aero_op =
    GetBinOp string | GetOp | GetHeaderOp | PutOp string aero_value | AddOp string aero_value
  | AppendOp string aero_value | PrependOp string aero_value | TouchOp | DeleteOp | CdtOp 'cdt

definition named_bin :: "(string \<Rightarrow> aero_value \<Rightarrow> 'c aero_op) \<Rightarrow> StdOperation \<Rightarrow> panic + 'c aero_op" where
  "named_bin op in' =
     (case so_bin_name in' of
        None \<Rightarrow> Inl NilDereference
      | Some n \<Rightarrow> sbind (toValue_opt (so_bin_value in')) (\<lambda>v. Inr (op n v)))"

definition toStdOp :: "StdOperation \<Rightarrow> panic + 'c aero_op" where
  "toStdOp in' =
     (if so_op_type in' = OperationType_into_i32 OT_Get then
        (case so_bin_name in' of Some n \<Rightarrow> Inr (GetBinOp n) | None \<Rightarrow> Inr GetOp)
      else if so_op_type in' = OperationType_into_i32 OT_GetHeader then Inr GetHeaderOp
      else if so_op_type in' = OperationType_into_i32 OT_Put then named_bin PutOp in'
      else if so_op_type in' = OperationType_into_i32 OT_Add then named_bin AddOp in'
      else if so_op_type in' = OperationType_into_i32 OT_Append then named_bin AppendOp in'
      else if so_op_type in' = OperationType_into_i32 OT_Prepend then named_bin PrependOp in'
      else if so_op_type in' = OperationType_into_i32 OT_Touch then Inr TouchOp
      else if so_op_type in' = OperationType_into_i32 OT_Delete then Inr DeleteOp
      else Inl Unreachable)"

text \<open>\<^verbatim>\<open>toOp\<close>; the conversion of a collection operation is a parameter.\<close>
fun toOp :: "('cdt \<Rightarrow> panic + 'c) \<Rightarrow> 'cdt Operation \<Rightarrow> panic + 'c aero_op" where
  "toOp cdt (Std s) = toStdOp s"
| "toOp cdt (Cdt c) = sbind (cdt c) (\<lambda>c'. Inr (CdtOp c'))"

definition toOps :: "('cdt \<Rightarrow> panic + 'c) \<Rightarrow> 'cdt Operation list \<Rightarrow> panic + 'c aero_op list" where
  "toOps cdt ops = ssequence (map (toOp cdt) ops)"

datatype 'c aero_batch =
    NewBatchRead "BatchReadPolicy option" "Key option" "string list option"
  | NewBatchReadOps "BatchReadPolicy option" "Key option" "'c aero_op list"
  | NewBatchReadHeader "BatchReadPolicy option" "Key option"
  | NewBatchWrite "BatchWritePolicy option" "Key option" "'c aero_op list"
  | NewBatchDelete "BatchDeletePolicy option" "Key option"
  | NewBatchUDF "BatchUdfPolicy option" "Key option" string string "aero_value list"

definition record_key :: "BatchRecord option \<Rightarrow> panic + Key option" where
  "record_key br = (case br of None \<Rightarrow> Inl NilDereference | Some b \<Rightarrow> Inr (brec_key b))"

definition toBatchRecordIfc :: "('cdt \<Rightarrow> panic + 'c) \<Rightarrow> 'cdt BatchOperate \<Rightarrow> panic + 'c aero_batch" where
  "toBatchRecordIfc cdt in' =
     (case (bo_br in', bo_bw in', bo_bd in', bo_bu in') of
        (Some br, _, _, _) \<Rightarrow>
          sbind (record_key (br_batch_record br)) (\<lambda>k.
            if length (br_bin_names br) > 0 then Inr (NewBatchRead (br_policy br) k (Some (br_bin_names br)))
            else if length (br_ops br) > 0 then
              sbind (toOps cdt (br_ops br)) (\<lambda>ops. Inr (NewBatchReadOps (br_policy br) k ops))
            else if br_read_all_bins br then Inr (NewBatchRead (br_policy br) k None)
            else Inr (NewBatchReadHeader (br_policy br) k))
      | (None, Some bw, _, _) \<Rightarrow>
          sbind (record_key (bw_batch_record bw)) (\<lambda>k.
            sbind (toOps cdt (bw_ops bw)) (\<lambda>ops. Inr (NewBatchWrite (bw_policy bw) k ops)))
      | (None, None, Some bd, _) \<Rightarrow>
          sbind (record_key (bd_batch_record bd)) (\<lambda>k. Inr (NewBatchDelete (bd_policy bd) k))
      | (None, None, None, Some bu) \<Rightarrow>
          sbind (record_key (bu_batch_record bu)) (\<lambda>k.
            sbind (ssequence (map toValue (bu_function_args bu))) (\<lambda>args.
              Inr (NewBatchUDF (bu_policy bu) k (bu_package_name bu) (bu_function_name bu) args)))
      | (None, None, None, None) \<Rightarrow> Inl Unreachable)"

section \<open>Properties\<close>

text \<open>Every single-record operation reaches the library function of the same name: reads of
  one bin, of all bins and of the header, writes of a bin with the bin's name and value,
  touch and delete.\<close>

lemma operations_reach_library:
  assumes "bin_value bin = Some v" and "toValue v = Inr a"
  shows "toOp cdt (Operation_get (Some n)) = Inr (GetBinOp n) \<and>
    toOp cdt (Operation_get None) = Inr GetOp \<and>
    toOp cdt Operation_get_header = Inr GetHeaderOp \<and>
    toOp cdt (Operation_put bin) = Inr (PutOp (bin_name bin) a) \<and>
    toOp cdt (Operation_add bin) = Inr (AddOp (bin_name bin) a) \<and>
    toOp cdt (Operation_append bin) = Inr (AppendOp (bin_name bin) a) \<and>
    toOp cdt (Operation_prepend bin) = Inr (PrependOp (bin_name bin) a) \<and>
    toOp cdt Operation_touch = Inr TouchOp \<and>
    toOp cdt Operation_delete = Inr DeleteOp"
  using assms by (simp add: operation_defs toStdOp_def named_bin_def toValue_opt_def or_null_def)

theorem operations_reach_library_witness:
  "toOp Inr (Operation_put \<lparr>bin_name = ''b'', bin_value = Some (V_I 3)\<rparr> :: unit Operation) =
     Inr (PutOp ''b'' (IntegerValue 3))"
  using operations_reach_library [of "\<lparr>bin_name = ''b'', bin_value = Some (V_I 3)\<rparr>" "V_I 3" "IntegerValue 3"
      "Inr :: unit \<Rightarrow> panic + unit"] by simp

text \<open>What a batch read asks for: no list of bins reads only the header, an empty list reads
  every bin, a list with names reads these bins; a read with operations runs them, and with
  an empty list of operations it reads only the header.\<close>

lemma batch_read_meaning:
  "toBatchRecordIfc cdt (BatchOperate_default\<lparr>bo_br := Some (BatchRead_construct p k None)\<rparr>) =
     Inr (NewBatchReadHeader (Some p) (Some k)) \<and>
   toBatchRecordIfc cdt (BatchOperate_default\<lparr>bo_br := Some (BatchRead_construct p k (Some []))\<rparr>) =
     Inr (NewBatchRead (Some p) (Some k) None) \<and>
   toBatchRecordIfc cdt (BatchOperate_default\<lparr>bo_br := Some (BatchRead_construct p k (Some (n # ns)))\<rparr>) =
     Inr (NewBatchRead (Some p) (Some k) (Some (n # ns))) \<and>
   toBatchRecordIfc cdt (BatchOperate_default\<lparr>bo_br := Some (BatchRead_header p k)\<rparr>) =
     Inr (NewBatchReadHeader (Some p) (Some k)) \<and>
   toBatchRecordIfc cdt (BatchOperate_default\<lparr>bo_br := Some (BatchRead_ops p k ops)\<rparr>) =
     (if ops = [] then Inr (NewBatchReadHeader (Some p) (Some k))
      else sbind (toOps cdt ops) (\<lambda>os. Inr (NewBatchReadOps (Some p) (Some k) os)))"
  by (auto simp: toBatchRecordIfc_def BatchOperate_default_def BatchRead_construct_def
      BatchRead_header_def BatchRead_ops_def new_batch_record_def record_key_def)

end
