(* ===== verification/Collections.thy ===== *)
theory Collections
  imports Batch
begin

text \<open>
  The data of the collection operations: flags, return types and policies of the classes
  \<^verbatim>\<open>ListPolicy\<close>, \<^verbatim>\<open>MapPolicy\<close>, \<^verbatim>\<open>HllPolicy\<close> and \<^verbatim>\<open>BitwisePolicy\<close> of
  \<^verbatim>\<open>src/lib.rs\<close>, the command numbers and the four operation messages of
  \<^verbatim>\<open>asld_kvs.proto\<close>. The builders are in the theories of lists, maps, and HLL and bitwise
  operations.
\<close>

section \<open>Flags and return types\<close>

text \<open>
  The classes of the return types wrap a number, so that \<^verbatim>\<open>Inverted\<close> can set a bit in it;
  the flag classes wrap the protobuf enum.
\<close>

type_synonym CdtListReturnType = i32

definition CdtListReturnType_None :: CdtListReturnType where "CdtListReturnType_None = 0"
definition CdtListReturnType_Index :: CdtListReturnType where "CdtListReturnType_Index = 1"
definition CdtListReturnType_Reverse_index :: CdtListReturnType where "CdtListReturnType_Reverse_index = 2"
definition CdtListReturnType_Rank :: CdtListReturnType where "CdtListReturnType_Rank = 3"
definition CdtListReturnType_Reverse_rank :: CdtListReturnType where "CdtListReturnType_Reverse_rank = 4"
definition CdtListReturnType_Count :: CdtListReturnType where "CdtListReturnType_Count = 5"
definition CdtListReturnType_Value :: CdtListReturnType where "CdtListReturnType_Value = 7"
definition CdtListReturnType_Exists :: CdtListReturnType where "CdtListReturnType_Exists = 13"
definition CdtListReturnType_Inverted :: "CdtListReturnType \<Rightarrow> CdtListReturnType" where "CdtListReturnType_Inverted self = self OR 0x10000"

lemmas CdtListReturnType_defs = CdtListReturnType_None_def
  CdtListReturnType_Index_def
  CdtListReturnType_Reverse_index_def
  CdtListReturnType_Rank_def
  CdtListReturnType_Reverse_rank_def
  CdtListReturnType_Count_def
  CdtListReturnType_Value_def
  CdtListReturnType_Exists_def
  CdtListReturnType_Inverted_def

type_synonym CdtMapReturnType = i32

definition CdtMapReturnType_None :: CdtMapReturnType where "CdtMapReturnType_None = 0"
definition CdtMapReturnType_Index :: CdtMapReturnType where "CdtMapReturnType_Index = 1"
definition CdtMapReturnType_Reverse_Index :: CdtMapReturnType where "CdtMapReturnType_Reverse_Index = 2"
definition CdtMapReturnType_Rank :: CdtMapReturnType where "CdtMapReturnType_Rank = 3"
definition CdtMapReturnType_Reverse_Rank :: CdtMapReturnType where "CdtMapReturnType_Reverse_Rank = 4"
definition CdtMapReturnType_Count :: CdtMapReturnType where "CdtMapReturnType_Count = 5"
definition CdtMapReturnType_Key :: CdtMapReturnType where "CdtMapReturnType_Key = 6"
definition CdtMapReturnType_Value :: CdtMapReturnType where "CdtMapReturnType_Value = 7"
definition CdtMapReturnType_Key_Value :: CdtMapReturnType where "CdtMapReturnType_Key_Value = 8"
definition CdtMapReturnType_Exists :: CdtMapReturnType where "CdtMapReturnType_Exists = 13"
definition CdtMapReturnType_Unordered_Map :: CdtMapReturnType where "CdtMapReturnType_Unordered_Map = 16"
definition CdtMapReturnType_Ordered_Map :: CdtMapReturnType where "CdtMapReturnType_Ordered_Map = 17"
definition CdtMapReturnType_Inverted :: "CdtMapReturnType \<Rightarrow> CdtMapReturnType" where "CdtMapReturnType_Inverted self = self OR 0x10000"

lemmas CdtMapReturnType_defs = CdtMapReturnType_None_def
  CdtMapReturnType_Index_def
  CdtMapReturnType_Reverse_Index_def
  CdtMapReturnType_Rank_def
  CdtMapReturnType_Reverse_Rank_def
  CdtMapReturnType_Count_def
  CdtMapReturnType_Key_def
  CdtMapReturnType_Value_def
  CdtMapReturnType_Key_Value_def
  CdtMapReturnType_Exists_def
  CdtMapReturnType_Unordered_Map_def
  CdtMapReturnType_Ordered_Map_def
  CdtMapReturnType_Inverted_def

datatype CdtListWriteFlags =
    LWF_Default | LWF_AddUnique | LWF_InsertBounded | LWF_NoFail
  | LWF_Partial

fun CdtListWriteFlags_into_i32 :: "CdtListWriteFlags \<Rightarrow> i32" where
  "CdtListWriteFlags_into_i32 LWF_Default = 0"
| "CdtListWriteFlags_into_i32 LWF_AddUnique = 1"
| "CdtListWriteFlags_into_i32 LWF_InsertBounded = 2"
| "CdtListWriteFlags_into_i32 LWF_NoFail = 4"
| "CdtListWriteFlags_into_i32 LWF_Partial = 8"

datatype CdtListSortFlags =
    LSF_Default | LSF_Descending | LSF_DropDuplicates

fun CdtListSortFlags_into_i32 :: "CdtListSortFlags \<Rightarrow> i32" where
  "CdtListSortFlags_into_i32 LSF_Default = 0"
| "CdtListSortFlags_into_i32 LSF_Descending = 1"
| "CdtListSortFlags_into_i32 LSF_DropDuplicates = 2"

datatype CdtMapWriteMode =
    MWM_Update | MWM_UpdateOnly | MWM_CreateOnly

fun CdtMapWriteMode_into_i32 :: "CdtMapWriteMode \<Rightarrow> i32" where
  "CdtMapWriteMode_into_i32 MWM_Update = 0"
| "CdtMapWriteMode_into_i32 MWM_UpdateOnly = 1"
| "CdtMapWriteMode_into_i32 MWM_CreateOnly = 2"

datatype CdtMapWriteFlags =
    MWF_Default | MWF_CreateOnly | MWF_UpdateOnly | MWF_NoFail
  | MWF_Partial

fun CdtMapWriteFlags_into_i32 :: "CdtMapWriteFlags \<Rightarrow> i32" where
  "CdtMapWriteFlags_into_i32 MWF_Default = 0"
| "CdtMapWriteFlags_into_i32 MWF_CreateOnly = 1"
| "CdtMapWriteFlags_into_i32 MWF_UpdateOnly = 2"
| "CdtMapWriteFlags_into_i32 MWF_NoFail = 4"
| "CdtMapWriteFlags_into_i32 MWF_Partial = 8"

datatype CdtHllWriteFlags =
    HWF_Default | HWF_CreateOnly | HWF_UpdateOnly | HWF_NoFail
  | HWF_AllowFold

fun CdtHllWriteFlags_into_i32 :: "CdtHllWriteFlags \<Rightarrow> i32" where
  "CdtHllWriteFlags_into_i32 HWF_Default = 0"
| "CdtHllWriteFlags_into_i32 HWF_CreateOnly = 1"
| "CdtHllWriteFlags_into_i32 HWF_UpdateOnly = 2"
| "CdtHllWriteFlags_into_i32 HWF_NoFail = 4"
| "CdtHllWriteFlags_into_i32 HWF_AllowFold = 8"

datatype CdtBitwiseWriteFlags =
    BWF_Default | BWF_CreateOnly | BWF_UpdateOnly | BWF_NoFail
  | BWF_Partial

fun CdtBitwiseWriteFlags_into_i32 :: "CdtBitwiseWriteFlags \<Rightarrow> i32" where
  "CdtBitwiseWriteFlags_into_i32 BWF_Default = 0"
| "CdtBitwiseWriteFlags_into_i32 BWF_CreateOnly = 1"
| "CdtBitwiseWriteFlags_into_i32 BWF_UpdateOnly = 2"
| "CdtBitwiseWriteFlags_into_i32 BWF_NoFail = 4"
| "CdtBitwiseWriteFlags_into_i32 BWF_Partial = 8"

datatype CdtBitwiseResizeFlags =
    BRF_Default | BRF_FromFront | BRF_GrowOnly | BRF_ShrinkOnly

fun CdtBitwiseResizeFlags_into_i32 :: "CdtBitwiseResizeFlags \<Rightarrow> i32" where
  "CdtBitwiseResizeFlags_into_i32 BRF_Default = 0"
| "CdtBitwiseResizeFlags_into_i32 BRF_FromFront = 1"
| "CdtBitwiseResizeFlags_into_i32 BRF_GrowOnly = 2"
| "CdtBitwiseResizeFlags_into_i32 BRF_ShrinkOnly = 4"

datatype CdtBitwiseOverflowAction =
    BOA_Fail | BOA_Saturate | BOA_Wrap

fun CdtBitwiseOverflowAction_into_i32 :: "CdtBitwiseOverflowAction \<Rightarrow> i32" where
  "CdtBitwiseOverflowAction_into_i32 BOA_Fail = 0"
| "CdtBitwiseOverflowAction_into_i32 BOA_Saturate = 2"
| "CdtBitwiseOverflowAction_into_i32 BOA_Wrap = 4"

section \<open>Policies\<close>

record CdtListPolicy =
  clp_order :: i32
  clp_flags :: i32

definition CdtListPolicy_construct :: "ListOrderType \<Rightarrow> CdtListWriteFlags list option \<Rightarrow> CdtListPolicy" where
  "CdtListPolicy_construct order flags =
     (let flags = (case flags of
          Some flags \<Rightarrow> foldl (\<lambda>acc f. acc OR CdtListWriteFlags_into_i32 f) 0 flags
        | None \<Rightarrow> 0)
      in \<lparr>clp_order = ListOrderType_into_i32 order, clp_flags = flags\<rparr>)"

record CdtMapPolicy =
  cmp_map_order :: i32
  cmp_flags :: i32
  cmp_persisted_index :: bool

definition CdtMapPolicy_construct ::
  "MapOrderType \<Rightarrow> CdtMapWriteFlags list option \<Rightarrow> bool option \<Rightarrow> CdtMapPolicy" where
  "CdtMapPolicy_construct order flags persisted_index =
     (let flags = foldl (\<lambda>acc f. acc OR CdtMapWriteFlags_into_i32 f) 0
          (case flags of Some flags \<Rightarrow> flags | None \<Rightarrow> [])
      in \<lparr>cmp_map_order = MapOrderType_into_i32 order, cmp_flags = flags,
          cmp_persisted_index = (case persisted_index of Some b \<Rightarrow> b | None \<Rightarrow> False)\<rparr>)"

definition CdtMapPolicy_default :: CdtMapPolicy where
  "CdtMapPolicy_default =
     \<lparr>cmp_map_order = MapOrderType_into_i32 MO_Unordered,
      cmp_flags = CdtMapWriteFlags_into_i32 MWF_Default, cmp_persisted_index = False\<rparr>"

record CdtHllPolicy =
  chp_flags :: i32

text \<open>The argument of the HLL policy has the class of the list flags.\<close>
definition CdtHllPolicy_construct :: "CdtListWriteFlags option \<Rightarrow> CdtHllPolicy" where
  "CdtHllPolicy_construct flags =
     \<lparr>chp_flags = (case flags of Some f \<Rightarrow> CdtListWriteFlags_into_i32 f | None \<Rightarrow> 0)\<rparr>"

record CdtBitwisePolicy =
  cbp_flags :: i32

definition CdtBitwisePolicy_construct :: "CdtBitwiseWriteFlags option \<Rightarrow> CdtBitwisePolicy" where
  "CdtBitwisePolicy_construct flags =
     \<lparr>cbp_flags = (case flags of Some f \<Rightarrow> CdtBitwiseWriteFlags_into_i32 f | None \<Rightarrow> 0)\<rparr>"

section \<open>Commands and messages\<close>

text \<open>The command numbers, and the command of a received number.\<close>

datatype CdtListCommandOp =
    CL_Create | CL_SetOrder | CL_Append | CL_Insert
  | CL_Pop | CL_PopRange | CL_PopRangeFrom | CL_Set
  | CL_Trim | CL_Clear | CL_Increment | CL_Size
  | CL_Sort | CL_GetByValueList | CL_GetByValueRange | CL_GetByIndex
  | CL_GetByIndexRange | CL_GetByIndexRangeCount | CL_GetByRank | CL_GetByRankRange
  | CL_GetByRankRangeCount | CL_GetByValueRelativeRankRange | CL_GetByValueRelativeRankRangeCount | CL_RemoveByValueList
  | CL_RemoveByValueRange | CL_RemoveByValueRelativeRankRange | CL_RemoveByValueRelativeRankRangeCount | CL_RemoveRange
  | CL_RemoveRangeFrom | CL_RemoveByIndex | CL_RemoveByIndexRange | CL_RemoveByIndexRangeCount
  | CL_RemoveByRank | CL_RemoveByRankRange | CL_RemoveByRankRangeCount

fun CdtListCommandOp_into_i32 :: "CdtListCommandOp \<Rightarrow> i32" where
  "CdtListCommandOp_into_i32 CL_Create = 0"
| "CdtListCommandOp_into_i32 CL_SetOrder = 1"
| "CdtListCommandOp_into_i32 CL_Append = 2"
| "CdtListCommandOp_into_i32 CL_Insert = 3"
| "CdtListCommandOp_into_i32 CL_Pop = 4"
| "CdtListCommandOp_into_i32 CL_PopRange = 5"
| "CdtListCommandOp_into_i32 CL_PopRangeFrom = 6"
| "CdtListCommandOp_into_i32 CL_Set = 7"
| "CdtListCommandOp_into_i32 CL_Trim = 8"
| "CdtListCommandOp_into_i32 CL_Clear = 9"
| "CdtListCommandOp_into_i32 CL_Increment = 10"
| "CdtListCommandOp_into_i32 CL_Size = 11"
| "CdtListCommandOp_into_i32 CL_Sort = 12"
| "CdtListCommandOp_into_i32 CL_GetByValueList = 13"
| "CdtListCommandOp_into_i32 CL_GetByValueRange = 14"
| "CdtListCommandOp_into_i32 CL_GetByIndex = 15"
| "CdtListCommandOp_into_i32 CL_GetByIndexRange = 16"
| "CdtListCommandOp_into_i32 CL_GetByIndexRangeCount = 17"
| "CdtListCommandOp_into_i32 CL_GetByRank = 18"
| "CdtListCommandOp_into_i32 CL_GetByRankRange = 19"
| "CdtListCommandOp_into_i32 CL_GetByRankRangeCount = 20"
| "CdtListCommandOp_into_i32 CL_GetByValueRelativeRankRange = 21"
| "CdtListCommandOp_into_i32 CL_GetByValueRelativeRankRangeCount = 22"
| "CdtListCommandOp_into_i32 CL_RemoveByValueList = 23"
| "CdtListCommandOp_into_i32 CL_RemoveByValueRange = 24"
| "CdtListCommandOp_into_i32 CL_RemoveByValueRelativeRankRange = 25"
| "CdtListCommandOp_into_i32 CL_RemoveByValueRelativeRankRangeCount = 26"
| "CdtListCommandOp_into_i32 CL_RemoveRange = 27"
| "CdtListCommandOp_into_i32 CL_RemoveRangeFrom = 28"
| "CdtListCommandOp_into_i32 CL_RemoveByIndex = 29"
| "CdtListCommandOp_into_i32 CL_RemoveByIndexRange = 30"
| "CdtListCommandOp_into_i32 CL_RemoveByIndexRangeCount = 31"
| "CdtListCommandOp_into_i32 CL_RemoveByRank = 32"
| "CdtListCommandOp_into_i32 CL_RemoveByRankRange = 33"
| "CdtListCommandOp_into_i32 CL_RemoveByRankRangeCount = 34"

definition CdtListCommandOp_all :: "CdtListCommandOp list" where
  "CdtListCommandOp_all =
    [CL_Create, CL_SetOrder, CL_Append, CL_Insert,
     CL_Pop, CL_PopRange, CL_PopRangeFrom, CL_Set,
     CL_Trim, CL_Clear, CL_Increment, CL_Size,
     CL_Sort, CL_GetByValueList, CL_GetByValueRange, CL_GetByIndex,
     CL_GetByIndexRange, CL_GetByIndexRangeCount, CL_GetByRank, CL_GetByRankRange,
     CL_GetByRankRangeCount, CL_GetByValueRelativeRankRange, CL_GetByValueRelativeRankRangeCount, CL_RemoveByValueList,
     CL_RemoveByValueRange, CL_RemoveByValueRelativeRankRange, CL_RemoveByValueRelativeRankRangeCount, CL_RemoveRange,
     CL_RemoveRangeFrom, CL_RemoveByIndex, CL_RemoveByIndexRange, CL_RemoveByIndexRangeCount,
     CL_RemoveByRank, CL_RemoveByRankRange, CL_RemoveByRankRangeCount]"

definition CdtListCommandOp_from_i32 :: "i32 \<Rightarrow> CdtListCommandOp option" where
  "CdtListCommandOp_from_i32 c = find (\<lambda>o'. CdtListCommandOp_into_i32 o' = c) CdtListCommandOp_all"

datatype CdtMapCommandOp =
    CM_Create | CM_CreateWithIndex | CM_SetPolicy | CM_Put
  | CM_PutItems | CM_Increment | CM_Decrement | CM_Clear
  | CM_RemoveByKey | CM_RemoveByKeyList | CM_RemoveByKeyRange | CM_RemoveByValue
  | CM_RemoveByValueList | CM_RemoveByValueRange | CM_RemoveByValueRelativeRankRange | CM_RemoveByValueRelativeRankRangeCount
  | CM_RemoveByIndex | CM_RemoveByIndexRange | CM_RemoveByIndexRangeCount | CM_RemoveByRank
  | CM_RemoveByRankRange | CM_RemoveByRankRangeCount | CM_RemoveByKeyRelativeIndexRange | CM_RemoveByKeyRelativeIndexRangeCount
  | CM_Size | CM_GetByKey | CM_GetByKeyRange | CM_GetByKeyRelativeIndexRange
  | CM_GetByKeyRelativeIndexRangeCount | CM_GetByKeyList | CM_GetByValue | CM_GetByValueRange
  | CM_GetByValueRelativeRankRange | CM_GetByValueRelativeRankRangeCount | CM_GetByValueList | CM_GetByIndex
  | CM_GetByIndexRange | CM_GetByIndexRangeCount | CM_GetByRank | CM_GetByRankRange
  | CM_GetByRankRangeCount

fun CdtMapCommandOp_into_i32 :: "CdtMapCommandOp \<Rightarrow> i32" where
  "CdtMapCommandOp_into_i32 CM_Create = 0"
| "CdtMapCommandOp_into_i32 CM_CreateWithIndex = 1"
| "CdtMapCommandOp_into_i32 CM_SetPolicy = 2"
| "CdtMapCommandOp_into_i32 CM_Put = 3"
| "CdtMapCommandOp_into_i32 CM_PutItems = 4"
| "CdtMapCommandOp_into_i32 CM_Increment = 5"
| "CdtMapCommandOp_into_i32 CM_Decrement = 6"
| "CdtMapCommandOp_into_i32 CM_Clear = 7"
| "CdtMapCommandOp_into_i32 CM_RemoveByKey = 8"
| "CdtMapCommandOp_into_i32 CM_RemoveByKeyList = 9"
| "CdtMapCommandOp_into_i32 CM_RemoveByKeyRange = 10"
| "CdtMapCommandOp_into_i32 CM_RemoveByValue = 11"
| "CdtMapCommandOp_into_i32 CM_RemoveByValueList = 12"
| "CdtMapCommandOp_into_i32 CM_RemoveByValueRange = 13"
| "CdtMapCommandOp_into_i32 CM_RemoveByValueRelativeRankRange = 14"
| "CdtMapCommandOp_into_i32 CM_RemoveByValueRelativeRankRangeCount = 15"
| "CdtMapCommandOp_into_i32 CM_RemoveByIndex = 16"
| "CdtMapCommandOp_into_i32 CM_RemoveByIndexRange = 17"
| "CdtMapCommandOp_into_i32 CM_RemoveByIndexRangeCount = 18"
| "CdtMapCommandOp_into_i32 CM_RemoveByRank = 19"
| "CdtMapCommandOp_into_i32 CM_RemoveByRankRange = 20"
| "CdtMapCommandOp_into_i32 CM_RemoveByRankRangeCount = 21"
| "CdtMapCommandOp_into_i32 CM_RemoveByKeyRelativeIndexRange = 22"
| "CdtMapCommandOp_into_i32 CM_RemoveByKeyRelativeIndexRangeCount = 23"
| "CdtMapCommandOp_into_i32 CM_Size = 24"
| "CdtMapCommandOp_into_i32 CM_GetByKey = 25"
| "CdtMapCommandOp_into_i32 CM_GetByKeyRange = 26"
| "CdtMapCommandOp_into_i32 CM_GetByKeyRelativeIndexRange = 27"
| "CdtMapCommandOp_into_i32 CM_GetByKeyRelativeIndexRangeCount = 28"
| "CdtMapCommandOp_into_i32 CM_GetByKeyList = 29"
| "CdtMapCommandOp_into_i32 CM_GetByValue = 30"
| "CdtMapCommandOp_into_i32 CM_GetByValueRange = 31"
| "CdtMapCommandOp_into_i32 CM_GetByValueRelativeRankRange = 32"
| "CdtMapCommandOp_into_i32 CM_GetByValueRelativeRankRangeCount = 33"
| "CdtMapCommandOp_into_i32 CM_GetByValueList = 34"
| "CdtMapCommandOp_into_i32 CM_GetByIndex = 35"
| "CdtMapCommandOp_into_i32 CM_GetByIndexRange = 36"
| "CdtMapCommandOp_into_i32 CM_GetByIndexRangeCount = 37"
| "CdtMapCommandOp_into_i32 CM_GetByRank = 38"
| "CdtMapCommandOp_into_i32 CM_GetByRankRange = 39"
| "CdtMapCommandOp_into_i32 CM_GetByRankRangeCount = 40"

definition CdtMapCommandOp_all :: "CdtMapCommandOp list" where
  "CdtMapCommandOp_all =
    [CM_Create, CM_CreateWithIndex, CM_SetPolicy, CM_Put,
     CM_PutItems, CM_Increment, CM_Decrement, CM_Clear,
     CM_RemoveByKey, CM_RemoveByKeyList, CM_RemoveByKeyRange, CM_RemoveByValue,
     CM_RemoveByValueList, CM_RemoveByValueRange, CM_RemoveByValueRelativeRankRange, CM_RemoveByValueRelativeRankRangeCount,
     CM_RemoveByIndex, CM_RemoveByIndexRange, CM_RemoveByIndexRangeCount, CM_RemoveByRank,
     CM_RemoveByRankRange, CM_RemoveByRankRangeCount, CM_RemoveByKeyRelativeIndexRange, CM_RemoveByKeyRelativeIndexRangeCount,
     CM_Size, CM_GetByKey, CM_GetByKeyRange, CM_GetByKeyRelativeIndexRange,
     CM_GetByKeyRelativeIndexRangeCount, CM_GetByKeyList, CM_GetByValue, CM_GetByValueRange,
     CM_GetByValueRelativeRankRange, CM_GetByValueRelativeRankRangeCount, CM_GetByValueList, CM_GetByIndex,
     CM_GetByIndexRange, CM_GetByIndexRangeCount, CM_GetByRank, CM_GetByRankRange,
     CM_GetByRankRangeCount]"

definition CdtMapCommandOp_from_i32 :: "i32 \<Rightarrow> CdtMapCommandOp option" where
  "CdtMapCommandOp_from_i32 c = find (\<lambda>o'. CdtMapCommandOp_into_i32 o' = c) CdtMapCommandOp_all"

datatype CdtHllCommandOp =
    CH_Init | CH_Add | CH_SetUnion | CH_RefreshCount
  | CH_Fold | CH_GetCount | CH_GetUnion | CH_GetUnionCount
  | CH_GetIntersectCount | CH_GetSimilarity | CH_Describe

fun CdtHllCommandOp_into_i32 :: "CdtHllCommandOp \<Rightarrow> i32" where
  "CdtHllCommandOp_into_i32 CH_Init = 0"
| "CdtHllCommandOp_into_i32 CH_Add = 1"
| "CdtHllCommandOp_into_i32 CH_SetUnion = 2"
| "CdtHllCommandOp_into_i32 CH_RefreshCount = 3"
| "CdtHllCommandOp_into_i32 CH_Fold = 4"
| "CdtHllCommandOp_into_i32 CH_GetCount = 5"
| "CdtHllCommandOp_into_i32 CH_GetUnion = 6"
| "CdtHllCommandOp_into_i32 CH_GetUnionCount = 7"
| "CdtHllCommandOp_into_i32 CH_GetIntersectCount = 8"
| "CdtHllCommandOp_into_i32 CH_GetSimilarity = 9"
| "CdtHllCommandOp_into_i32 CH_Describe = 10"

definition CdtHllCommandOp_all :: "CdtHllCommandOp list" where
  "CdtHllCommandOp_all =
    [CH_Init, CH_Add, CH_SetUnion, CH_RefreshCount,
     CH_Fold, CH_GetCount, CH_GetUnion, CH_GetUnionCount,
     CH_GetIntersectCount, CH_GetSimilarity, CH_Describe]"

definition CdtHllCommandOp_from_i32 :: "i32 \<Rightarrow> CdtHllCommandOp option" where
  "CdtHllCommandOp_from_i32 c = find (\<lambda>o'. CdtHllCommandOp_into_i32 o' = c) CdtHllCommandOp_all"

datatype CdtBitwiseCommandOp =
    CW_Resize | CW_Insert | CW_Remove | CW_Set
  | CW_Or | CW_Xor | CW_And | CW_Not
  | CW_LShift | CW_RShift | CW_Add | CW_Subtract
  | CW_SetInt | CW_Get | CW_Count | CW_LScan
  | CW_RScan | CW_GetInt

fun CdtBitwiseCommandOp_into_i32 :: "CdtBitwiseCommandOp \<Rightarrow> i32" where
  "CdtBitwiseCommandOp_into_i32 CW_Resize = 0"
| "CdtBitwiseCommandOp_into_i32 CW_Insert = 1"
| "CdtBitwiseCommandOp_into_i32 CW_Remove = 2"
| "CdtBitwiseCommandOp_into_i32 CW_Set = 3"
| "CdtBitwiseCommandOp_into_i32 CW_Or = 4"
| "CdtBitwiseCommandOp_into_i32 CW_Xor = 5"
| "CdtBitwiseCommandOp_into_i32 CW_And = 6"
| "CdtBitwiseCommandOp_into_i32 CW_Not = 7"
| "CdtBitwiseCommandOp_into_i32 CW_LShift = 8"
| "CdtBitwiseCommandOp_into_i32 CW_RShift = 9"
| "CdtBitwiseCommandOp_into_i32 CW_Add = 10"
| "CdtBitwiseCommandOp_into_i32 CW_Subtract = 11"
| "CdtBitwiseCommandOp_into_i32 CW_SetInt = 12"
| "CdtBitwiseCommandOp_into_i32 CW_Get = 13"
| "CdtBitwiseCommandOp_into_i32 CW_Count = 14"
| "CdtBitwiseCommandOp_into_i32 CW_LScan = 15"
| "CdtBitwiseCommandOp_into_i32 CW_RScan = 16"
| "CdtBitwiseCommandOp_into_i32 CW_GetInt = 17"

definition CdtBitwiseCommandOp_all :: "CdtBitwiseCommandOp list" where
  "CdtBitwiseCommandOp_all =
    [CW_Resize, CW_Insert, CW_Remove, CW_Set,
     CW_Or, CW_Xor, CW_And, CW_Not,
     CW_LShift, CW_RShift, CW_Add, CW_Subtract,
     CW_SetInt, CW_Get, CW_Count, CW_LScan,
     CW_RScan, CW_GetInt]"

definition CdtBitwiseCommandOp_from_i32 :: "i32 \<Rightarrow> CdtBitwiseCommandOp option" where
  "CdtBitwiseCommandOp_from_i32 c = find (\<lambda>o'. CdtBitwiseCommandOp_into_i32 o' = c) CdtBitwiseCommandOp_all"

record CdtListOperation =
  lo_op :: i32
  lo_policy :: "CdtListPolicy option"
  lo_bin_name :: string
  lo_args :: "proto_Value list"
  lo_return_type :: "i32 option"
  lo_ctx :: "CDTContext list"

record CdtMapOperation =
  mo_op :: i32
  mo_policy :: "CdtMapPolicy option"
  mo_bin_name :: string
  mo_args :: "proto_Value list"
  mo_return_type :: "i32 option"
  mo_ctx :: "CDTContext list"

record CdtHllOperation =
  ho_op :: i32
  ho_policy :: "CdtHllPolicy option"
  ho_bin_name :: string
  ho_args :: "proto_Value list"

record CdtBitwiseOperation =
  wo_op :: i32
  wo_policy :: "CdtBitwisePolicy option"
  wo_bin_name :: string
  wo_args :: "proto_Value list"
  wo_ctx :: "CDTContext list"

text \<open>The variants of \<^verbatim>\<open>proto::operation::Op\<close> other than the standard operation.\<close>

datatype cdt =
    ListOp CdtListOperation | MapOp CdtMapOperation | HllOp CdtHllOperation
  | BitwiseOp CdtBitwiseOperation

text \<open>The default return types of list and map operations.\<close>

definition list_return :: "CdtListReturnType option \<Rightarrow> i32 option" where
  "list_return return_type =
     (case return_type of Some rt \<Rightarrow> Some rt | None \<Rightarrow> Some CdtListReturnType_Value)"

definition map_return :: "CdtMapReturnType option \<Rightarrow> i32 option" where
  "map_return return_type =
     (case return_type of Some rt \<Rightarrow> Some rt | None \<Rightarrow> Some CdtMapReturnType_Key_Value)"

section \<open>Laws\<close>

interpretation list_ops: code_table CdtListCommandOp_into_i32 CdtListCommandOp_all
proof
  show "o' \<in> set CdtListCommandOp_all" for o' by (cases o') (simp_all add: CdtListCommandOp_all_def)
  show "distinct (map CdtListCommandOp_into_i32 CdtListCommandOp_all)" by code_simp
qed

lemma CdtListCommandOp_from_into [simp]: "CdtListCommandOp_from_i32 (CdtListCommandOp_into_i32 o') = Some o'"
  by (simp add: CdtListCommandOp_from_i32_def list_ops.find_code)

interpretation map_ops: code_table CdtMapCommandOp_into_i32 CdtMapCommandOp_all
proof
  show "o' \<in> set CdtMapCommandOp_all" for o' by (cases o') (simp_all add: CdtMapCommandOp_all_def)
  show "distinct (map CdtMapCommandOp_into_i32 CdtMapCommandOp_all)" by code_simp
qed

lemma CdtMapCommandOp_from_into [simp]: "CdtMapCommandOp_from_i32 (CdtMapCommandOp_into_i32 o') = Some o'"
  by (simp add: CdtMapCommandOp_from_i32_def map_ops.find_code)

interpretation hll_ops: code_table CdtHllCommandOp_into_i32 CdtHllCommandOp_all
proof
  show "o' \<in> set CdtHllCommandOp_all" for o' by (cases o') (simp_all add: CdtHllCommandOp_all_def)
  show "distinct (map CdtHllCommandOp_into_i32 CdtHllCommandOp_all)" by code_simp
qed

lemma CdtHllCommandOp_from_into [simp]: "CdtHllCommandOp_from_i32 (CdtHllCommandOp_into_i32 o') = Some o'"
  by (simp add: CdtHllCommandOp_from_i32_def hll_ops.find_code)

interpretation bitwise_ops: code_table CdtBitwiseCommandOp_into_i32 CdtBitwiseCommandOp_all
proof
  show "o' \<in> set CdtBitwiseCommandOp_all" for o' by (cases o') (simp_all add: CdtBitwiseCommandOp_all_def)
  show "distinct (map CdtBitwiseCommandOp_into_i32 CdtBitwiseCommandOp_all)" by code_simp
qed

lemma CdtBitwiseCommandOp_from_into [simp]: "CdtBitwiseCommandOp_from_i32 (CdtBitwiseCommandOp_into_i32 o') = Some o'"
  by (simp add: CdtBitwiseCommandOp_from_i32_def bitwise_ops.find_code)

declare CdtListCommandOp_into_i32.simps [simp del] CdtMapCommandOp_into_i32.simps [simp del]
  CdtHllCommandOp_into_i32.simps [simp del] CdtBitwiseCommandOp_into_i32.simps [simp del]

lemma bit_foldl_or:
  "bit (foldl (\<lambda>acc f. acc OR g f) a fs) n \<longleftrightarrow> bit (a :: 'a :: len word) n \<or> (\<exists>f \<in> set fs. bit (g f) n)"
  by (induction fs arbitrary: a) (auto simp: bit_or_iff)

end
