(* ===== verification/List_Operations.thy ===== *)
theory List_Operations
  imports Collections
begin

text \<open>
  The class \<^verbatim>\<open>ListOp\<close> of \<^verbatim>\<open>src/lib.rs\<close>: every function builds one list operation message.
\<close>

section \<open>List operations\<close>

definition CdtListOperation_create ::
  "string \<Rightarrow> ListOrderType \<Rightarrow> bool \<Rightarrow> bool option \<Rightarrow> CDTContext list option \<Rightarrow> cdt Operation" where
  "CdtListOperation_create bin_name' order pad index ctx =
     Cdt (ListOp \<lparr>lo_op = CdtListCommandOp_into_i32 CL_Create,
      lo_policy = None,
      lo_bin_name = bin_name',
      lo_args = [Value_from_PHPValue (PInt (i64_from_i32 (ListOrderType_into_i32 order))), Value_from_PHPValue (PBool pad), Value_from_PHPValue (PBool (case index of Some b \<Rightarrow> b | None \<Rightarrow> False))],
      lo_return_type = None,
      lo_ctx = ctx_or_empty ctx\<rparr>)"

definition CdtListOperation_set_order ::
  "string \<Rightarrow> ListOrderType \<Rightarrow> CDTContext list option \<Rightarrow> cdt Operation" where
  "CdtListOperation_set_order bin_name' order ctx =
     Cdt (ListOp \<lparr>lo_op = CdtListCommandOp_into_i32 CL_SetOrder,
      lo_policy = None,
      lo_bin_name = bin_name',
      lo_args = [Value_from_PHPValue (PInt (i64_from_i32 (ListOrderType_into_i32 order)))],
      lo_return_type = None,
      lo_ctx = ctx_or_empty ctx\<rparr>)"

definition CdtListOperation_append ::
  "CdtListPolicy \<Rightarrow> string \<Rightarrow> PHPValue list \<Rightarrow> CDTContext list option \<Rightarrow> cdt Operation" where
  "CdtListOperation_append policy bin_name' values ctx =
     Cdt (ListOp \<lparr>lo_op = CdtListCommandOp_into_i32 CL_Append,
      lo_policy = Some policy,
      lo_bin_name = bin_name',
      lo_args = [Value_from_PHPValue (PList values)],
      lo_return_type = None,
      lo_ctx = ctx_or_empty ctx\<rparr>)"

definition CdtListOperation_insert ::
  "CdtListPolicy \<Rightarrow> string \<Rightarrow> i64 \<Rightarrow> PHPValue list \<Rightarrow> CDTContext list option \<Rightarrow> cdt Operation" where
  "CdtListOperation_insert policy bin_name' index values ctx =
     Cdt (ListOp \<lparr>lo_op = CdtListCommandOp_into_i32 CL_Insert,
      lo_policy = Some policy,
      lo_bin_name = bin_name',
      lo_args = [Value_from_PHPValue (PInt index), Value_from_PHPValue (PList values)],
      lo_return_type = None,
      lo_ctx = ctx_or_empty ctx\<rparr>)"

definition CdtListOperation_pop ::
  "string \<Rightarrow> i64 \<Rightarrow> CDTContext list option \<Rightarrow> cdt Operation" where
  "CdtListOperation_pop bin_name' index ctx =
     Cdt (ListOp \<lparr>lo_op = CdtListCommandOp_into_i32 CL_Pop,
      lo_policy = None,
      lo_bin_name = bin_name',
      lo_args = [Value_from_PHPValue (PInt index)],
      lo_return_type = None,
      lo_ctx = ctx_or_empty ctx\<rparr>)"

definition CdtListOperation_pop_range ::
  "string \<Rightarrow> i64 \<Rightarrow> i64 \<Rightarrow> CDTContext list option \<Rightarrow> cdt Operation" where
  "CdtListOperation_pop_range bin_name' index count ctx =
     Cdt (ListOp \<lparr>lo_op = CdtListCommandOp_into_i32 CL_PopRange,
      lo_policy = None,
      lo_bin_name = bin_name',
      lo_args = [Value_from_PHPValue (PInt index), Value_from_PHPValue (PInt count)],
      lo_return_type = None,
      lo_ctx = ctx_or_empty ctx\<rparr>)"

definition CdtListOperation_pop_range_from ::
  "string \<Rightarrow> i64 \<Rightarrow> CDTContext list option \<Rightarrow> cdt Operation" where
  "CdtListOperation_pop_range_from bin_name' index ctx =
     Cdt (ListOp \<lparr>lo_op = CdtListCommandOp_into_i32 CL_PopRangeFrom,
      lo_policy = None,
      lo_bin_name = bin_name',
      lo_args = [Value_from_PHPValue (PInt index)],
      lo_return_type = None,
      lo_ctx = ctx_or_empty ctx\<rparr>)"

definition CdtListOperation_remove_values ::
  "string \<Rightarrow> PHPValue list \<Rightarrow> CdtListReturnType option \<Rightarrow> CDTContext list option \<Rightarrow> cdt Operation" where
  "CdtListOperation_remove_values bin_name' values return_type ctx =
     Cdt (ListOp \<lparr>lo_op = CdtListCommandOp_into_i32 CL_RemoveByValueList,
      lo_policy = None,
      lo_bin_name = bin_name',
      lo_args = [Value_from_PHPValue (PList values)],
      lo_return_type = list_return return_type,
      lo_ctx = ctx_or_empty ctx\<rparr>)"

definition CdtListOperation_remove_by_value_range ::
  "string \<Rightarrow> PHPValue \<Rightarrow> PHPValue option \<Rightarrow> CdtListReturnType option \<Rightarrow> CDTContext list option \<Rightarrow> cdt Operation" where
  "CdtListOperation_remove_by_value_range bin_name' begin' end' return_type ctx =
     Cdt (ListOp \<lparr>lo_op = CdtListCommandOp_into_i32 CL_RemoveByValueList,
      lo_policy = None,
      lo_bin_name = bin_name',
      lo_args = (case end' of
          Some e \<Rightarrow> [Value_from_PHPValue begin', Value_from_PHPValue e]
        | None \<Rightarrow> [Value_from_PHPValue begin']),
      lo_return_type = list_return return_type,
      lo_ctx = ctx_or_empty ctx\<rparr>)"

definition CdtListOperation_remove_by_value_relative_rank_range ::
  "string \<Rightarrow> PHPValue \<Rightarrow> i64 \<Rightarrow> CdtListReturnType option \<Rightarrow> CDTContext list option \<Rightarrow> cdt Operation" where
  "CdtListOperation_remove_by_value_relative_rank_range bin_name' value rank return_type ctx =
     Cdt (ListOp \<lparr>lo_op = CdtListCommandOp_into_i32 CL_RemoveByValueRelativeRankRange,
      lo_policy = None,
      lo_bin_name = bin_name',
      lo_args = [Value_from_PHPValue value, Value_from_PHPValue (PInt rank)],
      lo_return_type = list_return return_type,
      lo_ctx = ctx_or_empty ctx\<rparr>)"

definition CdtListOperation_remove_by_value_relative_rank_range_count ::
  "string \<Rightarrow> PHPValue \<Rightarrow> i64 \<Rightarrow> i64 \<Rightarrow> CdtListReturnType option \<Rightarrow> CDTContext list option \<Rightarrow> cdt Operation" where
  "CdtListOperation_remove_by_value_relative_rank_range_count bin_name' value rank count return_type ctx =
     Cdt (ListOp \<lparr>lo_op = CdtListCommandOp_into_i32 CL_RemoveByValueRelativeRankRangeCount,
      lo_policy = None,
      lo_bin_name = bin_name',
      lo_args = [Value_from_PHPValue value, Value_from_PHPValue (PInt rank), Value_from_PHPValue (PInt count)],
      lo_return_type = list_return return_type,
      lo_ctx = ctx_or_empty ctx\<rparr>)"

definition CdtListOperation_remove_range ::
  "string \<Rightarrow> i64 \<Rightarrow> i64 \<Rightarrow> CDTContext list option \<Rightarrow> cdt Operation" where
  "CdtListOperation_remove_range bin_name' index count ctx =
     Cdt (ListOp \<lparr>lo_op = CdtListCommandOp_into_i32 CL_RemoveRange,
      lo_policy = None,
      lo_bin_name = bin_name',
      lo_args = [Value_from_PHPValue (PInt index), Value_from_PHPValue (PInt count)],
      lo_return_type = None,
      lo_ctx = ctx_or_empty ctx\<rparr>)"

definition CdtListOperation_remove_range_from ::
  "string \<Rightarrow> i64 \<Rightarrow> CDTContext list option \<Rightarrow> cdt Operation" where
  "CdtListOperation_remove_range_from bin_name' index ctx =
     Cdt (ListOp \<lparr>lo_op = CdtListCommandOp_into_i32 CL_RemoveRangeFrom,
      lo_policy = None,
      lo_bin_name = bin_name',
      lo_args = [Value_from_PHPValue (PInt index)],
      lo_return_type = None,
      lo_ctx = ctx_or_empty ctx\<rparr>)"

definition CdtListOperation_set ::
  "string \<Rightarrow> i64 \<Rightarrow> PHPValue \<Rightarrow> CDTContext list option \<Rightarrow> cdt Operation" where
  "CdtListOperation_set bin_name' index value ctx =
     Cdt (ListOp \<lparr>lo_op = CdtListCommandOp_into_i32 CL_Set,
      lo_policy = None,
      lo_bin_name = bin_name',
      lo_args = [Value_from_PHPValue (PInt index), Value_from_PHPValue value],
      lo_return_type = None,
      lo_ctx = ctx_or_empty ctx\<rparr>)"

definition CdtListOperation_trim ::
  "string \<Rightarrow> i64 \<Rightarrow> i64 \<Rightarrow> CDTContext list option \<Rightarrow> cdt Operation" where
  "CdtListOperation_trim bin_name' index count ctx =
     Cdt (ListOp \<lparr>lo_op = CdtListCommandOp_into_i32 CL_Trim,
      lo_policy = None,
      lo_bin_name = bin_name',
      lo_args = [Value_from_PHPValue (PInt index), Value_from_PHPValue (PInt count)],
      lo_return_type = None,
      lo_ctx = ctx_or_empty ctx\<rparr>)"

definition CdtListOperation_clear ::
  "string \<Rightarrow> CDTContext list option \<Rightarrow> cdt Operation" where
  "CdtListOperation_clear bin_name' ctx =
     Cdt (ListOp \<lparr>lo_op = CdtListCommandOp_into_i32 CL_Clear,
      lo_policy = None,
      lo_bin_name = bin_name',
      lo_args = [],
      lo_return_type = None,
      lo_ctx = ctx_or_empty ctx\<rparr>)"

definition CdtListOperation_increment ::
  "string \<Rightarrow> i64 \<Rightarrow> PHPValue \<Rightarrow> CDTContext list option \<Rightarrow> cdt Operation" where
  "CdtListOperation_increment bin_name' index value ctx =
     Cdt (ListOp \<lparr>lo_op = CdtListCommandOp_into_i32 CL_Increment,
      lo_policy = None,
      lo_bin_name = bin_name',
      lo_args = [Value_from_PHPValue (PInt index), Value_from_PHPValue value],
      lo_return_type = None,
      lo_ctx = ctx_or_empty ctx\<rparr>)"

definition CdtListOperation_size ::
  "string \<Rightarrow> CDTContext list option \<Rightarrow> cdt Operation" where
  "CdtListOperation_size bin_name' ctx =
     Cdt (ListOp \<lparr>lo_op = CdtListCommandOp_into_i32 CL_Size,
      lo_policy = None,
      lo_bin_name = bin_name',
      lo_args = [],
      lo_return_type = None,
      lo_ctx = ctx_or_empty ctx\<rparr>)"

definition CdtListOperation_sort ::
  "string \<Rightarrow> CdtListSortFlags \<Rightarrow> CDTContext list option \<Rightarrow> cdt Operation" where
  "CdtListOperation_sort bin_name' sort_flags ctx =
     Cdt (ListOp \<lparr>lo_op = CdtListCommandOp_into_i32 CL_Sort,
      lo_policy = None,
      lo_bin_name = bin_name',
      lo_args = [Value_from_PHPValue (PInt (i64_from_i32 (CdtListSortFlags_into_i32 sort_flags)))],
      lo_return_type = None,
      lo_ctx = ctx_or_empty ctx\<rparr>)"

definition CdtListOperation_remove_by_index ::
  "string \<Rightarrow> i64 \<Rightarrow> CdtListReturnType option \<Rightarrow> CDTContext list option \<Rightarrow> cdt Operation" where
  "CdtListOperation_remove_by_index bin_name' index return_type ctx =
     Cdt (ListOp \<lparr>lo_op = CdtListCommandOp_into_i32 CL_RemoveByIndex,
      lo_policy = None,
      lo_bin_name = bin_name',
      lo_args = [Value_from_PHPValue (PInt index)],
      lo_return_type = list_return return_type,
      lo_ctx = ctx_or_empty ctx\<rparr>)"

definition CdtListOperation_remove_by_index_range ::
  "string \<Rightarrow> i64 \<Rightarrow> CdtListReturnType option \<Rightarrow> CDTContext list option \<Rightarrow> cdt Operation" where
  "CdtListOperation_remove_by_index_range bin_name' index return_type ctx =
     Cdt (ListOp \<lparr>lo_op = CdtListCommandOp_into_i32 CL_RemoveByIndexRange,
      lo_policy = None,
      lo_bin_name = bin_name',
      lo_args = [Value_from_PHPValue (PInt index)],
      lo_return_type = list_return return_type,
      lo_ctx = ctx_or_empty ctx\<rparr>)"

definition CdtListOperation_remove_by_index_range_count ::
  "string \<Rightarrow> i64 \<Rightarrow> i64 \<Rightarrow> CdtListReturnType option \<Rightarrow> CDTContext list option \<Rightarrow> cdt Operation" where
  "CdtListOperation_remove_by_index_range_count bin_name' index count return_type ctx =
     Cdt (ListOp \<lparr>lo_op = CdtListCommandOp_into_i32 CL_RemoveByIndexRangeCount,
      lo_policy = None,
      lo_bin_name = bin_name',
      lo_args = [Value_from_PHPValue (PInt index), Value_from_PHPValue (PInt count)],
      lo_return_type = list_return return_type,
      lo_ctx = ctx_or_empty ctx\<rparr>)"

definition CdtListOperation_remove_by_rank ::
  "string \<Rightarrow> i64 \<Rightarrow> CdtListReturnType option \<Rightarrow> CDTContext list option \<Rightarrow> cdt Operation" where
  "CdtListOperation_remove_by_rank bin_name' rank return_type ctx =
     Cdt (ListOp \<lparr>lo_op = CdtListCommandOp_into_i32 CL_RemoveByRank,
      lo_policy = None,
      lo_bin_name = bin_name',
      lo_args = [Value_from_PHPValue (PInt rank)],
      lo_return_type = list_return return_type,
      lo_ctx = ctx_or_empty ctx\<rparr>)"

definition CdtListOperation_remove_by_rank_range ::
  "string \<Rightarrow> i64 \<Rightarrow> CdtListReturnType option \<Rightarrow> CDTContext list option \<Rightarrow> cdt Operation" where
  "CdtListOperation_remove_by_rank_range bin_name' rank return_type ctx =
     Cdt (ListOp \<lparr>lo_op = CdtListCommandOp_into_i32 CL_RemoveByRankRange,
      lo_policy = None,
      lo_bin_name = bin_name',
      lo_args = [Value_from_PHPValue (PInt rank)],
      lo_return_type = list_return return_type,
      lo_ctx = ctx_or_empty ctx\<rparr>)"

definition CdtListOperation_remove_by_rank_range_count ::
  "string \<Rightarrow> i64 \<Rightarrow> i64 \<Rightarrow> CdtListReturnType option \<Rightarrow> CDTContext list option \<Rightarrow> cdt Operation" where
  "CdtListOperation_remove_by_rank_range_count bin_name' rank count return_type ctx =
     Cdt (ListOp \<lparr>lo_op = CdtListCommandOp_into_i32 CL_RemoveByRankRangeCount,
      lo_policy = None,
      lo_bin_name = bin_name',
      lo_args = [Value_from_PHPValue (PInt rank), Value_from_PHPValue (PInt count)],
      lo_return_type = list_return return_type,
      lo_ctx = ctx_or_empty ctx\<rparr>)"

definition CdtListOperation_get_by_values ::
  "string \<Rightarrow> PHPValue list \<Rightarrow> CdtListReturnType option \<Rightarrow> CDTContext list option \<Rightarrow> cdt Operation" where
  "CdtListOperation_get_by_values bin_name' values return_type ctx =
     Cdt (ListOp \<lparr>lo_op = CdtListCommandOp_into_i32 CL_GetByValueList,
      lo_policy = None,
      lo_bin_name = bin_name',
      lo_args = [Value_from_PHPValue (PList values)],
      lo_return_type = list_return return_type,
      lo_ctx = ctx_or_empty ctx\<rparr>)"

definition CdtListOperation_get_by_value_range ::
  "string \<Rightarrow> PHPValue \<Rightarrow> PHPValue option \<Rightarrow> CdtListReturnType option \<Rightarrow> CDTContext list option \<Rightarrow> cdt Operation" where
  "CdtListOperation_get_by_value_range bin_name' begin' end' return_type ctx =
     Cdt (ListOp \<lparr>lo_op = CdtListCommandOp_into_i32 CL_GetByValueRange,
      lo_policy = None,
      lo_bin_name = bin_name',
      lo_args = (case end' of
          Some e \<Rightarrow> [Value_from_PHPValue begin', Value_from_PHPValue e]
        | None \<Rightarrow> [Value_from_PHPValue begin']),
      lo_return_type = list_return return_type,
      lo_ctx = ctx_or_empty ctx\<rparr>)"

definition CdtListOperation_get_by_index ::
  "string \<Rightarrow> i64 \<Rightarrow> CdtListReturnType option \<Rightarrow> CDTContext list option \<Rightarrow> cdt Operation" where
  "CdtListOperation_get_by_index bin_name' index return_type ctx =
     Cdt (ListOp \<lparr>lo_op = CdtListCommandOp_into_i32 CL_GetByIndex,
      lo_policy = None,
      lo_bin_name = bin_name',
      lo_args = [Value_from_PHPValue (PInt index)],
      lo_return_type = list_return return_type,
      lo_ctx = ctx_or_empty ctx\<rparr>)"

definition CdtListOperation_get_by_index_range ::
  "string \<Rightarrow> i64 \<Rightarrow> CdtListReturnType option \<Rightarrow> CDTContext list option \<Rightarrow> cdt Operation" where
  "CdtListOperation_get_by_index_range bin_name' index return_type ctx =
     Cdt (ListOp \<lparr>lo_op = CdtListCommandOp_into_i32 CL_GetByIndexRange,
      lo_policy = None,
      lo_bin_name = bin_name',
      lo_args = [Value_from_PHPValue (PInt index)],
      lo_return_type = list_return return_type,
      lo_ctx = ctx_or_empty ctx\<rparr>)"

definition CdtListOperation_get_by_index_range_count ::
  "string \<Rightarrow> i64 \<Rightarrow> i64 \<Rightarrow> CdtListReturnType option \<Rightarrow> CDTContext list option \<Rightarrow> cdt Operation" where
  "CdtListOperation_get_by_index_range_count bin_name' index count return_type ctx =
     Cdt (ListOp \<lparr>lo_op = CdtListCommandOp_into_i32 CL_GetByIndexRangeCount,
      lo_policy = None,
      lo_bin_name = bin_name',
      lo_args = [Value_from_PHPValue (PInt index), Value_from_PHPValue (PInt count)],
      lo_return_type = list_return return_type,
      lo_ctx = ctx_or_empty ctx\<rparr>)"

definition CdtListOperation_get_by_rank ::
  "string \<Rightarrow> i64 \<Rightarrow> CdtListReturnType option \<Rightarrow> CDTContext list option \<Rightarrow> cdt Operation" where
  "CdtListOperation_get_by_rank bin_name' rank return_type ctx =
     Cdt (ListOp \<lparr>lo_op = CdtListCommandOp_into_i32 CL_GetByRank,
      lo_policy = None,
      lo_bin_name = bin_name',
      lo_args = [Value_from_PHPValue (PInt rank)],
      lo_return_type = list_return return_type,
      lo_ctx = ctx_or_empty ctx\<rparr>)"

definition CdtListOperation_get_by_rank_range ::
  "string \<Rightarrow> i64 \<Rightarrow> CdtListReturnType option \<Rightarrow> CDTContext list option \<Rightarrow> cdt Operation" where
  "CdtListOperation_get_by_rank_range bin_name' rank return_type ctx =
     Cdt (ListOp \<lparr>lo_op = CdtListCommandOp_into_i32 CL_GetByRankRange,
      lo_policy = None,
      lo_bin_name = bin_name',
      lo_args = [Value_from_PHPValue (PInt rank)],
      lo_return_type = list_return return_type,
      lo_ctx = ctx_or_empty ctx\<rparr>)"

definition CdtListOperation_get_by_rank_range_count ::
  "string \<Rightarrow> i64 \<Rightarrow> i64 \<Rightarrow> CdtListReturnType option \<Rightarrow> CDTContext list option \<Rightarrow> cdt Operation" where
  "CdtListOperation_get_by_rank_range_count bin_name' rank count return_type ctx =
     Cdt (ListOp \<lparr>lo_op = CdtListCommandOp_into_i32 CL_GetByRankRangeCount,
      lo_policy = None,
      lo_bin_name = bin_name',
      lo_args = [Value_from_PHPValue (PInt rank), Value_from_PHPValue (PInt count)],
      lo_return_type = list_return return_type,
      lo_ctx = ctx_or_empty ctx\<rparr>)"

definition CdtListOperation_get_by_value_relative_rank_range ::
  "string \<Rightarrow> PHPValue \<Rightarrow> i64 \<Rightarrow> CdtListReturnType option \<Rightarrow> CDTContext list option \<Rightarrow> cdt Operation" where
  "CdtListOperation_get_by_value_relative_rank_range bin_name' value rank return_type ctx =
     Cdt (ListOp \<lparr>lo_op = CdtListCommandOp_into_i32 CL_GetByValueRelativeRankRange,
      lo_policy = None,
      lo_bin_name = bin_name',
      lo_args = [Value_from_PHPValue value, Value_from_PHPValue (PInt rank)],
      lo_return_type = list_return return_type,
      lo_ctx = ctx_or_empty ctx\<rparr>)"

definition CdtListOperation_get_by_value_relative_rank_range_count ::
  "string \<Rightarrow> PHPValue \<Rightarrow> i64 \<Rightarrow> i64 \<Rightarrow> CdtListReturnType option \<Rightarrow> CDTContext list option \<Rightarrow> cdt Operation" where
  "CdtListOperation_get_by_value_relative_rank_range_count bin_name' value rank count return_type ctx =
     Cdt (ListOp \<lparr>lo_op = CdtListCommandOp_into_i32 CL_GetByValueRelativeRankRangeCount,
      lo_policy = None,
      lo_bin_name = bin_name',
      lo_args = [Value_from_PHPValue value, Value_from_PHPValue (PInt rank), Value_from_PHPValue (PInt count)],
      lo_return_type = list_return return_type,
      lo_ctx = ctx_or_empty ctx\<rparr>)"

lemmas list_operation_defs =
  CdtListOperation_create_def
  CdtListOperation_set_order_def
  CdtListOperation_append_def
  CdtListOperation_insert_def
  CdtListOperation_pop_def
  CdtListOperation_pop_range_def
  CdtListOperation_pop_range_from_def
  CdtListOperation_remove_values_def
  CdtListOperation_remove_by_value_range_def
  CdtListOperation_remove_by_value_relative_rank_range_def
  CdtListOperation_remove_by_value_relative_rank_range_count_def
  CdtListOperation_remove_range_def
  CdtListOperation_remove_range_from_def
  CdtListOperation_set_def
  CdtListOperation_trim_def
  CdtListOperation_clear_def
  CdtListOperation_increment_def
  CdtListOperation_size_def
  CdtListOperation_sort_def
  CdtListOperation_remove_by_index_def
  CdtListOperation_remove_by_index_range_def
  CdtListOperation_remove_by_index_range_count_def
  CdtListOperation_remove_by_rank_def
  CdtListOperation_remove_by_rank_range_def
  CdtListOperation_remove_by_rank_range_count_def
  CdtListOperation_get_by_values_def
  CdtListOperation_get_by_value_range_def
  CdtListOperation_get_by_index_def
  CdtListOperation_get_by_index_range_def
  CdtListOperation_get_by_index_range_count_def
  CdtListOperation_get_by_rank_def
  CdtListOperation_get_by_rank_range_def
  CdtListOperation_get_by_rank_range_count_def
  CdtListOperation_get_by_value_relative_rank_range_def
  CdtListOperation_get_by_value_relative_rank_range_count_def

end
