(* ===== verification/Map_Operations.thy ===== *)
theory Map_Operations
  imports Collections
begin

text \<open>
  The class \<^verbatim>\<open>MapOp\<close> of \<^verbatim>\<open>src/lib.rs\<close>: every function builds one map operation message;
  \<^verbatim>\<open>put\<close> first checks that its argument is a map.
\<close>

section \<open>Map operations\<close>

definition CdtMapOperation_create ::
  "string \<Rightarrow> MapOrderType \<Rightarrow> bool option \<Rightarrow> CDTContext list option \<Rightarrow> cdt Operation" where
  "CdtMapOperation_create bin_name' order with_index ctx =
     Cdt (MapOp \<lparr>mo_op = CdtMapCommandOp_into_i32 CM_Create,
      mo_policy = Some (CdtMapPolicy_construct order None with_index),
      mo_bin_name = bin_name',
      mo_args = [],
      mo_return_type = None,
      mo_ctx = ctx_or_empty ctx\<rparr>)"

definition CdtMapOperation_set_policy ::
  "CdtMapPolicy \<Rightarrow> string \<Rightarrow> CDTContext list option \<Rightarrow> cdt Operation" where
  "CdtMapOperation_set_policy policy bin_name' ctx =
     Cdt (MapOp \<lparr>mo_op = CdtMapCommandOp_into_i32 CM_SetPolicy,
      mo_policy = Some policy,
      mo_bin_name = bin_name',
      mo_args = [],
      mo_return_type = None,
      mo_ctx = ctx_or_empty ctx\<rparr>)"

definition CdtMapOperation_size ::
  "string \<Rightarrow> CDTContext list option \<Rightarrow> cdt Operation" where
  "CdtMapOperation_size bin_name' ctx =
     Cdt (MapOp \<lparr>mo_op = CdtMapCommandOp_into_i32 CM_SetPolicy,
      mo_policy = None,
      mo_bin_name = bin_name',
      mo_args = [],
      mo_return_type = None,
      mo_ctx = ctx_or_empty ctx\<rparr>)"

definition CdtMapOperation_put ::
  "CdtMapPolicy \<Rightarrow> string \<Rightarrow> PHPValue \<Rightarrow> CDTContext list option \<Rightarrow> cdt Operation option php" where
  "CdtMapOperation_put policy bin_name' map' ctx =
     bnd (assert_map map') (\<lambda>ok.
      if \<not> ok then ret None
      else ret (Some (Cdt (MapOp \<lparr>mo_op = CdtMapCommandOp_into_i32 CM_PutItems,
      mo_policy = Some policy,
      mo_bin_name = bin_name',
      mo_args = [Value_from_PHPValue map'],
      mo_return_type = None,
      mo_ctx = ctx_or_empty ctx\<rparr>))))"

definition CdtMapOperation_increment ::
  "CdtMapPolicy \<Rightarrow> string \<Rightarrow> PHPValue \<Rightarrow> PHPValue \<Rightarrow> CDTContext list option \<Rightarrow> cdt Operation" where
  "CdtMapOperation_increment policy bin_name' key incr ctx =
     Cdt (MapOp \<lparr>mo_op = CdtMapCommandOp_into_i32 CM_Increment,
      mo_policy = Some policy,
      mo_bin_name = bin_name',
      mo_args = [Value_from_PHPValue key, Value_from_PHPValue incr],
      mo_return_type = None,
      mo_ctx = ctx_or_empty ctx\<rparr>)"

definition CdtMapOperation_decrement ::
  "CdtMapPolicy \<Rightarrow> string \<Rightarrow> PHPValue \<Rightarrow> PHPValue \<Rightarrow> CDTContext list option \<Rightarrow> cdt Operation" where
  "CdtMapOperation_decrement policy bin_name' key decr ctx =
     Cdt (MapOp \<lparr>mo_op = CdtMapCommandOp_into_i32 CM_Decrement,
      mo_policy = Some policy,
      mo_bin_name = bin_name',
      mo_args = [Value_from_PHPValue key, Value_from_PHPValue decr],
      mo_return_type = None,
      mo_ctx = ctx_or_empty ctx\<rparr>)"

definition CdtMapOperation_clear ::
  "string \<Rightarrow> CDTContext list option \<Rightarrow> cdt Operation" where
  "CdtMapOperation_clear bin_name' ctx =
     Cdt (MapOp \<lparr>mo_op = CdtMapCommandOp_into_i32 CM_Clear,
      mo_policy = None,
      mo_bin_name = bin_name',
      mo_args = [],
      mo_return_type = None,
      mo_ctx = ctx_or_empty ctx\<rparr>)"

definition CdtMapOperation_remove_by_keys ::
  "string \<Rightarrow> PHPValue list \<Rightarrow> CdtMapReturnType option \<Rightarrow> CDTContext list option \<Rightarrow> cdt Operation" where
  "CdtMapOperation_remove_by_keys bin_name' keys return_type ctx =
     Cdt (MapOp \<lparr>mo_op = CdtMapCommandOp_into_i32 CM_RemoveByKeyList,
      mo_policy = None,
      mo_bin_name = bin_name',
      mo_args = [Value_from_PHPValue (PList keys)],
      mo_return_type = map_return return_type,
      mo_ctx = ctx_or_empty ctx\<rparr>)"

definition CdtMapOperation_remove_by_key_range ::
  "CdtMapPolicy \<Rightarrow> string \<Rightarrow> PHPValue \<Rightarrow> PHPValue \<Rightarrow> CdtMapReturnType option \<Rightarrow> CDTContext list option \<Rightarrow> cdt Operation" where
  "CdtMapOperation_remove_by_key_range policy bin_name' begin' end' return_type ctx =
     Cdt (MapOp \<lparr>mo_op = CdtMapCommandOp_into_i32 CM_RemoveByKeyRange,
      mo_policy = Some policy,
      mo_bin_name = bin_name',
      mo_args = [Value_from_PHPValue begin', Value_from_PHPValue end'],
      mo_return_type = map_return return_type,
      mo_ctx = ctx_or_empty ctx\<rparr>)"

definition CdtMapOperation_remove_by_values ::
  "CdtMapPolicy \<Rightarrow> string \<Rightarrow> PHPValue list \<Rightarrow> CdtMapReturnType option \<Rightarrow> CDTContext list option \<Rightarrow> cdt Operation" where
  "CdtMapOperation_remove_by_values policy bin_name' values return_type ctx =
     Cdt (MapOp \<lparr>mo_op = CdtMapCommandOp_into_i32 CM_RemoveByValueList,
      mo_policy = Some policy,
      mo_bin_name = bin_name',
      mo_args = [Value_from_PHPValue (PList values)],
      mo_return_type = map_return return_type,
      mo_ctx = ctx_or_empty ctx\<rparr>)"

definition CdtMapOperation_remove_by_value_range ::
  "CdtMapPolicy \<Rightarrow> string \<Rightarrow> PHPValue \<Rightarrow> PHPValue \<Rightarrow> CdtMapReturnType option \<Rightarrow> CDTContext list option \<Rightarrow> cdt Operation" where
  "CdtMapOperation_remove_by_value_range policy bin_name' begin' end' return_type ctx =
     Cdt (MapOp \<lparr>mo_op = CdtMapCommandOp_into_i32 CM_RemoveByValueRange,
      mo_policy = Some policy,
      mo_bin_name = bin_name',
      mo_args = [Value_from_PHPValue begin', Value_from_PHPValue end'],
      mo_return_type = map_return return_type,
      mo_ctx = ctx_or_empty ctx\<rparr>)"

definition CdtMapOperation_remove_by_value_relative_rank_range ::
  "CdtMapPolicy \<Rightarrow> string \<Rightarrow> PHPValue \<Rightarrow> i64 \<Rightarrow> CdtMapReturnType option \<Rightarrow> CDTContext list option \<Rightarrow> cdt Operation" where
  "CdtMapOperation_remove_by_value_relative_rank_range policy bin_name' value rank return_type ctx =
     Cdt (MapOp \<lparr>mo_op = CdtMapCommandOp_into_i32 CM_RemoveByValueRelativeRankRange,
      mo_policy = Some policy,
      mo_bin_name = bin_name',
      mo_args = [Value_from_PHPValue value, Value_from_PHPValue (PInt rank)],
      mo_return_type = map_return return_type,
      mo_ctx = ctx_or_empty ctx\<rparr>)"

definition CdtMapOperation_remove_by_value_relative_rank_range_count ::
  "CdtMapPolicy \<Rightarrow> string \<Rightarrow> PHPValue \<Rightarrow> i64 \<Rightarrow> i64 \<Rightarrow> CdtMapReturnType option \<Rightarrow> CDTContext list option \<Rightarrow> cdt Operation" where
  "CdtMapOperation_remove_by_value_relative_rank_range_count policy bin_name' value rank count return_type ctx =
     Cdt (MapOp \<lparr>mo_op = CdtMapCommandOp_into_i32 CM_RemoveByValueRelativeRankRange,
      mo_policy = Some policy,
      mo_bin_name = bin_name',
      mo_args = [Value_from_PHPValue value, Value_from_PHPValue (PInt rank), Value_from_PHPValue (PInt count)],
      mo_return_type = map_return return_type,
      mo_ctx = ctx_or_empty ctx\<rparr>)"

definition CdtMapOperation_remove_by_index ::
  "CdtMapPolicy \<Rightarrow> string \<Rightarrow> i64 \<Rightarrow> CdtMapReturnType option \<Rightarrow> CDTContext list option \<Rightarrow> cdt Operation" where
  "CdtMapOperation_remove_by_index policy bin_name' index return_type ctx =
     Cdt (MapOp \<lparr>mo_op = CdtMapCommandOp_into_i32 CM_RemoveByIndex,
      mo_policy = Some policy,
      mo_bin_name = bin_name',
      mo_args = [Value_from_PHPValue (PInt index)],
      mo_return_type = map_return return_type,
      mo_ctx = ctx_or_empty ctx\<rparr>)"

definition CdtMapOperation_remove_by_index_range ::
  "CdtMapPolicy \<Rightarrow> string \<Rightarrow> i64 \<Rightarrow> CdtMapReturnType option \<Rightarrow> CDTContext list option \<Rightarrow> cdt Operation" where
  "CdtMapOperation_remove_by_index_range policy bin_name' index return_type ctx =
     Cdt (MapOp \<lparr>mo_op = CdtMapCommandOp_into_i32 CM_RemoveByIndexRange,
      mo_policy = Some policy,
      mo_bin_name = bin_name',
      mo_args = [Value_from_PHPValue (PInt index)],
      mo_return_type = map_return return_type,
      mo_ctx = ctx_or_empty ctx\<rparr>)"

definition CdtMapOperation_remove_by_index_range_count ::
  "CdtMapPolicy \<Rightarrow> string \<Rightarrow> i64 \<Rightarrow> i64 \<Rightarrow> CdtMapReturnType option \<Rightarrow> CDTContext list option \<Rightarrow> cdt Operation" where
  "CdtMapOperation_remove_by_index_range_count policy bin_name' index count return_type ctx =
     Cdt (MapOp \<lparr>mo_op = CdtMapCommandOp_into_i32 CM_RemoveByIndexRangeCount,
      mo_policy = Some policy,
      mo_bin_name = bin_name',
      mo_args = [Value_from_PHPValue (PInt index), Value_from_PHPValue (PInt count)],
      mo_return_type = map_return return_type,
      mo_ctx = ctx_or_empty ctx\<rparr>)"

definition CdtMapOperation_remove_by_rank ::
  "CdtMapPolicy \<Rightarrow> string \<Rightarrow> i64 \<Rightarrow> CdtMapReturnType option \<Rightarrow> CDTContext list option \<Rightarrow> cdt Operation" where
  "CdtMapOperation_remove_by_rank policy bin_name' rank return_type ctx =
     Cdt (MapOp \<lparr>mo_op = CdtMapCommandOp_into_i32 CM_RemoveByRank,
      mo_policy = Some policy,
      mo_bin_name = bin_name',
      mo_args = [Value_from_PHPValue (PInt rank)],
      mo_return_type = map_return return_type,
      mo_ctx = ctx_or_empty ctx\<rparr>)"

definition CdtMapOperation_remove_by_rank_range ::
  "CdtMapPolicy \<Rightarrow> string \<Rightarrow> i64 \<Rightarrow> CdtMapReturnType option \<Rightarrow> CDTContext list option \<Rightarrow> cdt Operation" where
  "CdtMapOperation_remove_by_rank_range policy bin_name' rank return_type ctx =
     Cdt (MapOp \<lparr>mo_op = CdtMapCommandOp_into_i32 CM_RemoveByRankRange,
      mo_policy = Some policy,
      mo_bin_name = bin_name',
      mo_args = [Value_from_PHPValue (PInt rank)],
      mo_return_type = map_return return_type,
      mo_ctx = ctx_or_empty ctx\<rparr>)"

definition CdtMapOperation_remove_by_rank_range_count ::
  "CdtMapPolicy \<Rightarrow> string \<Rightarrow> i64 \<Rightarrow> i64 \<Rightarrow> CdtMapReturnType option \<Rightarrow> CDTContext list option \<Rightarrow> cdt Operation" where
  "CdtMapOperation_remove_by_rank_range_count policy bin_name' rank count return_type ctx =
     Cdt (MapOp \<lparr>mo_op = CdtMapCommandOp_into_i32 CM_RemoveByRankRangeCount,
      mo_policy = Some policy,
      mo_bin_name = bin_name',
      mo_args = [Value_from_PHPValue (PInt rank), Value_from_PHPValue (PInt count)],
      mo_return_type = map_return return_type,
      mo_ctx = ctx_or_empty ctx\<rparr>)"

definition CdtMapOperation_remove_by_key_relative_index_range ::
  "CdtMapPolicy \<Rightarrow> string \<Rightarrow> PHPValue \<Rightarrow> i64 \<Rightarrow> CdtMapReturnType option \<Rightarrow> CDTContext list option \<Rightarrow> cdt Operation" where
  "CdtMapOperation_remove_by_key_relative_index_range policy bin_name' key index return_type ctx =
     Cdt (MapOp \<lparr>mo_op = CdtMapCommandOp_into_i32 CM_RemoveByKeyRelativeIndexRange,
      mo_policy = Some policy,
      mo_bin_name = bin_name',
      mo_args = [Value_from_PHPValue key, Value_from_PHPValue (PInt index)],
      mo_return_type = map_return return_type,
      mo_ctx = ctx_or_empty ctx\<rparr>)"

definition CdtMapOperation_remove_by_key_relative_index_range_count ::
  "CdtMapPolicy \<Rightarrow> string \<Rightarrow> PHPValue \<Rightarrow> i64 \<Rightarrow> i64 \<Rightarrow> CdtMapReturnType option \<Rightarrow> CDTContext list option \<Rightarrow> cdt Operation" where
  "CdtMapOperation_remove_by_key_relative_index_range_count policy bin_name' key index count return_type ctx =
     Cdt (MapOp \<lparr>mo_op = CdtMapCommandOp_into_i32 CM_RemoveByKeyRelativeIndexRangeCount,
      mo_policy = Some policy,
      mo_bin_name = bin_name',
      mo_args = [Value_from_PHPValue key, Value_from_PHPValue (PInt index), Value_from_PHPValue (PInt count)],
      mo_return_type = map_return return_type,
      mo_ctx = ctx_or_empty ctx\<rparr>)"

definition CdtMapOperation_get_by_keys ::
  "CdtMapPolicy \<Rightarrow> string \<Rightarrow> PHPValue list \<Rightarrow> CdtMapReturnType option \<Rightarrow> CDTContext list option \<Rightarrow> cdt Operation" where
  "CdtMapOperation_get_by_keys policy bin_name' keys return_type ctx =
     Cdt (MapOp \<lparr>mo_op = CdtMapCommandOp_into_i32 CM_GetByKeyList,
      mo_policy = Some policy,
      mo_bin_name = bin_name',
      mo_args = [Value_from_PHPValue (PList keys)],
      mo_return_type = map_return return_type,
      mo_ctx = ctx_or_empty ctx\<rparr>)"

definition CdtMapOperation_get_by_key_range ::
  "CdtMapPolicy \<Rightarrow> string \<Rightarrow> PHPValue \<Rightarrow> PHPValue \<Rightarrow> CdtMapReturnType option \<Rightarrow> CDTContext list option \<Rightarrow> cdt Operation" where
  "CdtMapOperation_get_by_key_range policy bin_name' begin' end' return_type ctx =
     Cdt (MapOp \<lparr>mo_op = CdtMapCommandOp_into_i32 CM_GetByKeyRange,
      mo_policy = Some policy,
      mo_bin_name = bin_name',
      mo_args = [Value_from_PHPValue begin', Value_from_PHPValue end'],
      mo_return_type = map_return return_type,
      mo_ctx = ctx_or_empty ctx\<rparr>)"

definition CdtMapOperation_get_by_key_relative_index_range ::
  "CdtMapPolicy \<Rightarrow> string \<Rightarrow> PHPValue \<Rightarrow> i64 \<Rightarrow> CdtMapReturnType option \<Rightarrow> CDTContext list option \<Rightarrow> cdt Operation" where
  "CdtMapOperation_get_by_key_relative_index_range policy bin_name' key index return_type ctx =
     Cdt (MapOp \<lparr>mo_op = CdtMapCommandOp_into_i32 CM_GetByKeyRelativeIndexRange,
      mo_policy = Some policy,
      mo_bin_name = bin_name',
      mo_args = [Value_from_PHPValue key, Value_from_PHPValue (PInt index)],
      mo_return_type = map_return return_type,
      mo_ctx = ctx_or_empty ctx\<rparr>)"

definition CdtMapOperation_get_by_key_relative_index_range_count ::
  "CdtMapPolicy \<Rightarrow> string \<Rightarrow> PHPValue \<Rightarrow> i64 \<Rightarrow> i64 \<Rightarrow> CdtMapReturnType option \<Rightarrow> CDTContext list option \<Rightarrow> cdt Operation" where
  "CdtMapOperation_get_by_key_relative_index_range_count policy bin_name' key index count return_type ctx =
     Cdt (MapOp \<lparr>mo_op = CdtMapCommandOp_into_i32 CM_GetByKeyRelativeIndexRangeCount,
      mo_policy = Some policy,
      mo_bin_name = bin_name',
      mo_args = [Value_from_PHPValue key, Value_from_PHPValue (PInt index), Value_from_PHPValue (PInt count)],
      mo_return_type = map_return return_type,
      mo_ctx = ctx_or_empty ctx\<rparr>)"

definition CdtMapOperation_get_by_values ::
  "CdtMapPolicy \<Rightarrow> string \<Rightarrow> PHPValue list \<Rightarrow> CdtMapReturnType option \<Rightarrow> CDTContext list option \<Rightarrow> cdt Operation" where
  "CdtMapOperation_get_by_values policy bin_name' values return_type ctx =
     Cdt (MapOp \<lparr>mo_op = CdtMapCommandOp_into_i32 CM_GetByValueList,
      mo_policy = Some policy,
      mo_bin_name = bin_name',
      mo_args = [Value_from_PHPValue (PList values)],
      mo_return_type = map_return return_type,
      mo_ctx = ctx_or_empty ctx\<rparr>)"

definition CdtMapOperation_get_by_value_range ::
  "CdtMapPolicy \<Rightarrow> string \<Rightarrow> PHPValue \<Rightarrow> PHPValue \<Rightarrow> CdtMapReturnType option \<Rightarrow> CDTContext list option \<Rightarrow> cdt Operation" where
  "CdtMapOperation_get_by_value_range policy bin_name' begin' end' return_type ctx =
     Cdt (MapOp \<lparr>mo_op = CdtMapCommandOp_into_i32 CM_GetByValueRange,
      mo_policy = Some policy,
      mo_bin_name = bin_name',
      mo_args = [Value_from_PHPValue begin', Value_from_PHPValue end'],
      mo_return_type = map_return return_type,
      mo_ctx = ctx_or_empty ctx\<rparr>)"

definition CdtMapOperation_get_by_value_relative_rank_range ::
  "CdtMapPolicy \<Rightarrow> string \<Rightarrow> PHPValue \<Rightarrow> i64 \<Rightarrow> CdtMapReturnType option \<Rightarrow> CDTContext list option \<Rightarrow> cdt Operation" where
  "CdtMapOperation_get_by_value_relative_rank_range policy bin_name' value rank return_type ctx =
     Cdt (MapOp \<lparr>mo_op = CdtMapCommandOp_into_i32 CM_GetByValueRelativeRankRange,
      mo_policy = Some policy,
      mo_bin_name = bin_name',
      mo_args = [Value_from_PHPValue value, Value_from_PHPValue (PInt rank)],
      mo_return_type = map_return return_type,
      mo_ctx = ctx_or_empty ctx\<rparr>)"

definition CdtMapOperation_get_by_value_relative_rank_range_count ::
  "CdtMapPolicy \<Rightarrow> string \<Rightarrow> PHPValue \<Rightarrow> i64 \<Rightarrow> i64 \<Rightarrow> CdtMapReturnType option \<Rightarrow> CDTContext list option \<Rightarrow> cdt Operation" where
  "CdtMapOperation_get_by_value_relative_rank_range_count policy bin_name' value rank count return_type ctx =
     Cdt (MapOp \<lparr>mo_op = CdtMapCommandOp_into_i32 CM_GetByValueRelativeRankRangeCount,
      mo_policy = Some policy,
      mo_bin_name = bin_name',
      mo_args = [Value_from_PHPValue value, Value_from_PHPValue (PInt rank), Value_from_PHPValue (PInt count)],
      mo_return_type = map_return return_type,
      mo_ctx = ctx_or_empty ctx\<rparr>)"

definition CdtMapOperation_get_by_index ::
  "CdtMapPolicy \<Rightarrow> string \<Rightarrow> i64 \<Rightarrow> CdtMapReturnType option \<Rightarrow> CDTContext list option \<Rightarrow> cdt Operation" where
  "CdtMapOperation_get_by_index policy bin_name' index return_type ctx =
     Cdt (MapOp \<lparr>mo_op = CdtMapCommandOp_into_i32 CM_GetByIndex,
      mo_policy = Some policy,
      mo_bin_name = bin_name',
      mo_args = [Value_from_PHPValue (PInt index)],
      mo_return_type = map_return return_type,
      mo_ctx = ctx_or_empty ctx\<rparr>)"

definition CdtMapOperation_get_by_index_range ::
  "CdtMapPolicy \<Rightarrow> string \<Rightarrow> PHPValue \<Rightarrow> PHPValue \<Rightarrow> CdtMapReturnType option \<Rightarrow> CDTContext list option \<Rightarrow> cdt Operation" where
  "CdtMapOperation_get_by_index_range policy bin_name' begin' end' return_type ctx =
     Cdt (MapOp \<lparr>mo_op = CdtMapCommandOp_into_i32 CM_GetByIndexRange,
      mo_policy = Some policy,
      mo_bin_name = bin_name',
      mo_args = [Value_from_PHPValue begin', Value_from_PHPValue end'],
      mo_return_type = map_return return_type,
      mo_ctx = ctx_or_empty ctx\<rparr>)"

definition CdtMapOperation_get_by_index_range_count ::
  "CdtMapPolicy \<Rightarrow> string \<Rightarrow> i64 \<Rightarrow> i64 \<Rightarrow> i64 \<Rightarrow> CdtMapReturnType option \<Rightarrow> CDTContext list option \<Rightarrow> cdt Operation" where
  "CdtMapOperation_get_by_index_range_count policy bin_name' index rank count return_type ctx =
     Cdt (MapOp \<lparr>mo_op = CdtMapCommandOp_into_i32 CM_GetByIndexRangeCount,
      mo_policy = Some policy,
      mo_bin_name = bin_name',
      mo_args = [Value_from_PHPValue (PInt index), Value_from_PHPValue (PInt rank), Value_from_PHPValue (PInt count)],
      mo_return_type = map_return return_type,
      mo_ctx = ctx_or_empty ctx\<rparr>)"

definition CdtMapOperation_get_by_rank ::
  "CdtMapPolicy \<Rightarrow> string \<Rightarrow> i64 \<Rightarrow> CdtMapReturnType option \<Rightarrow> CDTContext list option \<Rightarrow> cdt Operation" where
  "CdtMapOperation_get_by_rank policy bin_name' rank return_type ctx =
     Cdt (MapOp \<lparr>mo_op = CdtMapCommandOp_into_i32 CM_GetByRank,
      mo_policy = Some policy,
      mo_bin_name = bin_name',
      mo_args = [Value_from_PHPValue (PInt rank)],
      mo_return_type = map_return return_type,
      mo_ctx = ctx_or_empty ctx\<rparr>)"

definition CdtMapOperation_get_by_rank_range ::
  "CdtMapPolicy \<Rightarrow> string \<Rightarrow> PHPValue \<Rightarrow> PHPValue \<Rightarrow> CdtMapReturnType option \<Rightarrow> CDTContext list option \<Rightarrow> cdt Operation" where
  "CdtMapOperation_get_by_rank_range policy bin_name' begin' end' return_type ctx =
     Cdt (MapOp \<lparr>mo_op = CdtMapCommandOp_into_i32 CM_GetByRankRange,
      mo_policy = Some policy,
      mo_bin_name = bin_name',
      mo_args = [Value_from_PHPValue begin', Value_from_PHPValue end'],
      mo_return_type = map_return return_type,
      mo_ctx = ctx_or_empty ctx\<rparr>)"

definition CdtMapOperation_get_by_rank_range_count ::
  "CdtMapPolicy \<Rightarrow> string \<Rightarrow> i64 \<Rightarrow> i64 \<Rightarrow> i64 \<Rightarrow> CdtMapReturnType option \<Rightarrow> CDTContext list option \<Rightarrow> cdt Operation" where
  "CdtMapOperation_get_by_rank_range_count policy bin_name' rank range' count return_type ctx =
     Cdt (MapOp \<lparr>mo_op = CdtMapCommandOp_into_i32 CM_GetByRankRangeCount,
      mo_policy = Some policy,
      mo_bin_name = bin_name',
      mo_args = [Value_from_PHPValue (PInt rank), Value_from_PHPValue (PInt range'), Value_from_PHPValue (PInt count)],
      mo_return_type = map_return return_type,
      mo_ctx = ctx_or_empty ctx\<rparr>)"

lemmas map_operation_defs =
  CdtMapOperation_create_def
  CdtMapOperation_set_policy_def
  CdtMapOperation_size_def
  CdtMapOperation_put_def
  CdtMapOperation_increment_def
  CdtMapOperation_decrement_def
  CdtMapOperation_clear_def
  CdtMapOperation_remove_by_keys_def
  CdtMapOperation_remove_by_key_range_def
  CdtMapOperation_remove_by_values_def
  CdtMapOperation_remove_by_value_range_def
  CdtMapOperation_remove_by_value_relative_rank_range_def
  CdtMapOperation_remove_by_value_relative_rank_range_count_def
  CdtMapOperation_remove_by_index_def
  CdtMapOperation_remove_by_index_range_def
  CdtMapOperation_remove_by_index_range_count_def
  CdtMapOperation_remove_by_rank_def
  CdtMapOperation_remove_by_rank_range_def
  CdtMapOperation_remove_by_rank_range_count_def
  CdtMapOperation_remove_by_key_relative_index_range_def
  CdtMapOperation_remove_by_key_relative_index_range_count_def
  CdtMapOperation_get_by_keys_def
  CdtMapOperation_get_by_key_range_def
  CdtMapOperation_get_by_key_relative_index_range_def
  CdtMapOperation_get_by_key_relative_index_range_count_def
  CdtMapOperation_get_by_values_def
  CdtMapOperation_get_by_value_range_def
  CdtMapOperation_get_by_value_relative_rank_range_def
  CdtMapOperation_get_by_value_relative_rank_range_count_def
  CdtMapOperation_get_by_index_def
  CdtMapOperation_get_by_index_range_def
  CdtMapOperation_get_by_index_range_count_def
  CdtMapOperation_get_by_rank_def
  CdtMapOperation_get_by_rank_range_def
  CdtMapOperation_get_by_rank_range_count_def

end
