(* ===== verification/Hll_Bitwise_Operations.thy ===== *)
theory Hll_Bitwise_Operations
  imports Collections
begin

text \<open>
  The classes \<^verbatim>\<open>HllOp\<close> and \<^verbatim>\<open>BitwiseOp\<close> of \<^verbatim>\<open>src/lib.rs\<close>; the set operations on HLL
  values first check that every value is one.
\<close>

section \<open>HLL operations\<close>

definition CdtHllOperation_init ::
  "CdtHllPolicy \<Rightarrow> string \<Rightarrow> i64 \<Rightarrow> i64 \<Rightarrow> cdt Operation" where
  "CdtHllOperation_init policy bin_name' index_bit_count min_hash_bit_count =
     Cdt (HllOp \<lparr>ho_op = CdtHllCommandOp_into_i32 CH_Init,
      ho_policy = Some policy,
      ho_bin_name = bin_name',
      ho_args = [Value_from_PHPValue (PInt index_bit_count), Value_from_PHPValue (PInt min_hash_bit_count)]\<rparr>)"

definition CdtHllOperation_add ::
  "CdtHllPolicy \<Rightarrow> string \<Rightarrow> PHPValue list \<Rightarrow> i64 \<Rightarrow> i64 \<Rightarrow> cdt Operation" where
  "CdtHllOperation_add policy bin_name' list' index_bit_count min_hash_bit_count =
     Cdt (HllOp \<lparr>ho_op = CdtHllCommandOp_into_i32 CH_Add,
      ho_policy = Some policy,
      ho_bin_name = bin_name',
      ho_args = [Value_from_PHPValue (PList list'), Value_from_PHPValue (PInt index_bit_count), Value_from_PHPValue (PInt min_hash_bit_count)]\<rparr>)"

definition CdtHllOperation_set_union ::
  "CdtHllPolicy \<Rightarrow> string \<Rightarrow> PHPValue list \<Rightarrow> cdt Operation option php" where
  "CdtHllOperation_set_union policy bin_name' list' =
     bnd (assert_hll_list list') (\<lambda>ok.
      if \<not> ok then ret None
      else ret (Some (Cdt (HllOp \<lparr>ho_op = CdtHllCommandOp_into_i32 CH_SetUnion,
      ho_policy = Some policy,
      ho_bin_name = bin_name',
      ho_args = [Value_from_PHPValue (PList list')]\<rparr>))))"

definition CdtHllOperation_refresh_count ::
  "string \<Rightarrow> cdt Operation option" where
  "CdtHllOperation_refresh_count bin_name' =
     Some (Cdt (HllOp \<lparr>ho_op = CdtHllCommandOp_into_i32 CH_RefreshCount,
      ho_policy = None,
      ho_bin_name = bin_name',
      ho_args = []\<rparr>))"

definition CdtHllOperation_fold ::
  "string \<Rightarrow> i64 \<Rightarrow> cdt Operation option" where
  "CdtHllOperation_fold bin_name' index_bit_count =
     Some (Cdt (HllOp \<lparr>ho_op = CdtHllCommandOp_into_i32 CH_Fold,
      ho_policy = None,
      ho_bin_name = bin_name',
      ho_args = [Value_from_PHPValue (PInt index_bit_count)]\<rparr>))"

definition CdtHllOperation_get_count ::
  "string \<Rightarrow> cdt Operation option" where
  "CdtHllOperation_get_count bin_name' =
     Some (Cdt (HllOp \<lparr>ho_op = CdtHllCommandOp_into_i32 CH_GetCount,
      ho_policy = None,
      ho_bin_name = bin_name',
      ho_args = []\<rparr>))"

definition CdtHllOperation_get_union ::
  "string \<Rightarrow> PHPValue list \<Rightarrow> cdt Operation option php" where
  "CdtHllOperation_get_union bin_name' list' =
     bnd (assert_hll_list list') (\<lambda>ok.
      if \<not> ok then ret None
      else ret (Some (Cdt (HllOp \<lparr>ho_op = CdtHllCommandOp_into_i32 CH_GetUnion,
      ho_policy = None,
      ho_bin_name = bin_name',
      ho_args = [Value_from_PHPValue (PList list')]\<rparr>))))"

definition CdtHllOperation_get_union_count ::
  "string \<Rightarrow> PHPValue list \<Rightarrow> cdt Operation option php" where
  "CdtHllOperation_get_union_count bin_name' list' =
     bnd (assert_hll_list list') (\<lambda>ok.
      if \<not> ok then ret None
      else ret (Some (Cdt (HllOp \<lparr>ho_op = CdtHllCommandOp_into_i32 CH_GetUnionCount,
      ho_policy = None,
      ho_bin_name = bin_name',
      ho_args = [Value_from_PHPValue (PList list')]\<rparr>))))"

definition CdtHllOperation_get_intersect_count ::
  "string \<Rightarrow> PHPValue list \<Rightarrow> cdt Operation option php" where
  "CdtHllOperation_get_intersect_count bin_name' list' =
     bnd (assert_hll_list list') (\<lambda>ok.
      if \<not> ok then ret None
      else ret (Some (Cdt (HllOp \<lparr>ho_op = CdtHllCommandOp_into_i32 CH_GetIntersectCount,
      ho_policy = None,
      ho_bin_name = bin_name',
      ho_args = [Value_from_PHPValue (PList list')]\<rparr>))))"

definition CdtHllOperation_get_similarity ::
  "string \<Rightarrow> PHPValue list \<Rightarrow> cdt Operation option php" where
  "CdtHllOperation_get_similarity bin_name' list' =
     bnd (assert_hll_list list') (\<lambda>ok.
      if \<not> ok then ret None
      else ret (Some (Cdt (HllOp \<lparr>ho_op = CdtHllCommandOp_into_i32 CH_GetSimilarity,
      ho_policy = None,
      ho_bin_name = bin_name',
      ho_args = [Value_from_PHPValue (PList list')]\<rparr>))))"

definition CdtHllOperation_describe ::
  "string \<Rightarrow> cdt Operation" where
  "CdtHllOperation_describe bin_name' =
     Cdt (HllOp \<lparr>ho_op = CdtHllCommandOp_into_i32 CH_Describe,
      ho_policy = None,
      ho_bin_name = bin_name',
      ho_args = []\<rparr>)"

lemmas hll_operation_defs =
  CdtHllOperation_init_def
  CdtHllOperation_add_def
  CdtHllOperation_set_union_def
  CdtHllOperation_refresh_count_def
  CdtHllOperation_fold_def
  CdtHllOperation_get_count_def
  CdtHllOperation_get_union_def
  CdtHllOperation_get_union_count_def
  CdtHllOperation_get_intersect_count_def
  CdtHllOperation_get_similarity_def
  CdtHllOperation_describe_def

section \<open>Bitwise operations\<close>

definition CdtBitwiseOperation_resize ::
  "CdtBitwisePolicy \<Rightarrow> string \<Rightarrow> i64 \<Rightarrow> CdtBitwiseResizeFlags option \<Rightarrow> CDTContext list option \<Rightarrow> cdt Operation" where
  "CdtBitwiseOperation_resize policy bin_name' byte_size resize_flags ctx =
     Cdt (BitwiseOp \<lparr>wo_op = CdtBitwiseCommandOp_into_i32 CW_Resize,
      wo_policy = Some policy,
      wo_bin_name = bin_name',
      wo_args = [Value_from_PHPValue (PInt byte_size), Value_from_PHPValue (PInt (i64_from_i32 (case resize_flags of Some rf \<Rightarrow> CdtBitwiseResizeFlags_into_i32 rf | None \<Rightarrow> 0)))],
      wo_ctx = ctx_or_empty ctx\<rparr>)"

definition CdtBitwiseOperation_insert ::
  "CdtBitwisePolicy \<Rightarrow> string \<Rightarrow> i64 \<Rightarrow> bytes \<Rightarrow> CDTContext list option \<Rightarrow> cdt Operation" where
  "CdtBitwiseOperation_insert policy bin_name' byte_offset value ctx =
     Cdt (BitwiseOp \<lparr>wo_op = CdtBitwiseCommandOp_into_i32 CW_Insert,
      wo_policy = Some policy,
      wo_bin_name = bin_name',
      wo_args = [Value_from_PHPValue (PInt byte_offset), Value_from_PHPValue (PBlob value)],
      wo_ctx = ctx_or_empty ctx\<rparr>)"

definition CdtBitwiseOperation_remove ::
  "CdtBitwisePolicy \<Rightarrow> string \<Rightarrow> i64 \<Rightarrow> i64 \<Rightarrow> CDTContext list option \<Rightarrow> cdt Operation" where
  "CdtBitwiseOperation_remove policy bin_name' byte_offset byte_size ctx =
     Cdt (BitwiseOp \<lparr>wo_op = CdtBitwiseCommandOp_into_i32 CW_Remove,
      wo_policy = Some policy,
      wo_bin_name = bin_name',
      wo_args = [Value_from_PHPValue (PInt byte_offset), Value_from_PHPValue (PInt byte_size)],
      wo_ctx = ctx_or_empty ctx\<rparr>)"

definition CdtBitwiseOperation_set ::
  "CdtBitwisePolicy \<Rightarrow> string \<Rightarrow> i64 \<Rightarrow> i64 \<Rightarrow> bytes \<Rightarrow> CDTContext list option \<Rightarrow> cdt Operation" where
  "CdtBitwiseOperation_set policy bin_name' bit_offset bit_size value ctx =
     Cdt (BitwiseOp \<lparr>wo_op = CdtBitwiseCommandOp_into_i32 CW_Set,
      wo_policy = Some policy,
      wo_bin_name = bin_name',
      wo_args = [Value_from_PHPValue (PInt bit_offset), Value_from_PHPValue (PInt bit_size), Value_from_PHPValue (PBlob value)],
      wo_ctx = ctx_or_empty ctx\<rparr>)"

definition CdtBitwiseOperation_or ::
  "CdtBitwisePolicy \<Rightarrow> string \<Rightarrow> i64 \<Rightarrow> i64 \<Rightarrow> bytes \<Rightarrow> CDTContext list option \<Rightarrow> cdt Operation" where
  "CdtBitwiseOperation_or policy bin_name' bit_offset bit_size value ctx =
     Cdt (BitwiseOp \<lparr>wo_op = CdtBitwiseCommandOp_into_i32 CW_Or,
      wo_policy = Some policy,
      wo_bin_name = bin_name',
      wo_args = [Value_from_PHPValue (PInt bit_offset), Value_from_PHPValue (PInt bit_size), Value_from_PHPValue (PBlob value)],
      wo_ctx = ctx_or_empty ctx\<rparr>)"

definition CdtBitwiseOperation_xor ::
  "CdtBitwisePolicy \<Rightarrow> string \<Rightarrow> i64 \<Rightarrow> i64 \<Rightarrow> bytes \<Rightarrow> CDTContext list option \<Rightarrow> cdt Operation" where
  "CdtBitwiseOperation_xor policy bin_name' bit_offset bit_size value ctx =
     Cdt (BitwiseOp \<lparr>wo_op = CdtBitwiseCommandOp_into_i32 CW_Xor,
      wo_policy = Some policy,
      wo_bin_name = bin_name',
      wo_args = [Value_from_PHPValue (PInt bit_offset), Value_from_PHPValue (PInt bit_size), Value_from_PHPValue (PBlob value)],
      wo_ctx = ctx_or_empty ctx\<rparr>)"

definition CdtBitwiseOperation_and ::
  "CdtBitwisePolicy \<Rightarrow> string \<Rightarrow> i64 \<Rightarrow> i64 \<Rightarrow> bytes \<Rightarrow> CDTContext list option \<Rightarrow> cdt Operation" where
  "CdtBitwiseOperation_and policy bin_name' bit_offset bit_size value ctx =
     Cdt (BitwiseOp \<lparr>wo_op = CdtBitwiseCommandOp_into_i32 CW_And,
      wo_policy = Some policy,
      wo_bin_name = bin_name',
      wo_args = [Value_from_PHPValue (PInt bit_offset), Value_from_PHPValue (PInt bit_size), Value_from_PHPValue (PBlob value)],
      wo_ctx = ctx_or_empty ctx\<rparr>)"

definition CdtBitwiseOperation_not ::
  "CdtBitwisePolicy \<Rightarrow> string \<Rightarrow> i64 \<Rightarrow> i64 \<Rightarrow> CDTContext list option \<Rightarrow> cdt Operation" where
  "CdtBitwiseOperation_not policy bin_name' bit_offset bit_size ctx =
     Cdt (BitwiseOp \<lparr>wo_op = CdtBitwiseCommandOp_into_i32 CW_Not,
      wo_policy = Some policy,
      wo_bin_name = bin_name',
      wo_args = [Value_from_PHPValue (PInt bit_offset), Value_from_PHPValue (PInt bit_size)],
      wo_ctx = ctx_or_empty ctx\<rparr>)"

definition CdtBitwiseOperation_lshift ::
  "CdtBitwisePolicy \<Rightarrow> string \<Rightarrow> i64 \<Rightarrow> i64 \<Rightarrow> i64 \<Rightarrow> CDTContext list option \<Rightarrow> cdt Operation" where
  "CdtBitwiseOperation_lshift policy bin_name' bit_offset bit_size shift ctx =
     Cdt (BitwiseOp \<lparr>wo_op = CdtBitwiseCommandOp_into_i32 CW_LShift,
      wo_policy = Some policy,
      wo_bin_name = bin_name',
      wo_args = [Value_from_PHPValue (PInt bit_offset), Value_from_PHPValue (PInt bit_size), Value_from_PHPValue (PInt shift)],
      wo_ctx = ctx_or_empty ctx\<rparr>)"

definition CdtBitwiseOperation_rshift ::
  "CdtBitwisePolicy \<Rightarrow> string \<Rightarrow> i64 \<Rightarrow> i64 \<Rightarrow> i64 \<Rightarrow> CDTContext list option \<Rightarrow> cdt Operation" where
  "CdtBitwiseOperation_rshift policy bin_name' bit_offset bit_size shift ctx =
     Cdt (BitwiseOp \<lparr>wo_op = CdtBitwiseCommandOp_into_i32 CW_RShift,
      wo_policy = Some policy,
      wo_bin_name = bin_name',
      wo_args = [Value_from_PHPValue (PInt bit_offset), Value_from_PHPValue (PInt bit_size), Value_from_PHPValue (PInt shift)],
      wo_ctx = ctx_or_empty ctx\<rparr>)"

definition CdtBitwiseOperation_add ::
  "CdtBitwisePolicy \<Rightarrow> string \<Rightarrow> i64 \<Rightarrow> i64 \<Rightarrow> i64 \<Rightarrow> bool \<Rightarrow> CdtBitwiseOverflowAction \<Rightarrow> CDTContext list option \<Rightarrow> cdt Operation" where
  "CdtBitwiseOperation_add policy bin_name' bit_offset bit_size value signed' action ctx =
     Cdt (BitwiseOp \<lparr>wo_op = CdtBitwiseCommandOp_into_i32 CW_Add,
      wo_policy = Some policy,
      wo_bin_name = bin_name',
      wo_args = [Value_from_PHPValue (PInt bit_offset), Value_from_PHPValue (PInt bit_size), Value_from_PHPValue (PInt value), Value_from_PHPValue (PBool signed'), Value_from_PHPValue (PInt (i64_from_i32 (CdtBitwiseOverflowAction_into_i32 action)))],
      wo_ctx = ctx_or_empty ctx\<rparr>)"

definition CdtBitwiseOperation_subtract ::
  "CdtBitwisePolicy \<Rightarrow> string \<Rightarrow> i64 \<Rightarrow> i64 \<Rightarrow> i64 \<Rightarrow> bool \<Rightarrow> CdtBitwiseOverflowAction \<Rightarrow> CDTContext list option \<Rightarrow> cdt Operation" where
  "CdtBitwiseOperation_subtract policy bin_name' bit_offset bit_size value signed' action ctx =
     Cdt (BitwiseOp \<lparr>wo_op = CdtBitwiseCommandOp_into_i32 CW_Subtract,
      wo_policy = Some policy,
      wo_bin_name = bin_name',
      wo_args = [Value_from_PHPValue (PInt bit_offset), Value_from_PHPValue (PInt bit_size), Value_from_PHPValue (PInt value), Value_from_PHPValue (PBool signed'), Value_from_PHPValue (PInt (i64_from_i32 (CdtBitwiseOverflowAction_into_i32 action)))],
      wo_ctx = ctx_or_empty ctx\<rparr>)"

definition CdtBitwiseOperation_set_int ::
  "CdtBitwisePolicy \<Rightarrow> string \<Rightarrow> i64 \<Rightarrow> i64 \<Rightarrow> i64 \<Rightarrow> CDTContext list option \<Rightarrow> cdt Operation" where
  "CdtBitwiseOperation_set_int policy bin_name' bit_offset bit_size value ctx =
     Cdt (BitwiseOp \<lparr>wo_op = CdtBitwiseCommandOp_into_i32 CW_SetInt,
      wo_policy = Some policy,
      wo_bin_name = bin_name',
      wo_args = [Value_from_PHPValue (PInt bit_offset), Value_from_PHPValue (PInt bit_size), Value_from_PHPValue (PInt value)],
      wo_ctx = ctx_or_empty ctx\<rparr>)"

definition CdtBitwiseOperation_get ::
  "string \<Rightarrow> i64 \<Rightarrow> i64 \<Rightarrow> CDTContext list option \<Rightarrow> cdt Operation" where
  "CdtBitwiseOperation_get bin_name' bit_offset bit_size ctx =
     Cdt (BitwiseOp \<lparr>wo_op = CdtBitwiseCommandOp_into_i32 CW_Get,
      wo_policy = None,
      wo_bin_name = bin_name',
      wo_args = [Value_from_PHPValue (PInt bit_offset), Value_from_PHPValue (PInt bit_size)],
      wo_ctx = ctx_or_empty ctx\<rparr>)"

definition CdtBitwiseOperation_count ::
  "string \<Rightarrow> i64 \<Rightarrow> i64 \<Rightarrow> CDTContext list option \<Rightarrow> cdt Operation" where
  "CdtBitwiseOperation_count bin_name' bit_offset bit_size ctx =
     Cdt (BitwiseOp \<lparr>wo_op = CdtBitwiseCommandOp_into_i32 CW_Count,
      wo_policy = None,
      wo_bin_name = bin_name',
      wo_args = [Value_from_PHPValue (PInt bit_offset), Value_from_PHPValue (PInt bit_size)],
      wo_ctx = ctx_or_empty ctx\<rparr>)"

definition CdtBitwiseOperation_lscan ::
  "string \<Rightarrow> i64 \<Rightarrow> i64 \<Rightarrow> bool \<Rightarrow> CDTContext list option \<Rightarrow> cdt Operation" where
  "CdtBitwiseOperation_lscan bin_name' bit_offset bit_size value ctx =
     Cdt (BitwiseOp \<lparr>wo_op = CdtBitwiseCommandOp_into_i32 CW_LScan,
      wo_policy = None,
      wo_bin_name = bin_name',
      wo_args = [Value_from_PHPValue (PInt bit_offset), Value_from_PHPValue (PInt bit_size), Value_from_PHPValue (PBool value)],
      wo_ctx = ctx_or_empty ctx\<rparr>)"

definition CdtBitwiseOperation_rscan ::
  "string \<Rightarrow> i64 \<Rightarrow> i64 \<Rightarrow> bool \<Rightarrow> CDTContext list option \<Rightarrow> cdt Operation" where
  "CdtBitwiseOperation_rscan bin_name' bit_offset bit_size value ctx =
     Cdt (BitwiseOp \<lparr>wo_op = CdtBitwiseCommandOp_into_i32 CW_RScan,
      wo_policy = None,
      wo_bin_name = bin_name',
      wo_args = [Value_from_PHPValue (PInt bit_offset), Value_from_PHPValue (PInt bit_size), Value_from_PHPValue (PBool value)],
      wo_ctx = ctx_or_empty ctx\<rparr>)"

definition CdtBitwiseOperation_get_int ::
  "string \<Rightarrow> i64 \<Rightarrow> i64 \<Rightarrow> bool \<Rightarrow> CDTContext list option \<Rightarrow> cdt Operation" where
  "CdtBitwiseOperation_get_int bin_name' bit_offset bit_size signed' ctx =
     Cdt (BitwiseOp \<lparr>wo_op = CdtBitwiseCommandOp_into_i32 CW_GetInt,
      wo_policy = None,
      wo_bin_name = bin_name',
      wo_args = [Value_from_PHPValue (PInt bit_offset), Value_from_PHPValue (PInt bit_size), Value_from_PHPValue (PBool signed')],
      wo_ctx = ctx_or_empty ctx\<rparr>)"

lemmas bitwise_operation_defs =
  CdtBitwiseOperation_resize_def
  CdtBitwiseOperation_insert_def
  CdtBitwiseOperation_remove_def
  CdtBitwiseOperation_set_def
  CdtBitwiseOperation_or_def
  CdtBitwiseOperation_xor_def
  CdtBitwiseOperation_and_def
  CdtBitwiseOperation_not_def
  CdtBitwiseOperation_lshift_def
  CdtBitwiseOperation_rshift_def
  CdtBitwiseOperation_add_def
  CdtBitwiseOperation_subtract_def
  CdtBitwiseOperation_set_int_def
  CdtBitwiseOperation_get_def
  CdtBitwiseOperation_count_def
  CdtBitwiseOperation_lscan_def
  CdtBitwiseOperation_rscan_def
  CdtBitwiseOperation_get_int_def

end
