(* ===== verification/Manager_Collections.thy ===== *)
theory Manager_Collections
  imports List_Operations Map_Operations Hll_Bitwise_Operations
begin

text \<open>
  How the connection manager reads the collection operations (\<^verbatim>\<open>toCdtListOp\<close>,
  \<^verbatim>\<open>toCdtMapOp\<close>, \<^verbatim>\<open>toCdtHLLOp\<close>, \<^verbatim>\<open>toCdtBitwiseOp\<close> and the conversions
  they use in \<^verbatim>\<open>kvs.go\<close>). A call of the Go library is the name of the called function
  with its arguments in order. The properties compose the builders of the client with the
  reading of the manager.
\<close>

section \<open>Calls of the library\<close>

datatype map_order_types = MOT_UNORDERED | MOT_KEY_ORDERED | MOT_KEY_VALUE_ORDERED

datatype map_return_types =
    MRT_NONE | MRT_INDEX | MRT_REVERSE_INDEX | MRT_RANK | MRT_REVERSE_RANK | MRT_COUNT | MRT_KEY
  | MRT_VALUE | MRT_KEY_VALUE | MRT_EXISTS | MRT_UNORDERED_MAP | MRT_ORDERED_MAP | MRT_INVERTED

datatype aero_list_policy = DefaultListPolicy | NewListPolicy i64 i64

datatype aero_map_policy =
    DefaultMapPolicy | NewMapPolicyWithFlags map_order_types i64
  | NewMapPolicyWithFlagsAndPersistedIndex map_order_types i64

datatype aero_hll_policy = DefaultHLLPolicy | NewHLLPolicy i64

datatype aero_bit_policy = DefaultBitPolicy | NewBitPolicy i64

text \<open>A context of the library: its id and its value.\<close>
type_synonym aero_ctx = "i64 \<times> aero_value"

datatype cdt_arg =
    ABin string
  | AInt i64
  | ABool bool
  | ABytes bytes
  | AValue aero_value
  | AValues "aero_value list"
  | AHlls "bytes list"
  | AMap "(aero_value \<times> aero_value) list"
  | AMapOrder map_order_types
  | AReturn i64
  | AMapReturn map_return_types
  | AListPolicy aero_list_policy
  | AMapPolicy aero_map_policy
  | AHllPolicy aero_hll_policy
  | ABitPolicy aero_bit_policy
  | ACtx "aero_ctx list"

text \<open>\<open>NilOperation\<close> is the \<^verbatim>\<open>nil\<close> that the conversions return for other commands.\<close>
datatype cdt_call = CdtCall string "cdt_arg list" | NilOperation

section \<open>Conversions\<close>

text \<open>The getters of the generated code give the zero value for another variant.\<close>

fun GetI :: "proto_Value \<Rightarrow> i64" where
  "GetI (V_I i) = i"
| "GetI _ = 0"

fun GetB :: "proto_Value \<Rightarrow> bool" where
  "GetB (V_B b) = b"
| "GetB _ = False"

fun GetBlob :: "proto_Value \<Rightarrow> bytes" where
  "GetBlob (V_Blob b) = b"
| "GetBlob _ = []"

text \<open>\<^verbatim>\<open>GetL\<close> gives \<^verbatim>\<open>nil\<close> for another variant, and the field access fails.\<close>

fun toListOfValueIfcs :: "proto_Value \<Rightarrow> panic + aero_value list" where
  "toListOfValueIfcs (V_L l) = ssequence (map toValue l)"
| "toListOfValueIfcs _ = Inl NilDereference"

fun as_HLLValue :: "aero_value \<Rightarrow> panic + bytes" where
  "as_HLLValue (HLLValue b) = Inr b"
| "as_HLLValue _ = Inl TypeAssertion"

fun toListOfHLLValues :: "proto_Value \<Rightarrow> panic + bytes list" where
  "toListOfHLLValues (V_L l) = ssequence (map (\<lambda>v. sbind (toValue v) as_HLLValue) l)"
| "toListOfHLLValues _ = Inl NilDereference"

fun as_MapValue :: "aero_value \<Rightarrow> panic + (aero_value \<times> aero_value) list" where
  "as_MapValue (MapValue m) = Inr m"
| "as_MapValue _ = Inl TypeAssertion"

definition toCDTContext :: "CDTContext \<Rightarrow> panic + aero_ctx" where
  "toCDTContext in' = sbind (toValue_opt (ctx_value in')) (\<lambda>v. Inr (i64_from_i32 (ctx_id in'), v))"

definition toCDTContexts :: "CDTContext list \<Rightarrow> panic + aero_ctx list" where
  "toCDTContexts in' = ssequence (map toCDTContext in')"

definition toMapOrderType :: "i64 \<Rightarrow> panic + map_order_types" where
  "toMapOrderType in' =
     (if in' = i64_from_i32 (MapOrderType_into_i32 MO_Unordered) then Inr MOT_UNORDERED
      else if in' = i64_from_i32 (MapOrderType_into_i32 MO_KeyOrdered) then Inr MOT_KEY_ORDERED
      else if in' = i64_from_i32 (MapOrderType_into_i32 MO_KeyValueOrdered) then Inr MOT_KEY_VALUE_ORDERED
      else Inl Unreachable)"

definition toCdtMapPolicy :: "CdtMapPolicy option \<Rightarrow> panic + aero_map_policy" where
  "toCdtMapPolicy in' =
     (case in' of
        Some p \<Rightarrow>
          sbind (toMapOrderType (i64_from_i32 (cmp_map_order p))) (\<lambda>order.
            if cmp_persisted_index p then
              Inr (NewMapPolicyWithFlagsAndPersistedIndex order (i64_from_i32 (cmp_flags p)))
            else Inr (NewMapPolicyWithFlags order (i64_from_i32 (cmp_flags p))))
      | None \<Rightarrow> Inr DefaultMapPolicy)"

text \<open>The cases of \<^verbatim>\<open>toCdtMapReturnType\<close>; every other number, and none, is \<^verbatim>\<open>NONE\<close>.\<close>
definition map_return_cases :: "(i32 \<times> map_return_types) list" where
  "map_return_cases =
     [(0, MRT_NONE), (1, MRT_INDEX), (2, MRT_REVERSE_INDEX), (3, MRT_RANK), (4, MRT_REVERSE_RANK),
      (5, MRT_COUNT), (6, MRT_KEY), (7, MRT_VALUE), (8, MRT_KEY_VALUE), (13, MRT_EXISTS),
      (16, MRT_UNORDERED_MAP), (17, MRT_ORDERED_MAP), (12, MRT_INVERTED)]"

definition toCdtMapReturnType :: "i32 option \<Rightarrow> map_return_types" where
  "toCdtMapReturnType in' =
     (case in' of
        Some rt \<Rightarrow> (case map_of map_return_cases rt of Some t \<Rightarrow> t | None \<Rightarrow> MRT_NONE)
      | None \<Rightarrow> MRT_NONE)"

definition toListReturnType :: "i32 option \<Rightarrow> panic + i64" where
  "toListReturnType in' = (case in' of Some rt \<Rightarrow> Inr (i64_from_i32 rt) | None \<Rightarrow> Inl NilDereference)"

definition toCdtListPolicy :: "CdtListPolicy option \<Rightarrow> aero_list_policy" where
  "toCdtListPolicy in' =
     (case in' of
        Some p \<Rightarrow> NewListPolicy (i64_from_i32 (clp_order p)) (i64_from_i32 (clp_flags p))
      | None \<Rightarrow> DefaultListPolicy)"

definition toHLLPolicy :: "CdtHllPolicy option \<Rightarrow> aero_hll_policy" where
  "toHLLPolicy in' =
     (case in' of Some p \<Rightarrow> NewHLLPolicy (i64_from_i32 (chp_flags p)) | None \<Rightarrow> DefaultHLLPolicy)"

definition toBitwisePolicy :: "CdtBitwisePolicy option \<Rightarrow> aero_bit_policy" where
  "toBitwisePolicy in' =
     (case in' of Some p \<Rightarrow> NewBitPolicy (i64_from_i32 (cbp_flags p)) | None \<Rightarrow> DefaultBitPolicy)"

text \<open>An argument of the message read at an index, which may be out of range.\<close>

definition arg_int :: "proto_Value list \<Rightarrow> nat \<Rightarrow> panic + i64" where
  "arg_int args i = go_index (map (\<lambda>v. Inr (GetI v)) args) i"

definition arg_bool :: "proto_Value list \<Rightarrow> nat \<Rightarrow> panic + bool" where
  "arg_bool args i = go_index (map (\<lambda>v. Inr (GetB v)) args) i"

definition arg_blob :: "proto_Value list \<Rightarrow> nat \<Rightarrow> panic + bytes" where
  "arg_blob args i = go_index (map (\<lambda>v. Inr (GetBlob v)) args) i"

definition arg_value :: "proto_Value list \<Rightarrow> nat \<Rightarrow> panic + aero_value" where
  "arg_value args i = go_index (map toValue args) i"

definition arg_values :: "proto_Value list \<Rightarrow> nat \<Rightarrow> panic + aero_value list" where
  "arg_values args i = go_index (map toListOfValueIfcs args) i"

definition arg_hlls :: "proto_Value list \<Rightarrow> nat \<Rightarrow> panic + bytes list" where
  "arg_hlls args i = go_index (map toListOfHLLValues args) i"

definition arg_map_order :: "proto_Value list \<Rightarrow> nat \<Rightarrow> panic + map_order_types" where
  "arg_map_order args i = go_index (map (\<lambda>v. toMapOrderType (GetI v)) args) i"

definition arg_map :: "proto_Value list \<Rightarrow> nat \<Rightarrow> panic + (aero_value \<times> aero_value) list" where
  "arg_map args i = go_index (map (\<lambda>v. sbind (toValue v) as_MapValue) args) i"

section \<open>Operations\<close>

fun toCdtListOp_case :: "CdtListCommandOp \<Rightarrow> CdtListOperation \<Rightarrow> panic + cdt_call" where
  "toCdtListOp_case CL_Create in' =
       sbind (arg_int (lo_args in') 0) (\<lambda>listOrder.
       sbind (arg_bool (lo_args in') 1) (\<lambda>pad.
       sbind (arg_bool (lo_args in') 2) (\<lambda>persistedIndex.
       if persistedIndex then
         sbind (toCDTContexts (lo_ctx in')) (\<lambda>cs. Inr (CdtCall ''ListCreateWithIndexOp'' [ABin (lo_bin_name in'), AInt listOrder, ABool pad, ACtx cs]))
       else sbind (toCDTContexts (lo_ctx in')) (\<lambda>cs. Inr (CdtCall ''ListCreateOp'' [ABin (lo_bin_name in'), AInt listOrder, ABool pad, ACtx cs])))))"
| "toCdtListOp_case CL_SetOrder in' =
       sbind (arg_int (lo_args in') 0) (\<lambda>listOrder.
       sbind (toCDTContexts (lo_ctx in')) (\<lambda>cs. Inr (CdtCall ''ListSetOrderOp'' [ABin (lo_bin_name in'), AInt listOrder, ACtx cs])))"
| "toCdtListOp_case CL_Append in' =
       sbind (arg_values (lo_args in') 0) (\<lambda>values.
       sbind (toCDTContexts (lo_ctx in')) (\<lambda>cs. Inr (CdtCall ''ListAppendWithPolicyContextOp'' [AListPolicy (toCdtListPolicy (lo_policy in')), ABin (lo_bin_name in'), ACtx cs, AValues values])))"
| "toCdtListOp_case CL_Insert in' =
       sbind (arg_int (lo_args in') 0) (\<lambda>index.
       sbind (arg_values (lo_args in') 1) (\<lambda>values.
       sbind (toCDTContexts (lo_ctx in')) (\<lambda>cs. Inr (CdtCall ''ListInsertWithPolicyContextOp'' [AListPolicy (toCdtListPolicy (lo_policy in')), ABin (lo_bin_name in'), AInt index, ACtx cs, AValues values]))))"
| "toCdtListOp_case CL_Pop in' =
       sbind (arg_int (lo_args in') 0) (\<lambda>index.
       sbind (toCDTContexts (lo_ctx in')) (\<lambda>cs. Inr (CdtCall ''ListPopOp'' [ABin (lo_bin_name in'), AInt index, ACtx cs])))"
| "toCdtListOp_case CL_PopRange in' =
       sbind (arg_int (lo_args in') 0) (\<lambda>index.
       sbind (arg_int (lo_args in') 1) (\<lambda>count.
       sbind (toCDTContexts (lo_ctx in')) (\<lambda>cs. Inr (CdtCall ''ListPopRangeOp'' [ABin (lo_bin_name in'), AInt index, AInt count, ACtx cs]))))"
| "toCdtListOp_case CL_PopRangeFrom in' =
       sbind (arg_int (lo_args in') 0) (\<lambda>index.
       sbind (toCDTContexts (lo_ctx in')) (\<lambda>cs. Inr (CdtCall ''ListPopRangeFromOp'' [ABin (lo_bin_name in'), AInt index, ACtx cs])))"
| "toCdtListOp_case CL_Set in' =
       sbind (arg_int (lo_args in') 0) (\<lambda>index.
       sbind (arg_value (lo_args in') 1) (\<lambda>value.
       sbind (toCDTContexts (lo_ctx in')) (\<lambda>cs. Inr (CdtCall ''ListSetWithPolicyOp'' [AListPolicy (toCdtListPolicy (lo_policy in')), ABin (lo_bin_name in'), AInt index, AValue value, ACtx cs]))))"
| "toCdtListOp_case CL_Trim in' =
       sbind (arg_int (lo_args in') 0) (\<lambda>index.
       sbind (arg_int (lo_args in') 1) (\<lambda>count.
       sbind (toCDTContexts (lo_ctx in')) (\<lambda>cs. Inr (CdtCall ''ListTrimOp'' [ABin (lo_bin_name in'), AInt index, AInt count, ACtx cs]))))"
| "toCdtListOp_case CL_Clear in' =
       sbind (toCDTContexts (lo_ctx in')) (\<lambda>cs. Inr (CdtCall ''ListClearOp'' [ABin (lo_bin_name in'), ACtx cs]))"
| "toCdtListOp_case CL_Increment in' =
       sbind (arg_int (lo_args in') 0) (\<lambda>index.
       sbind (arg_value (lo_args in') 1) (\<lambda>value.
       sbind (toCDTContexts (lo_ctx in')) (\<lambda>cs. Inr (CdtCall ''ListIncrementWithPolicyOp'' [AListPolicy (toCdtListPolicy (lo_policy in')), ABin (lo_bin_name in'), AInt index, AValue value, ACtx cs]))))"
| "toCdtListOp_case CL_Size in' =
       sbind (toCDTContexts (lo_ctx in')) (\<lambda>cs. Inr (CdtCall ''ListSizeOp'' [ABin (lo_bin_name in'), ACtx cs]))"
| "toCdtListOp_case CL_Sort in' =
       sbind (arg_int (lo_args in') 0) (\<lambda>sortFlags.
       sbind (toCDTContexts (lo_ctx in')) (\<lambda>cs. Inr (CdtCall ''ListSortOp'' [ABin (lo_bin_name in'), AInt sortFlags, ACtx cs])))"
| "toCdtListOp_case CL_GetByValueList in' =
       sbind (arg_values (lo_args in') 0) (\<lambda>values.
       if length values = 1 then
         sbind (toListReturnType (lo_return_type in')) (\<lambda>rt. sbind (toCDTContexts (lo_ctx in')) (\<lambda>cs. Inr (CdtCall ''ListGetByValueOp'' [ABin (lo_bin_name in'), AValue (hd values), AReturn rt, ACtx cs])))
       else sbind (toListReturnType (lo_return_type in')) (\<lambda>rt. sbind (toCDTContexts (lo_ctx in')) (\<lambda>cs. Inr (CdtCall ''ListGetByValueListOp'' [ABin (lo_bin_name in'), AValues values, AReturn rt, ACtx cs]))))"
| "toCdtListOp_case CL_GetByValueRange in' =
       sbind (arg_value (lo_args in') 0) (\<lambda>begin'.
       sbind (arg_value (lo_args in') 1) (\<lambda>end'.
       sbind (toListReturnType (lo_return_type in')) (\<lambda>rt. sbind (toCDTContexts (lo_ctx in')) (\<lambda>cs. Inr (CdtCall ''ListGetByValueRangeOp'' [ABin (lo_bin_name in'), AValue begin', AValue end', AReturn rt, ACtx cs])))))"
| "toCdtListOp_case CL_GetByIndex in' =
       sbind (arg_int (lo_args in') 0) (\<lambda>index.
       sbind (toListReturnType (lo_return_type in')) (\<lambda>rt. sbind (toCDTContexts (lo_ctx in')) (\<lambda>cs. Inr (CdtCall ''ListGetByIndexOp'' [ABin (lo_bin_name in'), AInt index, AReturn rt, ACtx cs]))))"
| "toCdtListOp_case CL_GetByIndexRange in' =
       sbind (arg_int (lo_args in') 0) (\<lambda>index.
       sbind (toListReturnType (lo_return_type in')) (\<lambda>rt. sbind (toCDTContexts (lo_ctx in')) (\<lambda>cs. Inr (CdtCall ''ListGetByIndexRangeOp'' [ABin (lo_bin_name in'), AInt index, AReturn rt, ACtx cs]))))"
| "toCdtListOp_case CL_GetByIndexRangeCount in' =
       sbind (arg_int (lo_args in') 0) (\<lambda>index.
       sbind (arg_int (lo_args in') 1) (\<lambda>count.
       sbind (toListReturnType (lo_return_type in')) (\<lambda>rt. sbind (toCDTContexts (lo_ctx in')) (\<lambda>cs. Inr (CdtCall ''ListGetByIndexRangeCountOp'' [ABin (lo_bin_name in'), AInt index, AInt count, AReturn rt, ACtx cs])))))"
| "toCdtListOp_case CL_GetByRank in' =
       sbind (arg_int (lo_args in') 0) (\<lambda>rank.
       sbind (toListReturnType (lo_return_type in')) (\<lambda>rt. sbind (toCDTContexts (lo_ctx in')) (\<lambda>cs. Inr (CdtCall ''ListGetByRankOp'' [ABin (lo_bin_name in'), AInt rank, AReturn rt, ACtx cs]))))"
| "toCdtListOp_case CL_GetByRankRange in' =
       sbind (arg_int (lo_args in') 0) (\<lambda>rank.
       sbind (toListReturnType (lo_return_type in')) (\<lambda>rt. sbind (toCDTContexts (lo_ctx in')) (\<lambda>cs. Inr (CdtCall ''ListGetByRankRangeOp'' [ABin (lo_bin_name in'), AInt rank, AReturn rt, ACtx cs]))))"
| "toCdtListOp_case CL_GetByRankRangeCount in' =
       sbind (arg_int (lo_args in') 0) (\<lambda>rank.
       sbind (arg_int (lo_args in') 1) (\<lambda>count.
       sbind (toListReturnType (lo_return_type in')) (\<lambda>rt. sbind (toCDTContexts (lo_ctx in')) (\<lambda>cs. Inr (CdtCall ''ListGetByRankRangeCountOp'' [ABin (lo_bin_name in'), AInt rank, AInt count, AReturn rt, ACtx cs])))))"
| "toCdtListOp_case CL_GetByValueRelativeRankRange in' =
       sbind (arg_value (lo_args in') 0) (\<lambda>value.
       sbind (arg_int (lo_args in') 1) (\<lambda>rank.
       sbind (toListReturnType (lo_return_type in')) (\<lambda>rt. sbind (toCDTContexts (lo_ctx in')) (\<lambda>cs. Inr (CdtCall ''ListGetByValueRelativeRankRangeOp'' [ABin (lo_bin_name in'), AValue value, AInt rank, AReturn rt, ACtx cs])))))"
| "toCdtListOp_case CL_GetByValueRelativeRankRangeCount in' =
       sbind (arg_value (lo_args in') 0) (\<lambda>value.
       sbind (arg_int (lo_args in') 1) (\<lambda>rank.
       sbind (arg_int (lo_args in') 2) (\<lambda>count.
       sbind (toListReturnType (lo_return_type in')) (\<lambda>rt. sbind (toCDTContexts (lo_ctx in')) (\<lambda>cs. Inr (CdtCall ''ListGetByValueRelativeRankRangeCountOp'' [ABin (lo_bin_name in'), AValue value, AInt rank, AInt count, AReturn rt, ACtx cs]))))))"
| "toCdtListOp_case CL_RemoveByValueList in' =
       sbind (arg_values (lo_args in') 0) (\<lambda>values.
       if length values = 1 then
         sbind (toListReturnType (lo_return_type in')) (\<lambda>rt. sbind (toCDTContexts (lo_ctx in')) (\<lambda>cs. Inr (CdtCall ''ListRemoveByValueOp'' [ABin (lo_bin_name in'), AValue (hd values), AReturn rt, ACtx cs])))
       else sbind (toListReturnType (lo_return_type in')) (\<lambda>rt. sbind (toCDTContexts (lo_ctx in')) (\<lambda>cs. Inr (CdtCall ''ListRemoveByValueListOp'' [ABin (lo_bin_name in'), AValues values, AReturn rt, ACtx cs]))))"
| "toCdtListOp_case CL_RemoveByValueRange in' =
       sbind (arg_value (lo_args in') 0) (\<lambda>begin'.
       sbind (arg_value (lo_args in') 1) (\<lambda>end'.
       sbind (toListReturnType (lo_return_type in')) (\<lambda>rt. sbind (toCDTContexts (lo_ctx in')) (\<lambda>cs. Inr (CdtCall ''ListRemoveByValueRangeOp'' [ABin (lo_bin_name in'), AReturn rt, AValue begin', AValue end', ACtx cs])))))"
| "toCdtListOp_case CL_RemoveByValueRelativeRankRange in' =
       sbind (arg_value (lo_args in') 0) (\<lambda>value.
       sbind (arg_int (lo_args in') 1) (\<lambda>rank.
       sbind (toListReturnType (lo_return_type in')) (\<lambda>rt. sbind (toCDTContexts (lo_ctx in')) (\<lambda>cs. Inr (CdtCall ''ListRemoveByValueRelativeRankRangeOp'' [ABin (lo_bin_name in'), AReturn rt, AValue value, AInt rank, ACtx cs])))))"
| "toCdtListOp_case CL_RemoveByValueRelativeRankRangeCount in' =
       sbind (arg_value (lo_args in') 0) (\<lambda>value.
       sbind (arg_int (lo_args in') 1) (\<lambda>rank.
       sbind (arg_int (lo_args in') 2) (\<lambda>count.
       sbind (toListReturnType (lo_return_type in')) (\<lambda>rt. sbind (toCDTContexts (lo_ctx in')) (\<lambda>cs. Inr (CdtCall ''ListRemoveByValueRelativeRankRangeCountOp'' [ABin (lo_bin_name in'), AReturn rt, AValue value, AInt rank, AInt count, ACtx cs]))))))"
| "toCdtListOp_case CL_RemoveRange in' =
       sbind (arg_int (lo_args in') 0) (\<lambda>index.
       sbind (arg_int (lo_args in') 1) (\<lambda>count.
       sbind (toCDTContexts (lo_ctx in')) (\<lambda>cs. Inr (CdtCall ''ListRemoveRangeOp'' [ABin (lo_bin_name in'), AInt index, AInt count, ACtx cs]))))"
| "toCdtListOp_case CL_RemoveRangeFrom in' =
       sbind (arg_int (lo_args in') 0) (\<lambda>index.
       sbind (toCDTContexts (lo_ctx in')) (\<lambda>cs. Inr (CdtCall ''ListRemoveRangeFromOp'' [ABin (lo_bin_name in'), AInt index, ACtx cs])))"
| "toCdtListOp_case CL_RemoveByIndex in' =
       sbind (arg_int (lo_args in') 0) (\<lambda>index.
       sbind (toListReturnType (lo_return_type in')) (\<lambda>rt. sbind (toCDTContexts (lo_ctx in')) (\<lambda>cs. Inr (CdtCall ''ListRemoveByIndexOp'' [ABin (lo_bin_name in'), AInt index, AReturn rt, ACtx cs]))))"
| "toCdtListOp_case CL_RemoveByIndexRange in' =
       sbind (arg_int (lo_args in') 0) (\<lambda>index.
       sbind (toListReturnType (lo_return_type in')) (\<lambda>rt. sbind (toCDTContexts (lo_ctx in')) (\<lambda>cs. Inr (CdtCall ''ListRemoveByIndexRangeOp'' [ABin (lo_bin_name in'), AInt index, AReturn rt, ACtx cs]))))"
| "toCdtListOp_case CL_RemoveByIndexRangeCount in' =
       sbind (arg_int (lo_args in') 0) (\<lambda>index.
       sbind (arg_int (lo_args in') 1) (\<lambda>count.
       sbind (toListReturnType (lo_return_type in')) (\<lambda>rt. sbind (toCDTContexts (lo_ctx in')) (\<lambda>cs. Inr (CdtCall ''ListRemoveByIndexRangeCountOp'' [ABin (lo_bin_name in'), AInt index, AInt count, AReturn rt, ACtx cs])))))"
| "toCdtListOp_case CL_RemoveByRank in' =
       sbind (arg_int (lo_args in') 0) (\<lambda>rank.
       sbind (toListReturnType (lo_return_type in')) (\<lambda>rt. sbind (toCDTContexts (lo_ctx in')) (\<lambda>cs. Inr (CdtCall ''ListRemoveByRankOp'' [ABin (lo_bin_name in'), AInt rank, AReturn rt, ACtx cs]))))"
| "toCdtListOp_case CL_RemoveByRankRange in' =
       sbind (arg_int (lo_args in') 0) (\<lambda>rank.
       sbind (toListReturnType (lo_return_type in')) (\<lambda>rt. sbind (toCDTContexts (lo_ctx in')) (\<lambda>cs. Inr (CdtCall ''ListRemoveByRankRangeOp'' [ABin (lo_bin_name in'), AInt rank, AReturn rt, ACtx cs]))))"
| "toCdtListOp_case CL_RemoveByRankRangeCount in' =
       sbind (arg_int (lo_args in') 0) (\<lambda>rank.
       sbind (arg_int (lo_args in') 1) (\<lambda>count.
       sbind (toListReturnType (lo_return_type in')) (\<lambda>rt. sbind (toCDTContexts (lo_ctx in')) (\<lambda>cs. Inr (CdtCall ''ListRemoveByRankRangeCountOp'' [ABin (lo_bin_name in'), AInt rank, AInt count, AReturn rt, ACtx cs])))))"

definition toCdtListOp :: "CdtListOperation \<Rightarrow> panic + cdt_call" where
  "toCdtListOp in' =
     (case CdtListCommandOp_from_i32 (lo_op in') of Some o' \<Rightarrow> toCdtListOp_case o' in' | None \<Rightarrow> Inr NilOperation)"

fun toCdtMapOp_case :: "CdtMapCommandOp \<Rightarrow> CdtMapOperation \<Rightarrow> panic + cdt_call" where
  "toCdtMapOp_case CM_Create in' =
       sbind (arg_map_order (mo_args in') 0) (\<lambda>mapOrderType.
       sbind (toCDTContexts (mo_ctx in')) (\<lambda>cs. Inr (CdtCall ''MapCreateOp'' [ABin (mo_bin_name in'), AMapOrder mapOrderType, ACtx cs])))"
| "toCdtMapOp_case CM_SetPolicy in' =
       sbind (toCdtMapPolicy (mo_policy in')) (\<lambda>p. sbind (toCDTContexts (mo_ctx in')) (\<lambda>cs. Inr (CdtCall ''MapSetPolicyOp'' [AMapPolicy p, ABin (mo_bin_name in'), ACtx cs])))"
| "toCdtMapOp_case CM_PutItems in' =
       sbind (arg_map (mo_args in') 0) (\<lambda>m.
       sbind (toCdtMapPolicy (mo_policy in')) (\<lambda>p. sbind (toCDTContexts (mo_ctx in')) (\<lambda>cs. Inr (CdtCall ''MapPutItemsOp'' [AMapPolicy p, ABin (mo_bin_name in'), AMap m, ACtx cs]))))"
| "toCdtMapOp_case CM_Increment in' =
       sbind (arg_value (mo_args in') 0) (\<lambda>key.
       sbind (arg_value (mo_args in') 1) (\<lambda>incr.
       sbind (toCdtMapPolicy (mo_policy in')) (\<lambda>p. sbind (toCDTContexts (mo_ctx in')) (\<lambda>cs. Inr (CdtCall ''MapIncrementOp'' [AMapPolicy p, ABin (mo_bin_name in'), AValue key, AValue incr, ACtx cs])))))"
| "toCdtMapOp_case CM_Decrement in' =
       sbind (arg_value (mo_args in') 0) (\<lambda>key.
       sbind (arg_value (mo_args in') 1) (\<lambda>decr.
       sbind (toCdtMapPolicy (mo_policy in')) (\<lambda>p. sbind (toCDTContexts (mo_ctx in')) (\<lambda>cs. Inr (CdtCall ''MapDecrementOp'' [AMapPolicy p, ABin (mo_bin_name in'), AValue key, AValue decr, ACtx cs])))))"
| "toCdtMapOp_case CM_Clear in' =
       sbind (toCDTContexts (mo_ctx in')) (\<lambda>cs. Inr (CdtCall ''MapClearOp'' [ABin (mo_bin_name in'), ACtx cs]))"
| "toCdtMapOp_case CM_RemoveByKeyList in' =
       sbind (arg_values (mo_args in') 0) (\<lambda>keys.
       if length keys = 1 then
         sbind (toCDTContexts (mo_ctx in')) (\<lambda>cs. Inr (CdtCall ''MapRemoveByKeyOp'' [ABin (mo_bin_name in'), AValue (hd keys), AMapReturn (toCdtMapReturnType (mo_return_type in')), ACtx cs]))
       else sbind (toCDTContexts (mo_ctx in')) (\<lambda>cs. Inr (CdtCall ''MapRemoveByKeyListOp'' [ABin (mo_bin_name in'), AValues keys, AMapReturn (toCdtMapReturnType (mo_return_type in')), ACtx cs])))"
| "toCdtMapOp_case CM_RemoveByKeyRange in' =
       sbind (arg_value (mo_args in') 0) (\<lambda>begin'.
       sbind (arg_value (mo_args in') 1) (\<lambda>end'.
       sbind (toCDTContexts (mo_ctx in')) (\<lambda>cs. Inr (CdtCall ''MapRemoveByKeyRangeOp'' [ABin (mo_bin_name in'), AValue begin', AValue end', AMapReturn (toCdtMapReturnType (mo_return_type in')), ACtx cs]))))"
| "toCdtMapOp_case CM_RemoveByValueList in' =
       sbind (arg_values (mo_args in') 0) (\<lambda>values.
       if length values = 1 then
         sbind (toCDTContexts (mo_ctx in')) (\<lambda>cs. Inr (CdtCall ''MapRemoveByValueOp'' [ABin (mo_bin_name in'), AValue (hd values), AMapReturn (toCdtMapReturnType (mo_return_type in')), ACtx cs]))
       else sbind (toCDTContexts (mo_ctx in')) (\<lambda>cs. Inr (CdtCall ''MapRemoveByValueListOp'' [ABin (mo_bin_name in'), AValues values, AMapReturn (toCdtMapReturnType (mo_return_type in')), ACtx cs])))"
| "toCdtMapOp_case CM_RemoveByValueRange in' =
       sbind (arg_value (mo_args in') 0) (\<lambda>begin'.
       sbind (arg_value (mo_args in') 1) (\<lambda>end'.
       sbind (toCDTContexts (mo_ctx in')) (\<lambda>cs. Inr (CdtCall ''MapRemoveByValueRangeOp'' [ABin (mo_bin_name in'), AValue begin', AValue end', AMapReturn (toCdtMapReturnType (mo_return_type in')), ACtx cs]))))"
| "toCdtMapOp_case CM_RemoveByValueRelativeRankRange in' =
       sbind (arg_value (mo_args in') 0) (\<lambda>value.
       sbind (arg_int (mo_args in') 1) (\<lambda>rank.
       sbind (toCDTContexts (mo_ctx in')) (\<lambda>cs. Inr (CdtCall ''MapRemoveByValueRelativeRankRangeOp'' [ABin (mo_bin_name in'), AValue value, AInt rank, AMapReturn (toCdtMapReturnType (mo_return_type in')), ACtx cs]))))"
| "toCdtMapOp_case CM_RemoveByValueRelativeRankRangeCount in' =
       sbind (arg_value (mo_args in') 0) (\<lambda>value.
       sbind (arg_int (mo_args in') 1) (\<lambda>rank.
       sbind (arg_int (mo_args in') 2) (\<lambda>count.
       sbind (toCDTContexts (mo_ctx in')) (\<lambda>cs. Inr (CdtCall ''MapRemoveByValueRelativeRankRangeCountOp'' [ABin (mo_bin_name in'), AValue value, AInt rank, AInt count, AMapReturn (toCdtMapReturnType (mo_return_type in')), ACtx cs])))))"
| "toCdtMapOp_case CM_RemoveByIndex in' =
       sbind (arg_int (mo_args in') 0) (\<lambda>index.
       sbind (toCDTContexts (mo_ctx in')) (\<lambda>cs. Inr (CdtCall ''MapRemoveByIndexOp'' [ABin (mo_bin_name in'), AInt index, AMapReturn (toCdtMapReturnType (mo_return_type in')), ACtx cs])))"
| "toCdtMapOp_case CM_RemoveByIndexRange in' =
       sbind (arg_int (mo_args in') 0) (\<lambda>index.
       sbind (toCDTContexts (mo_ctx in')) (\<lambda>cs. Inr (CdtCall ''MapRemoveByIndexRangeOp'' [ABin (mo_bin_name in'), AInt index, AMapReturn (toCdtMapReturnType (mo_return_type in')), ACtx cs])))"
| "toCdtMapOp_case CM_RemoveByIndexRangeCount in' =
       sbind (arg_int (mo_args in') 0) (\<lambda>index.
       sbind (arg_int (mo_args in') 1) (\<lambda>count.
       sbind (toCDTContexts (mo_ctx in')) (\<lambda>cs. Inr (CdtCall ''MapRemoveByIndexRangeCountOp'' [ABin (mo_bin_name in'), AInt index, AInt count, AMapReturn (toCdtMapReturnType (mo_return_type in')), ACtx cs]))))"
| "toCdtMapOp_case CM_RemoveByRank in' =
       sbind (arg_int (mo_args in') 0) (\<lambda>rank.
       sbind (toCDTContexts (mo_ctx in')) (\<lambda>cs. Inr (CdtCall ''MapRemoveByRankOp'' [ABin (mo_bin_name in'), AInt rank, AMapReturn (toCdtMapReturnType (mo_return_type in')), ACtx cs])))"
| "toCdtMapOp_case CM_RemoveByRankRange in' =
       sbind (arg_int (mo_args in') 0) (\<lambda>rank.
       sbind (toCDTContexts (mo_ctx in')) (\<lambda>cs. Inr (CdtCall ''MapRemoveByRankRangeOp'' [ABin (mo_bin_name in'), AInt rank, AMapReturn (toCdtMapReturnType (mo_return_type in')), ACtx cs])))"
| "toCdtMapOp_case CM_RemoveByRankRangeCount in' =
       sbind (arg_int (mo_args in') 0) (\<lambda>rank.
       sbind (arg_int (mo_args in') 1) (\<lambda>count.
       sbind (toCDTContexts (mo_ctx in')) (\<lambda>cs. Inr (CdtCall ''MapRemoveByRankRangeCountOp'' [ABin (mo_bin_name in'), AInt rank, AInt count, AMapReturn (toCdtMapReturnType (mo_return_type in')), ACtx cs]))))"
| "toCdtMapOp_case CM_RemoveByKeyRelativeIndexRange in' =
       sbind (arg_value (mo_args in') 0) (\<lambda>key.
       sbind (arg_int (mo_args in') 1) (\<lambda>index.
       sbind (toCDTContexts (mo_ctx in')) (\<lambda>cs. Inr (CdtCall ''MapRemoveByKeyRelativeIndexRangeOp'' [ABin (mo_bin_name in'), AValue key, AInt index, AMapReturn (toCdtMapReturnType (mo_return_type in')), ACtx cs]))))"
| "toCdtMapOp_case CM_RemoveByKeyRelativeIndexRangeCount in' =
       sbind (arg_value (mo_args in') 0) (\<lambda>key.
       sbind (arg_int (mo_args in') 1) (\<lambda>index.
       sbind (arg_int (mo_args in') 2) (\<lambda>count.
       sbind (toCDTContexts (mo_ctx in')) (\<lambda>cs. Inr (CdtCall ''MapRemoveByKeyRelativeIndexRangeCountOp'' [ABin (mo_bin_name in'), AValue key, AInt index, AInt count, AMapReturn (toCdtMapReturnType (mo_return_type in')), ACtx cs])))))"
| "toCdtMapOp_case CM_Size in' =
       sbind (toCDTContexts (mo_ctx in')) (\<lambda>cs. Inr (CdtCall ''MapSizeOp'' [ABin (mo_bin_name in'), ACtx cs]))"
| "toCdtMapOp_case CM_GetByKeyList in' =
       sbind (arg_values (mo_args in') 0) (\<lambda>keys.
       if length keys = 1 then
         sbind (toCDTContexts (mo_ctx in')) (\<lambda>cs. Inr (CdtCall ''MapGetByKeyOp'' [ABin (mo_bin_name in'), AValue (hd keys), AMapReturn (toCdtMapReturnType (mo_return_type in')), ACtx cs]))
       else sbind (toCDTContexts (mo_ctx in')) (\<lambda>cs. Inr (CdtCall ''MapGetByKeyListOp'' [ABin (mo_bin_name in'), AValues keys, AMapReturn (toCdtMapReturnType (mo_return_type in')), ACtx cs])))"
| "toCdtMapOp_case CM_GetByKeyRange in' =
       sbind (arg_value (mo_args in') 0) (\<lambda>begin'.
       sbind (arg_value (mo_args in') 1) (\<lambda>end'.
       sbind (toCDTContexts (mo_ctx in')) (\<lambda>cs. Inr (CdtCall ''MapGetByKeyRangeOp'' [ABin (mo_bin_name in'), AValue begin', AValue end', AMapReturn (toCdtMapReturnType (mo_return_type in')), ACtx cs]))))"
| "toCdtMapOp_case CM_GetByKeyRelativeIndexRange in' =
       sbind (arg_value (mo_args in') 0) (\<lambda>key.
       sbind (arg_int (mo_args in') 1) (\<lambda>index.
       sbind (toCDTContexts (mo_ctx in')) (\<lambda>cs. Inr (CdtCall ''MapGetByKeyRelativeIndexRangeOp'' [ABin (mo_bin_name in'), AValue key, AInt index, AMapReturn (toCdtMapReturnType (mo_return_type in')), ACtx cs]))))"
| "toCdtMapOp_case CM_GetByKeyRelativeIndexRangeCount in' =
       sbind (arg_value (mo_args in') 0) (\<lambda>key.
       sbind (arg_int (mo_args in') 1) (\<lambda>index.
       sbind (arg_int (mo_args in') 2) (\<lambda>count.
       sbind (toCDTContexts (mo_ctx in')) (\<lambda>cs. Inr (CdtCall ''MapGetByKeyRelativeIndexRangeCountOp'' [ABin (mo_bin_name in'), AValue key, AInt index, AInt count, AMapReturn (toCdtMapReturnType (mo_return_type in')), ACtx cs])))))"
| "toCdtMapOp_case CM_GetByValueList in' =
       sbind (arg_values (mo_args in') 0) (\<lambda>values.
       if length values = 1 then
         sbind (toCDTContexts (mo_ctx in')) (\<lambda>cs. Inr (CdtCall ''MapGetByValueOp'' [ABin (mo_bin_name in'), AValue (hd values), AMapReturn (toCdtMapReturnType (mo_return_type in')), ACtx cs]))
       else sbind (toCDTContexts (mo_ctx in')) (\<lambda>cs. Inr (CdtCall ''MapGetByValueListOp'' [ABin (mo_bin_name in'), AValues values, AMapReturn (toCdtMapReturnType (mo_return_type in')), ACtx cs])))"
| "toCdtMapOp_case CM_GetByValueRange in' =
       sbind (arg_value (mo_args in') 0) (\<lambda>begin'.
       sbind (arg_value (mo_args in') 1) (\<lambda>end'.
       sbind (toCDTContexts (mo_ctx in')) (\<lambda>cs. Inr (CdtCall ''MapGetByValueRangeOp'' [ABin (mo_bin_name in'), AValue begin', AValue end', AMapReturn (toCdtMapReturnType (mo_return_type in')), ACtx cs]))))"
| "toCdtMapOp_case CM_GetByValueRelativeRankRange in' =
       sbind (arg_value (mo_args in') 0) (\<lambda>value.
       sbind (arg_int (mo_args in') 1) (\<lambda>rank.
       sbind (toCDTContexts (mo_ctx in')) (\<lambda>cs. Inr (CdtCall ''MapGetByValueRelativeRankRangeOp'' [ABin (mo_bin_name in'), AValue value, AInt rank, AMapReturn (toCdtMapReturnType (mo_return_type in')), ACtx cs]))))"
| "toCdtMapOp_case CM_GetByValueRelativeRankRangeCount in' =
       sbind (arg_value (mo_args in') 0) (\<lambda>value.
       sbind (arg_int (mo_args in') 1) (\<lambda>rank.
       sbind (arg_int (mo_args in') 2) (\<lambda>count.
       sbind (toCDTContexts (mo_ctx in')) (\<lambda>cs. Inr (CdtCall ''MapGetByValueRelativeRankRangeCountOp'' [ABin (mo_bin_name in'), AValue value, AInt rank, AInt count, AMapReturn (toCdtMapReturnType (mo_return_type in')), ACtx cs])))))"
| "toCdtMapOp_case CM_GetByIndex in' =
       sbind (arg_int (mo_args in') 0) (\<lambda>index.
       sbind (toCDTContexts (mo_ctx in')) (\<lambda>cs. Inr (CdtCall ''MapGetByIndexOp'' [ABin (mo_bin_name in'), AInt index, AMapReturn (toCdtMapReturnType (mo_return_type in')), ACtx cs])))"
| "toCdtMapOp_case CM_GetByIndexRange in' =
       sbind (arg_int (mo_args in') 0) (\<lambda>index.
       sbind (toCDTContexts (mo_ctx in')) (\<lambda>cs. Inr (CdtCall ''MapGetByIndexRangeOp'' [ABin (mo_bin_name in'), AInt index, AMapReturn (toCdtMapReturnType (mo_return_type in')), ACtx cs])))"
| "toCdtMapOp_case CM_GetByIndexRangeCount in' =
       sbind (arg_int (mo_args in') 0) (\<lambda>index.
       sbind (arg_int (mo_args in') 1) (\<lambda>count.
       sbind (toCDTContexts (mo_ctx in')) (\<lambda>cs. Inr (CdtCall ''MapGetByIndexRangeCountOp'' [ABin (mo_bin_name in'), AInt index, AInt count, AMapReturn (toCdtMapReturnType (mo_return_type in')), ACtx cs]))))"
| "toCdtMapOp_case CM_GetByRank in' =
       sbind (arg_int (mo_args in') 0) (\<lambda>rank.
       sbind (toCDTContexts (mo_ctx in')) (\<lambda>cs. Inr (CdtCall ''MapGetByRankOp'' [ABin (mo_bin_name in'), AInt rank, AMapReturn (toCdtMapReturnType (mo_return_type in')), ACtx cs])))"
| "toCdtMapOp_case CM_GetByRankRange in' =
       sbind (arg_int (mo_args in') 0) (\<lambda>rank.
       sbind (toCDTContexts (mo_ctx in')) (\<lambda>cs. Inr (CdtCall ''MapGetByRankRangeOp'' [ABin (mo_bin_name in'), AInt rank, AMapReturn (toCdtMapReturnType (mo_return_type in')), ACtx cs])))"
| "toCdtMapOp_case CM_GetByRankRangeCount in' =
       sbind (arg_int (mo_args in') 0) (\<lambda>rank.
       sbind (arg_int (mo_args in') 1) (\<lambda>count.
       sbind (toCDTContexts (mo_ctx in')) (\<lambda>cs. Inr (CdtCall ''MapGetByRankRangeCountOp'' [ABin (mo_bin_name in'), AInt rank, AInt count, AMapReturn (toCdtMapReturnType (mo_return_type in')), ACtx cs]))))"
| "toCdtMapOp_case _ in' = Inr NilOperation"

definition toCdtMapOp :: "CdtMapOperation \<Rightarrow> panic + cdt_call" where
  "toCdtMapOp in' =
     (case CdtMapCommandOp_from_i32 (mo_op in') of Some o' \<Rightarrow> toCdtMapOp_case o' in' | None \<Rightarrow> Inr NilOperation)"

fun toCdtHLLOp_case :: "CdtHllCommandOp \<Rightarrow> CdtHllOperation \<Rightarrow> panic + cdt_call" where
  "toCdtHLLOp_case CH_Init in' =
       sbind (arg_int (ho_args in') 0) (\<lambda>indexBitCount.
       sbind (arg_int (ho_args in') 1) (\<lambda>minHashBitCount.
       Inr (CdtCall ''HLLInitOp'' [AHllPolicy (toHLLPolicy (ho_policy in')), ABin (ho_bin_name in'), AInt indexBitCount, AInt minHashBitCount])))"
| "toCdtHLLOp_case CH_Add in' =
       sbind (arg_values (ho_args in') 0) (\<lambda>list'.
       sbind (arg_int (ho_args in') 1) (\<lambda>indexBitCount.
       sbind (arg_int (ho_args in') 2) (\<lambda>minHashBitCount.
       Inr (CdtCall ''HLLAddOp'' [AHllPolicy (toHLLPolicy (ho_policy in')), ABin (ho_bin_name in'), AValues list', AInt indexBitCount, AInt minHashBitCount]))))"
| "toCdtHLLOp_case CH_SetUnion in' =
       sbind (arg_hlls (ho_args in') 0) (\<lambda>list'.
       Inr (CdtCall ''HLLSetUnionOp'' [AHllPolicy (toHLLPolicy (ho_policy in')), ABin (ho_bin_name in'), AHlls list']))"
| "toCdtHLLOp_case CH_RefreshCount in' =
       Inr (CdtCall ''HLLRefreshCountOp'' [ABin (ho_bin_name in')])"
| "toCdtHLLOp_case CH_Fold in' =
       sbind (arg_int (ho_args in') 0) (\<lambda>indexBitCount.
       Inr (CdtCall ''HLLFoldOp'' [ABin (ho_bin_name in'), AInt indexBitCount]))"
| "toCdtHLLOp_case CH_GetCount in' =
       Inr (CdtCall ''HLLGetCountOp'' [ABin (ho_bin_name in')])"
| "toCdtHLLOp_case CH_GetUnion in' =
       sbind (arg_hlls (ho_args in') 0) (\<lambda>list'.
       Inr (CdtCall ''HLLGetUnionOp'' [ABin (ho_bin_name in'), AHlls list']))"
| "toCdtHLLOp_case CH_GetUnionCount in' =
       sbind (arg_hlls (ho_args in') 0) (\<lambda>list'.
       Inr (CdtCall ''HLLGetUnionCountOp'' [ABin (ho_bin_name in'), AHlls list']))"
| "toCdtHLLOp_case CH_GetIntersectCount in' =
       sbind (arg_hlls (ho_args in') 0) (\<lambda>list'.
       Inr (CdtCall ''HLLGetIntersectCountOp'' [ABin (ho_bin_name in'), AHlls list']))"
| "toCdtHLLOp_case CH_GetSimilarity in' =
       sbind (arg_hlls (ho_args in') 0) (\<lambda>list'.
       Inr (CdtCall ''HLLGetSimilarityOp'' [ABin (ho_bin_name in'), AHlls list']))"
| "toCdtHLLOp_case CH_Describe in' =
       Inr (CdtCall ''HLLDescribeOp'' [ABin (ho_bin_name in')])"

definition toCdtHLLOp :: "CdtHllOperation \<Rightarrow> panic + cdt_call" where
  "toCdtHLLOp in' =
     (case CdtHllCommandOp_from_i32 (ho_op in') of Some o' \<Rightarrow> toCdtHLLOp_case o' in' | None \<Rightarrow> Inr NilOperation)"

fun toCdtBitwiseOp_case :: "CdtBitwiseCommandOp \<Rightarrow> CdtBitwiseOperation \<Rightarrow> panic + cdt_call" where
  "toCdtBitwiseOp_case CW_Resize in' =
       sbind (arg_int (wo_args in') 0) (\<lambda>byteSize.
       sbind (arg_int (wo_args in') 1) (\<lambda>resizeFlags.
       sbind (toCDTContexts (wo_ctx in')) (\<lambda>cs. Inr (CdtCall ''BitResizeOp'' [ABitPolicy (toBitwisePolicy (wo_policy in')), ABin (wo_bin_name in'), AInt byteSize, AInt resizeFlags, ACtx cs]))))"
| "toCdtBitwiseOp_case CW_Insert in' =
       sbind (arg_int (wo_args in') 0) (\<lambda>byteOffset.
       sbind (arg_blob (wo_args in') 1) (\<lambda>value.
       sbind (toCDTContexts (wo_ctx in')) (\<lambda>cs. Inr (CdtCall ''BitInsertOp'' [ABitPolicy (toBitwisePolicy (wo_policy in')), ABin (wo_bin_name in'), AInt byteOffset, ABytes value, ACtx cs]))))"
| "toCdtBitwiseOp_case CW_Remove in' =
       sbind (arg_int (wo_args in') 0) (\<lambda>byteOffset.
       sbind (arg_int (wo_args in') 1) (\<lambda>byteSize.
       sbind (toCDTContexts (wo_ctx in')) (\<lambda>cs. Inr (CdtCall ''BitRemoveOp'' [ABitPolicy (toBitwisePolicy (wo_policy in')), ABin (wo_bin_name in'), AInt byteOffset, AInt byteSize, ACtx cs]))))"
| "toCdtBitwiseOp_case CW_Set in' =
       sbind (arg_int (wo_args in') 0) (\<lambda>bitOffset.
       sbind (arg_int (wo_args in') 1) (\<lambda>bitSize.
       sbind (arg_blob (wo_args in') 2) (\<lambda>value.
       sbind (toCDTContexts (wo_ctx in')) (\<lambda>cs. Inr (CdtCall ''BitSetOp'' [ABitPolicy (toBitwisePolicy (wo_policy in')), ABin (wo_bin_name in'), AInt bitOffset, AInt bitSize, ABytes value, ACtx cs])))))"
| "toCdtBitwiseOp_case CW_Or in' =
       sbind (arg_int (wo_args in') 0) (\<lambda>bitOffset.
       sbind (arg_int (wo_args in') 1) (\<lambda>bitSize.
       sbind (arg_blob (wo_args in') 2) (\<lambda>value.
       sbind (toCDTContexts (wo_ctx in')) (\<lambda>cs. Inr (CdtCall ''BitOrOp'' [ABitPolicy (toBitwisePolicy (wo_policy in')), ABin (wo_bin_name in'), AInt bitOffset, AInt bitSize, ABytes value, ACtx cs])))))"
| "toCdtBitwiseOp_case CW_Xor in' =
       sbind (arg_int (wo_args in') 0) (\<lambda>bitOffset.
       sbind (arg_int (wo_args in') 1) (\<lambda>bitSize.
       sbind (arg_blob (wo_args in') 2) (\<lambda>value.
       sbind (toCDTContexts (wo_ctx in')) (\<lambda>cs. Inr (CdtCall ''BitXorOp'' [ABitPolicy (toBitwisePolicy (wo_policy in')), ABin (wo_bin_name in'), AInt bitOffset, AInt bitSize, ABytes value, ACtx cs])))))"
| "toCdtBitwiseOp_case CW_And in' =
       sbind (arg_int (wo_args in') 0) (\<lambda>bitOffset.
       sbind (arg_int (wo_args in') 1) (\<lambda>bitSize.
       sbind (arg_blob (wo_args in') 2) (\<lambda>value.
       sbind (toCDTContexts (wo_ctx in')) (\<lambda>cs. Inr (CdtCall ''BitAndOp'' [ABitPolicy (toBitwisePolicy (wo_policy in')), ABin (wo_bin_name in'), AInt bitOffset, AInt bitSize, ABytes value, ACtx cs])))))"
| "toCdtBitwiseOp_case CW_Not in' =
       sbind (arg_int (wo_args in') 0) (\<lambda>bitOffset.
       sbind (arg_int (wo_args in') 1) (\<lambda>bitSize.
       sbind (toCDTContexts (wo_ctx in')) (\<lambda>cs. Inr (CdtCall ''BitNotOp'' [ABitPolicy (toBitwisePolicy (wo_policy in')), ABin (wo_bin_name in'), AInt bitOffset, AInt bitSize, ACtx cs]))))"
| "toCdtBitwiseOp_case CW_LShift in' =
       sbind (arg_int (wo_args in') 0) (\<lambda>bitOffset.
       sbind (arg_int (wo_args in') 1) (\<lambda>bitSize.
       sbind (arg_int (wo_args in') 2) (\<lambda>shift.
       sbind (toCDTContexts (wo_ctx in')) (\<lambda>cs. Inr (CdtCall ''BitLShiftOp'' [ABitPolicy (toBitwisePolicy (wo_policy in')), ABin (wo_bin_name in'), AInt bitOffset, AInt bitSize, AInt shift, ACtx cs])))))"
| "toCdtBitwiseOp_case CW_RShift in' =
       sbind (arg_int (wo_args in') 0) (\<lambda>bitOffset.
       sbind (arg_int (wo_args in') 1) (\<lambda>bitSize.
       sbind (arg_int (wo_args in') 2) (\<lambda>shift.
       sbind (toCDTContexts (wo_ctx in')) (\<lambda>cs. Inr (CdtCall ''BitRShiftOp'' [ABitPolicy (toBitwisePolicy (wo_policy in')), ABin (wo_bin_name in'), AInt bitOffset, AInt bitSize, AInt shift, ACtx cs])))))"
| "toCdtBitwiseOp_case CW_Add in' =
       sbind (arg_int (wo_args in') 0) (\<lambda>bitOffset.
       sbind (arg_int (wo_args in') 1) (\<lambda>bitSize.
       sbind (arg_int (wo_args in') 2) (\<lambda>value.
       sbind (arg_bool (wo_args in') 3) (\<lambda>signed'.
       sbind (arg_int (wo_args in') 3) (\<lambda>action.
       sbind (toCDTContexts (wo_ctx in')) (\<lambda>cs. Inr (CdtCall ''BitAddOp'' [ABitPolicy (toBitwisePolicy (wo_policy in')), ABin (wo_bin_name in'), AInt bitOffset, AInt bitSize, AInt value, ABool signed', AInt action, ACtx cs])))))))"
| "toCdtBitwiseOp_case CW_Subtract in' =
       sbind (arg_int (wo_args in') 0) (\<lambda>bitOffset.
       sbind (arg_int (wo_args in') 1) (\<lambda>bitSize.
       sbind (arg_int (wo_args in') 2) (\<lambda>value.
       sbind (arg_bool (wo_args in') 3) (\<lambda>signed'.
       sbind (arg_int (wo_args in') 3) (\<lambda>action.
       sbind (toCDTContexts (wo_ctx in')) (\<lambda>cs. Inr (CdtCall ''BitSubtractOp'' [ABitPolicy (toBitwisePolicy (wo_policy in')), ABin (wo_bin_name in'), AInt bitOffset, AInt bitSize, AInt value, ABool signed', AInt action, ACtx cs])))))))"
| "toCdtBitwiseOp_case CW_SetInt in' =
       sbind (arg_int (wo_args in') 0) (\<lambda>bitOffset.
       sbind (arg_int (wo_args in') 1) (\<lambda>bitSize.
       sbind (arg_int (wo_args in') 2) (\<lambda>value.
       sbind (toCDTContexts (wo_ctx in')) (\<lambda>cs. Inr (CdtCall ''BitSetIntOp'' [ABitPolicy (toBitwisePolicy (wo_policy in')), ABin (wo_bin_name in'), AInt bitOffset, AInt bitSize, AInt value, ACtx cs])))))"
| "toCdtBitwiseOp_case CW_Get in' =
       sbind (arg_int (wo_args in') 0) (\<lambda>bitOffset.
       sbind (arg_int (wo_args in') 1) (\<lambda>bitSize.
       sbind (toCDTContexts (wo_ctx in')) (\<lambda>cs. Inr (CdtCall ''BitGetOp'' [ABin (wo_bin_name in'), AInt bitOffset, AInt bitSize, ACtx cs]))))"
| "toCdtBitwiseOp_case CW_Count in' =
       sbind (arg_int (wo_args in') 0) (\<lambda>bitOffset.
       sbind (arg_int (wo_args in') 1) (\<lambda>bitSize.
       sbind (toCDTContexts (wo_ctx in')) (\<lambda>cs. Inr (CdtCall ''BitCountOp'' [ABin (wo_bin_name in'), AInt bitOffset, AInt bitSize, ACtx cs]))))"
| "toCdtBitwiseOp_case CW_LScan in' =
       sbind (arg_int (wo_args in') 0) (\<lambda>bitOffset.
       sbind (arg_int (wo_args in') 1) (\<lambda>bitSize.
       sbind (arg_bool (wo_args in') 2) (\<lambda>value.
       sbind (toCDTContexts (wo_ctx in')) (\<lambda>cs. Inr (CdtCall ''BitLScanOp'' [ABin (wo_bin_name in'), AInt bitOffset, AInt bitSize, ABool value, ACtx cs])))))"
| "toCdtBitwiseOp_case CW_RScan in' =
       sbind (arg_int (wo_args in') 0) (\<lambda>bitOffset.
       sbind (arg_int (wo_args in') 1) (\<lambda>bitSize.
       sbind (arg_bool (wo_args in') 2) (\<lambda>value.
       sbind (toCDTContexts (wo_ctx in')) (\<lambda>cs. Inr (CdtCall ''BitRScanOp'' [ABin (wo_bin_name in'), AInt bitOffset, AInt bitSize, ABool value, ACtx cs])))))"
| "toCdtBitwiseOp_case CW_GetInt in' =
       sbind (arg_int (wo_args in') 0) (\<lambda>bitOffset.
       sbind (arg_int (wo_args in') 1) (\<lambda>bitSize.
       sbind (arg_bool (wo_args in') 2) (\<lambda>signed'.
       sbind (toCDTContexts (wo_ctx in')) (\<lambda>cs. Inr (CdtCall ''BitGetIntOp'' [ABin (wo_bin_name in'), AInt bitOffset, AInt bitSize, ABool signed', ACtx cs])))))"

definition toCdtBitwiseOp :: "CdtBitwiseOperation \<Rightarrow> panic + cdt_call" where
  "toCdtBitwiseOp in' =
     (case CdtBitwiseCommandOp_from_i32 (wo_op in') of Some o' \<Rightarrow> toCdtBitwiseOp_case o' in' | None \<Rightarrow> Inr NilOperation)"

text \<open>The cases of \<^verbatim>\<open>toOp\<close> for the collection operations.\<close>
fun toCdtOp :: "cdt \<Rightarrow> panic + cdt_call" where
  "toCdtOp (ListOp m) = toCdtListOp m"
| "toCdtOp (MapOp m) = toCdtMapOp m"
| "toCdtOp (HllOp m) = toCdtHLLOp m"
| "toCdtOp (BitwiseOp m) = toCdtBitwiseOp m"

end
