(* ===== verification/Queries.thy ===== *)
theory Queries
  imports Value_Laws Enums
begin

text \<open>
  Secondary-index filters and query statements of \<^verbatim>\<open>src/lib.rs\<close> (classes
  \<^verbatim>\<open>Filter\<close> and \<^verbatim>\<open>Statement\<close>).
\<close>

section \<open>Filters\<close>

text \<open>\<^verbatim>\<open>proto::QueryFilter\<close>.\<close>
record Filter =
  filter_name :: string
  filter_idx_type :: i32
  filter_value_particle_type :: u32
  filter_begin :: "proto_Value option"
  filter_end :: "proto_Value option"
  filter_ctx :: "CDTContext list"

definition cit_or_default :: "IndexCollectionType option \<Rightarrow> IndexCollectionType" where
  "cit_or_default cit = (case cit of Some c \<Rightarrow> c | None \<Rightarrow> ICT_Default)"

definition Filter_equal :: "string \<Rightarrow> PHPValue \<Rightarrow> CDTContext list option \<Rightarrow> panic + Filter" where
  "Filter_equal bin_name value ctx =
     sbind (PHPValue_particle_type value) (\<lambda>pt.
       Inr \<lparr>filter_name = bin_name,
            filter_idx_type = IndexCollectionType_into_i32 ICT_Default,
            filter_value_particle_type = pt,
            filter_begin = Some (Value_from_PHPValue value),
            filter_end = Some (Value_from_PHPValue value),
            filter_ctx = ctx_or_empty ctx\<rparr>)"

definition Filter_range ::
  "string \<Rightarrow> PHPValue \<Rightarrow> PHPValue \<Rightarrow> CDTContext list option \<Rightarrow> panic + Filter" where
  "Filter_range bin_name begin' end' ctx =
     sbind (PHPValue_particle_type begin') (\<lambda>pt.
       Inr \<lparr>filter_name = bin_name,
            filter_idx_type = IndexCollectionType_into_i32 ICT_Default,
            filter_value_particle_type = pt,
            filter_begin = Some (Value_from_PHPValue begin'),
            filter_end = Some (Value_from_PHPValue end'),
            filter_ctx = ctx_or_empty ctx\<rparr>)"

definition Filter_contains ::
  "string \<Rightarrow> PHPValue \<Rightarrow> IndexCollectionType option \<Rightarrow> CDTContext list option \<Rightarrow> panic + Filter" where
  "Filter_contains bin_name value cit ctx =
     sbind (PHPValue_particle_type value) (\<lambda>pt.
       Inr \<lparr>filter_name = bin_name,
            filter_idx_type = IndexCollectionType_into_i32 (cit_or_default cit),
            filter_value_particle_type = pt,
            filter_begin = Some (Value_from_PHPValue value),
            filter_end = Some (Value_from_PHPValue value),
            filter_ctx = ctx_or_empty ctx\<rparr>)"

definition Filter_contains_range ::
  "string \<Rightarrow> PHPValue \<Rightarrow> PHPValue \<Rightarrow> IndexCollectionType option \<Rightarrow> CDTContext list option \<Rightarrow>
   panic + Filter" where
  "Filter_contains_range bin_name begin' end' cit ctx =
     sbind (PHPValue_particle_type begin') (\<lambda>pt.
       Inr \<lparr>filter_name = bin_name,
            filter_idx_type = IndexCollectionType_into_i32 (cit_or_default cit),
            filter_value_particle_type = pt,
            filter_begin = Some (Value_from_PHPValue begin'),
            filter_end = Some (Value_from_PHPValue end'),
            filter_ctx = ctx_or_empty ctx\<rparr>)"

definition Filter_within_region ::
  "string \<Rightarrow> string \<Rightarrow> IndexCollectionType option \<Rightarrow> CDTContext list option \<Rightarrow> panic + Filter" where
  "Filter_within_region bin_name region cit ctx =
     sbind (PHPValue_particle_type (PGeoJSON [])) (\<lambda>pt.
       Inr \<lparr>filter_name = bin_name,
            filter_idx_type = IndexCollectionType_into_i32 (cit_or_default cit),
            filter_value_particle_type = pt,
            filter_begin = Some (Value_from_PHPValue (Value_string region)),
            filter_end = Some (Value_from_PHPValue (Value_string region)),
            filter_ctx = ctx_or_empty ctx\<rparr>)"

text \<open>
  The decimal renderings of a float that \<^verbatim>\<open>format!\<close> gives for \<^verbatim>\<open>{:.8}\<close> and
  \<^verbatim>\<open>{}\<close>, as parameters.
\<close>
record float_fmt =
  fmt_8 :: "f64 \<Rightarrow> string"
  fmt_shortest :: "f64 \<Rightarrow> string"

definition Filter_within_radius ::
  "float_fmt \<Rightarrow> string \<Rightarrow> f64 \<Rightarrow> f64 \<Rightarrow> f64 \<Rightarrow> IndexCollectionType option \<Rightarrow> CDTContext list option \<Rightarrow>
   panic + Filter" where
  "Filter_within_radius ff bin_name lat lng radius cit ctx =
     Filter_within_region bin_name
       (''{ \"type\": \"AeroCircle\", \"coordinates\": [['' @ fmt_8 ff lng @ '', '' @ fmt_8 ff lat @
        ''], '' @ fmt_shortest ff radius @ ''] }'') cit ctx"

definition Filter_regions_containing_point ::
  "float_fmt \<Rightarrow> string \<Rightarrow> f64 \<Rightarrow> f64 \<Rightarrow> IndexCollectionType option \<Rightarrow> CDTContext list option \<Rightarrow>
   panic + Filter" where
  "Filter_regions_containing_point ff bin_name lat lng cit ctx =
     Filter_within_region bin_name
       (''{\"type\":\"Point\",\"coordinates\":['' @ fmt_8 ff lng @ '','' @ fmt_8 ff lat @ '']}'') cit ctx"

lemmas filter_defs = Filter_equal_def Filter_range_def Filter_contains_def Filter_contains_range_def
  Filter_within_region_def Filter_within_radius_def Filter_regions_containing_point_def

section \<open>Statements\<close>

text \<open>\<^verbatim>\<open>proto::Statement\<close>; \<open>task_id\<close> is drawn by \<^verbatim>\<open>rand::thread_rng().gen()\<close>.\<close>
record Statement =
  st_namespace :: string
  st_set_name :: string
  st_index_name :: "string option"
  st_bin_names :: "string list"
  st_filter :: "Filter option"
  st_task_id :: u64
  st_return_data :: bool

definition Statement_construct ::
  "u64 \<Rightarrow> string \<Rightarrow> string \<Rightarrow> Filter option \<Rightarrow> string list option \<Rightarrow> Statement" where
  "Statement_construct rng ns set_name flt bin_names =
     \<lparr>st_namespace = ns, st_set_name = set_name, st_index_name = None,
      st_bin_names = (case bin_names of Some bs \<Rightarrow> bs | None \<Rightarrow> []),
      st_filter = flt, st_task_id = rng, st_return_data = True\<rparr>"

definition Statement_get_filter :: "Statement \<Rightarrow> Filter option" where
  "Statement_get_filter s = st_filter s"

definition Statement_set_filter :: "Filter option \<Rightarrow> Statement \<Rightarrow> Statement" where
  "Statement_set_filter flt s = s\<lparr>st_filter := flt\<rparr>"

definition Statement_get_index_name :: "Statement \<Rightarrow> string option" where
  "Statement_get_index_name s = st_index_name s"

definition Statement_set_index_name :: "string option \<Rightarrow> Statement \<Rightarrow> Statement" where
  "Statement_set_index_name index_name s = s\<lparr>st_index_name := index_name\<rparr>"

definition Statement_get_bin_names :: "Statement \<Rightarrow> string list" where
  "Statement_get_bin_names s = st_bin_names s"

definition Statement_set_bin_names :: "string list \<Rightarrow> Statement \<Rightarrow> Statement" where
  "Statement_set_bin_names bin_names s = s\<lparr>st_bin_names := bin_names\<rparr>"

definition Statement_get_namespace :: "Statement \<Rightarrow> string" where
  "Statement_get_namespace s = st_namespace s"

definition Statement_set_namespace :: "string \<Rightarrow> Statement \<Rightarrow> Statement" where
  "Statement_set_namespace ns s = s\<lparr>st_namespace := ns\<rparr>"

definition Statement_get_setname :: "Statement \<Rightarrow> string" where
  "Statement_get_setname s = st_set_name s"

definition Statement_set_setname :: "string \<Rightarrow> Statement \<Rightarrow> Statement" where
  "Statement_set_setname set_name s = s\<lparr>st_set_name := set_name\<rparr>"

end
