(* ===== verification/Recordsets.thy ===== *)
theory Recordsets
  imports Keys
begin

text \<open>
  Partition filters and record sets of \<^verbatim>\<open>src/lib.rs\<close>. A partition filter says which
  partitions a scan or query covers and remembers, per partition, the digest and sort value
  of the last record seen, so that a later scan with the same filter resumes after it. The
  PHP object and every record set opened with it share one filter
  (\<^verbatim>\<open>Arc<Mutex<proto::PartitionFilter>>\<close>): filters live in a store, and objects hold
  addresses. A stream is the list of the messages still to come.
\<close>

section \<open>Partition filters\<close>

text \<open>\<^verbatim>\<open>proto::PartitionStatus\<close> and \<^verbatim>\<open>proto::PartitionFilter\<close>.\<close>

record PartitionStatus =
  ps_bval :: "i64 option"
  ps_id :: u32
  ps_retry :: bool
  ps_digest :: bytes

record PartitionFilter =
  pf_begin :: u32
  pf_count :: u32
  pf_digest :: bytes
  pf_partitions :: "PartitionStatus list"
  pf_done :: bool
  pf_retry :: bool

definition PartitionStatus_construct :: "u32 \<Rightarrow> PartitionStatus" where
  "PartitionStatus_construct id' = \<lparr>ps_bval = None, ps_id = id', ps_retry = False, ps_digest = []\<rparr>"

definition PartitionStatus_get_bval :: "PartitionStatus \<Rightarrow> i64 option" where
  "PartitionStatus_get_bval ps = ps_bval ps"

definition PartitionStatus_get_partition_id :: "PartitionStatus \<Rightarrow> u32" where
  "PartitionStatus_get_partition_id ps = ps_id ps"

definition PartitionStatus_get_digest :: "PartitionStatus \<Rightarrow> bytes" where
  "PartitionStatus_get_digest ps = ps_digest ps"

definition PartitionStatus_get_retry :: "PartitionStatus \<Rightarrow> bool" where
  "PartitionStatus_get_retry ps = ps_retry ps"

definition PartitionFilter_range :: "u32 \<Rightarrow> u32 \<Rightarrow> PartitionFilter" where
  "PartitionFilter_range begin' count' =
     \<lparr>pf_begin = begin', pf_count = count', pf_digest = [], pf_partitions = [], pf_done = False,
      pf_retry = False\<rparr>"

definition PartitionFilter_partition :: "u32 \<Rightarrow> PartitionFilter" where
  "PartitionFilter_partition id' =
     \<lparr>pf_begin = id', pf_count = 1, pf_digest = [], pf_partitions = [], pf_done = False,
      pf_retry = False\<rparr>"

definition PartitionFilter_all :: PartitionFilter where
  "PartitionFilter_all =
     \<lparr>pf_begin = 0, pf_count = ucast PARTITIONS, pf_digest = [], pf_partitions = [], pf_done = False,
      pf_retry = False\<rparr>"

definition PartitionFilter_construct :: PartitionFilter where
  "PartitionFilter_construct = PartitionFilter_all"

definition PartitionFilter_get_partition_status :: "PartitionFilter \<Rightarrow> PartitionStatus list" where
  "PartitionFilter_get_partition_status pf = pf_partitions pf"

definition fresh_statuses :: "PartitionStatus list" where
  "fresh_statuses = map (\<lambda>id'. PartitionStatus_construct (word_of_nat id')) [0..<unat PARTITIONS]"

definition PartitionFilter_init_partition_status :: "PartitionFilter \<Rightarrow> PartitionFilter" where
  "PartitionFilter_init_partition_status pf =
     (if length (pf_partitions pf) > 0 then pf else pf\<lparr>pf_partitions := fresh_statuses\<rparr>)"

section \<open>Record sets\<close>

text \<open>\<^verbatim>\<open>proto::AerospikeStreamResponse\<close>; a stream item is the text of a status or a response.\<close>

record stream_response =
  sr_error :: "proto_Error option"
  sr_record :: "Record option"
  sr_bval :: "i64 option"

type_synonym stream_item = "string + stream_response"

type_synonym filters = "nat \<Rightarrow> PartitionFilter"

record Recordset =
  rs_stream :: "stream_item list option"
  rs_filter :: nat

definition Recordset_close :: "Recordset \<Rightarrow> Recordset" where
  "Recordset_close rs = rs\<lparr>rs_stream := None\<rparr>"

definition Recordset_get_active :: "Recordset \<Rightarrow> bool" where
  "Recordset_get_active rs \<longleftrightarrow> rs_stream rs \<noteq> None"

text \<open>\<^verbatim>\<open>BlockingClient::next_record\<close>: the next message of the stream, if any.\<close>
fun next_record :: "stream_item list \<Rightarrow> stream_item option \<times> stream_item list" where
  "next_record [] = (None, [])"
| "next_record (i # st) = (Some i, st)"

text \<open>
  The update of the filter: \<^verbatim>\<open>&mut p.partitions[pid - begin]\<close>, with the subtraction in
  64 bits (it wraps in a release build) and an index past the end panics.
\<close>

definition update_partition_filter ::
  "u64 \<Rightarrow> bytes option \<Rightarrow> i64 option \<Rightarrow> PartitionFilter \<Rightarrow> panic + PartitionFilter" where
  "update_partition_filter pid dgst bval p =
     (let i = unat (pid - ucast (pf_begin p)) in
      if i < length (pf_partitions p) then
        let ps = (pf_partitions p ! i)\<lparr>ps_bval := bval\<rparr>;
            ps = (case dgst of Some d \<Rightarrow> ps\<lparr>ps_digest := d\<rparr> | None \<Rightarrow> ps)
        in Inr (p\<lparr>pf_partitions := (pf_partitions p)[i := ps]\<rparr>)
      else Inl IndexOutOfBounds)"

definition Recordset_next ::
  "externs \<Rightarrow> Recordset \<Rightarrow> filters \<Rightarrow> (Record option \<times> Recordset \<times> filters) php" where
  "Recordset_next x rs h =
     (case rs_stream rs of
        None \<Rightarrow> ret (None, rs, h)
      | Some stream \<Rightarrow>
          (case next_record stream of
             (None, st) \<Rightarrow> ret (None, Recordset_close (rs\<lparr>rs_stream := Some st\<rparr>), h)
           | (Some (Inl pe), st) \<Rightarrow>
               bnd (throw_object (AerospikeException_new pe)) (\<lambda>_.
                 ret (None, rs\<lparr>rs_stream := Some st\<rparr>, h))
           | (Some (Inr resp), st) \<Rightarrow>
               (case (sr_record resp, sr_error resp) of
                  (Some r, _) \<Rightarrow>
                    (case rec_key r of
                       None \<Rightarrow> ret (None, rs\<lparr>rs_stream := Some st\<rparr>, h)
                     | Some k \<Rightarrow>
                         bnd (Key_partition_id x k) (\<lambda>pid.
                           case pid of
                             None \<Rightarrow> ret (Some r, rs\<lparr>rs_stream := Some st\<rparr>, h)
                           | Some pid \<Rightarrow>
                               bnd (lift_sum (update_partition_filter pid (digest k) (sr_bval resp)
                                     (h (rs_filter rs)))) (\<lambda>p.
                                 ret (Some r, rs\<lparr>rs_stream := Some st\<rparr>, h(rs_filter rs := p)))))
                | (None, Some pe) \<Rightarrow>
                    bnd (throw_object (AerospikeException_from_Error pe)) (\<lambda>_.
                      ret (None, rs\<lparr>rs_stream := Some st\<rparr>, h))
                | (None, None) \<Rightarrow> ret (None, rs\<lparr>rs_stream := Some st\<rparr>, h))))"

section \<open>Invariant of a filter in use\<close>

text \<open>The filter covers all partitions, entry \<open>i\<close> is the status of partition \<open>i\<close>.\<close>

definition filter_inv :: "PartitionFilter \<Rightarrow> bool" where
  "filter_inv p \<longleftrightarrow> pf_begin p = 0 \<and> map ps_id (pf_partitions p) = map word_of_nat [0..<4096]"

lemma PARTITIONS_nat [simp]: "unat PARTITIONS = 4096"
  by (simp add: PARTITIONS_def)

lemma filter_inv_length: "filter_inv p \<Longrightarrow> length (pf_partitions p) = 4096"
  by (drule arg_cong [of _ _ length, OF conjunct2 [OF filter_inv_def [THEN iffD1]]]) simp

lemma fresh_statuses_ids: "map ps_id fresh_statuses = map word_of_nat [0..<4096]"
  by (simp add: fresh_statuses_def PartitionStatus_construct_def comp_def)

lemma init_all_inv: "filter_inv (PartitionFilter_init_partition_status PartitionFilter_all)"
  by (simp add: filter_inv_def PartitionFilter_init_partition_status_def PartitionFilter_all_def
      fresh_statuses_ids)

lemma init_inv_idem: "filter_inv p \<Longrightarrow> PartitionFilter_init_partition_status p = p"
  by (simp add: PartitionFilter_init_partition_status_def filter_inv_length)

text \<open>What one record does to the filter.\<close>

definition mark :: "u64 \<Rightarrow> bytes option \<Rightarrow> i64 option \<Rightarrow> PartitionStatus \<Rightarrow> PartitionStatus" where
  "mark pid dgst bval ps =
     (if ps_id ps = ucast pid then
        ps\<lparr>ps_bval := bval, ps_digest := (case dgst of Some d \<Rightarrow> d | None \<Rightarrow> ps_digest ps)\<rparr>
      else ps)"

lemma word_of_nat_u32_inj: "i < 4096 \<Longrightarrow> j < 4096 \<Longrightarrow> (word_of_nat i :: u32) = word_of_nat j \<longleftrightarrow> i = j"
  by (auto simp: word_of_nat_eq_iff take_bit_nat_eq_self)

lemma filter_inv_nth:
  assumes "filter_inv p" and "i < 4096"
  shows "ps_id (pf_partitions p ! i) = word_of_nat i"
proof -
  have "map ps_id (pf_partitions p) ! i = map word_of_nat [0..<4096] ! i"
    using assms(1) by (simp add: filter_inv_def)
  then show ?thesis using assms by (simp add: filter_inv_length)
qed

lemma ucast_pid: "(ucast (pid :: u64) :: u32) = word_of_nat (unat pid)"
  by (simp add: unsigned_ucast_eq unsigned_def)

lemma mark_id [simp]: "ps_id (mark pid d b ps) = ps_id ps"
  by (simp add: mark_def)

lemma filter_inv_mark:
  "filter_inv p \<Longrightarrow> filter_inv (p\<lparr>pf_partitions := map (mark pid d b) (pf_partitions p)\<rparr>)"
  by (simp add: filter_inv_def comp_def)

lemma mark_statuses:
  assumes ids: "map ps_id pss = map word_of_nat [0..<4096]" and pid: "unat pid < 4096"
  shows "pss[unat pid := (case d of Some dg \<Rightarrow> (pss ! unat pid)\<lparr>ps_bval := b, ps_digest := dg\<rparr>
      | None \<Rightarrow> (pss ! unat pid)\<lparr>ps_bval := b\<rparr>)] = map (mark pid d b) pss"
proof (rule nth_equalityI)
  have len: "length pss = 4096" using arg_cong [OF ids, of length] by simp
  fix j assume "j < length (pss[unat pid := (case d of Some dg \<Rightarrow> (pss ! unat pid)\<lparr>ps_bval := b, ps_digest := dg\<rparr>
      | None \<Rightarrow> (pss ! unat pid)\<lparr>ps_bval := b\<rparr>)])"
  then have j: "j < 4096" using len by simp
  have "ps_id (pss ! j) = word_of_nat j"
    using arg_cong [OF ids, of "\<lambda>l. l ! j"] j len by simp
  then have "ps_id (pss ! j) = ucast pid \<longleftrightarrow> j = unat pid"
    by (simp only: ucast_pid word_of_nat_u32_inj [OF j pid])
  then show "pss[unat pid := (case d of Some dg \<Rightarrow> (pss ! unat pid)\<lparr>ps_bval := b, ps_digest := dg\<rparr>
      | None \<Rightarrow> (pss ! unat pid)\<lparr>ps_bval := b\<rparr>)] ! j = map (mark pid d b) pss ! j"
    using j len by (auto simp: nth_list_update mark_def split: option.splits)
qed simp

lemma update_marks:
  assumes "filter_inv p" and "unat pid < 4096"
  shows "update_partition_filter pid d b p = Inr (p\<lparr>pf_partitions := map (mark pid d b) (pf_partitions p)\<rparr>)"
proof -
  have b: "pf_begin p = 0" and ids: "map ps_id (pf_partitions p) = map word_of_nat [0..<4096]"
    using assms(1) by (auto simp: filter_inv_def)
  show ?thesis
    using mark_statuses [OF ids assms(2), where d = d and b = b] assms
    by (auto simp: update_partition_filter_def Let_def b filter_inv_length split: option.splits)
qed

lemma partition_id_bound: "outcome (Key_partition_id x k) = Inr (Some pid) \<Longrightarrow> unat pid < 4096"
  using partition_mask_bound
  by (auto simp: Key_partition_id_def outcome_bnd split: sum.splits list.splits)

lemma Recordset_next_record:
  assumes "rs_stream rs = Some (Inr resp # st)" and "sr_record resp = Some r" and "rec_key r = Some k"
    and "Key_partition_id x k = ret (Some pid)" and "filter_inv (h (rs_filter rs))"
  shows "Recordset_next x rs h = ret (Some r, rs\<lparr>rs_stream := Some st\<rparr>,
    h(rs_filter rs := (h (rs_filter rs))\<lparr>pf_partitions :=
      map (mark pid (digest k) (sr_bval resp)) (pf_partitions (h (rs_filter rs)))\<rparr>))"
proof -
  have "unat pid < 4096" using assms(4) by (intro partition_id_bound [of x k]) simp
  then show ?thesis using assms by (simp add: Recordset_next_def update_marks)
qed

section \<open>Reading a record set to its end\<close>

text \<open>
  \<^verbatim>\<open>while ($r = $rs->next()) ...\<close>: the records until \<^verbatim>\<open>next\<close> returns nothing; the
  number bounds the calls.
\<close>

fun drain :: "nat \<Rightarrow> externs \<Rightarrow> Recordset \<Rightarrow> filters \<Rightarrow> (Record list \<times> Recordset \<times> filters) php" where
  "drain 0 x rs h = ret ([], rs, h)"
| "drain (Suc n) x rs h =
     bnd (Recordset_next x rs h) (\<lambda>(r, rs', h').
       case r of
         None \<Rightarrow> ret ([], rs', h')
       | Some r \<Rightarrow> bnd (drain n x rs' h') (\<lambda>(rest, rs'', h''). ret (r # rest, rs'', h'')))"

text \<open>A message with a record whose key has a digest and a partition.\<close>

record message =
  msg_record :: Record
  msg_digest :: bytes
  msg_pid :: u64
  msg_bval :: "i64 option"

definition message_ok :: "externs \<Rightarrow> message \<Rightarrow> bool" where
  "message_ok x m \<longleftrightarrow>
     (case rec_key (msg_record m) of
        None \<Rightarrow> False
      | Some k \<Rightarrow> digest k = Some (msg_digest m) \<and> Key_partition_id x k = ret (Some (msg_pid m)))"

definition item_of :: "message \<Rightarrow> stream_item" where
  "item_of m = Inr \<lparr>sr_error = None, sr_record = Some (msg_record m), sr_bval = msg_bval m\<rparr>"

definition mark_message :: "message \<Rightarrow> PartitionStatus \<Rightarrow> PartitionStatus" where
  "mark_message m = mark (msg_pid m) (Some (msg_digest m)) (msg_bval m)"

lemma drain_messages:
  assumes "list_all (message_ok x) ms" and "length ms < n" and "filter_inv (h a)"
  shows "drain n x \<lparr>rs_stream = Some (map item_of ms), rs_filter = a\<rparr> h =
    ret (map msg_record ms, \<lparr>rs_stream = None, rs_filter = a\<rparr>,
      h(a := (h a)\<lparr>pf_partitions := map (fold mark_message ms) (pf_partitions (h a))\<rparr>))"
  using assms
proof (induction ms arbitrary: n h)
  case Nil
  then obtain n' where "n = Suc n'" by (cases n) auto
  then show ?case
    by (simp add: Recordset_next_def Recordset_close_def id_def fun_upd_idem)
next
  case (Cons m ms)
  then obtain n' where n: "n = Suc n'" "length ms < n'" by (cases n) auto
  obtain k where k: "rec_key (msg_record m) = Some k" "digest k = Some (msg_digest m)"
      "Key_partition_id x k = ret (Some (msg_pid m))"
    using Cons.prems(1) by (auto simp: message_ok_def split: option.splits)
  let ?h = "h(a := (h a)\<lparr>pf_partitions := map (mark_message m) (pf_partitions (h a))\<rparr>)"
  have next': "Recordset_next x \<lparr>rs_stream = Some (map item_of (m # ms)), rs_filter = a\<rparr> h =
      ret (Some (msg_record m), \<lparr>rs_stream = Some (map item_of ms), rs_filter = a\<rparr>, ?h)"
    by (subst Recordset_next_record [where r = "msg_record m" and k = k and pid = "msg_pid m"
          and resp = "\<lparr>sr_error = None, sr_record = Some (msg_record m), sr_bval = msg_bval m\<rparr>"
          and st = "map item_of ms"])
      (use k Cons.prems in \<open>simp_all add: item_of_def mark_message_def\<close>)
  have inv: "filter_inv (?h a)"
    using filter_inv_mark [OF Cons.prems(3)] by (simp add: mark_message_def)
  have "drain n' x \<lparr>rs_stream = Some (map item_of ms), rs_filter = a\<rparr> ?h =
    ret (map msg_record ms, \<lparr>rs_stream = None, rs_filter = a\<rparr>,
      ?h(a := (?h a)\<lparr>pf_partitions := map (fold mark_message ms) (pf_partitions (?h a))\<rparr>))"
    by (rule Cons.IH) (use Cons.prems(1) n inv in auto)
  then show ?case using next' n by (simp add: comp_def) (simp add: fun_upd_def)
qed

lemma mark_message_simps [simp]:
  "ps_id (mark_message m ps) = ps_id ps"
  "ps_digest (mark_message m ps) = (if ucast (msg_pid m) = ps_id ps then msg_digest m else ps_digest ps)"
  by (auto simp: mark_message_def mark_def)

lemma fold_mark_id [simp]: "ps_id (fold mark_message ms ps) = ps_id ps"
  by (induction ms arbitrary: ps) simp_all

lemma fold_mark_digest:
  "ps_digest (fold mark_message ms ps) =
     (case filter (\<lambda>m. ucast (msg_pid m) = ps_id ps) ms of
        [] \<Rightarrow> ps_digest ps | m # rest \<Rightarrow> msg_digest (last (m # rest)))"
  by (induction ms arbitrary: ps) (auto split: list.splits)

section \<open>A record set as a state machine\<close>

text \<open>The calls PHP can make on a record set that return: \<^verbatim>\<open>next\<close> and \<^verbatim>\<open>close\<close>.\<close>

inductive rs_step :: "externs \<Rightarrow> Recordset \<times> filters \<Rightarrow> Recordset \<times> filters \<Rightarrow> bool" for x where
  step_next: "outcome (Recordset_next x rs h) = Inr (r, rs', h') \<Longrightarrow> rs_step x (rs, h) (rs', h')"
| step_close: "rs_step x (rs, h) (Recordset_close rs, h)"

inductive_cases rs_stepE: "rs_step x s s'"

inductive rs_reach :: "externs \<Rightarrow> Recordset \<times> filters \<Rightarrow> Recordset \<times> filters \<Rightarrow> bool" for x s0 where
  reach_start: "rs_reach x s0 s0"
| reach_step: "rs_reach x s0 s \<Longrightarrow> rs_step x s s' \<Longrightarrow> rs_reach x s0 s'"

text \<open>What is left of the stream, nothing once the record set is closed.\<close>
definition remaining :: "Recordset \<Rightarrow> stream_item list" where
  "remaining rs = (case rs_stream rs of None \<Rightarrow> [] | Some st \<Rightarrow> st)"

lemma next_cases:
  assumes res: "outcome (Recordset_next x rs h) = Inr (r, rs', h')" and st: "rs_stream rs = Some (i # st)"
  shows "rs' = rs\<lparr>rs_stream := Some st\<rparr> \<and>
    (h' = h \<or> (\<exists>k pid d b p. outcome (Key_partition_id x k) = Inr (Some pid) \<and>
      update_partition_filter pid d b (h (rs_filter rs)) = Inr p \<and> h' = h(rs_filter rs := p)))"
proof (cases i)
  case (Inl pe)
  then show ?thesis using res st by (simp add: Recordset_next_def)
next
  case (Inr resp)
  show ?thesis
  proof (cases "sr_record resp")
    case None
    then show ?thesis using Inr res st by (cases "sr_error resp") (simp_all add: Recordset_next_def)
  next
    case (Some rec)
    show ?thesis
    proof (cases "rec_key rec")
      case None
      then show ?thesis using Inr Some res st by (simp add: Recordset_next_def)
    next
      case (Some k)
      with Inr \<open>sr_record resp = Some rec\<close> res st
      obtain po where po: "outcome (Key_partition_id x k) = Inr po"
        by (auto simp: Recordset_next_def outcome_bnd_Inr)
      then show ?thesis
        using Inr \<open>sr_record resp = Some rec\<close> Some res st
        by (cases po) (auto simp: Recordset_next_def outcome_bnd split: sum.splits, blast)
    qed
  qed
qed

lemma next_effect:
  assumes "outcome (Recordset_next x rs h) = Inr (r, rs', h')" and "filter_inv (h (rs_filter rs))"
  shows "rs_filter rs' = rs_filter rs \<and> filter_inv (h' (rs_filter rs)) \<and>
    (\<forall>b. b \<noteq> rs_filter rs \<longrightarrow> h' b = h b) \<and> (\<exists>used. remaining rs = used @ remaining rs') \<and>
    (rs_stream rs = None \<longrightarrow> rs_stream rs' = None)"
proof (cases "rs_stream rs")
  case None
  then show ?thesis using assms by (auto simp: Recordset_next_def remaining_def)
next
  case (Some stream)
  show ?thesis
  proof (cases stream)
    case Nil
    then show ?thesis using assms Some
      by (auto simp: Recordset_next_def remaining_def Recordset_close_def)
  next
    case (Cons i st)
    have st: "\<exists>used. i # st = used @ st" by (rule exI [of _ "[i]"]) simp
    have rs': "rs' = rs\<lparr>rs_stream := Some st\<rparr>" and h': "h' = h \<or> (\<exists>k pid d b p.
        outcome (Key_partition_id x k) = Inr (Some pid) \<and>
        update_partition_filter pid d b (h (rs_filter rs)) = Inr p \<and> h' = h(rs_filter rs := p))"
      using next_cases [OF assms(1)] Some Cons by auto
    have "filter_inv (h' (rs_filter rs)) \<and> (\<forall>b. b \<noteq> rs_filter rs \<longrightarrow> h' b = h b)"
      using h'
    proof (elim disjE exE conjE)
      fix k pid d b p
      assume k: "outcome (Key_partition_id x k) = Inr (Some pid)"
        and p: "update_partition_filter pid d b (h (rs_filter rs)) = Inr p" "h' = h(rs_filter rs := p)"
      show ?thesis
        using update_marks [OF assms(2) partition_id_bound [OF k], of d b] filter_inv_mark [OF assms(2)] p
        by auto
    qed (use assms(2) in simp)
    then show ?thesis using rs' Some Cons st by (simp add: remaining_def)
  qed
qed

lemma reach_invariant:
  assumes "rs_reach x (rs0, h0) (rs, h)" and "filter_inv (h0 (rs_filter rs0))"
  shows "rs_filter rs = rs_filter rs0 \<and> filter_inv (h (rs_filter rs0)) \<and>
    (\<forall>b. b \<noteq> rs_filter rs0 \<longrightarrow> h b = h0 b) \<and> (\<exists>used. remaining rs0 = used @ remaining rs) \<and>
    (rs_stream rs0 = None \<longrightarrow> rs_stream rs = None)"
  using assms(1)
proof (induction "(rs, h)" arbitrary: rs h rule: rs_reach.induct)
  case reach_start
  then show ?case using assms(2) by auto
next
  case (reach_step s rs h)
  obtain rs1 h1 where s: "s = (rs1, h1)" by (cases s)
  note IH = reach_step(2) [OF s]
  from reach_step(3) s consider r where "outcome (Recordset_next x rs1 h1) = Inr (r, rs, h)"
    | "rs = Recordset_close rs1" "h = h1"
    by (auto elim: rs_stepE)
  then show ?case
  proof cases
    case 1
    from next_effect [OF this] IH show ?thesis by auto
  next
    case 2
    with IH show ?thesis by (auto simp: Recordset_close_def remaining_def)
  qed
qed

section \<open>Calls of next\<close>

text \<open>A number of calls of \<^verbatim>\<open>next\<close>, with their results.\<close>
fun next_calls :: "nat \<Rightarrow> externs \<Rightarrow> Recordset \<Rightarrow> filters \<Rightarrow> (Record option list \<times> Recordset \<times> filters) php" where
  "next_calls 0 x rs h = ret ([], rs, h)"
| "next_calls (Suc n) x rs h =
     bnd (Recordset_next x rs h) (\<lambda>(r, rs', h').
       bnd (next_calls n x rs' h') (\<lambda>(rest, rs'', h''). ret (r # rest, rs'', h'')))"

text \<open>The record that a message delivers: one with a key.\<close>
definition delivers :: "stream_item \<Rightarrow> Record option" where
  "delivers i =
     (case i of
        Inl _ \<Rightarrow> None
      | Inr resp \<Rightarrow>
          (case sr_record resp of
             None \<Rightarrow> None
           | Some r \<Rightarrow> (case rec_key r of None \<Rightarrow> None | Some _ \<Rightarrow> Some r)))"

text \<open>The partition of a delivered record can be computed.\<close>
definition located :: "externs \<Rightarrow> stream_item \<Rightarrow> bool" where
  "located x i \<longleftrightarrow>
     (\<forall>r k. delivers i = Some r \<longrightarrow> rec_key r = Some k \<longrightarrow> runs (Key_partition_id x k))"

text \<open>One call consumes one message and returns its record.\<close>
lemma next_delivers:
  assumes st: "rs_stream rs = Some (i # st)" and loc: "located x i" and inv: "filter_inv (h (rs_filter rs))"
  shows "\<exists>h'. outcome (Recordset_next x rs h) = Inr (delivers i, rs\<lparr>rs_stream := Some st\<rparr>, h')"
proof (cases "delivers i")
  case None
  then show ?thesis
    using st by (auto simp: Recordset_next_def delivers_def split: sum.splits option.splits)
next
  case (Some r)
  then obtain resp k where resp: "i = Inr resp" "sr_record resp = Some r" "rec_key r = Some k"
    by (auto simp: delivers_def split: sum.splits option.splits)
  then obtain po where po: "outcome (Key_partition_id x k) = Inr po"
    using loc Some by (auto simp: located_def runs_def)
  show ?thesis
  proof (cases po)
    case None
    then show ?thesis using st Some resp po by (simp add: Recordset_next_def outcome_bnd)
  next
    case (Some pid)
    with po have "unat pid < 4096" by (intro partition_id_bound [of x k]) simp
    with update_marks [OF inv] show ?thesis
      using st \<open>delivers i = Some r\<close> resp po Some by (simp add: Recordset_next_def outcome_bnd)
  qed
qed

lemma next_calls_all:
  assumes "rs_stream rs = Some st" and "list_all (located x) st" and "filter_inv (h (rs_filter rs))"
  shows "\<exists>h'. outcome (next_calls (Suc (length st)) x rs h) =
    Inr (map delivers st @ [None], Recordset_close rs, h') \<and> filter_inv (h' (rs_filter rs))"
  using assms
proof (induction st arbitrary: rs h)
  case Nil
  then show ?case by (simp add: Recordset_next_def Recordset_close_def)
next
  case (Cons i st)
  obtain h1 where h1: "outcome (Recordset_next x rs h) = Inr (delivers i, rs\<lparr>rs_stream := Some st\<rparr>, h1)"
    using next_delivers [of rs i st x h] Cons.prems by auto
  have "filter_inv (h1 (rs_filter rs))" using next_effect [OF h1 Cons.prems(3)] by blast
  then obtain h2 where "outcome (next_calls (Suc (length st)) x (rs\<lparr>rs_stream := Some st\<rparr>) h1) =
      Inr (map delivers st @ [None], Recordset_close (rs\<lparr>rs_stream := Some st\<rparr>), h2)" "filter_inv (h2 (rs_filter rs))"
    using Cons.IH [of "rs\<lparr>rs_stream := Some st\<rparr>" h1] Cons.prems(2) by auto
  with h1 show ?case
    by (simp add: outcome_bnd Recordset_close_def del: next_calls.simps(2))
       (simp add: outcome_bnd)
qed

lemma next_shrinks:
  assumes "outcome (Recordset_next x rs h) = Inr (r, rs', h')" and "Recordset_get_active rs'"
  shows "length (remaining rs') < length (remaining rs)"
proof (cases "rs_stream rs")
  case None
  then show ?thesis using assms by (auto simp: Recordset_next_def Recordset_get_active_def)
next
  case (Some st)
  show ?thesis
  proof (cases st)
    case Nil
    then show ?thesis
      using assms Some by (auto simp: Recordset_next_def Recordset_get_active_def Recordset_close_def)
  next
    case (Cons i st')
    then show ?thesis using next_cases [OF assms(1)] Some by (simp add: remaining_def)
  qed
qed

section \<open>Properties\<close>

text \<open>Reading a scan of all partitions to its end returns the records of the stream in
  order, throws nothing, closes the record set, leaves every other filter alone, and leaves
  in the shared filter, for every partition, the digest of the last record of that
  partition in the stream, or the digest that was there if the stream had none.\<close>

lemma drained_recordset_records_progress:
  assumes "list_all (message_ok x) ms" and "length ms < n" and "filter_inv (h a)"
  shows "\<exists>p. drain n x \<lparr>rs_stream = Some (map item_of ms), rs_filter = a\<rparr> h =
      ret (map msg_record ms, \<lparr>rs_stream = None, rs_filter = a\<rparr>, h(a := p)) \<and> filter_inv p \<and>
    (\<forall>i<4096. ps_digest (pf_partitions p ! i) =
      (case filter (\<lambda>m. (ucast (msg_pid m) :: u32) = word_of_nat i) ms of
         [] \<Rightarrow> ps_digest (pf_partitions (h a) ! i) | m # rest \<Rightarrow> msg_digest (last (m # rest))))"
proof (intro exI conjI)
  let ?p = "(h a)\<lparr>pf_partitions := map (fold mark_message ms) (pf_partitions (h a))\<rparr>"
  show "drain n x \<lparr>rs_stream = Some (map item_of ms), rs_filter = a\<rparr> h =
      ret (map msg_record ms, \<lparr>rs_stream = None, rs_filter = a\<rparr>, h(a := ?p))"
    using drain_messages [of x ms n h a] assms by blast
  show "filter_inv ?p" using assms(3) by (simp add: filter_inv_def comp_def)
  show "\<forall>i<4096. ps_digest (pf_partitions ?p ! i) =
      (case filter (\<lambda>m. (ucast (msg_pid m) :: u32) = word_of_nat i) ms of
         [] \<Rightarrow> ps_digest (pf_partitions (h a) ! i) | m # rest \<Rightarrow> msg_digest (last (m # rest)))"
    using filter_inv_length [OF assms(3)] filter_inv_nth [OF assms(3)] by (simp add: fold_mark_digest)
qed

definition sample_key :: Key where
  "sample_key = \<lparr>digest = Some [5, 0, 9, 9], namespace = Some ''test'', setname = Some ''s'',
     key_value = Some (V_Nil True)\<rparr>"

definition sample_message :: message where
  "sample_message = \<lparr>msg_record = \<lparr>rec_key = Some sample_key, rec_generation = 1, rec_expiration = 0,
     rec_bins = []\<rparr>, msg_digest = [5, 0, 9, 9], msg_pid = 5, msg_bval = None\<rparr>"

lemma sample_message_ok: "message_ok externs0 sample_message"
  by (simp add: message_ok_def sample_message_def sample_key_def Key_partition_id_def
      Key_get_digest_bytes_def Key_compute_digest_def partition_mask_bits)

theorem drained_recordset_records_progress_witness:
  "let h = (\<lambda>_. PartitionFilter_init_partition_status PartitionFilter_all) in
   \<exists>p. drain 2 externs0 \<lparr>rs_stream = Some [item_of sample_message], rs_filter = 0\<rparr> h =
      ret ([msg_record sample_message], \<lparr>rs_stream = None, rs_filter = 0\<rparr>, h(0 := p)) \<and>
     ps_digest (pf_partitions p ! 5) = [5, 0, 9, 9]"
  using drained_recordset_records_progress
    [of externs0 "[sample_message]" 2 "\<lambda>_. PartitionFilter_init_partition_status PartitionFilter_all" 0]
    sample_message_ok init_all_inv
  by (auto simp: Let_def sample_message_def)

text \<open>C14. Whatever calls PHP makes on a record set over all partitions, in any order: the shared
  filter keeps one status per partition in order, other filters are not touched, what is
  left of the stream is always an end part of it, and a closed record set stays closed.\<close>

theorem recordset_reachable_invariant:
  assumes "rs_reach x (rs0, h0) (rs, h)" and "filter_inv (h0 (rs_filter rs0))"
  shows "filter_inv (h (rs_filter rs0)) \<and> rs_filter rs = rs_filter rs0 \<and>
    (\<forall>b. b \<noteq> rs_filter rs0 \<longrightarrow> h b = h0 b) \<and> (\<exists>used. remaining rs0 = used @ remaining rs) \<and>
    (\<not> Recordset_get_active rs0 \<longrightarrow> \<not> Recordset_get_active rs)"
  using reach_invariant [OF assms] by (auto simp: Recordset_get_active_def)

theorem recordset_reachable_invariant_witness:
  "let h = (\<lambda>_. PartitionFilter_init_partition_status PartitionFilter_all);
       rs = \<lparr>rs_stream = Some [Inl ''lost''], rs_filter = 3\<rparr> in
   rs_reach externs0 (rs, h) (rs\<lparr>rs_stream := None\<rparr>, h) \<and> filter_inv (h 3)"
proof -
  let ?h = "\<lambda>_. PartitionFilter_init_partition_status PartitionFilter_all"
  let ?rs = "\<lparr>rs_stream = Some [Inl ''lost''], rs_filter = 3\<rparr> :: Recordset"
  have "rs_step externs0 (?rs, ?h) (Recordset_close ?rs, ?h)" by (rule step_close)
  then have r: "rs_reach externs0 (?rs, ?h) (?rs\<lparr>rs_stream := None\<rparr>, ?h)"
    using reach_step [OF reach_start] by (fastforce simp: Recordset_close_def)
  show ?thesis
    using recordset_reachable_invariant [OF r] r init_all_inv by (simp add: Let_def)
qed

text \<open>With a filter that starts at partition \<open>b\<close>, the progress of partition \<open>pid\<close> is
  recorded in the status of partition \<open>pid - b\<close>: the statuses always start at partition 0,
  but the index is taken relative to the start. A partition before the start panics.\<close>

lemma range_filter_marks_wrong_partition:
  assumes "unat pid < 4096"
  shows "update_partition_filter pid d bv (PartitionFilter_init_partition_status (PartitionFilter_range b c)) =
    (if unat pid < unat b then Inl IndexOutOfBounds
     else Inr ((PartitionFilter_range b c)\<lparr>pf_partitions :=
       map (mark (pid - ucast b) d bv) fresh_statuses\<rparr>))"
proof -
  let ?p = "PartitionFilter_init_partition_status (PartitionFilter_range b c)"
  have p: "?p = (PartitionFilter_range b c)\<lparr>pf_partitions := fresh_statuses\<rparr>"
      "pf_begin (PartitionFilter_range b c) = b"
    by (simp_all add: PartitionFilter_init_partition_status_def PartitionFilter_range_def)
  have len: "length fresh_statuses = 4096" by (simp add: fresh_statuses_def)
  have ub: "unat (ucast b :: u64) = unat b" by (simp add: unsigned_ucast_eq take_bit_nat_eq_self unsigned_less [THEN less_trans])
  show ?thesis
  proof (cases "unat pid < unat b")
    case True
    have lt: "pid < ucast b" using True ub by (simp add: word_less_nat_alt)
    then have "unat (pid - ucast b) = 2 ^ 64 + unat pid - unat b"
      using unat_sub_if' [of pid "ucast b"] ub True by (simp add: word_le_nat_alt)
    then have "4096 \<le> unat (pid - ucast b)"
      using unsigned_less [of b, where ?'a = nat] by simp
    then show ?thesis using True by (simp add: update_partition_filter_def p Let_def len)
  next
    case False
    then have "unat (pid - ucast b) = unat pid - unat b"
      using unat_sub [of "ucast b" pid] ub by (simp add: word_le_nat_alt)
    then have lt: "unat (pid - ucast b) < 4096" using assms by simp
    show ?thesis
      using mark_statuses [OF fresh_statuses_ids lt, where d = d and b = bv] False lt
      by (auto simp: update_partition_filter_def p Let_def len split: option.splits)
  qed
qed

theorem range_filter_marks_wrong_partition_witness:
  "update_partition_filter 3 None None (PartitionFilter_init_partition_status (PartitionFilter_range 10 5)) =
     Inl IndexOutOfBounds"
  using range_filter_marks_wrong_partition [of 3 None None 10 5] by simp

text \<open>C10. A record set over all partitions delivers everything and ends. Its filter covers all 4096
  partitions (after a filter of a range, \<^verbatim>\<open>next\<close> can panic), its stream holds records, errors
  and records without a key in any order, and the partition of every record with a key can be
  computed. Then as many calls of \<^verbatim>\<open>next\<close> as there are messages return each record of the stream
  in its place and nothing for every other message, and the next call closes the record set.\<close>
theorem recordset_delivers_and_closes:
  assumes "rs_stream rs = Some st" and "list_all (located x) st" and "filter_inv (h (rs_filter rs))"
  shows "\<exists>rs' h'. outcome (next_calls (Suc (length st)) x rs h) = Inr (map delivers st @ [None], rs', h') \<and>
    \<not> Recordset_get_active rs' \<and> filter_inv (h' (rs_filter rs'))"
  using next_calls_all [of rs st x h] assms
  by (auto simp: Recordset_get_active_def Recordset_close_def simp del: next_calls.simps)

theorem recordset_delivers_and_closes_witness:
  "let h = (\<lambda>_. PartitionFilter_init_partition_status PartitionFilter_all);
       rs = \<lparr>rs_stream = Some [Inl ''lost'', item_of sample_message], rs_filter = 0\<rparr> in
   \<exists>rs' h'. outcome (next_calls 3 externs0 rs h) =
       Inr ([None, Some (msg_record sample_message), None], rs', h') \<and> \<not> Recordset_get_active rs'"
proof -
  let ?h = "\<lambda>_. PartitionFilter_init_partition_status PartitionFilter_all"
  let ?rs = "\<lparr>rs_stream = Some [Inl ''lost'', item_of sample_message], rs_filter = 0\<rparr> :: Recordset"
  have loc: "list_all (located externs0) [Inl ''lost'', item_of sample_message]"
    using sample_message_ok
    by (auto simp: located_def delivers_def item_of_def message_ok_def split: option.splits)
  have del: "map delivers [Inl ''lost'', item_of sample_message] = [None, Some (msg_record sample_message)]"
    by (simp add: delivers_def item_of_def sample_message_def)
  show ?thesis
    using recordset_delivers_and_closes [of ?rs, OF _ loc, of ?h] init_all_inv del
    by (auto simp: Let_def numeral_3_eq_3 simp del: next_calls.simps)
qed

text \<open>C20. Reading a record set terminates: there is no endless sequence of calls of \<^verbatim>\<open>next\<close> that
  all leave it active, whatever the stream holds.\<close>
theorem no_endless_reading:
  "\<not> (\<exists>f. \<forall>n. Recordset_get_active (fst (f n)) \<and>
     (\<exists>r. outcome (Recordset_next x (fst (f n)) (snd (f n))) = Inr (r, f (Suc n))))"
proof
  assume "\<exists>f. \<forall>n. Recordset_get_active (fst (f n)) \<and>
     (\<exists>r. outcome (Recordset_next x (fst (f n)) (snd (f n))) = Inr (r, f (Suc n)))"
  then obtain f where f: "\<And>n. Recordset_get_active (fst (f n))"
    "\<And>n. \<exists>r. outcome (Recordset_next x (fst (f n)) (snd (f n))) = Inr (r, f (Suc n))" by blast
  have "length (remaining (fst (f (Suc n)))) < length (remaining (fst (f n)))" for n
    using f(2) [of n] next_shrinks [of x "fst (f n)" "snd (f n)" _ "fst (f (Suc n))" "snd (f (Suc n))"]
      f(1) [of "Suc n"] by (metis prod.collapse)
  then have "\<forall>n. (f (Suc n), f n) \<in> measure (\<lambda>s. length (remaining (fst s)))" by simp
  then show False using wf_measure wf_iff_no_infinite_down_chain by blast
qed

end
