(* ===== verification/Client.thy ===== *)
theory Client
  imports Batch Queries Recordsets
begin

text \<open>
  The class \<^verbatim>\<open>Client\<close> of \<^verbatim>\<open>src/lib.rs\<close> and the blocking wrapper of
  \<^verbatim>\<open>src/grpc.rs\<close>: every command builds one request, sends it to the connection manager
  and turns the response into a return value and thrown exceptions. The generated gRPC stub
  and the manager behind it are a parameter: a record of functions, one for each type of
  response, from a request and a world to the text of a failed status or the response, and
  the next world.
\<close>

section \<open>Administration data\<close>

record UdfMeta =
  um_package_name :: string
  um_hash :: string
  um_language :: i32

definition UdfMeta_get_package_name :: "UdfMeta \<Rightarrow> string" where
  "UdfMeta_get_package_name m = um_package_name m"

definition UdfMeta_get_hash :: "UdfMeta \<Rightarrow> string" where
  "UdfMeta_get_hash m = um_hash m"

definition UdfMeta_get_language :: "UdfMeta \<Rightarrow> panic + UdfLanguage" where
  "UdfMeta_get_language m = UdfLanguage_from_i32 (um_language m)"

record UserRole =
  ur_user :: string
  ur_roles :: "string list"
  ur_read_info :: "u64 list"
  ur_write_info :: "u64 list"
  ur_conns_in_use :: u64

definition UserRole_get_user :: "UserRole \<Rightarrow> string" where
  "UserRole_get_user u = ur_user u"

definition UserRole_get_roles :: "UserRole \<Rightarrow> string list" where
  "UserRole_get_roles u = ur_roles u"

definition UserRole_get_read_info :: "UserRole \<Rightarrow> u64 list" where
  "UserRole_get_read_info u = ur_read_info u"

definition UserRole_get_write_info :: "UserRole \<Rightarrow> u64 list" where
  "UserRole_get_write_info u = ur_write_info u"

definition UserRole_get_conns_in_use :: "UserRole \<Rightarrow> u64" where
  "UserRole_get_conns_in_use u = ur_conns_in_use u"

record Privilege =
  priv_name :: string
  priv_namespace :: string
  priv_set_name :: string

definition Privilege_get_name :: "Privilege \<Rightarrow> string" where
  "Privilege_get_name p = priv_name p"

definition Privilege_get_namespace :: "Privilege \<Rightarrow> string" where
  "Privilege_get_namespace p = priv_namespace p"

definition Privilege_get_setname :: "Privilege \<Rightarrow> string" where
  "Privilege_get_setname p = priv_set_name p"

text \<open>The names of the privileges.\<close>

definition Privilege_user_admin :: string where
  "Privilege_user_admin = ''user-admin''"

definition Privilege_sys_admin :: string where
  "Privilege_sys_admin = ''sys-admin''"

definition Privilege_data_admin :: string where
  "Privilege_data_admin = ''data-admin''"

definition Privilege_udf_admin :: string where
  "Privilege_udf_admin = ''udf-admin''"

definition Privilege_sindex_admin :: string where
  "Privilege_sindex_admin = ''sindex-admin''"

definition Privilege_read_write_udf :: string where
  "Privilege_read_write_udf = ''read-write-udf''"

definition Privilege_read_write :: string where
  "Privilege_read_write = ''read-write''"

definition Privilege_read :: string where
  "Privilege_read = ''read''"

definition Privilege_write :: string where
  "Privilege_write = ''write''"

definition Privilege_truncate :: string where
  "Privilege_truncate = ''truncate''"

record Role =
  role_name :: string
  role_privileges :: "Privilege list"
  role_allowlist :: "string list"
  role_read_quota :: u32
  role_write_quota :: u32

definition Role_get_name :: "Role \<Rightarrow> string" where
  "Role_get_name r = role_name r"

definition Role_get_privileges :: "Role \<Rightarrow> Privilege list" where
  "Role_get_privileges r = role_privileges r"

definition Role_get_allowlist :: "Role \<Rightarrow> string list" where
  "Role_get_allowlist r = role_allowlist r"

definition Role_get_read_quota :: "Role \<Rightarrow> u64" where
  "Role_get_read_quota r = ucast (role_read_quota r)"

definition Role_write_quota :: "Role \<Rightarrow> u64" where
  "Role_write_quota r = ucast (role_write_quota r)"

section \<open>Requests and responses\<close>

text \<open>
  The request messages of \<^verbatim>\<open>asld_kvs.proto\<close>; the fields that the client always sets are
  arguments.
\<close>

datatype (plugins only: code) 'cdt request =
    R_put WritePolicy Key "Bin list"
  | R_add WritePolicy Key "Bin list"
  | R_append WritePolicy Key "Bin list"
  | R_prepend WritePolicy Key "Bin list"
  | R_touch WritePolicy Key
  | R_get ReadPolicy Key "string list"
  | R_get_header ReadPolicy Key
  | R_delete WritePolicy Key
  | R_exists ReadPolicy Key
  | R_batch_operate BatchPolicy "'cdt BatchOperate list"
  | R_truncate InfoPolicy string string "i64 option"
  | R_scan ScanPolicy string string "string list" PartitionFilter
  | R_query QueryPolicy PartitionFilter Statement
  | R_create_index WritePolicy string string string string i32 i32 "CDTContext list"
  | R_drop_index WritePolicy string string string
  | R_register_udf WritePolicy bytes string i32
  | R_drop_udf WritePolicy string
  | R_list_udf ReadPolicy
  | R_udf_execute WritePolicy Key string string "proto_Value list"
  | R_create_user AdminPolicy string string "string list"
  | R_drop_user AdminPolicy string
  | R_change_password AdminPolicy string string
  | R_grant_roles AdminPolicy string "string list"
  | R_revoke_roles AdminPolicy string "string list"
  | R_query_users AdminPolicy "string option"
  | R_query_roles AdminPolicy "string option"
  | R_create_role AdminPolicy string "Privilege list" "string list" u32 u32
  | R_drop_role AdminPolicy string
  | R_grant_privileges AdminPolicy string "Privilege list"
  | R_revoke_privileges AdminPolicy string "Privilege list"
  | R_set_allowlist AdminPolicy string "string list"
  | R_set_quotas AdminPolicy string u32 u32

type_synonym ('r, 'w, 'a) rpc = "'r \<Rightarrow> 'w \<Rightarrow> (string + 'a) \<times> 'w"

text \<open>
  The service by type of response: a bare error message (put, add, append, prepend, touch),
  a response that only has an optional error, and one function for each other response.
\<close>

record ('cdt, 'w) service =
  rpc_error :: "('cdt request, 'w, proto_Error) rpc"
  rpc_single :: "('cdt request, 'w, proto_Error option \<times> Record option) rpc"
  rpc_delete :: "('cdt request, 'w, proto_Error option \<times> bool option) rpc"
  rpc_exists :: "('cdt request, 'w, proto_Error option \<times> bool option) rpc"
  rpc_batch :: "('cdt request, 'w, proto_Error option \<times> BatchRecord list) rpc"
  rpc_status :: "('cdt request, 'w, proto_Error option) rpc"
  rpc_udf_list :: "('cdt request, 'w, proto_Error option \<times> UdfMeta list) rpc"
  rpc_udf_result :: "('cdt request, 'w, proto_Error option \<times> proto_Value option) rpc"
  rpc_users :: "('cdt request, 'w, proto_Error option \<times> UserRole list) rpc"
  rpc_roles :: "('cdt request, 'w, proto_Error option \<times> Role list) rpc"
  rpc_stream :: "('cdt request, 'w, stream_item list) rpc"

section \<open>Parts of every command\<close>

text \<open>
  \<^verbatim>\<open>client.f(request).map_err(|e| e.to_string())?\<close>: a failed status returns its text as
  the error of the command, otherwise the rest of the command runs on the response.
\<close>
definition send ::
  "('r, 'w, 'a) rpc \<Rightarrow> 'r \<Rightarrow> 'w \<Rightarrow> ('a \<Rightarrow> (string + 'b) php) \<Rightarrow> (string + 'b) php \<times> 'w" where
  "send f req w k = (case f req w of (Inl e, w') \<Rightarrow> (ret (Inl e), w') | (Inr res, w') \<Rightarrow> (k res, w'))"

text \<open>\<^verbatim>\<open>throw_object(error.into_zval(true)?)?; Ok(v)\<close>.\<close>
definition throw_error :: "proto_Error \<Rightarrow> 'b \<Rightarrow> (string + 'b) php" where
  "throw_error pe v = bnd (throw_object (AerospikeException_from_Error pe)) (\<lambda>_. ret (Inr v))"

text \<open>The response of put, add, append, prepend and touch.\<close>
definition on_error_message :: "proto_Error \<Rightarrow> (string + unit) php" where
  "on_error_message pe = (if result_code pe = 0 then ret (Inr ()) else throw_error pe ())"

text \<open>A response with nothing but an optional error.\<close>
definition on_status :: "proto_Error option \<Rightarrow> (string + unit) php" where
  "on_status e = (case e of None \<Rightarrow> ret (Inr ()) | Some pe \<Rightarrow> throw_error pe ())"

section \<open>Single-record commands\<close>

definition Client_put ::
  "('cdt, 'w) service \<Rightarrow> WritePolicy \<Rightarrow> Key \<Rightarrow> Bin list \<Rightarrow> 'w \<Rightarrow> (string + unit) php \<times> 'w" where
  "Client_put svc policy key bins w = send (rpc_error svc) (R_put policy key bins) w on_error_message"

definition Client_add ::
  "('cdt, 'w) service \<Rightarrow> WritePolicy \<Rightarrow> Key \<Rightarrow> Bin list \<Rightarrow> 'w \<Rightarrow> (string + unit) php \<times> 'w" where
  "Client_add svc policy key bins w = send (rpc_error svc) (R_add policy key bins) w on_error_message"

definition Client_append ::
  "('cdt, 'w) service \<Rightarrow> WritePolicy \<Rightarrow> Key \<Rightarrow> Bin list \<Rightarrow> 'w \<Rightarrow> (string + unit) php \<times> 'w" where
  "Client_append svc policy key bins w =
     send (rpc_error svc) (R_append policy key bins) w on_error_message"

definition Client_prepend ::
  "('cdt, 'w) service \<Rightarrow> WritePolicy \<Rightarrow> Key \<Rightarrow> Bin list \<Rightarrow> 'w \<Rightarrow> (string + unit) php \<times> 'w" where
  "Client_prepend svc policy key bins w =
     send (rpc_error svc) (R_prepend policy key bins) w on_error_message"

definition Client_touch ::
  "('cdt, 'w) service \<Rightarrow> WritePolicy \<Rightarrow> Key \<Rightarrow> 'w \<Rightarrow> (string + unit) php \<times> 'w" where
  "Client_touch svc policy key w = send (rpc_error svc) (R_touch policy key) w on_error_message"

text \<open>
  The response of get and get\_header: a record, or an error; the missing record is no
  exception unless the error is in doubt.
\<close>
definition on_single :: "proto_Error option \<times> Record option \<Rightarrow> (string + Record option) php" where
  "on_single res =
     (case res of
        (None, Some rec) \<Rightarrow> ret (Inr (Some rec))
      | (Some pe, None) \<Rightarrow>
          (if result_code pe = KEY_NOT_FOUND_ERROR \<and> \<not> pe_in_doubt pe then ret (Inr None)
           else throw_error pe None)
      | _ \<Rightarrow> panics Unreachable)"

definition Client_get ::
  "('cdt, 'w) service \<Rightarrow> ReadPolicy \<Rightarrow> Key \<Rightarrow> string list option \<Rightarrow> 'w \<Rightarrow>
   (string + Record option) php \<times> 'w" where
  "Client_get svc policy key bins w =
     send (rpc_single svc) (R_get policy key (case bins of Some bs \<Rightarrow> bs | None \<Rightarrow> [])) w on_single"

definition Client_get_header ::
  "('cdt, 'w) service \<Rightarrow> ReadPolicy \<Rightarrow> Key \<Rightarrow> 'w \<Rightarrow> (string + Record option) php \<times> 'w" where
  "Client_get_header svc policy key w = send (rpc_single svc) (R_get_header policy key) w on_single"

definition Client_delete ::
  "('cdt, 'w) service \<Rightarrow> WritePolicy \<Rightarrow> Key \<Rightarrow> 'w \<Rightarrow> (string + bool) php \<times> 'w" where
  "Client_delete svc policy key w =
     send (rpc_delete svc) (R_delete policy key) w (\<lambda>(error, existed).
       case error of
         None \<Rightarrow> ret (Inr (existed \<noteq> None))
       | Some pe \<Rightarrow> throw_error pe False)"

definition Client_exists ::
  "('cdt, 'w) service \<Rightarrow> ReadPolicy \<Rightarrow> Key \<Rightarrow> 'w \<Rightarrow> (string + bool) php \<times> 'w" where
  "Client_exists svc policy key w =
     send (rpc_exists svc) (R_exists policy key) w (\<lambda>(error, exists').
       case error of
         None \<Rightarrow> bnd (lift_sum (unwrap exists')) (\<lambda>b. ret (Inr b))
       | Some pe \<Rightarrow> throw_error pe False)"

section \<open>Batches\<close>

text \<open>The objects PHP can pass as a batch command.\<close>

datatype 'cdt batch_cmd =
    Cmd_read "'cdt BatchRead" | Cmd_write "'cdt BatchWrite" | Cmd_delete BatchDelete
  | Cmd_udf BatchUdf | Cmd_other

fun batch_operate :: "'cdt batch_cmd \<Rightarrow> 'cdt BatchOperate option" where
  "batch_operate (Cmd_read b) = Some (BatchOperate_default\<lparr>bo_br := Some b\<rparr>)"
| "batch_operate (Cmd_write b) = Some (BatchOperate_default\<lparr>bo_bw := Some b\<rparr>)"
| "batch_operate (Cmd_delete b) = Some (BatchOperate_default\<lparr>bo_bd := Some b\<rparr>)"
| "batch_operate (Cmd_udf b) = Some (BatchOperate_default\<lparr>bo_bu := Some b\<rparr>)"
| "batch_operate Cmd_other = None"

text \<open>The loop over the commands: it pushes a message or throws.\<close>
fun batch_loop :: "'cdt batch_cmd list \<Rightarrow> 'cdt BatchOperate list \<Rightarrow> 'cdt BatchOperate list php" where
  "batch_loop [] res = ret res"
| "batch_loop (c # cmds) res =
     (case batch_operate c of
        Some b \<Rightarrow> batch_loop cmds (res @ [b])
      | None \<Rightarrow>
          bnd (throw_object (AerospikeException_new ''Invalid Batch command'')) (\<lambda>_. batch_loop cmds res))"

definition Client_batch ::
  "('cdt, 'w) service \<Rightarrow> BatchPolicy \<Rightarrow> 'cdt batch_cmd list \<Rightarrow> 'w \<Rightarrow>
   (string + BatchRecord list) php \<times> 'w" where
  "Client_batch svc policy cmds w =
     (case batch_loop cmds [] of
        (es, Inl p) \<Rightarrow> ((es, Inl p), w)
      | (es, Inr res) \<Rightarrow>
          (case send (rpc_batch svc) (R_batch_operate policy res) w (\<lambda>(error, records).
                  case error of
                    None \<Rightarrow> ret (Inr records)
                  | Some pe \<Rightarrow> throw_error pe []) of
             ((es', r), w') \<Rightarrow> ((es @ es', r), w')))"

section \<open>Scans and queries\<close>

text \<open>
  \<^verbatim>\<open>scan\<close> and \<^verbatim>\<open>query\<close> send a copy of the shared filter; only after the manager has
  accepted the request are the statuses of the filter made.
\<close>

definition open_recordset ::
  "nat \<Rightarrow> filters \<Rightarrow> (string + stream_item list) \<times> 'w \<Rightarrow> (string + Recordset) php \<times> 'w \<times> filters" where
  "open_recordset a h res =
     (case res of
        (Inl e, w') \<Rightarrow> (ret (Inl e), w', h)
      | (Inr st, w') \<Rightarrow>
          (ret (Inr \<lparr>rs_stream = Some st, rs_filter = a\<rparr>), w',
           h(a := PartitionFilter_init_partition_status (h a))))"

definition Client_scan ::
  "('cdt, 'w) service \<Rightarrow> ScanPolicy \<Rightarrow> nat \<Rightarrow> string \<Rightarrow> string \<Rightarrow> string list option \<Rightarrow> filters \<Rightarrow> 'w \<Rightarrow>
   (string + Recordset) php \<times> 'w \<times> filters" where
  "Client_scan svc policy a ns set_name bins h w =
     open_recordset a h
       (rpc_stream svc (R_scan policy ns set_name (case bins of Some bs \<Rightarrow> bs | None \<Rightarrow> []) (h a)) w)"

definition Client_query ::
  "('cdt, 'w) service \<Rightarrow> QueryPolicy \<Rightarrow> nat \<Rightarrow> Statement \<Rightarrow> filters \<Rightarrow> 'w \<Rightarrow>
   (string + Recordset) php \<times> 'w \<times> filters" where
  "Client_query svc policy a statement h w =
     open_recordset a h (rpc_stream svc (R_query policy (h a) statement) w)"

section \<open>Indexes, UDFs and truncation\<close>

definition Client_truncate ::
  "('cdt, 'w) service \<Rightarrow> InfoPolicy \<Rightarrow> string \<Rightarrow> string \<Rightarrow> i64 option \<Rightarrow> 'w \<Rightarrow> (string + unit) php \<times> 'w" where
  "Client_truncate svc policy ns set_name before_nanos w =
     send (rpc_status svc) (R_truncate policy ns set_name before_nanos) w on_status"

definition Client_create_index ::
  "('cdt, 'w) service \<Rightarrow> WritePolicy \<Rightarrow> string \<Rightarrow> string \<Rightarrow> string \<Rightarrow> string \<Rightarrow> IndexType \<Rightarrow>
   IndexCollectionType option \<Rightarrow> CDTContext list option \<Rightarrow> 'w \<Rightarrow> (string + unit) php \<times> 'w" where
  "Client_create_index svc policy ns set_name bin index_name index_type cit ctx w =
     send (rpc_status svc)
       (R_create_index policy ns set_name index_name bin (IndexType_into_i32 index_type)
         (IndexCollectionType_into_i32 (cit_or_default cit)) (ctx_or_empty ctx)) w on_status"

definition Client_drop_index ::
  "('cdt, 'w) service \<Rightarrow> WritePolicy \<Rightarrow> string \<Rightarrow> string \<Rightarrow> string \<Rightarrow> 'w \<Rightarrow> (string + unit) php \<times> 'w" where
  "Client_drop_index svc policy ns set_name index_name w =
     send (rpc_status svc) (R_drop_index policy ns set_name index_name) w on_status"

definition Client_register_udf ::
  "('cdt, 'w) service \<Rightarrow> WritePolicy \<Rightarrow> string \<Rightarrow> string \<Rightarrow> UdfLanguage option \<Rightarrow> 'w \<Rightarrow>
   (string + unit) php \<times> 'w" where
  "Client_register_udf svc policy udf_body package_name language w =
     send (rpc_status svc)
       (R_register_udf policy (as_bytes udf_body) package_name
         (UdfLanguage_into_i32 (case language of Some l \<Rightarrow> l | None \<Rightarrow> Lua))) w on_status"

definition Client_drop_udf ::
  "('cdt, 'w) service \<Rightarrow> WritePolicy \<Rightarrow> string \<Rightarrow> 'w \<Rightarrow> (string + unit) php \<times> 'w" where
  "Client_drop_udf svc policy package_name w =
     send (rpc_status svc) (R_drop_udf policy package_name) w on_status"

definition Client_list_udf ::
  "('cdt, 'w) service \<Rightarrow> ReadPolicy \<Rightarrow> 'w \<Rightarrow> (string + UdfMeta list) php \<times> 'w" where
  "Client_list_udf svc policy w =
     send (rpc_udf_list svc) (R_list_udf policy) w (\<lambda>(error, udf_list).
       case error of None \<Rightarrow> ret (Inr udf_list) | Some pe \<Rightarrow> throw_error pe [])"

definition Client_udf_execute ::
  "externs \<Rightarrow> ('cdt, 'w) service \<Rightarrow> WritePolicy \<Rightarrow> Key \<Rightarrow> string \<Rightarrow> string \<Rightarrow> PHPValue list \<Rightarrow> 'w \<Rightarrow>
   (string + PHPValue) php \<times> 'w" where
  "Client_udf_execute x svc policy key package_name function_name args w =
     send (rpc_udf_result svc)
       (R_udf_execute policy key package_name function_name (map Value_from_PHPValue args)) w
       (\<lambda>(error, result).
         case error of
           None \<Rightarrow>
             (case result of
                Some v \<Rightarrow> bnd (PHPValue_from_Value x v) (\<lambda>v'. ret (Inr v'))
              | None \<Rightarrow> ret (Inr PNil))
         | Some pe \<Rightarrow> throw_error pe Value_nil)"

section \<open>User administration\<close>

definition Client_create_user ::
  "('cdt, 'w) service \<Rightarrow> AdminPolicy \<Rightarrow> string \<Rightarrow> string \<Rightarrow> string list \<Rightarrow> 'w \<Rightarrow> (string + unit) php \<times> 'w" where
  "Client_create_user svc policy user password roles w =
     send (rpc_status svc) (R_create_user policy user password roles) w on_status"

definition Client_drop_user ::
  "('cdt, 'w) service \<Rightarrow> AdminPolicy \<Rightarrow> string \<Rightarrow> 'w \<Rightarrow> (string + unit) php \<times> 'w" where
  "Client_drop_user svc policy user w = send (rpc_status svc) (R_drop_user policy user) w on_status"

definition Client_change_password ::
  "('cdt, 'w) service \<Rightarrow> AdminPolicy \<Rightarrow> string \<Rightarrow> string \<Rightarrow> 'w \<Rightarrow> (string + unit) php \<times> 'w" where
  "Client_change_password svc policy user password w =
     send (rpc_status svc) (R_change_password policy user password) w on_status"

definition Client_grant_roles ::
  "('cdt, 'w) service \<Rightarrow> AdminPolicy \<Rightarrow> string \<Rightarrow> string list \<Rightarrow> 'w \<Rightarrow> (string + unit) php \<times> 'w" where
  "Client_grant_roles svc policy user roles w =
     send (rpc_status svc) (R_grant_roles policy user roles) w on_status"

definition Client_revoke_roles ::
  "('cdt, 'w) service \<Rightarrow> AdminPolicy \<Rightarrow> string \<Rightarrow> string list \<Rightarrow> 'w \<Rightarrow> (string + unit) php \<times> 'w" where
  "Client_revoke_roles svc policy user roles w =
     send (rpc_status svc) (R_revoke_roles policy user roles) w on_status"

definition Client_query_users ::
  "('cdt, 'w) service \<Rightarrow> AdminPolicy \<Rightarrow> string option \<Rightarrow> 'w \<Rightarrow> (string + UserRole list) php \<times> 'w" where
  "Client_query_users svc policy user w =
     send (rpc_users svc) (R_query_users policy user) w (\<lambda>(error, user_roles).
       case error of None \<Rightarrow> ret (Inr user_roles) | Some pe \<Rightarrow> throw_error pe [])"

definition Client_query_roles ::
  "('cdt, 'w) service \<Rightarrow> AdminPolicy \<Rightarrow> string option \<Rightarrow> 'w \<Rightarrow> (string + Role list) php \<times> 'w" where
  "Client_query_roles svc policy name w =
     send (rpc_roles svc) (R_query_roles policy name) w (\<lambda>(error, roles).
       case error of None \<Rightarrow> ret (Inr roles) | Some pe \<Rightarrow> throw_error pe [])"

definition Client_create_role ::
  "('cdt, 'w) service \<Rightarrow> AdminPolicy \<Rightarrow> string \<Rightarrow> Privilege list \<Rightarrow> string list \<Rightarrow> u32 \<Rightarrow> u32 \<Rightarrow> 'w \<Rightarrow>
   (string + unit) php \<times> 'w" where
  "Client_create_role svc policy name privileges allowlist read_quota write_quota w =
     send (rpc_status svc) (R_create_role policy name privileges allowlist read_quota write_quota) w
       on_status"

definition Client_drop_role ::
  "('cdt, 'w) service \<Rightarrow> AdminPolicy \<Rightarrow> string \<Rightarrow> 'w \<Rightarrow> (string + unit) php \<times> 'w" where
  "Client_drop_role svc policy name w = send (rpc_status svc) (R_drop_role policy name) w on_status"

definition Client_grant_privileges ::
  "('cdt, 'w) service \<Rightarrow> AdminPolicy \<Rightarrow> string \<Rightarrow> Privilege list \<Rightarrow> 'w \<Rightarrow> (string + unit) php \<times> 'w" where
  "Client_grant_privileges svc policy name privileges w =
     send (rpc_status svc) (R_grant_privileges policy name privileges) w on_status"

definition Client_revoke_privileges ::
  "('cdt, 'w) service \<Rightarrow> AdminPolicy \<Rightarrow> string \<Rightarrow> Privilege list \<Rightarrow> 'w \<Rightarrow> (string + unit) php \<times> 'w" where
  "Client_revoke_privileges svc policy name privileges w =
     send (rpc_status svc) (R_revoke_privileges policy name privileges) w on_status"

definition Client_set_allowlist ::
  "('cdt, 'w) service \<Rightarrow> AdminPolicy \<Rightarrow> string \<Rightarrow> string list \<Rightarrow> 'w \<Rightarrow> (string + unit) php \<times> 'w" where
  "Client_set_allowlist svc policy name allowlist w =
     send (rpc_status svc) (R_set_allowlist policy name allowlist) w on_status"

definition Client_set_quotas ::
  "('cdt, 'w) service \<Rightarrow> AdminPolicy \<Rightarrow> string \<Rightarrow> u32 \<Rightarrow> u32 \<Rightarrow> 'w \<Rightarrow> (string + unit) php \<times> 'w" where
  "Client_set_quotas svc policy name read_quota write_quota w =
     send (rpc_status svc) (R_set_quotas policy name read_quota write_quota) w on_status"

end
