(* ===== verification/Manager_Expressions.thy ===== *)
theory Manager_Expressions
  imports Expressions Manager_Values
begin

text \<open>
  How the connection manager (\<^verbatim>\<open>aerospike-connection-manager/kvs.go\<close>) reads the
  expressions that the client builds: \<^verbatim>\<open>toExpression\<close>. The Aerospike Go library it calls
  is not part of the repository: an expression of the library is the call of the function
  that makes it (\<open>aero_exp\<close>). The properties compose client and manager: which library call each
  builder function ends in, and which builder calls the manager cannot read.
\<close>

section \<open>Parameters\<close>

text \<open>\<^verbatim>\<open>Value.String\<close> of the library, a parameter.\<close>
record go_externs =
  value_String :: "aero_value \<Rightarrow> string"

definition go_externs_ok :: "go_externs \<Rightarrow> bool" where
  "go_externs_ok g \<longleftrightarrow> (\<forall>s. value_String g (StringValue s) = s)"

definition go_externs0 :: go_externs where
  "go_externs0 = \<lparr>value_String = (\<lambda>v. case v of StringValue s \<Rightarrow> s | _ \<Rightarrow> [])\<rparr>"

section \<open>Expressions of the Go library\<close>

datatype (plugins only: code) aero_fn =
    ExpUnknown | ExpEq | ExpNotEq | ExpGreater | ExpGreaterEq
  | ExpLess | ExpLessEq | ExpGeoCompare | ExpAnd | ExpOr
  | ExpNot | ExpExclusive | ExpNumAdd | ExpNumSub | ExpNumMul
  | ExpNumDiv | ExpNumPow | ExpNumLog | ExpNumMod | ExpNumAbs
  | ExpNumCeil | ExpToInt | ExpToFloat | ExpIntAnd | ExpIntOr
  | ExpIntXor | ExpIntNot | ExpIntLShift | ExpIntRShift | ExpIntARShift
  | ExpIntCount | ExpIntLScan | ExpIntRScan | ExpMin | ExpMax
  | ExpDeviceSize | ExpLastUpdate | ExpSinceUpdate | ExpVoidTime | ExpTTL
  | ExpSetName | ExpKeyExists | ExpIsTombstone | ExpMemorySize | ExpRecordSize
  | ExpCond | ExpLet

text \<open>\<open>NilExp\<close> is the nil pointer that \<^verbatim>\<open>toExpression\<close> returns for a nil argument.\<close>

datatype aero_exp =
    NilExp
  | Call aero_fn "aero_exp list"
  | NilVal
  | IntVal i64
  | FloatVal f64
  | StringVal string
  | BoolVal bool
  | BlobVal bytes
  | ListVal "aero_value list"
  | MapVal aero_value
  | GeoVal string
  | WildCardVal
  | InfinityVal
  | RegexCompare string i64 aero_exp
  | DigestModulo i64
  | KeyOf i64
  | BinOf ExpType string
  | BinType string
  | VarOf string

section \<open>Reading expressions\<close>

text \<open>Go: \<^verbatim>\<open>*p\<close>.\<close>
definition deref :: "'a option \<Rightarrow> panic + 'a" where
  "deref p = (case p of None \<Rightarrow> Inl NilDereference | Some x \<Rightarrow> Inr x)"

definition deref_exp :: "(panic + aero_exp) option \<Rightarrow> panic + aero_exp" where
  "deref_exp p = (case p of None \<Rightarrow> Inr NilExp | Some r \<Rightarrow> r)"

text \<open>Go: \<^verbatim>\<open>in.Val.V.(*pb.Value_I).I\<close> and \<^verbatim>\<open>in.Val.V.(*pb.Value_S).S\<close>.\<close>

definition as_Value_I :: "proto_Value option \<Rightarrow> panic + i64" where
  "as_Value_I v =
     (case v of None \<Rightarrow> Inl NilDereference | Some (V_I i) \<Rightarrow> Inr i | Some _ \<Rightarrow> Inl TypeAssertion)"

definition as_Value_S :: "proto_Value option \<Rightarrow> panic + string" where
  "as_Value_S v =
     (case v of None \<Rightarrow> Inl NilDereference | Some (V_S s) \<Rightarrow> Inr s | Some _ \<Rightarrow> Inl TypeAssertion)"

definition call1 :: "aero_fn \<Rightarrow> (panic + aero_exp) list \<Rightarrow> panic + aero_exp" where
  "call1 f exps = sbind (go_index exps 0) (\<lambda>e. Inr (Call f [e]))"

definition call2 :: "aero_fn \<Rightarrow> (panic + aero_exp) list \<Rightarrow> panic + aero_exp" where
  "call2 f exps = sbind (go_index exps 0) (\<lambda>a. sbind (go_index exps 1) (\<lambda>b. Inr (Call f [a, b])))"

definition calls :: "aero_fn \<Rightarrow> (panic + aero_exp) list \<Rightarrow> panic + aero_exp" where
  "calls f exps = sbind (ssequence exps) (\<lambda>es. Inr (Call f es))"

text \<open>A message without a command is a literal, by the type of its value.\<close>
definition exp_literal :: "proto_Value option \<Rightarrow> panic + aero_exp" where
  "exp_literal val =
     sbind (toValue_opt val) (\<lambda>v.
       case v of
         NullValue \<Rightarrow> Inr NilVal
       | IntegerValue i \<Rightarrow> Inr (IntVal i)
       | FloatValue f \<Rightarrow> Inr (FloatVal f)
       | StringValue s \<Rightarrow> Inr (StringVal s)
       | BoolValue b \<Rightarrow> Inr (BoolVal b)
       | BytesValue b \<Rightarrow> Inr (BlobVal b)
       | ListValue l \<Rightarrow> sbind (toListValue val) (\<lambda>l'. Inr (ListVal l'))
       | MapValue m \<Rightarrow> Inr (MapVal (MapValue m))
       | GeoJSONValue s \<Rightarrow> Inr (GeoVal s)
       | WildCardValue \<Rightarrow> Inr WildCardVal
       | InfinityValue \<Rightarrow> Inr InfinityVal
       | _ \<Rightarrow> Inl NilDereference)"

definition exp_bin_switch :: "i32 \<Rightarrow> proto_Value option \<Rightarrow> panic + aero_exp" where
  "exp_bin_switch m val =
     (case find (\<lambda>t. ExpType_into_i32 t = m)
             [ET_Bool, ET_Int, ET_String, ET_List, ET_Map, ET_Blob, ET_Float, ET_Geo] of
        Some t \<Rightarrow> sbind (as_Value_S val) (\<lambda>s. Inr (BinOf t s))
      | None \<Rightarrow> Inl Unreachable)"

definition ExpOp_all :: "ExpOp list" where
  "ExpOp_all =
    [EO_Unknown, EO_Eq, EO_Ne, EO_Gt, EO_Ge, EO_Lt,
     EO_Le, EO_Regex, EO_Geo, EO_And, EO_Or, EO_Not,
     EO_Exclusive, EO_Add, EO_Sub, EO_Mul, EO_Div, EO_Pow,
     EO_Log, EO_Mod, EO_Abs, EO_Floor, EO_Ceil, EO_ToInt,
     EO_ToFloat, EO_IntAnd, EO_IntOr, EO_IntXor, EO_IntNot, EO_IntLShift,
     EO_IntRShift, EO_IntArShift, EO_IntCount, EO_IntLScan, EO_IntRScan, EO_Min,
     EO_Max, EO_DigestModulo, EO_DeviceSize, EO_LastUpdate, EO_SinceUpdate, EO_VoidTime,
     EO_Ttl, EO_SetName, EO_KeyExists, EO_IsTombstone, EO_MemorySize, EO_RecordSize,
     EO_Key, EO_Bin, EO_BinType, EO_Cond, EO_Var, EO_Let,
     EO_Quoted, EO_Call]"

definition ExpOp_from_i32 :: "i32 \<Rightarrow> ExpOp option" where
  "ExpOp_from_i32 c = find (\<lambda>o'. ExpOp_into_i32 o' = c) ExpOp_all"

text \<open>
  The switch on the command. The arm of \<^verbatim>\<open>ExpOpFloor\<close> is empty, so control reaches
  the \<^verbatim>\<open>panic(UNREACHABLE)\<close> after the switch.
\<close>

primrec exp_switch ::
  "go_externs \<Rightarrow> proto_Value option \<Rightarrow> (panic + aero_exp) option \<Rightarrow> i64 option \<Rightarrow> i32 option \<Rightarrow>
   (panic + aero_exp) list \<Rightarrow> ExpOp \<Rightarrow> panic + aero_exp" where
  "exp_switch g val bn flags module exps EO_Unknown = Inr (Call ExpUnknown [])"
| "exp_switch g val bn flags module exps EO_Eq = call2 ExpEq exps"
| "exp_switch g val bn flags module exps EO_Ne = call2 ExpNotEq exps"
| "exp_switch g val bn flags module exps EO_Gt = call2 ExpGreater exps"
| "exp_switch g val bn flags module exps EO_Ge = call2 ExpGreaterEq exps"
| "exp_switch g val bn flags module exps EO_Lt = call2 ExpLess exps"
| "exp_switch g val bn flags module exps EO_Le = call2 ExpLessEq exps"
| "exp_switch g val bn flags module exps EO_Regex = 
     sbind (toValue_opt val) (\<lambda>v. sbind (deref flags) (\<lambda>fl. sbind (deref_exp bn) (\<lambda>e.
       Inr (RegexCompare (value_String g v) fl e))))"
| "exp_switch g val bn flags module exps EO_Geo = call2 ExpGeoCompare exps"
| "exp_switch g val bn flags module exps EO_And = calls ExpAnd exps"
| "exp_switch g val bn flags module exps EO_Or = calls ExpOr exps"
| "exp_switch g val bn flags module exps EO_Not = call1 ExpNot exps"
| "exp_switch g val bn flags module exps EO_Exclusive = calls ExpExclusive exps"
| "exp_switch g val bn flags module exps EO_Add = calls ExpNumAdd exps"
| "exp_switch g val bn flags module exps EO_Sub = calls ExpNumSub exps"
| "exp_switch g val bn flags module exps EO_Mul = calls ExpNumMul exps"
| "exp_switch g val bn flags module exps EO_Div = calls ExpNumDiv exps"
| "exp_switch g val bn flags module exps EO_Pow = call2 ExpNumPow exps"
| "exp_switch g val bn flags module exps EO_Log = call2 ExpNumLog exps"
| "exp_switch g val bn flags module exps EO_Mod = call2 ExpNumMod exps"
| "exp_switch g val bn flags module exps EO_Abs = call1 ExpNumAbs exps"
| "exp_switch g val bn flags module exps EO_Floor = Inl Unreachable"
| "exp_switch g val bn flags module exps EO_Ceil = call1 ExpNumCeil exps"
| "exp_switch g val bn flags module exps EO_ToInt = call1 ExpToInt exps"
| "exp_switch g val bn flags module exps EO_ToFloat = call1 ExpToFloat exps"
| "exp_switch g val bn flags module exps EO_IntAnd = calls ExpIntAnd exps"
| "exp_switch g val bn flags module exps EO_IntOr = calls ExpIntOr exps"
| "exp_switch g val bn flags module exps EO_IntXor = calls ExpIntXor exps"
| "exp_switch g val bn flags module exps EO_IntNot = call1 ExpIntNot exps"
| "exp_switch g val bn flags module exps EO_IntLShift = call2 ExpIntLShift exps"
| "exp_switch g val bn flags module exps EO_IntRShift = call2 ExpIntRShift exps"
| "exp_switch g val bn flags module exps EO_IntArShift = call2 ExpIntARShift exps"
| "exp_switch g val bn flags module exps EO_IntCount = call1 ExpIntCount exps"
| "exp_switch g val bn flags module exps EO_IntLScan = call2 ExpIntLScan exps"
| "exp_switch g val bn flags module exps EO_IntRScan = call2 ExpIntRScan exps"
| "exp_switch g val bn flags module exps EO_Min = calls ExpMin exps"
| "exp_switch g val bn flags module exps EO_Max = calls ExpMax exps"
| "exp_switch g val bn flags module exps EO_DigestModulo = sbind (as_Value_I val) (\<lambda>i. Inr (DigestModulo i))"
| "exp_switch g val bn flags module exps EO_DeviceSize = Inr (Call ExpDeviceSize [])"
| "exp_switch g val bn flags module exps EO_LastUpdate = Inr (Call ExpLastUpdate [])"
| "exp_switch g val bn flags module exps EO_SinceUpdate = Inr (Call ExpSinceUpdate [])"
| "exp_switch g val bn flags module exps EO_VoidTime = Inr (Call ExpVoidTime [])"
| "exp_switch g val bn flags module exps EO_Ttl = Inr (Call ExpTTL [])"
| "exp_switch g val bn flags module exps EO_SetName = Inr (Call ExpSetName [])"
| "exp_switch g val bn flags module exps EO_KeyExists = Inr (Call ExpKeyExists [])"
| "exp_switch g val bn flags module exps EO_IsTombstone = Inr (Call ExpIsTombstone [])"
| "exp_switch g val bn flags module exps EO_MemorySize = Inr (Call ExpMemorySize [])"
| "exp_switch g val bn flags module exps EO_RecordSize = Inr (Call ExpRecordSize [])"
| "exp_switch g val bn flags module exps EO_Key = sbind (as_Value_I val) (\<lambda>i. Inr (KeyOf i))"
| "exp_switch g val bn flags module exps EO_Bin = sbind (deref module) (\<lambda>m. exp_bin_switch m val)"
| "exp_switch g val bn flags module exps EO_BinType = sbind (toValue_opt val) (\<lambda>v. Inr (BinType (value_String g v)))"
| "exp_switch g val bn flags module exps EO_Cond = calls ExpCond exps"
| "exp_switch g val bn flags module exps EO_Var = sbind (toValue_opt val) (\<lambda>v. Inr (VarOf (value_String g v)))"
| "exp_switch g val bn flags module exps EO_Let = calls ExpLet exps"
| "exp_switch g val bn flags module exps EO_Quoted = sbind (toValue_opt val) (\<lambda>v. Inr (ListVal [v]))"
| "exp_switch g val bn flags module exps EO_Call = Inl Unreachable"

primrec toExpression :: "go_externs \<Rightarrow> Expression \<Rightarrow> panic + aero_exp" where
  "toExpression g (Expression cmd val bn flags module exps) =
     (case cmd of
        None \<Rightarrow> exp_literal val
      | Some c \<Rightarrow>
          (case ExpOp_from_i32 c of
             Some o' \<Rightarrow> exp_switch g val (map_option (toExpression g) bn) flags module
               (map (toExpression g) exps) o'
           | None \<Rightarrow> Inl Unreachable))"

section \<open>Lemmas\<close>

interpretation exp_ops: code_table ExpOp_into_i32 ExpOp_all
proof
  show "o' \<in> set ExpOp_all" for o' by (cases o') (simp_all add: ExpOp_all_def)
  show "distinct (map ExpOp_into_i32 ExpOp_all)" by code_simp
qed

lemma ExpOp_from_into [simp]: "ExpOp_from_i32 (ExpOp_into_i32 o') = Some o'"
  by (simp add: ExpOp_from_i32_def exp_ops.find_code)

declare ExpOp_into_i32.simps [simp del]

lemma toExpression_new [simp]:
  "toExpression g (Expression_new (Some (ExpOp_into_i32 o')) val bn flags module exps) =
     exp_switch g (map_option Value_from_PHPValue val) (map_option (toExpression g) bn) flags
       (map_option ExpType_into_i32 module) (map (toExpression g) exps) o'"
  "toExpression g (Expression_new None val bn flags module exps) =
     exp_literal (map_option Value_from_PHPValue val)"
  by (simp_all add: Expression_new_def)

lemma call_simps [simp]:
  "call1 f (a # es) = sbind a (\<lambda>e. Inr (Call f [e]))"
  "call2 f (a # b # es) = sbind a (\<lambda>a. sbind b (\<lambda>b. Inr (Call f [a, b])))"
  by (simp_all add: call1_def call2_def go_index_def)

text \<open>The builder functions by the number of their sub-expressions, with their library calls.\<close>

definition nullary_builders :: "(Expression \<times> aero_fn) list" where
  "nullary_builders =
    [(Expression_key_exists, ExpKeyExists), (Expression_set_name, ExpSetName),
     (Expression_device_size, ExpDeviceSize), (Expression_memory_size, ExpMemorySize),
     (Expression_last_update, ExpLastUpdate), (Expression_since_update, ExpSinceUpdate),
     (Expression_void_time, ExpVoidTime), (Expression_ttl, ExpTTL),
     (Expression_is_tombstone, ExpIsTombstone), (Expression_unknown, ExpUnknown)]"

definition unary_builders :: "((Expression \<Rightarrow> Expression) \<times> aero_fn) list" where
  "unary_builders =
    [(Expression_not, ExpNot), (Expression_num_abs, ExpNumAbs), (Expression_num_ceil, ExpNumCeil),
     (Expression_to_int, ExpToInt), (Expression_to_float, ExpToFloat),
     (Expression_int_not, ExpIntNot), (Expression_int_count, ExpIntCount)]"

definition binary_builders :: "((Expression \<Rightarrow> Expression \<Rightarrow> Expression) \<times> aero_fn) list" where
  "binary_builders =
    [(Expression_eq, ExpEq), (Expression_ne, ExpNotEq), (Expression_gt, ExpGreater),
     (Expression_ge, ExpGreaterEq), (Expression_lt, ExpLess), (Expression_le, ExpLessEq),
     (Expression_geo_compare, ExpGeoCompare), (Expression_num_pow, ExpNumPow),
     (Expression_num_log, ExpNumLog), (Expression_num_mod, ExpNumMod),
     (Expression_int_lshift, ExpIntLShift), (Expression_int_rshift, ExpIntRShift),
     (Expression_int_arshift, ExpIntARShift), (Expression_int_lscan, ExpIntLScan),
     (Expression_int_rscan, ExpIntRScan)]"

definition nary_builders :: "((Expression list \<Rightarrow> Expression) \<times> aero_fn) list" where
  "nary_builders =
    [(Expression_and, ExpAnd), (Expression_or, ExpOr), (Expression_num_add, ExpNumAdd),
     (Expression_num_sub, ExpNumSub), (Expression_num_mul, ExpNumMul),
     (Expression_num_div, ExpNumDiv), (Expression_int_and, ExpIntAnd),
     (Expression_int_or, ExpIntOr), (Expression_int_xor, ExpIntXor), (Expression_min, ExpMin),
     (Expression_max, ExpMax), (Expression_cond, ExpCond), (Expression_exp_let, ExpLet)]"

lemmas builder_tables =
  nullary_builders_def unary_builders_def binary_builders_def nary_builders_def

lemma toExpression_nullary: "(e, f) \<in> set nullary_builders \<Longrightarrow> toExpression g e = Inr (Call f [])"
  by (auto simp: nullary_builders_def expression_builders)

lemma toExpression_unary:
  "(b, f) \<in> set unary_builders \<Longrightarrow>
    toExpression g (b e) = sbind (toExpression g e) (\<lambda>a. Inr (Call f [a]))"
  by (auto simp: unary_builders_def expression_builders)

lemma toExpression_binary:
  "(b, f) \<in> set binary_builders \<Longrightarrow>
    toExpression g (b e e') =
      sbind (toExpression g e) (\<lambda>a. sbind (toExpression g e') (\<lambda>a'. Inr (Call f [a, a'])))"
  by (auto simp: binary_builders_def expression_builders)

lemma toExpression_nary:
  "(b, f) \<in> set nary_builders \<Longrightarrow>
    toExpression g (b es) = sbind (ssequence (map (toExpression g) es)) (\<lambda>as. Inr (Call f as))"
  by (auto simp: nary_builders_def expression_builders calls_def)

section \<open>Expressions the manager can read\<close>





lemmas literal_defs = exp_literal_def toValue_opt_def or_null_def as_Value_I_def as_Value_S_def
  deref_def deref_exp_def



lemma go_externs0_ok: "go_externs_ok go_externs0"
  by (simp add: go_externs_ok_def go_externs0_def)

section \<open>Properties\<close>

text \<open>C16. Client and manager agree on the operators: for every builder function of the tables,
  the manager turns its message into the call of the matching library function on the
  translations of the arguments, in order, and fails only if an argument fails.\<close>

theorem operators_reach_library:
  "list_all (\<lambda>(e, f). toExpression g e = Inr (Call f [])) nullary_builders \<and>
   list_all (\<lambda>(b, f). \<forall>e. toExpression g (b e) = sbind (toExpression g e) (\<lambda>a. Inr (Call f [a])))
     unary_builders \<and>
   list_all (\<lambda>(b, f). \<forall>e e'. toExpression g (b e e') =
       sbind (toExpression g e) (\<lambda>a. sbind (toExpression g e') (\<lambda>a'. Inr (Call f [a, a']))))
     binary_builders \<and>
   list_all (\<lambda>(b, f). \<forall>es. toExpression g (b es) =
       sbind (ssequence (map (toExpression g) es)) (\<lambda>as. Inr (Call f as)))
     nary_builders"
  by (auto simp: list_all_iff toExpression_nullary toExpression_unary toExpression_binary
      toExpression_nary)

text \<open>Leaves reach the library unchanged: literals, bins by type, variables, bin types and
  regular expressions.\<close>

lemma leaves_reach_library:
  assumes "go_externs_ok g"
  shows "toExpression g (Expression_int_val i) = Inr (IntVal i) \<and>
    toExpression g (Expression_bool_val b) = Inr (BoolVal b) \<and>
    toExpression g (Expression_string_val s) = Inr (StringVal s) \<and>
    toExpression g (Expression_float_val f) = Inr (FloatVal f) \<and>
    toExpression g (Expression_blob_val bs) = Inr (BlobVal bs) \<and>
    toExpression g (Expression_geo_val s) = Inr (GeoVal s) \<and>
    toExpression g Expression_nil = Inr NilVal \<and>
    toExpression g (Expression_key t) = Inr (KeyOf (i64_from_i32 (ExpType_into_i32 t))) \<and>
    toExpression g (Expression_int_bin s) = Inr (BinOf ET_Int s) \<and>
    toExpression g (Expression_string_bin s) = Inr (BinOf ET_String s) \<and>
    toExpression g (Expression_blob_bin s) = Inr (BinOf ET_Blob s) \<and>
    toExpression g (Expression_float_bin s) = Inr (BinOf ET_Float s) \<and>
    toExpression g (Expression_geo_bin s) = Inr (BinOf ET_Geo s) \<and>
    toExpression g (Expression_list_bin s) = Inr (BinOf ET_List s) \<and>
    toExpression g (Expression_map_bin s) = Inr (BinOf ET_Map s) \<and>
    toExpression g (Expression_bin_type s) = Inr (BinType s) \<and>
    toExpression g (Expression_var s) = Inr (VarOf s) \<and>
    toExpression g (Expression_bin_exists s) = Inr (Call ExpNotEq [BinType s, IntVal 0]) \<and>
    toExpression g (Expression_regex_compare s fl e) =
      sbind (toExpression g e) (\<lambda>a. Inr (RegexCompare s fl a))"
  using assms
  by (simp add: expression_builders literal_defs exp_bin_switch_def go_externs_ok_def)

theorem leaves_reach_library_witness:
  "go_externs_ok go_externs0 \<and>
   toExpression go_externs0 (Expression_bin_exists ''age'') =
     Inr (Call ExpNotEq [BinType ''age'', IntVal 0])"
  using leaves_reach_library [OF go_externs0_ok] go_externs0_ok by blast



text \<open>What the manager does not read as the client means it: \<^verbatim>\<open>numFloor\<close>,
  \<^verbatim>\<open>hllBin\<close> and the empty list literal panic, \<^verbatim>\<open>def\<close> arrives as a string literal
  without the defined expression, and \<^verbatim>\<open>xor\<close> arrives as the bitwise operator.\<close>

lemma unsupported_builders:
  "toExpression g (Expression_num_floor e) = Inl Unreachable \<and>
   toExpression g (Expression_hll_bin name) = Inl Unreachable \<and>
   toExpression g (Expression_list_val []) = Inl Unreachable \<and>
   toExpression g (Expression_def name e) = Inr (StringVal name) \<and>
   toExpression g (Expression_xor es) = toExpression g (Expression_int_xor es)"
  by (simp add: expression_builders literal_defs exp_bin_switch_def toListValue_def)

end
