(* ===== verification/Manager_Policies.thy ===== *)
theory Manager_Policies
  imports Manager_Expressions Batch_Policies
begin

text \<open>
  How the connection manager (\<^verbatim>\<open>aerospike-connection-manager/kvs.go\<close>) reads the policies
  that the client sends. A policy of the Go library is a record of the fields that the
  manager sets; its enumerations are numbers, its times are nanoseconds in 64 bits
  (\<^verbatim>\<open>time.Duration\<close>). The theorems say which policies the manager can read, that every
  setting arrives in the field of its name, and in which range a time in milliseconds
  survives the multiplication.
\<close>

section \<open>Policies of the Go library\<close>

record aero_BasePolicy =
  FilterExpression :: aero_exp
  ReadModeAP :: i32
  ReadModeSC :: i32
  TotalTimeout :: i64
  SocketTimeout :: i64
  MaxRetries :: i64
  SleepBetweenRetries :: i64
  SleepMultiplier :: f64
  ExitFastOnExhaustedConnectionPool :: bool
  SendKey :: bool
  UseCompression :: bool
  ReplicaPolicy :: i32
  ReadTouchTTLPercent :: i32

record aero_WritePolicy =
  wBasePolicy :: aero_BasePolicy
  wRecordExistsAction :: i32
  wGenerationPolicy :: i32
  wCommitLevel :: i32
  wGeneration :: u32
  wExpiration :: u32
  wRespondPerEachOp :: bool
  wDurableDelete :: bool

record aero_MultiPolicy =
  mBasePolicy :: aero_BasePolicy
  MaxConcurrentNodes :: i64
  MaxRecords :: i64
  RecordsPerSecond :: i64
  RecordQueueSize :: i64
  IncludeBinData :: bool

record aero_QueryPolicy =
  qMultiPolicy :: aero_MultiPolicy
  ExpectedDuration :: i32

record aero_BatchPolicy =
  bBasePolicy :: aero_BasePolicy
  ConcurrentNodes :: i64
  AllowInline :: bool
  AllowInlineSSD :: bool
  RespondAllKeys :: bool
  AllowPartialResults :: bool

record aero_BatchReadPolicy =
  brFilterExpression :: aero_exp
  brReadModeAP :: i32
  brReadModeSC :: i32
  brReadTouchTTLPercent :: i32

record aero_BatchWritePolicy =
  bwFilterExpression :: aero_exp
  bwRecordExistsAction :: i32
  bwCommitLevel :: i32
  bwGenerationPolicy :: i32
  bwGeneration :: u32
  bwExpiration :: u32
  bwDurableDelete :: bool
  bwSendKey :: bool

record aero_BatchDeletePolicy =
  bdFilterExpression :: aero_exp
  bdCommitLevel :: i32
  bdGenerationPolicy :: i32
  bdGeneration :: u32
  bdDurableDelete :: bool
  bdSendKey :: bool

record aero_BatchUDFPolicy =
  buFilterExpression :: aero_exp
  buCommitLevel :: i32
  buExpiration :: u32
  buDurableDelete :: bool
  buSendKey :: bool

section \<open>Reading policies\<close>

text \<open>Go: \<^verbatim>\<open>time.Millisecond\<close>, in nanoseconds.\<close>
definition Millisecond :: nat where "Millisecond = 1000000"

text \<open>\<^verbatim>\<open>toExpression\<close> of a pointer that may be nil.\<close>
definition toFilterExpression :: "go_externs \<Rightarrow> Expression option \<Rightarrow> panic + aero_exp" where
  "toFilterExpression g e = deref_exp (map_option (toExpression g) e)"

text \<open>A function on pointers: nil gives nil.\<close>
definition on_pointer :: "('a \<Rightarrow> panic + 'b) \<Rightarrow> 'a option \<Rightarrow> panic + 'b option" where
  "on_pointer f p = (case p of None \<Rightarrow> Inr None | Some a \<Rightarrow> sbind (f a) (\<lambda>b. Inr (Some b)))"

definition toReadPolicy :: "go_externs \<Rightarrow> ReadPolicy option \<Rightarrow> panic + aero_BasePolicy option" where
  "toReadPolicy g = on_pointer (\<lambda>p.
     sbind (toFilterExpression g (rp_filter_expression p)) (\<lambda>e.
       Inr \<lparr>FilterExpression = e,
         ReadModeAP = rp_read_mode_ap p,
         ReadModeSC = rp_read_mode_sc p,
         TotalTimeout = rp_total_timeout p * of_nat Millisecond,
         SocketTimeout = rp_socket_timeout p * of_nat Millisecond,
         MaxRetries = ucast (rp_max_retries p),
         SleepBetweenRetries = rp_sleep_between_retries p * of_nat Millisecond,
         SleepMultiplier = rp_sleep_multiplier p,
         ExitFastOnExhaustedConnectionPool = rp_exit_fast_on_exhausted_connection_pool p,
         SendKey = rp_send_key p,
         UseCompression = rp_use_compression p,
         ReplicaPolicy = rp_replica_policy p,
         ReadTouchTTLPercent = rp_read_touch_ttl_percent p\<rparr>))"

text \<open>Go: \<^verbatim>\<open>*toReadPolicy(in.Policy)\<close>.\<close>
definition base_policy :: "go_externs \<Rightarrow> ReadPolicy option \<Rightarrow> panic + aero_BasePolicy" where
  "base_policy g p = sbind (toReadPolicy g p) deref"

definition toWritePolicy :: "go_externs \<Rightarrow> WritePolicy option \<Rightarrow> panic + aero_WritePolicy option" where
  "toWritePolicy g = on_pointer (\<lambda>p.
     sbind (base_policy g (wp_policy p)) (\<lambda>b.
       Inr \<lparr>wBasePolicy = b,
         wRecordExistsAction = wp_record_exists_action p,
         wGenerationPolicy = wp_generation_policy p,
         wCommitLevel = wp_commit_level p,
         wGeneration = wp_generation p,
         wExpiration = wp_expiration p,
         wRespondPerEachOp = wp_respond_per_each_op p,
         wDurableDelete = wp_durable_delete p\<rparr>))"

definition toMultiPolicy :: "go_externs \<Rightarrow> MultiPolicy option \<Rightarrow> panic + aero_MultiPolicy option" where
  "toMultiPolicy g = on_pointer (\<lambda>p.
     sbind (base_policy g (mp_read_policy p)) (\<lambda>b.
       Inr \<lparr>mBasePolicy = b,
         MaxConcurrentNodes = ucast (mp_max_concurrent_nodes p),
         MaxRecords = mp_max_records p,
         RecordsPerSecond = mp_records_per_second p,
         RecordQueueSize = ucast (mp_record_queue_size p),
         IncludeBinData = mp_include_bin_data p\<rparr>))"

text \<open>A scan policy is its multi policy.\<close>
definition toScanPolicy :: "go_externs \<Rightarrow> ScanPolicy option \<Rightarrow> panic + aero_MultiPolicy option" where
  "toScanPolicy g p =
     (case p of
        Some q \<Rightarrow>
          (if sp_multi_policy q \<noteq> None then
             sbind (toMultiPolicy g (sp_multi_policy q)) (\<lambda>m. sbind (deref m) (\<lambda>m'. Inr (Some m')))
           else Inr None)
      | None \<Rightarrow> Inr None)"

definition toQueryPolicy :: "go_externs \<Rightarrow> QueryPolicy option \<Rightarrow> panic + aero_QueryPolicy option" where
  "toQueryPolicy g p =
     (case p of
        Some q \<Rightarrow>
          (if qp_multi_policy q \<noteq> None then
             sbind (toMultiPolicy g (qp_multi_policy q)) (\<lambda>m. sbind (deref m) (\<lambda>m'.
               Inr (Some \<lparr>qMultiPolicy = m', ExpectedDuration = qp_expected_duration q\<rparr>)))
           else Inr None)
      | None \<Rightarrow> Inr None)"

text \<open>The timeout of an admin or info policy: the product is computed in 32 bits.\<close>
definition timeout32 :: "u32 \<Rightarrow> i64" where
  "timeout32 t = ucast (t * of_nat Millisecond)"

definition toAdminPolicy :: "AdminPolicy option \<Rightarrow> i64 option" where
  "toAdminPolicy p = map_option (\<lambda>p. timeout32 (ap_timeout p)) p"

definition toInfoPolicy :: "InfoPolicy option \<Rightarrow> i64 option" where
  "toInfoPolicy p = map_option (\<lambda>p. timeout32 (ip_timeout p)) p"

definition toBatchPolicy :: "go_externs \<Rightarrow> BatchPolicy option \<Rightarrow> panic + aero_BatchPolicy option" where
  "toBatchPolicy g = on_pointer (\<lambda>p.
     sbind (base_policy g (bp_policy p)) (\<lambda>b.
     sbind (deref (bp_concurrent_nodes p)) (\<lambda>n.
       Inr \<lparr>bBasePolicy = b,
         ConcurrentNodes = scast n,
         AllowInline = bp_allow_inline p,
         AllowInlineSSD = bp_allow_inline_ssd p,
         RespondAllKeys = bp_respond_all_keys p,
         AllowPartialResults = bp_allow_partial_results p\<rparr>)))"

definition toBatchReadPolicy ::
  "go_externs \<Rightarrow> BatchReadPolicy option \<Rightarrow> panic + aero_BatchReadPolicy option" where
  "toBatchReadPolicy g = on_pointer (\<lambda>p.
     sbind (toFilterExpression g (brp_filter_expression p)) (\<lambda>e.
       Inr \<lparr>brFilterExpression = e,
         brReadModeAP = brp_read_mode_ap p,
         brReadModeSC = brp_read_mode_sc p,
         brReadTouchTTLPercent = brp_read_touch_ttl_percent p\<rparr>))"

definition toBatchWritePolicy ::
  "go_externs \<Rightarrow> BatchWritePolicy option \<Rightarrow> panic + aero_BatchWritePolicy option" where
  "toBatchWritePolicy g = on_pointer (\<lambda>p.
     sbind (toFilterExpression g (bwp_filter_expression p)) (\<lambda>e.
       Inr \<lparr>bwFilterExpression = e,
         bwRecordExistsAction = bwp_record_exists_action p,
         bwCommitLevel = bwp_commit_level p,
         bwGenerationPolicy = bwp_generation_policy p,
         bwGeneration = bwp_generation p,
         bwExpiration = bwp_expiration p,
         bwDurableDelete = bwp_durable_delete p,
         bwSendKey = bwp_send_key p\<rparr>))"

definition toBatchDeletePolicy ::
  "go_externs \<Rightarrow> BatchDeletePolicy option \<Rightarrow> panic + aero_BatchDeletePolicy option" where
  "toBatchDeletePolicy g = on_pointer (\<lambda>p.
     sbind (toFilterExpression g (bdp_filter_expression p)) (\<lambda>e.
       Inr \<lparr>bdFilterExpression = e,
         bdCommitLevel = bdp_commit_level p,
         bdGenerationPolicy = bdp_generation_policy p,
         bdGeneration = bdp_generation p,
         bdDurableDelete = bdp_durable_delete p,
         bdSendKey = bdp_send_key p\<rparr>))"

definition toBatchUDFPolicy ::
  "go_externs \<Rightarrow> BatchUdfPolicy option \<Rightarrow> panic + aero_BatchUDFPolicy option" where
  "toBatchUDFPolicy g = on_pointer (\<lambda>p.
     sbind (toFilterExpression g (bup_filter_expression p)) (\<lambda>e.
       Inr \<lparr>buFilterExpression = e,
         buCommitLevel = bup_commit_level p,
         buExpiration = bup_expiration p,
         buDurableDelete = bup_durable_delete p,
         buSendKey = bup_send_key p\<rparr>))"

section \<open>Times\<close>

lemma Millisecond_word [simp]: "(of_nat Millisecond :: 'a::len word) = 1000000"
  by (simp add: Millisecond_def)

lemma unat_timeout32: "unat (timeout32 t) = unat t * 1000000 mod 2 ^ 32"
proof -
  have "unat t * 1000000 mod 2 ^ 32 < 2 ^ 64" by (rule less_trans [of _ "2 ^ 32"]) simp_all
  then show ?thesis
    by (simp add: timeout32_def unsigned_ucast_eq take_bit_eq_mod unat_word_ariths)
qed

lemma sint_millis:
  fixes t :: i64
  assumes "unat t \<le> 9223372036854"
  shows "sint (t * 1000000) = int (unat t) * 1000000"
proof -
  have "unat (t * 1000000) = unat t * 1000000"
    using assms by (simp add: unat_word_ariths)
  then have u: "uint (t * 1000000) = int (unat t) * 1000000"
    unfolding uint_nat by (simp only: of_nat_mult of_nat_numeral)
  have "int (unat t) * 1000000 \<le> 9223372036854000000" using assms by linarith
  also have "\<dots> < 2 ^ 63" by simp
  finally show ?thesis
    unfolding sint_uint u
    by (intro signed_take_bit_int_eq_self) (simp_all add: order_trans [of _ 0])
qed

section \<open>Which policies the manager can read\<close>

text \<open>The manager can read an optional filter expression.\<close>
definition filter_readable :: "go_externs \<Rightarrow> Expression option \<Rightarrow> bool" where
  "filter_readable g e \<longleftrightarrow> (\<forall>e' \<in> set_option e. \<exists>a. toExpression g e' = Inr a)"

lemma toFilterExpression_runs: "(\<exists>a. toFilterExpression g e = Inr a) \<longleftrightarrow> filter_readable g e"
  by (cases e) (auto simp: toFilterExpression_def filter_readable_def deref_exp_def)

lemma on_pointer_simps [simp]:
  "on_pointer f None = Inr None" "on_pointer f (Some a) = sbind (f a) (\<lambda>b. Inr (Some b))"
  by (simp_all add: on_pointer_def)

lemma deref_simps [simp]: "deref None = Inl NilDereference" "deref (Some a) = Inr a"
  by (simp_all add: deref_def)

text \<open>Reading a policy and passing the pointer on.\<close>
definition write_policy_read :: "go_externs \<Rightarrow> WritePolicy \<Rightarrow> panic + aero_WritePolicy" where
  "write_policy_read g p = sbind (toWritePolicy g (Some p)) deref"

definition batch_policy_read :: "go_externs \<Rightarrow> BatchPolicy \<Rightarrow> panic + aero_BatchPolicy" where
  "batch_policy_read g p = sbind (toBatchPolicy g (Some p)) deref"

definition scan_policy_read :: "go_externs \<Rightarrow> ScanPolicy \<Rightarrow> panic + aero_MultiPolicy" where
  "scan_policy_read g p = sbind (toScanPolicy g (Some p)) deref"

definition query_policy_read :: "go_externs \<Rightarrow> QueryPolicy \<Rightarrow> panic + aero_QueryPolicy" where
  "query_policy_read g p = sbind (toQueryPolicy g (Some p)) deref"

text \<open>
  The square of an assignment: assigning a property and sending the policy gives the library
  the policy it would have got, changed in one field.
\<close>
definition arrives :: "('p \<Rightarrow> panic + 'p) \<Rightarrow> ('p \<Rightarrow> panic + 'q) \<Rightarrow> ('q \<Rightarrow> 'q) \<Rightarrow> 'p \<Rightarrow> bool" where
  "arrives assign rd upd p \<longleftrightarrow> sbind (assign p) rd = sbind (rd p) (\<lambda>q. Inr (upd q))"

lemma arrives_comp:
  assumes "arrives f rd u p" and "\<And>p'. f p = Inr p' \<Longrightarrow> arrives f' rd u' p'"
  shows "arrives (\<lambda>p. sbind (f p) f') rd (u' \<circ> u) p"
  using assms by (cases "f p"; cases "rd p") (auto simp: arrives_def sbind_assoc)

lemmas policy_readers = write_policy_read_def batch_policy_read_def scan_policy_read_def
  query_policy_read_def toWritePolicy_def toBatchPolicy_def toScanPolicy_def toQueryPolicy_def
  toMultiPolicy_def base_policy_def toReadPolicy_def

section \<open>Properties\<close>

text \<open>C21. Assigning a property of a write or batch policy, the policy having its base policy and
  number of concurrent nodes as every policy that the client makes: what the library gets
  differs in exactly one field, which has the assigned value. A time arrives as its
  milliseconds times 1000000 modulo 2 to the 64, so very long times wrap around. The flag for
  partial results of a batch policy arrives in the field for a response for every key. A
  filter expression arrives as the expression the manager reads from the assigned one; if it
  cannot read it, it panics.\<close>
theorem policy_assignments_arrive:
  assumes "WritePolicy_ok w" and "BatchPolicy_ok p" and "bp_concurrent_nodes p \<noteq> None"
  shows "arrives (WritePolicy_set_record_exists_action rea) (write_policy_read g) (wRecordExistsAction_update (\<lambda>_. RecordExistsAction_into_i32 rea)) w \<and>
    arrives (WritePolicy_set_generation_policy gp) (write_policy_read g) (wGenerationPolicy_update (\<lambda>_. GenerationPolicy_into_i32 gp)) w \<and>
    arrives (WritePolicy_set_commit_level cl) (write_policy_read g) (wCommitLevel_update (\<lambda>_. CommitLevel_into_i32 cl)) w \<and>
    arrives (WritePolicy_set_generation n) (write_policy_read g) (wGeneration_update (\<lambda>_. n)) w \<and>
    arrives (WritePolicy_set_expiration ex) (write_policy_read g) (wExpiration_update (\<lambda>_. Expiration_into_u32 ex)) w \<and>
    arrives (WritePolicy_set_respond_per_each_op b) (write_policy_read g) (wRespondPerEachOp_update (\<lambda>_. b)) w \<and>
    arrives (WritePolicy_set_durable_delete b) (write_policy_read g) (wDurableDelete_update (\<lambda>_. b)) w \<and>
    arrives (WritePolicy_set_max_retries n) (write_policy_read g) (wBasePolicy_update (MaxRetries_update (\<lambda>_. ucast n))) w \<and>
    arrives (WritePolicy_set_sleep_multiplier f) (write_policy_read g) (wBasePolicy_update (SleepMultiplier_update (\<lambda>_. f))) w \<and>
    arrives (WritePolicy_set_total_timeout t) (write_policy_read g) (wBasePolicy_update (TotalTimeout_update (\<lambda>_. t * 1000000))) w \<and>
    arrives (WritePolicy_set_socket_timeout t) (write_policy_read g) (wBasePolicy_update (SocketTimeout_update (\<lambda>_. t * 1000000))) w \<and>
    arrives (WritePolicy_set_send_key b) (write_policy_read g) (wBasePolicy_update (SendKey_update (\<lambda>_. b))) w \<and>
    arrives (WritePolicy_set_use_compression b) (write_policy_read g) (wBasePolicy_update (UseCompression_update (\<lambda>_. b))) w \<and>
    arrives (WritePolicy_set_exit_fast_on_exhausted_connection_pool b) (write_policy_read g) (wBasePolicy_update (ExitFastOnExhaustedConnectionPool_update (\<lambda>_. b))) w \<and>
    arrives (WritePolicy_set_read_mode_ap ap) (write_policy_read g) (wBasePolicy_update (ReadModeAP_update (\<lambda>_. ReadModeAP_into_i32 ap))) w \<and>
    arrives (WritePolicy_set_read_mode_sc sc) (write_policy_read g) (wBasePolicy_update (ReadModeSC_update (\<lambda>_. ReadModeSC_into_i32 sc))) w \<and>
    arrives (BatchPolicy_set_concurrent_nodes i) (batch_policy_read g) (ConcurrentNodes_update (\<lambda>_. scast i)) p \<and>
    arrives (BatchPolicy_set_allow_inline b) (batch_policy_read g) (AllowInline_update (\<lambda>_. b)) p \<and>
    arrives (BatchPolicy_set_allow_inline_ssd b) (batch_policy_read g) (AllowInlineSSD_update (\<lambda>_. b)) p \<and>
    arrives (BatchPolicy_set_respond_all_keys b) (batch_policy_read g) (RespondAllKeys_update (\<lambda>_. b)) p \<and>
    arrives (BatchPolicy_set_allow_partial_results b) (batch_policy_read g) (RespondAllKeys_update (\<lambda>_. b)) p \<and>
    arrives (BatchPolicy_set_max_retries n) (batch_policy_read g) (bBasePolicy_update (MaxRetries_update (\<lambda>_. ucast n))) p \<and>
    arrives (BatchPolicy_set_sleep_multiplier f) (batch_policy_read g) (bBasePolicy_update (SleepMultiplier_update (\<lambda>_. f))) p \<and>
    arrives (BatchPolicy_set_total_timeout t) (batch_policy_read g) (bBasePolicy_update (TotalTimeout_update (\<lambda>_. t * 1000000))) p \<and>
    arrives (BatchPolicy_set_socket_timeout t) (batch_policy_read g) (bBasePolicy_update (SocketTimeout_update (\<lambda>_. t * 1000000))) p \<and>
    arrives (BatchPolicy_set_send_key b) (batch_policy_read g) (bBasePolicy_update (SendKey_update (\<lambda>_. b))) p \<and>
    arrives (BatchPolicy_set_use_compression b) (batch_policy_read g) (bBasePolicy_update (UseCompression_update (\<lambda>_. b))) p \<and>
    arrives (BatchPolicy_set_exit_fast_on_exhausted_connection_pool b) (batch_policy_read g) (bBasePolicy_update (ExitFastOnExhaustedConnectionPool_update (\<lambda>_. b))) p \<and>
    arrives (BatchPolicy_set_read_mode_ap ap) (batch_policy_read g) (bBasePolicy_update (ReadModeAP_update (\<lambda>_. ReadModeAP_into_i32 ap))) p \<and>
    arrives (BatchPolicy_set_read_mode_sc sc) (batch_policy_read g) (bBasePolicy_update (ReadModeSC_update (\<lambda>_. ReadModeSC_into_i32 sc))) p \<and>
    (\<forall>q. write_policy_read g w = Inr q \<longrightarrow>
      sbind (WritePolicy_set_filter_expression fe w) (write_policy_read g) =
        sbind (toFilterExpression g fe) (\<lambda>e. Inr (wBasePolicy_update (FilterExpression_update (\<lambda>_. e)) q))) \<and>
    (\<forall>q. batch_policy_read g p = Inr q \<longrightarrow>
      sbind (BatchPolicy_set_filter_expression fe p) (batch_policy_read g) =
        sbind (toFilterExpression g fe) (\<lambda>e. Inr (bBasePolicy_update (FilterExpression_update (\<lambda>_. e)) q)))"
proof -
  obtain r where r: "wp_policy w = Some r" using assms(1) by (auto simp: WritePolicy_ok_def)
  obtain r' where r': "bp_policy p = Some r'" using assms(2) by (auto simp: BatchPolicy_ok_def)
  obtain n' where n': "bp_concurrent_nodes p = Some n'" using assms(3) by blast
  show ?thesis
    by (intro conjI; cases "toFilterExpression g (rp_filter_expression r)";
        cases "toFilterExpression g (rp_filter_expression r')"; cases "toFilterExpression g fe")
      (simp_all add: arrives_def policy_readers WritePolicy_accessors BatchPolicy_accessors r r' n')
qed

theorem policy_assignments_arrive_witness:
  "sbind (sbind (WritePolicy_set_total_timeout 250 WritePolicy_default) (write_policy_read go_externs0))
     (\<lambda>q. Inr (TotalTimeout (wBasePolicy q))) = Inr 250000000"
proof -
  have ok: "WritePolicy_ok WritePolicy_default" "BatchPolicy_ok BatchPolicy_default"
    "bp_concurrent_nodes BatchPolicy_default \<noteq> None"
    by (simp_all add: WritePolicy_ok_def WritePolicy_default_def BatchPolicy_ok_def BatchPolicy_default_def)
  have rd: "\<exists>q. write_policy_read go_externs0 WritePolicy_default = Inr q"
    by (simp add: policy_readers WritePolicy_default_def proto_ReadPolicy_default_def
        toFilterExpression_def deref_exp_def)
  have "arrives (WritePolicy_set_total_timeout 250) (write_policy_read go_externs0)
      (wBasePolicy_update (TotalTimeout_update (\<lambda>_. 250 * 1000000))) WritePolicy_default"
    using policy_assignments_arrive [OF ok, of _ go_externs0 _ _ _ _ _ _ 250] by blast
  with rd show ?thesis by (auto simp: arrives_def)
qed

text \<open>Assigning a property of a scan or query policy changes exactly one field of the policy
  that the library gets, to the assigned value.\<close>
lemma scan_query_assignments_arrive:
  assumes "ScanPolicy_ok s" and "QueryPolicy_ok q"
  shows "arrives (ScanPolicy_set_max_records t) (scan_policy_read g) (MaxRecords_update (\<lambda>_. t)) s \<and>
    arrives (ScanPolicy_set_max_concurrent_nodes n) (scan_policy_read g) (MaxConcurrentNodes_update (\<lambda>_. ucast n)) s \<and>
    arrives (ScanPolicy_set_record_queue_size n) (scan_policy_read g) (RecordQueueSize_update (\<lambda>_. ucast n)) s \<and>
    arrives (ScanPolicy_set_max_retries n) (scan_policy_read g) (mBasePolicy_update (MaxRetries_update (\<lambda>_. ucast n))) s \<and>
    arrives (ScanPolicy_set_sleep_multiplier f) (scan_policy_read g) (mBasePolicy_update (SleepMultiplier_update (\<lambda>_. f))) s \<and>
    arrives (ScanPolicy_set_total_timeout t) (scan_policy_read g) (mBasePolicy_update (TotalTimeout_update (\<lambda>_. t * 1000000))) s \<and>
    arrives (ScanPolicy_set_socket_timeout t) (scan_policy_read g) (mBasePolicy_update (SocketTimeout_update (\<lambda>_. t * 1000000))) s \<and>
    arrives (ScanPolicy_set_send_key b) (scan_policy_read g) (mBasePolicy_update (SendKey_update (\<lambda>_. b))) s \<and>
    arrives (ScanPolicy_set_use_compression b) (scan_policy_read g) (mBasePolicy_update (UseCompression_update (\<lambda>_. b))) s \<and>
    arrives (ScanPolicy_set_exit_fast_on_exhausted_connection_pool b) (scan_policy_read g) (mBasePolicy_update (ExitFastOnExhaustedConnectionPool_update (\<lambda>_. b))) s \<and>
    arrives (ScanPolicy_set_read_mode_ap ap) (scan_policy_read g) (mBasePolicy_update (ReadModeAP_update (\<lambda>_. ReadModeAP_into_i32 ap))) s \<and>
    arrives (ScanPolicy_set_read_mode_sc sc) (scan_policy_read g) (mBasePolicy_update (ReadModeSC_update (\<lambda>_. ReadModeSC_into_i32 sc))) s \<and>
    arrives (QueryPolicy_set_expected_duration qd) (query_policy_read g) (ExpectedDuration_update (\<lambda>_. QueryDuration_into_i32 qd)) q \<and>
    arrives (QueryPolicy_set_max_concurrent_nodes n) (query_policy_read g) (qMultiPolicy_update (MaxConcurrentNodes_update (\<lambda>_. ucast n))) q \<and>
    arrives (QueryPolicy_set_record_queue_size n) (query_policy_read g) (qMultiPolicy_update (RecordQueueSize_update (\<lambda>_. ucast n))) q \<and>
    arrives (QueryPolicy_set_max_retries n) (query_policy_read g) (qMultiPolicy_update (mBasePolicy_update (MaxRetries_update (\<lambda>_. ucast n)))) q \<and>
    arrives (QueryPolicy_set_sleep_multiplier f) (query_policy_read g) (qMultiPolicy_update (mBasePolicy_update (SleepMultiplier_update (\<lambda>_. f)))) q \<and>
    arrives (QueryPolicy_set_total_timeout t) (query_policy_read g) (qMultiPolicy_update (mBasePolicy_update (TotalTimeout_update (\<lambda>_. t * 1000000)))) q \<and>
    arrives (QueryPolicy_set_socket_timeout t) (query_policy_read g) (qMultiPolicy_update (mBasePolicy_update (SocketTimeout_update (\<lambda>_. t * 1000000)))) q \<and>
    arrives (QueryPolicy_set_send_key b) (query_policy_read g) (qMultiPolicy_update (mBasePolicy_update (SendKey_update (\<lambda>_. b)))) q \<and>
    arrives (QueryPolicy_set_use_compression b) (query_policy_read g) (qMultiPolicy_update (mBasePolicy_update (UseCompression_update (\<lambda>_. b)))) q \<and>
    arrives (QueryPolicy_set_exit_fast_on_exhausted_connection_pool b) (query_policy_read g) (qMultiPolicy_update (mBasePolicy_update (ExitFastOnExhaustedConnectionPool_update (\<lambda>_. b)))) q \<and>
    arrives (QueryPolicy_set_read_mode_ap ap) (query_policy_read g) (qMultiPolicy_update (mBasePolicy_update (ReadModeAP_update (\<lambda>_. ReadModeAP_into_i32 ap)))) q \<and>
    arrives (QueryPolicy_set_read_mode_sc sc) (query_policy_read g) (qMultiPolicy_update (mBasePolicy_update (ReadModeSC_update (\<lambda>_. ReadModeSC_into_i32 sc)))) q"
proof -
  obtain m r where m: "sp_multi_policy s = Some m" "mp_read_policy m = Some r"
    using assms(1) unfolding ScanPolicy_ok_def by (rule MultiPolicy_okE)
  obtain m' r' where m': "qp_multi_policy q = Some m'" "mp_read_policy m' = Some r'"
    using assms(2) unfolding QueryPolicy_ok_def by (rule MultiPolicy_okE)
  show ?thesis
    by (intro conjI; cases "toFilterExpression g (rp_filter_expression r)";
        cases "toFilterExpression g (rp_filter_expression r')";
        simp add: arrives_def policy_readers ScanPolicy_accessors QueryPolicy_accessors m m')
qed

theorem scan_query_assignments_arrive_witness:
  "sbind (sbind (ScanPolicy_set_max_records 9 ScanPolicy_default) (scan_policy_read go_externs0))
     (\<lambda>q. Inr (MaxRecords q)) = Inr 9"
proof -
  have rd: "\<exists>q. scan_policy_read go_externs0 ScanPolicy_default = Inr q"
    by (simp add: policy_readers ScanPolicy_default_def MultiPolicy_default_def ReadPolicy_default_def
        ReadPolicy_set_total_timeout_def toFilterExpression_def deref_exp_def)
  have ok: "ScanPolicy_ok ScanPolicy_default" "QueryPolicy_ok QueryPolicy_default"
    using default_policies_ok by auto
  have "arrives (ScanPolicy_set_max_records 9) (scan_policy_read go_externs0)
      (MaxRecords_update (\<lambda>_. 9)) ScanPolicy_default"
    using scan_query_assignments_arrive [OF ok, of 9] by blast
  with rd show ?thesis by (auto simp: arrives_def)
qed

text \<open>The manager can read a policy of the client exactly when it can read its filter
  expression: the policies that the client makes have their base policy and number of
  concurrent nodes set.\<close>
lemma policies_readable:
  assumes "wp_policy w = Some r" and "bp_policy p = Some r'" and "bp_concurrent_nodes p = Some n"
  shows "((\<exists>q. toReadPolicy g (Some r) = Inr (Some q)) \<longleftrightarrow> filter_readable g (rp_filter_expression r)) \<and>
    ((\<exists>q. toWritePolicy g (Some w) = Inr (Some q)) \<longleftrightarrow> filter_readable g (rp_filter_expression r)) \<and>
    ((\<exists>q. toBatchPolicy g (Some p) = Inr (Some q)) \<longleftrightarrow> filter_readable g (rp_filter_expression r'))"
  unfolding toFilterExpression_runs [symmetric]
  by (cases "toFilterExpression g (rp_filter_expression r)";
      cases "toFilterExpression g (rp_filter_expression r')")
    (simp_all add: policy_readers assms)

theorem policies_readable_witness:
  "\<exists>q. toBatchPolicy go_externs0 (Some BatchPolicy_default) = Inr (Some q)"
  using policies_readable [of WritePolicy_default proto_ReadPolicy_default BatchPolicy_default
      ReadPolicy_default 1 go_externs0]
  by (simp add: WritePolicy_default_def BatchPolicy_default_def filter_readable_def ReadPolicy_default_def
      proto_ReadPolicy_default_def)

text \<open>C37. Times. The total timeout of a read policy arrives as that many milliseconds if it is
  below 9223372036855 ms, and so does its socket timeout. The timeout of an admin or info policy is multiplied in 32
  bits: it arrives as meant exactly up to 4294 ms, and no timeout the client can set makes
  the library wait longer than 4.295 seconds.\<close>
theorem policy_timeouts:
  "(\<forall>q. unat (rp_total_timeout r) \<le> 9223372036854 \<and> toReadPolicy g (Some r) = Inr (Some q) \<longrightarrow>
     sint (TotalTimeout q) = int (unat (rp_total_timeout r)) * 1000000) \<and>
   (\<forall>q. unat (rp_socket_timeout r) \<le> 9223372036854 \<and> toReadPolicy g (Some r) = Inr (Some q) \<longrightarrow>
     sint (SocketTimeout q) = int (unat (rp_socket_timeout r)) * 1000000) \<and>
   (unat (the (toAdminPolicy (Some a))) = unat (ap_timeout a) * 1000000 \<longleftrightarrow> unat (ap_timeout a) \<le> 4294) \<and>
   (unat (the (toInfoPolicy (Some i))) = unat (ip_timeout i) * 1000000 \<longleftrightarrow> unat (ip_timeout i) \<le> 4294) \<and>
   unat (the (toAdminPolicy (Some a))) < 4295000000 \<and> unat (the (toInfoPolicy (Some i))) < 4295000000"
proof -
  have exact: "unat (timeout32 t) = unat t * 1000000 \<longleftrightarrow> unat t \<le> 4294" for t
    unfolding unat_timeout32 by (auto simp: mod_eq_self_iff_div_eq_0)
  have small: "unat (timeout32 t) < 4295000000" for t
    unfolding unat_timeout32 by (rule less_trans [of _ "2 ^ 32"]) simp_all
  show ?thesis
    by (auto simp: toAdminPolicy_def toInfoPolicy_def exact small policy_readers sint_millis sbind_Inr_iff
        simp del: of_nat_unat)
qed

theorem policy_timeouts_witness:
  "sint (TotalTimeout (the (projr (toReadPolicy go_externs0 (Some ReadPolicy_default))))) = 1000000000 \<and>
   unat (the (toAdminPolicy (Some \<lparr>ap_timeout = 5000\<rparr>))) \<noteq> 5000 * 1000000"
proof -
  have rd: "\<exists>q. toReadPolicy go_externs0 (Some ReadPolicy_default) = Inr (Some q)"
    by (simp add: policy_readers ReadPolicy_default_def toFilterExpression_def deref_exp_def)
  with policy_timeouts [of ReadPolicy_default go_externs0 "\<lparr>ap_timeout = 5000\<rparr>" InfoPolicy_default]
  show ?thesis by (auto simp: ReadPolicy_default_def)
qed

end
