(* ===== verification/Manager_Records.thy ===== *)
theory Manager_Records
  imports Manager_Collections Client Manager_Policies
begin

text \<open>
  How the connection manager (\<^verbatim>\<open>aerospike-connection-manager/kvs.go\<close>) reads keys, bins,
  filters, statements and privileges, and how it writes keys, records, errors, UDFs, users
  and roles back. The objects of the Go library are records of what the manager puts in or
  takes out; what the library computes (a key from a namespace, a set and a value, the names
  of the privileges) is a parameter.
\<close>

section \<open>Objects of the Go library\<close>

record aero_key =
  ak_namespace :: string
  ak_set_name :: string
  ak_value :: go_any
  ak_digest :: bytes

record aero_record =
  arec_key :: "aero_key option"
  arec_generation :: u32
  arec_expiration :: u32
  arec_bins :: "(string \<times> go_any) list"

text \<open>
  An error of the library: the type \<^verbatim>\<open>*aero.AerospikeError\<close> with its result code (a Go
  \<^verbatim>\<open>int\<close>) and doubt, or another implementation of the interface.
\<close>
datatype aero_error = AerospikeError i64 bool | OtherError

record aero_batch_record =
  abr_key :: "aero_key option"
  abr_record :: "aero_record option"
  abr_err :: "aero_error option"
  abr_in_doubt :: bool

datatype privilege_code =
    UserAdmin | SysAdmin | DataAdmin | UDFAdmin | SIndexAdmin | ReadWriteUDF | ReadWrite | ReadPriv
  | WritePriv | TruncatePriv

record aero_privilege =
  apr_code :: privilege_code
  apr_namespace :: string
  apr_set_name :: string

record aero_role =
  aro_name :: string
  aro_privileges :: "aero_privilege list"
  aro_whitelist :: "string list"
  aro_read_quota :: u32
  aro_write_quota :: u32

record aero_user =
  aus_user :: string
  aus_roles :: "string list"
  aus_read_info :: "i64 list"
  aus_write_info :: "i64 list"
  aus_conns_in_use :: i64

datatype aero_language = LUA | OtherLanguage

record aero_udf =
  aud_filename :: string
  aud_hash :: string
  aud_language :: aero_language

record aero_filter =
  afl_name :: string
  afl_collection_type :: IndexCollectionType
  afl_particle_type :: i64
  afl_begin :: aero_value
  afl_end :: aero_value
  afl_ctx :: "aero_ctx list"

record aero_statement =
  ast_namespace :: string
  ast_set_name :: string
  ast_index_name :: string
  ast_bin_names :: "string list"
  ast_filter :: "aero_filter option"
  ast_task_id :: u64
  ast_return_data :: bool

record aero_partition_status =
  aps_bval :: i64
  aps_id :: i64
  aps_retry :: bool
  aps_digest :: bytes

record aero_partition_filter =
  apf_begin :: i64
  apf_count :: i64
  apf_digest :: bytes
  apf_partitions :: "aero_partition_status list"
  apf_done :: bool
  apf_retry :: bool

text \<open>
  Functions and constants of the library: \<^verbatim>\<open>NewKey\<close> (an error, or the key with its
  digest) and the text of each privilege constant.
\<close>
record go_library =
  NewKey :: "string \<Rightarrow> string \<Rightarrow> aero_value \<Rightarrow> string + aero_key"
  privilege_text :: "privilege_code \<Rightarrow> string"

text \<open>
  What the library documents: a new key has the namespace and set it was made for, a digest
  of 20 bytes, and cannot be made of the null value; the privileges have different texts.
\<close>
definition go_library_ok :: "go_library \<Rightarrow> bool" where
  "go_library_ok L \<longleftrightarrow>
     (\<forall>ns s v k. NewKey L ns s v = Inr k \<longrightarrow>
        ak_namespace k = ns \<and> ak_set_name k = s \<and> length (ak_digest k) = 20) \<and>
     (\<forall>ns s. \<exists>e. NewKey L ns s NullValue = Inl e) \<and> inj (privilege_text L)"

section \<open>Reading requests\<close>

text \<open>\<^verbatim>\<open>toKey\<close>: the digest of the message is not used.\<close>
definition toKey :: "go_library \<Rightarrow> Key option \<Rightarrow> panic + aero_key option" where
  "toKey L = on_pointer (\<lambda>k.
     sbind (toValue_opt (key_value k)) (\<lambda>v.
       case NewKey L (case namespace k of Some n \<Rightarrow> n | None \<Rightarrow> [])
           (case setname k of Some s \<Rightarrow> s | None \<Rightarrow> []) v of
         Inl err \<Rightarrow> Inl GoPanic
       | Inr key \<Rightarrow> Inr key))"

definition toBins :: "Bin list \<Rightarrow> panic + (string \<times> aero_value) list" where
  "toBins bins = ssequence (map (\<lambda>b. sbind (toValue_opt (bin_value b)) (\<lambda>v. Inr (bin_name b, v))) bins)"

definition toValues :: "proto_Value list \<Rightarrow> panic + aero_value list" where
  "toValues vs = ssequence (map toValue vs)"

definition toIndexType :: "i32 \<Rightarrow> panic + IndexType" where
  "toIndexType n =
     (if n = IndexType_into_i32 IT_Numeric then Inr IT_Numeric
      else if n = IndexType_into_i32 IT_String then Inr IT_String
      else if n = IndexType_into_i32 IT_Blob then Inr IT_Blob
      else if n = IndexType_into_i32 IT_Geo2DSphere then Inr IT_Geo2DSphere
      else Inl Unreachable)"

definition toIndexCollectionType :: "i32 \<Rightarrow> panic + IndexCollectionType" where
  "toIndexCollectionType n =
     (if n = IndexCollectionType_into_i32 ICT_Default then Inr ICT_Default
      else if n = IndexCollectionType_into_i32 ICT_List then Inr ICT_List
      else if n = IndexCollectionType_into_i32 ICT_MapKeys then Inr ICT_MapKeys
      else if n = IndexCollectionType_into_i32 ICT_MapValues then Inr ICT_MapValues
      else Inl Unreachable)"

definition toFilter :: "Filter option \<Rightarrow> panic + aero_filter option" where
  "toFilter = on_pointer (\<lambda>f.
     sbind (toIndexCollectionType (filter_idx_type f)) (\<lambda>ct.
     sbind (toValue_opt (filter_begin f)) (\<lambda>b.
     sbind (toValue_opt (filter_end f)) (\<lambda>e.
     sbind (toCDTContexts (filter_ctx f)) (\<lambda>ctx.
       Inr \<lparr>afl_name = filter_name f, afl_collection_type = ct,
         afl_particle_type = ucast (filter_value_particle_type f), afl_begin = b, afl_end = e,
         afl_ctx = ctx\<rparr>)))))"

definition toStatement :: "Statement option \<Rightarrow> panic + aero_statement option" where
  "toStatement = on_pointer (\<lambda>s.
     sbind (toFilter (st_filter s)) (\<lambda>f.
       Inr \<lparr>ast_namespace = st_namespace s, ast_set_name = st_set_name s,
         ast_index_name = (case st_index_name s of Some n \<Rightarrow> n | None \<Rightarrow> []),
         ast_bin_names = st_bin_names s, ast_filter = f, ast_task_id = st_task_id s,
         ast_return_data = st_return_data s\<rparr>))"

definition toPartitionStatus :: "PartitionStatus \<Rightarrow> aero_partition_status" where
  "toPartitionStatus ps =
     \<lparr>aps_bval = (case ps_bval ps of Some b \<Rightarrow> b | None \<Rightarrow> 0), aps_id = ucast (ps_id ps),
      aps_retry = ps_retry ps, aps_digest = ps_digest ps\<rparr>"

definition toPartitionStatuses :: "PartitionStatus list \<Rightarrow> aero_partition_status list" where
  "toPartitionStatuses pss = map toPartitionStatus pss"

definition toPartitionFilter :: "PartitionFilter option \<Rightarrow> aero_partition_filter option" where
  "toPartitionFilter = map_option (\<lambda>pf.
     \<lparr>apf_begin = ucast (pf_begin pf), apf_count = ucast (pf_count pf), apf_digest = pf_digest pf,
      apf_partitions = toPartitionStatuses (pf_partitions pf), apf_done = pf_done pf,
      apf_retry = pf_retry pf\<rparr>)"

text \<open>The cases of the switch of \<^verbatim>\<open>toPrivilege\<close>, in their order.\<close>
definition privilege_cases :: "privilege_code list" where
  "privilege_cases =
     [UserAdmin, SysAdmin, DataAdmin, UDFAdmin, SIndexAdmin, ReadWriteUDF, ReadWrite, ReadPriv,
      WritePriv, TruncatePriv]"

definition toPrivilege :: "go_library \<Rightarrow> Privilege \<Rightarrow> panic + aero_privilege" where
  "toPrivilege L p =
     (case find (\<lambda>c. priv_name p = privilege_text L c) privilege_cases of
        Some c \<Rightarrow> Inr \<lparr>apr_code = c, apr_namespace = priv_namespace p, apr_set_name = priv_set_name p\<rparr>
      | None \<Rightarrow> Inl Unreachable)"

definition toPrivileges :: "go_library \<Rightarrow> Privilege list \<Rightarrow> panic + aero_privilege list" where
  "toPrivileges L ps = ssequence (map (toPrivilege L) ps)"

definition toLanguage :: "i32 \<Rightarrow> panic + aero_language" where
  "toLanguage n = (if n = UdfLanguage_into_i32 Lua then Inr LUA else Inl Unreachable)"

text \<open>A time is its distance from the epoch in nanoseconds.\<close>
definition toTime :: "i64 option \<Rightarrow> i64 option" where
  "toTime t = t"

section \<open>Writing answers\<close>

text \<open>\<^verbatim>\<open>in.(*aero.AerospikeError)\<close>, and \<^verbatim>\<open>int32\<close> of the result code.\<close>
definition fromError :: "aero_error option \<Rightarrow> panic + proto_Error option" where
  "fromError = on_pointer (\<lambda>e.
     case e of
       AerospikeError code in_doubt \<Rightarrow> Inr \<lparr>result_code = ucast code, pe_in_doubt = in_doubt\<rparr>
     | OtherError \<Rightarrow> Inl TypeAssertion)"

definition fromError2 :: "aero_error option \<Rightarrow> bool \<Rightarrow> panic + proto_Error option" where
  "fromError2 err in_doubt =
     (case err of
        Some (AerospikeError code _) \<Rightarrow> Inr (Some \<lparr>result_code = ucast code, pe_in_doubt = in_doubt\<rparr>)
      | Some OtherError \<Rightarrow> Inl TypeAssertion
      | None \<Rightarrow>
          (if in_doubt then Inr (Some \<lparr>result_code = 0, pe_in_doubt = in_doubt\<rparr>) else Inr None))"

definition fromKey :: "aero_key option \<Rightarrow> panic + Key option" where
  "fromKey = on_pointer (\<lambda>k.
     sbind (fromValue (ak_value k)) (\<lambda>v.
       Inr \<lparr>digest = Some (ak_digest k), namespace = Some (ak_namespace k),
         setname = Some (ak_set_name k), key_value = Some v\<rparr>))"

text \<open>A map of bins, as its entries in iteration order.\<close>
definition fromBins :: "(string \<times> go_any) list \<Rightarrow> panic + (string \<times> proto_Value) list" where
  "fromBins bins =
     (if length bins > 0 then
        ssequence (map (\<lambda>(k, v). sbind (fromValue v) (\<lambda>v'. Inr (k, v'))) bins)
      else Inr [])"

definition fromRecord :: "aero_record option \<Rightarrow> panic + Record option" where
  "fromRecord = on_pointer (\<lambda>r.
     sbind (fromKey (arec_key r)) (\<lambda>k.
     sbind (fromBins (arec_bins r)) (\<lambda>bins.
       Inr \<lparr>rec_key = k, rec_generation = arec_generation r, rec_expiration = arec_expiration r,
         rec_bins = bins\<rparr>)))"

definition fromBatchRecord :: "aero_batch_record \<Rightarrow> panic + BatchRecord" where
  "fromBatchRecord br =
     sbind (fromKey (abr_key br)) (\<lambda>k.
     sbind (fromRecord (abr_record br)) (\<lambda>r.
     sbind (fromError2 (abr_err br) (abr_in_doubt br)) (\<lambda>e.
       Inr \<lparr>brec_key = k, brec_record = r, brec_error = e\<rparr>)))"

definition fromBatchRecords :: "aero_batch_record list \<Rightarrow> panic + BatchRecord list" where
  "fromBatchRecords brs = ssequence (map fromBatchRecord brs)"

definition fromPrivilege :: "go_library \<Rightarrow> aero_privilege \<Rightarrow> Privilege" where
  "fromPrivilege L p =
     \<lparr>priv_name = privilege_text L (apr_code p), priv_namespace = apr_namespace p,
      priv_set_name = apr_set_name p\<rparr>"

definition fromPrivileges :: "go_library \<Rightarrow> aero_privilege list \<Rightarrow> Privilege list" where
  "fromPrivileges L ps = map (fromPrivilege L) ps"

text \<open>The library answers with pointers; the fields of a nil pointer panic.\<close>
definition fromRole :: "go_library \<Rightarrow> aero_role option \<Rightarrow> panic + Role" where
  "fromRole L r =
     sbind (deref r) (\<lambda>r.
       Inr \<lparr>role_name = aro_name r, role_privileges = fromPrivileges L (aro_privileges r),
         role_allowlist = aro_whitelist r, role_read_quota = aro_read_quota r,
         role_write_quota = aro_write_quota r\<rparr>)"

definition fromRoles :: "go_library \<Rightarrow> aero_role option list \<Rightarrow> panic + Role list" where
  "fromRoles L rs = ssequence (map (fromRole L) rs)"

text \<open>\<^verbatim>\<open>convIntList[int, uint64]\<close>: the conversion keeps the bits.\<close>
definition convIntList :: "i64 list \<Rightarrow> u64 list" where
  "convIntList l = map ucast l"

definition fromUserRole :: "aero_user option \<Rightarrow> panic + UserRole" where
  "fromUserRole u =
     sbind (deref u) (\<lambda>u.
       Inr \<lparr>ur_user = aus_user u, ur_roles = aus_roles u, ur_read_info = convIntList (aus_read_info u),
         ur_write_info = convIntList (aus_write_info u), ur_conns_in_use = aus_conns_in_use u\<rparr>)"

definition fromUserRoles :: "aero_user option list \<Rightarrow> panic + UserRole list" where
  "fromUserRoles us = ssequence (map fromUserRole us)"

definition fromLanguage :: "aero_language \<Rightarrow> panic + i32" where
  "fromLanguage l = (case l of LUA \<Rightarrow> Inr (UdfLanguage_into_i32 Lua) | OtherLanguage \<Rightarrow> Inl Unreachable)"

definition fromUDF :: "aero_udf \<Rightarrow> panic + UdfMeta" where
  "fromUDF u =
     sbind (fromLanguage (aud_language u)) (\<lambda>l.
       Inr \<lparr>um_package_name = aud_filename u, um_hash = aud_hash u, um_language = l\<rparr>)"

definition fromUDFs :: "aero_udf list \<Rightarrow> panic + UdfMeta list" where
  "fromUDFs us = ssequence (map fromUDF us)"

section \<open>Laws\<close>

lemma find_first: "inj f \<Longrightarrow> x \<in> set xs \<Longrightarrow> find (\<lambda>y. f x = f y) xs = Some x"
  by (induction xs) (auto dest: injD)

lemma privilege_cases_complete: "c \<in> set privilege_cases"
  by (cases c) (simp_all add: privilege_cases_def)

lemma toPrivilege_fromPrivilege: "inj (privilege_text L) \<Longrightarrow> toPrivilege L (fromPrivilege L p) = Inr p"
  by (simp add: toPrivilege_def fromPrivilege_def find_first [OF _ privilege_cases_complete])

lemma toValue_opt_Some [simp]: "toValue_opt (Some v) = toValue v"
  by (simp add: toValue_opt_def or_null_def)

lemma toKey_constructed:
  "toKey L (Some (Key_construct ns s v)) =
     sbind (toValue (Value_from_PHPValue v)) (\<lambda>a.
       case NewKey L ns s a of Inl e \<Rightarrow> Inl GoPanic | Inr k \<Rightarrow> Inr (Some k))"
  by (cases "toValue (Value_from_PHPValue v)")
    (auto simp: toKey_def Key_construct_def split: sum.splits)

lemma toIndexType_into [simp]: "toIndexType (IndexType_into_i32 t) = Inr t"
  by (cases t) (simp_all add: toIndexType_def)

lemma toIndexCollectionType_into [simp]: "toIndexCollectionType (IndexCollectionType_into_i32 t) = Inr t"
  by (cases t) (simp_all add: toIndexCollectionType_def)

lemma toLanguage_into [simp]: "toLanguage (UdfLanguage_into_i32 l) = Inr LUA"
  by (cases l) (simp add: toLanguage_def)

text \<open>The bins of a record whose values the manager can send, as the client decodes them.\<close>
lemma fromBins_sendable:
  assumes "\<And>n v. (n, v) \<in> set bins \<Longrightarrow> sendable v \<and> wire_stable x (php_value_of v)"
  shows "\<exists>ps. fromBins bins = Inr ps \<and> map fst ps = map fst bins \<and>
    (\<forall>(n, p) \<in> set ps. \<exists>v. (n, v) \<in> set bins \<and> PHPValue_from_Value x p = ret (php_value_of v))"
proof -
  have "\<exists>ps. ssequence (map (\<lambda>(k, v). sbind (fromValue v) (\<lambda>v'. Inr (k, v'))) bins) = Inr ps \<and>
      map fst ps = map fst bins \<and>
      (\<forall>(n, p) \<in> set ps. \<exists>v. (n, v) \<in> set bins \<and> PHPValue_from_Value x p = ret (php_value_of v))"
    using assms
  proof (induction bins)
    case (Cons b bins)
    obtain n v where b: "b = (n, v)" by (cases b)
    obtain p where p: "fromValue v = Inr p" "PHPValue_from_Value x p = ret (php_value_of v)"
      using sendable_answers [of v x] Cons.prems [of n v] by (auto simp: answers_def b)
    obtain ps where "ssequence (map (\<lambda>(k, v). sbind (fromValue v) (\<lambda>v'. Inr (k, v'))) bins) = Inr ps"
      "map fst ps = map fst bins"
      "\<forall>(n, p) \<in> set ps. \<exists>v. (n, v) \<in> set bins \<and> PHPValue_from_Value x p = ret (php_value_of v)"
      using Cons.IH Cons.prems by fastforce
    then show ?case using p by (intro exI [of _ "(n, p) # ps"]) (auto simp: b)
  qed simp
  then show ?thesis by (cases bins) (auto simp: fromBins_def)
qed

text \<open>A library for evaluating the definitions: it refuses null keys.\<close>
definition sample_library :: go_library where
  "sample_library =
     \<lparr>NewKey = (\<lambda>ns s v. case v of
         IntegerValue i \<Rightarrow> Inr \<lparr>ak_namespace = ns, ak_set_name = s, ak_value = G_int i, ak_digest = replicate 20 0\<rparr>
       | StringValue t \<Rightarrow> Inr \<lparr>ak_namespace = ns, ak_set_name = s, ak_value = G_string t, ak_digest = replicate 20 0\<rparr>
       | _ \<Rightarrow> Inl ''unsupported''),
      privilege_text = (\<lambda>c. case c of UserAdmin \<Rightarrow> ''user-admin'' | SysAdmin \<Rightarrow> ''sys-admin''
        | DataAdmin \<Rightarrow> ''data-admin'' | UDFAdmin \<Rightarrow> ''udf-admin'' | SIndexAdmin \<Rightarrow> ''sindex-admin''
        | ReadWriteUDF \<Rightarrow> ''read-write-udf'' | ReadWrite \<Rightarrow> ''read-write'' | ReadPriv \<Rightarrow> ''read''
        | WritePriv \<Rightarrow> ''write'' | TruncatePriv \<Rightarrow> ''truncate'')\<rparr>"

lemma sample_library_ok: "go_library_ok sample_library"
  by (auto simp: go_library_ok_def sample_library_def inj_def split: aero_value.splits privilege_code.splits)

section \<open>Properties\<close>

text \<open>A record of the library arrives in PHP: if its key and its bins hold values that the
  manager can send, the client gets a record with the same generation and expiration, whose
  bins have the names of the library's bins, and every bin reads as the value it stands for.\<close>
lemma library_record_arrives:
  assumes "arec_key r = Some k" and "sendable (ak_value k)" and "wire_stable x (php_value_of (ak_value k))"
    and "\<And>n v. (n, v) \<in> set (arec_bins r) \<Longrightarrow> sendable v \<and> wire_stable x (php_value_of v)"
    and "distinct (map fst (arec_bins r))"
  shows "\<exists>rc pk. fromRecord (Some r) = Inr (Some rc) \<and> Record_get_key rc = Some pk \<and>
    Key_get_namespace pk = ak_namespace k \<and> Key_get_setname pk = ak_set_name k \<and>
    digest pk = Some (ak_digest k) \<and> Key_get_value x pk = ret (Some (php_value_of (ak_value k))) \<and>
    Record_get_generation rc = Some (arec_generation r) \<and> rec_expiration rc = arec_expiration r \<and>
    map fst (rec_bins rc) = map fst (arec_bins r) \<and>
    (\<forall>(n, v) \<in> set (arec_bins r). Record_bin x rc n = ret (Some (php_value_of v)))"
proof -
  obtain kv where kv: "fromValue (ak_value k) = Inr kv" "PHPValue_from_Value x kv = ret (php_value_of (ak_value k))"
    using sendable_answers [OF assms(2,3)] by (auto simp: answers_def)
  obtain ps where ps: "fromBins (arec_bins r) = Inr ps" "map fst ps = map fst (arec_bins r)"
    "\<forall>(n, p) \<in> set ps. \<exists>v. (n, v) \<in> set (arec_bins r) \<and> PHPValue_from_Value x p = ret (php_value_of v)"
    using fromBins_sendable [of "arec_bins r" x] assms(4) by blast
  have bin: "\<exists>p. map_of ps n = Some p \<and> PHPValue_from_Value x p = ret (php_value_of v)"
    if "(n, v) \<in> set (arec_bins r)" for n v
  proof -
    have "n \<in> fst ` set ps" using that ps(2) by (metis fst_conv image_eqI list.set_map)
    then obtain p where p: "map_of ps n = Some p" by (metis map_of_eq_None_iff not_None_eq)
    then obtain v' where v': "(n, v') \<in> set (arec_bins r)" "PHPValue_from_Value x p = ret (php_value_of v')"
      using ps(3) map_of_SomeD by fastforce
    then have "v' = v" using that assms(5) by (metis map_of_eq_Some_iff option.inject)
    then show ?thesis using p v' by blast
  qed
  show ?thesis
    by (rule exI, rule exI)
      (use bin in \<open>fastforce simp: fromRecord_def assms(1) fromKey_def kv ps Record_get_key_def
        Key_get_namespace_def Key_get_setname_def Key_get_value_def Record_get_generation_def
        Record_bin_def hm_get_eq_map_of\<close>)
qed

theorem library_record_arrives_witness:
  "let k = \<lparr>ak_namespace = ''ns'', ak_set_name = ''s'', ak_value = G_int 7, ak_digest = replicate 20 1\<rparr>;
       r = \<lparr>arec_key = Some k, arec_generation = 3, arec_expiration = 0,
            arec_bins = [(''a'', G_int 1), (''b'', G_slice [G_string ''x''])]\<rparr> in
   \<exists>rc. fromRecord (Some r) = Inr (Some rc) \<and>
     Record_bin externs0 rc ''b'' = ret (Some (PList [PString ''x'']))"
proof -
  let ?k = "\<lparr>ak_namespace = ''ns'', ak_set_name = ''s'', ak_value = G_int 7, ak_digest = replicate 20 1\<rparr>"
  let ?r = "\<lparr>arec_key = Some ?k, arec_generation = 3, arec_expiration = 0,
            arec_bins = [(''a'', G_int 1), (''b'', G_slice [G_string ''x''])]\<rparr>"
  have "\<exists>rc pk. fromRecord (Some ?r) = Inr (Some rc) \<and> Record_get_key rc = Some pk \<and>
    Key_get_namespace pk = ak_namespace ?k \<and> Key_get_setname pk = ak_set_name ?k \<and>
    digest pk = Some (ak_digest ?k) \<and> Key_get_value externs0 pk = ret (Some (php_value_of (ak_value ?k))) \<and>
    Record_get_generation rc = Some (arec_generation ?r) \<and> rec_expiration rc = arec_expiration ?r \<and>
    map fst (rec_bins rc) = map fst (arec_bins ?r) \<and>
    (\<forall>(n, v) \<in> set (arec_bins ?r). Record_bin externs0 rc n = ret (Some (php_value_of v)))"
    by (rule library_record_arrives) auto
  then show ?thesis by (auto simp: Let_def)
qed

text \<open>The key of a scanned record whose user key the server does not have (a null value) keeps
  its digest on the way to PHP, and still cannot be used in a command: the manager makes a
  new key of the null value, which the library refuses.\<close>
lemma scanned_key_rejected:
  assumes "go_library_ok L" and "ak_value k = G_nil" and "fromKey (Some k) = Inr (Some pk)"
  shows "digest pk = Some (ak_digest k) \<and> toKey L (Some pk) = Inl GoPanic"
proof -
  have pk: "pk = \<lparr>digest = Some (ak_digest k), namespace = Some (ak_namespace k),
      setname = Some (ak_set_name k), key_value = Some (V_Nil True)\<rparr>"
    using assms(2,3) by (simp add: fromKey_def)
  obtain e where "NewKey L (ak_namespace k) (ak_set_name k) NullValue = Inl e"
    using assms(1) unfolding go_library_ok_def by blast
  then show ?thesis by (simp add: pk toKey_def)
qed

theorem scanned_key_rejected_witness:
  "\<exists>pk. fromKey (Some \<lparr>ak_namespace = ''ns'', ak_set_name = ''s'', ak_value = G_nil, ak_digest = [1]\<rparr>) =
      Inr (Some pk) \<and> toKey sample_library (Some pk) = Inl GoPanic"
proof -
  let ?k = "\<lparr>ak_namespace = ''ns'', ak_set_name = ''s'', ak_value = G_nil, ak_digest = [1]\<rparr>"
  obtain pk where pk: "fromKey (Some ?k) = Inr (Some pk)" by (simp add: fromKey_def)
  then show ?thesis
    using scanned_key_rejected [OF sample_library_ok _ pk] by auto
qed

text \<open>Privileges survive the round trip: those of a role that was queried are sent back as the
  privileges they were.\<close>
lemma privileges_round_trip:
  assumes "inj (privilege_text L)"
  shows "toPrivileges L (Role_get_privileges (projr (fromRole L (Some r)))) = Inr (aro_privileges r)"
  by (simp add: Role_get_privileges_def fromRole_def fromPrivileges_def toPrivileges_def comp_def
      toPrivilege_fromPrivilege [OF assms])

theorem privileges_round_trip_witness:
  "toPrivileges sample_library (Role_get_privileges (projr (fromRole sample_library (Some
     \<lparr>aro_name = ''r'', aro_privileges = [\<lparr>apr_code = ReadWrite, apr_namespace = ''ns'', apr_set_name = []\<rparr>],
      aro_whitelist = [], aro_read_quota = 0, aro_write_quota = 0\<rparr>)))) =
   Inr [\<lparr>apr_code = ReadWrite, apr_namespace = ''ns'', apr_set_name = []\<rparr>]"
  using privileges_round_trip [of sample_library] sample_library_ok by (simp add: go_library_ok_def)

end
