(* ===== verification/Client_Laws.thy ===== *)
theory Client_Laws
  imports Client
begin

text \<open>
  What the commands of the client promise. The locale \<open>unit_command\<close> is the contract of a
  command that returns nothing: it sends one request, never panics, returns the text of a
  failed status as its error, and throws one exception exactly when the response carries an
  error. All twenty-one such commands are instances.
\<close>

section \<open>Commands without a result\<close>

text \<open>The outcome of the command, from the reply of the service.\<close>
definition unit_outcome ::
  "('w \<Rightarrow> (string + proto_Error option) \<times> 'w) \<Rightarrow> 'w \<Rightarrow> (string + unit) php \<times> 'w" where
  "unit_outcome reply w =
     (case reply w of
        (Inl e, w') \<Rightarrow> (ret (Inl e), w')
      | (Inr None, w') \<Rightarrow> (ret (Inr ()), w')
      | (Inr (Some pe), w') \<Rightarrow> (emit [AerospikeException_from_Error pe] (Inr ()), w'))"

text \<open>A bare error message is an error unless its code is zero.\<close>
definition error_reply :: "('r, 'w, proto_Error) rpc \<Rightarrow> 'r \<Rightarrow> 'w \<Rightarrow> (string + proto_Error option) \<times> 'w" where
  "error_reply f req w =
     (case f req w of
        (Inl e, w') \<Rightarrow> (Inl e, w')
      | (Inr pe, w') \<Rightarrow> (Inr (if result_code pe = 0 then None else Some pe), w'))"

locale unit_command =
  fixes run :: "'w \<Rightarrow> (string + unit) php \<times> 'w" and reply :: "'w \<Rightarrow> (string + proto_Error option) \<times> 'w"
  assumes run_outcome: "run w = unit_outcome reply w"
begin

lemma never_panics: "\<exists>r. outcome (fst (run w)) = Inr r"
  by (auto simp: run_outcome unit_outcome_def split: prod.splits sum.splits option.splits)

lemma one_request: "snd (run w) = snd (reply w)"
  by (auto simp: run_outcome unit_outcome_def split: prod.splits sum.splits option.splits)

lemma thrown_iff:
  "thrown (fst (run w)) = (case fst (reply w) of Inr (Some pe) \<Rightarrow> [AerospikeException_from_Error pe] | _ \<Rightarrow> [])"
  by (auto simp: run_outcome unit_outcome_def split: prod.splits sum.splits option.splits)

lemma returned:
  "outcome (fst (run w)) = Inr (case fst (reply w) of Inl e \<Rightarrow> Inl e | Inr _ \<Rightarrow> Inr ())"
  by (auto simp: run_outcome unit_outcome_def split: prod.splits sum.splits option.splits)

text \<open>PHP sees success exactly when the service reports success.\<close>

lemma success_iff:
  "fst (run w) = ret (Inr ()) \<longleftrightarrow> fst (reply w) = Inr None"
  unfolding eff_eq_ret_iff thrown_iff returned by (auto split: sum.splits option.splits)

end

lemma throw_error_eq: "throw_error pe v = emit [AerospikeException_from_Error pe] (Inr v)"
  by (simp add: throw_error_def emit_def)

lemma send_error_message: "send f req w on_error_message = unit_outcome (error_reply f req) w"
  by (auto simp: send_def unit_outcome_def error_reply_def on_error_message_def throw_error_eq
      split: prod.splits sum.splits)

lemma send_status: "send f req w on_status = unit_outcome (f req) w"
  by (auto simp: send_def unit_outcome_def on_status_def throw_error_eq
      split: prod.splits sum.splits option.splits)

interpretation put_command: unit_command "Client_put svc p k bs"
    "error_reply (rpc_error svc) (R_put p k bs)" for svc p k bs
  by unfold_locales (simp add: Client_put_def send_error_message)

interpretation add_command: unit_command "Client_add svc p k bs"
    "error_reply (rpc_error svc) (R_add p k bs)" for svc p k bs
  by unfold_locales (simp add: Client_add_def send_error_message)

interpretation append_command: unit_command "Client_append svc p k bs"
    "error_reply (rpc_error svc) (R_append p k bs)" for svc p k bs
  by unfold_locales (simp add: Client_append_def send_error_message)

interpretation prepend_command: unit_command "Client_prepend svc p k bs"
    "error_reply (rpc_error svc) (R_prepend p k bs)" for svc p k bs
  by unfold_locales (simp add: Client_prepend_def send_error_message)

interpretation touch_command: unit_command "Client_touch svc p k"
    "error_reply (rpc_error svc) (R_touch p k)" for svc p k
  by unfold_locales (simp add: Client_touch_def send_error_message)

interpretation truncate_command: unit_command "Client_truncate svc p ns s t"
    "rpc_status svc (R_truncate p ns s t)" for svc p ns s t
  by unfold_locales (simp add: Client_truncate_def send_status)

interpretation create_index_command: unit_command "Client_create_index svc p ns s b n t cit ctx"
    "rpc_status svc (R_create_index p ns s n b (IndexType_into_i32 t)
      (IndexCollectionType_into_i32 (cit_or_default cit)) (ctx_or_empty ctx))" for svc p ns s b n t cit ctx
  by unfold_locales (simp add: Client_create_index_def send_status)

interpretation drop_index_command: unit_command "Client_drop_index svc p ns s n"
    "rpc_status svc (R_drop_index p ns s n)" for svc p ns s n
  by unfold_locales (simp add: Client_drop_index_def send_status)

interpretation register_udf_command: unit_command "Client_register_udf svc p body n l"
    "rpc_status svc (R_register_udf p (as_bytes body) n
      (UdfLanguage_into_i32 (case l of Some l \<Rightarrow> l | None \<Rightarrow> Lua)))" for svc p body n l
  by unfold_locales (simp add: Client_register_udf_def send_status)

interpretation drop_udf_command: unit_command "Client_drop_udf svc p n"
    "rpc_status svc (R_drop_udf p n)" for svc p n
  by unfold_locales (simp add: Client_drop_udf_def send_status)

interpretation create_user_command: unit_command "Client_create_user svc p u pw rs"
    "rpc_status svc (R_create_user p u pw rs)" for svc p u pw rs
  by unfold_locales (simp add: Client_create_user_def send_status)

interpretation drop_user_command: unit_command "Client_drop_user svc p u"
    "rpc_status svc (R_drop_user p u)" for svc p u
  by unfold_locales (simp add: Client_drop_user_def send_status)

interpretation change_password_command: unit_command "Client_change_password svc p u pw"
    "rpc_status svc (R_change_password p u pw)" for svc p u pw
  by unfold_locales (simp add: Client_change_password_def send_status)

interpretation grant_roles_command: unit_command "Client_grant_roles svc p u rs"
    "rpc_status svc (R_grant_roles p u rs)" for svc p u rs
  by unfold_locales (simp add: Client_grant_roles_def send_status)

interpretation revoke_roles_command: unit_command "Client_revoke_roles svc p u rs"
    "rpc_status svc (R_revoke_roles p u rs)" for svc p u rs
  by unfold_locales (simp add: Client_revoke_roles_def send_status)

interpretation create_role_command: unit_command "Client_create_role svc p n ps al rq wq"
    "rpc_status svc (R_create_role p n ps al rq wq)" for svc p n ps al rq wq
  by unfold_locales (simp add: Client_create_role_def send_status)

interpretation drop_role_command: unit_command "Client_drop_role svc p n"
    "rpc_status svc (R_drop_role p n)" for svc p n
  by unfold_locales (simp add: Client_drop_role_def send_status)

interpretation grant_privileges_command: unit_command "Client_grant_privileges svc p n ps"
    "rpc_status svc (R_grant_privileges p n ps)" for svc p n ps
  by unfold_locales (simp add: Client_grant_privileges_def send_status)

interpretation revoke_privileges_command: unit_command "Client_revoke_privileges svc p n ps"
    "rpc_status svc (R_revoke_privileges p n ps)" for svc p n ps
  by unfold_locales (simp add: Client_revoke_privileges_def send_status)

interpretation set_allowlist_command: unit_command "Client_set_allowlist svc p n al"
    "rpc_status svc (R_set_allowlist p n al)" for svc p n al
  by unfold_locales (simp add: Client_set_allowlist_def send_status)

interpretation set_quotas_command: unit_command "Client_set_quotas svc p n rq wq"
    "rpc_status svc (R_set_quotas p n rq wq)" for svc p n rq wq
  by unfold_locales (simp add: Client_set_quotas_def send_status)

section \<open>The manager's answers\<close>

text \<open>The response of the handler \<^verbatim>\<open>Delete\<close> of \<^verbatim>\<open>kvs.go\<close>, and likewise of \<^verbatim>\<open>Exists\<close>.\<close>

definition manager_delete_response :: "bool \<Rightarrow> proto_Error option \<Rightarrow> proto_Error option \<times> bool option" where
  "manager_delete_response existed err =
     (case err of Some pe \<Rightarrow> (Some pe, Some existed) | None \<Rightarrow> (None, Some existed))"

definition manager_exists_response :: "bool \<Rightarrow> proto_Error option \<Rightarrow> proto_Error option \<times> bool option" where
  "manager_exists_response exists' err =
     (case err of Some pe \<Rightarrow> (Some pe, Some exists') | None \<Rightarrow> (None, Some exists'))"

text \<open>A service for evaluating the commands on concrete input; its world counts the requests.\<close>

definition sample_service :: "(unit, nat) service" where
  "sample_service =
     \<lparr>rpc_error = (\<lambda>_ w. (Inr \<lparr>result_code = 0, pe_in_doubt = False\<rparr>, Suc w)),
      rpc_single = (\<lambda>_ w. (Inr (Some \<lparr>result_code = 2, pe_in_doubt = False\<rparr>, None), Suc w)),
      rpc_delete = (\<lambda>_ w. (Inr (None, Some False), Suc w)),
      rpc_exists = (\<lambda>_ w. (Inr (None, Some True), Suc w)),
      rpc_batch = (\<lambda>_ w. (Inr (None, []), Suc w)),
      rpc_status = (\<lambda>_ w. (Inr None, Suc w)),
      rpc_udf_list = (\<lambda>_ w. (Inr (None, []), Suc w)),
      rpc_udf_result = (\<lambda>_ w. (Inr (None, Some (V_I 4)), Suc w)),
      rpc_users = (\<lambda>_ w. (Inr (None, []), Suc w)),
      rpc_roles = (\<lambda>_ w. (Inr (None, []), Suc w)),
      rpc_stream = (\<lambda>_ w. (Inr [item_of sample_message], Suc w))\<rparr>"

section \<open>Batches\<close>

lemma batch_loop_result:
  "batch_loop cmds res =
     emit (replicate (length (filter (\<lambda>c. batch_operate c = None) cmds))
             (AerospikeException_new ''Invalid Batch command''))
       (res @ List.map_filter batch_operate cmds)"
proof (induction cmds arbitrary: res)
  case (Cons c cmds)
  then show ?case
    by (cases "batch_operate c") (simp_all add: List.map_filter_simps emit_def)
qed (simp add: List.map_filter_simps)

section \<open>Scans\<close>

lemma scan_drained:
  assumes "h a = PartitionFilter_all" and "list_all (message_ok x) ms" and "length ms < n"
    and "rpc_stream svc (R_scan p ns s bs PartitionFilter_all) w = (Inr (map item_of ms), w1)"
  shows "\<exists>rs h1 h2 pf.
    Client_scan svc p a ns s (Some bs) h w = (ret (Inr rs), w1, h1) \<and>
    drain n x rs h1 = ret (map msg_record ms, Recordset_close rs, h2) \<and>
    (\<forall>p' w2. Client_scan svc p' a ns s (Some bs) h2 w2 =
       open_recordset a h2 (rpc_stream svc (R_scan p' ns s bs pf) w2)) \<and>
    filter_inv pf \<and>
    (\<forall>i<4096. ps_digest (pf_partitions pf ! i) =
       (case filter (\<lambda>m. (ucast (msg_pid m) :: u32) = word_of_nat i) ms of
          [] \<Rightarrow> [] | m # rest \<Rightarrow> msg_digest (last (m # rest))))"
proof -
  let ?init = "PartitionFilter_init_partition_status PartitionFilter_all"
  let ?h1 = "h(a := ?init)"
  let ?rs = "\<lparr>rs_stream = Some (map item_of ms), rs_filter = a\<rparr>"
  let ?pf = "?init\<lparr>pf_partitions := map (fold mark_message ms) (pf_partitions ?init)\<rparr>"
  have inv: "filter_inv (?h1 a)" using init_all_inv by simp
  have first: "Client_scan svc p a ns s (Some bs) h w = (ret (Inr ?rs), w1, ?h1)"
    using assms(1,4) by (simp add: Client_scan_def open_recordset_def)
  have all: "drain n x ?rs ?h1 = ret (map msg_record ms, Recordset_close ?rs, ?h1(a := ?pf))"
    using drain_messages [of x ms n ?h1 a] assms(2,3) inv by (simp add: Recordset_close_def)
  have fresh: "ps_digest (pf_partitions ?init ! i) = []" if "i < 4096" for i
    using that by (simp add: PartitionFilter_init_partition_status_def PartitionFilter_all_def
        fresh_statuses_def PartitionStatus_construct_def)
  have digests: "\<forall>i<4096. ps_digest (pf_partitions ?pf ! i) =
       (case filter (\<lambda>m. (ucast (msg_pid m) :: u32) = word_of_nat i) ms of
          [] \<Rightarrow> [] | m # rest \<Rightarrow> msg_digest (last (m # rest)))"
    using filter_inv_length [OF init_all_inv] filter_inv_nth [OF init_all_inv] fresh
    by (auto simp: fold_mark_digest split: list.splits)
  have second: "Client_scan svc p' a ns s (Some bs) (?h1(a := ?pf)) w2 =
      open_recordset a (?h1(a := ?pf)) (rpc_stream svc (R_scan p' ns s bs ?pf) w2)" for p' w2
    by (simp add: Client_scan_def)
  have pf_inv: "filter_inv ?pf" using init_all_inv by (simp add: filter_inv_def comp_def)
  show ?thesis
    by (rule exI [of _ ?rs], rule exI [of _ ?h1], rule exI [of _ "?h1(a := ?pf)"], rule exI [of _ ?pf])
      (use first all second pf_inv digests in blast)
qed

section \<open>Properties\<close>

text \<open>The commands that write a record, put, add, append, prepend and touch, each send
  exactly one request of their own kind with the arguments unchanged; they return the text
  of a failed status, throw the reported error once if its code is not zero, and otherwise
  succeed silently.\<close>

lemma write_commands_outcome:
  "Client_put svc p k bs w = unit_outcome (error_reply (rpc_error svc) (R_put p k bs)) w \<and>
   Client_add svc p k bs w = unit_outcome (error_reply (rpc_error svc) (R_add p k bs)) w \<and>
   Client_append svc p k bs w = unit_outcome (error_reply (rpc_error svc) (R_append p k bs)) w \<and>
   Client_prepend svc p k bs w = unit_outcome (error_reply (rpc_error svc) (R_prepend p k bs)) w \<and>
   Client_touch svc p k w = unit_outcome (error_reply (rpc_error svc) (R_touch p k)) w"
  by (intro conjI put_command.run_outcome add_command.run_outcome append_command.run_outcome
      prepend_command.run_outcome touch_command.run_outcome)

text \<open>PHP sees a put succeed, without an error or an exception, exactly when the manager
  answered with code zero; the command never panics.\<close>

lemma put_success_iff:
  "(fst (Client_put svc p k bs w) = ret (Inr ()) \<longleftrightarrow>
      (\<exists>pe w'. rpc_error svc (R_put p k bs) w = (Inr pe, w') \<and> result_code pe = 0)) \<and>
   (\<exists>r. outcome (fst (Client_put svc p k bs w)) = Inr r)"
proof
  show "fst (Client_put svc p k bs w) = ret (Inr ()) \<longleftrightarrow>
      (\<exists>pe w'. rpc_error svc (R_put p k bs) w = (Inr pe, w') \<and> result_code pe = 0)"
    unfolding put_command.success_iff
    by (auto simp: error_reply_def split: prod.splits sum.splits)
qed (rule put_command.never_panics)

text \<open>Index, UDF, truncation and user administration commands: each sends exactly one
  request with its arguments (defaults filled in) and reports its status the same way.\<close>

lemma admin_commands_outcome:
  "Client_truncate svc ip ns s t w = unit_outcome (rpc_status svc (R_truncate ip ns s t)) w \<and>
   Client_create_index svc wp ns s b n it None None w =
     unit_outcome (rpc_status svc (R_create_index wp ns s n b (IndexType_into_i32 it) 0 [])) w \<and>
   Client_drop_index svc wp ns s n w = unit_outcome (rpc_status svc (R_drop_index wp ns s n)) w \<and>
   Client_register_udf svc wp body n None w =
     unit_outcome (rpc_status svc (R_register_udf wp (as_bytes body) n 0)) w \<and>
   Client_drop_udf svc wp n w = unit_outcome (rpc_status svc (R_drop_udf wp n)) w \<and>
   Client_create_user svc ap u pw rs w = unit_outcome (rpc_status svc (R_create_user ap u pw rs)) w \<and>
   Client_drop_user svc ap u w = unit_outcome (rpc_status svc (R_drop_user ap u)) w \<and>
   Client_change_password svc ap u pw w = unit_outcome (rpc_status svc (R_change_password ap u pw)) w \<and>
   Client_grant_roles svc ap u rs w = unit_outcome (rpc_status svc (R_grant_roles ap u rs)) w \<and>
   Client_revoke_roles svc ap u rs w = unit_outcome (rpc_status svc (R_revoke_roles ap u rs)) w \<and>
   Client_create_role svc ap n ps al rq wq w =
     unit_outcome (rpc_status svc (R_create_role ap n ps al rq wq)) w \<and>
   Client_drop_role svc ap n w = unit_outcome (rpc_status svc (R_drop_role ap n)) w \<and>
   Client_grant_privileges svc ap n ps w = unit_outcome (rpc_status svc (R_grant_privileges ap n ps)) w \<and>
   Client_revoke_privileges svc ap n ps w = unit_outcome (rpc_status svc (R_revoke_privileges ap n ps)) w \<and>
   Client_set_allowlist svc ap n al w = unit_outcome (rpc_status svc (R_set_allowlist ap n al)) w \<and>
   Client_set_quotas svc ap n rq wq w = unit_outcome (rpc_status svc (R_set_quotas ap n rq wq)) w"
  by (intro conjI; simp add: truncate_command.run_outcome create_index_command.run_outcome
      drop_index_command.run_outcome register_udf_command.run_outcome drop_udf_command.run_outcome
      create_user_command.run_outcome drop_user_command.run_outcome change_password_command.run_outcome
      grant_roles_command.run_outcome revoke_roles_command.run_outcome create_role_command.run_outcome
      drop_role_command.run_outcome grant_privileges_command.run_outcome
      revoke_privileges_command.run_outcome set_allowlist_command.run_outcome
      set_quotas_command.run_outcome cit_or_default_def ctx_or_empty_def)

text \<open>Reading a record: a record in the answer is returned, a record that is not there is
  no exception but an empty result, an error in doubt or with any other code is thrown once
  and the result is empty, and an answer with both or neither of record and error panics.\<close>

lemma get_outcome:
  assumes "rpc_single svc (R_get p k (case bins of Some bs \<Rightarrow> bs | None \<Rightarrow> [])) w = (Inr (e, r), w')"
  shows "Client_get svc p k bins w =
    (case (e, r) of
       (None, Some rec) \<Rightarrow> (ret (Inr (Some rec)), w')
     | (Some pe, None) \<Rightarrow>
         (emit (if result_code pe = 2 \<and> \<not> pe_in_doubt pe then [] else [AerospikeException_from_Error pe])
            (Inr None), w')
     | _ \<Rightarrow> (panics Unreachable, w'))"
  using assms
  by (auto simp: Client_get_def send_def on_single_def throw_error_eq KEY_NOT_FOUND_ERROR_def
      split: option.splits)

theorem get_outcome_witness:
  "Client_get sample_service ReadPolicy_default sample_key None 0 = (ret (Inr None), 1)"
proof -
  have "rpc_single sample_service (R_get ReadPolicy_default sample_key (case None of Some bs \<Rightarrow> bs | None \<Rightarrow> [])) 0 =
      (Inr (Some \<lparr>result_code = 2, pe_in_doubt = False\<rparr>, None), 1)"
    by (simp add: sample_service_def)
  from get_outcome [OF this] show ?thesis by simp
qed

text \<open>The result of a delete says nothing about the record: the manager's handler always
  sets the field that says whether the record existed, and the client returns whether the
  field is set, so a successful delete returns true for records that did not exist too.\<close>

lemma delete_ignores_existed:
  assumes "rpc_delete svc (R_delete p k) w = (Inr (manager_delete_response existed err), w')"
  shows "Client_delete svc p k w =
    (case err of
       None \<Rightarrow> (ret (Inr True), w')
     | Some pe \<Rightarrow> (emit [AerospikeException_from_Error pe] (Inr False), w'))"
  using assms
  by (simp add: Client_delete_def send_def manager_delete_response_def throw_error_eq split: option.splits)

theorem delete_ignores_existed_witness:
  "Client_delete sample_service WritePolicy_default sample_key 0 = (ret (Inr True), 1)"
proof -
  have "rpc_delete sample_service (R_delete WritePolicy_default sample_key) 0 =
      (Inr (manager_delete_response False None), 1)"
    by (simp add: sample_service_def manager_delete_response_def)
  from delete_ignores_existed [OF this] show ?thesis by simp
qed

text \<open>Asking whether a record exists answers as the manager does: with its handler's answers
  the client never panics, returns the handler's boolean, and throws a reported error once
  and returns false.\<close>

lemma exists_outcome:
  assumes "rpc_exists svc (R_exists p k) w = (Inr (manager_exists_response b err), w')"
  shows "Client_exists svc p k w =
    (case err of
       None \<Rightarrow> (ret (Inr b), w')
     | Some pe \<Rightarrow> (emit [AerospikeException_from_Error pe] (Inr False), w'))"
  using assms
  by (simp add: Client_exists_def send_def manager_exists_response_def throw_error_eq split: option.splits)

theorem exists_outcome_witness:
  "Client_exists sample_service ReadPolicy_default sample_key 0 = (ret (Inr True), 1)"
proof -
  have "rpc_exists sample_service (R_exists ReadPolicy_default sample_key) 0 =
      (Inr (manager_exists_response True None), 1)"
    by (simp add: sample_service_def manager_exists_response_def)
  from exists_outcome [OF this] show ?thesis by simp
qed

text \<open>A user function gets its arguments in their wire form, and its result reaches PHP
  unchanged: if the manager sends back the message of a value that the wire format keeps,
  the call returns that value and throws nothing.\<close>

lemma udf_execute_round_trip:
  assumes "rpc_udf_result svc (R_udf_execute p k pkg f (map Value_from_PHPValue args)) w =
      (Inr (None, Some (Value_from_PHPValue v)), w')"
    and "wire_stable x v"
  shows "Client_udf_execute x svc p k pkg f args w = (ret (Inr v), w') \<and>
    Client_udf_execute x svc p k pkg f (map wire_form args) w = (ret (Inr v), w')"
proof -
  have "map Value_from_PHPValue (map wire_form args) = map Value_from_PHPValue args"
    by (simp add: Value_from_PHPValue_wire_form)
  with assms show ?thesis
    by (simp add: Client_udf_execute_def send_def wire_stable_round_trip del: map_map)
qed

theorem udf_execute_round_trip_witness:
  "Client_udf_execute externs0 sample_service WritePolicy_default sample_key ''pkg'' ''f'' [PUInt 9] 0 =
     (ret (Inr (PInt 4)), 1)"
proof -
  have "rpc_udf_result sample_service (R_udf_execute WritePolicy_default sample_key ''pkg'' ''f''
      (map Value_from_PHPValue [PUInt 9])) 0 = (Inr (None, Some (Value_from_PHPValue (PInt 4))), 1)"
    by (simp add: sample_service_def)
  from udf_execute_round_trip [OF this, of externs0] show ?thesis by simp
qed

text \<open>A batch sends, in one request, the messages of its valid commands in their order;
  every object that is no batch command throws one exception, and the request is sent
  nevertheless.\<close>

lemma batch_sends_valid_commands:
  "Client_batch svc p cmds w =
     (case rpc_batch svc (R_batch_operate p (List.map_filter batch_operate cmds)) w of
        (reply, w') \<Rightarrow>
          ((replicate (length (filter (\<lambda>c. batch_operate c = None) cmds))
              (AerospikeException_new ''Invalid Batch command'') @
            (case reply of Inr (Some pe, _) \<Rightarrow> [AerospikeException_from_Error pe] | _ \<Rightarrow> []),
           Inr (case reply of Inl e \<Rightarrow> Inl e | Inr (None, records) \<Rightarrow> Inr records | Inr (Some pe, _) \<Rightarrow> Inr [])),
          w'))"
  by (auto simp: Client_batch_def batch_loop_result send_def throw_error_eq emit_def ret_def
      split: prod.splits sum.splits option.splits)

text \<open>A scan that is read to its end can be continued: the first request with a new filter
  carries no statuses, the records come in the order of the stream, and a second scan with
  the same filter object sends, for every partition, the digest of the last record that the
  first scan delivered for it (or no digest).\<close>

lemma scan_resumes_after_last_records:
  assumes "h a = PartitionFilter_all" and "list_all (message_ok x) ms" and "length ms < n"
    and "rpc_stream svc (R_scan p ns s bs PartitionFilter_all) w = (Inr (map item_of ms), w1)"
  shows "\<exists>rs h1 h2 pf.
    Client_scan svc p a ns s (Some bs) h w = (ret (Inr rs), w1, h1) \<and>
    drain n x rs h1 = ret (map msg_record ms, Recordset_close rs, h2) \<and>
    (\<forall>p' w2. Client_scan svc p' a ns s (Some bs) h2 w2 =
       open_recordset a h2 (rpc_stream svc (R_scan p' ns s bs pf) w2)) \<and>
    filter_inv pf \<and>
    (\<forall>i<4096. ps_digest (pf_partitions pf ! i) =
       (case filter (\<lambda>m. (ucast (msg_pid m) :: u32) = word_of_nat i) ms of
          [] \<Rightarrow> [] | m # rest \<Rightarrow> msg_digest (last (m # rest))))"
  using assms by (rule scan_drained)

theorem scan_resumes_after_last_records_witness:
  "\<exists>rs h1 h2 pf.
    Client_scan sample_service ScanPolicy_default 7 ''test'' ''s'' (Some []) (\<lambda>_. PartitionFilter_all) 0 =
      (ret (Inr rs), 1, h1) \<and>
    drain 2 externs0 rs h1 = ret ([msg_record sample_message], Recordset_close rs, h2) \<and>
    Client_scan sample_service ScanPolicy_default 7 ''test'' ''s'' (Some []) h2 1 =
      open_recordset 7 h2 (rpc_stream sample_service (R_scan ScanPolicy_default ''test'' ''s'' [] pf) 1) \<and>
    ps_digest (pf_partitions pf ! 5) = [5, 0, 9, 9]"
proof -
  have "rpc_stream sample_service (R_scan ScanPolicy_default ''test'' ''s'' [] PartitionFilter_all) 0 =
      (Inr (map item_of [sample_message]), 1)"
    by (simp add: sample_service_def)
  from scan_resumes_after_last_records [OF refl _ _ this, of externs0 2 7] sample_message_ok
  show ?thesis by (fastforce simp: sample_message_def)
qed

end
