(* ===== verification/Registry.thy ===== *)
theory Registry
  imports Values
begin

text \<open>
  The persistent clients of a PHP process: \<^verbatim>\<open>CLIENTS\<close>, \<^verbatim>\<open>persist_client\<close>,
  \<^verbatim>\<open>get_persisted_client\<close> and \<^verbatim>\<open>Client::connect\<close> of \<^verbatim>\<open>src/lib.rs\<close>. The map from
  socket paths to connections is the state; connecting to a socket, asking a connection for
  the version of the manager and the \<^verbatim>\<open>version_compare\<close> package are parameters.
\<close>

section \<open>State and parameters\<close>

text \<open>A connection (\<^verbatim>\<open>Arc<Mutex<BlockingClient>>\<close>) is a handle; a client object.\<close>

record Client_object =
  cl_client :: nat
  cl_socket :: string

type_synonym clients = "(string \<times> nat) list"

text \<open>
  \<open>rpc_connect\<close> is \<^verbatim>\<open>BlockingClient::connect\<close>, \<open>rpc_version\<close> the version request;
  both give an error text or a result and change the world. \<open>version_from\<close>,
  \<open>version_same\<close> and \<open>version_show\<close> are \<^verbatim>\<open>Version::from\<close>, the comparison with
  \<^verbatim>\<open>Cmp::Eq\<close> and the printing of a version.
\<close>

record ('v, 'w) connector =
  rpc_connect :: "string \<Rightarrow> 'w \<Rightarrow> (string + nat) \<times> 'w"
  rpc_version :: "nat \<Rightarrow> 'w \<Rightarrow> (string + string) \<times> 'w"
  version_from :: "string \<Rightarrow> 'v option"
  version_same :: "'v \<Rightarrow> 'v \<Rightarrow> bool"
  version_show :: "'v \<Rightarrow> string"

text \<open>\<^verbatim>\<open>CARGO_PKG_VERSION\<close>.\<close>
definition VERSION :: string where "VERSION = ''1.4.0''"

section \<open>Operations\<close>

definition persist_client :: "string \<Rightarrow> nat \<Rightarrow> clients \<Rightarrow> clients" where
  "persist_client key c clients = hm_insert (=) key c clients"

definition get_persisted_client :: "string \<Rightarrow> clients \<Rightarrow> Client_object option" where
  "get_persisted_client key clients =
     (case hm_get (=) clients key of
        None \<Rightarrow> None
      | Some grpc_client \<Rightarrow> Some \<lparr>cl_client = grpc_client, cl_socket = key\<rparr>)"

definition Client_socket :: "Client_object \<Rightarrow> string" where
  "Client_socket c = cl_socket c"

definition version_mismatch :: "string \<Rightarrow> string \<Rightarrow> string" where
  "version_mismatch vClient vServer =
     ''Rust Client version `'' @ vClient @ ''` does not match the connection manager version `'' @
     vServer @ ''`''"

definition Client_connect ::
  "('v, 'w) connector \<Rightarrow> string \<Rightarrow> clients \<times> 'w \<Rightarrow> (panic + (string + Client_object)) \<times> clients \<times> 'w" where
  "Client_connect cn socket s =
     (let (clients, w) = s in
      case get_persisted_client socket clients of
        Some c \<Rightarrow> (Inr (Inr c), clients, w)
      | None \<Rightarrow>
          (case rpc_connect cn socket w of
             (Inl e, w1) \<Rightarrow> (Inr (Inl e), clients, w1)
           | (Inr c, w1) \<Rightarrow>
               (case rpc_version cn c w1 of
                  (Inl e, w2) \<Rightarrow> (Inr (Inl e), clients, w2)
                | (Inr v, w2) \<Rightarrow>
                    (case (version_from cn VERSION, version_from cn v) of
                       (Some vClient, Some vServer) \<Rightarrow>
                         (if \<not> version_same cn vServer vClient then
                            (Inr (Inl (version_mismatch (version_show cn vClient) (version_show cn vServer))),
                             clients, w2)
                          else
                            let clients' = persist_client socket c clients in
                            (case get_persisted_client socket clients' of
                               Some c' \<Rightarrow> (Inr (Inr c'), clients', w2)
                             | None \<Rightarrow> (Inr (Inl ''Error connecting to the database''), clients', w2)))
                     | _ \<Rightarrow> (Inl UnwrapNone, clients, w2)))))"

text \<open>A sequence of calls, with their results.\<close>
fun connects ::
  "('v, 'w) connector \<Rightarrow> string list \<Rightarrow> clients \<times> 'w \<Rightarrow> (panic + (string + Client_object)) list \<times> clients \<times> 'w" where
  "connects cn [] s = ([], s)"
| "connects cn (socket # ss) s =
     (case Client_connect cn socket s of
        (r, s') \<Rightarrow> (case connects cn ss s' of (rs, s'') \<Rightarrow> (r # rs, s'')))"

section \<open>Laws\<close>

lemma get_persisted_iff:
  "get_persisted_client k cs = Some c \<longleftrightarrow> hm_get (=) cs k = Some (cl_client c) \<and> cl_socket c = k"
  by (cases c) (auto simp: get_persisted_client_def split: option.splits)

lemma get_persist_same: "hm_get (=) (persist_client k c cs) k = Some c"
  unfolding persist_client_def
  by (rule string_map.get_insert_same) (simp_all add: string_map.keys_ok_def list_all_iff)

lemma get_persist_other: "k' \<noteq> k \<Longrightarrow> hm_get (=) (persist_client k c cs) k' = hm_get (=) cs k'"
  unfolding persist_client_def
  by (rule string_map.get_insert_other) (simp_all add: string_map.keys_ok_def list_all_iff)

text \<open>A connector for witnesses: every socket connects, connections are numbered from the world, and
  every manager reports the version of the client.\<close>

definition sample_connector :: "(string, nat) connector" where
  "sample_connector =
     \<lparr>rpc_connect = (\<lambda>socket w. (Inr w, Suc w)), rpc_version = (\<lambda>c w. (Inr ''1.4.0'', w)),
      version_from = Some, version_same = (=), version_show = id\<rparr>"

text \<open>A connection whose manager has reported, in some world, the version of the client.\<close>
definition version_checked :: "('v, 'w) connector \<Rightarrow> nat \<Rightarrow> bool" where
  "version_checked cn c \<longleftrightarrow>
     (\<exists>w w' v vc vs. rpc_version cn c w = (Inr v, w') \<and> version_from cn VERSION = Some vc \<and>
        version_from cn v = Some vs \<and> version_same cn vs vc)"

definition clients_inv :: "('v, 'w) connector \<Rightarrow> clients \<Rightarrow> bool" where
  "clients_inv cn cs \<longleftrightarrow> (\<forall>k c. hm_get (=) cs k = Some c \<longrightarrow> version_checked cn c)"

lemma connect_cases:
  obtains (known) c where "get_persisted_client k cs = Some c" "Client_connect cn k (cs, w) = (Inr (Inr c), cs, w)"
  | (failed) r w' where "get_persisted_client k cs = None" "Client_connect cn k (cs, w) = (r, cs, w')"
      "\<nexists>c. r = Inr (Inr c)"
  | (fresh) c w' where "get_persisted_client k cs = None" "version_checked cn c"
      "Client_connect cn k (cs, w) =
        (Inr (Inr \<lparr>cl_client = c, cl_socket = k\<rparr>), persist_client k c cs, w')"
proof (cases "get_persisted_client k cs")
  case (Some c)
  then show ?thesis using known by (simp add: Client_connect_def)
next
  case None
  obtain e w1 where con: "rpc_connect cn k w = (e, w1)" by (cases "rpc_connect cn k w")
  show ?thesis
  proof (cases e)
    case (Inl t)
    then show ?thesis using None con failed by (simp add: Client_connect_def)
  next
    case (Inr c)
    obtain v w2 where ver: "rpc_version cn c w1 = (v, w2)" by (cases "rpc_version cn c w1")
    have got: "get_persisted_client k (persist_client k c cs) = Some \<lparr>cl_client = c, cl_socket = k\<rparr>"
      by (simp add: get_persisted_iff get_persist_same)
    show ?thesis
    proof (cases "\<exists>t vc vs. v = Inr t \<and> version_from cn VERSION = Some vc \<and> version_from cn t = Some vs \<and>
        version_same cn vs vc")
      case True
      then have "version_checked cn c" using ver unfolding version_checked_def by blast
      then show ?thesis using True None con Inr ver got fresh by (auto simp: Client_connect_def Let_def)
    next
      case False
      then have "\<exists>r. Client_connect cn k (cs, w) = (r, cs, w2) \<and> (\<nexists>c. r = Inr (Inr c))"
        using None con Inr ver
        by (auto simp: Client_connect_def split: sum.splits option.splits)
      then show ?thesis using None failed by blast
    qed
  qed
qed

lemma connect_effect:
  assumes "clients_inv cn cs"
  shows "case Client_connect cn k (cs, w) of (r, cs', w') \<Rightarrow>
    clients_inv cn cs' \<and> (\<forall>k' c. hm_get (=) cs k' = Some c \<longrightarrow> hm_get (=) cs' k' = Some c) \<and>
    (\<forall>c. r = Inr (Inr c) \<longrightarrow> get_persisted_client k cs' = Some c) \<and>
    ((\<nexists>c. r = Inr (Inr c)) \<longrightarrow> cs' = cs)"
proof (cases rule: connect_cases [of k cs cn w])
  case (known c)
  then show ?thesis using assms by simp
next
  case (failed r w')
  then show ?thesis using assms by simp
next
  case (fresh c w')
  have "hm_get (=) cs k = None" using fresh(1) by (simp add: get_persisted_client_def split: option.splits)
  then have keep: "hm_get (=) (persist_client k c cs) k' = Some d" if "hm_get (=) cs k' = Some d" for k' d
    using that get_persist_other [of k' k c cs] by (cases "k' = k") auto
  have "clients_inv cn (persist_client k c cs)"
    unfolding clients_inv_def
  proof (intro allI impI)
    fix k' d assume d: "hm_get (=) (persist_client k c cs) k' = Some d"
    show "version_checked cn d"
      using d fresh(2) assms get_persist_same [of k c cs] get_persist_other [of k' k c cs]
      by (cases "k' = k") (auto simp: clients_inv_def)
  qed
  then show ?thesis
    using fresh(3) keep by (simp add: get_persisted_iff get_persist_same)
qed

lemma connects_effect:
  assumes "clients_inv cn cs"
  shows "case connects cn ks (cs, w) of (rs, cs', w') \<Rightarrow>
    clients_inv cn cs' \<and> (\<forall>k c. hm_get (=) cs k = Some c \<longrightarrow> hm_get (=) cs' k = Some c)"
  using assms
proof (induction ks arbitrary: cs w)
  case (Cons k ks)
  obtain r cs1 w1 where one: "Client_connect cn k (cs, w) = (r, cs1, w1)"
    by (cases "Client_connect cn k (cs, w)")
  have first: "clients_inv cn cs1" "\<And>k' c. hm_get (=) cs k' = Some c \<Longrightarrow> hm_get (=) cs1 k' = Some c"
    using connect_effect [OF Cons.prems, of k w] one by auto
  obtain rs cs2 w2 where rest: "connects cn ks (cs1, w1) = (rs, cs2, w2)"
    by (cases "connects cn ks (cs1, w1)")
  then show ?case using Cons.IH [OF first(1), of w1] first(2) one by auto
qed simp

section \<open>Properties\<close>

text \<open>C31. Connecting again to a socket that is connected gives the same connection and asks
  nobody; it stays so whatever other connections are opened in between.\<close>

theorem connect_reuses_connection:
  assumes "clients_inv cn cs" and "Client_connect cn k (cs, w) = (Inr (Inr c), cs1, w1)"
    and "connects cn ks (cs1, w1) = (rs, cs2, w2)"
  shows "Client_connect cn k (cs2, w2) = (Inr (Inr c), cs2, w2) \<and> Client_socket c = k"
proof -
  have one: "clients_inv cn cs1" "get_persisted_client k cs1 = Some c"
    using connect_effect [OF assms(1), of k w] assms(2) by auto
  then have "get_persisted_client k cs2 = Some c"
    using connects_effect [OF one(1), of ks w1] assms(3) by (auto simp: get_persisted_iff)
  then have "Client_connect cn k (cs2, w2) = (Inr (Inr c), cs2, w2)" by (simp add: Client_connect_def)
  moreover have "Client_socket c = k" using one(2) by (simp add: get_persisted_iff Client_socket_def)
  ultimately show ?thesis ..
qed

theorem connect_reuses_connection_witness:
  "\<exists>cs2. connects sample_connector [''b''] ([(''a'', 0)], 1) =
      ([Inr (Inr \<lparr>cl_client = 1, cl_socket = ''b''\<rparr>)], cs2, 2) \<and>
    Client_connect sample_connector ''a'' (cs2, 2) = (Inr (Inr \<lparr>cl_client = 0, cl_socket = ''a''\<rparr>), cs2, 2)"
proof -
  have inv: "clients_inv sample_connector []" by (simp add: clients_inv_def)
  have one: "Client_connect sample_connector ''a'' ([], 0) =
      (Inr (Inr \<lparr>cl_client = 0, cl_socket = ''a''\<rparr>), [(''a'', 0)], 1)"
    by (simp add: Client_connect_def sample_connector_def get_persisted_client_def persist_client_def VERSION_def)
  have two: "connects sample_connector [''b''] ([(''a'', 0)], 1) =
      ([Inr (Inr \<lparr>cl_client = 1, cl_socket = ''b''\<rparr>)], [(''a'', 0), (''b'', 1)], 2)"
    by (simp add: Client_connect_def sample_connector_def get_persisted_client_def persist_client_def VERSION_def)
  show ?thesis using connect_reuses_connection [OF inv one two] two by blast
qed

text \<open>C32. No connection is kept unless its manager reported the client's version: the registry
  only ever holds checked connections, and a connect that fails, by a missing socket, a
  failed request or another version, leaves the registry as it was.\<close>

theorem registry_holds_checked_connections:
  assumes "connects cn ks ([], w) = (rs, cs, w')"
  shows "clients_inv cn cs \<and>
    (case Client_connect cn k (cs, w') of (r, cs', w'') \<Rightarrow> (\<exists>c. r = Inr (Inr c)) \<or> cs' = cs)"
proof -
  have "clients_inv cn []" by (simp add: clients_inv_def)
  then have inv: "clients_inv cn cs" using connects_effect [of cn "[]" ks w] assms by simp
  then show ?thesis using connect_effect [OF inv, of k w'] by auto
qed

theorem registry_holds_checked_connections_witness:
  "connects sample_connector [''a''] ([], 0) = ([Inr (Inr \<lparr>cl_client = 0, cl_socket = ''a''\<rparr>)], [(''a'', 0)], 1) \<and>
   clients_inv sample_connector [(''a'', 0)]"
proof -
  have one: "connects sample_connector [''a''] ([], 0) =
      ([Inr (Inr \<lparr>cl_client = 0, cl_socket = ''a''\<rparr>)], [(''a'', 0)], 1)"
    by (simp add: Client_connect_def sample_connector_def get_persisted_client_def persist_client_def VERSION_def)
  then show ?thesis using registry_holds_checked_connections [OF one] by blast
qed

end
