(* ===== verification/Grpc.thy ===== *)
theory Grpc
  imports Client_Laws Registry
begin

text \<open>
  The blocking wrapper of \<^verbatim>\<open>src/grpc.rs\<close> around the generated gRPC client: the
  connection over a Unix socket, and one method for each RPC that runs the asynchronous
  call of the generated client to completion. The generated client (\<^verbatim>\<open>KvsClient\<close>), the
  transport (\<^verbatim>\<open>tonic\<close>, \<^verbatim>\<open>tokio\<close>) and the manager behind the socket are parameters:
  a record of one function for each RPC, from a request message and a world to the text of a
  failed status or the response, and the next world. \<open>service_of\<close> is the service that the
  commands of the client see; the theorem says that every command reaches the RPC of its
  own name with its arguments.
\<close>

section \<open>The generated client\<close>

text \<open>One field for each RPC of \<^verbatim>\<open>asld_kvs.proto\<close>; a request message is the tuple of its
  fields. A stream of responses is the list of its messages.\<close>

record ('cdt, 'w) KvsClient =
  kvs_version :: "(unit, 'w, string) rpc"
  kvs_get :: "(ReadPolicy \<times> Key \<times> string list, 'w, proto_Error option \<times> Record option) rpc"
  kvs_get_header :: "(ReadPolicy \<times> Key, 'w, proto_Error option \<times> Record option) rpc"
  kvs_exists :: "(ReadPolicy \<times> Key, 'w, proto_Error option \<times> bool option) rpc"
  kvs_put :: "(WritePolicy \<times> Key \<times> Bin list, 'w, proto_Error) rpc"
  kvs_add :: "(WritePolicy \<times> Key \<times> Bin list, 'w, proto_Error) rpc"
  kvs_append :: "(WritePolicy \<times> Key \<times> Bin list, 'w, proto_Error) rpc"
  kvs_prepend :: "(WritePolicy \<times> Key \<times> Bin list, 'w, proto_Error) rpc"
  kvs_delete :: "(WritePolicy \<times> Key, 'w, proto_Error option \<times> bool option) rpc"
  kvs_touch :: "(WritePolicy \<times> Key, 'w, proto_Error) rpc"
  kvs_batch_operate :: "(BatchPolicy \<times> 'cdt BatchOperate list, 'w, proto_Error option \<times> BatchRecord list) rpc"
  kvs_create_index :: "(WritePolicy \<times> string \<times> string \<times> string \<times> string \<times> i32 \<times> i32 \<times> CDTContext list, 'w, proto_Error option) rpc"
  kvs_drop_index :: "(WritePolicy \<times> string \<times> string \<times> string, 'w, proto_Error option) rpc"
  kvs_truncate :: "(InfoPolicy \<times> string \<times> string \<times> i64 option, 'w, proto_Error option) rpc"
  kvs_register_udf :: "(WritePolicy \<times> bytes \<times> string \<times> i32, 'w, proto_Error option) rpc"
  kvs_drop_udf :: "(WritePolicy \<times> string, 'w, proto_Error option) rpc"
  kvs_list_udf :: "(ReadPolicy, 'w, proto_Error option \<times> UdfMeta list) rpc"
  kvs_udf_execute :: "(WritePolicy \<times> Key \<times> string \<times> string \<times> proto_Value list, 'w, proto_Error option \<times> proto_Value option) rpc"
  kvs_create_user :: "(AdminPolicy \<times> string \<times> string \<times> string list, 'w, proto_Error option) rpc"
  kvs_drop_user :: "(AdminPolicy \<times> string, 'w, proto_Error option) rpc"
  kvs_change_password :: "(AdminPolicy \<times> string \<times> string, 'w, proto_Error option) rpc"
  kvs_grant_roles :: "(AdminPolicy \<times> string \<times> string list, 'w, proto_Error option) rpc"
  kvs_revoke_roles :: "(AdminPolicy \<times> string \<times> string list, 'w, proto_Error option) rpc"
  kvs_query_users :: "(AdminPolicy \<times> string option, 'w, proto_Error option \<times> UserRole list) rpc"
  kvs_query_roles :: "(AdminPolicy \<times> string option, 'w, proto_Error option \<times> Role list) rpc"
  kvs_create_role :: "(AdminPolicy \<times> string \<times> Privilege list \<times> string list \<times> u32 \<times> u32, 'w, proto_Error option) rpc"
  kvs_drop_role :: "(AdminPolicy \<times> string, 'w, proto_Error option) rpc"
  kvs_grant_privileges :: "(AdminPolicy \<times> string \<times> Privilege list, 'w, proto_Error option) rpc"
  kvs_revoke_privileges :: "(AdminPolicy \<times> string \<times> Privilege list, 'w, proto_Error option) rpc"
  kvs_set_allowlist :: "(AdminPolicy \<times> string \<times> string list, 'w, proto_Error option) rpc"
  kvs_set_quotas :: "(AdminPolicy \<times> string \<times> u32 \<times> u32, 'w, proto_Error option) rpc"
  kvs_scan :: "(ScanPolicy \<times> string \<times> string \<times> string list \<times> PartitionFilter, 'w, stream_item list) rpc"
  kvs_query :: "(QueryPolicy \<times> PartitionFilter \<times> Statement, 'w, stream_item list) rpc"

section \<open>The blocking client\<close>

text \<open>The fields in declaration order: the client is dropped before the runtime.\<close>
record ('cdt, 'w, 'rt) BlockingClient =
  bc_client :: "('cdt, 'w) KvsClient"
  bc_rt :: 'rt

text \<open>
  The packages that \<^verbatim>\<open>connect\<close> uses: building the runtime, parsing an endpoint,
  connecting a channel over the socket at a path (the given URI is ignored), and the
  generated client on a channel with a limit on the size of a decoded message. An error is
  its text.
\<close>
record ('cdt, 'w, 'rt, 'ep, 'ch) transport =
  tokio_build :: "string + 'rt"
  endpoint_try_from :: "string \<Rightarrow> string + 'ep"
  connect_with_connector :: "'ep \<Rightarrow> string \<Rightarrow> 'w \<Rightarrow> (string + 'ch) \<times> 'w"
  kvs_client_new :: "'ch \<Rightarrow> nat \<Rightarrow> ('cdt, 'w) KvsClient"

definition BlockingClient_connect ::
  "('cdt, 'w, 'rt, 'ep, 'ch) transport \<Rightarrow> string \<Rightarrow> 'w \<Rightarrow>
   (panic + (string + ('cdt, 'w, 'rt) BlockingClient)) \<times> 'w" where
  "BlockingClient_connect tr path w =
     (case tokio_build tr of
        Inl e \<Rightarrow> (Inl ExpectErr, w)
      | Inr rt \<Rightarrow>
          (case endpoint_try_from tr ''http://[::]:50051'' of
             Inl e \<Rightarrow> (Inr (Inl e), w)
           | Inr binding \<Rightarrow>
               (case connect_with_connector tr binding path w of
                  (Inl e, w') \<Rightarrow> (Inr (Inl e), w')
                | (Inr ch, w') \<Rightarrow>
                    (Inr (Inr \<lparr>bc_client = kvs_client_new tr ch (130 * 1024 * 1024), bc_rt = rt\<rparr>), w'))))"

text \<open>\<^verbatim>\<open>new_aerospike_client\<close> of \<^verbatim>\<open>src/lib.rs\<close>.\<close>
definition new_aerospike_client ::
  "('cdt, 'w, 'rt, 'ep, 'ch) transport \<Rightarrow> string \<Rightarrow> 'w \<Rightarrow>
   (panic + (string + ('cdt, 'w, 'rt) BlockingClient)) \<times> 'w" where
  "new_aerospike_client tr socket w = BlockingClient_connect tr socket w"

text \<open>\<^verbatim>\<open>Runtime::block_on\<close> of a call of the generated client: run it to its end.\<close>
definition block_on :: "'rt \<Rightarrow> ('w \<Rightarrow> (string + 'a) \<times> 'w) \<Rightarrow> 'w \<Rightarrow> (string + 'a) \<times> 'w" where
  "block_on rt fut w = fut w"

definition BlockingClient_version ::
  "('cdt, 'w, 'rt) BlockingClient \<Rightarrow> (unit, 'w, string) rpc" where
  "BlockingClient_version s request = block_on (bc_rt s) (kvs_version (bc_client s) request)"

definition BlockingClient_get ::
  "('cdt, 'w, 'rt) BlockingClient \<Rightarrow> (ReadPolicy \<times> Key \<times> string list, 'w, proto_Error option \<times> Record option) rpc" where
  "BlockingClient_get s request = block_on (bc_rt s) (kvs_get (bc_client s) request)"

definition BlockingClient_get_header ::
  "('cdt, 'w, 'rt) BlockingClient \<Rightarrow> (ReadPolicy \<times> Key, 'w, proto_Error option \<times> Record option) rpc" where
  "BlockingClient_get_header s request = block_on (bc_rt s) (kvs_get_header (bc_client s) request)"

definition BlockingClient_exists ::
  "('cdt, 'w, 'rt) BlockingClient \<Rightarrow> (ReadPolicy \<times> Key, 'w, proto_Error option \<times> bool option) rpc" where
  "BlockingClient_exists s request = block_on (bc_rt s) (kvs_exists (bc_client s) request)"

definition BlockingClient_put ::
  "('cdt, 'w, 'rt) BlockingClient \<Rightarrow> (WritePolicy \<times> Key \<times> Bin list, 'w, proto_Error) rpc" where
  "BlockingClient_put s request = block_on (bc_rt s) (kvs_put (bc_client s) request)"

definition BlockingClient_add ::
  "('cdt, 'w, 'rt) BlockingClient \<Rightarrow> (WritePolicy \<times> Key \<times> Bin list, 'w, proto_Error) rpc" where
  "BlockingClient_add s request = block_on (bc_rt s) (kvs_add (bc_client s) request)"

definition BlockingClient_append ::
  "('cdt, 'w, 'rt) BlockingClient \<Rightarrow> (WritePolicy \<times> Key \<times> Bin list, 'w, proto_Error) rpc" where
  "BlockingClient_append s request = block_on (bc_rt s) (kvs_append (bc_client s) request)"

definition BlockingClient_prepend ::
  "('cdt, 'w, 'rt) BlockingClient \<Rightarrow> (WritePolicy \<times> Key \<times> Bin list, 'w, proto_Error) rpc" where
  "BlockingClient_prepend s request = block_on (bc_rt s) (kvs_prepend (bc_client s) request)"

definition BlockingClient_delete ::
  "('cdt, 'w, 'rt) BlockingClient \<Rightarrow> (WritePolicy \<times> Key, 'w, proto_Error option \<times> bool option) rpc" where
  "BlockingClient_delete s request = block_on (bc_rt s) (kvs_delete (bc_client s) request)"

definition BlockingClient_touch ::
  "('cdt, 'w, 'rt) BlockingClient \<Rightarrow> (WritePolicy \<times> Key, 'w, proto_Error) rpc" where
  "BlockingClient_touch s request = block_on (bc_rt s) (kvs_touch (bc_client s) request)"

definition BlockingClient_batch_operate ::
  "('cdt, 'w, 'rt) BlockingClient \<Rightarrow> (BatchPolicy \<times> 'cdt BatchOperate list, 'w, proto_Error option \<times> BatchRecord list) rpc" where
  "BlockingClient_batch_operate s request = block_on (bc_rt s) (kvs_batch_operate (bc_client s) request)"

definition BlockingClient_create_index ::
  "('cdt, 'w, 'rt) BlockingClient \<Rightarrow> (WritePolicy \<times> string \<times> string \<times> string \<times> string \<times> i32 \<times> i32 \<times> CDTContext list, 'w, proto_Error option) rpc" where
  "BlockingClient_create_index s request = block_on (bc_rt s) (kvs_create_index (bc_client s) request)"

definition BlockingClient_drop_index ::
  "('cdt, 'w, 'rt) BlockingClient \<Rightarrow> (WritePolicy \<times> string \<times> string \<times> string, 'w, proto_Error option) rpc" where
  "BlockingClient_drop_index s request = block_on (bc_rt s) (kvs_drop_index (bc_client s) request)"

definition BlockingClient_truncate ::
  "('cdt, 'w, 'rt) BlockingClient \<Rightarrow> (InfoPolicy \<times> string \<times> string \<times> i64 option, 'w, proto_Error option) rpc" where
  "BlockingClient_truncate s request = block_on (bc_rt s) (kvs_truncate (bc_client s) request)"

definition BlockingClient_register_udf ::
  "('cdt, 'w, 'rt) BlockingClient \<Rightarrow> (WritePolicy \<times> bytes \<times> string \<times> i32, 'w, proto_Error option) rpc" where
  "BlockingClient_register_udf s request = block_on (bc_rt s) (kvs_register_udf (bc_client s) request)"

definition BlockingClient_drop_udf ::
  "('cdt, 'w, 'rt) BlockingClient \<Rightarrow> (WritePolicy \<times> string, 'w, proto_Error option) rpc" where
  "BlockingClient_drop_udf s request = block_on (bc_rt s) (kvs_drop_udf (bc_client s) request)"

definition BlockingClient_list_udf ::
  "('cdt, 'w, 'rt) BlockingClient \<Rightarrow> (ReadPolicy, 'w, proto_Error option \<times> UdfMeta list) rpc" where
  "BlockingClient_list_udf s request = block_on (bc_rt s) (kvs_list_udf (bc_client s) request)"

definition BlockingClient_udf_execute ::
  "('cdt, 'w, 'rt) BlockingClient \<Rightarrow> (WritePolicy \<times> Key \<times> string \<times> string \<times> proto_Value list, 'w, proto_Error option \<times> proto_Value option) rpc" where
  "BlockingClient_udf_execute s request = block_on (bc_rt s) (kvs_udf_execute (bc_client s) request)"

definition BlockingClient_create_user ::
  "('cdt, 'w, 'rt) BlockingClient \<Rightarrow> (AdminPolicy \<times> string \<times> string \<times> string list, 'w, proto_Error option) rpc" where
  "BlockingClient_create_user s request = block_on (bc_rt s) (kvs_create_user (bc_client s) request)"

definition BlockingClient_drop_user ::
  "('cdt, 'w, 'rt) BlockingClient \<Rightarrow> (AdminPolicy \<times> string, 'w, proto_Error option) rpc" where
  "BlockingClient_drop_user s request = block_on (bc_rt s) (kvs_drop_user (bc_client s) request)"

definition BlockingClient_change_password ::
  "('cdt, 'w, 'rt) BlockingClient \<Rightarrow> (AdminPolicy \<times> string \<times> string, 'w, proto_Error option) rpc" where
  "BlockingClient_change_password s request = block_on (bc_rt s) (kvs_change_password (bc_client s) request)"

definition BlockingClient_grant_roles ::
  "('cdt, 'w, 'rt) BlockingClient \<Rightarrow> (AdminPolicy \<times> string \<times> string list, 'w, proto_Error option) rpc" where
  "BlockingClient_grant_roles s request = block_on (bc_rt s) (kvs_grant_roles (bc_client s) request)"

definition BlockingClient_revoke_roles ::
  "('cdt, 'w, 'rt) BlockingClient \<Rightarrow> (AdminPolicy \<times> string \<times> string list, 'w, proto_Error option) rpc" where
  "BlockingClient_revoke_roles s request = block_on (bc_rt s) (kvs_revoke_roles (bc_client s) request)"

definition BlockingClient_query_users ::
  "('cdt, 'w, 'rt) BlockingClient \<Rightarrow> (AdminPolicy \<times> string option, 'w, proto_Error option \<times> UserRole list) rpc" where
  "BlockingClient_query_users s request = block_on (bc_rt s) (kvs_query_users (bc_client s) request)"

definition BlockingClient_query_roles ::
  "('cdt, 'w, 'rt) BlockingClient \<Rightarrow> (AdminPolicy \<times> string option, 'w, proto_Error option \<times> Role list) rpc" where
  "BlockingClient_query_roles s request = block_on (bc_rt s) (kvs_query_roles (bc_client s) request)"

definition BlockingClient_create_role ::
  "('cdt, 'w, 'rt) BlockingClient \<Rightarrow> (AdminPolicy \<times> string \<times> Privilege list \<times> string list \<times> u32 \<times> u32, 'w, proto_Error option) rpc" where
  "BlockingClient_create_role s request = block_on (bc_rt s) (kvs_create_role (bc_client s) request)"

definition BlockingClient_drop_role ::
  "('cdt, 'w, 'rt) BlockingClient \<Rightarrow> (AdminPolicy \<times> string, 'w, proto_Error option) rpc" where
  "BlockingClient_drop_role s request = block_on (bc_rt s) (kvs_drop_role (bc_client s) request)"

definition BlockingClient_grant_privileges ::
  "('cdt, 'w, 'rt) BlockingClient \<Rightarrow> (AdminPolicy \<times> string \<times> Privilege list, 'w, proto_Error option) rpc" where
  "BlockingClient_grant_privileges s request = block_on (bc_rt s) (kvs_grant_privileges (bc_client s) request)"

definition BlockingClient_revoke_privileges ::
  "('cdt, 'w, 'rt) BlockingClient \<Rightarrow> (AdminPolicy \<times> string \<times> Privilege list, 'w, proto_Error option) rpc" where
  "BlockingClient_revoke_privileges s request = block_on (bc_rt s) (kvs_revoke_privileges (bc_client s) request)"

definition BlockingClient_set_allowlist ::
  "('cdt, 'w, 'rt) BlockingClient \<Rightarrow> (AdminPolicy \<times> string \<times> string list, 'w, proto_Error option) rpc" where
  "BlockingClient_set_allowlist s request = block_on (bc_rt s) (kvs_set_allowlist (bc_client s) request)"

definition BlockingClient_set_quotas ::
  "('cdt, 'w, 'rt) BlockingClient \<Rightarrow> (AdminPolicy \<times> string \<times> u32 \<times> u32, 'w, proto_Error option) rpc" where
  "BlockingClient_set_quotas s request = block_on (bc_rt s) (kvs_set_quotas (bc_client s) request)"

definition BlockingClient_scan ::
  "('cdt, 'w, 'rt) BlockingClient \<Rightarrow> (ScanPolicy \<times> string \<times> string \<times> string list \<times> PartitionFilter, 'w, stream_item list) rpc" where
  "BlockingClient_scan s request = block_on (bc_rt s) (kvs_scan (bc_client s) request)"

definition BlockingClient_query ::
  "('cdt, 'w, 'rt) BlockingClient \<Rightarrow> (QueryPolicy \<times> PartitionFilter \<times> Statement, 'w, stream_item list) rpc" where
  "BlockingClient_query s request = block_on (bc_rt s) (kvs_query (bc_client s) request)"

text \<open>\<^verbatim>\<open>next_record\<close>: the next message of a stream.\<close>
definition BlockingClient_next_record ::
  "('cdt, 'w, 'rt) BlockingClient \<Rightarrow> stream_item list \<Rightarrow> stream_item option \<times> stream_item list" where
  "BlockingClient_next_record s rs = next_record rs"

section \<open>The service of the commands\<close>

text \<open>A request that is not one of the RPCs of a field: no command makes it.\<close>
abbreviation (input) no_method :: "'w \<Rightarrow> (string + 'a) \<times> 'w" where
  "no_method w \<equiv> (Inl ''no method'', w)"

text \<open>
  The methods of the blocking client as one service: the commands name the RPC they call by the
  request they make, and this definition hands it to the method of that name. It has no
  counterpart in the code, where a command calls the method itself.
\<close>
definition service_of :: "('cdt, 'w, 'rt) BlockingClient \<Rightarrow> ('cdt, 'w) service" where
  "service_of c =
     \<lparr>rpc_error = (\<lambda>r w. case r of
         R_put p k bs \<Rightarrow> BlockingClient_put c (p, k, bs) w
       | R_add p k bs \<Rightarrow> BlockingClient_add c (p, k, bs) w
       | R_append p k bs \<Rightarrow> BlockingClient_append c (p, k, bs) w
       | R_prepend p k bs \<Rightarrow> BlockingClient_prepend c (p, k, bs) w
       | R_touch p k \<Rightarrow> BlockingClient_touch c (p, k) w
       | _ \<Rightarrow> no_method w),
      rpc_single = (\<lambda>r w. case r of
         R_get p k bs \<Rightarrow> BlockingClient_get c (p, k, bs) w
       | R_get_header p k \<Rightarrow> BlockingClient_get_header c (p, k) w
       | _ \<Rightarrow> no_method w),
      rpc_delete = (\<lambda>r w. case r of
         R_delete p k \<Rightarrow> BlockingClient_delete c (p, k) w
       | _ \<Rightarrow> no_method w),
      rpc_exists = (\<lambda>r w. case r of
         R_exists p k \<Rightarrow> BlockingClient_exists c (p, k) w
       | _ \<Rightarrow> no_method w),
      rpc_batch = (\<lambda>r w. case r of
         R_batch_operate p rs \<Rightarrow> BlockingClient_batch_operate c (p, rs) w
       | _ \<Rightarrow> no_method w),
      rpc_status = (\<lambda>r w. case r of
         R_create_index p ns s n b t cit ctx \<Rightarrow> BlockingClient_create_index c (p, ns, s, n, b, t, cit, ctx) w
       | R_drop_index p ns s n \<Rightarrow> BlockingClient_drop_index c (p, ns, s, n) w
       | R_truncate p ns s t \<Rightarrow> BlockingClient_truncate c (p, ns, s, t) w
       | R_register_udf p b n l \<Rightarrow> BlockingClient_register_udf c (p, b, n, l) w
       | R_drop_udf p n \<Rightarrow> BlockingClient_drop_udf c (p, n) w
       | R_create_user p u pw rs \<Rightarrow> BlockingClient_create_user c (p, u, pw, rs) w
       | R_drop_user p u \<Rightarrow> BlockingClient_drop_user c (p, u) w
       | R_change_password p u pw \<Rightarrow> BlockingClient_change_password c (p, u, pw) w
       | R_grant_roles p u rs \<Rightarrow> BlockingClient_grant_roles c (p, u, rs) w
       | R_revoke_roles p u rs \<Rightarrow> BlockingClient_revoke_roles c (p, u, rs) w
       | R_create_role p n ps al rq wq \<Rightarrow> BlockingClient_create_role c (p, n, ps, al, rq, wq) w
       | R_drop_role p n \<Rightarrow> BlockingClient_drop_role c (p, n) w
       | R_grant_privileges p n ps \<Rightarrow> BlockingClient_grant_privileges c (p, n, ps) w
       | R_revoke_privileges p n ps \<Rightarrow> BlockingClient_revoke_privileges c (p, n, ps) w
       | R_set_allowlist p n al \<Rightarrow> BlockingClient_set_allowlist c (p, n, al) w
       | R_set_quotas p n rq wq \<Rightarrow> BlockingClient_set_quotas c (p, n, rq, wq) w
       | _ \<Rightarrow> no_method w),
      rpc_udf_list = (\<lambda>r w. case r of
         R_list_udf p \<Rightarrow> BlockingClient_list_udf c (p) w
       | _ \<Rightarrow> no_method w),
      rpc_udf_result = (\<lambda>r w. case r of
         R_udf_execute p k n f args \<Rightarrow> BlockingClient_udf_execute c (p, k, n, f, args) w
       | _ \<Rightarrow> no_method w),
      rpc_users = (\<lambda>r w. case r of
         R_query_users p u \<Rightarrow> BlockingClient_query_users c (p, u) w
       | _ \<Rightarrow> no_method w),
      rpc_roles = (\<lambda>r w. case r of
         R_query_roles p n \<Rightarrow> BlockingClient_query_roles c (p, n) w
       | _ \<Rightarrow> no_method w),
      rpc_stream = (\<lambda>r w. case r of
         R_scan p ns s bs pf \<Rightarrow> BlockingClient_scan c (p, ns, s, bs, pf) w
       | R_query p pf st \<Rightarrow> BlockingClient_query c (p, pf, st) w
       | _ \<Rightarrow> no_method w)\<rparr>"


lemma service_of_simps [simp]:
  "rpc_single (service_of c) (R_get p1 k1 bs1) = kvs_get (bc_client c) (p1, k1, bs1)"
  "rpc_single (service_of c) (R_get_header p2 k2) = kvs_get_header (bc_client c) (p2, k2)"
  "rpc_exists (service_of c) (R_exists p3 k3) = kvs_exists (bc_client c) (p3, k3)"
  "rpc_error (service_of c) (R_put p4 k4 bs4) = kvs_put (bc_client c) (p4, k4, bs4)"
  "rpc_error (service_of c) (R_add p5 k5 bs5) = kvs_add (bc_client c) (p5, k5, bs5)"
  "rpc_error (service_of c) (R_append p6 k6 bs6) = kvs_append (bc_client c) (p6, k6, bs6)"
  "rpc_error (service_of c) (R_prepend p7 k7 bs7) = kvs_prepend (bc_client c) (p7, k7, bs7)"
  "rpc_delete (service_of c) (R_delete p8 k8) = kvs_delete (bc_client c) (p8, k8)"
  "rpc_error (service_of c) (R_touch p9 k9) = kvs_touch (bc_client c) (p9, k9)"
  "rpc_batch (service_of c) (R_batch_operate p10 rs10) = kvs_batch_operate (bc_client c) (p10, rs10)"
  "rpc_status (service_of c) (R_create_index p11 ns11 s11 n11 b11 t11 cit11 ctx11) = kvs_create_index (bc_client c) (p11, ns11, s11, n11, b11, t11, cit11, ctx11)"
  "rpc_status (service_of c) (R_drop_index p12 ns12 s12 n12) = kvs_drop_index (bc_client c) (p12, ns12, s12, n12)"
  "rpc_status (service_of c) (R_truncate p13 ns13 s13 t13) = kvs_truncate (bc_client c) (p13, ns13, s13, t13)"
  "rpc_status (service_of c) (R_register_udf p14 b14 n14 l14) = kvs_register_udf (bc_client c) (p14, b14, n14, l14)"
  "rpc_status (service_of c) (R_drop_udf p15 n15) = kvs_drop_udf (bc_client c) (p15, n15)"
  "rpc_udf_list (service_of c) (R_list_udf p16) = kvs_list_udf (bc_client c) (p16)"
  "rpc_udf_result (service_of c) (R_udf_execute p17 k17 n17 f17 args17) = kvs_udf_execute (bc_client c) (p17, k17, n17, f17, args17)"
  "rpc_status (service_of c) (R_create_user p18 u18 pw18 rs18) = kvs_create_user (bc_client c) (p18, u18, pw18, rs18)"
  "rpc_status (service_of c) (R_drop_user p19 u19) = kvs_drop_user (bc_client c) (p19, u19)"
  "rpc_status (service_of c) (R_change_password p20 u20 pw20) = kvs_change_password (bc_client c) (p20, u20, pw20)"
  "rpc_status (service_of c) (R_grant_roles p21 u21 rs21) = kvs_grant_roles (bc_client c) (p21, u21, rs21)"
  "rpc_status (service_of c) (R_revoke_roles p22 u22 rs22) = kvs_revoke_roles (bc_client c) (p22, u22, rs22)"
  "rpc_users (service_of c) (R_query_users p23 u23) = kvs_query_users (bc_client c) (p23, u23)"
  "rpc_roles (service_of c) (R_query_roles p24 n24) = kvs_query_roles (bc_client c) (p24, n24)"
  "rpc_status (service_of c) (R_create_role p25 n25 ps25 al25 rq25 wq25) = kvs_create_role (bc_client c) (p25, n25, ps25, al25, rq25, wq25)"
  "rpc_status (service_of c) (R_drop_role p26 n26) = kvs_drop_role (bc_client c) (p26, n26)"
  "rpc_status (service_of c) (R_grant_privileges p27 n27 ps27) = kvs_grant_privileges (bc_client c) (p27, n27, ps27)"
  "rpc_status (service_of c) (R_revoke_privileges p28 n28 ps28) = kvs_revoke_privileges (bc_client c) (p28, n28, ps28)"
  "rpc_status (service_of c) (R_set_allowlist p29 n29 al29) = kvs_set_allowlist (bc_client c) (p29, n29, al29)"
  "rpc_status (service_of c) (R_set_quotas p30 n30 rq30 wq30) = kvs_set_quotas (bc_client c) (p30, n30, rq30, wq30)"
  "rpc_stream (service_of c) (R_scan p31 ns31 s31 bs31 pf31) = kvs_scan (bc_client c) (p31, ns31, s31, bs31, pf31)"
  "rpc_stream (service_of c) (R_query p32 pf32 st32) = kvs_query (bc_client c) (p32, pf32, st32)"
  by (rule ext, simp add: service_of_def block_on_def BlockingClient_get_def BlockingClient_get_header_def BlockingClient_exists_def BlockingClient_put_def BlockingClient_add_def BlockingClient_append_def BlockingClient_prepend_def BlockingClient_delete_def BlockingClient_touch_def BlockingClient_batch_operate_def BlockingClient_create_index_def BlockingClient_drop_index_def BlockingClient_truncate_def BlockingClient_register_udf_def BlockingClient_drop_udf_def BlockingClient_list_udf_def BlockingClient_udf_execute_def BlockingClient_create_user_def BlockingClient_drop_user_def BlockingClient_change_password_def BlockingClient_grant_roles_def BlockingClient_revoke_roles_def BlockingClient_query_users_def BlockingClient_query_roles_def BlockingClient_create_role_def BlockingClient_drop_role_def BlockingClient_grant_privileges_def BlockingClient_revoke_privileges_def BlockingClient_set_allowlist_def BlockingClient_set_quotas_def BlockingClient_scan_def BlockingClient_query_def)+

lemmas single_record_defs =
  Client_put_def Client_add_def Client_append_def Client_prepend_def Client_touch_def
  Client_get_def Client_get_header_def Client_delete_def Client_exists_def Client_scan_def Client_query_def

lemmas admin_defs =
  Client_truncate_def Client_create_index_def Client_drop_index_def Client_register_udf_def
  Client_drop_udf_def Client_list_udf_def Client_create_user_def Client_drop_user_def
  Client_change_password_def Client_grant_roles_def Client_revoke_roles_def Client_query_users_def
  Client_query_roles_def Client_create_role_def Client_drop_role_def Client_grant_privileges_def
  Client_revoke_privileges_def Client_set_allowlist_def Client_set_quotas_def

text \<open>The response of \<^verbatim>\<open>list_udf\<close>, \<^verbatim>\<open>query_users\<close> and \<^verbatim>\<open>query_roles\<close>.\<close>
definition on_list :: "proto_Error option \<times> 'a list \<Rightarrow> (string + 'a list) php" where
  "on_list res = (case res of (None, xs) \<Rightarrow> ret (Inr xs) | (Some pe, xs) \<Rightarrow> throw_error pe [])"

lemma on_list_alt: "(\<lambda>(error, xs). case error of None \<Rightarrow> ret (Inr xs) | Some pe \<Rightarrow> throw_error pe []) = on_list"
  by (auto simp: on_list_def split: option.splits)

section \<open>Properties\<close>

text \<open>Connecting asks for one channel to the given socket, returns the error of the
  endpoint or of the channel, and otherwise a client that decodes messages of up to 130 MiB;
  it panics only if the runtime cannot be built.\<close>
lemma connect_outcome:
  "BlockingClient_connect tr path w =
     (case (tokio_build tr, endpoint_try_from tr ''http://[::]:50051'') of
        (Inl _, _) \<Rightarrow> (Inl ExpectErr, w)
      | (Inr _, Inl e) \<Rightarrow> (Inr (Inl e), w)
      | (Inr rt, Inr ep) \<Rightarrow>
          (let (r, w') = connect_with_connector tr ep path w
           in (Inr (map_sum id (\<lambda>ch. \<lparr>bc_client = kvs_client_new tr ch 136314880, bc_rt = rt\<rparr>) r), w')))"
  by (auto simp: BlockingClient_connect_def split: sum.splits prod.splits)

end
