(* ===== verification/Manager_Server.thy ===== *)
theory Manager_Server
  imports Manager_Records Grpc
begin

text \<open>
  The handlers of the connection manager (\<^verbatim>\<open>aerospike-connection-manager/kvs.go\<close>): each
  reads its request, calls one function of the Aerospike Go library and writes the answer.
  The library's client is a parameter (a record of one function for each library call, from
  its arguments and the state of the cluster to its results and the next state). A handler
  that panics before the call leaves the cluster as it was. The recovery interceptor of
  \<^verbatim>\<open>main.go\<close> turns a panic into a failed status; \<open>manager_stub\<close> puts the
  handlers behind the RPCs of the generated client, so that the commands of the client run
  against them.
\<close>

section \<open>The client of the Go library\<close>

text \<open>A batch record made for the library, with its policy and key read.\<close>
datatype 'c lib_batch =
    LibBatchRead "aero_BatchReadPolicy option" "aero_key option" "string list option"
  | LibBatchReadOps "aero_BatchReadPolicy option" "aero_key option" "'c aero_op list"
  | LibBatchReadHeader "aero_BatchReadPolicy option" "aero_key option"
  | LibBatchWrite "aero_BatchWritePolicy option" "aero_key option" "'c aero_op list"
  | LibBatchDelete "aero_BatchDeletePolicy option" "aero_key option"
  | LibBatchUDF "aero_BatchUDFPolicy option" "aero_key option" string string "aero_value list"

text \<open>A result of a scan or query: an error, or a record with the sort value of its bin.\<close>
record scan_result =
  sres_err :: "aero_error option"
  sres_record :: "aero_record option"
  sres_bval :: "i64 option"

record 'w aero_client =
  lib_Get :: "aero_BasePolicy option \<Rightarrow> aero_key option \<Rightarrow> string list \<Rightarrow> 'w \<Rightarrow> (aero_record option \<times> aero_error option) \<times> 'w"
  lib_GetHeader :: "aero_BasePolicy option \<Rightarrow> aero_key option \<Rightarrow> 'w \<Rightarrow> (aero_record option \<times> aero_error option) \<times> 'w"
  lib_Exists :: "aero_BasePolicy option \<Rightarrow> aero_key option \<Rightarrow> 'w \<Rightarrow> (bool \<times> aero_error option) \<times> 'w"
  lib_PutBins :: "aero_WritePolicy option \<Rightarrow> aero_key option \<Rightarrow> (string \<times> aero_value) list \<Rightarrow> 'w \<Rightarrow> (aero_error option) \<times> 'w"
  lib_AddBins :: "aero_WritePolicy option \<Rightarrow> aero_key option \<Rightarrow> (string \<times> aero_value) list \<Rightarrow> 'w \<Rightarrow> (aero_error option) \<times> 'w"
  lib_AppendBins :: "aero_WritePolicy option \<Rightarrow> aero_key option \<Rightarrow> (string \<times> aero_value) list \<Rightarrow> 'w \<Rightarrow> (aero_error option) \<times> 'w"
  lib_PrependBins :: "aero_WritePolicy option \<Rightarrow> aero_key option \<Rightarrow> (string \<times> aero_value) list \<Rightarrow> 'w \<Rightarrow> (aero_error option) \<times> 'w"
  lib_Delete :: "aero_WritePolicy option \<Rightarrow> aero_key option \<Rightarrow> 'w \<Rightarrow> (bool \<times> aero_error option) \<times> 'w"
  lib_Touch :: "aero_WritePolicy option \<Rightarrow> aero_key option \<Rightarrow> 'w \<Rightarrow> (aero_error option) \<times> 'w"
  lib_BatchOperate :: "aero_BatchPolicy option \<Rightarrow> cdt_call lib_batch list \<Rightarrow> 'w \<Rightarrow> (aero_batch_record list \<times> aero_error option) \<times> 'w"
  lib_CreateComplexIndex :: "aero_WritePolicy option \<Rightarrow> string \<Rightarrow> string \<Rightarrow> string \<Rightarrow> string \<Rightarrow> IndexType \<Rightarrow> IndexCollectionType \<Rightarrow> 'w \<Rightarrow> (aero_error option) \<times> 'w"
  lib_DropIndex :: "aero_WritePolicy option \<Rightarrow> string \<Rightarrow> string \<Rightarrow> string \<Rightarrow> 'w \<Rightarrow> (aero_error option) \<times> 'w"
  lib_Truncate :: "i64 option \<Rightarrow> string \<Rightarrow> string \<Rightarrow> i64 option \<Rightarrow> 'w \<Rightarrow> (aero_error option) \<times> 'w"
  lib_RegisterUDF :: "aero_WritePolicy option \<Rightarrow> bytes \<Rightarrow> string \<Rightarrow> aero_language \<Rightarrow> 'w \<Rightarrow> (aero_error option) \<times> 'w"
  lib_RemoveUDF :: "aero_WritePolicy option \<Rightarrow> string \<Rightarrow> 'w \<Rightarrow> (aero_error option) \<times> 'w"
  lib_ListUDF :: "aero_BasePolicy option \<Rightarrow> 'w \<Rightarrow> (aero_udf list \<times> aero_error option) \<times> 'w"
  lib_Execute :: "aero_WritePolicy option \<Rightarrow> aero_key option \<Rightarrow> string \<Rightarrow> string \<Rightarrow> aero_value list \<Rightarrow> 'w \<Rightarrow> (go_any \<times> aero_error option) \<times> 'w"
  lib_CreateUser :: "i64 option \<Rightarrow> string \<Rightarrow> string \<Rightarrow> string list \<Rightarrow> 'w \<Rightarrow> (aero_error option) \<times> 'w"
  lib_DropUser :: "i64 option \<Rightarrow> string \<Rightarrow> 'w \<Rightarrow> (aero_error option) \<times> 'w"
  lib_ChangePassword :: "i64 option \<Rightarrow> string \<Rightarrow> string \<Rightarrow> 'w \<Rightarrow> (aero_error option) \<times> 'w"
  lib_GrantRoles :: "i64 option \<Rightarrow> string \<Rightarrow> string list \<Rightarrow> 'w \<Rightarrow> (aero_error option) \<times> 'w"
  lib_RevokeRoles :: "i64 option \<Rightarrow> string \<Rightarrow> string list \<Rightarrow> 'w \<Rightarrow> (aero_error option) \<times> 'w"
  lib_QueryUser :: "i64 option \<Rightarrow> string \<Rightarrow> 'w \<Rightarrow> (aero_user option \<times> aero_error option) \<times> 'w"
  lib_QueryUsers :: "i64 option \<Rightarrow> 'w \<Rightarrow> (aero_user option list \<times> aero_error option) \<times> 'w"
  lib_QueryRole :: "i64 option \<Rightarrow> string \<Rightarrow> 'w \<Rightarrow> (aero_role option \<times> aero_error option) \<times> 'w"
  lib_QueryRoles :: "i64 option \<Rightarrow> 'w \<Rightarrow> (aero_role option list \<times> aero_error option) \<times> 'w"
  lib_CreateRole :: "i64 option \<Rightarrow> string \<Rightarrow> aero_privilege list \<Rightarrow> string list \<Rightarrow> u32 \<Rightarrow> u32 \<Rightarrow> 'w \<Rightarrow> (aero_error option) \<times> 'w"
  lib_DropRole :: "i64 option \<Rightarrow> string \<Rightarrow> 'w \<Rightarrow> (aero_error option) \<times> 'w"
  lib_GrantPrivileges :: "i64 option \<Rightarrow> string \<Rightarrow> aero_privilege list \<Rightarrow> 'w \<Rightarrow> (aero_error option) \<times> 'w"
  lib_RevokePrivileges :: "i64 option \<Rightarrow> string \<Rightarrow> aero_privilege list \<Rightarrow> 'w \<Rightarrow> (aero_error option) \<times> 'w"
  lib_SetWhitelist :: "i64 option \<Rightarrow> string \<Rightarrow> string list \<Rightarrow> 'w \<Rightarrow> (aero_error option) \<times> 'w"
  lib_SetQuotas :: "i64 option \<Rightarrow> string \<Rightarrow> u32 \<Rightarrow> u32 \<Rightarrow> 'w \<Rightarrow> (aero_error option) \<times> 'w"
  lib_ScanPartitions :: "aero_MultiPolicy option \<Rightarrow> aero_partition_filter option \<Rightarrow> string \<Rightarrow> string \<Rightarrow> string list \<Rightarrow> 'w \<Rightarrow> (scan_result list \<times> aero_error option) \<times> 'w"
  lib_QueryPartitions :: "aero_QueryPolicy option \<Rightarrow> aero_statement option \<Rightarrow> aero_partition_filter option \<Rightarrow> 'w \<Rightarrow> (scan_result list \<times> aero_error option) \<times> 'w"

text \<open>
  The rest of the manager's surroundings: the library's functions on values, its version,
  the texts of the statuses for a panic and for an error, and whether the \<open>n\<close>-th message of a
  stream can be sent (it cannot when the client is gone).
\<close>
record go_server =
  sv_externs :: go_externs
  sv_library :: go_library
  sv_version :: string
  panic_text :: "panic \<Rightarrow> string"
  error_text :: "aero_error \<Rightarrow> string"
  send_ok :: "nat \<Rightarrow> bool"

section \<open>Shape of a handler\<close>

type_synonym ('w, 'a) handler = "'w \<Rightarrow> (panic + 'a) \<times> 'w"

text \<open>Reading an argument; a panic ends the handler.\<close>
definition prepare :: "panic + 'a \<Rightarrow> ('a \<Rightarrow> ('w, 'b) handler) \<Rightarrow> ('w, 'b) handler" where
  "prepare m k w = (case m of Inl p \<Rightarrow> (Inl p, w) | Inr a \<Rightarrow> k a w)"

text \<open>Calling the library and writing the answer.\<close>
definition answer :: "('w \<Rightarrow> 'r \<times> 'w) \<Rightarrow> ('r \<Rightarrow> panic + 'a) \<Rightarrow> ('w, 'a) handler" where
  "answer call f w = (case call w of (r, w') \<Rightarrow> (f r, w'))"

text \<open>An answer of a bare error message: the error, or result code 0.\<close>
definition error_message :: "aero_error option \<Rightarrow> panic + proto_Error" where
  "error_message err =
     (if err \<noteq> None then sbind (fromError err) deref
      else Inr \<lparr>result_code = 0, pe_in_doubt = False\<rparr>)"

text \<open>An answer with an optional error and a record, a flag or a list.\<close>
definition single_response ::
  "aero_record option \<times> aero_error option \<Rightarrow> panic + (proto_Error option \<times> Record option)" where
  "single_response res =
     (case res of (rec, err) \<Rightarrow>
        if err \<noteq> None then
          sbind (fromError err) (\<lambda>e. sbind (fromRecord rec) (\<lambda>r. Inr (e, r)))
        else sbind (fromRecord rec) (\<lambda>r. Inr (None, r)))"

definition flag_response :: "bool \<times> aero_error option \<Rightarrow> panic + (proto_Error option \<times> bool option)" where
  "flag_response res =
     (case res of (flag, err) \<Rightarrow>
        if err \<noteq> None then sbind (fromError err) (\<lambda>e. Inr (e, Some flag))
        else Inr (None, Some flag))"

definition list_response ::
  "('r \<Rightarrow> panic + 'a list) \<Rightarrow> 'r \<times> aero_error option \<Rightarrow> panic + (proto_Error option \<times> 'a list)" where
  "list_response f res =
     (case res of (xs, err) \<Rightarrow>
        if err \<noteq> None then sbind (fromError err) (\<lambda>e. Inr (e, []))
        else sbind (f xs) (\<lambda>ys. Inr (None, ys)))"

section \<open>Handlers on records\<close>

definition server_Version :: "go_server \<Rightarrow> unit \<Rightarrow> ('w, string) handler" where
  "server_Version sv in' w = (Inr (sv_version sv), w)"

definition server_Get ::
  "go_server \<Rightarrow> 'w aero_client \<Rightarrow> ReadPolicy option \<times> Key option \<times> string list \<Rightarrow>
   ('w, proto_Error option \<times> Record option) handler" where
  "server_Get sv c in' = (case in' of (policy, key, bins) \<Rightarrow>
     prepare (toReadPolicy (sv_externs sv) policy) (\<lambda>p.
     prepare (toKey (sv_library sv) key) (\<lambda>k.
       answer (lib_Get c p k bins) single_response)))"

definition server_GetHeader ::
  "go_server \<Rightarrow> 'w aero_client \<Rightarrow> ReadPolicy option \<times> Key option \<Rightarrow>
   ('w, proto_Error option \<times> Record option) handler" where
  "server_GetHeader sv c in' = (case in' of (policy, key) \<Rightarrow>
     prepare (toReadPolicy (sv_externs sv) policy) (\<lambda>p.
     prepare (toKey (sv_library sv) key) (\<lambda>k.
       answer (lib_GetHeader c p k) single_response)))"

definition server_Exists ::
  "go_server \<Rightarrow> 'w aero_client \<Rightarrow> ReadPolicy option \<times> Key option \<Rightarrow>
   ('w, proto_Error option \<times> bool option) handler" where
  "server_Exists sv c in' = (case in' of (policy, key) \<Rightarrow>
     prepare (toReadPolicy (sv_externs sv) policy) (\<lambda>p.
     prepare (toKey (sv_library sv) key) (\<lambda>k.
       answer (lib_Exists c p k) flag_response)))"

definition server_Put ::
  "go_server \<Rightarrow> 'w aero_client \<Rightarrow> WritePolicy option \<times> Key option \<times> Bin list \<Rightarrow> ('w, proto_Error) handler" where
  "server_Put sv c in' = (case in' of (policy, key, bins) \<Rightarrow>
     prepare (toWritePolicy (sv_externs sv) policy) (\<lambda>p.
     prepare (toKey (sv_library sv) key) (\<lambda>k.
     prepare (toBins bins) (\<lambda>bs.
       answer (lib_PutBins c p k bs) error_message))))"

definition server_Add ::
  "go_server \<Rightarrow> 'w aero_client \<Rightarrow> WritePolicy option \<times> Key option \<times> Bin list \<Rightarrow> ('w, proto_Error) handler" where
  "server_Add sv c in' = (case in' of (policy, key, bins) \<Rightarrow>
     prepare (toWritePolicy (sv_externs sv) policy) (\<lambda>p.
     prepare (toKey (sv_library sv) key) (\<lambda>k.
     prepare (toBins bins) (\<lambda>bs.
       answer (lib_AddBins c p k bs) error_message))))"

definition server_Append ::
  "go_server \<Rightarrow> 'w aero_client \<Rightarrow> WritePolicy option \<times> Key option \<times> Bin list \<Rightarrow> ('w, proto_Error) handler" where
  "server_Append sv c in' = (case in' of (policy, key, bins) \<Rightarrow>
     prepare (toWritePolicy (sv_externs sv) policy) (\<lambda>p.
     prepare (toKey (sv_library sv) key) (\<lambda>k.
     prepare (toBins bins) (\<lambda>bs.
       answer (lib_AppendBins c p k bs) error_message))))"

definition server_Prepend ::
  "go_server \<Rightarrow> 'w aero_client \<Rightarrow> WritePolicy option \<times> Key option \<times> Bin list \<Rightarrow> ('w, proto_Error) handler" where
  "server_Prepend sv c in' = (case in' of (policy, key, bins) \<Rightarrow>
     prepare (toWritePolicy (sv_externs sv) policy) (\<lambda>p.
     prepare (toKey (sv_library sv) key) (\<lambda>k.
     prepare (toBins bins) (\<lambda>bs.
       answer (lib_PrependBins c p k bs) error_message))))"

definition server_Delete ::
  "go_server \<Rightarrow> 'w aero_client \<Rightarrow> WritePolicy option \<times> Key option \<Rightarrow>
   ('w, proto_Error option \<times> bool option) handler" where
  "server_Delete sv c in' = (case in' of (policy, key) \<Rightarrow>
     prepare (toWritePolicy (sv_externs sv) policy) (\<lambda>p.
     prepare (toKey (sv_library sv) key) (\<lambda>k.
       answer (lib_Delete c p k) flag_response)))"

definition server_Touch ::
  "go_server \<Rightarrow> 'w aero_client \<Rightarrow> WritePolicy option \<times> Key option \<Rightarrow> ('w, proto_Error) handler" where
  "server_Touch sv c in' = (case in' of (policy, key) \<Rightarrow>
     prepare (toWritePolicy (sv_externs sv) policy) (\<lambda>p.
     prepare (toKey (sv_library sv) key) (\<lambda>k.
       answer (lib_Touch c p k) error_message)))"

section \<open>Batches\<close>

text \<open>The policy and key arguments of a batch record.\<close>
fun read_arguments :: "go_server \<Rightarrow> 'c aero_batch \<Rightarrow> panic + 'c lib_batch" where
  "read_arguments sv (NewBatchRead p k ns) =
     sbind (toBatchReadPolicy (sv_externs sv) p) (\<lambda>p'. sbind (toKey (sv_library sv) k) (\<lambda>k'.
       Inr (LibBatchRead p' k' ns)))"
| "read_arguments sv (NewBatchReadOps p k ops) =
     sbind (toBatchReadPolicy (sv_externs sv) p) (\<lambda>p'. sbind (toKey (sv_library sv) k) (\<lambda>k'.
       Inr (LibBatchReadOps p' k' ops)))"
| "read_arguments sv (NewBatchReadHeader p k) =
     sbind (toBatchReadPolicy (sv_externs sv) p) (\<lambda>p'. sbind (toKey (sv_library sv) k) (\<lambda>k'.
       Inr (LibBatchReadHeader p' k')))"
| "read_arguments sv (NewBatchWrite p k ops) =
     sbind (toBatchWritePolicy (sv_externs sv) p) (\<lambda>p'. sbind (toKey (sv_library sv) k) (\<lambda>k'.
       Inr (LibBatchWrite p' k' ops)))"
| "read_arguments sv (NewBatchDelete p k) =
     sbind (toBatchDeletePolicy (sv_externs sv) p) (\<lambda>p'. sbind (toKey (sv_library sv) k) (\<lambda>k'.
       Inr (LibBatchDelete p' k')))"
| "read_arguments sv (NewBatchUDF p k pkg f args) =
     sbind (toBatchUDFPolicy (sv_externs sv) p) (\<lambda>p'. sbind (toKey (sv_library sv) k) (\<lambda>k'.
       Inr (LibBatchUDF p' k' pkg f args)))"

definition toBatchRecord :: "go_server \<Rightarrow> cdt BatchOperate \<Rightarrow> panic + cdt_call lib_batch" where
  "toBatchRecord sv m = sbind (toBatchRecordIfc toCdtOp m) (read_arguments sv)"

definition toBatchRecords :: "go_server \<Rightarrow> cdt BatchOperate list \<Rightarrow> panic + cdt_call lib_batch list" where
  "toBatchRecords sv ms = ssequence (map (toBatchRecord sv) ms)"

text \<open>The records of the batch are written back with or without an error.\<close>
definition batch_response ::
  "aero_batch_record list \<times> aero_error option \<Rightarrow> panic + (proto_Error option \<times> BatchRecord list)" where
  "batch_response res =
     (case res of (brecs, err) \<Rightarrow>
        if err \<noteq> None then
          sbind (fromError err) (\<lambda>e. sbind (fromBatchRecords brecs) (\<lambda>rs. Inr (e, rs)))
        else sbind (fromBatchRecords brecs) (\<lambda>rs. Inr (None, rs)))"

definition server_BatchOperate ::
  "go_server \<Rightarrow> 'w aero_client \<Rightarrow> BatchPolicy option \<times> cdt BatchOperate list \<Rightarrow>
   ('w, proto_Error option \<times> BatchRecord list) handler" where
  "server_BatchOperate sv c in' = (case in' of (policy, records) \<Rightarrow>
     prepare (toBatchRecords sv records) (\<lambda>brecs.
     prepare (toBatchPolicy (sv_externs sv) policy) (\<lambda>p.
       answer (lib_BatchOperate c p brecs) batch_response)))"

section \<open>Indexes, UDFs and truncation\<close>

text \<open>The context of the request is not passed on.\<close>
definition server_CreateIndex ::
  "go_server \<Rightarrow> 'w aero_client \<Rightarrow>
   WritePolicy option \<times> string \<times> string \<times> string \<times> string \<times> i32 \<times> i32 \<times> CDTContext list \<Rightarrow>
   ('w, proto_Error option) handler" where
  "server_CreateIndex sv c in' = (case in' of (policy, ns, set', index, bin, it, ict, ctx) \<Rightarrow>
     prepare (toWritePolicy (sv_externs sv) policy) (\<lambda>p.
     prepare (toIndexType it) (\<lambda>t.
     prepare (toIndexCollectionType ict) (\<lambda>ct.
       answer (lib_CreateComplexIndex c p ns set' index bin t ct) fromError))))"

definition server_DropIndex ::
  "go_server \<Rightarrow> 'w aero_client \<Rightarrow> WritePolicy option \<times> string \<times> string \<times> string \<Rightarrow>
   ('w, proto_Error option) handler" where
  "server_DropIndex sv c in' = (case in' of (policy, ns, set', index) \<Rightarrow>
     prepare (toWritePolicy (sv_externs sv) policy) (\<lambda>p.
       answer (lib_DropIndex c p ns set' index) fromError))"

definition server_Truncate ::
  "go_server \<Rightarrow> 'w aero_client \<Rightarrow> InfoPolicy option \<times> string \<times> string \<times> i64 option \<Rightarrow>
   ('w, proto_Error option) handler" where
  "server_Truncate sv c in' = (case in' of (policy, ns, set', before) \<Rightarrow>
     answer (lib_Truncate c (toInfoPolicy policy) ns set' (toTime before)) fromError)"

definition server_RegisterUDF ::
  "go_server \<Rightarrow> 'w aero_client \<Rightarrow> WritePolicy option \<times> bytes \<times> string \<times> i32 \<Rightarrow>
   ('w, proto_Error option) handler" where
  "server_RegisterUDF sv c in' = (case in' of (policy, body, name, lang) \<Rightarrow>
     prepare (toWritePolicy (sv_externs sv) policy) (\<lambda>p.
     prepare (toLanguage lang) (\<lambda>l.
       answer (lib_RegisterUDF c p body name l) fromError)))"

definition server_DropUDF ::
  "go_server \<Rightarrow> 'w aero_client \<Rightarrow> WritePolicy option \<times> string \<Rightarrow> ('w, proto_Error option) handler" where
  "server_DropUDF sv c in' = (case in' of (policy, name) \<Rightarrow>
     prepare (toWritePolicy (sv_externs sv) policy) (\<lambda>p.
       answer (lib_RemoveUDF c p name) fromError))"

definition server_ListUDF ::
  "go_server \<Rightarrow> 'w aero_client \<Rightarrow> ReadPolicy option \<Rightarrow>
   ('w, proto_Error option \<times> UdfMeta list) handler" where
  "server_ListUDF sv c policy =
     prepare (toReadPolicy (sv_externs sv) policy) (\<lambda>p.
       answer (lib_ListUDF c p) (list_response fromUDFs))"

definition udf_response :: "go_any \<times> aero_error option \<Rightarrow> panic + (proto_Error option \<times> proto_Value option)" where
  "udf_response r =
     (case r of (res, err) \<Rightarrow>
        if err \<noteq> None then sbind (fromError err) (\<lambda>e. Inr (e, None))
        else sbind (fromValue res) (\<lambda>v. Inr (None, Some v)))"

definition server_UDFExecute ::
  "go_server \<Rightarrow> 'w aero_client \<Rightarrow>
   WritePolicy option \<times> Key option \<times> string \<times> string \<times> proto_Value list \<Rightarrow>
   ('w, proto_Error option \<times> proto_Value option) handler" where
  "server_UDFExecute sv c in' = (case in' of (policy, key, pkg, f, args) \<Rightarrow>
     prepare (toWritePolicy (sv_externs sv) policy) (\<lambda>p.
     prepare (toKey (sv_library sv) key) (\<lambda>k.
     prepare (toValues args) (\<lambda>vs.
       answer (lib_Execute c p k pkg f vs) udf_response))))"

section \<open>User administration\<close>

definition server_CreateUser ::
  "go_server \<Rightarrow> 'w aero_client \<Rightarrow> AdminPolicy option \<times> string \<times> string \<times> string list \<Rightarrow> ('w, proto_Error option) handler" where
  "server_CreateUser sv c in' = (case in' of (policy, user, password, roles) \<Rightarrow>
     answer (lib_CreateUser c (toAdminPolicy policy) user password roles) fromError)"

definition server_DropUser ::
  "go_server \<Rightarrow> 'w aero_client \<Rightarrow> AdminPolicy option \<times> string \<Rightarrow> ('w, proto_Error option) handler" where
  "server_DropUser sv c in' = (case in' of (policy, user) \<Rightarrow>
     answer (lib_DropUser c (toAdminPolicy policy) user) fromError)"

definition server_ChangePassword ::
  "go_server \<Rightarrow> 'w aero_client \<Rightarrow> AdminPolicy option \<times> string \<times> string \<Rightarrow> ('w, proto_Error option) handler" where
  "server_ChangePassword sv c in' = (case in' of (policy, user, password) \<Rightarrow>
     answer (lib_ChangePassword c (toAdminPolicy policy) user password) fromError)"

definition server_GrantRoles ::
  "go_server \<Rightarrow> 'w aero_client \<Rightarrow> AdminPolicy option \<times> string \<times> string list \<Rightarrow> ('w, proto_Error option) handler" where
  "server_GrantRoles sv c in' = (case in' of (policy, user, roles) \<Rightarrow>
     answer (lib_GrantRoles c (toAdminPolicy policy) user roles) fromError)"

definition server_RevokeRoles ::
  "go_server \<Rightarrow> 'w aero_client \<Rightarrow> AdminPolicy option \<times> string \<times> string list \<Rightarrow> ('w, proto_Error option) handler" where
  "server_RevokeRoles sv c in' = (case in' of (policy, user, roles) \<Rightarrow>
     answer (lib_RevokeRoles c (toAdminPolicy policy) user roles) fromError)"

definition server_CreateRole ::
  "go_server \<Rightarrow> 'w aero_client \<Rightarrow> AdminPolicy option \<times> string \<times> Privilege list \<times> string list \<times> u32 \<times> u32 \<Rightarrow> ('w, proto_Error option) handler" where
  "server_CreateRole sv c in' = (case in' of (policy, name, privileges, allowlist, rq, wq) \<Rightarrow>
     prepare (toPrivileges (sv_library sv) privileges) (\<lambda>ps.
       answer (lib_CreateRole c (toAdminPolicy policy) name ps allowlist rq wq) fromError))"

definition server_DropRole ::
  "go_server \<Rightarrow> 'w aero_client \<Rightarrow> AdminPolicy option \<times> string \<Rightarrow> ('w, proto_Error option) handler" where
  "server_DropRole sv c in' = (case in' of (policy, name) \<Rightarrow>
     answer (lib_DropRole c (toAdminPolicy policy) name) fromError)"

definition server_GrantPrivileges ::
  "go_server \<Rightarrow> 'w aero_client \<Rightarrow> AdminPolicy option \<times> string \<times> Privilege list \<Rightarrow> ('w, proto_Error option) handler" where
  "server_GrantPrivileges sv c in' = (case in' of (policy, name, privileges) \<Rightarrow>
     prepare (toPrivileges (sv_library sv) privileges) (\<lambda>ps.
       answer (lib_GrantPrivileges c (toAdminPolicy policy) name ps) fromError))"

definition server_RevokePrivileges ::
  "go_server \<Rightarrow> 'w aero_client \<Rightarrow> AdminPolicy option \<times> string \<times> Privilege list \<Rightarrow> ('w, proto_Error option) handler" where
  "server_RevokePrivileges sv c in' = (case in' of (policy, name, privileges) \<Rightarrow>
     prepare (toPrivileges (sv_library sv) privileges) (\<lambda>ps.
       answer (lib_RevokePrivileges c (toAdminPolicy policy) name ps) fromError))"

definition server_SetAllowlist ::
  "go_server \<Rightarrow> 'w aero_client \<Rightarrow> AdminPolicy option \<times> string \<times> string list \<Rightarrow> ('w, proto_Error option) handler" where
  "server_SetAllowlist sv c in' = (case in' of (policy, name, allowlist) \<Rightarrow>
     answer (lib_SetWhitelist c (toAdminPolicy policy) name allowlist) fromError)"

definition server_SetQuotas ::
  "go_server \<Rightarrow> 'w aero_client \<Rightarrow> AdminPolicy option \<times> string \<times> u32 \<times> u32 \<Rightarrow> ('w, proto_Error option) handler" where
  "server_SetQuotas sv c in' = (case in' of (policy, name, rq, wq) \<Rightarrow>
     answer (lib_SetQuotas c (toAdminPolicy policy) name rq wq) fromError)"

text \<open>A named user or role is asked for alone; the library answers with a pointer.\<close>
definition server_QueryUsers ::
  "go_server \<Rightarrow> 'w aero_client \<Rightarrow> AdminPolicy option \<times> string option \<Rightarrow>
   ('w, proto_Error option \<times> UserRole list) handler" where
  "server_QueryUsers sv c in' = (case in' of (policy, user) \<Rightarrow>
     (case user of
        Some u \<Rightarrow> answer (lib_QueryUser c (toAdminPolicy policy) u)
          (\<lambda>(r, err). list_response fromUserRoles ([r], err))
      | None \<Rightarrow> answer (lib_QueryUsers c (toAdminPolicy policy)) (list_response fromUserRoles)))"

definition server_QueryRoles ::
  "go_server \<Rightarrow> 'w aero_client \<Rightarrow> AdminPolicy option \<times> string option \<Rightarrow>
   ('w, proto_Error option \<times> Role list) handler" where
  "server_QueryRoles sv c in' = (case in' of (policy, name) \<Rightarrow>
     (case name of
        Some n \<Rightarrow> answer (lib_QueryRole c (toAdminPolicy policy) n)
          (\<lambda>(r, err). list_response (fromRoles (sv_library sv)) ([r], err))
      | None \<Rightarrow> answer (lib_QueryRoles c (toAdminPolicy policy))
          (list_response (fromRoles (sv_library sv)))))"

section \<open>Scans and queries\<close>

text \<open>How a streaming handler ends: it returns, returns an error, cannot send, or panics.\<close>
datatype ending = Finished | Returned aero_error | SendFailed | Panicked panic

definition error_item :: "proto_Error option \<Rightarrow> stream_response" where
  "error_item e = \<lparr>sr_error = e, sr_record = None, sr_bval = None\<rparr>"

text \<open>
  The loop over the results: an error is sent and the loop goes on, a record is sent with the
  sort value; when a message cannot be sent the record set is closed and the handler ends.
\<close>
fun result_loop ::
  "go_server \<Rightarrow> nat \<Rightarrow> scan_result list \<Rightarrow> stream_response list \<times> ending" where
  "result_loop sv n [] = ([], Finished)"
| "result_loop sv n (res # rs) =
     (case (if sres_err res \<noteq> None then sbind (fromError (sres_err res)) (\<lambda>e. Inr (error_item e))
            else sbind (fromRecord (sres_record res)) (\<lambda>r.
              Inr \<lparr>sr_error = None, sr_record = r, sr_bval = sres_bval res\<rparr>)) of
        Inl p \<Rightarrow> ([], Panicked p)
      | Inr m \<Rightarrow>
          (if send_ok sv n then
             (case result_loop sv (Suc n) rs of (ms, e) \<Rightarrow> (m # ms, e))
           else ([], SendFailed)))"

text \<open>After an error of the call, the error is sent as a message and returned as well.\<close>
definition stream_answer ::
  "go_server \<Rightarrow> scan_result list \<times> aero_error option \<Rightarrow> stream_response list \<times> ending" where
  "stream_answer sv res =
     (case res of
        (_, Some err) \<Rightarrow>
          (case fromError (Some err) of
             Inl p \<Rightarrow> ([], Panicked p)
           | Inr e \<Rightarrow> (if send_ok sv 0 then [error_item e] else [], Returned err))
      | (rs, None) \<Rightarrow> result_loop sv 0 rs)"

definition server_Scan ::
  "go_server \<Rightarrow> 'w aero_client \<Rightarrow>
   ScanPolicy option \<times> string \<times> string \<times> string list \<times> PartitionFilter option \<Rightarrow>
   'w \<Rightarrow> (stream_response list \<times> ending) \<times> 'w" where
  "server_Scan sv c in' w = (case in' of (policy, ns, set', bins, pf) \<Rightarrow>
     (case toScanPolicy (sv_externs sv) policy of
        Inl p \<Rightarrow> (([], Panicked p), w)
      | Inr p \<Rightarrow>
          (case lib_ScanPartitions c p (toPartitionFilter pf) ns set' bins w of
             (res, w') \<Rightarrow> (stream_answer sv res, w'))))"

definition server_Query ::
  "go_server \<Rightarrow> 'w aero_client \<Rightarrow>
   QueryPolicy option \<times> PartitionFilter option \<times> Statement option \<Rightarrow>
   'w \<Rightarrow> (stream_response list \<times> ending) \<times> 'w" where
  "server_Query sv c in' w = (case in' of (policy, pf, statement) \<Rightarrow>
     (case sbind (toQueryPolicy (sv_externs sv) policy) (\<lambda>p.
             sbind (toStatement statement) (\<lambda>s. Inr (p, s))) of
        Inl p \<Rightarrow> (([], Panicked p), w)
      | Inr (p, s) \<Rightarrow>
          (case lib_QueryPartitions c p s (toPartitionFilter pf) w of
             (res, w') \<Rightarrow> (stream_answer sv res, w'))))"

section \<open>The manager behind the RPCs\<close>

text \<open>The recovery interceptor: a panic becomes a failed status.\<close>
definition recovered :: "go_server \<Rightarrow> ('w, 'a) handler \<Rightarrow> 'w \<Rightarrow> (string + 'a) \<times> 'w" where
  "recovered sv h w = (case h w of (Inl p, w') \<Rightarrow> (Inl (panic_text sv p), w') | (Inr a, w') \<Rightarrow> (Inr a, w'))"

text \<open>
  What the client sees of a stream: its messages, and the failed status at the end if there
  is one; a panic before the first message fails the call itself.
\<close>
definition streamed :: "go_server \<Rightarrow> stream_response list \<times> ending \<Rightarrow> string + stream_item list" where
  "streamed sv run =
     (case run of
        (ms, Finished) \<Rightarrow> Inr (map Inr ms)
      | (ms, SendFailed) \<Rightarrow> Inr (map Inr ms)
      | (ms, Returned err) \<Rightarrow>
          (if ms = [] then Inl (error_text sv err) else Inr (map Inr ms @ [Inl (error_text sv err)]))
      | (ms, Panicked p) \<Rightarrow>
          (if ms = [] then Inl (panic_text sv p) else Inr (map Inr ms @ [Inl (panic_text sv p)])))"

definition manager_stub :: "go_server \<Rightarrow> 'w aero_client \<Rightarrow> (cdt, 'w) KvsClient" where
  "manager_stub sv c =
     \<lparr>kvs_version = (\<lambda>u. recovered sv (server_Version sv u)),
      kvs_get = (\<lambda>(p, k, bs). recovered sv (server_Get sv c (Some p, Some k, bs))),
      kvs_get_header = (\<lambda>(p, k). recovered sv (server_GetHeader sv c (Some p, Some k))),
      kvs_exists = (\<lambda>(p, k). recovered sv (server_Exists sv c (Some p, Some k))),
      kvs_put = (\<lambda>(p, k, bs). recovered sv (server_Put sv c (Some p, Some k, bs))),
      kvs_add = (\<lambda>(p, k, bs). recovered sv (server_Add sv c (Some p, Some k, bs))),
      kvs_append = (\<lambda>(p, k, bs). recovered sv (server_Append sv c (Some p, Some k, bs))),
      kvs_prepend = (\<lambda>(p, k, bs). recovered sv (server_Prepend sv c (Some p, Some k, bs))),
      kvs_delete = (\<lambda>(p, k). recovered sv (server_Delete sv c (Some p, Some k))),
      kvs_touch = (\<lambda>(p, k). recovered sv (server_Touch sv c (Some p, Some k))),
      kvs_batch_operate = (\<lambda>(p, rs). recovered sv (server_BatchOperate sv c (Some p, rs))),
      kvs_create_index = (\<lambda>(p, ns, s, n, b, t, ct, ctx). recovered sv (server_CreateIndex sv c (Some p, ns, s, n, b, t, ct, ctx))),
      kvs_drop_index = (\<lambda>(p, ns, s, n). recovered sv (server_DropIndex sv c (Some p, ns, s, n))),
      kvs_truncate = (\<lambda>(p, ns, s, t). recovered sv (server_Truncate sv c (Some p, ns, s, t))),
      kvs_register_udf = (\<lambda>(p, b, n, l). recovered sv (server_RegisterUDF sv c (Some p, b, n, l))),
      kvs_drop_udf = (\<lambda>(p, n). recovered sv (server_DropUDF sv c (Some p, n))),
      kvs_list_udf = (\<lambda>p. recovered sv (server_ListUDF sv c (Some p))),
      kvs_udf_execute = (\<lambda>(p, k, n, f, args). recovered sv (server_UDFExecute sv c (Some p, Some k, n, f, args))),
      kvs_create_user = (\<lambda>(p, u, pw, rs). recovered sv (server_CreateUser sv c (Some p, u, pw, rs))),
      kvs_drop_user = (\<lambda>(p, u). recovered sv (server_DropUser sv c (Some p, u))),
      kvs_change_password = (\<lambda>(p, u, pw). recovered sv (server_ChangePassword sv c (Some p, u, pw))),
      kvs_grant_roles = (\<lambda>(p, u, rs). recovered sv (server_GrantRoles sv c (Some p, u, rs))),
      kvs_revoke_roles = (\<lambda>(p, u, rs). recovered sv (server_RevokeRoles sv c (Some p, u, rs))),
      kvs_query_users = (\<lambda>(p, u). recovered sv (server_QueryUsers sv c (Some p, u))),
      kvs_query_roles = (\<lambda>(p, n). recovered sv (server_QueryRoles sv c (Some p, n))),
      kvs_create_role = (\<lambda>(p, n, ps, al, rq, wq). recovered sv (server_CreateRole sv c (Some p, n, ps, al, rq, wq))),
      kvs_drop_role = (\<lambda>(p, n). recovered sv (server_DropRole sv c (Some p, n))),
      kvs_grant_privileges = (\<lambda>(p, n, ps). recovered sv (server_GrantPrivileges sv c (Some p, n, ps))),
      kvs_revoke_privileges = (\<lambda>(p, n, ps). recovered sv (server_RevokePrivileges sv c (Some p, n, ps))),
      kvs_set_allowlist = (\<lambda>(p, n, al). recovered sv (server_SetAllowlist sv c (Some p, n, al))),
      kvs_set_quotas = (\<lambda>(p, n, rq, wq). recovered sv (server_SetQuotas sv c (Some p, n, rq, wq))),
      kvs_scan = (\<lambda>(p, ns, s, bs, pf) w.
        (case server_Scan sv c (Some p, ns, s, bs, Some pf) w of (run, w') \<Rightarrow> (streamed sv run, w'))),
      kvs_query = (\<lambda>(p, pf, st) w.
        (case server_Query sv c (Some p, Some pf, Some st) w of (run, w') \<Rightarrow> (streamed sv run, w')))\<rparr>"

text \<open>The client connected to the manager.\<close>
definition connected :: "go_server \<Rightarrow> 'w aero_client \<Rightarrow> (cdt, 'w) service" where
  "connected sv c = service_of \<lparr>bc_client = manager_stub sv c, bc_rt = ()\<rparr>"

end
