(* ===== verification/Collections_Laws.thy ===== *)
theory Collections_Laws
  imports Manager_Collections
begin

text \<open>
  The collection operations end to end: the builders of the client (\<^verbatim>\<open>ListOp\<close>,
  \<^verbatim>\<open>MapOp\<close>, \<^verbatim>\<open>HllOp\<close>, \<^verbatim>\<open>BitwiseOp\<close>) composed with the reading of the
  connection manager. The tables group the builders by the shape of their arguments, each with
  the library function it is meant for; the properties say that the call has the builder's
  arguments in order and that the reading fails only if a value or a context does.
\<close>

section \<open>Reading of arguments\<close>

text \<open>What the manager makes of a value, a list of values and a context of the client.\<close>

definition sent :: "PHPValue \<Rightarrow> panic + aero_value" where
  "sent v = toValue (Value_from_PHPValue v)"

definition sent_all :: "PHPValue list \<Rightarrow> panic + aero_value list" where
  "sent_all vs = ssequence (map sent vs)"

text \<open>A call whose last argument is the context.\<close>
definition in_context :: "CDTContext list option \<Rightarrow> (aero_ctx list \<Rightarrow> cdt_call) \<Rightarrow> panic + cdt_call aero_op" where
  "in_context c f = sbind (toCDTContexts (ctx_or_empty c)) (\<lambda>cs. Inr (CdtOp (f cs)))"

definition list_return_number :: "CdtListReturnType option \<Rightarrow> i64" where
  "list_return_number rt = i64_from_i32 (case rt of Some n \<Rightarrow> n | None \<Rightarrow> CdtListReturnType_Value)"

section \<open>Tables of builders\<close>

definition list_bin_builders where
  "list_bin_builders =
     [(CdtListOperation_clear, ''ListClearOp''), (CdtListOperation_size, ''ListSizeOp'')]"

definition list_int_builders where
  "list_int_builders =
     [(CdtListOperation_pop, ''ListPopOp''), (CdtListOperation_pop_range_from, ''ListPopRangeFromOp''),
      (CdtListOperation_remove_range_from, ''ListRemoveRangeFromOp'')]"

definition list_int_int_builders where
  "list_int_int_builders =
     [(CdtListOperation_pop_range, ''ListPopRangeOp''), (CdtListOperation_remove_range, ''ListRemoveRangeOp''),
      (CdtListOperation_trim, ''ListTrimOp'')]"

definition list_int_return_builders where
  "list_int_return_builders =
     [(CdtListOperation_remove_by_index, ''ListRemoveByIndexOp''),
      (CdtListOperation_remove_by_index_range, ''ListRemoveByIndexRangeOp''),
      (CdtListOperation_remove_by_rank, ''ListRemoveByRankOp''),
      (CdtListOperation_remove_by_rank_range, ''ListRemoveByRankRangeOp''),
      (CdtListOperation_get_by_index, ''ListGetByIndexOp''),
      (CdtListOperation_get_by_index_range, ''ListGetByIndexRangeOp''),
      (CdtListOperation_get_by_rank, ''ListGetByRankOp''),
      (CdtListOperation_get_by_rank_range, ''ListGetByRankRangeOp'')]"

definition list_int_int_return_builders where
  "list_int_int_return_builders =
     [(CdtListOperation_remove_by_index_range_count, ''ListRemoveByIndexRangeCountOp''),
      (CdtListOperation_remove_by_rank_range_count, ''ListRemoveByRankRangeCountOp''),
      (CdtListOperation_get_by_index_range_count, ''ListGetByIndexRangeCountOp''),
      (CdtListOperation_get_by_rank_range_count, ''ListGetByRankRangeCountOp'')]"

definition list_values_return_builders where
  "list_values_return_builders =
     [(CdtListOperation_remove_values, ''ListRemoveByValueOp'', ''ListRemoveByValueListOp''),
      (CdtListOperation_get_by_values, ''ListGetByValueOp'', ''ListGetByValueListOp'')]"

definition list_int_value_builders where
  "list_int_value_builders =
     [(CdtListOperation_set, ''ListSetWithPolicyOp''),
      (CdtListOperation_increment, ''ListIncrementWithPolicyOp'')]"

lemmas list_tables = list_bin_builders_def list_int_builders_def list_int_int_builders_def
  list_int_return_builders_def list_int_int_return_builders_def list_values_return_builders_def
  list_int_value_builders_def

definition map_int_builders where
  "map_int_builders =
     [(CdtMapOperation_remove_by_index, ''MapRemoveByIndexOp''),
      (CdtMapOperation_remove_by_index_range, ''MapRemoveByIndexRangeOp''),
      (CdtMapOperation_remove_by_rank, ''MapRemoveByRankOp''),
      (CdtMapOperation_remove_by_rank_range, ''MapRemoveByRankRangeOp''),
      (CdtMapOperation_get_by_index, ''MapGetByIndexOp''),
      (CdtMapOperation_get_by_rank, ''MapGetByRankOp'')]"

definition map_int_int_builders where
  "map_int_int_builders =
     [(CdtMapOperation_remove_by_index_range_count, ''MapRemoveByIndexRangeCountOp''),
      (CdtMapOperation_remove_by_rank_range_count, ''MapRemoveByRankRangeCountOp'')]"

definition map_range_builders where
  "map_range_builders =
     [(CdtMapOperation_remove_by_key_range, ''MapRemoveByKeyRangeOp''),
      (CdtMapOperation_remove_by_value_range, ''MapRemoveByValueRangeOp''),
      (CdtMapOperation_get_by_key_range, ''MapGetByKeyRangeOp''),
      (CdtMapOperation_get_by_value_range, ''MapGetByValueRangeOp'')]"

definition map_relative_builders where
  "map_relative_builders =
     [(CdtMapOperation_remove_by_value_relative_rank_range, ''MapRemoveByValueRelativeRankRangeOp''),
      (CdtMapOperation_remove_by_key_relative_index_range, ''MapRemoveByKeyRelativeIndexRangeOp''),
      (CdtMapOperation_get_by_key_relative_index_range, ''MapGetByKeyRelativeIndexRangeOp''),
      (CdtMapOperation_get_by_value_relative_rank_range, ''MapGetByValueRelativeRankRangeOp'')]"

definition map_relative_count_builders where
  "map_relative_count_builders =
     [(CdtMapOperation_remove_by_key_relative_index_range_count, ''MapRemoveByKeyRelativeIndexRangeCountOp''),
      (CdtMapOperation_get_by_key_relative_index_range_count, ''MapGetByKeyRelativeIndexRangeCountOp''),
      (CdtMapOperation_get_by_value_relative_rank_range_count, ''MapGetByValueRelativeRankRangeCountOp'')]"

definition map_values_builders where
  "map_values_builders =
     [(\<lambda>p. CdtMapOperation_remove_by_keys, ''MapRemoveByKeyOp'', ''MapRemoveByKeyListOp''),
      (CdtMapOperation_remove_by_values, ''MapRemoveByValueOp'', ''MapRemoveByValueListOp''),
      (CdtMapOperation_get_by_keys, ''MapGetByKeyOp'', ''MapGetByKeyListOp''),
      (CdtMapOperation_get_by_values, ''MapGetByValueOp'', ''MapGetByValueListOp'')]"

definition map_number_builders where
  "map_number_builders =
     [(CdtMapOperation_increment, ''MapIncrementOp''), (CdtMapOperation_decrement, ''MapDecrementOp'')]"

lemmas map_tables = map_int_builders_def map_int_int_builders_def map_range_builders_def
  map_relative_builders_def map_relative_count_builders_def map_values_builders_def
  map_number_builders_def

text \<open>The return types of the class with the library constant each stands for.\<close>
definition map_return_meaning :: "(CdtMapReturnType \<times> map_return_types) list" where
  "map_return_meaning =
     [(CdtMapReturnType_None, MRT_NONE), (CdtMapReturnType_Index, MRT_INDEX),
      (CdtMapReturnType_Reverse_Index, MRT_REVERSE_INDEX), (CdtMapReturnType_Rank, MRT_RANK),
      (CdtMapReturnType_Reverse_Rank, MRT_REVERSE_RANK), (CdtMapReturnType_Count, MRT_COUNT),
      (CdtMapReturnType_Key, MRT_KEY), (CdtMapReturnType_Value, MRT_VALUE),
      (CdtMapReturnType_Key_Value, MRT_KEY_VALUE), (CdtMapReturnType_Exists, MRT_EXISTS),
      (CdtMapReturnType_Unordered_Map, MRT_UNORDERED_MAP), (CdtMapReturnType_Ordered_Map, MRT_ORDERED_MAP)]"

text \<open>
  The return types that PHP can make and the constant that the library sees for each: a named
  type is the library's constant of that name, and none given is key and value. A type made
  by \<^verbatim>\<open>Inverted\<close>, which is documented to select what lies outside of the range, is seen as
  the type that returns nothing, and not inverted.
\<close>
inductive return_type_seen :: "CdtMapReturnType option \<Rightarrow> map_return_types \<Rightarrow> bool" where
  default: "return_type_seen None MRT_KEY_VALUE"
| named: "(t, m) \<in> set map_return_meaning \<Longrightarrow> return_type_seen (Some t) m"
| inverted: "return_type_seen (Some (CdtMapReturnType_Inverted t)) MRT_NONE"

definition hll_set_builders where
  "hll_set_builders =
     [(CdtHllOperation_get_union, ''HLLGetUnionOp''), (CdtHllOperation_get_union_count, ''HLLGetUnionCountOp''),
      (CdtHllOperation_get_intersect_count, ''HLLGetIntersectCountOp''),
      (CdtHllOperation_get_similarity, ''HLLGetSimilarityOp'')]"

definition bit_blob_builders where
  "bit_blob_builders =
     [(CdtBitwiseOperation_set, ''BitSetOp''), (CdtBitwiseOperation_or, ''BitOrOp''),
      (CdtBitwiseOperation_xor, ''BitXorOp''), (CdtBitwiseOperation_and, ''BitAndOp'')]"

definition bit_int_int_builders where
  "bit_int_int_builders =
     [(CdtBitwiseOperation_remove, ''BitRemoveOp''), (CdtBitwiseOperation_not, ''BitNotOp'')]"

definition bit_three_int_builders where
  "bit_three_int_builders =
     [(CdtBitwiseOperation_lshift, ''BitLShiftOp''), (CdtBitwiseOperation_rshift, ''BitRShiftOp''),
      (CdtBitwiseOperation_set_int, ''BitSetIntOp'')]"

definition bit_read_builders where
  "bit_read_builders =
     [(CdtBitwiseOperation_get, ''BitGetOp''), (CdtBitwiseOperation_count, ''BitCountOp'')]"

definition bit_read_flag_builders where
  "bit_read_flag_builders =
     [(CdtBitwiseOperation_lscan, ''BitLScanOp''), (CdtBitwiseOperation_rscan, ''BitRScanOp''),
      (CdtBitwiseOperation_get_int, ''BitGetIntOp'')]"

lemmas bit_tables = bit_blob_builders_def bit_int_int_builders_def bit_three_int_builders_def
  bit_read_builders_def bit_read_flag_builders_def

section \<open>Laws\<close>

lemma arg_at [simp]:
  "arg_int (v # vs) 0 = Inr (GetI v)" "arg_int (v # vs) (Suc i) = arg_int vs i"
  "arg_bool (v # vs) 0 = Inr (GetB v)" "arg_bool (v # vs) (Suc i) = arg_bool vs i"
  "arg_blob (v # vs) 0 = Inr (GetBlob v)" "arg_blob (v # vs) (Suc i) = arg_blob vs i"
  "arg_value (v # vs) 0 = toValue v" "arg_value (v # vs) (Suc i) = arg_value vs i"
  "arg_values (v # vs) 0 = toListOfValueIfcs v" "arg_values (v # vs) (Suc i) = arg_values vs i"
  "arg_hlls (v # vs) 0 = toListOfHLLValues v" "arg_hlls (v # vs) (Suc i) = arg_hlls vs i"
  "arg_map (v # vs) 0 = sbind (toValue v) as_MapValue" "arg_map (v # vs) (Suc i) = arg_map vs i"
  by (simp_all add: arg_int_def arg_bool_def arg_blob_def arg_value_def arg_values_def arg_hlls_def
      arg_map_def go_index_def)

lemma arg_past_end [simp]:
  "arg_int [] i = Inl IndexOutOfBounds" "arg_value [] i = Inl IndexOutOfBounds"
  "arg_map_order [] i = Inl IndexOutOfBounds"
  by (simp_all add: arg_int_def arg_value_def arg_map_order_def go_index_def)

lemma toValue_sent: "toValue (Value_from_PHPValue v) = sent v"
  by (simp add: sent_def)

lemma toListOfValueIfcs_sent [simp]: "toListOfValueIfcs (V_L (map Value_from_PHPValue vs)) = sent_all vs"
  by (simp add: sent_all_def sent_def [abs_def] comp_def)

declare toListOfValueIfcs.simps(1) [simp del]

lemma toListReturnType_list_return [simp]: "toListReturnType (list_return rt) = Inr (list_return_number rt)"
  by (simp add: toListReturnType_def list_return_def list_return_number_def split: option.splits)

lemma ssequence_length: "ssequence ms = Inr xs \<Longrightarrow> length xs = length ms"
  by (induction ms arbitrary: xs) (auto simp: sbind_Inr_iff)

lemma sent_all_length: "sent_all vs = Inr as \<Longrightarrow> length as = length vs"
  unfolding sent_all_def by (drule ssequence_length) simp

lemmas read_list_simps = list_operation_defs toCdtListOp_def in_context_def sbind_assoc toValue_sent
  toCdtListPolicy_def numeral_2_eq_2

text \<open>A list of values is read with the function for one value if it has one element.\<close>

lemma read_values_of_list:
  "toOp toCdtOp (CdtListOperation_remove_values b vs rt c) =
     sbind (sent_all vs) (\<lambda>as. in_context c (\<lambda>cs.
       if length vs = 1
       then CdtCall ''ListRemoveByValueOp'' [ABin b, AValue (hd as), AReturn (list_return_number rt), ACtx cs]
       else CdtCall ''ListRemoveByValueListOp'' [ABin b, AValues as, AReturn (list_return_number rt), ACtx cs]))"
  "toOp toCdtOp (CdtListOperation_get_by_values b vs rt c) =
     sbind (sent_all vs) (\<lambda>as. in_context c (\<lambda>cs.
       if length vs = 1
       then CdtCall ''ListGetByValueOp'' [ABin b, AValue (hd as), AReturn (list_return_number rt), ACtx cs]
       else CdtCall ''ListGetByValueListOp'' [ABin b, AValues as, AReturn (list_return_number rt), ACtx cs]))"
  by (cases "sent_all vs"; simp add: read_list_simps sent_all_length)+

definition map_return_of :: "CdtMapReturnType option \<Rightarrow> map_return_types" where
  "map_return_of rt = toCdtMapReturnType (map_return rt)"

lemma inverted_not_small: "k < 0x10000 \<Longrightarrow> (r OR 0x10000 :: i32) \<noteq> k"
proof
  assume "k < 0x10000" and k: "r OR 0x10000 = k"
  have "bit k 16" unfolding k [symmetric] by (simp add: bit_simps)
  moreover have "k div 0x10000 = 0" using \<open>k < 0x10000\<close> by (rule div_word_less)
  then have "\<not> bit k 16" by (simp add: bit_iff_odd_drop_bit drop_bit_eq_div)
  ultimately show False by simp
qed

lemma inverted_return_type: "map_return_of (Some (CdtMapReturnType_Inverted r)) = MRT_NONE"
    unfolding map_return_of_def toCdtMapReturnType_def map_return_def map_return_cases_def
      CdtMapReturnType_Inverted_def
    by (simp add: inverted_not_small)

lemma named_return_types: "list_all (\<lambda>(t, m). map_return_of (Some t) = m) map_return_meaning"
  by (simp add: map_return_meaning_def map_return_of_def toCdtMapReturnType_def map_return_def map_return_cases_def
      CdtMapReturnType_defs)

lemma map_return_of_seen: "return_type_seen rt m \<Longrightarrow> map_return_of rt = m"
  by (induction rule: return_type_seen.induct)
    (use named_return_types in \<open>auto simp: list_all_iff inverted_return_type\<close>,
     simp add: map_return_of_def toCdtMapReturnType_def map_return_def map_return_cases_def CdtMapReturnType_defs)

lemmas read_map_simps = map_operation_defs toCdtMapOp_def in_context_def sbind_assoc toValue_sent
  map_return_of_def numeral_2_eq_2

lemma read_values_of_map:
  "toOp toCdtOp (CdtMapOperation_remove_by_keys b vs rt c) =
     sbind (sent_all vs) (\<lambda>as. in_context c (\<lambda>cs.
       if length vs = 1 then CdtCall ''MapRemoveByKeyOp'' [ABin b, AValue (hd as), AMapReturn (map_return_of rt), ACtx cs]
       else CdtCall ''MapRemoveByKeyListOp'' [ABin b, AValues as, AMapReturn (map_return_of rt), ACtx cs]))"
  "toOp toCdtOp (CdtMapOperation_remove_by_values p b vs rt c) =
     sbind (sent_all vs) (\<lambda>as. in_context c (\<lambda>cs.
       if length vs = 1 then CdtCall ''MapRemoveByValueOp'' [ABin b, AValue (hd as), AMapReturn (map_return_of rt), ACtx cs]
       else CdtCall ''MapRemoveByValueListOp'' [ABin b, AValues as, AMapReturn (map_return_of rt), ACtx cs]))"
  "toOp toCdtOp (CdtMapOperation_get_by_keys p b vs rt c) =
     sbind (sent_all vs) (\<lambda>as. in_context c (\<lambda>cs.
       if length vs = 1 then CdtCall ''MapGetByKeyOp'' [ABin b, AValue (hd as), AMapReturn (map_return_of rt), ACtx cs]
       else CdtCall ''MapGetByKeyListOp'' [ABin b, AValues as, AMapReturn (map_return_of rt), ACtx cs]))"
  "toOp toCdtOp (CdtMapOperation_get_by_values p b vs rt c) =
     sbind (sent_all vs) (\<lambda>as. in_context c (\<lambda>cs.
       if length vs = 1 then CdtCall ''MapGetByValueOp'' [ABin b, AValue (hd as), AMapReturn (map_return_of rt), ACtx cs]
       else CdtCall ''MapGetByValueListOp'' [ABin b, AValues as, AMapReturn (map_return_of rt), ACtx cs]))"
  by (cases "sent_all vs"; simp add: read_map_simps sent_all_length)+

lemmas read_hll_simps = hll_operation_defs toCdtHLLOp_def sbind_assoc toValue_sent numeral_2_eq_2

lemma assert_hll_list_PHLL [simp]: "assert_hll_list (map PHLL hs) = ret True"
  by (induction hs) simp_all

lemma assert_hll_list_iff:
  "assert_hll_list vs =
     (if list_all (\<lambda>v. \<exists>h. v = PHLL h) vs then ret True
      else emit [AerospikeException_new ''Invalid type''] False)"
  by (induction vs rule: assert_hll_list.induct) (auto simp: emit_def)

lemma toListOfHLLValues_sent [simp]:
  "toListOfHLLValues (V_L (map (Value_from_PHPValue \<circ> PHLL) hs)) = Inr hs"
  by (induction hs) simp_all

declare toListOfHLLValues.simps(1) [simp del]

text \<open>The builders of set operations on HLL values, given HLL values or others.\<close>

lemma hll_set_of_hlls:
  "list_all (\<lambda>(f, n). \<forall>b hs. \<exists>op. f b (map PHLL hs) = ret (Some op) \<and>
       toOp toCdtOp op = Inr (CdtOp (CdtCall n [ABin b, AHlls hs]))) hll_set_builders"
  unfolding hll_set_builders_def by (simp add: read_hll_simps)

lemma hll_set_of_values:
  "list_all (\<lambda>(f, n). \<forall>b vs.
       if list_all (\<lambda>v. \<exists>h. v = PHLL h) vs then thrown (f b vs) = []
       else f b vs = emit [AerospikeException_new ''Invalid type''] None) hll_set_builders"
  unfolding hll_set_builders_def by (simp add: hll_operation_defs assert_hll_list_iff bnd_def ret_def emit_def)

text \<open>Storing entries checks that the argument is a map.\<close>

lemma put_of_map:
  "\<exists>op. CdtMapOperation_put p b (PHashMap h) c = ret (Some op) \<and>
     toOp toCdtOp op = sbind (sent (PHashMap h)) (\<lambda>a. sbind (as_MapValue a) (\<lambda>m.
       sbind (toCdtMapPolicy (Some p)) (\<lambda>p'. in_context c (\<lambda>cs.
         CdtCall ''MapPutItemsOp'' [AMapPolicy p', ABin b, AMap m, ACtx cs]))))"
  by (simp add: CdtMapOperation_put_def assert_map_def toCdtMapOp_def in_context_def sbind_assoc sent_def)

lemma put_of_other:
  "(\<exists>h. v = PHashMap h) \<or> CdtMapOperation_put p b v c = emit [AerospikeException_new ''Invalid type''] None"
  by (cases v) (simp_all add: CdtMapOperation_put_def assert_map_def emit_def bnd_def ret_def throw_object_def)

text \<open>An inverted number has its bit 16 set and is none of the small numbers.\<close>
section \<open>Properties\<close>

text \<open>C12. Client and manager agree on the list operations: every builder reaches the library
  function of the same meaning with the bin, the numbers, values, policy and return type it
  was given, in the order of the library; a list of one value reaches the function for one
  value. Removing a range of values, and reading one without an end, are the exceptions.\<close>

theorem list_operations_reach_library:
  "list_all (\<lambda>(f, n). \<forall>b c. toOp toCdtOp (f b c) = in_context c (\<lambda>cs. CdtCall n [ABin b, ACtx cs]))
     list_bin_builders \<and>
   list_all (\<lambda>(f, n). \<forall>b i c. toOp toCdtOp (f b i c) =
       in_context c (\<lambda>cs. CdtCall n [ABin b, AInt i, ACtx cs])) list_int_builders \<and>
   list_all (\<lambda>(f, n). \<forall>b i k c. toOp toCdtOp (f b i k c) =
       in_context c (\<lambda>cs. CdtCall n [ABin b, AInt i, AInt k, ACtx cs])) list_int_int_builders \<and>
   list_all (\<lambda>(f, n). \<forall>b i rt c. toOp toCdtOp (f b i rt c) =
       in_context c (\<lambda>cs. CdtCall n [ABin b, AInt i, AReturn (list_return_number rt), ACtx cs]))
     list_int_return_builders \<and>
   list_all (\<lambda>(f, n). \<forall>b i k rt c. toOp toCdtOp (f b i k rt c) =
       in_context c (\<lambda>cs. CdtCall n [ABin b, AInt i, AInt k, AReturn (list_return_number rt), ACtx cs]))
     list_int_int_return_builders \<and>
   list_all (\<lambda>(f, n1, n). \<forall>b vs rt c. toOp toCdtOp (f b vs rt c) =
       sbind (sent_all vs) (\<lambda>as. in_context c (\<lambda>cs.
         if length vs = 1 then CdtCall n1 [ABin b, AValue (hd as), AReturn (list_return_number rt), ACtx cs]
         else CdtCall n [ABin b, AValues as, AReturn (list_return_number rt), ACtx cs])))
     list_values_return_builders \<and>
   list_all (\<lambda>(f, n). \<forall>b i v c. toOp toCdtOp (f b i v c) =
       sbind (sent v) (\<lambda>a. in_context c (\<lambda>cs.
         CdtCall n [AListPolicy DefaultListPolicy, ABin b, AInt i, AValue a, ACtx cs])))
     list_int_value_builders \<and>
   toOp toCdtOp (CdtListOperation_create b order pad index c) = in_context c (\<lambda>cs.
     CdtCall (if index = Some True then ''ListCreateWithIndexOp'' else ''ListCreateOp'')
       [ABin b, AInt (i64_from_i32 (ListOrderType_into_i32 order)), ABool pad, ACtx cs]) \<and>
   toOp toCdtOp (CdtListOperation_set_order b order c) = in_context c (\<lambda>cs.
     CdtCall ''ListSetOrderOp'' [ABin b, AInt (i64_from_i32 (ListOrderType_into_i32 order)), ACtx cs]) \<and>
   toOp toCdtOp (CdtListOperation_sort b fl c) = in_context c (\<lambda>cs.
     CdtCall ''ListSortOp'' [ABin b, AInt (i64_from_i32 (CdtListSortFlags_into_i32 fl)), ACtx cs]) \<and>
   toOp toCdtOp (CdtListOperation_append p b vs c) = sbind (sent_all vs) (\<lambda>as. in_context c (\<lambda>cs.
     CdtCall ''ListAppendWithPolicyContextOp''
       [AListPolicy (toCdtListPolicy (Some p)), ABin b, ACtx cs, AValues as])) \<and>
   toOp toCdtOp (CdtListOperation_insert p b i vs c) = sbind (sent_all vs) (\<lambda>as. in_context c (\<lambda>cs.
     CdtCall ''ListInsertWithPolicyContextOp''
       [AListPolicy (toCdtListPolicy (Some p)), ABin b, AInt i, ACtx cs, AValues as])) \<and>
   toOp toCdtOp (CdtListOperation_get_by_value_relative_rank_range b v i rt c) =
     sbind (sent v) (\<lambda>a. in_context c (\<lambda>cs. CdtCall ''ListGetByValueRelativeRankRangeOp''
       [ABin b, AValue a, AInt i, AReturn (list_return_number rt), ACtx cs])) \<and>
   toOp toCdtOp (CdtListOperation_get_by_value_relative_rank_range_count b v i k rt c) =
     sbind (sent v) (\<lambda>a. in_context c (\<lambda>cs. CdtCall ''ListGetByValueRelativeRankRangeCountOp''
       [ABin b, AValue a, AInt i, AInt k, AReturn (list_return_number rt), ACtx cs])) \<and>
   toOp toCdtOp (CdtListOperation_remove_by_value_relative_rank_range b v i rt c) =
     sbind (sent v) (\<lambda>a. in_context c (\<lambda>cs. CdtCall ''ListRemoveByValueRelativeRankRangeOp''
       [ABin b, AReturn (list_return_number rt), AValue a, AInt i, ACtx cs])) \<and>
   toOp toCdtOp (CdtListOperation_remove_by_value_relative_rank_range_count b v i k rt c) =
     sbind (sent v) (\<lambda>a. in_context c (\<lambda>cs. CdtCall ''ListRemoveByValueRelativeRankRangeCountOp''
       [ABin b, AReturn (list_return_number rt), AValue a, AInt i, AInt k, ACtx cs])) \<and>
   toOp toCdtOp (CdtListOperation_get_by_value_range b v (Some w) rt c) =
     sbind (sent v) (\<lambda>a. sbind (sent w) (\<lambda>a'. in_context c (\<lambda>cs. CdtCall ''ListGetByValueRangeOp''
       [ABin b, AValue a, AValue a', AReturn (list_return_number rt), ACtx cs])))"
  unfolding list_tables
  by (auto simp: read_values_of_list) (auto simp: read_list_simps split: option.splits)

text \<open>C17. Client and manager agree on the map operations of the tables, on clearing a map and on
  setting its policy, and on storing entries and changing numbers under a policy: the library
  call is the one of the builder's name with the bin, numbers, values, policy and context the
  builder was given, in order. The return type is the exception: a named one arrives as the
  library's constant of that name, and without one the call asks for key and value, but an
  inverted one, documented to select what lies outside of the range, arrives as the type that
  returns nothing, so the operation acts inside the range. Storing something that is no map
  throws one exception and builds nothing. The builders with other parameters than the command
  they send are not in the tables.\<close>
theorem map_operations_reach_library:
  assumes seen: "return_type_seen rt m"
  shows "list_all (\<lambda>(f, n). \<forall>p b i c. toOp toCdtOp (f p b i rt c) =
       in_context c (\<lambda>cs. CdtCall n [ABin b, AInt i, AMapReturn m, ACtx cs]))
     map_int_builders \<and>
   list_all (\<lambda>(f, n). \<forall>p b i k c. toOp toCdtOp (f p b i k rt c) =
       in_context c (\<lambda>cs. CdtCall n [ABin b, AInt i, AInt k, AMapReturn m, ACtx cs]))
     map_int_int_builders \<and>
   list_all (\<lambda>(f, n). \<forall>p b v w c. toOp toCdtOp (f p b v w rt c) =
       sbind (sent v) (\<lambda>a. sbind (sent w) (\<lambda>a'. in_context c (\<lambda>cs.
         CdtCall n [ABin b, AValue a, AValue a', AMapReturn m, ACtx cs]))))
     map_range_builders \<and>
   list_all (\<lambda>(f, n). \<forall>p b v i c. toOp toCdtOp (f p b v i rt c) =
       sbind (sent v) (\<lambda>a. in_context c (\<lambda>cs.
         CdtCall n [ABin b, AValue a, AInt i, AMapReturn m, ACtx cs])))
     map_relative_builders \<and>
   list_all (\<lambda>(f, n). \<forall>p b v i k c. toOp toCdtOp (f p b v i k rt c) =
       sbind (sent v) (\<lambda>a. in_context c (\<lambda>cs.
         CdtCall n [ABin b, AValue a, AInt i, AInt k, AMapReturn m, ACtx cs])))
     map_relative_count_builders \<and>
   list_all (\<lambda>(f, n1, n). \<forall>p b vs c. toOp toCdtOp (f p b vs rt c) =
       sbind (sent_all vs) (\<lambda>as. in_context c (\<lambda>cs.
         if length vs = 1 then CdtCall n1 [ABin b, AValue (hd as), AMapReturn m, ACtx cs]
         else CdtCall n [ABin b, AValues as, AMapReturn m, ACtx cs])))
     map_values_builders \<and>
   list_all (\<lambda>(f, n). \<forall>p b k v c. toOp toCdtOp (f p b k v c) =
       sbind (sent k) (\<lambda>a. sbind (sent v) (\<lambda>a'. sbind (toCdtMapPolicy (Some p)) (\<lambda>p'.
         in_context c (\<lambda>cs. CdtCall n [AMapPolicy p', ABin b, AValue a, AValue a', ACtx cs])))))
     map_number_builders \<and>
   toOp toCdtOp (CdtMapOperation_clear b c) = in_context c (\<lambda>cs. CdtCall ''MapClearOp'' [ABin b, ACtx cs]) \<and>
   toOp toCdtOp (CdtMapOperation_set_policy p b c) = sbind (toCdtMapPolicy (Some p)) (\<lambda>p'.
     in_context c (\<lambda>cs. CdtCall ''MapSetPolicyOp'' [AMapPolicy p', ABin b, ACtx cs])) \<and>
   (\<exists>op. CdtMapOperation_put p b (PHashMap h) c = ret (Some op) \<and>
      toOp toCdtOp op = sbind (sent (PHashMap h)) (\<lambda>a. sbind (as_MapValue a) (\<lambda>m.
        sbind (toCdtMapPolicy (Some p)) (\<lambda>p'. in_context c (\<lambda>cs.
          CdtCall ''MapPutItemsOp'' [AMapPolicy p', ABin b, AMap m, ACtx cs]))))) \<and>
   ((\<exists>h. v = PHashMap h) \<or>
      CdtMapOperation_put p b v c = emit [AerospikeException_new ''Invalid type''] None)"
  unfolding map_tables map_return_of_seen [OF seen, symmetric]
  by (simp add: read_values_of_map put_of_map put_of_other) (auto simp: read_map_simps)

theorem map_operations_reach_library_witness:
  "toOp toCdtOp (CdtMapOperation_get_by_index CdtMapPolicy_default ''b'' 3 (Some CdtMapReturnType_Rank) None) =
     Inr (CdtOp (CdtCall ''MapGetByIndexOp'' [ABin ''b'', AInt 3, AMapReturn MRT_RANK, ACtx []]))"
proof -
  have "return_type_seen (Some CdtMapReturnType_Rank) MRT_RANK"
    by (rule named) (simp add: map_return_meaning_def)
  from map_operations_reach_library [OF this]
  show ?thesis by (simp add: map_tables in_context_def toCDTContexts_def ctx_or_empty_def)
qed

text \<open>Bits and blobs: every bitwise operation but addition and subtraction reaches the
  library function of the same meaning with the builder's policy and arguments in order. For
  addition and subtraction the manager reads the overflow action at the place of the sign
  flag, so the action is always the one numbered 0, to fail.\<close>

lemma bitwise_operations_reach_library:
  "list_all (\<lambda>(f, n). \<forall>p b i k v c. toOp toCdtOp (f p b i k v c) = in_context c (\<lambda>cs.
       CdtCall n [ABitPolicy (toBitwisePolicy (Some p)), ABin b, AInt i, AInt k, ABytes v, ACtx cs]))
     bit_blob_builders \<and>
   list_all (\<lambda>(f, n). \<forall>p b i k c. toOp toCdtOp (f p b i k c) = in_context c (\<lambda>cs.
       CdtCall n [ABitPolicy (toBitwisePolicy (Some p)), ABin b, AInt i, AInt k, ACtx cs]))
     bit_int_int_builders \<and>
   list_all (\<lambda>(f, n). \<forall>p b i k m c. toOp toCdtOp (f p b i k m c) = in_context c (\<lambda>cs.
       CdtCall n [ABitPolicy (toBitwisePolicy (Some p)), ABin b, AInt i, AInt k, AInt m, ACtx cs]))
     bit_three_int_builders \<and>
   list_all (\<lambda>(f, n). \<forall>b i k c. toOp toCdtOp (f b i k c) = in_context c (\<lambda>cs.
       CdtCall n [ABin b, AInt i, AInt k, ACtx cs])) bit_read_builders \<and>
   list_all (\<lambda>(f, n). \<forall>b i k fl c. toOp toCdtOp (f b i k fl c) = in_context c (\<lambda>cs.
       CdtCall n [ABin b, AInt i, AInt k, ABool fl, ACtx cs])) bit_read_flag_builders \<and>
   toOp toCdtOp (CdtBitwiseOperation_insert p b i v c) = in_context c (\<lambda>cs.
     CdtCall ''BitInsertOp'' [ABitPolicy (toBitwisePolicy (Some p)), ABin b, AInt i, ABytes v, ACtx cs]) \<and>
   toOp toCdtOp (CdtBitwiseOperation_resize p b i fl c) = in_context c (\<lambda>cs.
     CdtCall ''BitResizeOp'' [ABitPolicy (toBitwisePolicy (Some p)), ABin b, AInt i,
       AInt (i64_from_i32 (case fl of Some r \<Rightarrow> CdtBitwiseResizeFlags_into_i32 r | None \<Rightarrow> 0)), ACtx cs]) \<and>
   toOp toCdtOp (CdtBitwiseOperation_add p b i k m s act c) = in_context c (\<lambda>cs.
     CdtCall ''BitAddOp'' [ABitPolicy (toBitwisePolicy (Some p)), ABin b, AInt i, AInt k, AInt m, ABool s,
       AInt (i64_from_i32 (CdtBitwiseOverflowAction_into_i32 BOA_Fail)), ACtx cs]) \<and>
   toOp toCdtOp (CdtBitwiseOperation_subtract p b i k m s act c) = in_context c (\<lambda>cs.
     CdtCall ''BitSubtractOp'' [ABitPolicy (toBitwisePolicy (Some p)), ABin b, AInt i, AInt k, AInt m, ABool s,
       AInt (i64_from_i32 (CdtBitwiseOverflowAction_into_i32 BOA_Fail)), ACtx cs])"
  unfolding bit_tables
  by (simp add: bitwise_operation_defs toCdtBitwiseOp_def in_context_def sbind_assoc i64_from_i32_def
      numeral_2_eq_2 numeral_3_eq_3 split: option.split)

text \<open>Operations on HLL values: a set operation given only HLL values reaches the library
  with these values in order; given any other value it throws one exception and builds
  nothing, so the manager's type assertion never fails. The other operations arrive as they
  are built.\<close>

lemma hll_operations_reach_library:
  "list_all (\<lambda>(f, n). \<forall>b hs. \<exists>op. f b (map PHLL hs) = ret (Some op) \<and>
       toOp toCdtOp op = Inr (CdtOp (CdtCall n [ABin b, AHlls hs]))) hll_set_builders \<and>
   list_all (\<lambda>(f, n). \<forall>b vs.
       if list_all (\<lambda>v. \<exists>h. v = PHLL h) vs then thrown (f b vs) = []
       else f b vs = emit [AerospikeException_new ''Invalid type''] None) hll_set_builders \<and>
   (\<exists>op. CdtHllOperation_set_union p b (map PHLL hs) = ret (Some op) \<and>
      toOp toCdtOp op =
        Inr (CdtOp (CdtCall ''HLLSetUnionOp'' [AHllPolicy (toHLLPolicy (Some p)), ABin b, AHlls hs]))) \<and>
   toOp toCdtOp (CdtHllOperation_init p b i k) = Inr (CdtOp (CdtCall ''HLLInitOp''
     [AHllPolicy (toHLLPolicy (Some p)), ABin b, AInt i, AInt k])) \<and>
   toOp toCdtOp (CdtHllOperation_add p b vs i k) = sbind (sent_all vs) (\<lambda>as. Inr (CdtOp (CdtCall ''HLLAddOp''
     [AHllPolicy (toHLLPolicy (Some p)), ABin b, AValues as, AInt i, AInt k])))"
  using hll_set_of_hlls hll_set_of_values by (simp add: read_hll_simps)

text \<open>Return types of map operations: each constant of the class arrives as the library
  constant of the same name, and the default is key and value. An inverted return type is
  none of the numbers the manager knows and arrives as the one that returns nothing, whatever
  it inverts; for list operations the inversion bit arrives.\<close>

lemma map_return_types_arrive:
  "list_all (\<lambda>(rt, m). map_return_of (Some rt) = m \<and>
       map_return_of (Some (CdtMapReturnType_Inverted rt)) = MRT_NONE) map_return_meaning \<and>
   map_return_of None = MRT_KEY_VALUE \<and>
   map_return_of (Some (CdtMapReturnType_Inverted rt)) = MRT_NONE \<and>
   bit (list_return_number (Some (CdtListReturnType_Inverted lrt))) 16"
  by (simp add: inverted_return_type map_return_meaning_def list_return_number_def
      CdtListReturnType_Inverted_def i64_from_i32_def bit_simps)
    (simp add: map_return_of_def toCdtMapReturnType_def map_return_def map_return_cases_def
      CdtMapReturnType_defs)

text \<open>Policies combine their flags: a bit is set in the policy exactly when it is set in one
  of the flags, so order and repetition do not matter; without flags the number is zero, the
  library's default. Every order of maps is known to the manager, so a map policy built by
  the client is always read.\<close>

lemma collection_policy_flags:
  "bit (clp_flags (CdtListPolicy_construct lo (Some lfs))) n =
     (\<exists>f \<in> set lfs. bit (CdtListWriteFlags_into_i32 f) n) \<and>
   bit (cmp_flags (CdtMapPolicy_construct mo (Some mfs) ix)) n =
     (\<exists>f \<in> set mfs. bit (CdtMapWriteFlags_into_i32 f) n) \<and>
   clp_flags (CdtListPolicy_construct lo None) = 0 \<and>
   CdtMapPolicy_construct MO_Unordered None None = CdtMapPolicy_default \<and>
   (\<exists>p. toCdtMapPolicy (Some (CdtMapPolicy_construct mo fs ix)) = Inr p)"
  by (cases mo)
    (simp_all add: CdtListPolicy_construct_def CdtMapPolicy_construct_def CdtMapPolicy_default_def
      bit_foldl_or Let_def toCdtMapPolicy_def toMapOrderType_def i64_from_i32_def)

text \<open>Builders that send another command or other arguments than the manager reads: creating
  a map panics in the manager, which expects the order as an argument; asking for the size of
  a map sets its policy to the default; the count of a relative rank range of values and the
  end of an index or rank range are dropped, and the count of such a range is replaced by the
  argument before it; a list range of values without an end panics, and removing a range
  of values from a list panics unless its begin is a list.\<close>

lemma mistranslated_operations:
  "toOp toCdtOp (CdtMapOperation_create b order ix c) = Inl IndexOutOfBounds \<and>
   toOp toCdtOp (CdtMapOperation_size b c) = in_context c (\<lambda>cs.
     CdtCall ''MapSetPolicyOp'' [AMapPolicy DefaultMapPolicy, ABin b, ACtx cs]) \<and>
   toOp toCdtOp (CdtMapOperation_remove_by_value_relative_rank_range_count p b v i k rt c) =
     toOp toCdtOp (CdtMapOperation_remove_by_value_relative_rank_range p b v i rt c) \<and>
   toOp toCdtOp (CdtMapOperation_get_by_index_range p b (PInt i) w rt c) = in_context c (\<lambda>cs.
     CdtCall ''MapGetByIndexRangeOp'' [ABin b, AInt i, AMapReturn (map_return_of rt), ACtx cs]) \<and>
   toOp toCdtOp (CdtMapOperation_get_by_rank_range p b (PInt i) w rt c) = in_context c (\<lambda>cs.
     CdtCall ''MapGetByRankRangeOp'' [ABin b, AInt i, AMapReturn (map_return_of rt), ACtx cs]) \<and>
   toOp toCdtOp (CdtMapOperation_get_by_index_range_count p b i r k rt c) = in_context c (\<lambda>cs.
     CdtCall ''MapGetByIndexRangeCountOp'' [ABin b, AInt i, AInt r, AMapReturn (map_return_of rt), ACtx cs]) \<and>
   toOp toCdtOp (CdtMapOperation_get_by_rank_range_count p b i r k rt c) = in_context c (\<lambda>cs.
     CdtCall ''MapGetByRankRangeCountOp'' [ABin b, AInt i, AInt r, AMapReturn (map_return_of rt), ACtx cs]) \<and>
   (\<exists>e. toOp toCdtOp (CdtListOperation_get_by_value_range b v None lrt c) = Inl e) \<and>
   ((\<exists>vs. v = PList vs) \<or> toOp toCdtOp (CdtListOperation_remove_by_value_range b v w' lrt c) = Inl NilDereference)"
proof -
  have "toListOfValueIfcs (Value_from_PHPValue v) = Inl NilDereference" if "\<nexists>vs. v = PList vs"
    using that by (cases v) simp_all
  then have "toOp toCdtOp (CdtListOperation_remove_by_value_range b v w' lrt c) = Inl NilDereference"
    if "\<nexists>vs. v = PList vs"
    using that by (cases w') (simp_all add: read_list_simps)
  moreover have "\<exists>e. toOp toCdtOp (CdtListOperation_get_by_value_range b v None lrt c) = Inl e"
    by (cases "sent v") (simp_all add: read_list_simps)
  ultimately show ?thesis
    by (auto simp: read_map_simps toCdtMapPolicy_def)
qed

end
