(* ===== verification/End_To_End.thy ===== *)
theory End_To_End
  imports Manager_Server Collections_Laws
begin

text \<open>
  The client of \<^verbatim>\<open>src/lib.rs\<close> composed with the gRPC wrapper and the handlers of the
  connection manager: the service \<open>connected sv c\<close>. The theorems relate a call from PHP to
  the call that the Aerospike Go library receives and to its answer: what is put is got, what
  cannot be read never reaches the cluster, every command reports what the library reported,
  and a scan delivers the records of the library and resumes behind them.
\<close>

section \<open>Running a command against the manager\<close>

lemma connected_rpcs:
  "rpc_error (connected sv c) (R_put wp k bs) = recovered sv (server_Put sv c (Some wp, Some k, bs))"
  "rpc_error (connected sv c) (R_add wp k bs) = recovered sv (server_Add sv c (Some wp, Some k, bs))"
  "rpc_error (connected sv c) (R_append wp k bs) = recovered sv (server_Append sv c (Some wp, Some k, bs))"
  "rpc_error (connected sv c) (R_prepend wp k bs) = recovered sv (server_Prepend sv c (Some wp, Some k, bs))"
  "rpc_error (connected sv c) (R_touch wp k) = recovered sv (server_Touch sv c (Some wp, Some k))"
  "rpc_single (connected sv c) (R_get rp k ns) = recovered sv (server_Get sv c (Some rp, Some k, ns))"
  "rpc_single (connected sv c) (R_get_header rp k) = recovered sv (server_GetHeader sv c (Some rp, Some k))"
  "rpc_exists (connected sv c) (R_exists rp k) = recovered sv (server_Exists sv c (Some rp, Some k))"
  "rpc_delete (connected sv c) (R_delete wp k) = recovered sv (server_Delete sv c (Some wp, Some k))"
  "rpc_batch (connected sv c) (R_batch_operate bp ms) = recovered sv (server_BatchOperate sv c (Some bp, ms))"
  "rpc_udf_result (connected sv c) (R_udf_execute wp k pkg f vs) =
     recovered sv (server_UDFExecute sv c (Some wp, Some k, pkg, f, vs))"
  by (simp_all add: connected_def manager_stub_def)

lemma connected_status_rpcs:
  "rpc_status (connected sv c) (R_create_index wp ns s n b it ict ctx) =
     recovered sv (server_CreateIndex sv c (Some wp, ns, s, n, b, it, ict, ctx))"
  "rpc_status (connected sv c) (R_drop_index wp ns s n) = recovered sv (server_DropIndex sv c (Some wp, ns, s, n))"
  "rpc_status (connected sv c) (R_truncate ip ns s t) = recovered sv (server_Truncate sv c (Some ip, ns, s, t))"
  "rpc_status (connected sv c) (R_register_udf wp body n l) =
     recovered sv (server_RegisterUDF sv c (Some wp, body, n, l))"
  "rpc_status (connected sv c) (R_drop_udf wp n) = recovered sv (server_DropUDF sv c (Some wp, n))"
  "rpc_status (connected sv c) (R_create_user ap u pw rs) = recovered sv (server_CreateUser sv c (Some ap, u, pw, rs))"
  "rpc_status (connected sv c) (R_drop_user ap u) = recovered sv (server_DropUser sv c (Some ap, u))"
  "rpc_status (connected sv c) (R_change_password ap u pw) =
     recovered sv (server_ChangePassword sv c (Some ap, u, pw))"
  "rpc_status (connected sv c) (R_grant_roles ap u rs) = recovered sv (server_GrantRoles sv c (Some ap, u, rs))"
  "rpc_status (connected sv c) (R_revoke_roles ap u rs) = recovered sv (server_RevokeRoles sv c (Some ap, u, rs))"
  "rpc_status (connected sv c) (R_create_role ap n ps al rq wq) =
     recovered sv (server_CreateRole sv c (Some ap, n, ps, al, rq, wq))"
  "rpc_status (connected sv c) (R_drop_role ap n) = recovered sv (server_DropRole sv c (Some ap, n))"
  "rpc_status (connected sv c) (R_grant_privileges ap n ps) =
     recovered sv (server_GrantPrivileges sv c (Some ap, n, ps))"
  "rpc_status (connected sv c) (R_revoke_privileges ap n ps) =
     recovered sv (server_RevokePrivileges sv c (Some ap, n, ps))"
  "rpc_status (connected sv c) (R_set_allowlist ap n al) = recovered sv (server_SetAllowlist sv c (Some ap, n, al))"
  "rpc_status (connected sv c) (R_set_quotas ap n rq wq) = recovered sv (server_SetQuotas sv c (Some ap, n, rq, wq))"
  by (simp_all add: connected_def manager_stub_def)

lemma connected_streams:
  "rpc_stream (connected sv c) (R_scan sp ns s bs pf) w =
     (case server_Scan sv c (Some sp, ns, s, bs, Some pf) w of (run, w') \<Rightarrow> (streamed sv run, w'))"
  "rpc_stream (connected sv c) (R_query qp pf st) w =
     (case server_Query sv c (Some qp, Some pf, Some st) w of (run, w') \<Rightarrow> (streamed sv run, w'))"
  by (simp_all add: connected_def manager_stub_def)

lemma prepare_simps [simp]: "prepare (Inr a) k = k a" "prepare (Inl p) k w = (Inl p, w)"
  by (simp_all add: prepare_def fun_eq_iff)

lemma recovered_panic: "h w = (Inl p, w') \<Longrightarrow> recovered sv h w = (Inl (panic_text sv p), w')"
  by (simp add: recovered_def)

lemma fromError_simps [simp]:
  "fromError None = Inr None" "fromError (Some OtherError) = Inl TypeAssertion"
  "fromError (Some (AerospikeError code d)) = Inr (Some \<lparr>result_code = ucast code, pe_in_doubt = d\<rparr>)"
  by (simp_all add: fromError_def)

text \<open>What PHP sees of an error that the library reported (or did not).\<close>
definition library_report :: "go_server \<Rightarrow> aero_error option \<Rightarrow> (string + unit) php" where
  "library_report sv err =
     (case err of
        None \<Rightarrow> ret (Inr ())
      | Some (AerospikeError code d) \<Rightarrow>
          emit [AerospikeException_from_Error \<lparr>result_code = ucast code, pe_in_doubt = d\<rparr>] (Inr ())
      | Some OtherError \<Rightarrow> ret (Inl (panic_text sv TypeAssertion)))"

text \<open>The write commands report a result code of zero as success.\<close>
definition write_report :: "go_server \<Rightarrow> aero_error option \<Rightarrow> (string + unit) php" where
  "write_report sv err =
     (case err of
        Some (AerospikeError code d) \<Rightarrow>
          (if (ucast code :: i32) = 0 then ret (Inr ()) else library_report sv err)
      | _ \<Rightarrow> library_report sv err)"

lemma send_error_answer:
  "send (\<lambda>_. recovered sv (answer call error_message)) () w on_error_message =
     (case call w of (err, w') \<Rightarrow> (write_report sv err, w'))"
  by (auto simp: send_def recovered_def answer_def error_message_def on_error_message_def throw_error_eq
      write_report_def library_report_def split: prod.splits option.splits aero_error.splits)

lemma send_status_answer:
  "send (\<lambda>_. recovered sv (answer call fromError)) () w on_status =
     (case call w of (err, w') \<Rightarrow> (library_report sv err, w'))"
  by (auto simp: send_def recovered_def answer_def on_status_def throw_error_eq library_report_def
      split: prod.splits option.splits aero_error.splits)

lemma send_unit: "send f req w k = send (\<lambda>_. f req) () w k"
  by (simp add: send_def)

lemmas write_handlers = server_Put_def server_Add_def server_Append_def server_Prepend_def server_Touch_def

lemmas status_handlers = server_CreateIndex_def server_DropIndex_def server_Truncate_def
  server_RegisterUDF_def server_DropUDF_def server_CreateUser_def server_DropUser_def
  server_ChangePassword_def server_GrantRoles_def server_RevokeRoles_def server_CreateRole_def
  server_DropRole_def server_GrantPrivileges_def server_RevokePrivileges_def server_SetAllowlist_def
  server_SetQuotas_def

text \<open>What PHP sees of the library's answer to a read.\<close>
definition read_report ::
  "go_server \<Rightarrow> aero_record option \<times> aero_error option \<Rightarrow> (string + Record option) php" where
  "read_report sv res =
     (case res of
        (Some r, None) \<Rightarrow>
          (case fromRecord (Some r) of
             Inr rc \<Rightarrow> ret (Inr rc)
           | Inl p \<Rightarrow> ret (Inl (panic_text sv p)))
      | (None, Some (AerospikeError code d)) \<Rightarrow>
          (if (ucast code :: i32) = KEY_NOT_FOUND_ERROR \<and> \<not> d then ret (Inr None)
           else emit [AerospikeException_from_Error \<lparr>result_code = ucast code, pe_in_doubt = d\<rparr>] (Inr None))
      | (Some r, Some (AerospikeError code d)) \<Rightarrow>
          (case fromRecord (Some r) of
             Inr rc \<Rightarrow> panics Unreachable
           | Inl p \<Rightarrow> ret (Inl (panic_text sv p)))
      | (_, Some OtherError) \<Rightarrow> ret (Inl (panic_text sv TypeAssertion))
      | (None, None) \<Rightarrow> panics Unreachable)"

text \<open>The library call of a query and the record set that PHP gets over its results.\<close>
definition query_call ::
  "go_server \<Rightarrow> 'w aero_client \<Rightarrow> aero_QueryPolicy option \<Rightarrow> nat \<Rightarrow> aero_statement \<Rightarrow>
   (nat \<Rightarrow> PartitionFilter) \<Rightarrow> 'w \<Rightarrow> _" where
  "query_call sv c p ad st h w = open_recordset ad h
     (case lib_QueryPartitions c p (Some st) (toPartitionFilter (Some (h ad))) w of
        (res, w') \<Rightarrow> (streamed sv (stream_answer sv res), w'))"

lemma fromRecord_None [simp]: "fromRecord None = Inr None"
  by (simp add: fromRecord_def)

lemma fromRecord_Some: "fromRecord (Some r) = Inr rc \<Longrightarrow> \<exists>rc'. rc = Some rc'"
  by (auto simp: fromRecord_def sbind_Inr_iff)

lemma send_single_answer:
  "send (\<lambda>_. recovered sv (answer call single_response)) () w on_single =
     (case call w of (res, w') \<Rightarrow> (read_report sv res, w'))"
proof -
  obtain rec err w' where w': "call w = ((rec, err), w')" by (metis prod.exhaust)
  show ?thesis
  proof (cases rec)
    case None
    then show ?thesis
      by (auto simp: w' send_def recovered_def answer_def single_response_def on_single_def throw_error_eq
          read_report_def split: option.splits aero_error.splits)
  next
    case (Some r)
    then show ?thesis
      by (cases "fromRecord (Some r)")
        (auto simp: w' send_def recovered_def answer_def single_response_def on_single_def throw_error_eq
          read_report_def split: option.splits aero_error.splits dest: fromRecord_Some)
  qed
qed

section \<open>Values in the library\<close>

text \<open>
  The Go value that a value put into a bin is got back as: the library's documented mapping
  of its value types.
\<close>
primrec got :: "aero_value \<Rightarrow> go_any" where
  "got NullValue = G_nil"
| "got (IntegerValue i) = G_int i"
| "got (StringValue s) = G_string s"
| "got (FloatValue d) = G_float64 d"
| "got (BoolValue b) = G_bool b"
| "got (BytesValue b) = G_bytes b"
| "got (GeoJSONValue s) = G_GeoJSONValue s"
| "got (HLLValue b) = G_HLLValue b"
| "got WildCardValue = G_other"
| "got InfinityValue = G_other"
| "got (JsonValue j) = G_other"
| "got (MapValue m) = G_map (map (map_prod got got) m)"
| "got (ListValue l) = G_slice (map got l)"

text \<open>Values of scalars and lists of them, at any depth.\<close>
primrec storable :: "PHPValue \<Rightarrow> bool" where
  "storable PNil = True"
| "storable (PBool b) = True"
| "storable (PInt i) = True"
| "storable (PUInt u) = True"
| "storable (PFloat d) = True"
| "storable (PString s) = True"
| "storable (PBlob b) = True"
| "storable (PList l) = list_all (\<lambda>b. b) (map storable l)"
| "storable (PHashMap h) = False"
| "storable (PJson h) = False"
| "storable (PGeoJSON s) = True"
| "storable (PHLL b) = True"
| "storable PWildcard = False"
| "storable PInfinity = False"

lemma storable_got:
  "storable v \<Longrightarrow> \<exists>a. toValue (Value_from_PHPValue v) = Inr a \<and> php_value_of (got a) = wire_form v \<and>
    sendable (got a) \<and> wire_stable x (wire_form v) \<and> (v \<noteq> PNil \<longrightarrow> a \<noteq> NullValue)"
proof (induction v rule: PHPValue_nested_induct)
  case (List l)
  then have "\<forall>v \<in> set l. \<exists>a. toValue (Value_from_PHPValue v) = Inr a \<and> php_value_of (got a) = wire_form v \<and>
      sendable (got a) \<and> wire_stable x (wire_form v)"
    by (auto simp: list_all_iff)
  then obtain f where f: "\<forall>v \<in> set l. toValue (Value_from_PHPValue v) = Inr (f v) \<and>
      php_value_of (got (f v)) = wire_form v \<and> sendable (got (f v)) \<and> wire_stable x (wire_form v)"
    by metis
  then have "ssequence (map (\<lambda>v. toValue (Value_from_PHPValue v)) l) = Inr (map f l)"
    by (intro ssequence_map_Inr) auto
  then show ?case using f by (auto simp: list_all_iff comp_def)
qed auto

text \<open>
  What the library documents about records: after a put of one bin (not of the null value,
  and of a value that can be sent back) that reports no error, a get of the same key without a filter finds a record that can be
  sent and has this bin with the value that was put.
\<close>
definition keeps_puts :: "'w aero_client \<Rightarrow> bool" where
  "keeps_puts c \<longleftrightarrow>
     (\<forall>p q k n a w w'. lib_PutBins c p k [(n, a)] w = (None, w') \<and> a \<noteq> NullValue \<and>
        (\<exists>m. fromValue (got a) = Inr m) \<and> FilterExpression q = NilExp \<longrightarrow>
        (\<exists>r w''. lib_Get c (Some q) k [] w' = ((Some r, None), w'') \<and>
           map_of (arec_bins r) n = Some (got a) \<and>
           (\<exists>rc. fromRecord (Some r) = Inr (Some rc))))"

lemma ssequence_bins:
  "ssequence (map (\<lambda>(k, v). sbind (fromValue v) (\<lambda>v'. Inr (k, v'))) bins) = Inr ps \<Longrightarrow>
    map_of bins n = Some g \<Longrightarrow> \<exists>p. map_of ps n = Some p \<and> fromValue g = Inr p"
  by (induction bins arbitrary: ps) (auto simp: sbind_Inr_iff split: if_splits)

lemma fromRecord_bin:
  assumes "fromRecord (Some r) = Inr (Some rc)" and "map_of (arec_bins r) n = Some g"
    and "sendable g" and "wire_stable x (php_value_of g)"
  shows "Record_bin x rc n = ret (Some (php_value_of g))"
proof -
  have ne: "length (arec_bins r) > 0" using assms(2) by (cases "arec_bins r") auto
  have seq: "ssequence (map (\<lambda>(k, v). sbind (fromValue v) (\<lambda>v'. Inr (k, v'))) (arec_bins r)) = Inr (rec_bins rc)"
    using assms(1) ne by (auto simp: fromRecord_def fromBins_def sbind_Inr_iff)
  obtain p where "map_of (rec_bins rc) n = Some p" "fromValue g = Inr p"
    using ssequence_bins [OF seq assms(2)] by blast
  then show ?thesis
    using sendable_answers [OF assms(3,4)] by (auto simp: answers_def Record_bin_def hm_get_eq_map_of)
qed

lemmas read_handlers = server_Get_def server_GetHeader_def

lemma get_connected:
  assumes "toReadPolicy (sv_externs sv) (Some rp) = Inr p" and "toKey (sv_library sv) (Some k) = Inr key"
  shows "Client_get (connected sv c) rp k None w =
    (case lib_Get c p key [] w of (res, w') \<Rightarrow> (read_report sv res, w'))"
  unfolding Client_get_def
  by (subst send_unit) (simp add: connected_rpcs read_handlers assms send_single_answer)

lemma put_connected:
  assumes "toWritePolicy (sv_externs sv) (Some wp) = Inr p" and "toKey (sv_library sv) (Some k) = Inr key"
    and "toBins bs = Inr bins"
  shows "Client_put (connected sv c) wp k bs w =
    (case lib_PutBins c p key bins w of (err, w') \<Rightarrow> (write_report sv err, w'))"
  unfolding Client_put_def
  by (subst send_unit) (simp add: connected_rpcs write_handlers assms send_error_answer)

section \<open>Scans\<close>

text \<open>A result of the library and the message that the client reads for it.\<close>
definition sent_as :: "scan_result \<Rightarrow> message \<Rightarrow> bool" where
  "sent_as res m \<longleftrightarrow>
     sres_err res = None \<and> fromRecord (sres_record res) = Inr (Some (msg_record m)) \<and>
     sres_bval res = msg_bval m"

definition response_of :: "message \<Rightarrow> stream_response" where
  "response_of m = \<lparr>sr_error = None, sr_record = Some (msg_record m), sr_bval = msg_bval m\<rparr>"

lemma result_loop_sent:
  "list_all2 sent_as rs ms \<Longrightarrow> \<forall>n. send_ok sv n \<Longrightarrow> result_loop sv n rs = (map response_of ms, Finished)"
  by (induction arbitrary: n rule: list_all2_induct) (simp_all add: sent_as_def response_of_def)

lemma scan_connected:
  assumes "toScanPolicy (sv_externs sv) (Some sp) = Inr p"
  shows "rpc_stream (connected sv c) (R_scan sp ns s bs pf) w =
    (case lib_ScanPartitions c p (toPartitionFilter (Some pf)) ns s bs w of
       (res, w') \<Rightarrow> (streamed sv (stream_answer sv res), w'))"
  by (simp add: connected_streams server_Scan_def assms split: prod.splits)

lemma scan_answer_sent:
  assumes "list_all2 sent_as rs ms" and "\<forall>n. send_ok sv n"
  shows "streamed sv (stream_answer sv (rs, None)) = Inr (map item_of ms)"
  by (simp add: stream_answer_def result_loop_sent [OF assms] streamed_def item_of_def [abs_def]
      response_of_def comp_def)

lemma toPartitionFilter_digest:
  assumes "filter_inv pf" and "i < 4096"
  shows "aps_digest (apf_partitions (the (toPartitionFilter (Some pf))) ! i) = ps_digest (pf_partitions pf ! i)"
    and "aps_id (apf_partitions (the (toPartitionFilter (Some pf))) ! i) = of_nat i"
proof -
  show "aps_digest (apf_partitions (the (toPartitionFilter (Some pf))) ! i) = ps_digest (pf_partitions pf ! i)"
    using assms by (simp add: toPartitionFilter_def toPartitionStatuses_def filter_inv_length toPartitionStatus_def)
  have "unat (word_of_nat i :: u32) = i" using assms(2) by (simp add: unat_of_nat)
  then have "(ucast (word_of_nat i :: u32) :: i64) = of_nat i"
    by (metis of_nat_unat ucast_eq of_int_of_nat_eq uint_nat)
  then show "aps_id (apf_partitions (the (toPartitionFilter (Some pf))) ! i) = of_nat i"
    using assms by (simp add: toPartitionFilter_def toPartitionStatuses_def filter_inv_length
        toPartitionStatus_def filter_inv_nth)
qed

section \<open>A manager for evaluating the definitions\<close>

definition sample_server :: go_server where
  "sample_server =
     \<lparr>sv_externs = go_externs0, sv_library = sample_library, sv_version = ''1.4.0'',
      panic_text = (\<lambda>_. ''panic''), error_text = (\<lambda>_. ''error''), send_ok = (\<lambda>_. True)\<rparr>"

definition sample_scanned :: aero_record where
  "sample_scanned =
     \<lparr>arec_key = Some \<lparr>ak_namespace = ''test'', ak_set_name = ''s'', ak_value = G_nil, ak_digest = [5, 0, 9, 9]\<rparr>,
      arec_generation = 1, arec_expiration = 0, arec_bins = []\<rparr>"

text \<open>A cluster of one record, whose state is the bins that were put last.\<close>
text \<open>A cluster whose commands do nothing, and one that keeps the bins of a single record.\<close>
definition idle_cluster :: "'w aero_client" where
  "idle_cluster =
     \<lparr>lib_Get = (\<lambda>_ _ _ w. ((None, None), w)),
      lib_GetHeader = (\<lambda>_ _ w. ((None, None), w)),
      lib_Exists = (\<lambda>_ _ w. ((True, None), w)),
      lib_PutBins = (\<lambda>_ _ _ w. (None, w)),
      lib_AddBins = (\<lambda>_ _ _ w. (None, w)),
      lib_AppendBins = (\<lambda>_ _ _ w. (None, w)),
      lib_PrependBins = (\<lambda>_ _ _ w. (None, w)),
      lib_Delete = (\<lambda>_ _ w. ((True, None), w)),
      lib_Touch = (\<lambda>_ _ w. (None, w)),
      lib_BatchOperate = (\<lambda>_ _ w. (([], None), w)),
      lib_CreateComplexIndex = (\<lambda>_ _ _ _ _ _ _ w. (None, w)),
      lib_DropIndex = (\<lambda>_ _ _ _ w. (None, w)),
      lib_Truncate = (\<lambda>_ _ _ _ w. (None, w)),
      lib_RegisterUDF = (\<lambda>_ _ _ _ w. (None, w)),
      lib_RemoveUDF = (\<lambda>_ _ w. (None, w)),
      lib_ListUDF = (\<lambda>_ w. (([], None), w)),
      lib_Execute = (\<lambda>_ _ _ _ _ w. ((G_nil, None), w)),
      lib_CreateUser = (\<lambda>_ _ _ _ w. (None, w)),
      lib_DropUser = (\<lambda>_ _ w. (None, w)),
      lib_ChangePassword = (\<lambda>_ _ _ w. (None, w)),
      lib_GrantRoles = (\<lambda>_ _ _ w. (None, w)),
      lib_RevokeRoles = (\<lambda>_ _ _ w. (None, w)),
      lib_QueryUser = (\<lambda>_ _ w. ((None, None), w)),
      lib_QueryUsers = (\<lambda>_ w. (([], None), w)),
      lib_QueryRole = (\<lambda>_ _ w. ((None, None), w)),
      lib_QueryRoles = (\<lambda>_ w. (([], None), w)),
      lib_CreateRole = (\<lambda>_ _ _ _ _ _ w. (None, w)),
      lib_DropRole = (\<lambda>_ _ w. (None, w)),
      lib_GrantPrivileges = (\<lambda>_ _ _ w. (None, w)),
      lib_RevokePrivileges = (\<lambda>_ _ _ w. (None, w)),
      lib_SetWhitelist = (\<lambda>_ _ _ w. (None, w)),
      lib_SetQuotas = (\<lambda>_ _ _ _ w. (None, w)),
      lib_ScanPartitions = (\<lambda>_ _ _ _ _ w. (([], None), w)),
      lib_QueryPartitions = (\<lambda>_ _ _ w. (([], None), w))\<rparr>"

definition sample_cluster :: "(string \<times> aero_value) list aero_client" where
  "sample_cluster = idle_cluster
     \<lparr>lib_Get := (\<lambda>p k ns w. ((Some \<lparr>arec_key = None, arec_generation = 1, arec_expiration = 0,
         arec_bins = map (map_prod (\<lambda>n. n) got) w\<rparr>, None), w)),
      lib_PutBins := (\<lambda>p k bs w. (None, bs)),
      lib_Exists := (\<lambda>_ _ w. ((True, None), w)),
      lib_ScanPartitions := (\<lambda>p pf ns s bs w. (([\<lparr>sres_err = None, sres_record = Some sample_scanned, sres_bval = None\<rparr>], None), w))\<rparr>"

lemma sample_policies:
  "\<exists>p. toWritePolicy go_externs0 (Some WritePolicy_default) = Inr (Some p)"
  "\<exists>q. toReadPolicy go_externs0 (Some ReadPolicy_default) = Inr (Some q)"
  "\<exists>m. toScanPolicy go_externs0 (Some ScanPolicy_default) = Inr (Some m)"
  by (simp_all add: policy_readers WritePolicy_default_def proto_ReadPolicy_default_def ReadPolicy_default_def
      ScanPolicy_default_def MultiPolicy_default_def ReadPolicy_set_total_timeout_def
      toFilterExpression_def deref_exp_def)

lemma sample_key_read:
  "\<exists>key. toKey sample_library (Some (Key_construct ''test'' ''s'' (PInt 1))) = Inr (Some key)"
  by (simp add: toKey_constructed sample_library_def)

lemma sample_sent: "sent_as \<lparr>sres_err = None, sres_record = Some sample_scanned, sres_bval = None\<rparr> sample_message"
  by (simp add: sent_as_def sample_scanned_def sample_message_def sample_key_def fromRecord_def fromKey_def
      fromBins_def)

lemma sample_keeps_puts: "keeps_puts sample_cluster"
  by (auto simp: keeps_puts_def sample_cluster_def idle_cluster_def fromRecord_def fromKey_def fromBins_def)

section \<open>Properties\<close>

text \<open>C11. The write commands, end to end: when the manager can read policy, key and bins, put, add,
  append, prepend and touch each make the one library call of their kind with what was read,
  and PHP sees the library's report: success, one exception with the library's result code
  and doubt, or the text of a failed status for an error of another type.\<close>
theorem write_commands_reach_library:
  assumes "toWritePolicy (sv_externs sv) (Some wp) = Inr p" and "toKey (sv_library sv) (Some k) = Inr key"
    and "toBins bs = Inr bins"
  shows "Client_put (connected sv c) wp k bs w =
      (case lib_PutBins c p key bins w of (err, w') \<Rightarrow> (write_report sv err, w')) \<and>
    Client_add (connected sv c) wp k bs w =
      (case lib_AddBins c p key bins w of (err, w') \<Rightarrow> (write_report sv err, w')) \<and>
    Client_append (connected sv c) wp k bs w =
      (case lib_AppendBins c p key bins w of (err, w') \<Rightarrow> (write_report sv err, w')) \<and>
    Client_prepend (connected sv c) wp k bs w =
      (case lib_PrependBins c p key bins w of (err, w') \<Rightarrow> (write_report sv err, w')) \<and>
    Client_touch (connected sv c) wp k w =
      (case lib_Touch c p key w of (err, w') \<Rightarrow> (write_report sv err, w'))"
  by (intro conjI; unfold single_record_defs; subst send_unit;
      simp add: connected_rpcs write_handlers assms send_error_answer)

theorem write_commands_reach_library_witness:
  "Client_put (connected sample_server sample_cluster) WritePolicy_default
     (Key_construct ''test'' ''s'' (PInt 1)) [\<lparr>bin_name = ''b'', bin_value = Some (V_I 4)\<rparr>] [] =
   (ret (Inr ()), [(''b'', IntegerValue 4)])"
proof -
  obtain p where p: "toWritePolicy (sv_externs sample_server) (Some WritePolicy_default) = Inr (Some p)"
    using sample_policies(1) by (auto simp: sample_server_def)
  obtain key where key: "toKey (sv_library sample_server) (Some (Key_construct ''test'' ''s'' (PInt 1))) = Inr (Some key)"
    using sample_key_read by (auto simp: sample_server_def)
  have bins: "toBins [\<lparr>bin_name = ''b'', bin_value = Some (V_I 4)\<rparr>] = Inr [(''b'', IntegerValue 4)]"
    by (simp add: toBins_def)
  show ?thesis
    using write_commands_reach_library [OF p key bins, of sample_cluster "[]"]
    by (simp add: sample_cluster_def idle_cluster_def write_report_def library_report_def)
qed

text \<open>The context of an index is lost: creating an index with a context makes the same library
  call as creating it without one.\<close>
lemma index_context_dropped:
  "Client_create_index (connected sv c) wp ns s b n it cit ctx w =
   Client_create_index (connected sv c) wp ns s b n it cit None w"
  by (simp add: Client_create_index_def send_def connected_status_rpcs server_CreateIndex_def)

text \<open>C19. Index, UDF, truncation and user administration, end to end: each command makes the one
  library call of its kind with its arguments, policies, language, index types and privileges
  read, and PHP sees the library's report. There are two exceptions. The
  context of \<^verbatim>\<open>create_index\<close> is dropped by the manager, so an index with a context is
  created as one without; and the timeouts of the admin and info policy are multiplied in 32
  bits. It is assumed that the manager can read the write policy and the names of the
  privileges. The commands on privileges take \<^verbatim>\<open>Privilege\<close> objects, for which the class
  gives PHP no constructor.\<close>
theorem admin_commands_reach_library:
  assumes "toWritePolicy (sv_externs sv) (Some wp) = Inr p" and "toPrivileges (sv_library sv) ps = Inr privs"
  shows "Client_create_index (connected sv c) wp ns s b n it cit ctx w =
      (case lib_CreateComplexIndex c p ns s n b it (cit_or_default cit) w of
         (err, w') \<Rightarrow> (library_report sv err, w')) \<and>
    Client_create_index (connected sv c) wp ns s b n it cit ctx w =
      Client_create_index (connected sv c) wp ns s b n it cit None w \<and>
    Client_drop_index (connected sv c) wp ns s n w =
      (case lib_DropIndex c p ns s n w of (err, w') \<Rightarrow> (library_report sv err, w')) \<and>
    Client_truncate (connected sv c) ip ns s t w =
      (case lib_Truncate c (Some (timeout32 (ip_timeout ip))) ns s t w of
         (err, w') \<Rightarrow> (library_report sv err, w')) \<and>
    Client_register_udf (connected sv c) wp body n l w =
      (case lib_RegisterUDF c p (as_bytes body) n LUA w of (err, w') \<Rightarrow> (library_report sv err, w')) \<and>
    Client_drop_udf (connected sv c) wp n w =
      (case lib_RemoveUDF c p n w of (err, w') \<Rightarrow> (library_report sv err, w')) \<and>
    Client_create_user (connected sv c) ap u pw rs w =
      (case lib_CreateUser c (Some (timeout32 (ap_timeout ap))) u pw rs w of
         (err, w') \<Rightarrow> (library_report sv err, w')) \<and>
    Client_drop_user (connected sv c) ap u w =
      (case lib_DropUser c (Some (timeout32 (ap_timeout ap))) u w of (err, w') \<Rightarrow> (library_report sv err, w')) \<and>
    Client_change_password (connected sv c) ap u pw w =
      (case lib_ChangePassword c (Some (timeout32 (ap_timeout ap))) u pw w of
         (err, w') \<Rightarrow> (library_report sv err, w')) \<and>
    Client_grant_roles (connected sv c) ap u rs w =
      (case lib_GrantRoles c (Some (timeout32 (ap_timeout ap))) u rs w of
         (err, w') \<Rightarrow> (library_report sv err, w')) \<and>
    Client_revoke_roles (connected sv c) ap u rs w =
      (case lib_RevokeRoles c (Some (timeout32 (ap_timeout ap))) u rs w of
         (err, w') \<Rightarrow> (library_report sv err, w')) \<and>
    Client_create_role (connected sv c) ap n ps al rq wq w =
      (case lib_CreateRole c (Some (timeout32 (ap_timeout ap))) n privs al rq wq w of
         (err, w') \<Rightarrow> (library_report sv err, w')) \<and>
    Client_drop_role (connected sv c) ap n w =
      (case lib_DropRole c (Some (timeout32 (ap_timeout ap))) n w of (err, w') \<Rightarrow> (library_report sv err, w')) \<and>
    Client_grant_privileges (connected sv c) ap n ps w =
      (case lib_GrantPrivileges c (Some (timeout32 (ap_timeout ap))) n privs w of
         (err, w') \<Rightarrow> (library_report sv err, w')) \<and>
    Client_revoke_privileges (connected sv c) ap n ps w =
      (case lib_RevokePrivileges c (Some (timeout32 (ap_timeout ap))) n privs w of
         (err, w') \<Rightarrow> (library_report sv err, w')) \<and>
    Client_set_allowlist (connected sv c) ap n al w =
      (case lib_SetWhitelist c (Some (timeout32 (ap_timeout ap))) n al w of
         (err, w') \<Rightarrow> (library_report sv err, w')) \<and>
    Client_set_quotas (connected sv c) ap n rq wq w =
      (case lib_SetQuotas c (Some (timeout32 (ap_timeout ap))) n rq wq w of
         (err, w') \<Rightarrow> (library_report sv err, w'))"
  by (intro conjI; (rule index_context_dropped | unfold admin_defs; subst send_unit);
      simp add: connected_status_rpcs status_handlers assms send_status_answer toAdminPolicy_def
        toInfoPolicy_def toTime_def)

theorem admin_commands_reach_library_witness:
  "Client_create_role (connected sample_server sample_cluster) AdminPolicy_default ''r''
     [\<lparr>priv_name = Privilege_read_write, priv_namespace = ''test'', priv_set_name = []\<rparr>] [] 0 0 [] =
   (ret (Inr ()), [])"
proof -
  obtain p where p: "toWritePolicy (sv_externs sample_server) (Some WritePolicy_default) = Inr (Some p)"
    using sample_policies(1) by (auto simp: sample_server_def)
  have ps: "toPrivileges (sv_library sample_server)
      [\<lparr>priv_name = Privilege_read_write, priv_namespace = ''test'', priv_set_name = []\<rparr>] =
      Inr [\<lparr>apr_code = ReadWrite, apr_namespace = ''test'', apr_set_name = []\<rparr>]"
    by (simp add: toPrivileges_def toPrivilege_def sample_server_def sample_library_def privilege_cases_def
        Privilege_read_write_def)
  show ?thesis
    using admin_commands_reach_library [OF p ps, of sample_cluster]
    by (simp add: sample_cluster_def idle_cluster_def library_report_def)
qed

text \<open>C36. A request whose key the manager cannot read never reaches the cluster: every command on
  a key returns the text of a failed status, throws nothing and leaves the cluster as it
  was.\<close>
theorem unreadable_key_rejected:
  assumes "toKey (sv_library sv) (Some k) = Inl pn"
  shows "(\<exists>e. Client_put (connected sv c) wp k bs w = (ret (Inl e), w)) \<and>
    (\<exists>e. Client_add (connected sv c) wp k bs w = (ret (Inl e), w)) \<and>
    (\<exists>e. Client_append (connected sv c) wp k bs w = (ret (Inl e), w)) \<and>
    (\<exists>e. Client_prepend (connected sv c) wp k bs w = (ret (Inl e), w)) \<and>
    (\<exists>e. Client_touch (connected sv c) wp k w = (ret (Inl e), w)) \<and>
    (\<exists>e. Client_get (connected sv c) rp k ns w = (ret (Inl e), w)) \<and>
    (\<exists>e. Client_get_header (connected sv c) rp k w = (ret (Inl e), w)) \<and>
    (\<exists>e. Client_delete (connected sv c) wp k w = (ret (Inl e), w)) \<and>
    (\<exists>e. Client_exists (connected sv c) rp k w = (ret (Inl e), w)) \<and>
    (\<exists>e. Client_udf_execute x (connected sv c) wp k pkg f args w = (ret (Inl e), w))"
  by (intro conjI; unfold single_record_defs Client_udf_execute_def;
      cases "toWritePolicy (sv_externs sv) (Some wp)"; cases "toReadPolicy (sv_externs sv) (Some rp)";
      simp add: connected_rpcs write_handlers server_Get_def server_GetHeader_def server_Exists_def
        server_Delete_def server_UDFExecute_def assms send_def recovered_def)

theorem unreadable_key_rejected_witness:
  "\<exists>e. Client_delete (connected sample_server sample_cluster) WritePolicy_default sample_key [] = (ret (Inl e), [])"
proof -
  have "toKey (sv_library sample_server) (Some sample_key) = Inl GoPanic"
    by (simp add: toKey_def sample_key_def sample_server_def sample_library_def)
  from unreadable_key_rejected [where c = sample_cluster and wp = WritePolicy_default and w = "[]" and
      bs = "[]" and rp = ReadPolicy_default and ns = None and x = externs0 and pkg = "[]" and f = "[]" and
      args = "[]", OF this]
  show ?thesis by blast
qed

text \<open>What is put is got: if the library keeps what was put, then after a put of a bin that the
  library accepted, a get of the same key returns a record whose bin reads, in PHP, as the
  value that was put (an unsigned integer as a signed one), for scalars and nested lists.\<close>
lemma put_then_get:
  assumes "keeps_puts c" and "storable v" and "v \<noteq> PNil"
    and "toWritePolicy (sv_externs sv) (Some wp) = Inr p" and "toKey (sv_library sv) (Some k) = Inr key"
    and "rp_filter_expression rp = None"
    and "toValue (Value_from_PHPValue v) = Inr a" and "lib_PutBins c p key [(n, a)] w = (None, w1)"
  shows "\<exists>rc w2. Client_put (connected sv c) wp k [\<lparr>bin_name = n, bin_value = Some (Value_from_PHPValue v)\<rparr>] w =
      (ret (Inr ()), w1) \<and>
    Client_get (connected sv c) rp k None w1 = (ret (Inr (Some rc)), w2) \<and>
    Record_bin x rc n = ret (Some (wire_form v))"
proof -
  obtain q where q: "toReadPolicy (sv_externs sv) (Some rp) = Inr (Some q)" "FilterExpression q = NilExp"
    using assms(6) by (auto simp: toReadPolicy_def toFilterExpression_def deref_exp_def)
  have a: "php_value_of (got a) = wire_form v" "sendable (got a)" "wire_stable x (wire_form v)" "a \<noteq> NullValue"
    using storable_got [OF assms(2), of x] assms(3,7) by auto
  obtain r w2 rc where r: "lib_Get c (Some q) key [] w1 = ((Some r, None), w2)"
      "map_of (arec_bins r) n = Some (got a)" "fromRecord (Some r) = Inr (Some rc)"
    using assms(1,8) a(4) q(2) sendable_answers [OF a(2), of x] a(1,3)
    unfolding keeps_puts_def answers_def by metis
  have bins: "toBins [\<lparr>bin_name = n, bin_value = Some (Value_from_PHPValue v)\<rparr>] = Inr [(n, a)]"
    using assms(7) by (simp add: toBins_def)
  have "Record_bin x rc n = ret (Some (wire_form v))"
    using fromRecord_bin [OF r(3,2) a(2), of x] a(1,3) by simp
  then show ?thesis
    by (simp add: put_connected [OF assms(4,5) bins] get_connected [OF q(1) assms(5)] assms(8) r
        write_report_def library_report_def read_report_def)
qed

theorem put_then_get_witness:
  "\<exists>rc w2. Client_get (connected sample_server sample_cluster) ReadPolicy_default
      (Key_construct ''test'' ''s'' (PInt 1)) None [(''b'', ListValue [IntegerValue 4])] =
      (ret (Inr (Some rc)), w2) \<and> Record_bin externs0 rc ''b'' = ret (Some (PList [PInt 4]))"
proof -
  obtain p where p: "toWritePolicy (sv_externs sample_server) (Some WritePolicy_default) = Inr (Some p)"
    using sample_policies(1) by (auto simp: sample_server_def)
  obtain key where key: "toKey (sv_library sample_server) (Some (Key_construct ''test'' ''s'' (PInt 1))) = Inr (Some key)"
    using sample_key_read by (auto simp: sample_server_def)
  have put: "lib_PutBins sample_cluster (Some p) (Some key) [(''b'', ListValue [IntegerValue 4])] [] =
      (None, [(''b'', ListValue [IntegerValue 4])])"
    by (simp add: sample_cluster_def idle_cluster_def)
  show ?thesis
    using put_then_get [OF sample_keeps_puts, where v = "PList [PUInt 4]" and rp = ReadPolicy_default and
        a = "ListValue [IntegerValue 4]" and x = externs0 and n = "''b''", OF _ _ p key _ _ put]
    by (auto simp: ReadPolicy_default_def)
qed

text \<open>C18. Reading, end to end: when the manager can read policy and key, get and get\_header make
  the one library call of their kind; PHP gets the record, nothing for a record that is not
  there, one exception for another error, and the text of a failed status when the record
  cannot be sent; only an answer with both or neither of record and error panics.\<close>
theorem read_commands_reach_library:
  assumes "toReadPolicy (sv_externs sv) (Some rp) = Inr p" and "toKey (sv_library sv) (Some k) = Inr key"
  shows "Client_get (connected sv c) rp k None w =
      (case lib_Get c p key [] w of (res, w') \<Rightarrow> (read_report sv res, w')) \<and>
    Client_get (connected sv c) rp k (Some names) w =
      (case lib_Get c p key names w of (res, w') \<Rightarrow> (read_report sv res, w')) \<and>
    Client_get_header (connected sv c) rp k w =
      (case lib_GetHeader c p key w of (res, w') \<Rightarrow> (read_report sv res, w'))"
  by (intro conjI; unfold single_record_defs; subst send_unit;
      simp add: connected_rpcs read_handlers assms send_single_answer)

theorem read_commands_reach_library_witness:
  "Client_get_header (connected sample_server sample_cluster) ReadPolicy_default
     (Key_construct ''test'' ''s'' (PInt 1)) [] = (panics Unreachable, [])"
proof -
  obtain q where q: "toReadPolicy (sv_externs sample_server) (Some ReadPolicy_default) = Inr (Some q)"
    using sample_policies(2) by (auto simp: sample_server_def)
  obtain key where key: "toKey (sv_library sample_server) (Some (Key_construct ''test'' ''s'' (PInt 1))) = Inr (Some key)"
    using sample_key_read by (auto simp: sample_server_def)
  show ?thesis
    using read_commands_reach_library [OF q key, of sample_cluster "[]"]
    by (simp add: sample_cluster_def idle_cluster_def read_report_def)
qed

text \<open>C4. A scan of all partitions, end to end: the records of the library arrive in order when the
  record set is read to its end, and scanning again with the same filter makes the library
  start, in every partition, behind the last record of that partition that was delivered.\<close>
theorem scan_resumes_in_library:
  assumes "toScanPolicy (sv_externs sv) (Some sp) = Inr p" and "\<forall>n. send_ok sv n"
    and "h a = PartitionFilter_all"
    and "lib_ScanPartitions c p (toPartitionFilter (Some PartitionFilter_all)) ns s bs w = ((rs, None), w1)"
    and "list_all2 sent_as rs ms" and "list_all (message_ok x) ms"
  shows "\<exists>rset h1 h2 apf.
    Client_scan (connected sv c) sp a ns s (Some bs) h w = (ret (Inr rset), w1, h1) \<and>
    drain (Suc (length rs)) x rset h1 = ret (map msg_record ms, Recordset_close rset, h2) \<and>
    (\<forall>w2. Client_scan (connected sv c) sp a ns s (Some bs) h2 w2 =
       open_recordset a h2 (case lib_ScanPartitions c p (Some apf) ns s bs w2 of
         (res, w3) \<Rightarrow> (streamed sv (stream_answer sv res), w3))) \<and>
    (\<forall>i<4096. aps_id (apf_partitions apf ! i) = of_nat i \<and> aps_digest (apf_partitions apf ! i) =
       (case filter (\<lambda>m. (ucast (msg_pid m) :: u32) = word_of_nat i) ms of
          [] \<Rightarrow> [] | m # rest \<Rightarrow> msg_digest (last (m # rest))))"
proof -
  have st: "rpc_stream (connected sv c) (R_scan sp ns s bs PartitionFilter_all) w = (Inr (map item_of ms), w1)"
    by (simp add: scan_connected [OF assms(1)] assms(4) scan_answer_sent [OF assms(5,2)])
  have len: "length ms < Suc (length rs)" using assms(5) by (simp add: list_all2_lengthD)
  obtain rset h1 h2 pf where scan: "Client_scan (connected sv c) sp a ns s (Some bs) h w = (ret (Inr rset), w1, h1)"
      "drain (Suc (length rs)) x rset h1 = ret (map msg_record ms, Recordset_close rset, h2)"
      "\<forall>p' w2. Client_scan (connected sv c) p' a ns s (Some bs) h2 w2 =
         open_recordset a h2 (rpc_stream (connected sv c) (R_scan p' ns s bs pf) w2)"
      "filter_inv pf"
      "\<forall>i<4096. ps_digest (pf_partitions pf ! i) =
         (case filter (\<lambda>m. (ucast (msg_pid m) :: u32) = word_of_nat i) ms of
            [] \<Rightarrow> [] | m # rest \<Rightarrow> msg_digest (last (m # rest)))"
    using scan_drained [where h = h and a = a, OF assms(3,6) len st] by blast
  have "toPartitionFilter (Some pf) = Some (the (toPartitionFilter (Some pf)))"
    by (simp add: toPartitionFilter_def)
  then have again: "\<forall>w2. Client_scan (connected sv c) sp a ns s (Some bs) h2 w2 =
      open_recordset a h2 (case lib_ScanPartitions c p (Some (the (toPartitionFilter (Some pf)))) ns s bs w2 of
        (res, w3) \<Rightarrow> (streamed sv (stream_answer sv res), w3))"
    using scan(3) by (metis scan_connected [OF assms(1)])
  have "\<forall>i<4096. aps_id (apf_partitions (the (toPartitionFilter (Some pf))) ! i) = of_nat i \<and>
      aps_digest (apf_partitions (the (toPartitionFilter (Some pf))) ! i) =
       (case filter (\<lambda>m. (ucast (msg_pid m) :: u32) = word_of_nat i) ms of
          [] \<Rightarrow> [] | m # rest \<Rightarrow> msg_digest (last (m # rest)))"
    using toPartitionFilter_digest [OF scan(4)] scan(5) by simp
  with scan(1,2) again show ?thesis by blast
qed

theorem scan_resumes_in_library_witness:
  "\<exists>rset h1 h2. Client_scan (connected sample_server sample_cluster) ScanPolicy_default 7 ''test'' ''s''
      (Some []) (\<lambda>_. PartitionFilter_all) [] = (ret (Inr rset), [], h1) \<and>
    drain 2 externs0 rset h1 = ret ([msg_record sample_message], Recordset_close rset, h2)"
proof -
  obtain m where m: "toScanPolicy (sv_externs sample_server) (Some ScanPolicy_default) = Inr (Some m)"
    using sample_policies(3) by (auto simp: sample_server_def)
  have lib: "lib_ScanPartitions sample_cluster (Some m) (toPartitionFilter (Some PartitionFilter_all)) ''test'' ''s'' [] [] =
      (([\<lparr>sres_err = None, sres_record = Some sample_scanned, sres_bval = None\<rparr>], None), [])"
    by (simp add: sample_cluster_def idle_cluster_def)
  have sent: "list_all2 sent_as [\<lparr>sres_err = None, sres_record = Some sample_scanned, sres_bval = None\<rparr>]
      [sample_message]"
    using sample_sent by simp
  have "list_all (message_ok externs0) [sample_message]" using sample_message_ok by simp
  from scan_resumes_in_library [where a = 7 and h = "\<lambda>_. PartitionFilter_all", OF m _ refl lib sent this]
  show ?thesis by (auto simp: sample_server_def numeral_2_eq_2 simp del: drain.simps)
qed

text \<open>A scan that the library refuses is reported twice: the manager sends the error as a
  message and returns it as well, so the first call of \<^verbatim>\<open>next\<close> throws the error and the
  second throws the text of the failed status, while the record set stays active.\<close>
lemma refused_scan_thrown_twice:
  assumes "toScanPolicy (sv_externs sv) (Some sp) = Inr p" and "send_ok sv 0"
    and "lib_ScanPartitions c p (toPartitionFilter (Some (h a))) ns s bs w = ((rs, Some (AerospikeError code d)), w1)"
  shows "\<exists>rset h1 rset' h2. Client_scan (connected sv c) sp a ns s (Some bs) h w = (ret (Inr rset), w1, h1) \<and>
    next_calls 2 x rset h1 =
      emit [AerospikeException_from_Error \<lparr>result_code = ucast code, pe_in_doubt = d\<rparr>,
            AerospikeException_new (error_text sv (AerospikeError code d))] ([None, None], rset', h2) \<and>
    Recordset_get_active rset'"
proof -
  have "rpc_stream (connected sv c) (R_scan sp ns s bs (h a)) w =
      (Inr [Inr (error_item (Some \<lparr>result_code = ucast code, pe_in_doubt = d\<rparr>)),
            Inl (error_text sv (AerospikeError code d))], w1)"
    by (simp add: scan_connected [OF assms(1)] assms(2,3) stream_answer_def streamed_def)
  then show ?thesis
    by (simp add: Client_scan_def open_recordset_def numeral_2_eq_2 Recordset_next_def error_item_def
        emit_def Recordset_get_active_def bnd_def throw_object_def ret_def)
qed


theorem refused_scan_thrown_twice_witness:
  "let c = sample_cluster\<lparr>lib_ScanPartitions := (\<lambda>p pf ns s bs w. (([], Some (AerospikeError 9 False)), w))\<rparr> in
   \<exists>rset h1. Client_scan (connected sample_server c) ScanPolicy_default 7 ''test'' ''s'' (Some [])
       (\<lambda>_. PartitionFilter_all) [] = (ret (Inr rset), [], h1) \<and>
     thrown (next_calls 2 externs0 rset h1) =
       [AerospikeException_from_Error \<lparr>result_code = 9, pe_in_doubt = False\<rparr>, AerospikeException_new ''error'']"
proof -
  let ?c = "sample_cluster\<lparr>lib_ScanPartitions := (\<lambda>p pf ns s bs w. (([], Some (AerospikeError 9 False)), w))\<rparr>"
  obtain m where m: "toScanPolicy (sv_externs sample_server) (Some ScanPolicy_default) = Inr (Some m)"
    using sample_policies(3) by (auto simp: sample_server_def)
  have ok: "send_ok sample_server 0" "error_text sample_server (AerospikeError 9 False) = ''error''"
    by (simp_all add: sample_server_def)
  have lib: "lib_ScanPartitions ?c (Some m) (toPartitionFilter (Some ((\<lambda>_. PartitionFilter_all) 7))) ''test'' ''s'' [] [] =
      (([], Some (AerospikeError 9 False)), [])" by simp
  from refused_scan_thrown_twice [where h = "\<lambda>_. PartitionFilter_all" and a = 7 and c = ?c and x = externs0,
      OF m ok(1) lib]
  show ?thesis by (fastforce simp: Let_def ok(2) simp del: next_calls.simps)
qed

text \<open>Deleting and asking for existence, end to end, when the library reports no error: a delete
  returns true whether or not the record existed, while \<^verbatim>\<open>exists\<close> returns the answer of the
  library; an error of the library is thrown once, and both then return false.\<close>
lemma delete_and_exists_through_manager:
  assumes "toWritePolicy (sv_externs sv) (Some wp) = Inr p" and "toReadPolicy (sv_externs sv) (Some rp) = Inr q"
    and "toKey (sv_library sv) (Some k) = Inr key"
    and "lib_Delete c p key w = ((existed, err), w1)" and "lib_Exists c q key w = ((there, err'), w2)"
  shows "Client_delete (connected sv c) wp k w =
      (case err of
         None \<Rightarrow> (ret (Inr True), w1)
       | Some (AerospikeError code d) \<Rightarrow>
           (emit [AerospikeException_from_Error \<lparr>result_code = ucast code, pe_in_doubt = d\<rparr>] (Inr False), w1)
       | Some OtherError \<Rightarrow> (ret (Inl (panic_text sv TypeAssertion)), w1)) \<and>
    Client_exists (connected sv c) rp k w =
      (case err' of
         None \<Rightarrow> (ret (Inr there), w2)
       | Some (AerospikeError code d) \<Rightarrow>
           (emit [AerospikeException_from_Error \<lparr>result_code = ucast code, pe_in_doubt = d\<rparr>] (Inr False), w2)
       | Some OtherError \<Rightarrow> (ret (Inl (panic_text sv TypeAssertion)), w2))"
  by (auto simp: Client_delete_def Client_exists_def send_def connected_rpcs server_Delete_def server_Exists_def
      assms answer_def recovered_def flag_response_def throw_error_eq split: option.splits aero_error.splits)

theorem delete_and_exists_through_manager_witness:
  "Client_delete (connected sample_server (sample_cluster\<lparr>lib_Delete := (\<lambda>_ _ w. ((False, None), w))\<rparr>))
     WritePolicy_default (Key_construct ''test'' ''s'' (PInt 1)) [] = (ret (Inr True), [])"
proof -
  let ?c = "sample_cluster\<lparr>lib_Delete := (\<lambda>_ _ w. ((False, None), w))\<rparr>"
  obtain p where p: "toWritePolicy (sv_externs sample_server) (Some WritePolicy_default) = Inr (Some p)"
    using sample_policies(1) by (auto simp: sample_server_def)
  obtain q where q: "toReadPolicy (sv_externs sample_server) (Some ReadPolicy_default) = Inr (Some q)"
    using sample_policies(2) by (auto simp: sample_server_def)
  obtain key where key: "toKey (sv_library sample_server) (Some (Key_construct ''test'' ''s'' (PInt 1))) = Inr (Some key)"
    using sample_key_read by (auto simp: sample_server_def)
  have lib: "lib_Delete ?c (Some p) (Some key) [] = ((False, None), [])"
    "lib_Exists ?c (Some q) (Some key) [] = ((True, None), [])"
    by (simp_all add: sample_cluster_def idle_cluster_def)
  show ?thesis using delete_and_exists_through_manager [OF p q key lib] by simp
qed

lemma query_connected:
  assumes "toQueryPolicy (sv_externs sv) (Some qp) = Inr p" and "toFilter (st_filter st) = Inr f"
  shows "Client_query (connected sv c) qp ad st h w =
    query_call sv c p ad
      \<lparr>ast_namespace = st_namespace st, ast_set_name = st_set_name st,
       ast_index_name = (case st_index_name st of Some n \<Rightarrow> n | None \<Rightarrow> []),
       ast_bin_names = st_bin_names st, ast_filter = f, ast_task_id = st_task_id st,
       ast_return_data = st_return_data st\<rparr> h w"
  by (simp add: Client_query_def connected_streams server_Query_def assms toStatement_def query_call_def
      split: prod.splits)

lemma toIndexCollectionType_default: "toIndexCollectionType 0 = Inr ICT_Default"
  by (simp add: toIndexCollectionType_def)

lemma query_with_filter:
  assumes "toQueryPolicy (sv_externs sv) (Some qp) = Inr p"
    and "sbind made (\<lambda>flt. toFilter (Some flt)) = Inr (Some af)"
  shows "\<exists>flt. made = Inr flt \<and>
    Client_query (connected sv c) qp ad (Statement_set_index_name ix (Statement_construct rng ns s (Some flt) bins)) h w =
    query_call sv c p ad
      \<lparr>ast_namespace = ns, ast_set_name = s, ast_index_name = (case ix of Some n \<Rightarrow> n | None \<Rightarrow> []),
       ast_bin_names = (case bins of Some bs \<Rightarrow> bs | None \<Rightarrow> []), ast_filter = Some af,
       ast_task_id = rng, ast_return_data = True\<rparr> h w"
  using assms(2)
  by (cases made)
    (simp_all add: query_connected [OF assms(1)] Statement_construct_def Statement_set_index_name_def)

text \<open>C22. A query, end to end, for every statement that PHP can build: with no filter or one of
  any of the seven filter constructors, with or without bins and an index name. The library
  gets the namespace, set, index name, bins (none if none are given) and task of the
  statement, and the filter on the bin, of the collection type that was asked for, over the
  values given, with the particle type of the lower one; a geographic filter arrives with the
  particle type of GeoJSON and its region, circle or point as a string. The results are the
  stream of the record set that PHP gets. The lower value has a particle type, so it is
  neither infinity nor wildcard (such a filter is not built: the constructor panics), and the
  manager can read the policy, the values and the context.\<close>
theorem query_reaches_library:
  assumes "toQueryPolicy (sv_externs sv) (Some qp) = Inr p"
    and "PHPValue_particle_type lo = Inr pt"
    and "toValue (Value_from_PHPValue lo) = Inr a" and "toValue (Value_from_PHPValue hi) = Inr b"
    and "toCDTContexts (ctx_or_empty ctx) = Inr cs"
  shows "let st = \<lambda>f. Statement_set_index_name ix (Statement_construct rng ns s f bins);
      call = \<lambda>af. query_call sv c p ad
        \<lparr>ast_namespace = ns, ast_set_name = s, ast_index_name = (case ix of Some n \<Rightarrow> n | None \<Rightarrow> []),
         ast_bin_names = (case bins of Some bs \<Rightarrow> bs | None \<Rightarrow> []), ast_filter = af,
         ast_task_id = rng, ast_return_data = True\<rparr> h w;
      asks = \<lambda>made ct t v v'. \<exists>flt. made = Inr flt \<and>
        Client_query (connected sv c) qp ad (st (Some flt)) h w =
          call (Some \<lparr>afl_name = bin, afl_collection_type = ct, afl_particle_type = t,
            afl_begin = v, afl_end = v', afl_ctx = cs\<rparr>);
      region = \<lambda>made t. asks made (cit_or_default cit) 23 (StringValue t) (StringValue t)
    in Client_query (connected sv c) qp ad (st None) h w = call None \<and>
       asks (Filter_equal bin lo ctx) ICT_Default (ucast pt) a a \<and>
       asks (Filter_range bin lo hi ctx) ICT_Default (ucast pt) a b \<and>
       asks (Filter_contains bin lo cit ctx) (cit_or_default cit) (ucast pt) a a \<and>
       asks (Filter_contains_range bin lo hi cit ctx) (cit_or_default cit) (ucast pt) a b \<and>
       region (Filter_within_region bin r cit ctx) r \<and>
       region (Filter_within_radius ff bin lat lng rad cit ctx)
         (''{ \"type\": \"AeroCircle\", \"coordinates\": [['' @ fmt_8 ff lng @ '', '' @ fmt_8 ff lat @
          ''], '' @ fmt_shortest ff rad @ ''] }'') \<and>
       region (Filter_regions_containing_point ff bin lat lng cit ctx)
         (''{\"type\":\"Point\",\"coordinates\":['' @ fmt_8 ff lng @ '','' @ fmt_8 ff lat @ '']}'')"
  unfolding Let_def
  by (intro conjI query_with_filter [OF assms(1)])
    (simp_all add: toIndexCollectionType_default filter_defs assms(2-) Value_string_def toFilter_def query_connected [OF assms(1)]
      Statement_construct_def Statement_set_index_name_def)

theorem query_reaches_library_witness:
  "\<exists>q. Client_query (connected sample_server sample_cluster) QueryPolicy_default 7
      (Statement_set_index_name None (Statement_construct 11 ''test'' ''s'' (Some q) None)) (\<lambda>_. PartitionFilter_all) [] =
    (ret (Inr \<lparr>rs_stream = Some [], rs_filter = 7\<rparr>), [],
     (\<lambda>_. PartitionFilter_all)(7 := PartitionFilter_init_partition_status PartitionFilter_all)) \<and>
    Filter_range ''age'' (PInt 18) (PInt 65) None = Inr q"
proof -
  obtain m where m: "toQueryPolicy (sv_externs sample_server) (Some QueryPolicy_default) = Inr (Some m)"
    by (simp add: sample_server_def policy_readers QueryPolicy_default_def MultiPolicy_default_def
        ReadPolicy_default_def ReadPolicy_set_total_timeout_def toFilterExpression_def deref_exp_def)
  have vs: "PHPValue_particle_type (PInt 18) = Inr 1"
    "toValue (Value_from_PHPValue (PInt 18)) = Inr (IntegerValue 18)"
    "toValue (Value_from_PHPValue (PInt 65)) = Inr (IntegerValue 65)"
    "toCDTContexts (ctx_or_empty None) = Inr []"
    by (simp_all add: toCDTContexts_def ctx_or_empty_def)
  let ?h = "\<lambda>_::nat. PartitionFilter_all"
  let ?call = "query_call sample_server sample_cluster (Some m) 7
      \<lparr>ast_namespace = ''test'', ast_set_name = ''s'', ast_index_name = [], ast_bin_names = [],
       ast_filter = Some \<lparr>afl_name = ''age'', afl_collection_type = ICT_Default, afl_particle_type = 1,
         afl_begin = IntegerValue 18, afl_end = IntegerValue 65, afl_ctx = []\<rparr>,
       ast_task_id = 11, ast_return_data = True\<rparr> ?h []"
  have "\<exists>flt. Filter_range ''age'' (PInt 18) (PInt 65) None = Inr flt \<and>
      Client_query (connected sample_server sample_cluster) QueryPolicy_default 7
        (Statement_set_index_name None (Statement_construct 11 ''test'' ''s'' (Some flt) None)) ?h [] = ?call"
    using query_reaches_library [where c = sample_cluster and ad = 7 and h = ?h and w = "[]"
        and ns = "''test''" and s = "''s''" and bins = None and rng = 11 and ix = None
        and bin = "''age''", OF m vs, unfolded Let_def]
    by simp
  moreover have "?call = (ret (Inr \<lparr>rs_stream = Some [], rs_filter = 7\<rparr>), [],
      ?h(7 := PartitionFilter_init_partition_status PartitionFilter_all))"
    by (simp add: query_call_def sample_cluster_def idle_cluster_def stream_answer_def streamed_def
        open_recordset_def)
  ultimately show ?thesis by auto
qed

end
