(* ===== verification/Batches.thy ===== *)
theory Batches
  imports End_To_End
begin

text \<open>
  Batches: from the PHP objects through the messages of the client and the records that the manager
  makes of them to the call of the Go library, and the answer back. What a command means is
  a relation; every batch of commands with a meaning reaches the library as it was meant.
\<close>

section \<open>Batches from the client to the library\<close>

text \<open>
  What a batch command means: the library call that the manager is to make for it. Values and
  operations mean what the manager reads from their messages.
\<close>

definition ops_mean :: "cdt Operation list \<Rightarrow> cdt_call aero_op list \<Rightarrow> bool" where
  "ops_mean ops reads \<longleftrightarrow> list_all2 (\<lambda>op call. toOp toCdtOp op = Inr call) ops reads"

inductive means :: "cdt batch_cmd \<Rightarrow> cdt_call aero_batch \<Rightarrow> bool" where
  read_bins: "ns \<noteq> [] \<Longrightarrow>
    means (Cmd_read (BatchRead_construct p k (Some ns))) (NewBatchRead (Some p) (Some k) (Some ns))"
| read_all: "means (Cmd_read (BatchRead_construct p k (Some []))) (NewBatchRead (Some p) (Some k) None)"
| read_header: "means (Cmd_read (BatchRead_header p k)) (NewBatchReadHeader (Some p) (Some k))"
| read_ops: "ops \<noteq> [] \<Longrightarrow> ops_mean ops reads \<Longrightarrow>
    means (Cmd_read (BatchRead_ops p k ops)) (NewBatchReadOps (Some p) (Some k) reads)"
| write_ops: "ops_mean ops reads \<Longrightarrow>
    means (Cmd_write (BatchWrite_construct wp k ops)) (NewBatchWrite (Some wp) (Some k) reads)"
| delete: "means (Cmd_delete (BatchDelete_construct dp k)) (NewBatchDelete (Some dp) (Some k))"
| udf: "list_all2 (\<lambda>v a. sent v = Inr a) args as \<Longrightarrow>
    means (Cmd_udf (BatchUdf_construct up k pkg f args)) (NewBatchUDF (Some up) (Some k) pkg f as)"

lemma ssequence_all2: "list_all2 (\<lambda>x y. f x = Inr y) xs ys \<Longrightarrow> ssequence (map f xs) = Inr ys"
  by (induction rule: list_all2_induct) simp_all

lemma means_message:
  assumes "means c a"
  shows "\<exists>m. batch_operate c = Some m \<and> toBatchRecordIfc toCdtOp m = Inr a"
  using assms
proof cases
  case (udf args as up k pkg f)
  have "ssequence (map toValue (map Value_from_PHPValue args)) = Inr as"
    using ssequence_all2 [OF udf(3)] by (simp add: sent_def [abs_def] comp_def)
  then show ?thesis using udf(1,2)
    by (simp add: toBatchRecordIfc_def BatchOperate_default_def BatchUdf_construct_def new_batch_record_def
        record_key_def)
qed (auto simp: toBatchRecordIfc_def BatchOperate_default_def BatchRead_construct_def BatchRead_header_def
    BatchRead_ops_def BatchWrite_construct_def BatchDelete_construct_def new_batch_record_def record_key_def
    toOps_def ops_mean_def ssequence_all2)

lemma means_messages:
  "list_all2 means cmds reads \<Longrightarrow>
     \<exists>msgs. map batch_operate cmds = map Some msgs \<and> ssequence (map (toBatchRecordIfc toCdtOp) msgs) = Inr reads"
proof (induction rule: list_all2_induct)
  case (Cons c cmds a reads)
  obtain msgs where "map batch_operate cmds = map Some msgs"
    "ssequence (map (toBatchRecordIfc toCdtOp) msgs) = Inr reads" using Cons.IH by blast
  moreover obtain m where "batch_operate c = Some m" "toBatchRecordIfc toCdtOp m = Inr a"
    using means_message [OF Cons.hyps(1)] by blast
  ultimately show ?case by (intro exI [of _ "m # msgs"]) simp
qed simp

lemma batch_loop_messages: "map batch_operate cmds = map Some msgs \<Longrightarrow> batch_loop cmds res = ret (res @ msgs)"
proof (induction cmds arbitrary: msgs res)
  case (Cons c cmds)
  then show ?case by (cases msgs) auto
qed simp

text \<open>What PHP sees of the library's answer to a batch: the records, or one exception and an empty list.\<close>
definition batch_report ::
  "go_server \<Rightarrow> aero_batch_record list \<times> aero_error option \<Rightarrow> (string + BatchRecord list) php" where
  "batch_report sv res =
     (case res of (brecs, err) \<Rightarrow>
        (case fromError err of
           Inl p \<Rightarrow> ret (Inl (panic_text sv p))
         | Inr e \<Rightarrow>
             (case fromBatchRecords brecs of
                Inl p \<Rightarrow> ret (Inl (panic_text sv p))
              | Inr records \<Rightarrow>
                  (case e of
                     None \<Rightarrow> ret (Inr records)
                   | Some pe \<Rightarrow> emit [AerospikeException_from_Error pe] (Inr [])))))"

lemma fromError_not_None: "err \<noteq> None \<Longrightarrow> fromError err \<noteq> Inr None"
  by (cases err; cases "the err") auto

lemma send_batch_answer:
  "send (\<lambda>_. recovered sv (answer call batch_response)) () w (\<lambda>(error, records).
     case error of None \<Rightarrow> ret (Inr records) | Some pe \<Rightarrow> throw_error pe []) =
   (case call w of (res, w') \<Rightarrow> (batch_report sv res, w'))"
  by (auto simp: send_def recovered_def answer_def batch_response_def batch_report_def throw_error_eq
      dest: fromError_not_None split: prod.splits sum.splits option.splits)

lemma toBatchRecords_means:
  assumes "ssequence (map (toBatchRecordIfc toCdtOp) msgs) = Inr reads"
    and "list_all2 (\<lambda>r b. read_arguments sv r = Inr b) reads brecs"
  shows "toBatchRecords sv msgs = Inr brecs"
  using assms
proof (induction msgs arbitrary: reads brecs)
  case (Cons m msgs)
  then show ?case
    by (auto simp: toBatchRecords_def toBatchRecord_def sbind_Inr_iff list_all2_Cons1)
qed (simp add: toBatchRecords_def)

lemma batch_connected_means:
  assumes "list_all2 means cmds reads"
    and "list_all2 (\<lambda>r b. read_arguments sv r = Inr b) reads brecs"
    and "toBatchPolicy (sv_externs sv) (Some bp) = Inr p"
  shows "Client_batch (connected sv c) bp cmds w =
    (case lib_BatchOperate c p brecs w of (res, w') \<Rightarrow> (batch_report sv res, w'))"
proof -
  obtain msgs where msgs: "map batch_operate cmds = map Some msgs"
    "ssequence (map (toBatchRecordIfc toCdtOp) msgs) = Inr reads"
    using means_messages [OF assms(1)] by blast
  have brecs: "toBatchRecords sv msgs = Inr brecs" by (rule toBatchRecords_means [OF msgs(2) assms(2)])
  have "send (rpc_batch (connected sv c)) (R_batch_operate bp msgs) w (\<lambda>(error, records).
      case error of None \<Rightarrow> ret (Inr records) | Some pe \<Rightarrow> throw_error pe []) =
    (case lib_BatchOperate c p brecs w of (res, w') \<Rightarrow> (batch_report sv res, w'))"
    by (subst send_unit) (simp add: connected_rpcs server_BatchOperate_def brecs assms(3) send_batch_answer)
  then show ?thesis
    by (auto simp: Client_batch_def batch_loop_messages [OF msgs(1)] ret_def split: prod.splits)
qed

section \<open>Properties\<close>

text \<open>A batch arrives as it was meant: if every command of a batch has a meaning for the
  manager, the client throws nothing of its own and sends one request, whatever the state of
  the service, and the manager reads its messages as the meant library calls in the order of
  the commands, with the operations of each command in their order.\<close>

lemma batch_end_to_end:
  assumes "list_all2 means cmds reads"
  shows "\<exists>msgs. ssequence (map (toBatchRecordIfc toCdtOp) msgs) = Inr reads \<and>
    (\<forall>w. Client_batch svc p cmds w =
       send (rpc_batch svc) (R_batch_operate p msgs) w (\<lambda>(error, records).
         case error of None \<Rightarrow> ret (Inr records) | Some pe \<Rightarrow> throw_error pe []))"
proof -
  obtain msgs where msgs: "map batch_operate cmds = map Some msgs"
    "ssequence (map (toBatchRecordIfc toCdtOp) msgs) = Inr reads"
    using means_messages [OF assms] by blast
  have "Client_batch svc p cmds w =
       send (rpc_batch svc) (R_batch_operate p msgs) w (\<lambda>(error, records).
         case error of None \<Rightarrow> ret (Inr records) | Some pe \<Rightarrow> throw_error pe [])" for w
    by (simp add: Client_batch_def batch_loop_messages [OF msgs(1)] ret_def split: prod.splits)
  then show ?thesis using msgs(2) by blast
qed

theorem batch_end_to_end_witness:
  "\<exists>msgs. ssequence (map (toBatchRecordIfc toCdtOp) msgs) =
     Inr [NewBatchWrite (Some BatchWritePolicy_default) (Some sample_key)
            [TouchOp, CdtOp (CdtCall ''ListPopOp'' [ABin ''b'', AInt 3, ACtx []])],
          NewBatchDelete (Some BatchDeletePolicy_default) (Some sample_key)]"
proof -
  have "toOp toCdtOp (CdtListOperation_pop ''b'' 3 None) =
      Inr (CdtOp (CdtCall ''ListPopOp'' [ABin ''b'', AInt 3, ACtx []]))"
    by (simp add: read_list_simps ctx_or_empty_def toCDTContexts_def)
  moreover have "toOp toCdtOp (Operation_touch :: cdt Operation) = Inr TouchOp"
    by (simp add: operation_defs toStdOp_def)
  ultimately have "ops_mean [Operation_touch, CdtListOperation_pop ''b'' 3 None]
      [TouchOp, CdtOp (CdtCall ''ListPopOp'' [ABin ''b'', AInt 3, ACtx []])]"
    by (simp add: ops_mean_def)
  then have "list_all2 means
      [Cmd_write (BatchWrite_construct BatchWritePolicy_default sample_key
         [Operation_touch, CdtListOperation_pop ''b'' 3 None]),
       Cmd_delete (BatchDelete_construct BatchDeletePolicy_default sample_key)]
      [NewBatchWrite (Some BatchWritePolicy_default) (Some sample_key)
         [TouchOp, CdtOp (CdtCall ''ListPopOp'' [ABin ''b'', AInt 3, ACtx []])],
       NewBatchDelete (Some BatchDeletePolicy_default) (Some sample_key)]"
    by (simp add: means.write_ops means.delete)
  from batch_end_to_end [OF this] show ?thesis by blast
qed

text \<open>C7. A batch, end to end: if every command of a batch has a meaning for the manager and the
  manager can read the policies and keys, the client makes one library call with the records
  that were meant, in the order of the commands, and PHP sees the library's answer: the
  records, or the text of a failed status when an answer cannot be written, or, when the
  library reports an error, one exception and an empty list without the records that the
  manager sent.\<close>

theorem batch_reaches_library:
  assumes "list_all2 means cmds reads"
    and "list_all2 (\<lambda>r b. read_arguments sv r = Inr b) reads brecs"
    and "toBatchPolicy (sv_externs sv) (Some bp) = Inr p"
  shows "Client_batch (connected sv c) bp cmds w =
    (case lib_BatchOperate c p brecs w of (res, w') \<Rightarrow> (batch_report sv res, w'))"
  by (rule batch_connected_means [OF assms])


theorem batch_reaches_library_witness:
  "let k = Key_construct ''test'' ''s'' (PInt 1);
       c = sample_cluster\<lparr>lib_BatchOperate := (\<lambda>_ bs w.
             ((map (\<lambda>b. \<lparr>abr_key = None, abr_record = None, abr_err = None, abr_in_doubt = False\<rparr>) bs, Some (AerospikeError 11 False)), w))\<rparr>
   in Client_batch (connected sample_server c) BatchPolicy_default
       [Cmd_write (BatchWrite_construct BatchWritePolicy_default k [Operation_touch]),
        Cmd_delete (BatchDelete_construct BatchDeletePolicy_default k)] [] =
     (emit [AerospikeException_from_Error \<lparr>result_code = 11, pe_in_doubt = False\<rparr>] (Inr []), [])"
proof -
  let ?k = "Key_construct ''test'' ''s'' (PInt 1)"
  let ?c = "sample_cluster\<lparr>lib_BatchOperate := (\<lambda>_ bs w.
    ((map (\<lambda>b. \<lparr>abr_key = None, abr_record = None, abr_err = None, abr_in_doubt = False\<rparr>) bs, Some (AerospikeError 11 False)), w))\<rparr>"
  let ?reads = "[NewBatchWrite (Some BatchWritePolicy_default) (Some ?k) [TouchOp],
    NewBatchDelete (Some BatchDeletePolicy_default) (Some ?k)] :: cdt_call aero_batch list"
  have "ops_mean [Operation_touch] [TouchOp]"
    by (simp add: ops_mean_def operation_defs toStdOp_def)
  then have means: "list_all2 means
      [Cmd_write (BatchWrite_construct BatchWritePolicy_default ?k [Operation_touch]),
       Cmd_delete (BatchDelete_construct BatchDeletePolicy_default ?k)] ?reads"
    by (simp add: means.write_ops means.delete)
  obtain key where key: "toKey sample_library (Some ?k) = Inr (Some key)"
    using sample_key_read by blast
  obtain b1 b2 where read: "read_arguments sample_server (?reads ! 0) = Inr b1"
    "read_arguments sample_server (?reads ! 1) = Inr b2"
    by (simp add: key sample_server_def BatchWritePolicy_default_def BatchDeletePolicy_default_def
        toBatchWritePolicy_def toBatchDeletePolicy_def toFilterExpression_def deref_exp_def)
  then have brecs: "list_all2 (\<lambda>r b. read_arguments sample_server r = Inr b) ?reads [b1, b2]" by simp
  obtain p where "toBatchPolicy (sv_externs sample_server) (Some BatchPolicy_default) = Inr p"
    by (simp add: sample_server_def policy_readers BatchPolicy_default_def proto_ReadPolicy_default_def
        ReadPolicy_default_def toFilterExpression_def deref_exp_def)
  from batch_reaches_library [OF means brecs this, of ?c "[]"]
  show ?thesis by (simp add: Let_def batch_report_def fromBatchRecords_def fromBatchRecord_def fromKey_def
      fromError2_def)
qed

end
