(* ===== verification/Sessions.thy ===== *)
theory Sessions
  imports Batches "HOL-Library.AList"
begin

text \<open>
  Sessions of commands. A client whose manager is connected to a cluster that keeps its
  records is a store of records: any sequence of puts, gets, batches of reads, deletes and questions
  for existence gives PHP the answers of an abstract map from keys to bins.
\<close>

section \<open>The abstract store\<close>

datatype kv_command =
    PutBins Key "(string \<times> PHPValue) list"
  | GetRecord Key "string list option"
  | BatchGet "Key list"
  | DeleteRecord Key
  | RecordExists Key

text \<open>What PHP observes of a command.\<close>
datatype kv_result =
    Stored
  | Missing
  | Found "string \<rightharpoonup> PHPValue"
  | FoundAll "(string \<rightharpoonup> PHPValue) option list"
  | Answer bool
  | Failed

type_synonym store = "aero_key \<rightharpoonup> (string \<rightharpoonup> PHPValue)"

definition bins_of :: "(string \<rightharpoonup> 'a) option \<Rightarrow> string \<rightharpoonup> 'a" where
  "bins_of r = (case r of None \<Rightarrow> Map.empty | Some m \<Rightarrow> m)"

text \<open>The bins of a record after a put, with the form in which a value is kept.\<close>
fun bins_after :: "('a \<Rightarrow> 'b) \<Rightarrow> (string \<rightharpoonup> 'b) \<Rightarrow> (string \<times> 'a) list \<Rightarrow> string \<rightharpoonup> 'b" where
  "bins_after f m [] = m"
| "bins_after f m ((n, v) # bs) = bins_after f (m(n \<mapsto> f v)) bs"

text \<open>The bins of a record that were asked for: those of the list, or all when it is empty.\<close>
definition selected :: "string list \<Rightarrow> (string \<rightharpoonup> 'a) \<Rightarrow> string \<rightharpoonup> 'a" where
  "selected ns m = (if ns = [] then m else m |` set ns)"

definition names_of :: "string list option \<Rightarrow> string list" where
  "names_of bins = (case bins of None \<Rightarrow> [] | Some ns \<Rightarrow> ns)"

text \<open>
  The commands on the store: a put adds its bins to those of the record, with integers in
  their signed form; a batch of reads looks up every key; a delete answers true whether there
  was a record or not.
\<close>
fun spec_command :: "(Key \<Rightarrow> aero_key) \<Rightarrow> kv_command \<Rightarrow> store \<Rightarrow> kv_result \<times> store" where
  "spec_command ident (PutBins k bs) s =
     (Stored, s(ident k \<mapsto> bins_after wire_form (bins_of (s (ident k))) bs))"
| "spec_command ident (GetRecord k bins) s =
     (case s (ident k) of None \<Rightarrow> Missing | Some m \<Rightarrow> Found (selected (names_of bins) m), s)"
| "spec_command ident (BatchGet ks) s = (FoundAll (map (\<lambda>k. s (ident k)) ks), s)"
| "spec_command ident (DeleteRecord k) s = (Answer True, s(ident k := None))"
| "spec_command ident (RecordExists k) s = (Answer (s (ident k) \<noteq> None), s)"

fun spec_session :: "(Key \<Rightarrow> aero_key) \<Rightarrow> kv_command list \<Rightarrow> store \<Rightarrow> kv_result list \<times> store" where
  "spec_session ident [] s = ([], s)"
| "spec_session ident (c # cs) s =
     (case spec_command ident c s of (r, s') \<Rightarrow>
      case spec_session ident cs s' of (rs, s'') \<Rightarrow> (r # rs, s''))"

section \<open>The commands of the client\<close>

definition observe_flag :: "(string + bool) php \<Rightarrow> kv_result" where
  "observe_flag r = (case r of ([], Inr (Inr b)) \<Rightarrow> Answer b | _ \<Rightarrow> Failed)"

text \<open>The bins that PHP reads of a record.\<close>
definition record_bins :: "externs \<Rightarrow> Record \<Rightarrow> string \<rightharpoonup> PHPValue" where
  "record_bins x rc n = (case Record_bin x rc n of ([], Inr v) \<Rightarrow> v | _ \<Rightarrow> None)"

definition observe_record :: "externs \<Rightarrow> (string + Record option) php \<Rightarrow> kv_result" where
  "observe_record x r =
     (case r of
        ([], Inr (Inr None)) \<Rightarrow> Missing
      | ([], Inr (Inr (Some rc))) \<Rightarrow> Found (record_bins x rc)
      | _ \<Rightarrow> Failed)"

definition observe_batch :: "externs \<Rightarrow> (string + BatchRecord list) php \<Rightarrow> kv_result" where
  "observe_batch x r =
     (case r of
        ([], Inr (Inr brs)) \<Rightarrow> FoundAll (map (\<lambda>b. map_option (record_bins x) (BatchRecord_get_record b)) brs)
      | _ \<Rightarrow> Failed)"

text \<open>The policies of a client.\<close>
record session_policies =
  sp_write :: WritePolicy
  sp_read :: ReadPolicy
  sp_batch :: BatchPolicy
  sp_batch_read :: BatchReadPolicy

fun run_command ::
  "externs \<Rightarrow> (cdt, 'w) service \<Rightarrow> session_policies \<Rightarrow> kv_command \<Rightarrow> 'w \<Rightarrow> kv_result \<times> 'w" where
  "run_command x svc sp (PutBins k bs) w =
     (case Client_put svc (sp_write sp) k (map (\<lambda>(n, v). \<lparr>bin_name = n, bin_value = Some (Value_from_PHPValue v)\<rparr>) bs) w of
        (r, w') \<Rightarrow> (if r = ret (Inr ()) then Stored else Failed, w'))"
| "run_command x svc sp (GetRecord k bins) w =
     (case Client_get svc (sp_read sp) k bins w of (r, w') \<Rightarrow> (observe_record x r, w'))"
| "run_command x svc sp (BatchGet ks) w =
     (case Client_batch svc (sp_batch sp) (map (\<lambda>k. Cmd_read (BatchRead_construct (sp_batch_read sp) k (Some []))) ks) w of
        (r, w') \<Rightarrow> (observe_batch x r, w'))"
| "run_command x svc sp (DeleteRecord k) w =
     (case Client_delete svc (sp_write sp) k w of (r, w') \<Rightarrow> (observe_flag r, w'))"
| "run_command x svc sp (RecordExists k) w =
     (case Client_exists svc (sp_read sp) k w of (r, w') \<Rightarrow> (observe_flag r, w'))"

fun run_session ::
  "externs \<Rightarrow> (cdt, 'w) service \<Rightarrow> session_policies \<Rightarrow> kv_command list \<Rightarrow> 'w \<Rightarrow> kv_result list \<times> 'w" where
  "run_session x svc sp [] w = ([], w)"
| "run_session x svc sp (c # cs) w =
     (case run_command x svc sp c w of (r, w') \<Rightarrow>
      case run_session x svc sp cs w' of (rs, w'') \<Rightarrow> (r # rs, w''))"

section \<open>A cluster that keeps its records\<close>

text \<open>The policies as the library gets them.\<close>
record library_policies =
  lp_write :: "aero_WritePolicy option"
  lp_read :: "aero_BasePolicy option"
  lp_batch :: "aero_BatchPolicy option"
  lp_batch_read :: "aero_BatchReadPolicy option"

definition reads_policies :: "go_server \<Rightarrow> session_policies \<Rightarrow> library_policies \<Rightarrow> bool" where
  "reads_policies sv sp lp \<longleftrightarrow>
     toWritePolicy (sv_externs sv) (Some (sp_write sp)) = Inr (lp_write lp) \<and>
     toReadPolicy (sv_externs sv) (Some (sp_read sp)) = Inr (lp_read lp) \<and>
     toBatchPolicy (sv_externs sv) (Some (sp_batch sp)) = Inr (lp_batch lp) \<and>
     toBatchReadPolicy (sv_externs sv) (Some (sp_batch_read sp)) = Inr (lp_batch_read lp)"

text \<open>A record of the library with the given bins, whose key can be sent.\<close>
definition holds :: "aero_record \<Rightarrow> (string \<rightharpoonup> go_any) \<Rightarrow> bool" where
  "holds r m \<longleftrightarrow> map_of (arec_bins r) = m \<and> distinct (map fst (arec_bins r)) \<and> (\<exists>k'. fromKey (arec_key r) = Inr k')"

text \<open>The record that a batch of reads answers a key with.\<close>
definition batch_answer :: "(string \<rightharpoonup> go_any) option \<Rightarrow> aero_batch_record \<Rightarrow> bool" where
  "batch_answer mo br \<longleftrightarrow>
     (\<exists>k'. fromKey (abr_key br) = Inr k') \<and>
     (case mo of
        None \<Rightarrow> abr_record br = None \<and> abr_err br = Some (AerospikeError 2 False)
      | Some m \<Rightarrow> abr_err br = None \<and> (\<exists>r. abr_record br = Some r \<and> holds r m))"

text \<open>
  What the library documents of a cluster that can be reached, for the policies of the session:
  \<open>contents w\<close> are the records of the cluster. A put of bins that are not null adds them to the
  record; a get answers with the bins of the record that were asked for, or with the error
  \<^verbatim>\<open>KEY_NOT_FOUND\<close>; a batch of reads answers each key in order; delete and exists answer whether
  there was a record. It is the cluster of the abstract store: no call is refused (a real one
  refuses, for example, names of bins that are too long), and records are told apart by the
  whole library key.
\<close>
definition keeps_records ::
  "'w aero_client \<Rightarrow> library_policies \<Rightarrow> ('w \<Rightarrow> aero_key \<rightharpoonup> (string \<rightharpoonup> go_any)) \<Rightarrow> bool" where
  "keeps_records c lp contents \<longleftrightarrow>
     (\<forall>k bs w. bs \<noteq> [] \<and> NullValue \<notin> snd ` set bs \<longrightarrow>
        (\<exists>w'. lib_PutBins c (lp_write lp) (Some k) bs w = (None, w') \<and>
           contents w' = (contents w)
             (k \<mapsto> bins_after got (bins_of (contents w k)) bs))) \<and>
     (\<forall>k ns w. \<exists>w'. contents w' = contents w \<and>
        (case contents w k of
           None \<Rightarrow> lib_Get c (lp_read lp) (Some k) ns w = ((None, Some (AerospikeError 2 False)), w')
         | Some m \<Rightarrow> \<exists>r. lib_Get c (lp_read lp) (Some k) ns w = ((Some r, None), w') \<and> holds r (selected ns m))) \<and>
     (\<forall>ks w. \<exists>w' brs. contents w' = contents w \<and>
        lib_BatchOperate c (lp_batch lp) (map (\<lambda>k. LibBatchRead (lp_batch_read lp) (Some k) None) ks) w = ((brs, None), w') \<and>
        list_all2 (\<lambda>k br. batch_answer (contents w k) br) ks brs) \<and>
     (\<forall>k w. \<exists>w'. lib_Delete c (lp_write lp) (Some k) w = ((contents w k \<noteq> None, None), w') \<and>
        contents w' = (contents w)(k := None)) \<and>
     (\<forall>k w. \<exists>w'. lib_Exists c (lp_read lp) (Some k) w = ((contents w k \<noteq> None, None), w') \<and>
        contents w' = contents w)"

text \<open>The library key of a key that the manager can read.\<close>
definition record_of :: "go_server \<Rightarrow> Key \<Rightarrow> aero_key option" where
  "record_of sv k = (case toKey (sv_library sv) (Some k) of Inr ko \<Rightarrow> ko | Inl _ \<Rightarrow> None)"

fun well_formed :: "go_server \<Rightarrow> kv_command \<Rightarrow> bool" where
  "well_formed sv (PutBins k bs) =
     (record_of sv k \<noteq> None \<and> bs \<noteq> [] \<and> list_all (\<lambda>(n, v). storable v \<and> v \<noteq> PNil) bs)"
| "well_formed sv (GetRecord k bins) = (record_of sv k \<noteq> None)"
| "well_formed sv (BatchGet ks) = list_all (\<lambda>k. record_of sv k \<noteq> None) ks"
| "well_formed sv (DeleteRecord k) = (record_of sv k \<noteq> None)"
| "well_formed sv (RecordExists k) = (record_of sv k \<noteq> None)"

text \<open>The store shows the contents of the cluster, all of which can be sent.\<close>
definition displays :: "externs \<Rightarrow> (aero_key \<rightharpoonup> (string \<rightharpoonup> go_any)) \<Rightarrow> store \<Rightarrow> bool" where
  "displays x contents s \<longleftrightarrow>
     s = (\<lambda>k. map_option (\<lambda>m n. map_option php_value_of (m n)) (contents k)) \<and>
     (\<forall>k m n g. contents k = Some m \<and> m n = Some g \<longrightarrow> sendable g \<and> wire_stable x (php_value_of g))"

section \<open>Each command\<close>

lemma record_of_Some: "record_of sv k = Some key \<longleftrightarrow> toKey (sv_library sv) (Some k) = Inr (Some key)"
  by (auto simp: record_of_def split: sum.splits)

definition stores :: "externs \<Rightarrow> string \<times> PHPValue \<Rightarrow> string \<times> aero_value \<Rightarrow> bool" where
  "stores x b a \<longleftrightarrow> fst a = fst b \<and> php_value_of (got (snd a)) = wire_form (snd b) \<and> sendable (got (snd a)) \<and>
     wire_stable x (wire_form (snd b)) \<and> snd a \<noteq> NullValue"

lemma toBins_storable:
  "list_all (\<lambda>(n, v). storable v \<and> v \<noteq> PNil) bs \<Longrightarrow>
    \<exists>as. toBins (map (\<lambda>(n, v). \<lparr>bin_name = n, bin_value = Some (Value_from_PHPValue v)\<rparr>) bs) = Inr as \<and> list_all2 (stores x) bs as"
proof (induction bs)
  case (Cons b bs)
  obtain n v where b: "b = (n, v)" by (cases b)
  obtain a where a: "toValue (Value_from_PHPValue v) = Inr a" "stores x (n, v) (n, a)"
    using storable_got [of v x] Cons.prems by (auto simp: b stores_def)
  obtain as where "toBins (map (\<lambda>(n, v). \<lparr>bin_name = n, bin_value = Some (Value_from_PHPValue v)\<rparr>) bs) = Inr as" "list_all2 (stores x) bs as"
    using Cons by auto
  then show ?case using a by (intro exI [of _ "(n, a) # as"]) (simp add: toBins_def b)
qed (simp add: toBins_def)

lemma stores_not_null: "list_all2 (stores x) bs as \<Longrightarrow> NullValue \<notin> snd ` set as"
  by (induction rule: list_all2_induct) (auto simp: stores_def)

lemma stores_bins:
  "list_all2 (stores x) bs as \<Longrightarrow>
    (\<lambda>n. map_option php_value_of (bins_after got m as n)) =
      bins_after wire_form (\<lambda>n. map_option php_value_of (m n)) bs"
proof (induction arbitrary: m rule: list_all2_induct)
  case (Cons b bs a as)
  obtain n v y where ba: "b = (n, v)" "a = (n, y)" "php_value_of (got y) = wire_form v"
    using Cons.hyps(1) by (cases b, cases a) (auto simp: stores_def)
  have "(\<lambda>i. map_option php_value_of ((m(n \<mapsto> got y)) i)) =
      (\<lambda>i. map_option php_value_of (m i))(n \<mapsto> wire_form v)"
    using ba by auto
  then show ?case using Cons.IH [of "m(n \<mapsto> got y)"] by (simp only: ba bins_after.simps)
qed simp

lemma stores_sendable:
  "list_all2 (stores x) bs as \<Longrightarrow> \<forall>n g. m n = Some g \<longrightarrow> sendable g \<and> wire_stable x (php_value_of g) \<Longrightarrow>
    bins_after got m as n = Some g \<Longrightarrow> sendable g \<and> wire_stable x (php_value_of g)"
proof (induction arbitrary: m rule: list_all2_induct)
  case (Cons b bs a as)
  obtain i y where a: "a = (i, y)" by (cases a)
  have "\<forall>n g. (m(i \<mapsto> got y)) n = Some g \<longrightarrow> sendable g \<and> wire_stable x (php_value_of g)"
    using Cons.hyps(1) Cons.prems(1) by (auto simp: stores_def a)
  then show ?case using Cons.IH [of "m(i \<mapsto> got y)"] Cons.prems(2) by (simp only: a bins_after.simps)
qed simp

lemma record_arrives:
  assumes "holds r m" and "\<forall>n g. m n = Some g \<longrightarrow> sendable g \<and> wire_stable x (php_value_of g)"
  shows "\<exists>rc. fromRecord (Some r) = Inr (Some rc) \<and> record_bins x rc = (\<lambda>n. map_option php_value_of (m n))"
proof -
  obtain k' where r: "map_of (arec_bins r) = m" "distinct (map fst (arec_bins r))" "fromKey (arec_key r) = Inr k'"
    using assms(1) by (auto simp: holds_def)
  have sendable: "sendable v \<and> wire_stable x (php_value_of v)" if "(n, v) \<in> set (arec_bins r)" for n v
    using that r(1) assms(2) map_of_is_SomeI [OF r(2) that] by simp
  obtain ps where ps: "fromBins (arec_bins r) = Inr ps" "map fst ps = map fst (arec_bins r)"
    using fromBins_sendable [of "arec_bins r" x] sendable by blast
  then obtain rc where rc: "fromRecord (Some r) = Inr (Some rc)" "rec_bins rc = ps"
    using r(3) by (auto simp: fromRecord_def)
  have "Record_bin x rc n = ret (map_option php_value_of (m n))" for n
  proof (cases "m n")
    case None
    then have "map_of ps n = None"
      using ps(2) r(1) by (metis list.set_map map_of_eq_None_iff)
    then show ?thesis by (simp add: Record_bin_def hm_get_eq_map_of rc(2) None)
  next
    case (Some g)
    then show ?thesis using fromRecord_bin [OF rc(1)] r(1) assms(2) by simp
  qed
  then show ?thesis using rc(1) by (auto simp: record_bins_def ret_def)
qed

lemma displays_bins:
  "displays x C s \<Longrightarrow> C k = Some m \<Longrightarrow> \<forall>n g. m n = Some g \<longrightarrow> sendable g \<and> wire_stable x (php_value_of g)"
  by (auto simp: displays_def)

lemma displays_delete: "displays x C s \<Longrightarrow> displays x (C(k := None)) (s(k := None))"
  by (auto simp: displays_def fun_eq_iff)

lemma displays_bins_of:
  "displays x C s \<Longrightarrow> (\<lambda>n. map_option php_value_of (bins_of (C k) n)) = bins_of (s k) \<and>
    (\<forall>n g. bins_of (C k) n = Some g \<longrightarrow> sendable g \<and> wire_stable x (php_value_of g))"
  by (auto simp: displays_def bins_of_def split: option.splits)

lemma displays_put:
  assumes "displays x C s" and "list_all2 (stores x) bs as"
  shows "displays x (C(k \<mapsto> bins_after got (bins_of (C k)) as)) (s(k \<mapsto> bins_after wire_form (bins_of (s k)) bs))"
    (is "displays x ?C ?s")
proof -
  have "(\<lambda>n. map_option php_value_of (bins_after got (bins_of (C k)) as n)) = bins_after wire_form (bins_of (s k)) bs"
    using stores_bins [OF assms(2), of "bins_of (C k)"] displays_bins_of [OF assms(1), of k] by simp
  then have "?s = (\<lambda>i. map_option (\<lambda>m n. map_option php_value_of (m n)) (?C i))"
    using assms(1) by (simp add: displays_def fun_eq_iff)
  moreover have "sendable g \<and> wire_stable x (php_value_of g)" if "?C i = Some m" "m n = Some g" for i m n g
  proof (cases "i = k")
    case True
    then have "bins_after got (bins_of (C k)) as n = Some g" using that by simp
    then show ?thesis using stores_sendable [OF assms(2)] displays_bins_of [OF assms(1), of k] by blast
  next
    case False
    then show ?thesis using that displays_bins [OF assms(1), of i m] by simp
  qed
  ultimately show ?thesis by (simp only: displays_def) blast
qed

text \<open>The commands of a session that is connected to such a cluster, one at a time.\<close>
definition simulates where
  "simulates x sv c sp contents cmd \<longleftrightarrow>
     (\<forall>w s. displays x (contents w) s \<longrightarrow>
        (\<exists>w'. run_command x (connected sv c) sp cmd w =
            (fst (spec_command (\<lambda>k. the (record_of sv k)) cmd s), w') \<and>
          displays x (contents w') (snd (spec_command (\<lambda>k. the (record_of sv k)) cmd s))))"

lemma simulatesI:
  assumes "\<And>w s. displays x (contents w) s \<Longrightarrow>
    \<exists>w'. run_command x (connected sv c) sp cmd w = (fst (spec_command (\<lambda>k. the (record_of sv k)) cmd s), w') \<and>
      displays x (contents w') (snd (spec_command (\<lambda>k. the (record_of sv k)) cmd s))"
  shows "simulates x sv c sp contents cmd"
  using assms by (simp add: simulates_def)

lemma put_simulates:
  assumes "reads_policies sv sp lp" and "keeps_records c lp contents" and "well_formed sv (PutBins k bs)"
  shows "simulates x sv c sp contents (PutBins k bs)"
proof (rule simulatesI)
  fix w s assume d: "displays x (contents w) s"
  have p: "toWritePolicy (sv_externs sv) (Some (sp_write sp)) = Inr (lp_write lp)"
    using assms(1) by (simp add: reads_policies_def)
  obtain key where key: "record_of sv k = Some key" using assms(3) by auto
  obtain as where as: "toBins (map (\<lambda>(n, v). \<lparr>bin_name = n, bin_value = Some (Value_from_PHPValue v)\<rparr>) bs) = Inr as"
      "list_all2 (stores x) bs as"
    using toBins_storable assms(3) by fastforce
  have "as \<noteq> []" "NullValue \<notin> snd ` set as"
    using as(2) assms(3) stores_not_null by auto
  then obtain w' where "lib_PutBins c (lp_write lp) (Some key) as w = (None, w')"
      "contents w' = (contents w)(key \<mapsto> bins_after got (bins_of (contents w key)) as)"
    using assms(2) unfolding keeps_records_def by blast
  then show "\<exists>w'. run_command x (connected sv c) sp (PutBins k bs) w =
      (fst (spec_command (\<lambda>k. the (record_of sv k)) (PutBins k bs) s), w') \<and>
      displays x (contents w') (snd (spec_command (\<lambda>k. the (record_of sv k)) (PutBins k bs) s))"
    using put_connected [OF p key [unfolded record_of_Some] as(1), of c w] displays_put [OF d as(2), of key] key
    by (intro exI [of _ w']) (simp add: write_report_def library_report_def)
qed

lemma get_bins_connected:
  assumes "toReadPolicy (sv_externs sv) (Some rp) = Inr p" and "toKey (sv_library sv) (Some k) = Inr key"
  shows "Client_get (connected sv c) rp k bins w =
    (case lib_Get c p key (names_of bins) w of (res, w') \<Rightarrow> (read_report sv res, w'))"
  unfolding Client_get_def
  by (subst send_unit) (auto simp: connected_rpcs read_handlers assms send_single_answer names_of_def split: option.splits)

lemma selected_bins:
  "(\<lambda>n. map_option php_value_of (selected ns m n)) = selected ns (\<lambda>n. map_option php_value_of (m n))"
  "\<forall>n g. m n = Some g \<longrightarrow> P g \<Longrightarrow> \<forall>n g. selected ns m n = Some g \<longrightarrow> P g"
  by (auto simp: selected_def restrict_map_def)

lemma get_simulates:
  assumes "reads_policies sv sp lp" and "keeps_records c lp contents" and "well_formed sv (GetRecord k bins)"
  shows "simulates x sv c sp contents (GetRecord k bins)"
proof (rule simulatesI)
  fix w s assume d: "displays x (contents w) s"
  have q: "toReadPolicy (sv_externs sv) (Some (sp_read sp)) = Inr (lp_read lp)"
    using assms(1) by (simp add: reads_policies_def)
  obtain key where key: "record_of sv k = Some key" using assms(3) by auto
  note run = get_bins_connected [OF q key [unfolded record_of_Some], of c bins w]
  obtain w' where w': "contents w' = contents w" and
    lib: "case contents w key of
           None \<Rightarrow> lib_Get c (lp_read lp) (Some key) (names_of bins) w = ((None, Some (AerospikeError 2 False)), w')
         | Some m \<Rightarrow> \<exists>r. lib_Get c (lp_read lp) (Some key) (names_of bins) w = ((Some r, None), w') \<and>
             holds r (selected (names_of bins) m)"
    using assms(2) unfolding keeps_records_def by blast
  have s: "s key = map_option (\<lambda>m n. map_option php_value_of (m n)) (contents w key)"
    using d by (simp add: displays_def)
  have "run_command x (connected sv c) sp (GetRecord k bins) w =
      (fst (spec_command (\<lambda>k. the (record_of sv k)) (GetRecord k bins) s), w')"
  proof (cases "contents w key")
    case None
    then show ?thesis using lib key
      by (simp add: run s read_report_def KEY_NOT_FOUND_ERROR_def observe_record_def ret_def)
  next
    case (Some m)
    then obtain r where r: "lib_Get c (lp_read lp) (Some key) (names_of bins) w = ((Some r, None), w')"
      "holds r (selected (names_of bins) m)" using lib by auto
    obtain rc where "fromRecord (Some r) = Inr (Some rc)"
        "record_bins x rc = (\<lambda>n. map_option php_value_of (selected (names_of bins) m n))"
      using record_arrives [OF r(2) selected_bins(2) [OF displays_bins [OF d Some]]] by blast
    then show ?thesis using key
      by (simp add: run s Some r(1) read_report_def observe_record_def ret_def selected_bins(1))
  qed
  then show "\<exists>w'. run_command x (connected sv c) sp (GetRecord k bins) w =
      (fst (spec_command (\<lambda>k. the (record_of sv k)) (GetRecord k bins) s), w') \<and>
      displays x (contents w') (snd (spec_command (\<lambda>k. the (record_of sv k)) (GetRecord k bins) s))"
    using d w' by (intro exI [of _ w']) simp
qed

lemma batch_record_arrives:
  assumes "batch_answer mo br" and "\<forall>m n g. mo = Some m \<and> m n = Some g \<longrightarrow> sendable g \<and> wire_stable x (php_value_of g)"
  shows "\<exists>b. fromBatchRecord br = Inr b \<and>
    map_option (record_bins x) (BatchRecord_get_record b) = map_option (\<lambda>m n. map_option php_value_of (m n)) mo"
proof (cases mo)
  case None
  then show ?thesis using assms(1)
    by (auto simp: batch_answer_def fromBatchRecord_def fromError2_def BatchRecord_get_record_def)
next
  case (Some m)
  then obtain r k' where r: "abr_record br = Some r" "holds r m" "abr_err br = None" "fromKey (abr_key br) = Inr k'"
    using assms(1) by (auto simp: batch_answer_def)
  obtain rc where "fromRecord (Some r) = Inr (Some rc)" "record_bins x rc = (\<lambda>n. map_option php_value_of (m n))"
    using record_arrives [OF r(2)] assms(2) Some by blast
  then show ?thesis using r Some
    by (auto simp: fromBatchRecord_def fromError2_def BatchRecord_get_record_def)
qed

lemma batch_records_arrive:
  "list_all2 (\<lambda>k br. batch_answer (C k) br) ks brs \<Longrightarrow> displays x C s \<Longrightarrow>
    \<exists>bs. fromBatchRecords brs = Inr bs \<and> map (\<lambda>b. map_option (record_bins x) (BatchRecord_get_record b)) bs = map s ks"
proof (induction rule: list_all2_induct)
  case (Cons k ks br brs)
  obtain bs where bs: "ssequence (map fromBatchRecord brs) = Inr bs"
      "map (\<lambda>b. map_option (record_bins x) (BatchRecord_get_record b)) bs = map s ks"
    using Cons by (auto simp: fromBatchRecords_def)
  obtain b where "fromBatchRecord br = Inr b"
      "map_option (record_bins x) (BatchRecord_get_record b) = map_option (\<lambda>m n. map_option php_value_of (m n)) (C k)"
    using batch_record_arrives [OF Cons.hyps(1)] displays_bins [OF Cons.prems] by metis
  then show ?case using bs Cons.prems
    by (intro exI [of _ "b # bs"]) (simp add: fromBatchRecords_def displays_def)
qed (simp add: fromBatchRecords_def)

lemma batch_connected:
  assumes "reads_policies sv sp lp" and "list_all2 (\<lambda>k key. record_of sv k = Some key) ks keys"
  shows "Client_batch (connected sv c) (sp_batch sp)
      (map (\<lambda>k. Cmd_read (BatchRead_construct (sp_batch_read sp) k (Some []))) ks) w =
    (case lib_BatchOperate c (lp_batch lp) (map (\<lambda>key. LibBatchRead (lp_batch_read lp) (Some key) None) keys) w of
       (res, w') \<Rightarrow> (batch_report sv res, w'))"
proof (rule batch_connected_means)
  let ?reads = "map (\<lambda>k. NewBatchRead (Some (sp_batch_read sp)) (Some k) None) ks"
  show "list_all2 means (map (\<lambda>k. Cmd_read (BatchRead_construct (sp_batch_read sp) k (Some []))) ks) ?reads"
    by (simp add: list_all2_conv_all_nth means.read_all)
  show "list_all2 (\<lambda>r b. read_arguments sv r = Inr b) ?reads
      (map (\<lambda>key. LibBatchRead (lp_batch_read lp) (Some key) None) keys)"
    using assms by (auto simp: list_all2_conv_all_nth reads_policies_def record_of_Some)
  show "toBatchPolicy (sv_externs sv) (Some (sp_batch sp)) = Inr (lp_batch lp)"
    using assms(1) by (simp add: reads_policies_def)
qed

lemma batch_simulates:
  assumes "reads_policies sv sp lp" and "keeps_records c lp contents" and "well_formed sv (BatchGet ks)"
  shows "simulates x sv c sp contents (BatchGet ks)"
proof (rule simulatesI)
  fix w s assume d: "displays x (contents w) s"
  let ?keys = "map (\<lambda>k. the (record_of sv k)) ks"
  have keys: "list_all2 (\<lambda>k key. record_of sv k = Some key) ks ?keys"
    using assms(3) by (auto simp: list_all2_conv_all_nth list_all_length)
  obtain w' brs where lib: "contents w' = contents w"
      "lib_BatchOperate c (lp_batch lp) (map (\<lambda>k. LibBatchRead (lp_batch_read lp) (Some k) None) ?keys) w = ((brs, None), w')"
      "list_all2 (\<lambda>k br. batch_answer (contents w k) br) ?keys brs"
    using assms(2) unfolding keeps_records_def by blast
  obtain bs where "fromBatchRecords brs = Inr bs"
      "map (\<lambda>b. map_option (record_bins x) (BatchRecord_get_record b)) bs = map s ?keys"
    using batch_records_arrive [OF lib(3) d] by blast
  moreover from this(1) have "Client_batch (connected sv c) (sp_batch sp)
      (map (\<lambda>k. Cmd_read (BatchRead_construct (sp_batch_read sp) k (Some []))) ks) w = (ret (Inr bs), w')"
    unfolding batch_connected [OF assms(1) keys] lib(2) by (simp add: batch_report_def)
  ultimately show "\<exists>w'. run_command x (connected sv c) sp (BatchGet ks) w =
      (fst (spec_command (\<lambda>k. the (record_of sv k)) (BatchGet ks) s), w') \<and>
      displays x (contents w') (snd (spec_command (\<lambda>k. the (record_of sv k)) (BatchGet ks) s))"
    using d lib(1) by (intro exI [of _ w']) (simp add: observe_batch_def ret_def comp_def)
qed

lemma delete_simulates:
  assumes "reads_policies sv sp lp" and "keeps_records c lp contents" and "well_formed sv (DeleteRecord k)"
  shows "simulates x sv c sp contents (DeleteRecord k)"
proof (rule simulatesI)
  fix w s assume d: "displays x (contents w) s"
  obtain key where key: "record_of sv k = Some key" using assms(3) by auto
  obtain w' where "lib_Delete c (lp_write lp) (Some key) w = ((contents w key \<noteq> None, None), w')"
      "contents w' = (contents w)(key := None)"
    using assms(2) unfolding keeps_records_def by blast
  then show "\<exists>w'. run_command x (connected sv c) sp (DeleteRecord k) w =
      (fst (spec_command (\<lambda>k. the (record_of sv k)) (DeleteRecord k) s), w') \<and>
      displays x (contents w') (snd (spec_command (\<lambda>k. the (record_of sv k)) (DeleteRecord k) s))"
    using assms(1) key [unfolded record_of_Some] displays_delete [OF d] key
    by (simp add: reads_policies_def Client_delete_def send_def connected_rpcs server_Delete_def answer_def
        recovered_def flag_response_def observe_flag_def ret_def)
qed

lemma exists_simulates:
  assumes "reads_policies sv sp lp" and "keeps_records c lp contents" and "well_formed sv (RecordExists k)"
  shows "simulates x sv c sp contents (RecordExists k)"
proof (rule simulatesI)
  fix w s assume d: "displays x (contents w) s"
  obtain key where key: "record_of sv k = Some key" using assms(3) by auto
  obtain w' where "lib_Exists c (lp_read lp) (Some key) w = ((contents w key \<noteq> None, None), w')"
      "contents w' = contents w"
    using assms(2) unfolding keeps_records_def by blast
  then show "\<exists>w'. run_command x (connected sv c) sp (RecordExists k) w =
      (fst (spec_command (\<lambda>k. the (record_of sv k)) (RecordExists k) s), w') \<and>
      displays x (contents w') (snd (spec_command (\<lambda>k. the (record_of sv k)) (RecordExists k) s))"
    using assms(1) key [unfolded record_of_Some] d key
    by (simp add: reads_policies_def Client_exists_def send_def connected_rpcs server_Exists_def answer_def
        recovered_def flag_response_def observe_flag_def ret_def displays_def)
qed

lemma command_simulates:
  assumes "reads_policies sv sp lp" and "keeps_records c lp contents" and "well_formed sv cmd"
  shows "simulates x sv c sp contents cmd"
  using assms
  by (cases cmd) (metis put_simulates get_simulates batch_simulates delete_simulates exists_simulates)+

section \<open>Sessions\<close>

lemma session_simulates:
  assumes "reads_policies sv sp lp" and "keeps_records c lp contents"
  shows "list_all (well_formed sv) cmds \<Longrightarrow> displays x (contents w) s \<Longrightarrow>
    fst (run_session x (connected sv c) sp cmds w) = fst (spec_session (\<lambda>k. the (record_of sv k)) cmds s) \<and>
    displays x (contents (snd (run_session x (connected sv c) sp cmds w)))
      (snd (spec_session (\<lambda>k. the (record_of sv k)) cmds s))"
proof (induction cmds arbitrary: w s)
  case (Cons cmd cmds)
  have sim: "simulates x sv c sp contents cmd"
    using command_simulates [OF assms] Cons.prems(1) by simp
  obtain r s' where spec: "spec_command (\<lambda>k. the (record_of sv k)) cmd s = (r, s')" by fastforce
  obtain w' where "run_command x (connected sv c) sp cmd w = (r, w')" "displays x (contents w') s'"
    using sim Cons.prems(2) spec unfolding simulates_def by fastforce
  then show ?case using Cons.IH [of w' s'] Cons.prems(1) spec by (simp add: case_prod_beta)
qed simp

text \<open>A cluster in memory: an association list of bins per key.\<close>
definition memory_record :: "(string \<times> go_any) list \<Rightarrow> aero_record" where
  "memory_record l = \<lparr>arec_key = None, arec_generation = 1, arec_expiration = 0, arec_bins = AList.clearjunk l\<rparr>"

fun memory_batch :: "(aero_key \<rightharpoonup> (string \<times> go_any) list) \<Rightarrow> cdt_call lib_batch \<Rightarrow> aero_batch_record" where
  "memory_batch w (LibBatchRead p k ns) =
     \<lparr>abr_key = None, abr_record = map_option memory_record (w (the k)),
      abr_err = (if w (the k) = None then Some (AerospikeError 2 False) else None), abr_in_doubt = False\<rparr>"
| "memory_batch w _ = \<lparr>abr_key = None, abr_record = None, abr_err = None, abr_in_doubt = False\<rparr>"

definition memory_cluster :: "(aero_key \<rightharpoonup> (string \<times> go_any) list) aero_client" where
  "memory_cluster = idle_cluster
     \<lparr>lib_PutBins := (\<lambda>p k bs w. (None, w(the k \<mapsto> foldl (\<lambda>l (n, a). AList.update n (got a) l)
        (case w (the k) of None \<Rightarrow> [] | Some l \<Rightarrow> l) bs))),
      lib_Get := (\<lambda>p k ns w. (case w (the k) of
          None \<Rightarrow> (None, Some (AerospikeError 2 False))
        | Some l \<Rightarrow> (Some (memory_record (if ns = [] then l else AList.restrict (set ns) l)), None), w)),
      lib_BatchOperate := (\<lambda>p brs w. ((map (memory_batch w) brs, None), w)),
      lib_Delete := (\<lambda>p k w. ((w (the k) \<noteq> None, None), w(the k := None))),
      lib_Exists := (\<lambda>p k w. ((w (the k) \<noteq> None, None), w))\<rparr>"

definition memory_contents :: "(aero_key \<rightharpoonup> (string \<times> go_any) list) \<Rightarrow> aero_key \<rightharpoonup> (string \<rightharpoonup> go_any)" where
  "memory_contents w k = map_option map_of (w k)"

lemma memory_put:
  "map_of (foldl (\<lambda>l (n, a). AList.update n (got a) l) l bs) = bins_after got (map_of l) bs"
  by (induction got "map_of l" bs arbitrary: l rule: bins_after.induct) (auto simp: update_conv')

lemma memory_contents_update [simp]:
  "memory_contents (w(k \<mapsto> l)) = (memory_contents w)(k \<mapsto> map_of l)"
  "memory_contents (w(k := None)) = (memory_contents w)(k := None)"
  by (auto simp: memory_contents_def fun_eq_iff)

lemma memory_holds:
  "holds (memory_record l) (map_of l)"
  "holds (memory_record (if ns = [] then l else AList.restrict (set ns) l)) (selected ns (map_of l))"
  by (simp_all add: holds_def memory_record_def map_of_clearjunk distinct_clearjunk fromKey_def selected_def restr_conv')

lemma memory_get:
  "case memory_contents w k of
     None \<Rightarrow> lib_Get memory_cluster q (Some k) ns w = ((None, Some (AerospikeError 2 False)), w)
   | Some m \<Rightarrow> \<exists>r. lib_Get memory_cluster q (Some k) ns w = ((Some r, None), w) \<and> holds r (selected ns m)"
  using memory_holds by (auto simp: memory_cluster_def memory_contents_def split: option.splits)

lemma memory_batch_answers:
  "lib_BatchOperate memory_cluster p (map (\<lambda>k. LibBatchRead q (Some k) None) ks) w =
     ((map (\<lambda>k. memory_batch w (LibBatchRead q (Some k) None)) ks, None), w)"
  "list_all2 (\<lambda>k br. batch_answer (memory_contents w k) br) ks (map (\<lambda>k. memory_batch w (LibBatchRead q (Some k) None)) ks)"
  using memory_holds(1)
  by (auto simp: memory_cluster_def list_all2_conv_all_nth batch_answer_def memory_contents_def fromKey_def split: option.splits)

lemma memory_keeps_records: "keeps_records memory_cluster lp memory_contents"
proof -
  have bins: "map_of (case w k of None \<Rightarrow> [] | Some l \<Rightarrow> l) = bins_of (memory_contents w k)" for w k
    by (simp add: memory_contents_def bins_of_def split: option.splits)
  have there: "w k = None \<longleftrightarrow> memory_contents w k = None" for w k by (simp add: memory_contents_def)
  show ?thesis
    unfolding keeps_records_def
    using memory_get memory_batch_answers
    by (intro conjI) (simp add: memory_cluster_def memory_put bins, blast, blast, simp_all add: memory_cluster_def there)
qed

definition sample_policies_of_session :: session_policies where
  "sample_policies_of_session =
     \<lparr>sp_write = WritePolicy_default, sp_read = ReadPolicy_default, sp_batch = BatchPolicy_default,
      sp_batch_read = BatchReadPolicy_default\<rparr>"

lemma sample_policies_read: "\<exists>lp. reads_policies sample_server sample_policies_of_session lp"
proof -
  obtain p where p: "toWritePolicy (sv_externs sample_server) (Some WritePolicy_default) = Inr (Some p)"
    using sample_policies(1) by (auto simp: sample_server_def)
  obtain q where q: "toReadPolicy (sv_externs sample_server) (Some ReadPolicy_default) = Inr (Some q)"
    using sample_policies(2) by (auto simp: sample_server_def)
  obtain b where b: "toBatchPolicy (sv_externs sample_server) (Some BatchPolicy_default) = Inr b"
    by (simp add: sample_server_def policy_readers BatchPolicy_default_def proto_ReadPolicy_default_def
        ReadPolicy_default_def toFilterExpression_def deref_exp_def)
  obtain r where r: "toBatchReadPolicy (sv_externs sample_server) (Some BatchReadPolicy_default) = Inr r"
    by (simp add: sample_server_def BatchReadPolicy_default_def toBatchReadPolicy_def toFilterExpression_def deref_exp_def)
  show ?thesis
    by (rule exI [of _ "\<lparr>lp_write = Some p, lp_read = Some q, lp_batch = b, lp_batch_read = r\<rparr>"])
      (simp add: reads_policies_def sample_policies_of_session_def p q b r)
qed

text \<open>C1. A session refines an abstract store. The cluster keeps its records: each put of bins that are
  not null and each delete succeeds and changes the record of its library key only, and reads
  answer from the contents. Then any sequence of puts (of values that can be stored, none of
  them null: scalars and lists of these at any depth, no maps and no JSON), gets of all or
  some bins, batches of reads, deletes and questions for existence, with keys and policies the
  manager can read, gives PHP, command by command, the answers of a map from keys to bins, and
  the contents of the cluster stay those of the map. Integers come back signed, and a delete
  answers true whether there was a record or not.\<close>
theorem session_refines_store:
  assumes "reads_policies sv sp lp" and "keeps_records c lp contents"
    and "list_all (well_formed sv) cmds" and "displays x (contents w) s"
  shows "fst (run_session x (connected sv c) sp cmds w) = fst (spec_session (\<lambda>k. the (record_of sv k)) cmds s) \<and>
    displays x (contents (snd (run_session x (connected sv c) sp cmds w)))
      (snd (spec_session (\<lambda>k. the (record_of sv k)) cmds s))"
  by (rule session_simulates [OF assms])

theorem session_refines_store_witness:
  "let k = Key_construct ''test'' ''s'' (PInt 1); k2 = Key_construct ''test'' ''s'' (PInt 2) in
   fst (run_session externs0 (connected sample_server memory_cluster) sample_policies_of_session
     [RecordExists k, PutBins k [(''a'', PInt 4), (''b'', PUInt 5)], PutBins k [(''a'', PString ''t'')],
      GetRecord k None, GetRecord k (Some [''b'']), BatchGet [k2, k], DeleteRecord k, GetRecord k None] Map.empty) =
   [Answer False, Stored, Stored, Found [''a'' \<mapsto> PString ''t'', ''b'' \<mapsto> PInt 5], Found [''b'' \<mapsto> PInt 5],
    FoundAll [None, Some [''a'' \<mapsto> PString ''t'', ''b'' \<mapsto> PInt 5]], Answer True, Missing]"
proof -
  let ?k = "Key_construct ''test'' ''s'' (PInt 1)"
  let ?k2 = "Key_construct ''test'' ''s'' (PInt 2)"
  let ?cmds = "[RecordExists ?k, PutBins ?k [(''a'', PInt 4), (''b'', PUInt 5)], PutBins ?k [(''a'', PString ''t'')],
      GetRecord ?k None, GetRecord ?k (Some [''b'']), BatchGet [?k2, ?k], DeleteRecord ?k, GetRecord ?k None]"
  obtain lp where lp: "reads_policies sample_server sample_policies_of_session lp" using sample_policies_read by blast
  obtain key key2 where key: "record_of sample_server ?k = Some key" "record_of sample_server ?k2 = Some key2" "key \<noteq> key2"
    by (simp add: record_of_def toKey_constructed sample_server_def sample_library_def)
  have "displays externs0 (memory_contents Map.empty) Map.empty"
    by (simp add: displays_def memory_contents_def)
  from session_refines_store [where w = Map.empty and cmds = ?cmds, OF lp memory_keeps_records _ this]
  show ?thesis by (simp add: key key(3) [symmetric] Let_def bins_of_def names_of_def selected_def fun_eq_iff restrict_map_def)
qed

end
