(* ===== verification/Isolation.thy ===== *)
theory Isolation
  imports Sessions
begin

text \<open>
  Several clients of one manager. The commands on records (single-record commands, batches of
  every kind and functions) touch no record but those of their keys: neither the client, nor
  the handlers of the manager keep anything between two commands, and no handler calls the
  library for another key. Commands are served one after the other; values, policies and
  errors of the library are arbitrary.
\<close>

section \<open>Commands on records\<close>

text \<open>A call of a method of \<^verbatim>\<open>Client\<close> with its arguments.\<close>
datatype php_command =
    Do_put WritePolicy Key "Bin list" | Do_add WritePolicy Key "Bin list"
  | Do_append WritePolicy Key "Bin list" | Do_prepend WritePolicy Key "Bin list"
  | Do_touch WritePolicy Key | Do_delete WritePolicy Key
  | Do_get ReadPolicy Key "string list option" | Do_get_header ReadPolicy Key
  | Do_exists ReadPolicy Key
  | Do_udf_execute WritePolicy Key string string "PHPValue list"
  | Do_batch BatchPolicy "cdt batch_cmd list"

text \<open>What the method gives PHP: the thrown exceptions and the returned value or error.\<close>
datatype php_answer =
    Unit_answer "(string + unit) php" | Flag_answer "(string + bool) php"
  | Record_answer "(string + Record option) php" | Value_answer "(string + PHPValue) php"
  | Batch_answer "(string + BatchRecord list) php"

fun php_run :: "externs \<Rightarrow> (cdt, 'w) service \<Rightarrow> php_command \<Rightarrow> 'w \<Rightarrow> php_answer \<times> 'w" where
  "php_run x svc (Do_put p k bs) = (\<lambda>w. apfst Unit_answer (Client_put svc p k bs w))"
| "php_run x svc (Do_add p k bs) = (\<lambda>w. apfst Unit_answer (Client_add svc p k bs w))"
| "php_run x svc (Do_append p k bs) = (\<lambda>w. apfst Unit_answer (Client_append svc p k bs w))"
| "php_run x svc (Do_prepend p k bs) = (\<lambda>w. apfst Unit_answer (Client_prepend svc p k bs w))"
| "php_run x svc (Do_touch p k) = (\<lambda>w. apfst Unit_answer (Client_touch svc p k w))"
| "php_run x svc (Do_delete p k) = (\<lambda>w. apfst Flag_answer (Client_delete svc p k w))"
| "php_run x svc (Do_get p k bins) = (\<lambda>w. apfst Record_answer (Client_get svc p k bins w))"
| "php_run x svc (Do_get_header p k) = (\<lambda>w. apfst Record_answer (Client_get_header svc p k w))"
| "php_run x svc (Do_exists p k) = (\<lambda>w. apfst Flag_answer (Client_exists svc p k w))"
| "php_run x svc (Do_udf_execute p k pkg f args) = (\<lambda>w. apfst Value_answer (Client_udf_execute x svc p k pkg f args w))"
| "php_run x svc (Do_batch p cmds) = (\<lambda>w. apfst Batch_answer (Client_batch svc p cmds w))"

text \<open>The commands of one client, and those of several clients in the order they are served.\<close>
fun run_alone :: "externs \<Rightarrow> (cdt, 'w) service \<Rightarrow> php_command list \<Rightarrow> 'w \<Rightarrow> php_answer list \<times> 'w" where
  "run_alone x svc [] w = ([], w)"
| "run_alone x svc (c # cs) w =
     (case php_run x svc c w of (r, w') \<Rightarrow>
      case run_alone x svc cs w' of (rs, w'') \<Rightarrow> (r # rs, w''))"

fun run_clients ::
  "externs \<Rightarrow> (cdt, 'w) service \<Rightarrow> ('i \<times> php_command) list \<Rightarrow> 'w \<Rightarrow> ('i \<times> php_answer) list \<times> 'w" where
  "run_clients x svc [] w = ([], w)"
| "run_clients x svc ((i, c) # cs) w =
     (case php_run x svc c w of (r, w') \<Rightarrow>
      case run_clients x svc cs w' of (rs, w'') \<Rightarrow> ((i, r) # rs, w''))"

text \<open>What belongs to one client, in its order.\<close>
definition of_client :: "'i \<Rightarrow> ('i \<times> 'a) list \<Rightarrow> 'a list" where
  "of_client i xs = map snd (filter (\<lambda>(j, _). j = i) xs)"

text \<open>The key of a batch command; the constructors of PHP always set it.\<close>
fun batch_key :: "cdt batch_cmd \<Rightarrow> Key option" where
  "batch_key (Cmd_read b) = Option.bind (br_batch_record b) brec_key"
| "batch_key (Cmd_write b) = Option.bind (bw_batch_record b) brec_key"
| "batch_key (Cmd_delete b) = Option.bind (bd_batch_record b) brec_key"
| "batch_key (Cmd_udf b) = Option.bind (bu_batch_record b) brec_key"
| "batch_key Cmd_other = None"

fun php_keys :: "php_command \<Rightarrow> Key set" where
  "php_keys (Do_put p k bs) = {k}"
| "php_keys (Do_add p k bs) = {k}"
| "php_keys (Do_append p k bs) = {k}"
| "php_keys (Do_prepend p k bs) = {k}"
| "php_keys (Do_touch p k) = {k}"
| "php_keys (Do_delete p k) = {k}"
| "php_keys (Do_get p k bins) = {k}"
| "php_keys (Do_get_header p k) = {k}"
| "php_keys (Do_exists p k) = {k}"
| "php_keys (Do_udf_execute p k pkg f args) = {k}"
| "php_keys (Do_batch p cmds) = {k. Some k \<in> batch_key ` set cmds}"

text \<open>The records of a command: the library keys of its keys.\<close>
definition touched :: "go_server \<Rightarrow> php_command \<Rightarrow> aero_key set" where
  "touched sv cmd = {key. \<exists>k \<in> php_keys cmd. record_of sv k = Some key}"

text \<open>Every record command of a batch carries its key.\<close>
fun keyed :: "php_command \<Rightarrow> bool" where
  "keyed (Do_batch p cmds) = list_all (\<lambda>c. c = Cmd_other \<or> batch_key c \<noteq> None) cmds"
| "keyed _ = True"

section \<open>Calls that stay within a set of records\<close>

text \<open>
  \<open>view w key\<close> is what the cluster has under the key. A call stays within a set of records if it
  changes no other, and if its answer and what it leaves of these records depend on them only.
\<close>
definition within :: "('w \<Rightarrow> 'k \<Rightarrow> 's) \<Rightarrow> 'k set \<Rightarrow> ('w \<Rightarrow> 'a \<times> 'w) \<Rightarrow> bool" where
  "within view K f \<longleftrightarrow>
     (\<forall>w. \<forall>key. key \<notin> K \<longrightarrow> view (snd (f w)) key = view w key) \<and>
     (\<forall>w w'. (\<forall>key \<in> K. view w key = view w' key) \<longrightarrow>
        fst (f w) = fst (f w') \<and> (\<forall>key \<in> K. view (snd (f w)) key = view (snd (f w')) key))"

lemma within_return [simp]: "within view K (\<lambda>w. (a, w))"
  by (simp add: within_def)

lemma within_mono:
  assumes "within view K f" and "K \<subseteq> L"
  shows "within view L f"
  unfolding within_def
proof (intro conjI allI impI)
  fix w w' assume "\<forall>key \<in> L. view w key = view w' key"
  then have "\<forall>key \<in> K. view w key = view w' key" using assms(2) by blast
  with assms(1) show "fst (f w) = fst (f w')" by (simp add: within_def)
next
  fix w key assume "key \<notin> L"
  with assms show "view (snd (f w)) key = view w key" by (auto simp: within_def)
next
  fix w w' assume eq: "\<forall>key \<in> L. view w key = view w' key"
  show "\<forall>key \<in> L. view (snd (f w)) key = view (snd (f w')) key"
  proof
    fix key assume "key \<in> L"
    with assms eq show "view (snd (f w)) key = view (snd (f w')) key"
      by (cases "key \<in> K") (auto simp: within_def subset_iff)
  qed
qed

lemma within_image:
  assumes "within view K f" and "\<And>w. g w = (h (fst (f w)), snd (f w))"
  shows "within view K g"
  using assms(1) unfolding within_def assms(2) fst_conv snd_conv by metis

lemma within_prepare:
  assumes "\<And>a. m = Inr a \<Longrightarrow> within view K (h a)"
  shows "within view K (prepare m h)"
proof (cases m)
  case (Inl p)
  then have "prepare m h = (\<lambda>w. (Inl p, w))" by (auto simp: prepare_def)
  then show ?thesis by simp
next
  case (Inr a)
  then have "prepare m h = h a" by (auto simp: prepare_def)
  then show ?thesis using assms Inr by simp
qed

lemma within_answer: "within view K call \<Longrightarrow> within view K (answer call f)"
  by (erule within_image) (simp add: answer_def case_prod_beta)

lemma within_recovered:
  "within view K h \<Longrightarrow> within view K (recovered sv h)"
  by (erule within_image [where h = "\<lambda>r. case r of Inl p \<Rightarrow> Inl (panic_text sv p) | Inr a \<Rightarrow> Inr a"])
    (simp add: recovered_def case_prod_beta split: prod.splits sum.splits)

lemma within_send:
  "within view K (f req) \<Longrightarrow> within view K (\<lambda>w. send f req w k)"
  by (erule within_image [where h = "\<lambda>r. case r of Inl e \<Rightarrow> ret (Inl e) | Inr res \<Rightarrow> k res"])
    (simp add: send_def split: prod.splits sum.splits)

lemma within_apfst: "within view K f \<Longrightarrow> within view K (\<lambda>w. apfst g (f w))"
  by (erule within_image) (simp add: apfst_def map_prod_def case_prod_beta)

section \<open>A library that keeps records apart\<close>

fun lib_key :: "'c lib_batch \<Rightarrow> aero_key option" where
  "lib_key (LibBatchRead p k ns) = k"
| "lib_key (LibBatchReadOps p k ops) = k"
| "lib_key (LibBatchReadHeader p k) = k"
| "lib_key (LibBatchWrite p k ops) = k"
| "lib_key (LibBatchDelete p k) = k"
| "lib_key (LibBatchUDF p k pkg f args) = k"

text \<open>
  A call of the library for a key reads and changes the record under that key only, and a batch
  the records of its keys; what it answers is not restricted, so it may refuse.
\<close>
definition keeps_apart :: "'w aero_client \<Rightarrow> ('w \<Rightarrow> aero_key \<Rightarrow> 's) \<Rightarrow> bool" where
  "keeps_apart c view \<longleftrightarrow>
     (\<forall>p k bs. within view {k} (lib_PutBins c p (Some k) bs)) \<and>
     (\<forall>p k bs. within view {k} (lib_AddBins c p (Some k) bs)) \<and>
     (\<forall>p k bs. within view {k} (lib_AppendBins c p (Some k) bs)) \<and>
     (\<forall>p k bs. within view {k} (lib_PrependBins c p (Some k) bs)) \<and>
     (\<forall>p k. within view {k} (lib_Touch c p (Some k))) \<and>
     (\<forall>p k. within view {k} (lib_Delete c p (Some k))) \<and>
     (\<forall>p k ns. within view {k} (lib_Get c p (Some k) ns)) \<and>
     (\<forall>p k. within view {k} (lib_GetHeader c p (Some k))) \<and>
     (\<forall>p k. within view {k} (lib_Exists c p (Some k))) \<and>
     (\<forall>p k pkg f args. within view {k} (lib_Execute c p (Some k) pkg f args)) \<and>
     (\<forall>p ks rs. map lib_key rs = map Some ks \<longrightarrow> within view (set ks) (lib_BatchOperate c p rs))"

lemma toKey_Some: "toKey L (Some k) = Inr ko \<Longrightarrow> \<exists>key. ko = Some key"
  by (auto simp: toKey_def sbind_Inr_iff)

lemma record_of_toKey: "toKey (sv_library sv) (Some k) = Inr (Some key) \<Longrightarrow> record_of sv k = Some key"
  by (simp add: record_of_def)

text \<open>A call for a key that was read stays within the record of that key.\<close>
lemma within_read_key:
  assumes "keeps_apart c view" and "toKey (sv_library sv) (Some k) = Inr ko"
  defines "K \<equiv> {key. record_of sv k = Some key}"
  shows "within view K (lib_PutBins c wp ko bs)" "within view K (lib_AddBins c wp ko bs)"
    "within view K (lib_AppendBins c wp ko bs)" "within view K (lib_PrependBins c wp ko bs)"
    "within view K (lib_Touch c wp ko)" "within view K (lib_Delete c wp ko)"
    "within view K (lib_Get c rp ko ns)" "within view K (lib_GetHeader c rp ko)"
    "within view K (lib_Exists c rp ko)" "within view K (lib_Execute c wp ko pkg f args)"
proof -
  obtain key where key: "ko = Some key" "record_of sv k = Some key"
    using assms(2) toKey_Some record_of_toKey by blast
  then have K: "K = {key}" by (auto simp: K_def)
  show "within view K (lib_PutBins c wp ko bs)" "within view K (lib_AddBins c wp ko bs)"
    "within view K (lib_AppendBins c wp ko bs)" "within view K (lib_PrependBins c wp ko bs)"
    "within view K (lib_Touch c wp ko)" "within view K (lib_Delete c wp ko)"
    "within view K (lib_Get c rp ko ns)" "within view K (lib_GetHeader c rp ko)"
    "within view K (lib_Exists c rp ko)" "within view K (lib_Execute c wp ko pkg f args)"
    using assms(1) by (simp_all add: K key(1) keeps_apart_def)
qed

lemma read_arguments_key:
  "read_arguments sv b = Inr lb \<Longrightarrow> \<exists>k. toKey (sv_library sv) k = Inr (lib_key lb) \<and>
     (case b of NewBatchRead p k' ns \<Rightarrow> k' | NewBatchReadOps p k' ops \<Rightarrow> k' | NewBatchReadHeader p k' \<Rightarrow> k'
      | NewBatchWrite p k' ops \<Rightarrow> k' | NewBatchDelete p k' \<Rightarrow> k' | NewBatchUDF p k' pkg f args \<Rightarrow> k') = k"
  by (cases b) (auto simp: sbind_Inr_iff)

text \<open>The library record of a batch command is for the key of the command.\<close>
lemma batch_record_key:
  assumes "batch_operate c = Some m" and "toBatchRecord sv m = Inr lb" and "batch_key c \<noteq> None"
  shows "\<exists>k key. batch_key c = Some k \<and> record_of sv k = Some key \<and> lib_key lb = Some key"
proof -
  obtain b where b: "toBatchRecordIfc toCdtOp m = Inr b" "read_arguments sv b = Inr lb"
    using assms(2) by (auto simp: toBatchRecord_def sbind_Inr_iff)
  obtain k where k: "batch_key c = Some k" using assms(3) by blast
  have "toKey (sv_library sv) (Some k) = Inr (lib_key lb)"
    using assms(1) k b(1) read_arguments_key [OF b(2)]
    by (cases c) (auto simp: BatchOperate_default_def toBatchRecordIfc_def record_key_def sbind_Inr_iff
        split: option.splits if_splits)
  then show ?thesis using k toKey_Some record_of_toKey by metis
qed

lemma batch_records_keys:
  assumes "list_all (\<lambda>c. c = Cmd_other \<or> batch_key c \<noteq> None) cmds"
    and "toBatchRecords sv (List.map_filter batch_operate cmds) = Inr rs"
  shows "\<exists>ks. map lib_key rs = map Some ks \<and> set ks \<subseteq> touched sv (Do_batch p cmds)"
  using assms
proof (induction cmds arbitrary: rs)
  case (Cons c cmds)
  have more: "touched sv (Do_batch p cmds) \<subseteq> touched sv (Do_batch p (c # cmds))"
    by (auto simp: touched_def)
  show ?case
  proof (cases "batch_operate c")
    case None
    then show ?thesis using Cons more by (fastforce simp: List.map_filter_simps)
  next
    case (Some m)
    then have "batch_key c \<noteq> None" using Cons.prems(1) by (cases c) auto
    obtain lb rs' where rs: "rs = lb # rs'" "toBatchRecord sv m = Inr lb"
        "toBatchRecords sv (List.map_filter batch_operate cmds) = Inr rs'"
      using Cons.prems(2) Some by (auto simp: List.map_filter_simps toBatchRecords_def sbind_Inr_iff)
    obtain ks where ks: "map lib_key rs' = map Some ks" "set ks \<subseteq> touched sv (Do_batch p cmds)"
      using Cons.IH [OF _ rs(3)] Cons.prems(1) by auto
    obtain k key where key: "batch_key c = Some k" "record_of sv k = Some key" "lib_key lb = Some key"
      using batch_record_key [OF Some rs(2) \<open>batch_key c \<noteq> None\<close>] by blast
    then have "key \<in> touched sv (Do_batch p (c # cmds))" by (force simp: touched_def)
    then show ?thesis using ks key(3) more by (intro exI [of _ "key # ks"]) (auto simp: rs(1))
  qed
qed (simp add: List.map_filter_simps toBatchRecords_def)

lemma within_batch:
  assumes "keeps_apart c view" and "keyed (Do_batch p cmds)"
  shows "within view (touched sv (Do_batch p cmds)) (Client_batch (connected sv c) p cmds)"
proof -
  let ?ms = "List.map_filter batch_operate cmds"
  have "within view (touched sv (Do_batch p cmds)) (rpc_batch (connected sv c) (R_batch_operate p ?ms))"
    unfolding connected_rpcs server_BatchOperate_def prod.case
  proof (intro within_recovered within_prepare within_answer)
    fix rs p' assume rs: "toBatchRecords sv ?ms = Inr rs"
    then obtain ks where "map lib_key rs = map Some ks" "set ks \<subseteq> touched sv (Do_batch p cmds)"
      using batch_records_keys assms(2) by force
    moreover from this(1) have "within view (set ks) (lib_BatchOperate c p' rs)"
      using assms(1) by (simp add: keeps_apart_def)
    ultimately show "within view (touched sv (Do_batch p cmds)) (lib_BatchOperate c p' rs)"
      by (blast intro: within_mono)
  qed
  then have "within view (touched sv (Do_batch p cmds)) (\<lambda>w. send (rpc_batch (connected sv c)) (R_batch_operate p ?ms) w
      (\<lambda>(error, records). case error of None \<Rightarrow> ret (Inr records) | Some pe \<Rightarrow> throw_error pe []))"
    by (rule within_send)
  then show ?thesis
    by (rule within_image [where h = "\<lambda>(es', r). (replicate (length (filter (\<lambda>c. batch_operate c = None) cmds))
          (AerospikeException_new ''Invalid Batch command'') @ es', r)"])
      (simp add: Client_batch_def batch_loop_result emit_def case_prod_beta)
qed

lemmas single_handlers = write_handlers server_Get_def server_GetHeader_def server_Exists_def
  server_Delete_def server_UDFExecute_def

lemma single_touched:
  "touched sv (Do_put wp k bs) = {key. record_of sv k = Some key}"
  "touched sv (Do_add wp k bs) = {key. record_of sv k = Some key}"
  "touched sv (Do_append wp k bs) = {key. record_of sv k = Some key}"
  "touched sv (Do_prepend wp k bs) = {key. record_of sv k = Some key}"
  "touched sv (Do_touch wp k) = {key. record_of sv k = Some key}"
  "touched sv (Do_delete wp k) = {key. record_of sv k = Some key}"
  "touched sv (Do_get rp k ns) = {key. record_of sv k = Some key}"
  "touched sv (Do_get_header rp k) = {key. record_of sv k = Some key}"
  "touched sv (Do_exists rp k) = {key. record_of sv k = Some key}"
  "touched sv (Do_udf_execute wp k pkg f args) = {key. record_of sv k = Some key}"
  by (simp_all add: touched_def)

lemma within_single:
  assumes "keeps_apart c view"
  defines "K \<equiv> \<lambda>sv k. {key. record_of sv k = Some key}"
  shows "within view (K sv k) (Client_put (connected sv c) wp k bs)"
    and "within view (K sv k) (Client_add (connected sv c) wp k bs)"
    and "within view (K sv k) (Client_append (connected sv c) wp k bs)"
    and "within view (K sv k) (Client_prepend (connected sv c) wp k bs)"
    and "within view (K sv k) (Client_touch (connected sv c) wp k)"
    and "within view (K sv k) (Client_delete (connected sv c) wp k)"
    and "within view (K sv k) (Client_get (connected sv c) rp k ns)"
    and "within view (K sv k) (Client_get_header (connected sv c) rp k)"
    and "within view (K sv k) (Client_exists (connected sv c) rp k)"
    and "within view (K sv k) (Client_udf_execute x (connected sv c) wp k pkg f args)"
  unfolding K_def single_record_defs [abs_def] Client_udf_execute_def [abs_def]
  by (rule within_send, unfold connected_rpcs single_handlers prod.case,
      (intro within_recovered within_prepare within_answer within_read_key [OF assms(1)]; assumption))+

text \<open>A command stays within its records.\<close>
lemma command_within:
  assumes "keeps_apart c view" and "keyed cmd"
  shows "within view (touched sv cmd) (php_run x (connected sv c) cmd)"
proof (cases cmd)
  case (Do_batch p cmds)
  then show ?thesis
    using within_apfst [OF within_batch [OF assms(1), of p cmds sv]] assms(2) by (simp add: php_run.simps)
qed (simp_all only: php_run.simps single_touched within_single [OF assms(1)] within_apfst)

section \<open>Interleaving\<close>

lemma of_client_simps [simp]:
  "of_client i [] = []" "of_client i ((j, a) # xs) = (if j = i then a # of_client i xs else of_client i xs)"
  by (simp_all add: of_client_def)

text \<open>
  A client whose records lie in \<open>K\<close>, next to clients that stay outside of \<open>K\<close>, and the same client
  alone, on a world that agrees on \<open>K\<close>.
\<close>
lemma client_alone:
  assumes "keeps_apart c view"
    and "\<forall>(j, cmd) \<in> set cmds. keyed cmd \<and> (if j = i then touched sv cmd \<subseteq> K else touched sv cmd \<inter> K = {})"
    and "\<forall>key \<in> K. view w key = view w' key"
  shows "of_client i (fst (run_clients x (connected sv c) cmds w)) =
      fst (run_alone x (connected sv c) (of_client i cmds) w') \<and>
    (\<forall>key \<in> K. view (snd (run_clients x (connected sv c) cmds w)) key =
      view (snd (run_alone x (connected sv c) (of_client i cmds) w')) key)"
  using assms(2,3)
proof (induction cmds arbitrary: w w')
  case (Cons jc cmds)
  obtain j cmd where jc: "jc = (j, cmd)" by (cases jc)
  let ?run = "php_run x (connected sv c) cmd"
  have stays: "within view (touched sv cmd) ?run"
    using command_within [OF assms(1)] Cons.prems(1) jc by auto
  show ?case
  proof (cases "j = i")
    case True
    then have "touched sv cmd \<subseteq> K" using Cons.prems(1) jc by auto
    then have "within view K ?run" using stays by (blast intro: within_mono)
    then have "fst (?run w) = fst (?run w')" "\<forall>key \<in> K. view (snd (?run w)) key = view (snd (?run w')) key"
      using Cons.prems(2) by (simp_all add: within_def)
    then show ?thesis using Cons.IH [of "snd (?run w)" "snd (?run w')"] Cons.prems(1) True
      by (simp add: jc case_prod_beta)
  next
    case False
    then have "touched sv cmd \<inter> K = {}" using Cons.prems(1) jc by auto
    moreover have "view (snd (?run w)) key = view w key" if "key \<notin> touched sv cmd" for key
      using stays that by (simp add: within_def)
    ultimately have "\<forall>key \<in> K. view (snd (?run w)) key = view w' key"
      using Cons.prems(2) by (metis disjoint_iff)
    then show ?thesis using Cons.IH [of "snd (?run w)" w'] Cons.prems(1) False
      by (simp add: jc case_prod_beta)
  qed
qed simp

text \<open>The cluster in memory keeps its records apart.\<close>
lemma memory_keeps_apart: "keeps_apart memory_cluster (\<lambda>w. w)"
proof -
  have batch: "within (\<lambda>w. w) (set ks) (lib_BatchOperate memory_cluster p rs)"
    if "map lib_key rs = map Some ks" for p rs ks
  proof -
    have "memory_batch w r = memory_batch w' r" if "\<forall>key \<in> set ks. w key = w' key" "r \<in> set rs" for w w' r
    proof -
      have "lib_key r \<in> Some ` set ks" using that(2) \<open>map lib_key rs = map Some ks\<close> by (metis image_eqI list.set_map)
      then show ?thesis using that(1) by (cases r) auto
    qed
    then show ?thesis by (auto simp: within_def memory_cluster_def)
  qed
  then show ?thesis
    by (auto simp: keeps_apart_def within_def memory_cluster_def idle_cluster_def)
qed

end
