(* ===== verification/Server_Answers.thy ===== *)
theory Server_Answers
  imports End_To_End
begin

text \<open>
  The commands that answer with a list or with a value, end to end: the lists of functions,
  users and roles, and the execution of a function.
\<close>

section \<open>Lists\<close>

lemma connected_list_rpcs:
  "rpc_udf_list (connected sv c) (R_list_udf rp) = recovered sv (server_ListUDF sv c (Some rp))"
  "rpc_users (connected sv c) (R_query_users ap u) = recovered sv (server_QueryUsers sv c (Some ap, u))"
  "rpc_roles (connected sv c) (R_query_roles ap n) = recovered sv (server_QueryRoles sv c (Some ap, n))"
  by (simp_all add: connected_def manager_stub_def)

text \<open>What PHP sees of a list that the library answered with, or of its error.\<close>
definition list_report ::
  "go_server \<Rightarrow> ('r \<Rightarrow> panic + 'a list) \<Rightarrow> 'r \<times> aero_error option \<Rightarrow> (string + 'a list) php" where
  "list_report sv f res =
     (case res of
        (xs, None) \<Rightarrow> (case f xs of Inr ys \<Rightarrow> ret (Inr ys) | Inl p \<Rightarrow> ret (Inl (panic_text sv p)))
      | (xs, Some (AerospikeError code d)) \<Rightarrow>
          emit [AerospikeException_from_Error \<lparr>result_code = ucast code, pe_in_doubt = d\<rparr>] (Inr [])
      | (xs, Some OtherError) \<Rightarrow> ret (Inl (panic_text sv TypeAssertion)))"

lemma send_list_answer:
  "send (\<lambda>_. recovered sv (answer call (list_response f))) () w on_list =
     (case call w of (res, w') \<Rightarrow> (list_report sv f res, w'))"
  by (auto simp: send_def recovered_def answer_def list_response_def on_list_def throw_error_eq list_report_def
      split: prod.splits option.splits aero_error.splits sum.splits)

lemma send_one_answer:
  "send (\<lambda>_. recovered sv (answer call (\<lambda>(r, err). list_response f ([r], err)))) () w on_list =
     (case call w of ((r, err), w') \<Rightarrow> (list_report sv f ([r], err), w'))"
  by (auto simp: send_def recovered_def answer_def list_response_def on_list_def throw_error_eq list_report_def
      split: prod.splits option.splits aero_error.splits sum.splits)

text \<open>The lists, end to end: functions, users and roles are asked from the library, all of them or
  the one that is named, and PHP gets the list that the library answered with, or one exception
  for its error and an empty list.\<close>
lemma lists_reach_library:
  assumes "toReadPolicy (sv_externs sv) (Some rp) = Inr p"
  shows "Client_list_udf (connected sv c) rp w =
      (case lib_ListUDF c p w of (res, w') \<Rightarrow> (list_report sv fromUDFs res, w')) \<and>
    Client_query_users (connected sv c) ap None w =
      (case lib_QueryUsers c (toAdminPolicy (Some ap)) w of (res, w') \<Rightarrow> (list_report sv fromUserRoles res, w')) \<and>
    Client_query_users (connected sv c) ap (Some u) w =
      (case lib_QueryUser c (toAdminPolicy (Some ap)) u w of
         ((r, err), w') \<Rightarrow> (list_report sv fromUserRoles ([r], err), w')) \<and>
    Client_query_roles (connected sv c) ap None w =
      (case lib_QueryRoles c (toAdminPolicy (Some ap)) w of
         (res, w') \<Rightarrow> (list_report sv (fromRoles (sv_library sv)) res, w')) \<and>
    Client_query_roles (connected sv c) ap (Some n) w =
      (case lib_QueryRole c (toAdminPolicy (Some ap)) n w of
         ((r, err), w') \<Rightarrow> (list_report sv (fromRoles (sv_library sv)) ([r], err), w'))"
  unfolding Client_list_udf_def Client_query_users_def Client_query_roles_def on_list_alt
  by (intro conjI; subst send_unit)
    (simp_all add: connected_list_rpcs server_ListUDF_def server_QueryUsers_def server_QueryRoles_def assms
      send_list_answer send_one_answer)

theorem lists_reach_library_witness:
  "let c = idle_cluster\<lparr>lib_QueryUser := (\<lambda>_ u w. ((Some \<lparr>aus_user = u, aus_roles = [''read''], aus_read_info = [-1],
       aus_write_info = [], aus_conns_in_use = 2\<rparr>, None), w)),
     lib_QueryRoles := (\<lambda>_ w. (([], Some (AerospikeError 81 False)), w))\<rparr> in
   Client_query_users (connected sample_server c) AdminPolicy_default (Some ''ann'') () =
     (ret (Inr [\<lparr>ur_user = ''ann'', ur_roles = [''read''], ur_read_info = [0xFFFFFFFFFFFFFFFF], ur_write_info = [],
        ur_conns_in_use = 2\<rparr>]), ()) \<and>
   Client_query_roles (connected sample_server c) AdminPolicy_default None () =
     (emit [AerospikeException_from_Error \<lparr>result_code = 81, pe_in_doubt = False\<rparr>] (Inr []), ())"
proof -
  obtain q where q: "toReadPolicy (sv_externs sample_server) (Some ReadPolicy_default) = Inr (Some q)"
    using sample_policies(2) by (auto simp: sample_server_def)
  let ?c = "idle_cluster\<lparr>lib_QueryUser := (\<lambda>_ u w. ((Some \<lparr>aus_user = u, aus_roles = [''read''], aus_read_info = [-1],
       aus_write_info = [], aus_conns_in_use = 2\<rparr>, None), w)),
     lib_QueryRoles := (\<lambda>_ w. (([], Some (AerospikeError 81 False)), w))\<rparr>"
  show ?thesis
    using lists_reach_library [OF q, of ?c "()" AdminPolicy_default "''ann''"]
    by (simp add: Let_def list_report_def fromUserRoles_def fromUserRole_def deref_def convIntList_def)
qed

section \<open>Functions\<close>

lemma toValues_storable:
  "list_all storable args \<Longrightarrow>
    \<exists>vs. toValues (map Value_from_PHPValue args) = Inr vs \<and> map (php_value_of \<circ> got) vs = map wire_form args"
proof (induction args)
  case (Cons v args)
  obtain a where "toValue (Value_from_PHPValue v) = Inr a" "php_value_of (got a) = wire_form v"
    using storable_got Cons.prems by fastforce
  then show ?case using Cons by (auto simp: toValues_def)
qed (simp add: toValues_def)

text \<open>C23. Executing a function, end to end, for a key and policy that the manager can read and
  arguments that are scalars or lists of these at any depth (no maps and no JSON): the library
  gets the arguments that PHP gave, with integers in their signed form, for the record of the
  key. A result that can be sent (no JSON and nothing of a type the manager does not know) and
  whose map keys are values meant as keys and stay different reaches PHP as the value it is;
  an error of the library is thrown as one exception, with null as the result.\<close>
theorem udf_reaches_library:
  assumes "toWritePolicy (sv_externs sv) (Some wp) = Inr p" and "toKey (sv_library sv) (Some k) = Inr key"
    and "list_all storable args"
  shows "\<exists>vs. map (php_value_of \<circ> got) vs = map wire_form args \<and>
    (\<forall>res w'. lib_Execute c p key pkg f vs w = ((res, None), w') \<and> sendable res \<and> wire_stable x (php_value_of res) \<longrightarrow>
       Client_udf_execute x (connected sv c) wp k pkg f args w = (ret (Inr (php_value_of res)), w')) \<and>
    (\<forall>res code d w'. lib_Execute c p key pkg f vs w = ((res, Some (AerospikeError code d)), w') \<longrightarrow>
       Client_udf_execute x (connected sv c) wp k pkg f args w =
         (emit [AerospikeException_from_Error \<lparr>result_code = ucast code, pe_in_doubt = d\<rparr>] (Inr PNil), w'))"
proof -
  obtain vs where vs: "toValues (map Value_from_PHPValue args) = Inr vs"
      "map (php_value_of \<circ> got) vs = map wire_form args"
    using toValues_storable [OF assms(3)] by blast
  have run: "server_UDFExecute sv c (Some wp, Some k, pkg, f, map Value_from_PHPValue args) =
      answer (lib_Execute c p key pkg f vs) udf_response"
    by (simp add: server_UDFExecute_def assms(1,2) vs(1))
  have "Client_udf_execute x (connected sv c) wp k pkg f args w = (ret (Inr (php_value_of res)), w')"
    if "lib_Execute c p key pkg f vs w = ((res, None), w')" "sendable res" "wire_stable x (php_value_of res)" for res w'
    using sendable_answers [OF that(2,3)]
    by (auto simp: Client_udf_execute_def send_def connected_rpcs run recovered_def answer_def udf_response_def that(1)
        answers_def)
  moreover have "Client_udf_execute x (connected sv c) wp k pkg f args w =
      (emit [AerospikeException_from_Error \<lparr>result_code = ucast code, pe_in_doubt = d\<rparr>] (Inr PNil), w')"
    if "lib_Execute c p key pkg f vs w = ((res, Some (AerospikeError code d)), w')" for res code d w'
    by (simp add: Client_udf_execute_def send_def connected_rpcs run recovered_def answer_def udf_response_def that
        throw_error_eq Value_nil_def)
  ultimately show ?thesis using vs(2) by (intro exI [of _ vs]) blast
qed

theorem udf_reaches_library_witness:
  "let c = idle_cluster\<lparr>lib_Execute := (\<lambda>_ _ pkg f vs w. ((G_int (of_nat (length vs)), None), w))\<rparr> in
   Client_udf_execute externs0 (connected sample_server c) WritePolicy_default (Key_construct ''test'' ''s'' (PInt 1))
     ''lib'' ''count'' [PUInt 7, PString ''a''] () = (ret (Inr (PInt 2)), ())"
proof -
  let ?c = "idle_cluster\<lparr>lib_Execute := (\<lambda>_ _ pkg f vs w. ((G_int (of_nat (length vs)), None), w))\<rparr>"
  obtain p where p: "toWritePolicy (sv_externs sample_server) (Some WritePolicy_default) = Inr (Some p)"
    using sample_policies(1) by (auto simp: sample_server_def)
  obtain key where key: "toKey (sv_library sample_server) (Some (Key_construct ''test'' ''s'' (PInt 1))) = Inr (Some key)"
    using sample_key_read by (auto simp: sample_server_def)
  have "list_all storable [PUInt 7, PString ''a'']" by simp
  from udf_reaches_library [OF p key this, of ?c "''lib''" "''count''" "()" externs0]
  show ?thesis by (auto simp: Let_def)
qed

end
