(* ===== verification/Php_Values.thy ===== *)
theory Php_Values
  imports Value_Laws
begin

text \<open>
  How values are shown and how they are handed to PHP: \<^verbatim>\<open>PHPValue::as_string\<close>, its
  \<^verbatim>\<open>Display\<close> and derived \<^verbatim>\<open>Debug\<close>, \<^verbatim>\<open>impl IntoZval for PHPValue\<close>, and the
  classes \<^verbatim>\<open>GeoJSON\<close>, \<^verbatim>\<open>Json\<close>, \<^verbatim>\<open>BLOB\<close>, \<^verbatim>\<open>HLL\<close>, \<^verbatim>\<open>Infinity\<close>
  and \<^verbatim>\<open>Wildcard\<close> of \<^verbatim>\<open>src/lib.rs\<close>. \<open>php_form\<close> is what a value looks like after
  PHP has held it; the theorems say when a value that the client returned to PHP is read
  back as it was, when handing it to PHP panics, and which map entries are lost.
\<close>

section \<open>Text of a value\<close>

text \<open>
  Formatting and array functions of other packages, as parameters: \<^verbatim>\<open>Display\<close> and
  \<^verbatim>\<open>Debug\<close> of \<^verbatim>\<open>ordered_float::OrderedFloat\<close>, \<^verbatim>\<open>Debug\<close> of a string (quotes
  and escapes by the Unicode tables of the standard library), and the key under which
  \<^verbatim>\<open>ext_php_rs::types::ZendHashTable::insert\<close> stores an entry (\<open>None\<close> when it returns
  an error).
\<close>

record php_externs =
  display_f64 :: "f64 \<Rightarrow> string"
  debug_f64 :: "f64 \<Rightarrow> string"
  debug_str :: "string \<Rightarrow> string"
  zend_insert_key :: "string \<Rightarrow> array_key option"

text \<open>
  \<^verbatim>\<open>insert\<close> refuses a key with a NUL byte (\<^verbatim>\<open>CString::new\<close>) and stores every other
  key as a string.
\<close>
definition php_externs_ok :: "php_externs \<Rightarrow> bool" where
  "php_externs_ok f \<longleftrightarrow>
     (\<forall>s. zend_insert_key f s = (if CHR 0x00 \<in> set s then None else Some (StringKey s)))"

definition php_externs0 :: php_externs where
  "php_externs0 = \<lparr>display_f64 = (\<lambda>w. show_nat (unat w)), debug_f64 = (\<lambda>w. show_nat (unat w)),
     debug_str = (\<lambda>s. CHR 0x22 # s @ [CHR 0x22]),
     zend_insert_key = (\<lambda>s. if CHR 0x00 \<in> set s then None else Some (StringKey s))\<rparr>"

lemma php_externs0_ok: "php_externs_ok php_externs0"
  by (simp add: php_externs_ok_def php_externs0_def)

definition show_u64 :: "u64 \<Rightarrow> string" where
  "show_u64 w = show_nat (unat w)"

definition show_bool :: "bool \<Rightarrow> string" where
  "show_bool b = (if b then ''true'' else ''false'')"

text \<open>Entries separated by a comma and a space, as \<^verbatim>\<open>{:?}\<close> prints them.\<close>
fun comma_sep :: "string list \<Rightarrow> string" where
  "comma_sep [] = []"
| "comma_sep [s] = s"
| "comma_sep (s # ss) = s @ '', '' @ comma_sep ss"

definition debug_list :: "string list \<Rightarrow> string" where
  "debug_list ss = ''['' @ comma_sep ss @ '']''"

definition debug_map :: "(string \<times> string) list \<Rightarrow> string" where
  "debug_map es = ''{'' @ comma_sep (map (\<lambda>(k, v). k @ '': '' @ v) es) @ ''}''"

definition debug_bytes :: "bytes \<Rightarrow> string" where
  "debug_bytes bs = debug_list (map (\<lambda>b. show_nat (unat b)) bs)"

text \<open>\<^verbatim>\<open>#[derive(Debug)]\<close> of the enum.\<close>
primrec PHPValue_debug :: "php_externs \<Rightarrow> PHPValue \<Rightarrow> string" where
  "PHPValue_debug f PNil = ''Nil''"
| "PHPValue_debug f (PBool b) = ''Bool('' @ show_bool b @ '')''"
| "PHPValue_debug f (PInt i) = ''Int('' @ show_i64 i @ '')''"
| "PHPValue_debug f (PUInt u) = ''UInt('' @ show_u64 u @ '')''"
| "PHPValue_debug f (PFloat d) = ''Float('' @ debug_f64 f d @ '')''"
| "PHPValue_debug f (PString s) = ''String('' @ debug_str f s @ '')''"
| "PHPValue_debug f (PBlob b) = ''Blob('' @ debug_bytes b @ '')''"
| "PHPValue_debug f (PList l) = ''List('' @ debug_list (map (PHPValue_debug f) l) @ '')''"
| "PHPValue_debug f (PHashMap h) =
     ''HashMap('' @ debug_map (map (map_prod (PHPValue_debug f) (PHPValue_debug f)) h) @ '')''"
| "PHPValue_debug f (PJson h) =
     ''Json('' @ debug_map (map (map_prod (debug_str f) (\<lambda>v. v))
       (map (map_prod (\<lambda>k. k) (PHPValue_debug f)) h)) @ '')''"
| "PHPValue_debug f (PGeoJSON s) = ''GeoJSON('' @ debug_str f s @ '')''"
| "PHPValue_debug f (PHLL b) = ''HLL('' @ debug_bytes b @ '')''"
| "PHPValue_debug f PWildcard = ''Wildcard''"
| "PHPValue_debug f PInfinity = ''Infinity''"

fun PHPValue_as_string :: "php_externs \<Rightarrow> PHPValue \<Rightarrow> string" where
  "PHPValue_as_string f PNil = ''<null>''"
| "PHPValue_as_string f (PInt val) = show_i64 val"
| "PHPValue_as_string f (PUInt val) = show_u64 val"
| "PHPValue_as_string f (PBool val) = show_bool val"
| "PHPValue_as_string f (PFloat val) = display_f64 f val"
| "PHPValue_as_string f (PString val) = val"
| "PHPValue_as_string f (PGeoJSON val) = ''GeoJSON('' @ [CHR 0x27] @ val @ [CHR 0x27] @ '')''"
| "PHPValue_as_string f (PBlob val) = ''Blob('' @ debug_bytes val @ '')''"
| "PHPValue_as_string f (PHLL val) = ''HLL('' @ [CHR 0x27] @ debug_bytes val @ [CHR 0x27] @ '')''"
| "PHPValue_as_string f (PList val) = debug_list (map (PHPValue_debug f) val)"
| "PHPValue_as_string f (PHashMap val) =
     debug_map (map (map_prod (PHPValue_debug f) (PHPValue_debug f)) val)"
| "PHPValue_as_string f (PJson val) =
     debug_map (map (map_prod (debug_str f) (PHPValue_debug f)) val)"
| "PHPValue_as_string f PInfinity = ''<infinity>''"
| "PHPValue_as_string f PWildcard = ''<wildcard>''"

text \<open>\<^verbatim>\<open>impl Display for PHPValue\<close>, which \<^verbatim>\<open>to_string\<close> calls.\<close>
definition PHPValue_fmt :: "php_externs \<Rightarrow> PHPValue \<Rightarrow> string" where
  "PHPValue_fmt f v = PHPValue_as_string f v"

section \<open>The classes that wrap a value\<close>

record GeoJSON = GeoJSON_v :: string
record Json = Json_v :: "(string \<times> PHPValue) list"
record BLOB = BLOB_v :: bytes
record HLL = HLL_v :: bytes

definition GeoJSON_from_zval :: "zval \<Rightarrow> GeoJSON option" where
  "GeoJSON_from_zval z = (case z of ZObject (ObjGeoJSON s) \<Rightarrow> Some \<lparr>GeoJSON_v = s\<rparr> | _ \<Rightarrow> None)"

definition GeoJSON_get_value :: "GeoJSON \<Rightarrow> string" where
  "GeoJSON_get_value g = GeoJSON_v g"

definition GeoJSON_set_value :: "string \<Rightarrow> GeoJSON \<Rightarrow> GeoJSON" where
  "GeoJSON_set_value geo g = g\<lparr>GeoJSON_v := geo\<rparr>"

definition GeoJSON_as_string :: "php_externs \<Rightarrow> GeoJSON \<Rightarrow> string" where
  "GeoJSON_as_string f g = PHPValue_as_string f (PGeoJSON (GeoJSON_v g))"

definition GeoJSON_fmt :: "php_externs \<Rightarrow> GeoJSON \<Rightarrow> string" where
  "GeoJSON_fmt f g = GeoJSON_as_string f g"

definition Json_get_value :: "Json \<Rightarrow> (string \<times> PHPValue) list" where
  "Json_get_value j = Json_v j"

definition Json_set_value :: "(string \<times> PHPValue) list \<Rightarrow> Json \<Rightarrow> Json" where
  "Json_set_value v j = j\<lparr>Json_v := v\<rparr>"

definition Json_as_string :: "php_externs \<Rightarrow> Json \<Rightarrow> string" where
  "Json_as_string f j = PHPValue_as_string f (PJson (Json_v j))"

definition Json_fmt :: "php_externs \<Rightarrow> Json \<Rightarrow> string" where
  "Json_fmt f j = Json_as_string f j"

definition Infinity_from_zval :: "zval \<Rightarrow> unit option" where
  "Infinity_from_zval z = (case z of ZObject ObjInfinity \<Rightarrow> Some () | _ \<Rightarrow> None)"

definition Wildcard_from_zval :: "zval \<Rightarrow> unit option" where
  "Wildcard_from_zval z = (case z of ZObject ObjWildcard \<Rightarrow> Some () | _ \<Rightarrow> None)"

definition BLOB_from_zval :: "zval \<Rightarrow> BLOB option" where
  "BLOB_from_zval z = (case z of ZObject (ObjBLOB b) \<Rightarrow> Some \<lparr>BLOB_v = b\<rparr> | _ \<Rightarrow> None)"

text \<open>The \<^verbatim>\<open>Binary<u8>\<close> is the PHP string of these bytes.\<close>
definition BLOB_get_binary :: "BLOB \<Rightarrow> zval" where
  "BLOB_get_binary b = ZString (BLOB_v b)"

definition BLOB_get_value :: "BLOB \<Rightarrow> bytes" where
  "BLOB_get_value b = BLOB_v b"

definition BLOB_set_value :: "bytes \<Rightarrow> BLOB \<Rightarrow> BLOB" where
  "BLOB_set_value blob b = b\<lparr>BLOB_v := blob\<rparr>"

definition BLOB_as_string :: "php_externs \<Rightarrow> BLOB \<Rightarrow> string" where
  "BLOB_as_string f b = PHPValue_as_string f (PBlob (BLOB_v b))"

definition BLOB_equals :: "BLOB \<Rightarrow> BLOB \<Rightarrow> bool" where
  "BLOB_equals b other \<longleftrightarrow> BLOB_v b = BLOB_v other"

definition BLOB_fmt :: "php_externs \<Rightarrow> BLOB \<Rightarrow> string" where
  "BLOB_fmt f b = BLOB_as_string f b"

definition HLL_from_zval :: "zval \<Rightarrow> HLL option" where
  "HLL_from_zval z = (case z of ZObject (ObjHLL b) \<Rightarrow> Some \<lparr>HLL_v = b\<rparr> | _ \<Rightarrow> None)"

definition HLL_get_value :: "HLL \<Rightarrow> bytes" where
  "HLL_get_value h = HLL_v h"

definition HLL_set_value :: "bytes \<Rightarrow> HLL \<Rightarrow> HLL" where
  "HLL_set_value hll h = h\<lparr>HLL_v := hll\<rparr>"

definition HLL_as_string :: "php_externs \<Rightarrow> HLL \<Rightarrow> string" where
  "HLL_as_string f h = PHPValue_as_string f (PHLL (HLL_v h))"

definition HLL_fmt :: "php_externs \<Rightarrow> HLL \<Rightarrow> string" where
  "HLL_fmt f h = HLL_as_string f h"

section \<open>Handing a value to PHP\<close>

text \<open>
  The loop that fills a PHP array from a map, over the text of each key and the conversion
  of each value; an entry with the key of an earlier one replaces its value. A refused key
  panics (\<^verbatim>\<open>expect("error converting hash")\<close>).
\<close>
fun zend_fill ::
  "php_externs \<Rightarrow> (string \<times> (panic + zval)) list \<Rightarrow> (array_key \<times> zval) list \<Rightarrow>
   panic + (array_key \<times> zval) list" where
  "zend_fill f [] arr = Inr arr"
| "zend_fill f ((k, v) # h) arr =
     sbind v (\<lambda>v'.
       case zend_insert_key f k of
         None \<Rightarrow> Inl ExpectErr
       | Some key \<Rightarrow> zend_fill f h (hm_insert (=) key v' arr))"

text \<open>
  \<^verbatim>\<open>impl IntoZval for PHPValue\<close>; \<^verbatim>\<open>zv.set_array(l)\<close> of a \<^verbatim>\<open>Vec\<close> numbers the
  elements from 0, \<^verbatim>\<open>ui as i64\<close> keeps the bits.
\<close>
primrec PHPValue_set_zval :: "php_externs \<Rightarrow> PHPValue \<Rightarrow> panic + zval" where
  "PHPValue_set_zval f PNil = Inr ZNull"
| "PHPValue_set_zval f (PBool b) = Inr (if b then ZTrue else ZFalse)"
| "PHPValue_set_zval f (PInt i) = Inr (ZLong i)"
| "PHPValue_set_zval f (PUInt ui) = Inr (ZLong ui)"
| "PHPValue_set_zval f (PFloat d) = Inr (ZDouble d)"
| "PHPValue_set_zval f (PString s) = Inr (ZString (as_bytes s))"
| "PHPValue_set_zval f (PList l) =
     sbind (ssequence (map (PHPValue_set_zval f) l)) (\<lambda>vs.
       Inr (ZArray (zip (map (\<lambda>i. LongKey (of_nat i)) [0..<length vs]) vs)))"
| "PHPValue_set_zval f (PJson h) =
     sbind (zend_fill f (map (map_prod (\<lambda>k. k) (PHPValue_set_zval f)) h) []) (\<lambda>arr. Inr (ZArray arr))"
| "PHPValue_set_zval f (PHashMap h) =
     sbind (zend_fill f (map (map_prod (PHPValue_fmt f) (\<lambda>v. v))
         (map (map_prod (\<lambda>k. k) (PHPValue_set_zval f)) h)) [])
       (\<lambda>arr. Inr (ZArray arr))"
| "PHPValue_set_zval f (PGeoJSON s) = Inr (ZObject (ObjGeoJSON s))"
| "PHPValue_set_zval f (PBlob b) = Inr (ZObject (ObjBLOB b))"
| "PHPValue_set_zval f (PHLL b) = Inr (ZObject (ObjHLL b))"
| "PHPValue_set_zval f PInfinity = Inr (ZObject ObjInfinity)"
| "PHPValue_set_zval f PWildcard = Inr (ZObject ObjWildcard)"

text \<open>What PHP hands back: the abstract description of the trip.\<close>
primrec php_form :: "php_externs \<Rightarrow> PHPValue \<Rightarrow> PHPValue" where
  "php_form f PNil = PNil"
| "php_form f (PBool b) = PBool b"
| "php_form f (PInt i) = PInt i"
| "php_form f (PUInt u) = PInt u"
| "php_form f (PFloat d) = PFloat d"
| "php_form f (PString s) = PString s"
| "php_form f (PBlob b) = PBlob b"
| "php_form f (PList l) = PList (map (php_form f) l)"
| "php_form f (PHashMap h) =
     (if h = [] then PList []
      else PHashMap (map (map_prod (\<lambda>k. PString (PHPValue_fmt f k)) (\<lambda>v. v))
        (map (map_prod (\<lambda>k. k) (php_form f)) h)))"
| "php_form f (PJson h) =
     (if h = [] then PList []
      else PHashMap (map (map_prod PString (\<lambda>v. v)) (map (map_prod (\<lambda>k. k) (php_form f)) h)))"
| "php_form f (PGeoJSON s) = PGeoJSON s"
| "php_form f (PHLL b) = PHLL b"
| "php_form f PWildcard = PWildcard"
| "php_form f PInfinity = PInfinity"

text \<open>Every string inside a value is a Rust string: its bytes are UTF-8.\<close>
primrec utf8_strings :: "PHPValue \<Rightarrow> bool" where
  "utf8_strings PNil = True"
| "utf8_strings (PBool b) = True"
| "utf8_strings (PInt i) = True"
| "utf8_strings (PUInt u) = True"
| "utf8_strings (PFloat d) = True"
| "utf8_strings (PString s) = utf8_valid (as_bytes s)"
| "utf8_strings (PBlob b) = True"
| "utf8_strings (PList l) = list_all (\<lambda>b. b) (map utf8_strings l)"
| "utf8_strings (PHashMap h) =
     list_all (\<lambda>(a, b). a \<and> b) (map (map_prod utf8_strings utf8_strings) h)"
| "utf8_strings (PJson h) =
     list_all (\<lambda>(k, b). utf8_valid (as_bytes k) \<and> b) (map (map_prod (\<lambda>k. k) utf8_strings) h)"
| "utf8_strings (PGeoJSON s) = True"
| "utf8_strings (PHLL b) = True"
| "utf8_strings PWildcard = True"
| "utf8_strings PInfinity = True"

definition nul_free :: "string \<Rightarrow> bool" where
  "nul_free s \<longleftrightarrow> CHR 0x00 \<notin> set s"

text \<open>The texts of the keys of every map inside a value satisfy a condition.\<close>
primrec all_key_texts :: "php_externs \<Rightarrow> (string list \<Rightarrow> bool) \<Rightarrow> PHPValue \<Rightarrow> bool" where
  "all_key_texts f P PNil = True"
| "all_key_texts f P (PBool b) = True"
| "all_key_texts f P (PInt i) = True"
| "all_key_texts f P (PUInt u) = True"
| "all_key_texts f P (PFloat d) = True"
| "all_key_texts f P (PString s) = True"
| "all_key_texts f P (PBlob b) = True"
| "all_key_texts f P (PList l) = list_all (\<lambda>b. b) (map (all_key_texts f P) l)"
| "all_key_texts f P (PHashMap h) =
     (P (map (\<lambda>(k, v). PHPValue_fmt f k) h) \<and>
      list_all (\<lambda>(k, b). b) (map (map_prod (\<lambda>k. k) (all_key_texts f P)) h))"
| "all_key_texts f P (PJson h) =
     (P (map fst h) \<and> list_all (\<lambda>(k, b). b) (map (map_prod (\<lambda>k. k) (all_key_texts f P)) h))"
| "all_key_texts f P (PGeoJSON s) = True"
| "all_key_texts f P (PHLL b) = True"
| "all_key_texts f P PWildcard = True"
| "all_key_texts f P PInfinity = True"

section \<open>Texts without NUL\<close>

lemma nul_free_show_nat [simp]: "nul_free (show_nat n)"
  using show_nat_digits by (fastforce simp: nul_free_def)

lemma nul_free_show_i64 [simp]: "nul_free (show_i64 w)"
  using nul_free_show_nat by (auto simp: show_i64_def nul_free_def)

section \<open>Filling a PHP array\<close>

lemma php_externs_ok_key: "php_externs_ok f \<Longrightarrow> nul_free s \<Longrightarrow> zend_insert_key f s = Some (StringKey s)"
  by (simp add: php_externs_ok_def nul_free_def)

lemma php_externs_ok_nul: "php_externs_ok f \<Longrightarrow> \<not> nul_free s \<Longrightarrow> zend_insert_key f s = None"
  by (simp add: php_externs_ok_def nul_free_def)

lemma zend_fill_runs:
  assumes "php_externs_ok f"
  shows "(\<exists>arr'. zend_fill f h arr = Inr arr') \<longleftrightarrow>
    list_all (\<lambda>(k, v). nul_free k \<and> (\<exists>z. v = Inr z)) h"
proof (induction h arbitrary: arr)
  case (Cons e h)
  obtain k v where e: "e = (k, v)" by (cases e)
  show ?case
    using Cons php_externs_ok_key [OF assms, of k] php_externs_ok_nul [OF assms, of k]
    by (cases "nul_free k"; cases v) (auto simp: e)
qed simp

lemma zend_fill_distinct:
  assumes "php_externs_ok f" "list_all nul_free (map fst h)" "distinct (map fst h)"
    and "\<forall>k \<in> set (map fst h). StringKey k \<notin> fst ` set arr"
  shows "zend_fill f (map (map_prod (\<lambda>k. k) Inr) h) arr = Inr (arr @ map (map_prod StringKey (\<lambda>v. v)) h)"
  using assms(2-)
proof (induction h arbitrary: arr)
  case (Cons e h)
  obtain k v where e: "e = (k, v)" by (cases e)
  have fresh: "hm_insert (=) (StringKey k) v arr = arr @ [(StringKey k, v)]"
    using Cons.prems by (intro hm_insert_fresh) (force simp: e list_all_iff)
  have "zend_fill f (map (map_prod (\<lambda>k. k) Inr) h) (arr @ [(StringKey k, v)]) =
      Inr ((arr @ [(StringKey k, v)]) @ map (map_prod StringKey (\<lambda>v. v)) h)"
    by (rule Cons.IH) (use Cons.prems in \<open>auto simp: e\<close>)
  then show ?case
    using Cons.prems by (simp add: e fresh php_externs_ok_key [OF assms(1)])
qed simp

lemma zarray_list_ret: "zarray_list (map (\<lambda>v. ret (Some v)) l) acc = ret (acc @ l)"
  by (induction l arbitrary: acc) auto

lemma zarray_strings_ret:
  assumes "distinct (map fst h)" "\<forall>k \<in> set (map fst h). PString k \<notin> fst ` set acc"
  shows "zarray_strings x (map (map_prod StringKey (\<lambda>v. ret (Some v))) h) acc =
    ret (acc @ map (map_prod PString (\<lambda>v. v)) h)"
  using assms
proof (induction h arbitrary: acc)
  case (Cons e h)
  obtain k v where e: "e = (k, v)" by (cases e)
  have fresh: "hm_insert (PHPValue_eq x) (PString k) v acc = acc @ [(PString k, v)]"
    using Cons.prems by (intro hm_insert_fresh) (force simp: e list_all_iff)
  have "zarray_strings x (map (map_prod StringKey (\<lambda>v. ret (Some v))) h) (acc @ [(PString k, v)]) =
      ret ((acc @ [(PString k, v)]) @ map (map_prod PString (\<lambda>v. v)) h)"
    by (rule Cons.IH) (use Cons.prems in \<open>auto simp: e\<close>)
  then show ?case
    by (simp add: e HashMap_insert_def fresh)
qed simp

section \<open>The trip through PHP\<close>

text \<open>An array with a string key is read by the last branch of \<open>from_zval\<close>.\<close>
lemma from_zval_string_keys:
  assumes "externs_ok x" "h \<noteq> []" "distinct (map fst h)"
    and "\<And>k a. (k, a) \<in> set h \<Longrightarrow> from_zval x (c a) = ret (Some (g a))"
  shows "from_zval x (ZArray (map (map_prod StringKey c) h)) =
    ret (Some (PHashMap (map (map_prod PString g) h)))"
proof -
  let ?keys = "map (\<lambda>e. StringKey (fst e)) h"
  obtain k a h' where h: "h = (k, a) # h'" using assms(2) by (cases h) auto
  have keys: "\<not> has_sequential_keys x ?keys" "\<not> has_numerical_keys x ?keys"
    using assms(1) by (auto simp: externs_ok_def h upt_conv_Cons simp del: upt_Suc)
  have conv: "map (map_prod StringKey (\<lambda>a. from_zval x (c a))) h =
      map (map_prod StringKey (\<lambda>v. ret (Some v))) (map (map_prod (\<lambda>k. k) g) h)"
    using assms(4) by auto
  have "zarray_strings x (map (map_prod StringKey (\<lambda>a. from_zval x (c a))) h) [] =
      ret (map (map_prod PString g) h)"
    unfolding conv using zarray_strings_ret [of "map (map_prod (\<lambda>k. k) g) h" "[]" x] assms(3)
    by (simp add: comp_def map_prod.compositionality)
  then show ?thesis
    using keys by (simp add: comp_def map_prod.compositionality)
qed

lemma map_snd_map_prod: "map snd (map (map_prod g h) xs) = map h (map snd xs)"
  by (induction xs) auto

lemma from_zval_list:
  assumes "externs_ok x" "\<And>a. a \<in> set l \<Longrightarrow> from_zval x (c a) = ret (Some (g a))"
  shows "from_zval x (ZArray (zip (map (\<lambda>i. LongKey (of_nat i)) [0..<length l]) (map c l))) =
    ret (Some (PList (map g l)))"
proof -
  let ?arr = "zip (map (\<lambda>i. LongKey (of_nat i)) [0..<length l]) (map c l)"
  have "has_sequential_keys x (map fst ?arr)"
    using assms(1) by (simp add: externs_ok_def)
  moreover have "map snd (map (map_prod (\<lambda>k. k) (from_zval x)) ?arr) = map (from_zval x) (map snd ?arr)"
    by (rule map_snd_map_prod)
  moreover have "map (from_zval x) (map snd ?arr) = map (\<lambda>v. ret (Some v)) (map g l)"
    by (subst map_snd_zip) (use assms(2) in simp_all)
  ultimately show ?thesis
    using zarray_list_ret [of "map g l" "[]"] by (simp del: map_map)
qed

lemma from_zval_empty_array: "externs_ok x \<Longrightarrow> from_zval x (ZArray []) = ret (Some (PList []))"
  using from_zval_list [of x "[]"] by simp

text \<open>A map whose key texts differ and have no NUL byte.\<close>
lemma string_map_trip:
  assumes "externs_ok x" "php_externs_ok f" "distinct (map fst h)" "list_all nul_free (map fst h)"
    and "\<And>v. v \<in> snd ` set h \<Longrightarrow> \<exists>z. PHPValue_set_zval f v = Inr z \<and> from_zval x z = ret (Some (g v))"
  shows "\<exists>arr. zend_fill f (map (map_prod (\<lambda>k. k) (PHPValue_set_zval f)) h) [] = Inr arr \<and>
    from_zval x (ZArray arr) =
      ret (Some (if h = [] then PList [] else PHashMap (map (map_prod PString g) h)))"
proof -
  obtain c where c: "\<And>v. v \<in> snd ` set h \<Longrightarrow> PHPValue_set_zval f v = Inr (c v) \<and>
      from_zval x (c v) = ret (Some (g v))" using assms(5) by metis
  have conv: "map (map_prod (\<lambda>k. k) (PHPValue_set_zval f)) h =
      map (map_prod (\<lambda>k. k) Inr) (map (map_prod (\<lambda>k. k) c) h)"
    using c by force
  have fill: "zend_fill f (map (map_prod (\<lambda>k. k) (PHPValue_set_zval f)) h) [] =
      Inr (map (map_prod StringKey c) h)"
    unfolding conv by (subst zend_fill_distinct [OF assms(2)])
      (use assms(3,4) in \<open>simp_all add: comp_def map_prod.compositionality\<close>)
  have read: "from_zval x (ZArray (map (map_prod StringKey c) h)) = ret (Some (PHashMap (map (map_prod PString g) h)))"
    if "h \<noteq> []"
    by (rule from_zval_string_keys [OF assms(1) that assms(3)]) (use c in force)
  show ?thesis
    by (rule exI [of _ "map (map_prod StringKey c) h"])
      (cases "h = []"; simp only: fill read from_zval_empty_array [OF assms(1)] list.map zend_fill.simps if_True if_False simp_thms)
qed

lemma php_trip:
  assumes "externs_ok x" "php_externs_ok f" "utf8_strings v"
    and "all_key_texts f (\<lambda>ks. distinct ks \<and> list_all nul_free ks) v"
  shows "\<exists>z. PHPValue_set_zval f v = Inr z \<and> from_zval x z = ret (Some (php_form f v))"
  using assms(3-)
proof (induction v rule: PHPValue_nested_induct)
  case (List l)
  then have "\<forall>v \<in> set l. \<exists>z. PHPValue_set_zval f v = Inr z \<and> from_zval x z = ret (Some (php_form f v))"
    by (auto simp: list_all_iff)
  then obtain c where c: "\<forall>v \<in> set l. PHPValue_set_zval f v = Inr (c v) \<and>
      from_zval x (c v) = ret (Some (php_form f v))" by metis
  then have "ssequence (map (PHPValue_set_zval f) l) = Inr (map c l)"
    by (intro ssequence_map_Inr) auto
  with from_zval_list [OF assms(1), of l c "php_form f"] c show ?case by simp
next
  case (HashMap h)
  let ?h = "map (map_prod (PHPValue_fmt f) (\<lambda>v. v)) h"
  obtain arr where "zend_fill f (map (map_prod (\<lambda>k. k) (PHPValue_set_zval f)) ?h) [] = Inr arr"
      "from_zval x (ZArray arr) =
        ret (Some (if ?h = [] then PList [] else PHashMap (map (map_prod PString (php_form f)) ?h)))"
    using string_map_trip [OF assms(1,2), of ?h "php_form f"] HashMap
    by (fastforce simp: list_all_iff comp_def case_prod_unfold)
  then show ?case by (simp add: comp_def map_prod.compositionality)
next
  case (Json h)
  obtain arr where "zend_fill f (map (map_prod (\<lambda>k. k) (PHPValue_set_zval f)) h) [] = Inr arr"
      "from_zval x (ZArray arr) =
        ret (Some (if h = [] then PList [] else PHashMap (map (map_prod PString (php_form f)) h)))"
    using string_map_trip [OF assms(1,2), of h "php_form f"] Json
    by (fastforce simp: list_all_iff)
  then show ?case by (simp add: comp_def map_prod.compositionality)
qed (auto simp: of_bytes_as_bytes)


lemma set_zval_runs:
  assumes "php_externs_ok f"
  shows "(\<exists>z. PHPValue_set_zval f v = Inr z) \<longleftrightarrow> all_key_texts f (list_all nul_free) v"
proof (induction v rule: PHPValue_nested_induct)
  case (List l)
  then show ?case by (auto simp: sbind_Inr_iff ssequence_runs list_all_iff)
next
  case (HashMap h)
  then have "(\<exists>z. PHPValue_set_zval f (snd e) = Inr z) \<longleftrightarrow> all_key_texts f (list_all nul_free) (snd e)"
    if "e \<in> set h" for e using that by (cases e) auto
  then show ?case
    by (auto simp: sbind_Inr_iff zend_fill_runs [OF assms] list.pred_set case_prod_unfold)
next
  case (Json h)
  then have "(\<exists>z. PHPValue_set_zval f (snd e) = Inr z) \<longleftrightarrow> all_key_texts f (list_all nul_free) (snd e)"
    if "e \<in> set h" for e using that by (cases e) auto
  then show ?case
    by (auto simp: sbind_Inr_iff zend_fill_runs [OF assms] list.pred_set case_prod_unfold)
qed auto

text \<open>
  Values with signed integers only, no JSON value, and maps that have an entry and string
  keys only: the values that PHP keeps.
\<close>
primrec php_stable :: "PHPValue \<Rightarrow> bool" where
  "php_stable PNil = True"
| "php_stable (PBool b) = True"
| "php_stable (PInt i) = True"
| "php_stable (PUInt u) = False"
| "php_stable (PFloat d) = True"
| "php_stable (PString s) = True"
| "php_stable (PBlob b) = True"
| "php_stable (PList l) = list_all (\<lambda>b. b) (map php_stable l)"
| "php_stable (PHashMap h) =
     (h \<noteq> [] \<and> list_all (\<lambda>(k, b). k \<in> range PString \<and> b) (map (map_prod (\<lambda>k. k) php_stable) h))"
| "php_stable (PJson h) = False"
| "php_stable (PGeoJSON s) = True"
| "php_stable (PHLL b) = True"
| "php_stable PWildcard = True"
| "php_stable PInfinity = True"

lemma PHPValue_fmt_PString [simp]: "PHPValue_fmt f (PString s) = s"
  by (simp add: PHPValue_fmt_def)

lemma map_fixed: "map g l = l \<longleftrightarrow> (\<forall>a \<in> set l. g a = a)"
  by (induction l) auto

lemma php_form_stable: "php_form f v = v \<longleftrightarrow> php_stable v"
proof (induction v rule: PHPValue_nested_induct)
  case (List l)
  then show ?case by (simp add: list_all_iff map_fixed)
next
  case (HashMap h)
  have "map_prod (\<lambda>k. PString (PHPValue_fmt f k)) (php_form f) e = e \<longleftrightarrow>
      (case map_prod (\<lambda>k. k) php_stable e of (k, b) \<Rightarrow> k \<in> range PString \<and> b)" if "e \<in> set h" for e
    using HashMap that by (cases e) (auto simp: image_iff intro: sym)
  then have "(\<forall>e \<in> set h. map_prod (\<lambda>k. PString (PHPValue_fmt f k)) (php_form f) e = e) \<longleftrightarrow>
      (\<forall>e \<in> set h. case map_prod (\<lambda>k. k) php_stable e of (k, b) \<Rightarrow> k \<in> range PString \<and> b)"
    by (intro ball_cong) auto
  then show ?case
    by (simp add: list_all_iff comp_def map_prod.compositionality map_fixed)
qed auto


lemma int_key_texts:
  assumes "distinct is"
  shows "distinct (map show_i64 is) \<and> list_all nul_free (map show_i64 is)"
  using assms by (auto simp: distinct_map inj_on_def list_all_iff dest: show_i64_inj)

lemma all_key_texts_conj:
  "all_key_texts f (\<lambda>ks. P ks \<and> Q ks) v \<longleftrightarrow> all_key_texts f P v \<and> all_key_texts f Q v"
  by (induction v rule: PHPValue_nested_induct) (fastforce simp: list_all_iff)+

lemma hm_distinct_strings:
  "hm_distinct (PHPValue_eq x) h \<Longrightarrow> \<forall>k \<in> fst ` set h. k \<in> range PString \<Longrightarrow>
    distinct (map (\<lambda>(k, v). PHPValue_fmt f k) h)"
  by (induction h) (force simp: list_all_iff)+

lemma stable_key_texts: "wire_stable x v \<Longrightarrow> php_stable v \<Longrightarrow> all_key_texts f distinct v"
proof (induction v rule: PHPValue_nested_induct)
  case (HashMap h)
  have "distinct (map (\<lambda>(k, v). PHPValue_fmt f k) h)"
    by (rule hm_distinct_strings) (use HashMap.prems in \<open>force simp: list_all_iff\<close>)+
  with HashMap show ?case by (fastforce simp: list_all_iff)
qed (auto simp: list_all_iff)

lemma map_of_hm_insert: "map_of (hm_insert (=) k v m) = (map_of m)(k \<mapsto> v)"
  by (induction m) auto

lemma zend_fill_keys:
  assumes "php_externs_ok f" and "zend_fill f h [] = Inr arr"
  shows "distinct (map fst arr) \<and> fst ` set arr = StringKey ` fst ` set h"
proof -
  have "distinct (map fst r) \<and> fst ` set r = fst ` set acc \<union> StringKey ` fst ` set h"
    if "zend_fill f h acc = Inr r" "distinct (map fst acc)" for acc r
    using that
  proof (induction h arbitrary: acc)
    case (Cons e h)
    obtain k v where e: "e = (k, v)" by (cases e)
    obtain z where z: "v = Inr z" "nul_free k" "zend_fill f h (hm_insert (=) (StringKey k) z acc) = Inr r"
      using Cons.prems(1) php_externs_ok_key [OF assms(1), of k] php_externs_ok_nul [OF assms(1), of k]
      by (cases "nul_free k") (auto simp: e sbind_Inr_iff)
    have ins: "distinct (map fst (hm_insert (=) (StringKey k) z acc))"
      "fst ` set (hm_insert (=) (StringKey k) z acc) = insert (StringKey k) (fst ` set acc)"
      using Cons.prems(2) unfolding set_map [symmetric] map_fst_hm_insert
      by (auto simp: list_ex_iff)
    show ?case using Cons.IH [OF z(3) ins(1)] ins(2) by (auto simp: e)
  qed simp
  from this [OF assms(2)] show ?thesis by simp
qed

lemma zend_fill_last:
  assumes "php_externs_ok f" and "zend_fill f (h @ [(k, v)]) acc = Inr arr"
  shows "map_of arr (StringKey k) = Some (projr v)"
  using assms(2)
proof (induction h arbitrary: acc)
  case Nil
  then show ?case
    using php_externs_ok_key [OF assms(1), of k] php_externs_ok_nul [OF assms(1), of k]
    by (cases "nul_free k") (auto simp: sbind_Inr_iff map_of_hm_insert)
next
  case (Cons e h)
  then show ?case by (cases e) (auto simp: sbind_Inr_iff split: option.splits)
qed

section \<open>Properties\<close>

text \<open>C6. A value that the client returns to PHP and reads back: when the texts of the keys of
  each map inside it differ and have no NUL byte, handing it over succeeds and reading it
  back gives its PHP form: unsigned integers become signed, the keys of a map become their
  texts, a JSON value becomes a map, an empty map or JSON value becomes an empty list, and
  everything else is unchanged.\<close>
theorem php_holds_value:
  assumes "externs_ok x" and "php_externs_ok f" and "utf8_strings v"
    and "all_key_texts f (\<lambda>ks. distinct ks \<and> list_all nul_free ks) v"
  shows "\<exists>z. PHPValue_set_zval f v = Inr z \<and> from_zval x z = ret (Some (php_form f v))"
  using assms by (rule php_trip)

theorem php_holds_value_witness:
  "\<exists>z. PHPValue_set_zval php_externs0
      (PList [PInt 7, PHashMap [(PInt 1, PBool True), (PString ''a'', PUInt 2)], PHashMap []]) = Inr z \<and>
    from_zval externs0 z =
      ret (Some (PList [PInt 7, PHashMap [(PString ''1'', PBool True), (PString ''a'', PInt 2)], PList []]))"
proof -
  have one: "show_i64 1 = ''1''"
    by code_simp
  show ?thesis
    using php_holds_value [OF externs0_ok php_externs0_ok,
        of "PList [PInt 7, PHashMap [(PInt 1, PBool True), (PString ''a'', PUInt 2)], PHashMap []]"]
    by (simp add: PHPValue_fmt_def one nul_free_def as_bytes_def)
qed

text \<open>C35. Handing a value to PHP panics exactly when some map inside it has a key whose text
  has a NUL byte.\<close>
theorem set_zval_panics_iff:
  assumes "php_externs_ok f"
  shows "(\<exists>p. PHPValue_set_zval f v = Inl p) \<longleftrightarrow> \<not> all_key_texts f (list_all nul_free) v"
  using set_zval_runs [OF assms, of v] by (cases "PHPValue_set_zval f v") auto

theorem set_zval_panics_iff_witness:
  "\<exists>p. PHPValue_set_zval php_externs0 (PHashMap [(PString [CHR 0x00], PNil)]) = Inl p"
  by (subst set_zval_panics_iff [OF php_externs0_ok]) (simp add: nul_free_def)

text \<open>A value decoded from an answer of the manager whose maps have an entry and string keys
  only (without NUL bytes), with no JSON value inside, is read back from PHP as it was, and
  what the client then sends is what it would have sent for the decoded value.\<close>
lemma decoded_value_through_php:
  assumes "externs_ok x" and "php_externs_ok f"
    and "PHPValue_from_Value x p = ret v" and "php_stable v" and "utf8_strings v"
    and "all_key_texts f (list_all nul_free) v"
  shows "\<exists>z. PHPValue_set_zval f v = Inr z \<and> from_zval x z = ret (Some v) \<and>
    PHPValue_from_Value x (Value_from_PHPValue v) = ret v"
proof -
  have ws: "wire_stable x v" using assms(3) by (rule decoded_wire_stable)
  have "all_key_texts f (\<lambda>ks. distinct ks \<and> list_all nul_free ks) v"
    using stable_key_texts [OF ws assms(4)] assms(6) by (simp add: all_key_texts_conj)
  from php_trip [OF assms(1,2,5) this] show ?thesis
    using php_form_stable [THEN iffD2, OF assms(4)] wire_stable_round_trip [OF ws] by simp
qed

theorem decoded_value_through_php_witness:
  "\<exists>z. PHPValue_set_zval php_externs0 (PHashMap [(PString ''a'', PInt 5)]) = Inr z \<and>
    from_zval externs0 z = ret (Some (PHashMap [(PString ''a'', PInt 5)])) \<and>
    PHPValue_from_Value externs0 (Value_from_PHPValue (PHashMap [(PString ''a'', PInt 5)])) =
      ret (PHashMap [(PString ''a'', PInt 5)])"
  by (rule decoded_value_through_php [OF externs0_ok php_externs0_ok,
        of "V_M [(Some (V_S ''a''), Some (V_I 5))]"])
    (simp_all add: HashMap_insert_def nul_free_def as_bytes_def)

text \<open>The array that PHP gets for a map has one entry for each text of a key: the entries of
  two keys with the same text, such as the integer 1 and the string "1", become one entry,
  with the value of the later one.\<close>
lemma php_array_entries:
  assumes "php_externs_ok f" and "PHPValue_set_zval f (PHashMap h) = Inr z"
  shows "\<exists>arr. z = ZArray arr \<and> distinct (map fst arr) \<and>
    fst ` set arr = StringKey ` PHPValue_as_string f ` fst ` set h \<and>
    (\<forall>h' k v. h = h' @ [(k, v)] \<longrightarrow>
      map_of arr (StringKey (PHPValue_as_string f k)) = Some (projr (PHPValue_set_zval f v)))"
proof -
  let ?h = "map (map_prod (PHPValue_fmt f) (PHPValue_set_zval f)) h"
  obtain arr where arr: "zend_fill f ?h [] = Inr arr" "z = ZArray arr"
    using assms(2) by (auto simp: sbind_Inr_iff comp_def map_prod.compositionality)
  have "map_of arr (StringKey (PHPValue_as_string f k)) = Some (projr (PHPValue_set_zval f v))"
    if "h = h' @ [(k, v)]" for h' k v
    using zend_fill_last [OF assms(1), of "map (map_prod (PHPValue_fmt f) (PHPValue_set_zval f)) h'"] arr(1)
    by (simp add: that PHPValue_fmt_def)
  with zend_fill_keys [OF assms(1) arr(1)] arr(2) show ?thesis
    by (auto simp: PHPValue_fmt_def image_comp comp_def)
qed

theorem php_array_entries_witness:
  "PHPValue_set_zval php_externs0 (PHashMap [(PInt 1, PBool True), (PString ''1'', PBool False)]) =
     Inr (ZArray [(StringKey ''1'', ZFalse)]) \<and>
   fst ` set [(StringKey ''1'', ZFalse)] =
     StringKey ` PHPValue_as_string php_externs0 ` {PInt 1, PString ''1''}"
proof -
  have one: "show_i64 1 = ''1''" by code_simp
  then have "PHPValue_set_zval php_externs0 (PHashMap [(PInt 1, PBool True), (PString ''1'', PBool False)]) =
     Inr (ZArray [(StringKey ''1'', ZFalse)])"
    by (simp add: PHPValue_fmt_def php_externs0_def)
  with php_array_entries [OF php_externs0_ok this] show ?thesis by simp
qed

end
