(* ===== verification/Php_Objects.thy ===== *)
theory Php_Objects
  imports Php_Values Client Collections
begin

text \<open>
  Objects of PHP as arguments: the implementations of \<^verbatim>\<open>FromZval\<close> in \<^verbatim>\<open>src/lib.rs\<close> for the
  classes that are not plain values. Each asks ext-php-rs for a reference to an object of its own
  class and clones the message inside; anything else is refused. The \<^verbatim>\<open>From\<close> conversions make an
  object of a message.
\<close>

section \<open>Objects\<close>

text \<open>The objects that the extension creates, with the contents of their classes.\<close>
datatype php_object =
    Obj_ExpType ExpType
  | Obj_Expression Expression
  | Obj_ReadModeAP ReadModeAP
  | Obj_ReadModeSC ReadModeSC
  | Obj_RecordExistsAction RecordExistsAction
  | Obj_QueryDuration QueryDuration
  | Obj_CommitLevel CommitLevel
  | Obj_ConsistencyLevel ConsistencyLevel
  | Obj_GenerationPolicy GenerationPolicy
  | Obj_Expiration Expiration
  | Obj_Concurrency Concurrency
  | Obj_ListOrderType ListOrderType
  | Obj_MapOrderType MapOrderType
  | Obj_Filter Filter
  | Obj_PartitionStatus PartitionStatus
  | Obj_PartitionFilter PartitionFilter
  | Obj_Record Record
  | Obj_UdfLanguage UdfLanguage
  | Obj_Role Role
  | Obj_Privilege Privilege
  | Obj_CdtListReturnType CdtListReturnType
  | Obj_CdtListWriteFlags CdtListWriteFlags
  | Obj_CdtListSortFlags CdtListSortFlags
  | Obj_CdtListPolicy CdtListPolicy
  | Obj_CdtListOperation CdtListOperation
  | Obj_CdtMapReturnType CdtMapReturnType
  | Obj_CdtMapWriteMode CdtMapWriteMode
  | Obj_CdtMapWriteFlags CdtMapWriteFlags
  | Obj_CdtMapPolicy CdtMapPolicy
  | Obj_CdtMapOperation CdtMapOperation
  | Obj_CdtHllWriteFlags CdtHllWriteFlags
  | Obj_CdtHllPolicy CdtHllPolicy
  | Obj_CdtHllOperation CdtHllOperation
  | Obj_CdtBitwiseWriteFlags CdtBitwiseWriteFlags
  | Obj_CdtBitwiseResizeFlags CdtBitwiseResizeFlags
  | Obj_CdtBitwiseOverflowAction CdtBitwiseOverflowAction
  | Obj_CdtBitwisePolicy CdtBitwisePolicy
  | Obj_CdtBitwiseOperation CdtBitwiseOperation
  | Obj_Key Key
  | Obj_Json Json

text \<open>An argument: an object of the extension, or any other value of PHP.\<close>
datatype php_argument = ArgObject php_object | ArgValue zval

section \<open>Reading arguments\<close>

definition ExpType_from_zval :: "php_argument \<Rightarrow> ExpType option" where
  "ExpType_from_zval z = (case z of ArgObject (Obj_ExpType f) \<Rightarrow> Some f | _ \<Rightarrow> None)"

definition Expression_from_zval :: "php_argument \<Rightarrow> Expression option" where
  "Expression_from_zval z = (case z of ArgObject (Obj_Expression f) \<Rightarrow> Some f | _ \<Rightarrow> None)"

definition ReadModeAP_from_zval :: "php_argument \<Rightarrow> ReadModeAP option" where
  "ReadModeAP_from_zval z = (case z of ArgObject (Obj_ReadModeAP f) \<Rightarrow> Some f | _ \<Rightarrow> None)"

definition ReadModeSC_from_zval :: "php_argument \<Rightarrow> ReadModeSC option" where
  "ReadModeSC_from_zval z = (case z of ArgObject (Obj_ReadModeSC f) \<Rightarrow> Some f | _ \<Rightarrow> None)"

definition RecordExistsAction_from_zval :: "php_argument \<Rightarrow> RecordExistsAction option" where
  "RecordExistsAction_from_zval z = (case z of ArgObject (Obj_RecordExistsAction f) \<Rightarrow> Some f | _ \<Rightarrow> None)"

definition QueryDuration_from_zval :: "php_argument \<Rightarrow> QueryDuration option" where
  "QueryDuration_from_zval z = (case z of ArgObject (Obj_QueryDuration f) \<Rightarrow> Some f | _ \<Rightarrow> None)"

definition CommitLevel_from_zval :: "php_argument \<Rightarrow> CommitLevel option" where
  "CommitLevel_from_zval z = (case z of ArgObject (Obj_CommitLevel f) \<Rightarrow> Some f | _ \<Rightarrow> None)"

definition ConsistencyLevel_from_zval :: "php_argument \<Rightarrow> ConsistencyLevel option" where
  "ConsistencyLevel_from_zval z = (case z of ArgObject (Obj_ConsistencyLevel f) \<Rightarrow> Some f | _ \<Rightarrow> None)"

definition GenerationPolicy_from_zval :: "php_argument \<Rightarrow> GenerationPolicy option" where
  "GenerationPolicy_from_zval z = (case z of ArgObject (Obj_GenerationPolicy f) \<Rightarrow> Some f | _ \<Rightarrow> None)"

definition Expiration_from_zval :: "php_argument \<Rightarrow> Expiration option" where
  "Expiration_from_zval z = (case z of ArgObject (Obj_Expiration f) \<Rightarrow> Some f | _ \<Rightarrow> None)"

definition Concurrency_from_zval :: "php_argument \<Rightarrow> Concurrency option" where
  "Concurrency_from_zval z = (case z of ArgObject (Obj_Concurrency f) \<Rightarrow> Some f | _ \<Rightarrow> None)"

definition ListOrderType_from_zval :: "php_argument \<Rightarrow> ListOrderType option" where
  "ListOrderType_from_zval z = (case z of ArgObject (Obj_ListOrderType f) \<Rightarrow> Some f | _ \<Rightarrow> None)"

definition MapOrderType_from_zval :: "php_argument \<Rightarrow> MapOrderType option" where
  "MapOrderType_from_zval z = (case z of ArgObject (Obj_MapOrderType f) \<Rightarrow> Some f | _ \<Rightarrow> None)"

definition Filter_from_zval :: "php_argument \<Rightarrow> Filter option" where
  "Filter_from_zval z = (case z of ArgObject (Obj_Filter f) \<Rightarrow> Some f | _ \<Rightarrow> None)"

definition PartitionStatus_from_zval :: "php_argument \<Rightarrow> PartitionStatus option" where
  "PartitionStatus_from_zval z = (case z of ArgObject (Obj_PartitionStatus f) \<Rightarrow> Some f | _ \<Rightarrow> None)"

definition PartitionFilter_from_zval :: "php_argument \<Rightarrow> PartitionFilter option" where
  "PartitionFilter_from_zval z = (case z of ArgObject (Obj_PartitionFilter f) \<Rightarrow> Some f | _ \<Rightarrow> None)"

definition Record_from_zval :: "php_argument \<Rightarrow> Record option" where
  "Record_from_zval z = (case z of ArgObject (Obj_Record f) \<Rightarrow> Some f | _ \<Rightarrow> None)"

definition UdfLanguage_from_zval :: "php_argument \<Rightarrow> UdfLanguage option" where
  "UdfLanguage_from_zval z = (case z of ArgObject (Obj_UdfLanguage f) \<Rightarrow> Some f | _ \<Rightarrow> None)"

definition Role_from_zval :: "php_argument \<Rightarrow> Role option" where
  "Role_from_zval z = (case z of ArgObject (Obj_Role f) \<Rightarrow> Some f | _ \<Rightarrow> None)"

definition Privilege_from_zval :: "php_argument \<Rightarrow> Privilege option" where
  "Privilege_from_zval z = (case z of ArgObject (Obj_Privilege f) \<Rightarrow> Some f | _ \<Rightarrow> None)"

definition CdtListReturnType_from_zval :: "php_argument \<Rightarrow> CdtListReturnType option" where
  "CdtListReturnType_from_zval z = (case z of ArgObject (Obj_CdtListReturnType f) \<Rightarrow> Some f | _ \<Rightarrow> None)"

definition CdtListWriteFlags_from_zval :: "php_argument \<Rightarrow> CdtListWriteFlags option" where
  "CdtListWriteFlags_from_zval z = (case z of ArgObject (Obj_CdtListWriteFlags f) \<Rightarrow> Some f | _ \<Rightarrow> None)"

definition CdtListSortFlags_from_zval :: "php_argument \<Rightarrow> CdtListSortFlags option" where
  "CdtListSortFlags_from_zval z = (case z of ArgObject (Obj_CdtListSortFlags f) \<Rightarrow> Some f | _ \<Rightarrow> None)"

definition CdtListPolicy_from_zval :: "php_argument \<Rightarrow> CdtListPolicy option" where
  "CdtListPolicy_from_zval z = (case z of ArgObject (Obj_CdtListPolicy f) \<Rightarrow> Some f | _ \<Rightarrow> None)"

definition CdtListOperation_from_zval :: "php_argument \<Rightarrow> CdtListOperation option" where
  "CdtListOperation_from_zval z = (case z of ArgObject (Obj_CdtListOperation f) \<Rightarrow> Some f | _ \<Rightarrow> None)"

definition CdtMapReturnType_from_zval :: "php_argument \<Rightarrow> CdtMapReturnType option" where
  "CdtMapReturnType_from_zval z = (case z of ArgObject (Obj_CdtMapReturnType f) \<Rightarrow> Some f | _ \<Rightarrow> None)"

definition CdtMapWriteMode_from_zval :: "php_argument \<Rightarrow> CdtMapWriteMode option" where
  "CdtMapWriteMode_from_zval z = (case z of ArgObject (Obj_CdtMapWriteMode f) \<Rightarrow> Some f | _ \<Rightarrow> None)"

definition CdtMapWriteFlags_from_zval :: "php_argument \<Rightarrow> CdtMapWriteFlags option" where
  "CdtMapWriteFlags_from_zval z = (case z of ArgObject (Obj_CdtMapWriteFlags f) \<Rightarrow> Some f | _ \<Rightarrow> None)"

definition CdtMapPolicy_from_zval :: "php_argument \<Rightarrow> CdtMapPolicy option" where
  "CdtMapPolicy_from_zval z = (case z of ArgObject (Obj_CdtMapPolicy f) \<Rightarrow> Some f | _ \<Rightarrow> None)"

definition CdtMapOperation_from_zval :: "php_argument \<Rightarrow> CdtMapOperation option" where
  "CdtMapOperation_from_zval z = (case z of ArgObject (Obj_CdtMapOperation f) \<Rightarrow> Some f | _ \<Rightarrow> None)"

definition CdtHllWriteFlags_from_zval :: "php_argument \<Rightarrow> CdtHllWriteFlags option" where
  "CdtHllWriteFlags_from_zval z = (case z of ArgObject (Obj_CdtHllWriteFlags f) \<Rightarrow> Some f | _ \<Rightarrow> None)"

definition CdtHllPolicy_from_zval :: "php_argument \<Rightarrow> CdtHllPolicy option" where
  "CdtHllPolicy_from_zval z = (case z of ArgObject (Obj_CdtHllPolicy f) \<Rightarrow> Some f | _ \<Rightarrow> None)"

definition CdtHllOperation_from_zval :: "php_argument \<Rightarrow> CdtHllOperation option" where
  "CdtHllOperation_from_zval z = (case z of ArgObject (Obj_CdtHllOperation f) \<Rightarrow> Some f | _ \<Rightarrow> None)"

definition CdtBitwiseWriteFlags_from_zval :: "php_argument \<Rightarrow> CdtBitwiseWriteFlags option" where
  "CdtBitwiseWriteFlags_from_zval z = (case z of ArgObject (Obj_CdtBitwiseWriteFlags f) \<Rightarrow> Some f | _ \<Rightarrow> None)"

definition CdtBitwiseResizeFlags_from_zval :: "php_argument \<Rightarrow> CdtBitwiseResizeFlags option" where
  "CdtBitwiseResizeFlags_from_zval z = (case z of ArgObject (Obj_CdtBitwiseResizeFlags f) \<Rightarrow> Some f | _ \<Rightarrow> None)"

definition CdtBitwiseOverflowAction_from_zval :: "php_argument \<Rightarrow> CdtBitwiseOverflowAction option" where
  "CdtBitwiseOverflowAction_from_zval z = (case z of ArgObject (Obj_CdtBitwiseOverflowAction f) \<Rightarrow> Some f | _ \<Rightarrow> None)"

definition CdtBitwisePolicy_from_zval :: "php_argument \<Rightarrow> CdtBitwisePolicy option" where
  "CdtBitwisePolicy_from_zval z = (case z of ArgObject (Obj_CdtBitwisePolicy f) \<Rightarrow> Some f | _ \<Rightarrow> None)"

definition CdtBitwiseOperation_from_zval :: "php_argument \<Rightarrow> CdtBitwiseOperation option" where
  "CdtBitwiseOperation_from_zval z = (case z of ArgObject (Obj_CdtBitwiseOperation f) \<Rightarrow> Some f | _ \<Rightarrow> None)"

definition Key_from_zval :: "php_argument \<Rightarrow> Key option" where
  "Key_from_zval z = (case z of ArgObject (Obj_Key f) \<Rightarrow> Some f | _ \<Rightarrow> None)"

definition Json_from_zval :: "php_argument \<Rightarrow> Json option" where
  "Json_from_zval z = (case z of ArgObject (Obj_Json f) \<Rightarrow> Some f | _ \<Rightarrow> None)"

lemmas from_zval_defs = ExpType_from_zval_def Expression_from_zval_def ReadModeAP_from_zval_def ReadModeSC_from_zval_def RecordExistsAction_from_zval_def QueryDuration_from_zval_def CommitLevel_from_zval_def ConsistencyLevel_from_zval_def GenerationPolicy_from_zval_def Expiration_from_zval_def Concurrency_from_zval_def ListOrderType_from_zval_def MapOrderType_from_zval_def Filter_from_zval_def PartitionStatus_from_zval_def PartitionFilter_from_zval_def Record_from_zval_def UdfLanguage_from_zval_def Role_from_zval_def Privilege_from_zval_def CdtListReturnType_from_zval_def CdtListWriteFlags_from_zval_def CdtListSortFlags_from_zval_def CdtListPolicy_from_zval_def CdtListOperation_from_zval_def CdtMapReturnType_from_zval_def CdtMapWriteMode_from_zval_def CdtMapWriteFlags_from_zval_def CdtMapPolicy_from_zval_def CdtMapOperation_from_zval_def CdtHllWriteFlags_from_zval_def CdtHllPolicy_from_zval_def CdtHllOperation_from_zval_def CdtBitwiseWriteFlags_from_zval_def CdtBitwiseResizeFlags_from_zval_def CdtBitwiseOverflowAction_from_zval_def CdtBitwisePolicy_from_zval_def CdtBitwiseOperation_from_zval_def Key_from_zval_def Json_from_zval_def

text \<open>The contract of a class: its reader accepts its own objects and nothing else.\<close>
locale php_class =
  fixes wrap :: "'a \<Rightarrow> php_object" and read :: "php_argument \<Rightarrow> 'a option"
  assumes read_wrap: "read (ArgObject (wrap v)) = Some v"
    and read_only: "read z = Some v \<Longrightarrow> z = ArgObject (wrap v)"
begin

lemma read_iff: "read z = Some v \<longleftrightarrow> z = ArgObject (wrap v)"
  using read_wrap read_only by auto

lemma accepts_iff: "read z \<noteq> None \<longleftrightarrow> z \<in> range (\<lambda>v. ArgObject (wrap v))"
  using read_iff by auto

end

interpretation arg_ExpType: php_class Obj_ExpType ExpType_from_zval
  by unfold_locales (auto simp: ExpType_from_zval_def split: php_argument.splits php_object.splits)

interpretation arg_Expression: php_class Obj_Expression Expression_from_zval
  by unfold_locales (auto simp: Expression_from_zval_def split: php_argument.splits php_object.splits)

interpretation arg_ReadModeAP: php_class Obj_ReadModeAP ReadModeAP_from_zval
  by unfold_locales (auto simp: ReadModeAP_from_zval_def split: php_argument.splits php_object.splits)

interpretation arg_ReadModeSC: php_class Obj_ReadModeSC ReadModeSC_from_zval
  by unfold_locales (auto simp: ReadModeSC_from_zval_def split: php_argument.splits php_object.splits)

interpretation arg_RecordExistsAction: php_class Obj_RecordExistsAction RecordExistsAction_from_zval
  by unfold_locales (auto simp: RecordExistsAction_from_zval_def split: php_argument.splits php_object.splits)

interpretation arg_QueryDuration: php_class Obj_QueryDuration QueryDuration_from_zval
  by unfold_locales (auto simp: QueryDuration_from_zval_def split: php_argument.splits php_object.splits)

interpretation arg_CommitLevel: php_class Obj_CommitLevel CommitLevel_from_zval
  by unfold_locales (auto simp: CommitLevel_from_zval_def split: php_argument.splits php_object.splits)

interpretation arg_ConsistencyLevel: php_class Obj_ConsistencyLevel ConsistencyLevel_from_zval
  by unfold_locales (auto simp: ConsistencyLevel_from_zval_def split: php_argument.splits php_object.splits)

interpretation arg_GenerationPolicy: php_class Obj_GenerationPolicy GenerationPolicy_from_zval
  by unfold_locales (auto simp: GenerationPolicy_from_zval_def split: php_argument.splits php_object.splits)

interpretation arg_Expiration: php_class Obj_Expiration Expiration_from_zval
  by unfold_locales (auto simp: Expiration_from_zval_def split: php_argument.splits php_object.splits)

interpretation arg_Concurrency: php_class Obj_Concurrency Concurrency_from_zval
  by unfold_locales (auto simp: Concurrency_from_zval_def split: php_argument.splits php_object.splits)

interpretation arg_ListOrderType: php_class Obj_ListOrderType ListOrderType_from_zval
  by unfold_locales (auto simp: ListOrderType_from_zval_def split: php_argument.splits php_object.splits)

interpretation arg_MapOrderType: php_class Obj_MapOrderType MapOrderType_from_zval
  by unfold_locales (auto simp: MapOrderType_from_zval_def split: php_argument.splits php_object.splits)

interpretation arg_Filter: php_class Obj_Filter Filter_from_zval
  by unfold_locales (auto simp: Filter_from_zval_def split: php_argument.splits php_object.splits)

interpretation arg_PartitionStatus: php_class Obj_PartitionStatus PartitionStatus_from_zval
  by unfold_locales (auto simp: PartitionStatus_from_zval_def split: php_argument.splits php_object.splits)

interpretation arg_PartitionFilter: php_class Obj_PartitionFilter PartitionFilter_from_zval
  by unfold_locales (auto simp: PartitionFilter_from_zval_def split: php_argument.splits php_object.splits)

interpretation arg_Record: php_class Obj_Record Record_from_zval
  by unfold_locales (auto simp: Record_from_zval_def split: php_argument.splits php_object.splits)

interpretation arg_UdfLanguage: php_class Obj_UdfLanguage UdfLanguage_from_zval
  by unfold_locales (auto simp: UdfLanguage_from_zval_def split: php_argument.splits php_object.splits)

interpretation arg_Role: php_class Obj_Role Role_from_zval
  by unfold_locales (auto simp: Role_from_zval_def split: php_argument.splits php_object.splits)

interpretation arg_Privilege: php_class Obj_Privilege Privilege_from_zval
  by unfold_locales (auto simp: Privilege_from_zval_def split: php_argument.splits php_object.splits)

interpretation arg_CdtListReturnType: php_class Obj_CdtListReturnType CdtListReturnType_from_zval
  by unfold_locales (auto simp: CdtListReturnType_from_zval_def split: php_argument.splits php_object.splits)

interpretation arg_CdtListWriteFlags: php_class Obj_CdtListWriteFlags CdtListWriteFlags_from_zval
  by unfold_locales (auto simp: CdtListWriteFlags_from_zval_def split: php_argument.splits php_object.splits)

interpretation arg_CdtListSortFlags: php_class Obj_CdtListSortFlags CdtListSortFlags_from_zval
  by unfold_locales (auto simp: CdtListSortFlags_from_zval_def split: php_argument.splits php_object.splits)

interpretation arg_CdtListPolicy: php_class Obj_CdtListPolicy CdtListPolicy_from_zval
  by unfold_locales (auto simp: CdtListPolicy_from_zval_def split: php_argument.splits php_object.splits)

interpretation arg_CdtListOperation: php_class Obj_CdtListOperation CdtListOperation_from_zval
  by unfold_locales (auto simp: CdtListOperation_from_zval_def split: php_argument.splits php_object.splits)

interpretation arg_CdtMapReturnType: php_class Obj_CdtMapReturnType CdtMapReturnType_from_zval
  by unfold_locales (auto simp: CdtMapReturnType_from_zval_def split: php_argument.splits php_object.splits)

interpretation arg_CdtMapWriteMode: php_class Obj_CdtMapWriteMode CdtMapWriteMode_from_zval
  by unfold_locales (auto simp: CdtMapWriteMode_from_zval_def split: php_argument.splits php_object.splits)

interpretation arg_CdtMapWriteFlags: php_class Obj_CdtMapWriteFlags CdtMapWriteFlags_from_zval
  by unfold_locales (auto simp: CdtMapWriteFlags_from_zval_def split: php_argument.splits php_object.splits)

interpretation arg_CdtMapPolicy: php_class Obj_CdtMapPolicy CdtMapPolicy_from_zval
  by unfold_locales (auto simp: CdtMapPolicy_from_zval_def split: php_argument.splits php_object.splits)

interpretation arg_CdtMapOperation: php_class Obj_CdtMapOperation CdtMapOperation_from_zval
  by unfold_locales (auto simp: CdtMapOperation_from_zval_def split: php_argument.splits php_object.splits)

interpretation arg_CdtHllWriteFlags: php_class Obj_CdtHllWriteFlags CdtHllWriteFlags_from_zval
  by unfold_locales (auto simp: CdtHllWriteFlags_from_zval_def split: php_argument.splits php_object.splits)

interpretation arg_CdtHllPolicy: php_class Obj_CdtHllPolicy CdtHllPolicy_from_zval
  by unfold_locales (auto simp: CdtHllPolicy_from_zval_def split: php_argument.splits php_object.splits)

interpretation arg_CdtHllOperation: php_class Obj_CdtHllOperation CdtHllOperation_from_zval
  by unfold_locales (auto simp: CdtHllOperation_from_zval_def split: php_argument.splits php_object.splits)

interpretation arg_CdtBitwiseWriteFlags: php_class Obj_CdtBitwiseWriteFlags CdtBitwiseWriteFlags_from_zval
  by unfold_locales (auto simp: CdtBitwiseWriteFlags_from_zval_def split: php_argument.splits php_object.splits)

interpretation arg_CdtBitwiseResizeFlags: php_class Obj_CdtBitwiseResizeFlags CdtBitwiseResizeFlags_from_zval
  by unfold_locales (auto simp: CdtBitwiseResizeFlags_from_zval_def split: php_argument.splits php_object.splits)

interpretation arg_CdtBitwiseOverflowAction: php_class Obj_CdtBitwiseOverflowAction CdtBitwiseOverflowAction_from_zval
  by unfold_locales (auto simp: CdtBitwiseOverflowAction_from_zval_def split: php_argument.splits php_object.splits)

interpretation arg_CdtBitwisePolicy: php_class Obj_CdtBitwisePolicy CdtBitwisePolicy_from_zval
  by unfold_locales (auto simp: CdtBitwisePolicy_from_zval_def split: php_argument.splits php_object.splits)

interpretation arg_CdtBitwiseOperation: php_class Obj_CdtBitwiseOperation CdtBitwiseOperation_from_zval
  by unfold_locales (auto simp: CdtBitwiseOperation_from_zval_def split: php_argument.splits php_object.splits)

interpretation arg_Key: php_class Obj_Key Key_from_zval
  by unfold_locales (auto simp: Key_from_zval_def split: php_argument.splits php_object.splits)

interpretation arg_Json: php_class Obj_Json Json_from_zval
  by unfold_locales (auto simp: Json_from_zval_def split: php_argument.splits php_object.splits)

section \<open>Objects made of messages\<close>

text \<open>
  The \<^verbatim>\<open>From\<close> conversions that put a message of the manager into its class, and the one that takes
  the message of a bin out. A class is its message in this model, so each copies its argument.
\<close>

definition QueryDuration_from_message :: "QueryDuration \<Rightarrow> QueryDuration" where "QueryDuration_from_message input = input"
definition PartitionStatus_from_message :: "PartitionStatus \<Rightarrow> PartitionStatus" where "PartitionStatus_from_message input = input"
definition UdfLanguage_from_message :: "UdfLanguage \<Rightarrow> UdfLanguage" where "UdfLanguage_from_message input = input"
definition Role_from_message :: "Role \<Rightarrow> Role" where "Role_from_message input = input"
definition Privilege_from_message :: "Privilege \<Rightarrow> Privilege" where "Privilege_from_message input = input"
definition CdtListReturnType_from_message :: "CdtListReturnType \<Rightarrow> CdtListReturnType" where "CdtListReturnType_from_message input = input"
definition CdtListWriteFlags_from_message :: "CdtListWriteFlags \<Rightarrow> CdtListWriteFlags" where "CdtListWriteFlags_from_message input = input"
definition CdtListSortFlags_from_message :: "CdtListSortFlags \<Rightarrow> CdtListSortFlags" where "CdtListSortFlags_from_message input = input"
definition CdtListPolicy_from_message :: "CdtListPolicy \<Rightarrow> CdtListPolicy" where "CdtListPolicy_from_message input = input"
definition CdtMapReturnType_from_message :: "CdtMapReturnType \<Rightarrow> CdtMapReturnType" where "CdtMapReturnType_from_message input = input"
definition CdtMapWriteMode_from_message :: "CdtMapWriteMode \<Rightarrow> CdtMapWriteMode" where "CdtMapWriteMode_from_message input = input"
definition CdtMapWriteFlags_from_message :: "CdtMapWriteFlags \<Rightarrow> CdtMapWriteFlags" where "CdtMapWriteFlags_from_message input = input"
definition CdtMapPolicy_from_message :: "CdtMapPolicy \<Rightarrow> CdtMapPolicy" where "CdtMapPolicy_from_message input = input"
definition CdtHllWriteFlags_from_message :: "CdtHllWriteFlags \<Rightarrow> CdtHllWriteFlags" where "CdtHllWriteFlags_from_message input = input"
definition CdtHllPolicy_from_message :: "CdtHllPolicy \<Rightarrow> CdtHllPolicy" where "CdtHllPolicy_from_message input = input"
definition CdtBitwiseWriteFlags_from_message :: "CdtBitwiseWriteFlags \<Rightarrow> CdtBitwiseWriteFlags" where "CdtBitwiseWriteFlags_from_message input = input"
definition CdtBitwiseResizeFlags_from_message :: "CdtBitwiseResizeFlags \<Rightarrow> CdtBitwiseResizeFlags" where "CdtBitwiseResizeFlags_from_message input = input"
definition CdtBitwiseOverflowAction_from_message :: "CdtBitwiseOverflowAction \<Rightarrow> CdtBitwiseOverflowAction" where "CdtBitwiseOverflowAction_from_message input = input"
definition CdtBitwisePolicy_from_message :: "CdtBitwisePolicy \<Rightarrow> CdtBitwisePolicy" where "CdtBitwisePolicy_from_message input = input"
definition Key_from_message :: "Key \<Rightarrow> Key" where "Key_from_message input = input"
definition Record_from_message :: "Record \<Rightarrow> Record" where "Record_from_message input = input"
definition UserRole_from_message :: "UserRole \<Rightarrow> UserRole" where "UserRole_from_message input = input"

definition Bin_into_message :: "Bin \<Rightarrow> Bin" where "Bin_into_message other = other"

text \<open>An object made of a message can be passed on: its reader gives the message back.\<close>
locale php_message = php_class wrap read
  for wrap :: "'a \<Rightarrow> php_object" and read :: "php_argument \<Rightarrow> 'a option" +
  fixes from_message :: "'a \<Rightarrow> 'a"
  assumes from_message: "from_message m = m"
begin

lemma passes_on: "read (ArgObject (wrap (from_message m))) = Some m"
  by (simp add: from_message read_wrap)

lemma passed_messages: "map (\<lambda>m. read (ArgObject (wrap (from_message m)))) ms = map Some ms"
  by (simp add: passes_on)

end

interpretation msg_QueryDuration: php_message Obj_QueryDuration QueryDuration_from_zval QueryDuration_from_message
  by unfold_locales (simp add: QueryDuration_from_message_def)

interpretation msg_PartitionStatus: php_message Obj_PartitionStatus PartitionStatus_from_zval PartitionStatus_from_message
  by unfold_locales (simp add: PartitionStatus_from_message_def)

interpretation msg_UdfLanguage: php_message Obj_UdfLanguage UdfLanguage_from_zval UdfLanguage_from_message
  by unfold_locales (simp add: UdfLanguage_from_message_def)

interpretation msg_Role: php_message Obj_Role Role_from_zval Role_from_message
  by unfold_locales (simp add: Role_from_message_def)

interpretation msg_Privilege: php_message Obj_Privilege Privilege_from_zval Privilege_from_message
  by unfold_locales (simp add: Privilege_from_message_def)

interpretation msg_CdtListReturnType: php_message Obj_CdtListReturnType CdtListReturnType_from_zval CdtListReturnType_from_message
  by unfold_locales (simp add: CdtListReturnType_from_message_def)

interpretation msg_CdtListWriteFlags: php_message Obj_CdtListWriteFlags CdtListWriteFlags_from_zval CdtListWriteFlags_from_message
  by unfold_locales (simp add: CdtListWriteFlags_from_message_def)

interpretation msg_CdtListSortFlags: php_message Obj_CdtListSortFlags CdtListSortFlags_from_zval CdtListSortFlags_from_message
  by unfold_locales (simp add: CdtListSortFlags_from_message_def)

interpretation msg_CdtListPolicy: php_message Obj_CdtListPolicy CdtListPolicy_from_zval CdtListPolicy_from_message
  by unfold_locales (simp add: CdtListPolicy_from_message_def)

interpretation msg_CdtMapReturnType: php_message Obj_CdtMapReturnType CdtMapReturnType_from_zval CdtMapReturnType_from_message
  by unfold_locales (simp add: CdtMapReturnType_from_message_def)

interpretation msg_CdtMapWriteMode: php_message Obj_CdtMapWriteMode CdtMapWriteMode_from_zval CdtMapWriteMode_from_message
  by unfold_locales (simp add: CdtMapWriteMode_from_message_def)

interpretation msg_CdtMapWriteFlags: php_message Obj_CdtMapWriteFlags CdtMapWriteFlags_from_zval CdtMapWriteFlags_from_message
  by unfold_locales (simp add: CdtMapWriteFlags_from_message_def)

interpretation msg_CdtMapPolicy: php_message Obj_CdtMapPolicy CdtMapPolicy_from_zval CdtMapPolicy_from_message
  by unfold_locales (simp add: CdtMapPolicy_from_message_def)

interpretation msg_CdtHllWriteFlags: php_message Obj_CdtHllWriteFlags CdtHllWriteFlags_from_zval CdtHllWriteFlags_from_message
  by unfold_locales (simp add: CdtHllWriteFlags_from_message_def)

interpretation msg_CdtHllPolicy: php_message Obj_CdtHllPolicy CdtHllPolicy_from_zval CdtHllPolicy_from_message
  by unfold_locales (simp add: CdtHllPolicy_from_message_def)

interpretation msg_CdtBitwiseWriteFlags: php_message Obj_CdtBitwiseWriteFlags CdtBitwiseWriteFlags_from_zval CdtBitwiseWriteFlags_from_message
  by unfold_locales (simp add: CdtBitwiseWriteFlags_from_message_def)

interpretation msg_CdtBitwiseResizeFlags: php_message Obj_CdtBitwiseResizeFlags CdtBitwiseResizeFlags_from_zval CdtBitwiseResizeFlags_from_message
  by unfold_locales (simp add: CdtBitwiseResizeFlags_from_message_def)

interpretation msg_CdtBitwiseOverflowAction: php_message Obj_CdtBitwiseOverflowAction CdtBitwiseOverflowAction_from_zval CdtBitwiseOverflowAction_from_message
  by unfold_locales (simp add: CdtBitwiseOverflowAction_from_message_def)

interpretation msg_CdtBitwisePolicy: php_message Obj_CdtBitwisePolicy CdtBitwisePolicy_from_zval CdtBitwisePolicy_from_message
  by unfold_locales (simp add: CdtBitwisePolicy_from_message_def)

interpretation msg_Key: php_message Obj_Key Key_from_zval Key_from_message
  by unfold_locales (simp add: Key_from_message_def)

interpretation msg_Record: php_message Obj_Record Record_from_zval Record_from_message
  by unfold_locales (simp add: Record_from_message_def)

text \<open>The privileges of a role that the manager sent are accepted as arguments, privilege by privilege.\<close>
lemma role_privileges_pass_on:
  "map (\<lambda>p. Privilege_from_zval (ArgObject (Obj_Privilege (Privilege_from_message p))))
     (Role_get_privileges (Role_from_message r)) = map Some (role_privileges r)"
  by (simp add: msg_Privilege.passed_messages msg_Role.from_message Role_get_privileges_def)

section \<open>One class per object\<close>

text \<open>Whether the reader of a class accepts an argument, for each of the classes.\<close>
definition readers :: "(php_argument \<Rightarrow> bool) list" where
  "readers =
    [\<lambda>z. ExpType_from_zval z \<noteq> None,
     \<lambda>z. Expression_from_zval z \<noteq> None,
     \<lambda>z. ReadModeAP_from_zval z \<noteq> None,
     \<lambda>z. ReadModeSC_from_zval z \<noteq> None,
     \<lambda>z. RecordExistsAction_from_zval z \<noteq> None,
     \<lambda>z. QueryDuration_from_zval z \<noteq> None,
     \<lambda>z. CommitLevel_from_zval z \<noteq> None,
     \<lambda>z. ConsistencyLevel_from_zval z \<noteq> None,
     \<lambda>z. GenerationPolicy_from_zval z \<noteq> None,
     \<lambda>z. Expiration_from_zval z \<noteq> None,
     \<lambda>z. Concurrency_from_zval z \<noteq> None,
     \<lambda>z. ListOrderType_from_zval z \<noteq> None,
     \<lambda>z. MapOrderType_from_zval z \<noteq> None,
     \<lambda>z. Filter_from_zval z \<noteq> None,
     \<lambda>z. PartitionStatus_from_zval z \<noteq> None,
     \<lambda>z. PartitionFilter_from_zval z \<noteq> None,
     \<lambda>z. Record_from_zval z \<noteq> None,
     \<lambda>z. UdfLanguage_from_zval z \<noteq> None,
     \<lambda>z. Role_from_zval z \<noteq> None,
     \<lambda>z. Privilege_from_zval z \<noteq> None,
     \<lambda>z. CdtListReturnType_from_zval z \<noteq> None,
     \<lambda>z. CdtListWriteFlags_from_zval z \<noteq> None,
     \<lambda>z. CdtListSortFlags_from_zval z \<noteq> None,
     \<lambda>z. CdtListPolicy_from_zval z \<noteq> None,
     \<lambda>z. CdtListOperation_from_zval z \<noteq> None,
     \<lambda>z. CdtMapReturnType_from_zval z \<noteq> None,
     \<lambda>z. CdtMapWriteMode_from_zval z \<noteq> None,
     \<lambda>z. CdtMapWriteFlags_from_zval z \<noteq> None,
     \<lambda>z. CdtMapPolicy_from_zval z \<noteq> None,
     \<lambda>z. CdtMapOperation_from_zval z \<noteq> None,
     \<lambda>z. CdtHllWriteFlags_from_zval z \<noteq> None,
     \<lambda>z. CdtHllPolicy_from_zval z \<noteq> None,
     \<lambda>z. CdtHllOperation_from_zval z \<noteq> None,
     \<lambda>z. CdtBitwiseWriteFlags_from_zval z \<noteq> None,
     \<lambda>z. CdtBitwiseResizeFlags_from_zval z \<noteq> None,
     \<lambda>z. CdtBitwiseOverflowAction_from_zval z \<noteq> None,
     \<lambda>z. CdtBitwisePolicy_from_zval z \<noteq> None,
     \<lambda>z. CdtBitwiseOperation_from_zval z \<noteq> None,
     \<lambda>z. Key_from_zval z \<noteq> None,
     \<lambda>z. Json_from_zval z \<noteq> None]"

text \<open>Arguments keep their classes: each object of the extension is accepted by the reader of exactly
  one class, and a value that is no such object by none.\<close>
lemma one_class_accepts:
  "length (filter (\<lambda>accepts. accepts z) readers) = (case z of ArgObject ob \<Rightarrow> 1 | ArgValue v \<Rightarrow> 0)"
proof (cases z)
  case (ArgObject ob)
  then show ?thesis by (cases ob) (simp_all add: readers_def from_zval_defs)
qed (simp add: readers_def from_zval_defs)

end
