(* ===== verification/Manager_Flags.thy ===== *)
theory Manager_Flags
  imports Value_Laws
begin

text \<open>
  The values of the manager's configuration keys (\<^verbatim>\<open>common/flags\<close>, \<^verbatim>\<open>common/client\<close>):
  seed hosts, TLS protocol versions, authentication modes, and the prefixes that name where a
  password or certificate comes from. Texts are ASCII, on which \<^verbatim>\<open>strings.Fields\<close>,
  \<^verbatim>\<open>strings.ToUpper\<close> and the patterns work character by character. The environment and the
  files are parameters.
\<close>

section \<open>Errors and the host system\<close>

datatype conf_error =
    ParsePort string | NoFormat
  | SSLv2NotSupported | SSLv3NotSupported | UnknownProtocol string | ProtocolOverrides string | OnlyRange
  | UnknownAuthMode
  | EnvironmentVariableNotFound | PrefixNotSupported string | CorruptBase64
  | ReadFailed string string | InDirectory string conf_error
  | DurationError string | TomlError string
  | KeyError string

text \<open>A function of the manager returns an error or panics.\<close>
datatype failure = Err conf_error | Panics panic

record host_system =
  os_Getenv :: "string \<Rightarrow> string"
  filepath_Abs :: "string \<Rightarrow> string"
  filepath_Join :: "string \<Rightarrow> string \<Rightarrow> string"
  os_ReadFile :: "string \<Rightarrow> string + string"
  ioutil_ReadDir :: "string \<Rightarrow> string + string list"

section \<open>Splitting texts\<close>

text \<open>\<^verbatim>\<open>strings.Split\<close> at every character of a kind.\<close>
fun split_on :: "(char \<Rightarrow> bool) \<Rightarrow> string \<Rightarrow> string list" where
  "split_on p [] = [[]]"
| "split_on p (c # cs) =
     (if p c then [] # split_on p cs
      else (case split_on p cs of [] \<Rightarrow> [[c]] | t # ts \<Rightarrow> (c # t) # ts))"

definition is_space :: "char \<Rightarrow> bool" where
  "is_space c \<longleftrightarrow> of_char c \<in> {9, 10, 11, 12, 13, 32 :: nat}"

definition strings_Fields :: "string \<Rightarrow> string list" where
  "strings_Fields s = filter (\<lambda>t. t \<noteq> []) (split_on is_space s)"

text \<open>The text before and behind the first or the last colon.\<close>
definition first_colon :: "string \<Rightarrow> (string \<times> string) option" where
  "first_colon s =
     (if CHR '':'' \<in> set s
      then Some (takeWhile (\<lambda>c. c \<noteq> CHR '':'') s, tl (dropWhile (\<lambda>c. c \<noteq> CHR '':'') s))
      else None)"

definition last_colon :: "string \<Rightarrow> (string \<times> string) option" where
  "last_colon s = map_option (\<lambda>(b, a). (rev a, rev b)) (first_colon (rev s))"

section \<open>Hosts\<close>

record HostTLSPort =
  Host :: string
  TLSName :: string
  Port :: i64

definition DefaultPort :: i64 where "DefaultPort = 3000"
definition DefaultIPv4 :: string where "DefaultIPv4 = ''127.0.0.1''"

definition NewDefaultHostTLSPort :: HostTLSPort where
  "NewDefaultHostTLSPort = \<lparr>Host = DefaultIPv4, TLSName = [], Port = DefaultPort\<rparr>"

definition HostTLSPort_String :: "HostTLSPort \<Rightarrow> string" where
  "HostTLSPort_String addr =
     (let str = Host addr;
          str = (if TLSName addr \<noteq> [] then str @ '':'' @ TLSName addr else str)
      in if Port addr \<noteq> 0 then str @ '':'' @ show_i64 (Port addr) else str)"

fun join :: "string \<Rightarrow> string list \<Rightarrow> string" where
  "join sep [] = []"
| "join sep [s] = s"
| "join sep (s # t # ss) = s @ sep @ join sep (t # ss)"

definition HostTLSPortSlice_String :: "HostTLSPort list \<Rightarrow> string" where
  "HostTLSPortSlice_String sf =
     (let strs = map HostTLSPort_String sf
      in if length strs = 1 then hd strs else ''['' @ join '', '' strs @ '']'')"

text \<open>\<^verbatim>\<open>\d+\<close>, and \<^verbatim>\<open>.*\<close>, which stops at a line break.\<close>
definition is_digit :: "char \<Rightarrow> bool" where
  "is_digit c \<longleftrightarrow> 48 \<le> (of_char c :: nat) \<and> (of_char c :: nat) < 58"

definition digits :: "string \<Rightarrow> bool" where
  "digits s \<longleftrightarrow> s \<noteq> [] \<and> list_all is_digit s"

definition one_line :: "string \<Rightarrow> bool" where
  "one_line s \<longleftrightarrow> CHR 0x0A \<notin> set s"

text \<open>
  The end \<^verbatim>\<open>:(?P<port>\d+)$\<close> of a pattern: since the port has no colon, it is the text behind
  the last one.
\<close>
definition port_suffix :: "string \<Rightarrow> (string \<times> string) option" where
  "port_suffix s =
     (case last_colon s of
        None \<Rightarrow> None
      | Some (front, port) \<Rightarrow> if digits port then Some (front, port) else None)"

text \<open>\<^verbatim>\<open>^\[(?P<host>.*)\]\<close> of a whole text.\<close>
definition bracketed :: "string \<Rightarrow> string option" where
  "bracketed s =
     (if s \<noteq> [] \<and> hd s = CHR ''['' \<and> tl s \<noteq> [] \<and> last s = CHR '']'' \<and> one_line (butlast (tl s))
      then Some (butlast (tl s)) else None)"

text \<open>The host is matched greedily: it ends at the last \<^verbatim>\<open>]:\<close>.\<close>
fun last_bracket_colon :: "string \<Rightarrow> (string \<times> string) option" where
  "last_bracket_colon [] = None"
| "last_bracket_colon (c # cs) =
     (case last_bracket_colon cs of
        Some (host, name) \<Rightarrow> Some (c # host, name)
      | None \<Rightarrow>
          (if c = CHR '']'' \<and> cs \<noteq> [] \<and> hd cs = CHR '':'' then Some ([], tl cs) else None))"

text \<open>The six patterns: host, TLS name and port of a text, where the pattern has them.\<close>
type_synonym host_match = "string \<times> string option \<times> string option"

definition reIPv6HostnamePort :: "string \<Rightarrow> host_match option" where
  "reIPv6HostnamePort v =
     (case port_suffix v of
        None \<Rightarrow> None
      | Some (front, port) \<Rightarrow>
          (if front = [] \<or> hd front \<noteq> CHR ''['' then None
           else (case last_bracket_colon (tl front) of
                   None \<Rightarrow> None
                 | Some (host, name) \<Rightarrow>
                     (if one_line host \<and> one_line name then Some (host, Some name, Some port) else None))))"

definition reIPv6HostPort :: "string \<Rightarrow> host_match option" where
  "reIPv6HostPort v =
     (case port_suffix v of
        None \<Rightarrow> None
      | Some (front, port) \<Rightarrow> map_option (\<lambda>host. (host, None, Some port)) (bracketed front))"

definition reIPv6Host :: "string \<Rightarrow> host_match option" where
  "reIPv6Host v = map_option (\<lambda>host. (host, None, None)) (bracketed v)"

definition reIPv4HostnamePort :: "string \<Rightarrow> host_match option" where
  "reIPv4HostnamePort v =
     (case port_suffix v of
        None \<Rightarrow> None
      | Some (front, port) \<Rightarrow>
          (case first_colon front of
             None \<Rightarrow> None
           | Some (host, name) \<Rightarrow>
               (if one_line name then Some (host, Some name, Some port) else None)))"

definition reIPv4HostPort :: "string \<Rightarrow> host_match option" where
  "reIPv4HostPort v =
     (case port_suffix v of
        None \<Rightarrow> None
      | Some (front, port) \<Rightarrow>
          (if CHR '':'' \<in> set front then None else Some (front, None, Some port)))"

definition reIPv4Host :: "string \<Rightarrow> host_match option" where
  "reIPv4Host v = (if CHR '':'' \<in> set v then None else Some (v, None, None))"

text \<open>
  \<^verbatim>\<open>strconv.ParseInt(s, 0, 0)\<close> of a text of digits: a leading zero means octal; a digit that
  the base does not have and a value of more than 63 bits are errors.
\<close>
definition read_base :: "nat \<Rightarrow> string \<Rightarrow> nat" where
  "read_base b s = foldl (\<lambda>n c. b * n + (of_char c - 48)) 0 s"

definition ParseInt :: "string \<Rightarrow> i64 option" where
  "ParseInt s =
     (let (b, ds) = (if s \<noteq> [] \<and> hd s = CHR ''0'' then (8, tl s) else (10, s));
          n = read_base b ds
      in if list_all (\<lambda>c. of_char c - 48 < b) ds \<and> n < 2 ^ 63 then Some (of_nat n) else None)"

fun first_match :: "(string \<Rightarrow> host_match option) list \<Rightarrow> string \<Rightarrow> host_match option" where
  "first_match [] v = None"
| "first_match (re # res) v = (case re v of Some m \<Rightarrow> Some m | None \<Rightarrow> first_match res v)"

text \<open>The order is important since the patterns without brackets match texts with brackets too.\<close>
definition parseHostTLSPort :: "string \<Rightarrow> conf_error + HostTLSPort" where
  "parseHostTLSPort v =
     (case first_match [reIPv6HostnamePort, reIPv6HostPort, reIPv6Host,
                        reIPv4HostnamePort, reIPv4HostPort, reIPv4Host] v of
        None \<Rightarrow> Inl NoFormat
      | Some (host, name, port) \<Rightarrow>
          (let h = \<lparr>Host = host, TLSName = (case name of Some t \<Rightarrow> t | None \<Rightarrow> []), Port = 0\<rparr>
           in case port of
                None \<Rightarrow> Inr h
              | Some p \<Rightarrow>
                  (case ParseInt p of
                     None \<Rightarrow> Inl (ParsePort p)
                   | Some n \<Rightarrow> Inr (h\<lparr>Port := n\<rparr>))))"

record HostTLSPortSliceFlag =
  useDefault :: bool
  Seeds :: "HostTLSPort list"

definition NewHostTLSPortSliceFlag :: HostTLSPortSliceFlag where
  "NewHostTLSPortSliceFlag = \<lparr>useDefault = True, Seeds = [NewDefaultHostTLSPort]\<rparr>"

text \<open>The methods change the flag and return an error or nothing.\<close>
definition HostTLSPortSliceFlag_Append ::
  "string \<Rightarrow> HostTLSPortSliceFlag \<Rightarrow> conf_error option \<times> HostTLSPortSliceFlag" where
  "HostTLSPortSliceFlag_Append val sf =
     (case parseHostTLSPort val of
        Inl err \<Rightarrow> (Some err, sf)
      | Inr host \<Rightarrow> (None, sf\<lparr>Seeds := Seeds sf @ [host]\<rparr>))"

fun append_loop :: "string list \<Rightarrow> HostTLSPortSliceFlag \<Rightarrow> conf_error option \<times> HostTLSPortSliceFlag" where
  "append_loop [] sf = (None, sf)"
| "append_loop (val # vals) sf =
     (case HostTLSPortSliceFlag_Append val sf of
        (Some err, sf') \<Rightarrow> (Some err, sf')
      | (None, sf') \<Rightarrow> append_loop vals sf')"

definition HostTLSPortSliceFlag_Replace ::
  "string list \<Rightarrow> HostTLSPortSliceFlag \<Rightarrow> conf_error option \<times> HostTLSPortSliceFlag" where
  "HostTLSPortSliceFlag_Replace vals sf = append_loop vals (sf\<lparr>Seeds := []\<rparr>)"

definition HostTLSPortSliceFlag_GetSlice :: "HostTLSPortSliceFlag \<Rightarrow> string list" where
  "HostTLSPortSliceFlag_GetSlice sf = map HostTLSPort_String (Seeds sf)"

definition HostTLSPortSliceFlag_Set ::
  "string \<Rightarrow> HostTLSPortSliceFlag \<Rightarrow> conf_error option \<times> HostTLSPortSliceFlag" where
  "HostTLSPortSliceFlag_Set commaSepVal sf =
     (let vals = split_on (\<lambda>c. c = CHR '','') commaSepVal
      in if useDefault sf then HostTLSPortSliceFlag_Replace vals (sf\<lparr>useDefault := False\<rparr>)
         else append_loop vals sf)"

definition HostTLSPortSliceFlag_String :: "HostTLSPortSliceFlag \<Rightarrow> string" where
  "HostTLSPortSliceFlag_String sf =
     (if useDefault sf then DefaultIPv4 else HostTLSPortSlice_String (Seeds sf))"

section \<open>TLS protocols\<close>

type_synonym TLSProtocol = u16

definition VersionTLS10 :: TLSProtocol where "VersionTLS10 = 0x0301"
definition VersionTLS11 :: TLSProtocol where "VersionTLS11 = 0x0302"
definition VersionTLS12 :: TLSProtocol where "VersionTLS12 = 0x0303"
definition VersionTLS13 :: TLSProtocol where "VersionTLS13 = 0x0304"

lemmas versions = VersionTLS10_def VersionTLS11_def VersionTLS12_def VersionTLS13_def

definition VersionTLSDefaultMin :: TLSProtocol where "VersionTLSDefaultMin = VersionTLS12"
definition VersionTLSDefaultMax :: TLSProtocol where "VersionTLSDefaultMax = VersionTLS13"

definition TLSProtocol_String :: "TLSProtocol \<Rightarrow> string" where
  "TLSProtocol_String p =
     (if p = VersionTLS10 then ''TLSV1''
      else if p = VersionTLS11 then ''TLSV1.1''
      else if p = VersionTLS12 then ''TLSV1.2''
      else if p = VersionTLS13 then ''TLSV1.3''
      else [])"

record TLSProtocolsFlag =
  tls_min :: TLSProtocol
  tls_max :: TLSProtocol

definition NewDefaultTLSProtocolsFlag :: TLSProtocolsFlag where
  "NewDefaultTLSProtocolsFlag = \<lparr>tls_min = VersionTLSDefaultMin, tls_max = VersionTLSDefaultMax\<rparr>"

definition protocolSlice :: "TLSProtocol list" where
  "protocolSlice = [VersionTLS10, VersionTLS11, VersionTLS12, VersionTLS13]"

definition tlsV1 :: u8 where "tlsV1 = push_bit 0 1"
definition tlsV1_1 :: u8 where "tlsV1_1 = push_bit 1 1"
definition tlsV1_2 :: u8 where "tlsV1_2 = push_bit 2 1"
definition tlsV1_3 :: u8 where "tlsV1_3 = push_bit 3 1"
definition tlsAll :: u8 where "tlsAll = tlsV1 OR tlsV1_1 OR tlsV1_2 OR tlsV1_3"

lemmas tls_bits = tlsV1_def tlsV1_1_def tlsV1_2_def tlsV1_3_def

definition protocol_of_token :: "string \<Rightarrow> conf_error + u8" where
  "protocol_of_token tok =
     (if tok = ''SSLv2'' then Inl SSLv2NotSupported
      else if tok = ''SSLv3'' then Inl SSLv3NotSupported
      else if tok = ''TLSv1'' then Inr tlsV1
      else if tok = ''TLSv1.1'' then Inr tlsV1_1
      else if tok = ''TLSv1.2'' then Inr tlsV1_2
      else if tok = ''TLSv1.3'' then Inr tlsV1_3
      else if tok = ''all'' then Inr tlsAll
      else Inl (UnknownProtocol tok))"

text \<open>One token: its sign, the protocols it names, and what becomes of the collected ones.\<close>
definition token_step :: "string \<Rightarrow> u8 \<Rightarrow> failure + u8" where
  "token_step tok protocols =
     (case tok of
        [] \<Rightarrow> Inl (Panics IndexOutOfBounds)
      | c # rest \<Rightarrow>
          (let sign = (if c = CHR ''+'' \<or> c = CHR ''-'' then Some c else None);
               name = (if sign = None then tok else rest)
           in case protocol_of_token name of
                Inl err \<Rightarrow> Inl (Err err)
              | Inr current \<Rightarrow>
                  (if sign = Some (CHR ''+'') then Inr (protocols OR current)
                   else if sign = Some (CHR ''-'') then Inr (protocols AND NOT current)
                   else if protocols \<noteq> 0 then Inl (Err (ProtocolOverrides name))
                   else Inr current)))"

fun token_loop :: "string list \<Rightarrow> u8 \<Rightarrow> failure + u8" where
  "token_loop [] protocols = Inr protocols"
| "token_loop (tok # toks) protocols = sbind (token_step tok protocols) (token_loop toks)"

text \<open>The loops over the versions from below and from above, which stop at the first that is set.\<close>
fun min_loop :: "u8 \<Rightarrow> nat \<Rightarrow> TLSProtocol list \<Rightarrow> TLSProtocolsFlag \<Rightarrow> TLSProtocolsFlag" where
  "min_loop protocols i [] flag = flag"
| "min_loop protocols i (p # ps) flag =
     (if protocols AND push_bit i 1 \<noteq> 0 then flag\<lparr>tls_min := p\<rparr> else min_loop protocols (Suc i) ps flag)"

fun max_loop :: "u8 \<Rightarrow> nat list \<Rightarrow> TLSProtocolsFlag \<Rightarrow> TLSProtocolsFlag" where
  "max_loop protocols [] flag = flag"
| "max_loop protocols (i # is) flag =
     (if protocols AND drop_bit i (push_bit (length protocolSlice - 1) 1) \<noteq> 0
      then flag\<lparr>tls_max := protocolSlice ! (length protocolSlice - 1 - i)\<rparr>
      else max_loop protocols is flag)"

definition TLSProtocolsFlag_Set :: "string \<Rightarrow> TLSProtocolsFlag \<Rightarrow> failure + TLSProtocolsFlag" where
  "TLSProtocolsFlag_Set val flag =
     (if val = [] then Inr NewDefaultTLSProtocolsFlag
      else sbind (token_loop (strings_Fields val) 0) (\<lambda>protocols.
        if protocols = tlsAll then Inr (flag\<lparr>tls_min := VersionTLS10, tls_max := VersionTLS13\<rparr>)
        else if protocols AND tlsV1 \<noteq> 0 \<and> protocols AND tlsV1_2 \<noteq> 0 then Inl (Err OnlyRange)
        else Inr (max_loop protocols [0..<length protocolSlice] (min_loop protocols 0 protocolSlice flag))))"

text \<open>\<^verbatim>\<open>strings.Replace(s, "V", "v", 1)\<close>\<close>
fun replace_V :: "string \<Rightarrow> string" where
  "replace_V [] = []"
| "replace_V (c # cs) = (if c = CHR ''V'' then CHR ''v'' # cs else c # replace_V cs)"

fun string_loop :: "TLSProtocolsFlag \<Rightarrow> TLSProtocol list \<Rightarrow> bool \<Rightarrow> string list" where
  "string_loop flag [] on = []"
| "string_loop flag (p # ps) on =
     (let on' = (on \<or> p = tls_min flag)
      in if p = tls_max flag then []
         else if on' then (CHR ''+'' # replace_V (TLSProtocol_String p)) # string_loop flag ps on'
         else string_loop flag ps on')"

definition TLSProtocolsFlag_String :: "TLSProtocolsFlag \<Rightarrow> string" where
  "TLSProtocolsFlag_String flag =
     (if tls_min flag = tls_max flag then replace_V (TLSProtocol_String (tls_max flag))
      else if tls_min flag = VersionTLS10 \<and> tls_max flag = VersionTLS13 then ''all''
      else join '' '' (string_loop flag protocolSlice False))"

section \<open>Authentication modes\<close>

datatype AuthMode = AuthModeInternal | AuthModeExternal | AuthModePKI

definition authModeMap :: "(string \<times> AuthMode) list" where
  "authModeMap = [(''INTERNAL'', AuthModeInternal), (''EXTERNAL'', AuthModeExternal), (''PKI'', AuthModePKI)]"

definition to_upper :: "char \<Rightarrow> char" where
  "to_upper c = (if 97 \<le> (of_char c :: nat) \<and> (of_char c :: nat) \<le> 122 then char_of (of_char c - 32 :: nat) else c)"

definition AuthModeFlag_Set :: "string \<Rightarrow> conf_error + AuthMode" where
  "AuthModeFlag_Set val =
     (case map_of authModeMap (map to_upper val) of
        Some mode \<Rightarrow> Inr mode
      | None \<Rightarrow> Inl UnknownAuthMode)"

definition AuthModeFlag_String :: "AuthMode \<Rightarrow> string" where
  "AuthModeFlag_String mode =
     (case find (\<lambda>(k, v). v = mode) authModeMap of Some (k, v) \<Rightarrow> k | None \<Rightarrow> [])"

section \<open>Passwords and certificates\<close>

definition base64_digit :: "char \<Rightarrow> nat option" where
  "base64_digit c = (let n = of_char c in
     if 65 \<le> n \<and> n \<le> 90 then Some (n - 65)
     else if 97 \<le> n \<and> n \<le> 122 then Some (n - 71)
     else if 48 \<le> n \<and> n \<le> 57 then Some (n + 4)
     else if n = 43 then Some 62
     else if n = 47 then Some 63
     else None)"

text \<open>
  \<^verbatim>\<open>base64.StdEncoding.DecodeString\<close>: line breaks are skipped, four digits make three
  bytes, and the last group is padded. Bits of a padded digit that make no byte are ignored.
\<close>
fun base64_groups :: "string \<Rightarrow> string option" where
  "base64_groups [] = Some []"
| "base64_groups (a # b # c # d # rest) =
     (case (base64_digit a, base64_digit b) of
        (Some i, Some j) \<Rightarrow>
          (if c = CHR ''='' then
             (if d = CHR ''='' \<and> rest = [] then Some [char_of (4 * i + j div 16)] else None)
           else
             (case base64_digit c of
                None \<Rightarrow> None
              | Some k \<Rightarrow>
                  (if d = CHR ''='' then
                     (if rest = []
                      then Some [char_of (4 * i + j div 16), char_of (16 * (j mod 16) + k div 4)] else None)
                   else
                     (case (base64_digit d, base64_groups rest) of
                        (Some l, Some bs) \<Rightarrow>
                          Some (char_of (4 * i + j div 16) # char_of (16 * (j mod 16) + k div 4) #
                            char_of (64 * (k mod 4) + l) # bs)
                      | _ \<Rightarrow> None))))
      | _ \<Rightarrow> None)"
| "base64_groups _ = None"

definition DecodeString :: "string \<Rightarrow> string option" where
  "DecodeString s = base64_groups (filter (\<lambda>c. c \<noteq> CHR 0x0A \<and> c \<noteq> CHR 0x0D) s)"

definition decode64 :: "string \<Rightarrow> failure + string" where
  "decode64 b64Val =
     (case DecodeString b64Val of
        None \<Rightarrow> Inl (Err CorruptBase64)
      | Some byteVal \<Rightarrow>
          (if byteVal = [] then Inl (Panics IndexOutOfBounds)
           else if last byteVal = CHR 0x0A then Inr (butlast byteVal)
           else Inr byteVal))"

definition trim_newline :: "string \<Rightarrow> string" where
  "trim_newline data = (if data \<noteq> [] \<and> last data = CHR 0x0A then butlast data else data)"

definition readFromFile :: "host_system \<Rightarrow> string \<Rightarrow> bool \<Rightarrow> failure + string" where
  "readFromFile os filePath removeTrailingNewLine =
     (case os_ReadFile os (filepath_Abs os filePath) of
        Inl err \<Rightarrow> Inl (Err (ReadFailed (filepath_Abs os filePath) err))
      | Inr data \<Rightarrow> Inr (if removeTrailingNewLine then trim_newline data else data))"

text \<open>An error of a file is reported with the name of the file.\<close>
definition readFromPath :: "host_system \<Rightarrow> string \<Rightarrow> bool \<Rightarrow> failure + string list" where
  "readFromPath os filePath removeTrailingNewLine =
     (let path = filepath_Abs os filePath
      in case ioutil_ReadDir os path of
           Inl err \<Rightarrow> Inl (Err (ReadFailed path err))
         | Inr names \<Rightarrow>
             ssequence (map (\<lambda>name.
               case readFromFile os (filepath_Join os path name) removeTrailingNewLine of
                 Inl (Err err) \<Rightarrow> Inl (Err (InDirectory name err))
               | Inl (Panics p) \<Rightarrow> Inl (Panics p)
               | Inr data \<Rightarrow> Inr data) names))"

definition fromEnv :: "host_system \<Rightarrow> string \<Rightarrow> failure + string" where
  "fromEnv os v =
     (let result = os_Getenv os v
      in if result = [] then Inl (Err EnvironmentVariableNotFound) else Inr result)"

definition fromBase64 :: "string \<Rightarrow> failure + string" where
  "fromBase64 v = decode64 v"

definition fromFile :: "host_system \<Rightarrow> string \<Rightarrow> failure + string" where
  "fromFile os v = readFromFile os v True"

type_synonym flagFormat = u8

definition flagFormatEnv :: flagFormat where "flagFormatEnv = 1"
definition flagFormatEnvB64 :: flagFormat where "flagFormatEnvB64 = push_bit 1 1"
definition flagFormatB64 :: flagFormat where "flagFormatB64 = push_bit 2 1"
definition flagFormatFile :: flagFormat where "flagFormatFile = push_bit 3 1"

lemmas flag_formats = flagFormatEnv_def flagFormatEnvB64_def flagFormatB64_def flagFormatFile_def

definition flagFormatParser :: "host_system \<Rightarrow> string \<Rightarrow> flagFormat \<Rightarrow> failure + string" where
  "flagFormatParser os val mode =
     (case first_colon val of
        None \<Rightarrow> Inr []
      | Some (sourceType, name) \<Rightarrow>
          (if sourceType = ''env'' then
             (if mode AND flagFormatEnv \<noteq> 0 then fromEnv os name else Inl (Err (PrefixNotSupported sourceType)))
           else if sourceType = ''env-b64'' then
             (if mode AND flagFormatEnvB64 \<noteq> 0 then sbind (fromEnv os name) fromBase64
              else Inl (Err (PrefixNotSupported sourceType)))
           else if sourceType = ''b64'' then
             (if mode AND flagFormatB64 \<noteq> 0 then fromBase64 name else Inl (Err (PrefixNotSupported sourceType)))
           else if sourceType = ''file'' then
             (if mode AND flagFormatFile \<noteq> 0 then fromFile os name else Inl (Err (PrefixNotSupported sourceType)))
           else Inr []))"

definition CertFlag_Set :: "host_system \<Rightarrow> string \<Rightarrow> failure + string" where
  "CertFlag_Set os val =
     sbind (flagFormatParser os val (flagFormatB64 OR flagFormatEnvB64 OR flagFormatFile)) (\<lambda>result.
       if result = [] then readFromFile os val True else Inr result)"

definition CertPathFlag_Set :: "host_system \<Rightarrow> string \<Rightarrow> failure + string list" where
  "CertPathFlag_Set os val = readFromPath os val True"

definition PasswordFlag_Set :: "host_system \<Rightarrow> string \<Rightarrow> failure + string" where
  "PasswordFlag_Set os val =
     sbind (flagFormatParser os val
         (flagFormatB64 OR flagFormatEnvB64 OR flagFormatFile OR flagFormatEnv)) (\<lambda>result.
       if result = [] then Inr val else Inr result)"


section \<open>Laws of the text functions\<close>

lemma first_colon_append: "CHR '':'' \<notin> set h \<Longrightarrow> first_colon (h @ CHR '':'' # t) = Some (h, t)"
  by (auto simp: first_colon_def takeWhile_append dropWhile_append)

lemma first_colon_None: "CHR '':'' \<notin> set h \<Longrightarrow> first_colon h = None"
  by (simp add: first_colon_def)

lemma last_colon_append: "CHR '':'' \<notin> set t \<Longrightarrow> last_colon (h @ CHR '':'' # t) = Some (h, t)"
  using first_colon_append [of "rev t" "rev h"] by (simp add: last_colon_def)

lemma port_suffix_append: "digits d \<Longrightarrow> port_suffix (h @ CHR '':'' # d) = Some (h, d)"
proof -
  assume d: "digits d"
  then have "CHR '':'' \<notin> set d" by (auto simp: digits_def is_digit_def list_all_iff)
  then show ?thesis using d by (simp add: port_suffix_def last_colon_append)
qed

lemma port_suffix_not_digits:
  "CHR '':'' \<notin> set t \<Longrightarrow> \<not> digits t \<Longrightarrow> port_suffix (h @ CHR '':'' # t) = None"
  by (simp add: port_suffix_def last_colon_append)

lemma port_suffix_None: "CHR '':'' \<notin> set h \<Longrightarrow> port_suffix h = None"
  by (simp add: port_suffix_def last_colon_def first_colon_def)

lemma bracketed_append: "one_line h \<Longrightarrow> bracketed (CHR ''['' # h @ '']'') = Some h"
  by (simp add: bracketed_def butlast_append)

lemma bracketed_hd: "s = [] \<or> hd s \<noteq> CHR ''['' \<Longrightarrow> bracketed s = None"
  by (auto simp: bracketed_def)

lemma last_bracket_colon_None: "CHR '']'' \<notin> set (butlast s) \<Longrightarrow> last_bracket_colon s = None"
proof (induction s)
  case (Cons c cs)
  then show ?case by (cases cs) auto
qed simp

lemma last_bracket_colon_append:
  "CHR '']'' \<notin> set t \<Longrightarrow> last_bracket_colon (h @ '']:'' @ t) = Some (h, t)"
proof (induction h)
  case Nil
  then have "last_bracket_colon t = None" by (intro last_bracket_colon_None) (auto dest: in_set_butlastD)
  then show ?case by simp
qed simp

lemma digits_show_nat: "digits (show_nat n)"
  using show_nat_digits by (fastforce simp: digits_def list_all_iff is_digit_def)

lemma show_nat_hd: "0 < n \<Longrightarrow> hd (show_nat n) \<noteq> CHR ''0''"
proof (induction n rule: show_nat.induct)
  case (1 n)
  show ?case
  proof (cases "n < 10")
    case True
    then have "of_char (hd (show_nat n)) = 48 + n" by (subst show_nat.simps) simp
    then show ?thesis using 1(2) by auto
  next
    case False
    then have "show_nat n = show_nat (n div 10) @ [char_of (48 + n mod 10)]" by (subst show_nat.simps) simp
    then show ?thesis using 1(1) False by simp
  qed
qed

lemma ParseInt_show_nat: "0 < n \<Longrightarrow> n < 2 ^ 63 \<Longrightarrow> ParseInt (show_nat n) = Some (of_nat n)"
proof -
  assume n: "0 < n" "n < 2 ^ 63"
  have "list_all (\<lambda>c. of_char c - 48 < (10 :: nat)) (show_nat n)"
    using show_nat_digits by (fastforce simp: list_all_iff)
  then show ?thesis
    using n show_nat_hd [OF n(1)] read_nat_show_nat [of n]
    by (simp add: ParseInt_def read_base_def read_nat_def)
qed

lemma ParseInt_show_i64:
  assumes "0 < sint (p :: i64)"
  shows "digits (show_i64 p) \<and> ParseInt (show_i64 p) = Some p"
proof -
  have s: "show_i64 p = show_nat (nat (sint p))" using assms by (simp add: show_i64_def)
  have "sint p < 2 ^ 63" using sint_lt [of p] by simp
  then have "nat (sint p) < 2 ^ 63" by (simp add: nat_less_iff)
  moreover have "(of_nat (nat (sint p)) :: i64) = p" using assms by (simp add: of_nat_nat)
  ultimately show ?thesis using ParseInt_show_nat [of "nat (sint p)"] assms digits_show_nat by (simp add: s)
qed

lemma split_on_append:
  "\<forall>c \<in> set s. \<not> p c \<Longrightarrow> p d \<Longrightarrow> split_on p (s @ d # t) = s # split_on p t"
  by (induction s) auto

lemma split_on_none: "\<forall>c \<in> set s. \<not> p c \<Longrightarrow> split_on p s = [s]"
  by (induction s) auto

lemma split_on_join:
  "\<forall>s \<in> set ss. d \<notin> set s \<Longrightarrow> ss \<noteq> [] \<Longrightarrow> split_on (\<lambda>c. c = d) (join [d] ss) = ss"
proof (induction "[d]" ss rule: join.induct)
  case (3 s t ss)
  have "split_on (\<lambda>c. c = d) (s @ d # join [d] (t # ss)) = s # split_on (\<lambda>c. c = d) (join [d] (t # ss))"
    by (rule split_on_append) (use 3(2) in auto)
  then show ?case using 3 by simp
next
  case (2 s)
  then show ?case using split_on_none [of s "\<lambda>c. c = d"] by auto
qed simp

lemma Fields_not_Nil: "t \<in> set (strings_Fields s) \<Longrightarrow> t \<noteq> []"
  by (simp add: strings_Fields_def)


section \<open>Reading and printing hosts\<close>

lemmas host_patterns = reIPv6HostnamePort_def reIPv6HostPort_def reIPv6Host_def
  reIPv4HostnamePort_def reIPv4HostPort_def reIPv4Host_def

text \<open>A host name or address that is written without brackets.\<close>
definition plain_host :: "string \<Rightarrow> bool" where
  "plain_host h \<longleftrightarrow> CHR '':'' \<notin> set h \<and> (h = [] \<or> hd h \<noteq> CHR ''['')"

lemma plain_host_hd: "plain_host h \<Longrightarrow> hd (h @ CHR '':'' # t) \<noteq> CHR ''[''"
  by (cases h) (auto simp: plain_host_def)

lemma parse_plain: "plain_host h \<Longrightarrow> parseHostTLSPort h = Inr \<lparr>Host = h, TLSName = [], Port = 0\<rparr>"
  by (auto simp: plain_host_def parseHostTLSPort_def host_patterns port_suffix_None bracketed_hd)

lemma parse_plain_port:
  "plain_host h \<Longrightarrow> digits d \<Longrightarrow> ParseInt d = Some p \<Longrightarrow>
    parseHostTLSPort (h @ CHR '':'' # d) = Inr \<lparr>Host = h, TLSName = [], Port = p\<rparr>"
  using plain_host_hd [of h d]
  by (auto simp: plain_host_def parseHostTLSPort_def host_patterns port_suffix_append bracketed_hd
      first_colon_None)

lemma parse_plain_name_port:
  assumes "plain_host h" "one_line t" "digits d" "ParseInt d = Some p"
  shows "parseHostTLSPort (h @ CHR '':'' # t @ CHR '':'' # d) = Inr \<lparr>Host = h, TLSName = t, Port = p\<rparr>"
proof -
  have d: "port_suffix (h @ CHR '':'' # t @ CHR '':'' # d) = Some (h @ CHR '':'' # t, d)"
    using port_suffix_append [OF assms(3), of "h @ CHR '':'' # t"] by simp
  show ?thesis
    using assms plain_host_hd [OF assms(1)]
    by (simp add: plain_host_def parseHostTLSPort_def host_patterns d bracketed_hd first_colon_append)
qed

lemma parse_plain_name:
  assumes "plain_host h" "CHR '':'' \<notin> set t" "\<not> digits t"
  shows "parseHostTLSPort (h @ CHR '':'' # t) = Inl NoFormat"
  using plain_host_hd [OF assms(1)] assms
  by (simp add: parseHostTLSPort_def host_patterns port_suffix_not_digits bracketed_hd)

lemma parse_bracketed:
  assumes "one_line b" "CHR '']'' \<notin> set b"
  shows "parseHostTLSPort (CHR ''['' # b @ '']'') = Inr \<lparr>Host = b, TLSName = [], Port = 0\<rparr>"
proof -
  have "port_suffix (CHR ''['' # b @ '']'') = None"
  proof (cases "last_colon (CHR ''['' # b @ '']'')")
    case (Some fp)
    obtain f q where fp: "fp = (f, q)" by (cases fp)
    have "last (rev (takeWhile (\<lambda>c. c \<noteq> CHR '':'') (rev (CHR ''['' # b @ '']'')))) = CHR '']''"
      by simp
    then have "\<not> digits q"
      using Some by (auto simp: fp last_colon_def first_colon_def digits_def is_digit_def split: if_splits)
    then show ?thesis using Some by (simp add: port_suffix_def fp)
  qed (simp add: port_suffix_def)
  then show ?thesis
    using bracketed_append [OF assms(1)] by (simp add: parseHostTLSPort_def host_patterns)
qed

lemma parse_bracketed_port:
  assumes "one_line b" "CHR '']'' \<notin> set b" "digits d" "ParseInt d = Some p"
  shows "parseHostTLSPort (CHR ''['' # b @ CHR '']'' # CHR '':'' # d) = Inr \<lparr>Host = b, TLSName = [], Port = p\<rparr>"
proof -
  have d: "port_suffix (CHR ''['' # b @ CHR '']'' # CHR '':'' # d) = Some (CHR ''['' # b @ '']'', d)"
    using port_suffix_append [OF assms(3), of "CHR ''['' # b @ '']''"] by simp
  have "last_bracket_colon (b @ '']'') = None"
    using assms(2) by (intro last_bracket_colon_None) (simp add: butlast_append)
  then show ?thesis
    using assms bracketed_append [OF assms(1)] by (simp add: parseHostTLSPort_def host_patterns d)
qed

lemma parse_bracketed_name_port:
  assumes "one_line b" "one_line t" "CHR '']'' \<notin> set t" "digits d" "ParseInt d = Some p"
  shows "parseHostTLSPort (CHR ''['' # b @ CHR '']'' # CHR '':'' # t @ CHR '':'' # d) = Inr \<lparr>Host = b, TLSName = t, Port = p\<rparr>"
proof -
  have d: "port_suffix (CHR ''['' # b @ CHR '']'' # CHR '':'' # t @ CHR '':'' # d) = Some (CHR ''['' # b @ '']:'' @ t, d)"
    using port_suffix_append [OF assms(4), of "CHR ''['' # b @ '']:'' @ t"] by simp
  show ?thesis
    using assms last_bracket_colon_append [OF assms(3), of b]
    by (simp add: parseHostTLSPort_def host_patterns d)
qed

text \<open>Seeds whose texts can be read again.\<close>
definition printable_seed :: "HostTLSPort \<Rightarrow> bool" where
  "printable_seed h \<longleftrightarrow>
     plain_host (Host h) \<and> one_line (TLSName h) \<and> CHR '','' \<notin> set (Host h) \<and> CHR '','' \<notin> set (TLSName h) \<and>
     0 \<le> sint (Port h) \<and> (TLSName h \<noteq> [] \<longrightarrow> Port h \<noteq> 0)"

lemma parse_printed:
  assumes "printable_seed h"
  shows "parseHostTLSPort (HostTLSPort_String h) = Inr h"
proof (cases "Port h = 0")
  case True
  then show ?thesis
    using assms parse_plain by (cases h) (auto simp: printable_seed_def HostTLSPort_String_def)
next
  case False
  then have "0 < sint (Port h)"
    using assms by (simp add: printable_seed_def order.strict_iff_order signed_eq_0_iff)
  from ParseInt_show_i64 [OF this] show ?thesis
    using assms False parse_plain_port parse_plain_name_port
    by (cases h) (auto simp: printable_seed_def HostTLSPort_String_def)
qed

lemma printed_no_comma: "printable_seed h \<Longrightarrow> CHR '','' \<notin> set (HostTLSPort_String h)"
proof -
  assume h: "printable_seed h"
  have "CHR '','' \<notin> set (show_i64 (Port h))"
    using h show_nat_digits [of "CHR '',''"] by (auto simp: printable_seed_def show_i64_def)
  then show ?thesis using h by (simp add: printable_seed_def HostTLSPort_String_def Let_def)
qed

lemma append_loop_parse:
  "append_loop vals sf =
     (case ssequence (map parseHostTLSPort vals) of
        Inl e \<Rightarrow> (Some e, snd (append_loop vals sf))
      | Inr hs \<Rightarrow> (None, sf\<lparr>Seeds := Seeds sf @ hs\<rparr>))"
proof (induction vals arbitrary: sf)
  case (Cons v vals)
  show ?case
  proof (cases "parseHostTLSPort v")
    case (Inr h)
    then show ?thesis
      using Cons.IH [of "sf\<lparr>Seeds := Seeds sf @ [h]\<rparr>"]
      by (cases "ssequence (map parseHostTLSPort vals)") (auto simp: HostTLSPortSliceFlag_Append_def)
  qed (simp add: HostTLSPortSliceFlag_Append_def)
qed simp

section \<open>Flags that are printed and read\<close>

text \<open>What the printer and the reader of a flag promise each other on the values that the
  printer can write.\<close>
locale text_flag =
  fixes read :: "string \<Rightarrow> 'e + 'a" and print :: "'a \<Rightarrow> string" and printable :: "'a \<Rightarrow> bool"
  assumes read_print: "printable x \<Longrightarrow> read (print x) = Inr x"
begin

lemma print_inj: "printable x \<Longrightarrow> printable y \<Longrightarrow> print x = print y \<Longrightarrow> x = y"
  using read_print by (metis Inr_inject)

lemma read_all: "list_all printable xs \<Longrightarrow> ssequence (map read (map print xs)) = Inr xs"
  by (induction xs) (auto simp: read_print)

end

interpretation seed: text_flag parseHostTLSPort HostTLSPort_String printable_seed
  by unfold_locales (rule parse_printed)

interpretation auth_mode: text_flag AuthModeFlag_Set AuthModeFlag_String "\<lambda>_. True"
proof unfold_locales
  show "AuthModeFlag_Set (AuthModeFlag_String mode) = Inr mode" for mode
    by (cases mode) (simp_all add: AuthModeFlag_Set_def AuthModeFlag_String_def authModeMap_def to_upper_def)
qed

lemma append_loop_printed:
  "list_all printable_seed hs \<Longrightarrow>
    append_loop (map HostTLSPort_String hs) sf = (None, sf\<lparr>Seeds := Seeds sf @ hs\<rparr>)"
  using append_loop_parse [of "map HostTLSPort_String hs" sf] seed.read_all [of hs] by simp

section \<open>TLS protocols as sets of versions\<close>

definition versions_of :: "u8 \<Rightarrow> TLSProtocol set" where
  "versions_of p = set (map ((!) protocolSlice) (filter (bit p) [0, 1, 2, 3]))"

text \<open>The reference: signs add and remove versions, a name without a sign must come first.\<close>
definition named_versions :: "string \<Rightarrow> conf_error + TLSProtocol set" where
  "named_versions tok =
     (if tok = ''TLSv1'' then Inr {VersionTLS10}
      else if tok = ''TLSv1.1'' then Inr {VersionTLS11}
      else if tok = ''TLSv1.2'' then Inr {VersionTLS12}
      else if tok = ''TLSv1.3'' then Inr {VersionTLS13}
      else if tok = ''all'' then Inr (set protocolSlice)
      else if tok = ''SSLv2'' then Inl SSLv2NotSupported
      else if tok = ''SSLv3'' then Inl SSLv3NotSupported
      else Inl (UnknownProtocol tok))"

fun wanted :: "string list \<Rightarrow> TLSProtocol set \<Rightarrow> failure + TLSProtocol set" where
  "wanted [] S = Inr S"
| "wanted (tok # toks) S =
     (if hd tok = CHR ''+'' \<or> hd tok = CHR ''-'' then
        (case named_versions (tl tok) of
           Inl err \<Rightarrow> Inl (Err err)
         | Inr T \<Rightarrow> wanted toks (if hd tok = CHR ''+'' then S \<union> T else S - T))
      else
        (case named_versions tok of
           Inl err \<Rightarrow> Inl (Err err)
         | Inr T \<Rightarrow> if S \<noteq> {} then Inl (Err (ProtocolOverrides tok)) else wanted toks T))"

text \<open>What becomes of the wanted versions.\<close>
definition range_of :: "TLSProtocol set \<Rightarrow> TLSProtocolsFlag \<Rightarrow> failure + TLSProtocolsFlag" where
  "range_of S flag =
     (if VersionTLS10 \<in> S \<and> VersionTLS12 \<in> S \<and> S \<noteq> set protocolSlice then Inl (Err OnlyRange)
      else if S = {} then Inr flag
      else Inr \<lparr>tls_min = Min S, tls_max = Max S\<rparr>)"

lemma word16_cases: "(p :: u8) < 16 \<Longrightarrow> p \<in> {0, 1, 2, 3, 4, 5, 6, 7, 8, 9, 10, 11, 12, 13, 14, 15}"
proof -
  assume "p < 16"
  then have "unat p < 16" by (simp add: word_less_nat_alt)
  then have "unat p \<in> set [0..<16]" by simp
  moreover have "[0..<16] = [0, 1, 2, 3, 4, 5, 6, 7, 8, 9, 10, 11, 12, 13, 14, 15 :: nat]" by code_simp
  ultimately have "unat p \<in> {0, 1, 2, 3, 4, 5, 6, 7, 8, 9, 10, 11, 12, 13, 14, 15}" by simp
  then have "of_nat (unat p) \<in> (of_nat ` {0, 1, 2, 3, 4, 5, 6, 7, 8, 9, 10, 11, 12, 13, 14, 15} :: u8 set)"
    by (rule imageI)
  then show ?thesis by simp
qed

lemma versions_of_bits: "v \<in> versions_of p \<longleftrightarrow>
    (v = VersionTLS10 \<and> bit p 0 \<or> v = VersionTLS11 \<and> bit p 1 \<or> v = VersionTLS12 \<and> bit p 2 \<or>
     v = VersionTLS13 \<and> bit p 3)"
  by (auto simp: versions_of_def protocolSlice_def)

lemma versions_of_OR: "versions_of (p OR q) = versions_of p \<union> versions_of q"
  by (auto simp: versions_of_bits bit_simps)

lemma versions_of_AND_NOT: "versions_of (p AND NOT q) = versions_of p - versions_of q"
  by (auto simp: versions_of_bits bit_simps versions)

lemma named_versions_eq:
  "named_versions tok = (case protocol_of_token tok of Inl e \<Rightarrow> Inl e | Inr p \<Rightarrow> Inr (versions_of p))"
  by (auto simp: named_versions_def protocol_of_token_def versions_of_def protocolSlice_def tlsAll_def tls_bits)


lemma small_take_bit: "(p :: u8) < 16 \<longleftrightarrow> take_bit 4 p = p"
proof -
  have "take_bit 4 p = p \<longleftrightarrow> unat p < 2 ^ 4"
    by (simp add: word_unat_eq_iff unsigned_take_bit_eq take_bit_nat_eq_self_iff)
  then show ?thesis by (simp add: word_less_nat_alt)
qed

lemma token_step_small: "p < 16 \<Longrightarrow> token_step tok p = Inr q \<Longrightarrow> q < 16"
proof -
  assume p: "p < 16" and q: "token_step tok p = Inr q"
  have cur: "cur < 16" if "protocol_of_token t = Inr cur" for t cur
    using that by (auto simp: protocol_of_token_def tlsAll_def tls_bits split: if_splits)
  have "p AND NOT cur < 16" for cur
    using p by (metis small_take_bit take_bit_and and.left_commute word_and_le2 order.strict_trans1)
  moreover have "p OR cur < 16" if "cur < 16" for cur
    using p that by (simp add: small_take_bit take_bit_or)
  ultimately show ?thesis
    using q cur by (auto simp: token_step_def Let_def split: list.splits if_splits sum.splits)
qed

lemma versions_of_empty: "p < 16 \<Longrightarrow> versions_of p = {} \<longleftrightarrow> p = 0"
  by (drule word16_cases) (auto simp: versions_of_def protocolSlice_def)

lemma token_loop_wanted:
  "p < 16 \<Longrightarrow> \<forall>t \<in> set toks. t \<noteq> [] \<Longrightarrow>
    wanted toks (versions_of p) = (case token_loop toks p of Inl f \<Rightarrow> Inl f | Inr q \<Rightarrow> Inr (versions_of q))"
proof (induction toks arbitrary: p)
  case (Cons tok toks)
  then obtain c rest where tok: "tok = c # rest" by (cases tok) auto
  show ?case
  proof (cases "protocol_of_token (if c = CHR ''+'' \<or> c = CHR ''-'' then rest else tok)")
    case (Inl e)
    then show ?thesis by (auto simp: tok token_step_def Let_def named_versions_eq)
  next
    case (Inr cur)
    show ?thesis
    proof (cases "token_step tok p")
      case (Inl f)
      then show ?thesis using Inr versions_of_empty [OF Cons.prems(1)]
        by (auto simp: tok token_step_def Let_def named_versions_eq split: if_splits)
    next
      case (Inr q)
      then show ?thesis
        using \<open>_ = Inr cur\<close> Cons.IH [OF token_step_small [OF Cons.prems(1) Inr]] Cons.prems
          versions_of_empty [OF Cons.prems(1)]
        by (auto simp: tok token_step_def Let_def named_versions_eq versions_of_OR versions_of_AND_NOT
            split: if_splits)
    qed
  qed
qed simp

lemma token_loop_small: "p < 16 \<Longrightarrow> token_loop toks p = Inr q \<Longrightarrow> q < 16"
  by (induction toks arbitrary: p) (auto simp: sbind_Inr_iff dest: token_step_small)

lemma upt_protocols: "[0..<length protocolSlice] = [0, 1, 2, 3]"
  by (simp add: protocolSlice_def upt_rec)

lemma and_push_bit: "(p :: u8) AND push_bit i 1 \<noteq> 0 \<longleftrightarrow> bit p i"
  by (simp add: and_exp_eq_0_iff_not_bit)

lemma tlsAll_bits: "p < 16 \<Longrightarrow> p = tlsAll \<longleftrightarrow> bit p 0 \<and> bit p 1 \<and> bit p 2 \<and> bit p 3"
  by (drule word16_cases) (auto simp: tlsAll_def tls_bits)

lemma and_tls_bits: "(p :: u8) AND 1 \<noteq> 0 \<longleftrightarrow> bit p 0" "p AND 2 \<noteq> 0 \<longleftrightarrow> bit p 1" "p AND 4 \<noteq> 0 \<longleftrightarrow> bit p 2"
  "p AND 8 \<noteq> 0 \<longleftrightarrow> bit p 3"
  using and_push_bit [of p 0] and_push_bit [of p 1] and_push_bit [of p 2] and_push_bit [of p 3] by simp_all

lemma min_loop_bits:
  "min_loop p 0 protocolSlice flag =
     (if bit p 0 then flag\<lparr>tls_min := VersionTLS10\<rparr> else if bit p 1 then flag\<lparr>tls_min := VersionTLS11\<rparr>
      else if bit p 2 then flag\<lparr>tls_min := VersionTLS12\<rparr> else if bit p 3 then flag\<lparr>tls_min := VersionTLS13\<rparr>
      else flag)"
  by (simp add: protocolSlice_def and_tls_bits)

lemma max_loop_bits:
  "max_loop p [0..<length protocolSlice] flag =
     (if bit p 3 then flag\<lparr>tls_max := VersionTLS13\<rparr> else if bit p 2 then flag\<lparr>tls_max := VersionTLS12\<rparr>
      else if bit p 1 then flag\<lparr>tls_max := VersionTLS11\<rparr> else if bit p 0 then flag\<lparr>tls_max := VersionTLS10\<rparr>
      else flag)"
  unfolding upt_protocols by (simp add: protocolSlice_def and_tls_bits)

lemma version_mem:
  "VersionTLS10 \<in> versions_of p \<longleftrightarrow> bit p 0" "VersionTLS11 \<in> versions_of p \<longleftrightarrow> bit p 1"
  "VersionTLS12 \<in> versions_of p \<longleftrightarrow> bit p 2" "VersionTLS13 \<in> versions_of p \<longleftrightarrow> bit p 3"
  by (simp_all add: versions_of_bits versions)

lemma versions_of_all:
  assumes "p < 16"
  shows "versions_of p = set protocolSlice \<longleftrightarrow> p = tlsAll"
proof
  assume "versions_of p = set protocolSlice"
  then show "p = tlsAll" using version_mem [of p] by (simp add: tlsAll_bits [OF assms] protocolSlice_def)
next
  assume "p = tlsAll"
  then show "versions_of p = set protocolSlice"
    by (auto simp: versions_of_bits protocolSlice_def tlsAll_def tls_bits)
qed

lemma set_range_of:
  assumes "p < 16"
  shows "(if p = tlsAll then Inr (flag\<lparr>tls_min := VersionTLS10, tls_max := VersionTLS13\<rparr>)
      else if p AND tlsV1 \<noteq> 0 \<and> p AND tlsV1_2 \<noteq> 0 then Inl (Err OnlyRange)
      else Inr (max_loop p [0..<length protocolSlice] (min_loop p 0 protocolSlice flag))) =
    range_of (versions_of p) flag"
proof (cases "p = tlsAll")
  case True
  then have "versions_of p = set protocolSlice" using versions_of_all [OF assms] by simp
  then show ?thesis using True by (simp add: range_of_def protocolSlice_def versions)
next
  case False
  have ne: "versions_of p \<noteq> set protocolSlice" using False versions_of_all [OF assms] by simp
  show ?thesis
    using False ne
    by (cases "bit p 0"; cases "bit p 1"; cases "bit p 2"; cases "bit p 3")
      (simp_all add: range_of_def min_loop_bits max_loop_bits tls_bits and_tls_bits versions_of_def
        protocolSlice_def versions)
qed


section \<open>Base64 texts\<close>

text \<open>The encoding that \<^verbatim>\<open>DecodeString\<close> reads.\<close>
definition base64_letter :: "nat \<Rightarrow> char" where
  "base64_letter n =
     (if n < 26 then char_of (65 + n) else if n < 52 then char_of (71 + n)
      else if n < 62 then char_of (n - 4) else if n = 62 then CHR ''+'' else CHR ''/'')"

fun base64_encode :: "string \<Rightarrow> string" where
  "base64_encode [] = []"
| "base64_encode [a] =
     (let i = of_char a in [base64_letter (i div 4), base64_letter (16 * (i mod 4)), CHR ''='', CHR ''=''])"
| "base64_encode [a, b] =
     (let i = of_char a; j = of_char b in
        [base64_letter (i div 4), base64_letter (16 * (i mod 4) + j div 16), base64_letter (4 * (j mod 16)),
         CHR ''=''])"
| "base64_encode (a # b # c # rest) =
     (let i = of_char a; j = of_char b; k = of_char c in
        base64_letter (i div 4) # base64_letter (16 * (i mod 4) + j div 16) #
        base64_letter (4 * (j mod 16) + k div 64) # base64_letter (k mod 64) # base64_encode rest)"

lemma base64_bounds:
  "(of_char a :: nat) div 4 < 64" "(of_char a :: nat) div 16 < 16" "(of_char a :: nat) div 64 < 4"
  using nat_of_char_less_256 [of a] by (simp_all add: less_mult_imp_div_less)

lemma base64_pieces:
  "y < 16 \<Longrightarrow> (16 * x + y) div 16 = x" "y < 16 \<Longrightarrow> (16 * x + y) mod 16 = y"
  "z < 4 \<Longrightarrow> (4 * x + z) div 4 = x" "z < 4 \<Longrightarrow> (4 * x + z) mod 4 = (z :: nat)"
  "x < 4 \<Longrightarrow> y < 16 \<Longrightarrow> 16 * x + y < 64" "x < 16 \<Longrightarrow> z < 4 \<Longrightarrow> 4 * x + z < 64"
  by auto

lemma of_base64_letter:
  "n < 64 \<Longrightarrow> (of_char (base64_letter n) :: nat) =
     (if n < 26 then 65 + n else if n < 52 then 71 + n else if n < 62 then n - 4 else if n = 62 then 43 else 47)"
  by (simp add: base64_letter_def)

lemma base64_digit_letter: "n < 64 \<Longrightarrow> base64_digit (base64_letter n) = Some n"
  by (auto simp: base64_digit_def of_base64_letter Let_def)

lemma base64_letter_plain:
  "n < 64 \<Longrightarrow> base64_letter n \<noteq> CHR ''='' \<and> base64_letter n \<noteq> CHR 0x0A \<and> base64_letter n \<noteq> CHR 0x0D"
  using of_base64_letter [of n] by (auto split: if_splits)

lemma base64_groups_encode: "base64_groups (base64_encode s) = Some s"
proof (induction s rule: base64_encode.induct)
  case (2 a)
  show ?case using base64_pieces(5) [of "of_char a mod 4" 0]
    by (simp add: Let_def base64_digit_letter base64_bounds)
next
  case (3 a b)
  show ?case using base64_pieces(6) [of "of_char b mod 16" 0]
    by (simp add: Let_def base64_digit_letter base64_letter_plain base64_bounds base64_pieces)
next
  case (4 a b c rest)
  then show ?case
    by (simp add: Let_def base64_digit_letter base64_letter_plain base64_bounds base64_pieces)
qed simp

lemma base64_encode_one_line:
  "filter (\<lambda>c. c \<noteq> CHR 0x0A \<and> c \<noteq> CHR 0x0D) (base64_encode s) = base64_encode s"
  by (induction s rule: base64_encode.induct)
    (simp_all add: Let_def base64_letter_plain base64_bounds base64_pieces)

lemma decode64_encode:
  "s \<noteq> [] \<Longrightarrow> last s \<noteq> CHR 0x0A \<Longrightarrow> decode64 (base64_encode s) = Inr s"
  by (simp add: decode64_def DecodeString_def base64_encode_one_line base64_groups_encode)

lemma first_colon_prefix:
  "first_colon (''b64:'' @ s) = Some (''b64'', s)" "first_colon (''env:'' @ s) = Some (''env'', s)"
  "first_colon (''file:'' @ s) = Some (''file'', s)"
  by (simp_all add: first_colon_def)

section \<open>Properties\<close>

text \<open>C28. The protocols of a configuration are those it names: for every text but the empty one, which
  means the default, \<^verbatim>\<open>Set\<close> does what reading the tokens as changes of a set of versions
  says, error for error, and then takes the least and the greatest version of the set. An
  empty set leaves the flag as it was, and a set with 1.0 and 1.2 is refused unless it has all versions.\<close>
theorem tls_protocols_set:
  "TLSProtocolsFlag_Set val flag =
     (if val = [] then Inr NewDefaultTLSProtocolsFlag
      else case wanted (strings_Fields val) {} of
        Inl f \<Rightarrow> Inl f
      | Inr S \<Rightarrow> range_of S flag)"
proof -
  have "wanted (strings_Fields val) (versions_of 0) =
      (case token_loop (strings_Fields val) 0 of Inl f \<Rightarrow> Inl f | Inr q \<Rightarrow> Inr (versions_of q))"
    by (rule token_loop_wanted) (use Fields_not_Nil in auto)
  moreover have "versions_of 0 = {}" by (simp add: versions_of_empty)
  ultimately show ?thesis
    using set_range_of [of _ flag] token_loop_small [of 0 "strings_Fields val"]
    by (cases "token_loop (strings_Fields val) 0") (simp_all add: TLSProtocolsFlag_Set_def)
qed


text \<open>The check for a range misses gaps and finds one where there is none: 1.1 and 1.3, also with
  1.0, are accepted and allow 1.2; the range 1.0 to 1.2 is refused. Removing all
  versions leaves no bound at all.\<close>
lemma tls_range_check_gaps:
  "TLSProtocolsFlag_Set ''TLSv1.1 +TLSv1.3'' flag = Inr \<lparr>tls_min = VersionTLS11, tls_max = VersionTLS13\<rparr>"
  "TLSProtocolsFlag_Set ''TLSv1 +TLSv1.3'' flag = Inr \<lparr>tls_min = VersionTLS10, tls_max = VersionTLS13\<rparr>"
  "TLSProtocolsFlag_Set ''TLSv1 +TLSv1.1 +TLSv1.2'' flag = Inl (Err OnlyRange)"
  "TLSProtocolsFlag_Set ''all -all'' flag = Inr flag"
  by (simp_all add: TLSProtocolsFlag_Set_def strings_Fields_def is_space_def token_step_def protocol_of_token_def
      tlsAll_def tls_bits min_loop_bits max_loop_bits)

text \<open>C30. Seed hosts survive printing and reading: a list of seeds whose texts are joined by commas and
  read into a new flag is the list of the flag. The names have no comma, colon or line break,
  a host does not start with a bracket, and a seed with a TLS name has a port.\<close>
theorem seeds_round_trip:
  assumes "list_all printable_seed hs" and "hs \<noteq> []"
  shows "HostTLSPortSliceFlag_Set
      (join '','' (HostTLSPortSliceFlag_GetSlice \<lparr>useDefault = False, Seeds = hs\<rparr>)) NewHostTLSPortSliceFlag =
    (None, \<lparr>useDefault = False, Seeds = hs\<rparr>)"
proof -
  have "split_on (\<lambda>c. c = CHR '','') (join '','' (map HostTLSPort_String hs)) = map HostTLSPort_String hs"
    by (rule split_on_join) (use assms printed_no_comma in \<open>auto simp: list_all_iff\<close>)
  then show ?thesis
    using append_loop_printed [OF assms(1)]
    by (simp add: HostTLSPortSliceFlag_Set_def HostTLSPortSliceFlag_Replace_def NewHostTLSPortSliceFlag_def
        HostTLSPortSliceFlag_GetSlice_def)
qed

theorem seeds_round_trip_witness:
  "let hs = [\<lparr>Host = ''db1'', TLSName = ''tls1'', Port = 4333\<rparr>, \<lparr>Host = ''10.0.0.2'', TLSName = [], Port = 0\<rparr>]
   in HostTLSPortSliceFlag_Set
      (join '','' (HostTLSPortSliceFlag_GetSlice \<lparr>useDefault = False, Seeds = hs\<rparr>)) NewHostTLSPortSliceFlag =
    (None, \<lparr>useDefault = False, Seeds = hs\<rparr>)"
  unfolding Let_def
  by (rule seeds_round_trip) (simp_all add: printable_seed_def plain_host_def one_line_def)

text \<open>The formats of a seed: a host, a host with a port, and a host with TLS name and port are read,
  with and without brackets; the number is the port. A host with a TLS name but no port is refused,
  although the help text of the flag makes the port optional.\<close>
lemma host_formats:
  assumes "plain_host h" and "one_line b" and "CHR '']'' \<notin> set b"
    and "one_line t" and "CHR '']'' \<notin> set t" and "digits d" and "ParseInt d = Some p"
  shows "parseHostTLSPort h = Inr \<lparr>Host = h, TLSName = [], Port = 0\<rparr> \<and>
    parseHostTLSPort (h @ '':'' @ d) = Inr \<lparr>Host = h, TLSName = [], Port = p\<rparr> \<and>
    parseHostTLSPort (h @ '':'' @ t @ '':'' @ d) = Inr \<lparr>Host = h, TLSName = t, Port = p\<rparr> \<and>
    parseHostTLSPort (''['' @ b @ '']'') = Inr \<lparr>Host = b, TLSName = [], Port = 0\<rparr> \<and>
    parseHostTLSPort (''['' @ b @ '']:'' @ d) = Inr \<lparr>Host = b, TLSName = [], Port = p\<rparr> \<and>
    parseHostTLSPort (''['' @ b @ '']:'' @ t @ '':'' @ d) = Inr \<lparr>Host = b, TLSName = t, Port = p\<rparr> \<and>
    (CHR '':'' \<notin> set t \<longrightarrow> \<not> digits t \<longrightarrow> parseHostTLSPort (h @ '':'' @ t) = Inl NoFormat)"
  using parse_plain [OF assms(1)] parse_plain_port [OF assms(1,6,7)]
    parse_plain_name_port [OF assms(1,4,6,7)] parse_bracketed [OF assms(2,3)]
    parse_bracketed_port [OF assms(2,3,6,7)] parse_bracketed_name_port [OF assms(2,4,5,6,7)]
    parse_plain_name [OF assms(1)]
  by simp

theorem host_formats_witness:
  "parseHostTLSPort ''[::1]:tls:4333'' = Inr \<lparr>Host = ''::1'', TLSName = ''tls'', Port = 4333\<rparr> \<and>
   parseHostTLSPort ''db1:tls'' = Inl NoFormat"
  using host_formats [of "''db1''" "''::1''" "''tls''" "''4333''" 4333]
  by (simp add: plain_host_def one_line_def digits_def is_digit_def ParseInt_def read_base_def)


text \<open>A password is the text that the configuration gives, or what its prefix names: a base64 text
  is decoded, an environment variable read, a file read without its last line break. A
  variable that is not set is an error. An empty file makes the text with the prefix the password,
  and an empty base64 text makes the manager panic.\<close>
lemma password_sources:
  assumes "CHR '':'' \<notin> set c" and "s \<noteq> []" and "last s \<noteq> CHR 0x0A"
    and "os_ReadFile os (filepath_Abs os f) = Inr data"
  shows "PasswordFlag_Set os c = Inr c \<and>
    PasswordFlag_Set os (''b64:'' @ base64_encode s) = Inr s \<and>
    PasswordFlag_Set os ''b64:'' = Inl (Panics IndexOutOfBounds) \<and>
    PasswordFlag_Set os (''env:'' @ v) =
      (if os_Getenv os v = [] then Inl (Err EnvironmentVariableNotFound) else Inr (os_Getenv os v)) \<and>
    PasswordFlag_Set os (''file:'' @ f) =
      Inr (if trim_newline data = [] then ''file:'' @ f else trim_newline data)"
proof -
  have empty: "decode64 [] = Inl (Panics IndexOutOfBounds)" by (simp add: decode64_def DecodeString_def)
  show ?thesis
    using decode64_encode [OF assms(2,3)] first_colon_prefix first_colon_prefix(1) [of "[]"] assms
    by (simp add: PasswordFlag_Set_def flagFormatParser_def first_colon_None flag_formats fromEnv_def
        fromFile_def readFromFile_def fromBase64_def empty)
qed

theorem password_sources_witness:
  "let os = \<lparr>os_Getenv = (\<lambda>v. if v = ''PW'' then ''secret'' else []), filepath_Abs = (\<lambda>f. f),
       filepath_Join = (\<lambda>p f. p @ ''/'' @ f), os_ReadFile = (\<lambda>f. Inr [CHR 0x0A]), ioutil_ReadDir = (\<lambda>d. Inr [])\<rparr>
   in PasswordFlag_Set os ''env:PW'' = Inr ''secret'' \<and> PasswordFlag_Set os ''file:empty'' = Inr ''file:empty''"
proof -
  let ?os = "\<lparr>os_Getenv = (\<lambda>v. if v = ''PW'' then ''secret'' else []), filepath_Abs = (\<lambda>f. f),
       filepath_Join = (\<lambda>p f. p @ ''/'' @ f), os_ReadFile = (\<lambda>f. Inr [CHR 0x0A]), ioutil_ReadDir = (\<lambda>d. Inr [])\<rparr>"
  show ?thesis
    using password_sources [of "''x''" "''x''" ?os "''empty''" "[CHR 0x0A]" "''PW''"]
    by (simp add: trim_newline_def)
qed

end
