(* ===== verification/Manager_Config.thy ===== *)
theory Manager_Config
  imports Manager_Flags
begin

text \<open>
  The configuration of the connection manager: a section of the configuration file becomes
  flags (\<^verbatim>\<open>config.Read\<close>), the flags a configuration (\<^verbatim>\<open>NewAerospikeConfig\<close>), and the
  configuration the client policy and the seed hosts with which the manager opens the
  cluster (\<^verbatim>\<open>NewClientPolicy\<close>, \<^verbatim>\<open>NewHosts\<close>, \<^verbatim>\<open>launchServer\<close>). The parser of the file, the
  parser of durations and the certificate functions are parameters.
\<close>

section \<open>The file\<close>

text \<open>A value of a TOML document, after \<^verbatim>\<open>toml.Unmarshal\<close> into \<^verbatim>\<open>any\<close>.\<close>
datatype toml = TString string | TInt i64 | TBool bool | TArray "toml list" | TOther

type_synonym toml_section = "(string \<times> toml) list"

record manager_system =
  host_os :: host_system
  toml_Unmarshal :: "string \<Rightarrow> string + (string \<times> toml_section) list"
  time_ParseDuration :: "string \<Rightarrow> string + i64"

text \<open>The type assertions \<^verbatim>\<open>v.(string)\<close>, \<^verbatim>\<open>v.(int64)\<close>, \<^verbatim>\<open>v.(bool)\<close>, \<^verbatim>\<open>v.([]any)\<close>.\<close>
fun as_string :: "toml \<Rightarrow> failure + string" where
  "as_string (TString s) = Inr s"
| "as_string _ = Inl (Panics TypeAssertion)"

fun as_int64 :: "toml \<Rightarrow> failure + i64" where
  "as_int64 (TInt i) = Inr i"
| "as_int64 _ = Inl (Panics TypeAssertion)"

fun as_bool :: "toml \<Rightarrow> failure + bool" where
  "as_bool (TBool b) = Inr b"
| "as_bool _ = Inl (Panics TypeAssertion)"

fun as_array :: "toml \<Rightarrow> failure + toml list" where
  "as_array (TArray vs) = Inr vs"
| "as_array _ = Inl (Panics TypeAssertion)"

section \<open>Flags\<close>

record AerospikeFlags =
  af_Socket :: string
  af_Seeds :: HostTLSPortSliceFlag
  af_DefaultPort :: i64
  af_User :: string
  af_Password :: string
  af_AuthMode :: AuthMode
  af_TLSEnable :: bool
  af_TLSName :: string
  af_TLSProtocols :: TLSProtocolsFlag
  af_TLSRootCAFile :: string
  af_TLSRootCAPath :: "string list"
  af_TLSCertFile :: string
  af_TLSKeyFile :: string
  af_TLSKeyFilePass :: string
  af_ClusterName :: string
  af_Timeout :: i64
  af_IdleTimeout :: i64
  af_LoginTimeout :: i64
  af_ConnectionQueueSize :: i64
  af_MinConnectionsPerNode :: i64
  af_MaxErrorRate :: i64
  af_ErrorRateWindow :: i64
  af_LimitConnectionsToQueueSize :: bool
  af_OpeningConnectionThreshold :: i64
  af_FailIfNotConnected :: bool
  af_TendInterval :: i64
  af_UseServicesAlternate :: bool
  af_RackAware :: bool
  af_RackIds :: "i64 list"
  af_IgnoreOtherSubnetAliases :: bool
  af_SeedOnlyCluster :: bool

definition NewDefaultAerospikeFlags :: AerospikeFlags where
  "NewDefaultAerospikeFlags =
     \<lparr>af_Socket = [], af_Seeds = NewHostTLSPortSliceFlag, af_DefaultPort = Manager_Flags.DefaultPort,
       af_User = [], af_Password = [], af_AuthMode = AuthModeInternal, af_TLSEnable = False,
       af_TLSName = [], af_TLSProtocols = NewDefaultTLSProtocolsFlag, af_TLSRootCAFile = [],
       af_TLSRootCAPath = [], af_TLSCertFile = [], af_TLSKeyFile = [], af_TLSKeyFilePass = [],
       af_ClusterName = [], af_Timeout = 0, af_IdleTimeout = 0, af_LoginTimeout = 0,
       af_ConnectionQueueSize = 0, af_MinConnectionsPerNode = 0, af_MaxErrorRate = 0,
       af_ErrorRateWindow = 0, af_LimitConnectionsToQueueSize = False,
       af_OpeningConnectionThreshold = 0, af_FailIfNotConnected = False, af_TendInterval = 0,
       af_UseServicesAlternate = False, af_RackAware = False, af_RackIds = [],
       af_IgnoreOtherSubnetAliases = False, af_SeedOnlyCluster = False\<rparr>"

text \<open>The values of the keys that need more than a type assertion.\<close>
definition set_host :: "toml \<Rightarrow> failure + HostTLSPortSliceFlag" where
  "set_host v =
     sbind (as_string v) (\<lambda>s.
       case HostTLSPortSliceFlag_Set s NewHostTLSPortSliceFlag of
         (Some err, seeds) \<Rightarrow> Inl (Err err)
       | (None, seeds) \<Rightarrow> Inr seeds)"

definition set_password :: "manager_system \<Rightarrow> toml \<Rightarrow> failure + string" where
  "set_password sys v = sbind (as_string v) (PasswordFlag_Set (host_os sys))"

definition set_auth :: "toml \<Rightarrow> failure + AuthMode" where
  "set_auth v =
     sbind (as_string v) (\<lambda>s. case AuthModeFlag_Set s of Inl err \<Rightarrow> Inl (Err err) | Inr mode \<Rightarrow> Inr mode)"

definition set_protocols :: "toml \<Rightarrow> failure + TLSProtocolsFlag" where
  "set_protocols v = sbind (as_string v) (\<lambda>s. TLSProtocolsFlag_Set s \<lparr>tls_min = 0, tls_max = 0\<rparr>)"

definition set_cert :: "manager_system \<Rightarrow> toml \<Rightarrow> failure + string" where
  "set_cert sys v = sbind (as_string v) (CertFlag_Set (host_os sys))"

definition set_cert_path :: "manager_system \<Rightarrow> toml \<Rightarrow> failure + string list" where
  "set_cert_path sys v = sbind (as_string v) (CertPathFlag_Set (host_os sys))"

definition set_duration :: "manager_system \<Rightarrow> toml \<Rightarrow> failure + i64" where
  "set_duration sys v =
     sbind (as_string v) (\<lambda>s.
       case time_ParseDuration sys s of Inl err \<Rightarrow> Inl (Err (DurationError err)) | Inr d \<Rightarrow> Inr d)"

definition set_rack_ids :: "toml \<Rightarrow> failure + i64 list" where
  "set_rack_ids v = sbind (as_array v) (\<lambda>vs. ssequence (map as_int64 vs))"

text \<open>One step of \<^verbatim>\<open>Read\<close>: a key that exists sets its flag.\<close>
definition when_key ::
  "string \<Rightarrow> (toml \<Rightarrow> failure + 'a) \<Rightarrow> ('a \<Rightarrow> AerospikeFlags \<Rightarrow> AerospikeFlags) \<Rightarrow>
   toml_section \<Rightarrow> AerospikeFlags \<Rightarrow> failure + AerospikeFlags" where
  "when_key key get upd valMap f =
     (case map_of valMap key of
        None \<Rightarrow> Inr f
      | Some v \<Rightarrow> sbind (get v) (\<lambda>x. Inr (upd x f)))"

definition section_steps :: "manager_system \<Rightarrow> (toml_section \<Rightarrow> AerospikeFlags \<Rightarrow> failure + AerospikeFlags) list" where
  "section_steps sys =
     [when_key ''socket'' as_string (\<lambda>v f. f\<lparr>af_Socket := v\<rparr>),
      when_key ''host'' set_host (\<lambda>v f. f\<lparr>af_Seeds := v\<rparr>),
      when_key ''port'' as_int64 (\<lambda>v f. f\<lparr>af_DefaultPort := v\<rparr>),
      when_key ''user'' as_string (\<lambda>v f. f\<lparr>af_User := v\<rparr>),
      when_key ''password'' (set_password sys) (\<lambda>v f. f\<lparr>af_Password := v\<rparr>),
      when_key ''auth'' set_auth (\<lambda>v f. f\<lparr>af_AuthMode := v\<rparr>),
      when_key ''tls-enable'' as_bool (\<lambda>v f. f\<lparr>af_TLSEnable := v\<rparr>),
      when_key ''tls-name'' as_string (\<lambda>v f. f\<lparr>af_TLSName := v\<rparr>),
      when_key ''tls-protocols'' set_protocols (\<lambda>v f. f\<lparr>af_TLSProtocols := v\<rparr>),
      when_key ''tls-cafile'' (set_cert sys) (\<lambda>v f. f\<lparr>af_TLSRootCAFile := v\<rparr>),
      when_key ''tls-capath'' (set_cert_path sys) (\<lambda>v f. f\<lparr>af_TLSRootCAPath := v\<rparr>),
      when_key ''tls-certfile'' (set_cert sys) (\<lambda>v f. f\<lparr>af_TLSCertFile := v\<rparr>),
      when_key ''tls-keyfile'' (set_cert sys) (\<lambda>v f. f\<lparr>af_TLSKeyFile := v\<rparr>),
      when_key ''tls-keyfile-password'' (set_password sys) (\<lambda>v f. f\<lparr>af_TLSKeyFilePass := v\<rparr>),
      when_key ''cluster-name'' as_string (\<lambda>v f. f\<lparr>af_ClusterName := v\<rparr>),
      when_key ''timeout'' (set_duration sys) (\<lambda>v f. f\<lparr>af_Timeout := v\<rparr>),
      when_key ''idle-timeout'' (set_duration sys) (\<lambda>v f. f\<lparr>af_IdleTimeout := v\<rparr>),
      when_key ''login-timeout'' (set_duration sys) (\<lambda>v f. f\<lparr>af_LoginTimeout := v\<rparr>),
      when_key ''connection-queue-size'' as_int64 (\<lambda>v f. f\<lparr>af_ConnectionQueueSize := v\<rparr>),
      when_key ''min-connections-per-node'' as_int64 (\<lambda>v f. f\<lparr>af_MinConnectionsPerNode := v\<rparr>),
      when_key ''max-error-rate'' as_int64 (\<lambda>v f. f\<lparr>af_MaxErrorRate := v\<rparr>),
      when_key ''error-rate-window'' as_int64 (\<lambda>v f. f\<lparr>af_ErrorRateWindow := v\<rparr>),
      when_key ''limit-connections-to-queue-size'' as_bool (\<lambda>v f. f\<lparr>af_LimitConnectionsToQueueSize := v\<rparr>),
      when_key ''opening-connection-threshold'' as_int64 (\<lambda>v f. f\<lparr>af_OpeningConnectionThreshold := v\<rparr>),
      when_key ''fail-if-not-connected'' as_bool (\<lambda>v f. f\<lparr>af_FailIfNotConnected := v\<rparr>),
      when_key ''tend-interval'' (set_duration sys) (\<lambda>v f. f\<lparr>af_TendInterval := v\<rparr>),
      when_key ''use-services-alternate'' as_bool (\<lambda>v f. f\<lparr>af_UseServicesAlternate := v\<rparr>),
      when_key ''rack-aware'' as_bool (\<lambda>v f. f\<lparr>af_RackAware := v\<rparr>),
      when_key ''rack-ids'' set_rack_ids (\<lambda>v f. f\<lparr>af_RackIds := v\<rparr>),
      when_key ''ignore-other-subnet-aliases'' as_bool (\<lambda>v f. f\<lparr>af_IgnoreOtherSubnetAliases := v\<rparr>),
      when_key ''seed-only-cluster'' as_bool (\<lambda>v f. f\<lparr>af_SeedOnlyCluster := v\<rparr>)]"

fun run_steps ::
  "(toml_section \<Rightarrow> AerospikeFlags \<Rightarrow> failure + AerospikeFlags) list \<Rightarrow>
   toml_section \<Rightarrow> AerospikeFlags \<Rightarrow> failure + AerospikeFlags" where
  "run_steps [] valMap f = Inr f"
| "run_steps (step # steps) valMap f = sbind (step valMap f) (run_steps steps valMap)"

definition read_section :: "manager_system \<Rightarrow> toml_section \<Rightarrow> failure + AerospikeFlags" where
  "read_section sys valMap = run_steps (section_steps sys) valMap NewDefaultAerospikeFlags"

section \<open>The configuration of a cluster\<close>

record AerospikeConfig =
  ac_Socket :: string
  ac_Seeds :: "HostTLSPort list"
  ac_User :: string
  ac_Password :: string
  ac_AuthMode :: AuthMode
  ac_RootCA :: "string list"
  ac_Cert :: string
  ac_Key :: string
  ac_KeyPass :: string
  ac_TLSProtocolsMinVersion :: TLSProtocol
  ac_TLSProtocolsMaxVersion :: TLSProtocol
  ac_ClusterName :: string
  ac_Timeout :: i64
  ac_IdleTimeout :: i64
  ac_LoginTimeout :: i64
  ac_ConnectionQueueSize :: i64
  ac_MinConnectionsPerNode :: i64
  ac_MaxErrorRate :: i64
  ac_ErrorRateWindow :: i64
  ac_LimitConnectionsToQueueSize :: bool
  ac_OpeningConnectionThreshold :: i64
  ac_FailIfNotConnected :: bool
  ac_TendInterval :: i64
  ac_UseServicesAlternate :: bool
  ac_RackAware :: bool
  ac_RackIds :: "i64 list"
  ac_IgnoreOtherSubnetAliases :: bool
  ac_SeedOnlyCluster :: bool

text \<open>A seed without a port gets the default port, one without a TLS name the TLS name of the section.\<close>
definition complete_seed :: "AerospikeFlags \<Rightarrow> HostTLSPort \<Rightarrow> HostTLSPort" where
  "complete_seed af elem =
     (let elem = (if Port elem = 0 then elem\<lparr>Port := af_DefaultPort af\<rparr> else elem)
      in if TLSName elem = [] \<and> af_TLSName af \<noteq> [] then elem\<lparr>TLSName := af_TLSName af\<rparr> else elem)"

definition NewAerospikeConfig :: "AerospikeFlags \<Rightarrow> AerospikeConfig" where
  "NewAerospikeConfig af =
     \<lparr>ac_Socket = af_Socket af,
      ac_Seeds = map (complete_seed af) (Seeds (af_Seeds af)),
      ac_User = af_User af,
      ac_Password = af_Password af,
      ac_AuthMode = af_AuthMode af,
      ac_RootCA =
        (if af_TLSEnable af
         then (if af_TLSRootCAFile af \<noteq> [] then [af_TLSRootCAFile af] else []) @ af_TLSRootCAPath af
         else []),
      ac_Cert = (if af_TLSEnable af then af_TLSCertFile af else []),
      ac_Key = (if af_TLSEnable af then af_TLSKeyFile af else []),
      ac_KeyPass = (if af_TLSEnable af then af_TLSKeyFilePass af else []),
      ac_TLSProtocolsMinVersion = (if af_TLSEnable af then tls_min (af_TLSProtocols af) else 0),
      ac_TLSProtocolsMaxVersion = (if af_TLSEnable af then tls_max (af_TLSProtocols af) else 0),
      ac_ClusterName = af_ClusterName af,
      ac_Timeout = af_Timeout af,
      ac_IdleTimeout = af_IdleTimeout af,
      ac_LoginTimeout = af_LoginTimeout af,
      ac_ConnectionQueueSize = af_ConnectionQueueSize af,
      ac_MinConnectionsPerNode = af_MinConnectionsPerNode af,
      ac_MaxErrorRate = af_MaxErrorRate af,
      ac_ErrorRateWindow = af_ErrorRateWindow af,
      ac_LimitConnectionsToQueueSize = af_LimitConnectionsToQueueSize af,
      ac_OpeningConnectionThreshold = af_OpeningConnectionThreshold af,
      ac_FailIfNotConnected = af_FailIfNotConnected af,
      ac_TendInterval = af_TendInterval af,
      ac_UseServicesAlternate = af_UseServicesAlternate af,
      ac_RackAware = af_RackAware af,
      ac_RackIds = af_RackIds af,
      ac_IgnoreOtherSubnetAliases = af_IgnoreOtherSubnetAliases af,
      ac_SeedOnlyCluster = af_SeedOnlyCluster af\<rparr>"

text \<open>The sections of the file in the order in which the map of them is visited.\<close>
definition Read :: "manager_system \<Rightarrow> string \<Rightarrow> failure + (string \<times> AerospikeConfig) list" where
  "Read sys configFile =
     (case os_ReadFile (host_os sys) configFile of
        Inl err \<Rightarrow> Inl (Err (ReadFailed configFile err))
      | Inr doc \<Rightarrow>
          (case toml_Unmarshal sys doc of
             Inl err \<Rightarrow> Inl (Err (TomlError err))
           | Inr cfg \<Rightarrow>
               ssequence (map (\<lambda>(name, valMap).
                 sbind (read_section sys valMap) (\<lambda>f. Inr (name, NewAerospikeConfig f))) cfg)))"

section \<open>TLS\<close>

record pem_block =
  pem_Type :: string
  pem_Headers :: "(string \<times> string) list"
  pem_Bytes :: string

record ('pool, 'cert) tls_library =
  SystemCertPool :: "'pool option"
  NewCertPool :: 'pool
  AppendCertsFromPEM :: "'pool \<Rightarrow> string \<Rightarrow> 'pool"
  pem_Decode :: "string \<Rightarrow> pem_block option"
  IsEncryptedPEMBlock :: "pem_block \<Rightarrow> bool"
  DecryptPEMBlock :: "pem_block \<Rightarrow> string \<Rightarrow> string + string"
  EncodeToMemory :: "pem_block \<Rightarrow> string option"
  X509KeyPair :: "string \<Rightarrow> string \<Rightarrow> string + 'cert"

definition loadCACerts :: "('pool, 'cert) tls_library \<Rightarrow> string list \<Rightarrow> 'pool" where
  "loadCACerts lib certsBytes =
     (let certificates = (case SystemCertPool lib of None \<Rightarrow> NewCertPool lib | Some pool \<Rightarrow> pool)
      in foldl (\<lambda>pool cert. if length cert > 0 then AppendCertsFromPEM lib pool cert else pool) certificates certsBytes)"

definition loadServerCertAndKey ::
  "('pool, 'cert) tls_library \<Rightarrow> string \<Rightarrow> string \<Rightarrow> string \<Rightarrow> conf_error + 'cert list" where
  "loadServerCertAndKey lib certFileBytes keyFileBytes keyPassBytes =
     (case pem_Decode lib keyFileBytes of
        None \<Rightarrow> Inl (KeyError ''failed to decode PEM data for key or certificate'')
      | Some keyBlock \<Rightarrow>
          sbind (if IsEncryptedPEMBlock lib keyBlock
                 then (case DecryptPEMBlock lib keyBlock keyPassBytes of
                         Inl err \<Rightarrow> Inl (KeyError (''failed to decrypt PEM Block: '' @ err))
                       | Inr decryptedDERBytes \<Rightarrow>
                           Inr (keyBlock\<lparr>pem_Bytes := decryptedDERBytes, pem_Headers := []\<rparr>))
                 else Inr keyBlock) (\<lambda>block.
            case EncodeToMemory lib block of
              None \<Rightarrow> Inl (KeyError ''failed to encode PEM data for key or certificate'')
            | Some keyPEM \<Rightarrow>
                (case X509KeyPair lib certFileBytes keyPEM of
                   Inl err \<Rightarrow> Inl (KeyError (''failed to add certificate and key to the pool: '' @ err))
                 | Inr cert \<Rightarrow> Inr [cert])))"

record ('pool, 'cert) tls_Config =
  Certificates :: "'cert list"
  RootCAs :: 'pool
  InsecureSkipVerify :: bool
  PreferServerCipherSuites :: bool
  MinVersion :: u16
  MaxVersion :: u16

definition newTLSConfig ::
  "('pool, 'cert) tls_library \<Rightarrow> AerospikeConfig \<Rightarrow> conf_error + ('pool, 'cert) tls_Config option" where
  "newTLSConfig lib ac =
     (if length (ac_RootCA ac) = 0 \<and> length (ac_Cert ac) = 0 \<and> length (ac_Key ac) = 0 then Inr None
      else sbind (if length (ac_Cert ac) > 0 \<or> length (ac_Key ac) > 0
                  then loadServerCertAndKey lib (ac_Cert ac) (ac_Key ac) (ac_KeyPass ac)
                  else Inr []) (\<lambda>clientPool.
        Inr (Some \<lparr>Certificates = clientPool, RootCAs = loadCACerts lib (ac_RootCA ac),
          InsecureSkipVerify = False, PreferServerCipherSuites = True,
          MinVersion = ac_TLSProtocolsMinVersion ac, MaxVersion = ac_TLSProtocolsMaxVersion ac\<rparr>)))"

section \<open>Opening the cluster\<close>

text \<open>The fields of the library's client policy that the manager sets.\<close>
record ('pool, 'cert) aero_ClientPolicy =
  cp_User :: string
  cp_Password :: string
  cp_AuthMode :: AuthMode
  cp_ClusterName :: string
  cp_Timeout :: i64
  cp_IdleTimeout :: i64
  cp_LoginTimeout :: i64
  cp_ConnectionQueueSize :: i64
  cp_MinConnectionsPerNode :: i64
  cp_MaxErrorRate :: i64
  cp_ErrorRateWindow :: i64
  cp_LimitConnectionsToQueueSize :: bool
  cp_OpeningConnectionThreshold :: i64
  cp_FailIfNotConnected :: bool
  cp_TendInterval :: i64
  cp_UseServicesAlternate :: bool
  cp_RackAware :: bool
  cp_RackIds :: "i64 list"
  cp_IgnoreOtherSubnetAliases :: bool
  cp_SeedOnlyCluster :: bool
  cp_TlsConfig :: "('pool, 'cert) tls_Config option"

definition NewClientPolicy ::
  "('pool, 'cert) tls_library \<Rightarrow> AerospikeConfig \<Rightarrow> conf_error + ('pool, 'cert) aero_ClientPolicy" where
  "NewClientPolicy lib ac =
     sbind (newTLSConfig lib ac) (\<lambda>tlsConfig.
       Inr \<lparr>cp_User = ac_User ac,
         cp_Password = ac_Password ac,
         cp_AuthMode = ac_AuthMode ac,
         cp_ClusterName = ac_ClusterName ac,
         cp_Timeout = ac_Timeout ac,
         cp_IdleTimeout = ac_IdleTimeout ac,
         cp_LoginTimeout = ac_LoginTimeout ac,
         cp_ConnectionQueueSize = ac_ConnectionQueueSize ac,
         cp_MinConnectionsPerNode = ac_MinConnectionsPerNode ac,
         cp_MaxErrorRate = ac_MaxErrorRate ac,
         cp_ErrorRateWindow = ac_ErrorRateWindow ac,
         cp_LimitConnectionsToQueueSize = ac_LimitConnectionsToQueueSize ac,
         cp_OpeningConnectionThreshold = ac_OpeningConnectionThreshold ac,
         cp_FailIfNotConnected = ac_FailIfNotConnected ac,
         cp_TendInterval = ac_TendInterval ac,
         cp_UseServicesAlternate = ac_UseServicesAlternate ac,
         cp_RackAware = ac_RackAware ac,
         cp_RackIds = ac_RackIds ac,
         cp_IgnoreOtherSubnetAliases = ac_IgnoreOtherSubnetAliases ac,
         cp_SeedOnlyCluster = ac_SeedOnlyCluster ac,
         cp_TlsConfig = tlsConfig\<rparr>)"

record aero_Host =
  ah_Name :: string
  ah_TLSName :: string
  ah_Port :: i64

definition NewHosts :: "AerospikeConfig \<Rightarrow> aero_Host list" where
  "NewHosts ac =
     map (\<lambda>seed.
       let host = \<lparr>ah_Name = Host seed, ah_TLSName = [], ah_Port = Port seed\<rparr>
       in if TLSName seed \<noteq> [] then host\<lparr>ah_TLSName := TLSName seed\<rparr> else host) (ac_Seeds ac)"

text \<open>The arguments with which \<^verbatim>\<open>launchServer\<close> opens the cluster; an error ends the manager.\<close>
definition launchServer ::
  "('pool, 'cert) tls_library \<Rightarrow> AerospikeConfig \<Rightarrow>
   conf_error + (('pool, 'cert) aero_ClientPolicy \<times> aero_Host list)" where
  "launchServer lib ac =
     sbind (NewClientPolicy lib ac) (\<lambda>cp.
       let cp = (if cp_ConnectionQueueSize cp = 0 then cp\<lparr>cp_ConnectionQueueSize := 32\<rparr> else cp)
       in Inr (cp, NewHosts ac))"

section \<open>What a section sets\<close>

text \<open>The value of a key: the default, or what the value of the section is read as.\<close>
definition setting :: "string \<Rightarrow> (toml \<Rightarrow> failure + 'a) \<Rightarrow> 'a \<Rightarrow> toml_section \<Rightarrow> 'a \<Rightarrow> bool" where
  "setting key get d valMap x \<longleftrightarrow>
     (case map_of valMap key of None \<Rightarrow> x = d | Some v \<Rightarrow> get v = Inr x)"

text \<open>A step that does not change a flag.\<close>
definition keeps :: "(AerospikeFlags \<Rightarrow> 'a) \<Rightarrow> (toml_section \<Rightarrow> AerospikeFlags \<Rightarrow> failure + AerospikeFlags) \<Rightarrow> bool" where
  "keeps sel step \<longleftrightarrow> (\<forall>valMap f f'. step valMap f = Inr f' \<longrightarrow> sel f' = sel f)"

lemma keeps_when_key: "(\<And>x f. sel (upd x f) = sel f) \<Longrightarrow> keeps sel (when_key key get upd)"
  by (auto simp: keeps_def when_key_def sbind_Inr_iff split: option.splits)

lemma run_steps_keeps: "list_all (keeps sel) steps \<Longrightarrow> run_steps steps valMap f = Inr f' \<Longrightarrow> sel f' = sel f"
  by (induction steps arbitrary: f) (auto simp: sbind_Inr_iff keeps_def)

lemma run_steps_append: "run_steps (xs @ ys) valMap f = sbind (run_steps xs valMap f) (run_steps ys valMap)"
proof (induction xs arbitrary: f)
  case (Cons x xs)
  then show ?case by (cases "x valMap f") simp_all
qed simp

lemma run_steps_setting:
  assumes "run_steps steps valMap f = Inr f'" and "i < length steps" and "steps ! i = when_key key get upd"
    and "list_all (keeps sel) (take i steps)" and "list_all (keeps sel) (drop (Suc i) steps)"
    and "\<And>x f. sel (upd x f) = x"
  shows "setting key get (sel f) valMap (sel f')"
proof -
  have "steps = take i steps @ when_key key get upd # drop (Suc i) steps"
    using id_take_nth_drop [OF assms(2)] assms(3) by simp
  then have "run_steps (take i steps @ when_key key get upd # drop (Suc i) steps) valMap f = Inr f'"
    using assms(1) by simp
  then obtain f1 f2 where run: "run_steps (take i steps) valMap f = Inr f1"
    "when_key key get upd valMap f1 = Inr f2" "run_steps (drop (Suc i) steps) valMap f2 = Inr f'"
    unfolding run_steps_append run_steps.simps sbind_Inr_iff by blast
  have "sel f1 = sel f" "sel f' = sel f2"
    using run_steps_keeps assms(4,5) run(1,3) by blast+
  then show ?thesis
    using run(2) assms(6) by (auto simp: setting_def when_key_def sbind_Inr_iff split: option.splits)
qed

lemma section_setting:
  assumes "read_section sys valMap = Inr f" and "i < length (section_steps sys)"
    and "section_steps sys ! i = when_key key get upd"
    and "list_all (keeps sel) (take i (section_steps sys))"
    and "list_all (keeps sel) (drop (Suc i) (section_steps sys))"
    and "\<And>x f. sel (upd x f) = x" and "sel NewDefaultAerospikeFlags = d"
  shows "setting key get d valMap (sel f)"
  using run_steps_setting [OF assms(1) [unfolded read_section_def] assms(2-6)] assms(7) by simp

lemmas step_simps = section_steps_def keeps_when_key NewDefaultAerospikeFlags_def

lemma connection_settings:
  assumes "read_section sys valMap = Inr f"
  shows "setting ''socket'' as_string [] valMap (af_Socket f)"
    "setting ''host'' set_host NewHostTLSPortSliceFlag valMap (af_Seeds f)"
    "setting ''port'' as_int64 Manager_Flags.DefaultPort valMap (af_DefaultPort f)"
    "setting ''user'' as_string [] valMap (af_User f)"
    "setting ''password'' (set_password sys) [] valMap (af_Password f)"
    "setting ''auth'' set_auth AuthModeInternal valMap (af_AuthMode f)"
proof -
  show "setting ''socket'' as_string [] valMap (af_Socket f)"
    by (rule section_setting [OF assms, of 0 _ _ "\<lambda>v f. f\<lparr>af_Socket := v\<rparr>"]) (simp_all add: step_simps)
  show "setting ''host'' set_host NewHostTLSPortSliceFlag valMap (af_Seeds f)"
    by (rule section_setting [OF assms, of 1 _ _ "\<lambda>v f. f\<lparr>af_Seeds := v\<rparr>"]) (simp_all add: step_simps)
  show "setting ''port'' as_int64 Manager_Flags.DefaultPort valMap (af_DefaultPort f)"
    by (rule section_setting [OF assms, of 2 _ _ "\<lambda>v f. f\<lparr>af_DefaultPort := v\<rparr>"]) (simp_all add: step_simps)
  show "setting ''user'' as_string [] valMap (af_User f)"
    by (rule section_setting [OF assms, of 3 _ _ "\<lambda>v f. f\<lparr>af_User := v\<rparr>"]) (simp_all add: step_simps)
  show "setting ''password'' (set_password sys) [] valMap (af_Password f)"
    by (rule section_setting [OF assms, of 4 _ _ "\<lambda>v f. f\<lparr>af_Password := v\<rparr>"]) (simp_all add: step_simps)
  show "setting ''auth'' set_auth AuthModeInternal valMap (af_AuthMode f)"
    by (rule section_setting [OF assms, of 5 _ _ "\<lambda>v f. f\<lparr>af_AuthMode := v\<rparr>"]) (simp_all add: step_simps)
qed

lemma tls_settings:
  assumes "read_section sys valMap = Inr f"
  shows "setting ''tls-enable'' as_bool False valMap (af_TLSEnable f)"
    "setting ''tls-name'' as_string [] valMap (af_TLSName f)"
    "setting ''tls-protocols'' set_protocols NewDefaultTLSProtocolsFlag valMap (af_TLSProtocols f)"
    "setting ''tls-cafile'' (set_cert sys) [] valMap (af_TLSRootCAFile f)"
    "setting ''tls-capath'' (set_cert_path sys) [] valMap (af_TLSRootCAPath f)"
    "setting ''tls-certfile'' (set_cert sys) [] valMap (af_TLSCertFile f)"
    "setting ''tls-keyfile'' (set_cert sys) [] valMap (af_TLSKeyFile f)"
    "setting ''tls-keyfile-password'' (set_password sys) [] valMap (af_TLSKeyFilePass f)"
proof -
  show "setting ''tls-enable'' as_bool False valMap (af_TLSEnable f)"
    by (rule section_setting [OF assms, of 6 _ _ "\<lambda>v f. f\<lparr>af_TLSEnable := v\<rparr>"]) (simp_all add: step_simps)
  show "setting ''tls-name'' as_string [] valMap (af_TLSName f)"
    by (rule section_setting [OF assms, of 7 _ _ "\<lambda>v f. f\<lparr>af_TLSName := v\<rparr>"]) (simp_all add: step_simps)
  show "setting ''tls-protocols'' set_protocols NewDefaultTLSProtocolsFlag valMap (af_TLSProtocols f)"
    by (rule section_setting [OF assms, of 8 _ _ "\<lambda>v f. f\<lparr>af_TLSProtocols := v\<rparr>"]) (simp_all add: step_simps)
  show "setting ''tls-cafile'' (set_cert sys) [] valMap (af_TLSRootCAFile f)"
    by (rule section_setting [OF assms, of 9 _ _ "\<lambda>v f. f\<lparr>af_TLSRootCAFile := v\<rparr>"]) (simp_all add: step_simps)
  show "setting ''tls-capath'' (set_cert_path sys) [] valMap (af_TLSRootCAPath f)"
    by (rule section_setting [OF assms, of 10 _ _ "\<lambda>v f. f\<lparr>af_TLSRootCAPath := v\<rparr>"]) (simp_all add: step_simps)
  show "setting ''tls-certfile'' (set_cert sys) [] valMap (af_TLSCertFile f)"
    by (rule section_setting [OF assms, of 11 _ _ "\<lambda>v f. f\<lparr>af_TLSCertFile := v\<rparr>"]) (simp_all add: step_simps)
  show "setting ''tls-keyfile'' (set_cert sys) [] valMap (af_TLSKeyFile f)"
    by (rule section_setting [OF assms, of 12 _ _ "\<lambda>v f. f\<lparr>af_TLSKeyFile := v\<rparr>"]) (simp_all add: step_simps)
  show "setting ''tls-keyfile-password'' (set_password sys) [] valMap (af_TLSKeyFilePass f)"
    by (rule section_setting [OF assms, of 13 _ _ "\<lambda>v f. f\<lparr>af_TLSKeyFilePass := v\<rparr>"]) (simp_all add: step_simps)
qed

lemma pool_settings:
  assumes "read_section sys valMap = Inr f"
  shows "setting ''cluster-name'' as_string [] valMap (af_ClusterName f)"
    "setting ''timeout'' (set_duration sys) 0 valMap (af_Timeout f)"
    "setting ''idle-timeout'' (set_duration sys) 0 valMap (af_IdleTimeout f)"
    "setting ''login-timeout'' (set_duration sys) 0 valMap (af_LoginTimeout f)"
    "setting ''connection-queue-size'' as_int64 0 valMap (af_ConnectionQueueSize f)"
    "setting ''min-connections-per-node'' as_int64 0 valMap (af_MinConnectionsPerNode f)"
    "setting ''max-error-rate'' as_int64 0 valMap (af_MaxErrorRate f)"
    "setting ''error-rate-window'' as_int64 0 valMap (af_ErrorRateWindow f)"
    "setting ''limit-connections-to-queue-size'' as_bool False valMap (af_LimitConnectionsToQueueSize f)"
proof -
  show "setting ''cluster-name'' as_string [] valMap (af_ClusterName f)"
    by (rule section_setting [OF assms, of 14 _ _ "\<lambda>v f. f\<lparr>af_ClusterName := v\<rparr>"]) (simp_all add: step_simps)
  show "setting ''timeout'' (set_duration sys) 0 valMap (af_Timeout f)"
    by (rule section_setting [OF assms, of 15 _ _ "\<lambda>v f. f\<lparr>af_Timeout := v\<rparr>"]) (simp_all add: step_simps)
  show "setting ''idle-timeout'' (set_duration sys) 0 valMap (af_IdleTimeout f)"
    by (rule section_setting [OF assms, of 16 _ _ "\<lambda>v f. f\<lparr>af_IdleTimeout := v\<rparr>"]) (simp_all add: step_simps)
  show "setting ''login-timeout'' (set_duration sys) 0 valMap (af_LoginTimeout f)"
    by (rule section_setting [OF assms, of 17 _ _ "\<lambda>v f. f\<lparr>af_LoginTimeout := v\<rparr>"]) (simp_all add: step_simps)
  show "setting ''connection-queue-size'' as_int64 0 valMap (af_ConnectionQueueSize f)"
    by (rule section_setting [OF assms, of 18 _ _ "\<lambda>v f. f\<lparr>af_ConnectionQueueSize := v\<rparr>"]) (simp_all add: step_simps)
  show "setting ''min-connections-per-node'' as_int64 0 valMap (af_MinConnectionsPerNode f)"
    by (rule section_setting [OF assms, of 19 _ _ "\<lambda>v f. f\<lparr>af_MinConnectionsPerNode := v\<rparr>"]) (simp_all add: step_simps)
  show "setting ''max-error-rate'' as_int64 0 valMap (af_MaxErrorRate f)"
    by (rule section_setting [OF assms, of 20 _ _ "\<lambda>v f. f\<lparr>af_MaxErrorRate := v\<rparr>"]) (simp_all add: step_simps)
  show "setting ''error-rate-window'' as_int64 0 valMap (af_ErrorRateWindow f)"
    by (rule section_setting [OF assms, of 21 _ _ "\<lambda>v f. f\<lparr>af_ErrorRateWindow := v\<rparr>"]) (simp_all add: step_simps)
  show "setting ''limit-connections-to-queue-size'' as_bool False valMap (af_LimitConnectionsToQueueSize f)"
    by (rule section_setting [OF assms, of 22 _ _ "\<lambda>v f. f\<lparr>af_LimitConnectionsToQueueSize := v\<rparr>"]) (simp_all add: step_simps)
qed

lemma cluster_settings:
  assumes "read_section sys valMap = Inr f"
  shows "setting ''opening-connection-threshold'' as_int64 0 valMap (af_OpeningConnectionThreshold f)"
    "setting ''fail-if-not-connected'' as_bool False valMap (af_FailIfNotConnected f)"
    "setting ''tend-interval'' (set_duration sys) 0 valMap (af_TendInterval f)"
    "setting ''use-services-alternate'' as_bool False valMap (af_UseServicesAlternate f)"
    "setting ''rack-aware'' as_bool False valMap (af_RackAware f)"
    "setting ''rack-ids'' set_rack_ids [] valMap (af_RackIds f)"
    "setting ''ignore-other-subnet-aliases'' as_bool False valMap (af_IgnoreOtherSubnetAliases f)"
    "setting ''seed-only-cluster'' as_bool False valMap (af_SeedOnlyCluster f)"
proof -
  show "setting ''opening-connection-threshold'' as_int64 0 valMap (af_OpeningConnectionThreshold f)"
    by (rule section_setting [OF assms, of 23 _ _ "\<lambda>v f. f\<lparr>af_OpeningConnectionThreshold := v\<rparr>"]) (simp_all add: step_simps)
  show "setting ''fail-if-not-connected'' as_bool False valMap (af_FailIfNotConnected f)"
    by (rule section_setting [OF assms, of 24 _ _ "\<lambda>v f. f\<lparr>af_FailIfNotConnected := v\<rparr>"]) (simp_all add: step_simps)
  show "setting ''tend-interval'' (set_duration sys) 0 valMap (af_TendInterval f)"
    by (rule section_setting [OF assms, of 25 _ _ "\<lambda>v f. f\<lparr>af_TendInterval := v\<rparr>"]) (simp_all add: step_simps)
  show "setting ''use-services-alternate'' as_bool False valMap (af_UseServicesAlternate f)"
    by (rule section_setting [OF assms, of 26 _ _ "\<lambda>v f. f\<lparr>af_UseServicesAlternate := v\<rparr>"]) (simp_all add: step_simps)
  show "setting ''rack-aware'' as_bool False valMap (af_RackAware f)"
    by (rule section_setting [OF assms, of 27 _ _ "\<lambda>v f. f\<lparr>af_RackAware := v\<rparr>"]) (simp_all add: step_simps)
  show "setting ''rack-ids'' set_rack_ids [] valMap (af_RackIds f)"
    by (rule section_setting [OF assms, of 28 _ _ "\<lambda>v f. f\<lparr>af_RackIds := v\<rparr>"]) (simp_all add: step_simps)
  show "setting ''ignore-other-subnet-aliases'' as_bool False valMap (af_IgnoreOtherSubnetAliases f)"
    by (rule section_setting [OF assms, of 29 _ _ "\<lambda>v f. f\<lparr>af_IgnoreOtherSubnetAliases := v\<rparr>"]) (simp_all add: step_simps)
  show "setting ''seed-only-cluster'' as_bool False valMap (af_SeedOnlyCluster f)"
    by (rule section_setting [OF assms, of 30 _ _ "\<lambda>v f. f\<lparr>af_SeedOnlyCluster := v\<rparr>"]) (simp_all add: step_simps)
qed

lemma set_host_parse:
  assumes "set_host v = Inr sf"
  shows "\<exists>s. v = TString s \<and>
     ssequence (map parseHostTLSPort (split_on (\<lambda>c. c = CHR '','') s)) = Inr (Seeds sf)"
proof -
  obtain s where s: "v = TString s" using assms by (cases v) (simp_all add: set_host_def)
  then show ?thesis
    using assms append_loop_parse [of "split_on (\<lambda>c. c = CHR '','') s" "\<lparr>useDefault = False, Seeds = []\<rparr>"]
    by (cases "ssequence (map parseHostTLSPort (split_on (\<lambda>c. c = CHR '','') s))")
      (auto simp: set_host_def HostTLSPortSliceFlag_Set_def HostTLSPortSliceFlag_Replace_def
        NewHostTLSPortSliceFlag_def split: prod.splits)
qed

lemma launchServer_Inr:
  assumes "launchServer lib ac = Inr (cp, hosts)"
  shows "\<exists>tls. newTLSConfig lib ac = Inr tls \<and> hosts = NewHosts ac \<and>
    cp = \<lparr>cp_User = ac_User ac, cp_Password = ac_Password ac, cp_AuthMode = ac_AuthMode ac,
          cp_ClusterName = ac_ClusterName ac, cp_Timeout = ac_Timeout ac,
          cp_IdleTimeout = ac_IdleTimeout ac, cp_LoginTimeout = ac_LoginTimeout ac,
          cp_ConnectionQueueSize = (if ac_ConnectionQueueSize ac = 0 then 32 else ac_ConnectionQueueSize ac),
          cp_MinConnectionsPerNode = ac_MinConnectionsPerNode ac, cp_MaxErrorRate = ac_MaxErrorRate ac,
          cp_ErrorRateWindow = ac_ErrorRateWindow ac,
          cp_LimitConnectionsToQueueSize = ac_LimitConnectionsToQueueSize ac,
          cp_OpeningConnectionThreshold = ac_OpeningConnectionThreshold ac,
          cp_FailIfNotConnected = ac_FailIfNotConnected ac, cp_TendInterval = ac_TendInterval ac,
          cp_UseServicesAlternate = ac_UseServicesAlternate ac, cp_RackAware = ac_RackAware ac,
          cp_RackIds = ac_RackIds ac, cp_IgnoreOtherSubnetAliases = ac_IgnoreOtherSubnetAliases ac,
          cp_SeedOnlyCluster = ac_SeedOnlyCluster ac, cp_TlsConfig = tls\<rparr>"
proof -
  obtain tls where tls: "newTLSConfig lib ac = Inr tls"
    using assms by (cases "newTLSConfig lib ac") (simp_all add: launchServer_def NewClientPolicy_def)
  then show ?thesis
    using assms by (cases "ac_ConnectionQueueSize ac = 0") (simp_all add: launchServer_def NewClientPolicy_def)
qed

lemma newTLSConfig_None:
  "newTLSConfig lib ac = Inr tls \<Longrightarrow> tls = None \<longleftrightarrow> ac_RootCA ac = [] \<and> ac_Cert ac = [] \<and> ac_Key ac = []"
  by (auto simp: newTLSConfig_def sbind_Inr_iff split: if_splits)

lemma newTLSConfig_Some:
  "newTLSConfig lib ac = Inr (Some c) \<Longrightarrow> \<not> InsecureSkipVerify c \<and>
     MinVersion c = ac_TLSProtocolsMinVersion ac \<and> MaxVersion c = ac_TLSProtocolsMaxVersion ac"
  by (auto simp: newTLSConfig_def sbind_Inr_iff split: if_splits)

section \<open>A file for evaluating the definitions\<close>

definition sample_system :: manager_system where
  "sample_system =
     \<lparr>host_os = \<lparr>os_Getenv = (\<lambda>_. []), filepath_Abs = (\<lambda>f. f), filepath_Join = (\<lambda>p f. p @ ''/'' @ f),
        os_ReadFile = (\<lambda>f. Inr ''data''), ioutil_ReadDir = (\<lambda>d. Inr [])\<rparr>,
      toml_Unmarshal = (\<lambda>_. Inr []), time_ParseDuration = (\<lambda>_. Inr 5)\<rparr>"

definition sample_tls :: "(string list, string) tls_library" where
  "sample_tls =
     \<lparr>SystemCertPool = None, NewCertPool = [], AppendCertsFromPEM = (\<lambda>pool c. c # pool), pem_Decode = (\<lambda>_. None),
      IsEncryptedPEMBlock = (\<lambda>_. False), DecryptPEMBlock = (\<lambda>_ _. Inl ''no''), EncodeToMemory = (\<lambda>_. None),
      X509KeyPair = (\<lambda>_ _. Inl ''no'')\<rparr>"

definition sample_section :: toml_section where
  "sample_section =
     [(''port'', TInt 4000), (''tls-enable'', TBool True), (''tls-name'', TString ''t''), (''max-error-rate'', TInt 7)]"

lemma sample_read: "\<exists>f cp hosts. read_section sample_system sample_section = Inr f \<and>
    launchServer sample_tls (NewAerospikeConfig f) = Inr (cp, hosts)"
  by (simp add: read_section_def section_steps_def when_key_def sample_section_def launchServer_def
      NewClientPolicy_def newTLSConfig_def NewAerospikeConfig_def NewDefaultAerospikeFlags_def Let_def)

section \<open>Properties\<close>

text \<open>C24. The settings of a section reach the cluster: in the policy with which the manager opens the
  cluster, user, password, authentication mode and every timeout, limit and switch has the value that
  the section gives it, read as the type of its key, or the zero value when the section does not
  have the key. A connection queue of size zero becomes one of 32.\<close>
theorem section_reaches_cluster:
  assumes "read_section sys valMap = Inr f" and "launchServer lib (NewAerospikeConfig f) = Inr (cp, hosts)"
  shows "setting ''user'' as_string [] valMap (cp_User cp) \<and>
    setting ''password'' (set_password sys) [] valMap (cp_Password cp) \<and>
    setting ''auth'' set_auth AuthModeInternal valMap (cp_AuthMode cp) \<and>
    setting ''cluster-name'' as_string [] valMap (cp_ClusterName cp) \<and>
    setting ''timeout'' (set_duration sys) 0 valMap (cp_Timeout cp) \<and>
    setting ''idle-timeout'' (set_duration sys) 0 valMap (cp_IdleTimeout cp) \<and>
    setting ''login-timeout'' (set_duration sys) 0 valMap (cp_LoginTimeout cp) \<and>
    (\<exists>n. setting ''connection-queue-size'' as_int64 0 valMap n \<and> cp_ConnectionQueueSize cp = (if n = 0 then 32 else n)) \<and>
    setting ''min-connections-per-node'' as_int64 0 valMap (cp_MinConnectionsPerNode cp) \<and>
    setting ''max-error-rate'' as_int64 0 valMap (cp_MaxErrorRate cp) \<and>
    setting ''error-rate-window'' as_int64 0 valMap (cp_ErrorRateWindow cp) \<and>
    setting ''limit-connections-to-queue-size'' as_bool False valMap (cp_LimitConnectionsToQueueSize cp) \<and>
    setting ''opening-connection-threshold'' as_int64 0 valMap (cp_OpeningConnectionThreshold cp) \<and>
    setting ''fail-if-not-connected'' as_bool False valMap (cp_FailIfNotConnected cp) \<and>
    setting ''tend-interval'' (set_duration sys) 0 valMap (cp_TendInterval cp) \<and>
    setting ''use-services-alternate'' as_bool False valMap (cp_UseServicesAlternate cp) \<and>
    setting ''rack-aware'' as_bool False valMap (cp_RackAware cp) \<and>
    setting ''rack-ids'' set_rack_ids [] valMap (cp_RackIds cp) \<and>
    setting ''ignore-other-subnet-aliases'' as_bool False valMap (cp_IgnoreOtherSubnetAliases cp) \<and>
    setting ''seed-only-cluster'' as_bool False valMap (cp_SeedOnlyCluster cp)"
  using connection_settings [OF assms(1)] pool_settings [OF assms(1)] cluster_settings [OF assms(1)]
    launchServer_Inr [OF assms(2)]
  by (elim exE conjE) (simp add: NewAerospikeConfig_def exI [of _ "af_ConnectionQueueSize f"])

theorem section_reaches_cluster_witness:
  "\<exists>f cp hosts. launchServer sample_tls (NewAerospikeConfig f) = Inr (cp, hosts) \<and> cp_MaxErrorRate cp = 7"
proof -
  obtain f cp hosts where s: "read_section sample_system sample_section = Inr f"
    "launchServer sample_tls (NewAerospikeConfig f) = Inr (cp, hosts)" using sample_read by blast
  have "setting ''max-error-rate'' as_int64 0 sample_section (cp_MaxErrorRate cp)"
    using section_reaches_cluster [OF s] by (elim conjE)
  then show ?thesis using s(2) by (intro exI conjI) (simp_all add: setting_def sample_section_def)
qed

text \<open>C38. The seeds of the cluster: the hosts of the section in their order, each with its own port and TLS
  name or else those of the section. A section without hosts means the local host at
  port 3000, whatever its port is set to.\<close>
theorem section_hosts:
  assumes "read_section sys valMap = Inr f" and "launchServer lib (NewAerospikeConfig f) = Inr (cp, hosts)"
  shows "\<exists>seeds port name.
    setting ''port'' as_int64 3000 valMap port \<and> setting ''tls-name'' as_string [] valMap name \<and>
    (case map_of valMap ''host'' of
       None \<Rightarrow> seeds = [\<lparr>Host = ''127.0.0.1'', TLSName = [], Port = 3000\<rparr>]
     | Some v \<Rightarrow> \<exists>s. v = TString s \<and>
         ssequence (map parseHostTLSPort (split_on (\<lambda>c. c = CHR '','') s)) = Inr seeds) \<and>
    hosts = map (\<lambda>h. \<lparr>ah_Name = Host h, ah_TLSName = (if TLSName h = [] then name else TLSName h),
      ah_Port = (if Port h = 0 then port else Port h)\<rparr>) seeds"
proof -
  have hosts: "hosts = map (\<lambda>h. \<lparr>ah_Name = Host h, ah_TLSName = (if TLSName h = [] then af_TLSName f else TLSName h),
      ah_Port = (if Port h = 0 then af_DefaultPort f else Port h)\<rparr>) (Seeds (af_Seeds f))"
    using launchServer_Inr [OF assms(2)]
    by (auto simp: NewHosts_def NewAerospikeConfig_def complete_seed_def Let_def)
  have "setting ''host'' set_host NewHostTLSPortSliceFlag valMap (af_Seeds f)"
    by (rule connection_settings(2) [OF assms(1)])
  then have seeds: "case map_of valMap ''host'' of
       None \<Rightarrow> Seeds (af_Seeds f) = [\<lparr>Host = ''127.0.0.1'', TLSName = [], Port = 3000\<rparr>]
     | Some v \<Rightarrow> \<exists>s. v = TString s \<and>
         ssequence (map parseHostTLSPort (split_on (\<lambda>c. c = CHR '','') s)) = Inr (Seeds (af_Seeds f))"
    by (auto simp: setting_def NewHostTLSPortSliceFlag_def NewDefaultHostTLSPort_def DefaultIPv4_def
        Manager_Flags.DefaultPort_def dest: set_host_parse split: option.splits)
  show ?thesis
    using hosts seeds connection_settings(3) [OF assms(1)] tls_settings(2) [OF assms(1)]
    unfolding Manager_Flags.DefaultPort_def by blast
qed

theorem section_hosts_witness:
  "\<exists>f cp. launchServer sample_tls (NewAerospikeConfig f) =
     Inr (cp, [\<lparr>ah_Name = ''127.0.0.1'', ah_TLSName = ''t'', ah_Port = 3000\<rparr>])"
proof -
  obtain f cp hosts where s: "read_section sample_system sample_section = Inr f"
    "launchServer sample_tls (NewAerospikeConfig f) = Inr (cp, hosts)" using sample_read by blast
  have "hosts = [\<lparr>ah_Name = ''127.0.0.1'', ah_TLSName = ''t'', ah_Port = 3000\<rparr>]"
    using section_hosts [OF s] by (auto simp: setting_def sample_section_def)
  then show ?thesis using s(2) by blast
qed

text \<open>C29. TLS is used only with certificates: the policy has a TLS configuration exactly if the section
  enables TLS and gives a certificate authority, a certificate or a key. The configuration verifies
  the server and has the protocol bounds of the section. Enabling TLS alone opens the cluster
  without TLS.\<close>
theorem section_tls:
  assumes "read_section sys valMap = Inr f" and "launchServer lib (NewAerospikeConfig f) = Inr (cp, hosts)"
  shows "\<exists>enable ca path cert key protocols.
    setting ''tls-enable'' as_bool False valMap enable \<and>
    setting ''tls-cafile'' (set_cert sys) [] valMap ca \<and> setting ''tls-capath'' (set_cert_path sys) [] valMap path \<and>
    setting ''tls-certfile'' (set_cert sys) [] valMap cert \<and> setting ''tls-keyfile'' (set_cert sys) [] valMap key \<and>
    setting ''tls-protocols'' set_protocols NewDefaultTLSProtocolsFlag valMap protocols \<and>
    (cp_TlsConfig cp = None \<longleftrightarrow> \<not> enable \<or> ca = [] \<and> path = [] \<and> cert = [] \<and> key = []) \<and>
    (\<forall>c. cp_TlsConfig cp = Some c \<longrightarrow> \<not> InsecureSkipVerify c \<and>
       MinVersion c = tls_min protocols \<and> MaxVersion c = tls_max protocols)"
proof -
  have new: "newTLSConfig lib (NewAerospikeConfig f) = Inr (cp_TlsConfig cp)"
    using launchServer_Inr [OF assms(2)] by (elim exE conjE) simp
  have iff: "cp_TlsConfig cp = None \<longleftrightarrow> \<not> af_TLSEnable f \<or>
      af_TLSRootCAFile f = [] \<and> af_TLSRootCAPath f = [] \<and> af_TLSCertFile f = [] \<and> af_TLSKeyFile f = []"
    using newTLSConfig_None [OF new] by (auto simp: NewAerospikeConfig_def)
  have bounds: "\<not> InsecureSkipVerify c \<and> MinVersion c = tls_min (af_TLSProtocols f) \<and>
      MaxVersion c = tls_max (af_TLSProtocols f)" if "cp_TlsConfig cp = Some c" for c
    using newTLSConfig_Some [OF new [unfolded that]] iff that by (simp add: NewAerospikeConfig_def)
  show ?thesis
    using iff bounds tls_settings [OF assms(1)]
    by (intro exI [of _ "af_TLSEnable f"] exI [of _ "af_TLSRootCAFile f"] exI [of _ "af_TLSRootCAPath f"]
        exI [of _ "af_TLSCertFile f"] exI [of _ "af_TLSKeyFile f"] exI [of _ "af_TLSProtocols f"]) simp
qed

theorem section_tls_witness:
  "\<exists>f cp hosts. launchServer sample_tls (NewAerospikeConfig f) = Inr (cp, hosts) \<and>
     af_TLSEnable f \<and> cp_TlsConfig cp = None"
proof -
  obtain f cp hosts where s: "read_section sample_system sample_section = Inr f"
    "launchServer sample_tls (NewAerospikeConfig f) = Inr (cp, hosts)" using sample_read by blast
  have "af_TLSEnable f" using tls_settings(1) [OF s(1)] by (simp add: setting_def sample_section_def)
  moreover have "cp_TlsConfig cp = None"
    using section_tls [OF s] by (auto simp: setting_def sample_section_def)
  ultimately show ?thesis using s(2) by blast
qed

text \<open>A value of the wrong type, such as a number for a timeout, makes the manager panic; it is no error.\<close>
lemma wrong_type_panics: "read_section sys [(''timeout'', TInt 30)] = Inl (Panics TypeAssertion)"
  by (simp add: read_section_def section_steps_def when_key_def set_duration_def)

end
