(* ===== verification/Manager_Process.thy ===== *)
theory Manager_Process
  imports Manager_Config
begin

text \<open>
  The process of the connection manager (\<^verbatim>\<open>main.go\<close>): \<^verbatim>\<open>main\<close> reads the configuration, starts one
  goroutine per section (\<^verbatim>\<open>launchServer\<close>) and one that waits for a signal, and blocks. A goroutine
  opens its cluster, listens on its socket and serves; a failure of any of them ends the whole
  process. A signal runs \<^verbatim>\<open>cleanUp\<close>, which removes the sockets one by one, and ends the process.
  The goroutines interleave in any order: a run of the process is a sequence of events. The
  theorems say which sockets exist in every run, that the manager comes up, and what it leaves
  behind when it ends.
\<close>

section \<open>State\<close>

text \<open>How far the goroutine of a section is.\<close>
datatype phase = Opening | Opened | Serving | Ended

text \<open>The process runs, cleans up (with the sections that are left), or has ended with a status.\<close>
datatype life = Running | Cleaning "string list" | Exited nat

record process =
  phases :: "string \<rightharpoonup> phase"
  sockets :: "string set"
  life :: life

type_synonym configuration = "(string \<times> AerospikeConfig) list"

text \<open>
  What can happen: the library opens a cluster or refuses it, the system lets a section listen or
  not, the server of a section returns, a signal arrives, \<^verbatim>\<open>cleanUp\<close> removes the socket of a
  section or fails to, and the process exits after it.
\<close>
datatype event =
    Open string bool
  | Listen string bool
  | ServeReturns string
  | Signal
  | Remove string bool
  | Exit

section \<open>Operations\<close>

definition socket :: "configuration \<Rightarrow> string \<Rightarrow> string" where
  "socket conf n = (case map_of conf n of Some ac \<Rightarrow> ac_Socket ac | None \<Rightarrow> [])"

text \<open>\<^verbatim>\<open>log.Fatalln\<close>: the process ends with status 1, no deferred call runs.\<close>
definition Fatalln :: "process \<Rightarrow> process" where
  "Fatalln p = p\<lparr>life := Exited 1\<rparr>"

text \<open>\<^verbatim>\<open>launchServer\<close> up to the open cluster.\<close>
definition open_cluster ::
  "('pool, 'cert) tls_library \<Rightarrow> configuration \<Rightarrow> string \<Rightarrow> bool \<Rightarrow> process \<Rightarrow> process option" where
  "open_cluster lib conf n ok p =
     (case map_of conf n of
        None \<Rightarrow> None
      | Some ac \<Rightarrow>
          if phases p n = Some Opening then
            Some (case launchServer lib ac of
                Inl err \<Rightarrow> Fatalln p
              | Inr args \<Rightarrow> if ok then p\<lparr>phases := (phases p)(n \<mapsto> Opened)\<rparr> else Fatalln p)
          else None)"

text \<open>\<^verbatim>\<open>net.Listen("unix", ac.Socket)\<close>, which makes the socket: it fails when the file is there.
  An empty path, for which Linux makes an abstract socket without a file, is not told apart.\<close>
definition listen :: "configuration \<Rightarrow> string \<Rightarrow> bool \<Rightarrow> process \<Rightarrow> process option" where
  "listen conf n ok p =
     (if phases p n = Some Opened then
        Some (if ok \<and> socket conf n \<notin> sockets p
              then p\<lparr>phases := (phases p)(n \<mapsto> Serving), sockets := insert (socket conf n) (sockets p)\<rparr>
              else Fatalln p)
      else None)"

text \<open>\<^verbatim>\<open>srv.Serve\<close> returns: the listener is closed, the deferred call removes the socket, and the
  goroutine ends. The process goes on.\<close>
definition serve_returns :: "configuration \<Rightarrow> string \<Rightarrow> process \<Rightarrow> process option" where
  "serve_returns conf n p =
     (if phases p n = Some Serving
      then Some (p\<lparr>phases := (phases p)(n \<mapsto> Ended), sockets := sockets p - {socket conf n}\<rparr>)
      else None)"

text \<open>The goroutine that waits for a signal starts to clean up; it takes one signal only.\<close>
definition on_signal :: "configuration \<Rightarrow> process \<Rightarrow> process option" where
  "on_signal conf p = (if life p = Running then Some (p\<lparr>life := Cleaning (map fst conf)\<rparr>) else None)"

text \<open>One iteration of \<^verbatim>\<open>cleanUp\<close>, whose loop over a map takes the sections in any order. A failure is
  logged.\<close>
definition cleanUp :: "configuration \<Rightarrow> string \<Rightarrow> bool \<Rightarrow> process \<Rightarrow> process option" where
  "cleanUp conf n ok p =
     (case life p of
        Cleaning rest \<Rightarrow>
          if n \<in> set rest
          then Some (p\<lparr>life := Cleaning (remove1 n rest),
                 sockets := (if ok then sockets p - {socket conf n} else sockets p)\<rparr>)
          else None
      | _ \<Rightarrow> None)"

fun step :: "('pool, 'cert) tls_library \<Rightarrow> configuration \<Rightarrow> event \<Rightarrow> process \<Rightarrow> process option" where
  "step lib conf e p =
     (case life p of
        Exited status \<Rightarrow> None
      | _ \<Rightarrow>
          (case e of
             Open n ok \<Rightarrow> open_cluster lib conf n ok p
           | Listen n ok \<Rightarrow> listen conf n ok p
           | ServeReturns n \<Rightarrow> serve_returns conf n p
           | Signal \<Rightarrow> on_signal conf p
           | Remove n ok \<Rightarrow> cleanUp conf n ok p
           | Exit \<Rightarrow> (if life p = Cleaning [] then Some (p\<lparr>life := Exited 1\<rparr>) else None)))"

declare step.simps [simp del]

fun run :: "('pool, 'cert) tls_library \<Rightarrow> configuration \<Rightarrow> event list \<Rightarrow> process \<Rightarrow> process option" where
  "run lib conf [] p = Some p"
| "run lib conf (e # es) p = Option.bind (step lib conf e p) (run lib conf es)"

text \<open>The goroutines that \<^verbatim>\<open>main\<close> starts, over the sockets that are there already.\<close>
definition started :: "configuration \<Rightarrow> string set \<Rightarrow> process" where
  "started conf files = \<lparr>phases = (\<lambda>n. if n \<in> fst ` set conf then Some Opening else None), sockets = files, life = Running\<rparr>"

record main_options =
  configFile :: string
  showUsage :: bool
  showVersion :: bool

text \<open>\<^verbatim>\<open>main\<close>: usage and version end the process with status 0, an error of the configuration with 1
  and a panic with 2.\<close>
definition main_process :: "manager_system \<Rightarrow> main_options \<Rightarrow> string set \<Rightarrow> configuration \<times> process" where
  "main_process sys opts files =
     (let stop = (\<lambda>status. ([], \<lparr>phases = Map.empty, sockets = files, life = Exited status\<rparr>))
      in if showUsage opts then stop 0
         else if showVersion opts then stop 0
         else (case Read sys (configFile opts) of
                 Inl (Err e) \<Rightarrow> stop 1
               | Inl (Panics p) \<Rightarrow> stop 2
               | Inr conf \<Rightarrow> (conf, started conf files)))"

section \<open>Steps\<close>

lemmas event_defs = open_cluster_def listen_def serve_returns_def on_signal_def cleanUp_def Fatalln_def

lemma run_append: "run lib conf (xs @ ys) p = Option.bind (run lib conf xs p) (run lib conf ys)"
  by (induction xs arbitrary: p) (auto simp: Option.bind_assoc split: Option.bind_splits)

lemma run_ConsD: "run lib conf (e # es) p = Some p' \<Longrightarrow>
    \<exists>q. step lib conf e p = Some q \<and> run lib conf es q = Some p'"
  by (auto simp: bind_eq_Some_conv)

text \<open>The interface of an invariant of runs: it holds at the start and every event keeps it.\<close>
locale run_invariant =
  fixes lib :: "('pool, 'cert) tls_library" and conf :: configuration
    and allowed :: "event \<Rightarrow> bool" and inv :: "process \<Rightarrow> bool"
  assumes preserved: "inv p \<Longrightarrow> allowed e \<Longrightarrow> step lib conf e p = Some p' \<Longrightarrow> inv p'"
begin

lemma run_preserves: "run lib conf es p = Some p' \<Longrightarrow> list_all allowed es \<Longrightarrow> inv p \<Longrightarrow> inv p'"
proof (induction es arbitrary: p)
  case (Cons e es)
  then show ?case using preserved run_ConsD [OF Cons.prems(1)] by fastforce
qed simp

end

section \<open>Sockets\<close>

definition serving :: "process \<Rightarrow> string set" where
  "serving p = {n. phases p n = Some Serving}"

text \<open>The sockets on disk are those that were there and one for each section that serves, no two of
  them the same; a section past its opening has a client policy.\<close>
definition owns_sockets ::
  "('pool, 'cert) tls_library \<Rightarrow> configuration \<Rightarrow> string set \<Rightarrow> process \<Rightarrow> bool" where
  "owns_sockets lib conf files p \<longleftrightarrow>
     (\<forall>rest. life p \<noteq> Cleaning rest) \<and>
     sockets p = files \<union> socket conf ` serving p \<and> files \<inter> socket conf ` serving p = {} \<and>
     inj_on (socket conf) (serving p) \<and>
     (\<forall>n ph. phases p n = Some ph \<and> ph \<noteq> Opening \<longrightarrow>
        (\<exists>ac args. map_of conf n = Some ac \<and> launchServer lib ac = Inr args))"

lemma serving_simps [simp]:
  "serving (p\<lparr>sockets := s\<rparr>) = serving p" "serving (p\<lparr>life := l\<rparr>) = serving p"
  "serving (p\<lparr>phases := (phases p)(n \<mapsto> ph)\<rparr>) = (if ph = Serving then insert n (serving p) else serving p - {n})"
  by (auto simp: serving_def)

lemma not_serving: "phases p n = Some ph \<Longrightarrow> ph \<noteq> Serving \<Longrightarrow> serving p - {n} = serving p"
  by (auto simp: serving_def)

lemma owns_sockets_open:
  "owns_sockets lib conf files p \<Longrightarrow> open_cluster lib conf n ok p = Some p' \<Longrightarrow> owns_sockets lib conf files p'"
  by (auto simp: owns_sockets_def open_cluster_def Fatalln_def not_serving split: option.splits sum.splits if_splits)

lemma owns_sockets_listen:
  "owns_sockets lib conf files p \<Longrightarrow> listen conf n ok p = Some p' \<Longrightarrow> owns_sockets lib conf files p'"
  by (fastforce simp: owns_sockets_def listen_def Fatalln_def split: if_splits)

lemma owns_sockets_returns:
  assumes "owns_sockets lib conf files p" and "serve_returns conf n p = Some p'"
  shows "owns_sockets lib conf files p'"
proof -
  have n: "n \<in> serving p" and p': "p' = p\<lparr>phases := (phases p)(n \<mapsto> Ended), sockets := sockets p - {socket conf n}\<rparr>"
    using assms(2) by (auto simp: serve_returns_def serving_def split: if_splits)
  have "socket conf ` (serving p - {n}) = socket conf ` serving p - {socket conf n}"
    using assms(1) n by (auto simp: owns_sockets_def dest: inj_onD)
  then show ?thesis
    using assms(1) n inj_on_diff [of "socket conf" "serving p" "{n}"] unfolding p' owns_sockets_def
    by (auto simp: serving_def [of p])
qed

interpretation no_signal: run_invariant lib conf "\<lambda>e. e \<noteq> Signal" "owns_sockets lib conf files"
  for lib :: "('pool, 'cert) tls_library" and conf files
proof
  fix p e p'
  assume "owns_sockets lib conf files p" "e \<noteq> Signal" "step lib conf e p = Some p'"
  moreover from this(1) have "life p = Running \<or> (\<exists>s. life p = Exited s)"
    by (cases "life p") (auto simp: owns_sockets_def)
  ultimately show "owns_sockets lib conf files p'"
    by (cases e) (auto simp: step.simps cleanUp_def intro: owns_sockets_open owns_sockets_listen owns_sockets_returns)
qed

lemma run_owns_sockets:
  assumes "run lib conf es (started conf files) = Some p" and "Signal \<notin> set es"
  shows "owns_sockets lib conf files p"
proof (rule no_signal.run_preserves [OF assms(1)])
  show "list_all (\<lambda>e. e \<noteq> Signal) es" using assms(2) by (auto simp: list_all_iff)
  show "owns_sockets lib conf files (started conf files)"
    by (auto simp: owns_sockets_def started_def serving_def)
qed

section \<open>Coming up\<close>

text \<open>An event without a failure.\<close>
fun good :: "event \<Rightarrow> bool" where
  "good (Open n ok) = ok"
| "good (Listen n ok) = ok"
| "good _ = False"

fun steps_left :: "phase option \<Rightarrow> nat" where
  "steps_left (Some Opening) = 2"
| "steps_left (Some Opened) = 1"
| "steps_left _ = 0"

definition work :: "configuration \<Rightarrow> process \<Rightarrow> nat" where
  "work conf p = (\<Sum>n\<in>fst ` set conf. steps_left (phases p n))"

text \<open>A configuration that can be served: every section has a client policy and a socket of its own
  that is not there yet.\<close>
definition servable :: "('pool, 'cert) tls_library \<Rightarrow> configuration \<Rightarrow> string set \<Rightarrow> bool" where
  "servable lib conf files \<longleftrightarrow>
     distinct (map fst conf) \<and> inj_on (socket conf) (fst ` set conf) \<and> files \<inter> socket conf ` fst ` set conf = {} \<and>
     (\<forall>(n, ac) \<in> set conf. \<exists>args. launchServer lib ac = Inr args)"

definition coming_up :: "configuration \<Rightarrow> string set \<Rightarrow> process \<Rightarrow> bool" where
  "coming_up conf files p \<longleftrightarrow>
     life p = Running \<and> sockets p = files \<union> socket conf ` serving p \<and>
     dom (phases p) = fst ` set conf \<and> (\<forall>n. phases p n \<noteq> Some Ended)"

lemma coming_up_phase:
  "coming_up conf files p \<Longrightarrow> n \<in> fst ` set conf \<Longrightarrow>
    phases p n = Some Opening \<or> phases p n = Some Opened \<or> phases p n = Some Serving"
proof -
  assume up: "coming_up conf files p" and "n \<in> fst ` set conf"
  then obtain ph where "phases p n = Some ph" unfolding coming_up_def by blast
  then show ?thesis using up by (cases ph) (auto simp: coming_up_def)
qed

lemma work_less:
  assumes "n \<in> fst ` set conf" and "steps_left (phases p n) = Suc (steps_left (Some ph))"
  shows "work conf p = Suc (work conf (p\<lparr>phases := (phases p)(n \<mapsto> ph)\<rparr>))"
proof -
  have "work conf p = steps_left (phases p n) + (\<Sum>i\<in>fst ` set conf - {n}. steps_left (phases p i))"
    unfolding work_def by (rule sum.remove) (use assms in auto)
  also have "(\<Sum>i\<in>fst ` set conf - {n}. steps_left (phases p i)) =
      (\<Sum>i\<in>fst ` set conf - {n}. steps_left (((phases p)(n \<mapsto> ph)) i))"
    by (rule sum.cong) auto
  also have "steps_left (phases p n) + \<dots> = Suc (work conf (p\<lparr>phases := (phases p)(n \<mapsto> ph)\<rparr>))"
    unfolding work_def by (subst sum.remove [of _ n]) (use assms in auto)
  finally show ?thesis .
qed

lemma coming_up_open:
  assumes "servable lib conf files" and "coming_up conf files p" and "phases p n = Some Opening"
  shows "\<exists>q. step lib conf (Open n True) p = Some q \<and> coming_up conf files q \<and> work conf p = Suc (work conf q)"
proof -
  have n: "n \<in> fst ` set conf" using assms(2,3) by (auto simp: coming_up_def dom_def)
  then obtain ac where ac: "map_of conf n = Some ac" by (metis map_of_eq_None_iff not_None_eq)
  then obtain args where "launchServer lib ac = Inr args"
    using assms(1) by (auto simp: servable_def dest: map_of_SomeD)
  then have "step lib conf (Open n True) p = Some (p\<lparr>phases := (phases p)(n \<mapsto> Opened)\<rparr>)"
    using assms(2,3) ac by (simp add: step.simps open_cluster_def coming_up_def)
  moreover have "coming_up conf files (p\<lparr>phases := (phases p)(n \<mapsto> Opened)\<rparr>)"
    using assms(2,3) n by (auto simp: coming_up_def not_serving)
  ultimately show ?thesis using work_less [OF n, of p Opened] assms(3) by simp
qed

lemma coming_up_listen:
  assumes "servable lib conf files" and "coming_up conf files p" and "phases p n = Some Opened"
  shows "\<exists>q. step lib conf (Listen n True) p = Some q \<and> coming_up conf files q \<and> work conf p = Suc (work conf q)"
proof -
  have n: "n \<in> fst ` set conf" and sub: "serving p \<subseteq> fst ` set conf" and "n \<notin> serving p"
    using assms(2,3) by (auto simp: coming_up_def serving_def dom_def)
  then have "socket conf n \<notin> socket conf ` serving p"
    using assms(1) by (auto simp: servable_def dest: inj_onD)
  moreover have "socket conf n \<notin> files" using assms(1) n by (auto simp: servable_def)
  ultimately have new: "socket conf n \<notin> sockets p" using assms(2) by (simp add: coming_up_def)
  let ?q = "p\<lparr>phases := (phases p)(n \<mapsto> Serving), sockets := insert (socket conf n) (sockets p)\<rparr>"
  have "step lib conf (Listen n True) p = Some ?q"
    using assms(2,3) new by (simp add: step.simps listen_def coming_up_def)
  moreover have "coming_up conf files ?q" using assms(2) n by (auto simp: coming_up_def)
  moreover have "work conf ?q = work conf (p\<lparr>phases := (phases p)(n \<mapsto> Serving)\<rparr>)" by (simp add: work_def)
  ultimately show ?thesis using work_less [OF n, of p Serving] assms(3) by simp
qed

lemma step_phase:
  "step lib conf (Open n ok) p = Some q \<Longrightarrow> phases p n = Some Opening"
  "step lib conf (Listen n ok) p = Some q \<Longrightarrow> phases p n = Some Opened"
  by (auto simp: step.simps open_cluster_def listen_def split: life.splits option.splits if_splits)

lemma good_step:
  assumes "servable lib conf files" and "coming_up conf files p" and "good e" and "step lib conf e p = Some q"
  shows "coming_up conf files q \<and> work conf p = Suc (work conf q)"
proof (cases e)
  case (Open n ok)
  with assms(3,4) step_phase(1) have "step lib conf (Open n True) p = Some q" "phases p n = Some Opening" by auto
  then show ?thesis using coming_up_open [OF assms(1,2), of n] by simp
next
  case (Listen n ok)
  with assms(3,4) step_phase(2) have "step lib conf (Listen n True) p = Some q" "phases p n = Some Opened" by auto
  then show ?thesis using coming_up_listen [OF assms(1,2), of n] by simp
qed (use assms(3) in auto)

lemma good_run:
  assumes "servable lib conf files"
  shows "run lib conf es p = Some q \<Longrightarrow> list_all good es \<Longrightarrow> coming_up conf files p \<Longrightarrow>
    coming_up conf files q \<and> work conf p = length es + work conf q"
proof (induction es arbitrary: p)
  case (Cons e es)
  then obtain r where "step lib conf e p = Some r" "run lib conf es r = Some q" using run_ConsD by blast
  then show ?case using Cons good_step [OF assms, of p e r] by auto
qed simp

lemma work_started: "distinct (map fst conf) \<Longrightarrow> work conf (started conf files) = 2 * length conf"
  by (simp add: work_def started_def card_image distinct_map distinct_card)

section \<open>Shutting down\<close>

text \<open>No section is on its way to listening, and the sockets of the configuration that exist belong to
  sections that are still to be cleaned up.\<close>
definition shutting_down :: "configuration \<Rightarrow> process \<Rightarrow> bool" where
  "shutting_down conf p \<longleftrightarrow>
     (\<forall>n. phases p n \<notin> {Some Opening, Some Opened}) \<and>
     (case life p of
        Running \<Rightarrow> False
      | Cleaning rest \<Rightarrow> sockets p \<inter> socket conf ` fst ` set conf \<subseteq> socket conf ` set rest
      | Exited status \<Rightarrow> sockets p \<inter> socket conf ` fst ` set conf = {})"

interpretation orderly: run_invariant lib conf "\<lambda>e. \<forall>n. e \<noteq> Remove n False" "shutting_down conf"
  for lib :: "('pool, 'cert) tls_library" and conf
proof
  fix p e p'
  assume inv: "shutting_down conf p" and e: "\<forall>n. e \<noteq> Remove n False" and step: "step lib conf e p = Some p'"
  obtain rest where rest: "life p = Cleaning rest"
    using inv step by (cases "life p") (auto simp: shutting_down_def step.simps)
  have idle: "phases p n \<noteq> Some Opening" "phases p n \<noteq> Some Opened" for n
    using inv by (auto simp: shutting_down_def)
  have sub: "sockets p \<inter> socket conf ` fst ` set conf \<subseteq> socket conf ` set rest"
    using inv rest by (simp add: shutting_down_def)
  show "shutting_down conf p'"
  proof (cases e)
    case (Remove n ok)
    then have "ok" "n \<in> set rest"
      "p' = p\<lparr>life := Cleaning (remove1 n rest), sockets := sockets p - {socket conf n}\<rparr>"
      using e step rest by (auto simp: step.simps cleanUp_def split: if_splits)
    moreover have "socket conf ` set rest - {socket conf n} \<subseteq> socket conf ` set (remove1 n rest)"
      by (auto intro: in_set_remove1 [THEN iffD2])
    moreover have "(sockets p - {socket conf n}) \<inter> socket conf ` fst ` set conf \<subseteq> socket conf ` set rest - {socket conf n}"
      using sub by blast
    ultimately show ?thesis using idle by (simp add: shutting_down_def)
  next
    case (ServeReturns n)
    then have "p' = p\<lparr>phases := (phases p)(n \<mapsto> Ended), sockets := sockets p - {socket conf n}\<rparr>"
      using step rest by (auto simp: step.simps serve_returns_def split: if_splits)
    moreover have "(sockets p - {socket conf n}) \<inter> socket conf ` fst ` set conf \<subseteq> socket conf ` set rest"
      using sub by blast
    ultimately show ?thesis using idle rest by (simp add: shutting_down_def)
  qed (use step rest idle sub in \<open>auto simp: step.simps event_defs shutting_down_def split: option.splits if_splits\<close>)
qed

section \<open>Two clusters for evaluating the definitions\<close>

definition sample_cluster_config :: "string \<Rightarrow> AerospikeConfig" where
  "sample_cluster_config path = NewAerospikeConfig (NewDefaultAerospikeFlags\<lparr>af_Socket := path\<rparr>)"

definition sample_configuration :: configuration where
  "sample_configuration =
     [(''a'', sample_cluster_config ''/tmp/a''), (''b'', sample_cluster_config ''/tmp/b'')]"

lemma sample_launches: "\<exists>args. launchServer sample_tls (sample_cluster_config path) = Inr args"
  by (simp add: sample_cluster_config_def launchServer_def NewClientPolicy_def newTLSConfig_def
      NewAerospikeConfig_def NewDefaultAerospikeFlags_def Let_def)

lemma sample_sockets [simp]:
  "map_of sample_configuration ''a'' = Some (sample_cluster_config ''/tmp/a'')"
  "map_of sample_configuration ''b'' = Some (sample_cluster_config ''/tmp/b'')"
  "socket sample_configuration ''a'' = ''/tmp/a''" "socket sample_configuration ''b'' = ''/tmp/b''"
  "map fst sample_configuration = [''a'', ''b'']" "fst ` set sample_configuration = {''a'', ''b''}"
  by (simp_all add: sample_configuration_def socket_def sample_cluster_config_def NewAerospikeConfig_def
      NewDefaultAerospikeFlags_def)

lemma sample_open [simp]:
  "n \<in> {''a'', ''b''} \<Longrightarrow> open_cluster sample_tls sample_configuration n ok p =
    (if phases p n = Some Opening
     then Some (if ok then p\<lparr>phases := (phases p)(n \<mapsto> Opened)\<rparr> else Fatalln p) else None)"
  using sample_launches [of "''/tmp/a''"] sample_launches [of "''/tmp/b''"]
  by (auto simp: open_cluster_def)

lemma sample_servable: "servable sample_tls sample_configuration {}"
  using sample_launches by (auto simp: servable_def sample_configuration_def socket_def sample_cluster_config_def
      NewAerospikeConfig_def NewDefaultAerospikeFlags_def inj_on_def)

lemmas run_simps = step.simps listen_def serve_returns_def on_signal_def cleanUp_def Fatalln_def started_def

section \<open>Properties\<close>

text \<open>C26. The sockets of the manager: in any run without a signal, whatever fails, the sockets on disk
  are those that were there before and one for each section that serves; no two sections that
  serve share a socket, none took one that was there, and each serves a cluster for which a client
  policy could be made. So a failure, which ends the process, leaves the sockets of all sections that were
  serving.\<close>
theorem manager_sockets:
  assumes "run lib conf es (started conf files) = Some p" and "Signal \<notin> set es"
  shows "sockets p = files \<union> socket conf ` serving p \<and> files \<inter> socket conf ` serving p = {} \<and>
    inj_on (socket conf) (serving p) \<and>
    (\<forall>n \<in> serving p. \<exists>ac args. map_of conf n = Some ac \<and> launchServer lib ac = Inr args)"
  using run_owns_sockets [OF assms] by (auto simp: owns_sockets_def serving_def)

theorem manager_sockets_witness:
  "\<exists>p. run sample_tls sample_configuration [Open ''a'' True, Listen ''a'' True, Open ''b'' False]
      (started sample_configuration {''/tmp/x''}) = Some p \<and>
    life p = Exited 1 \<and> serving p = {''a''} \<and> sockets p = {''/tmp/a'', ''/tmp/x''}"
proof -
  obtain p where p: "run sample_tls sample_configuration [Open ''a'' True, Listen ''a'' True, Open ''b'' False]
      (started sample_configuration {''/tmp/x''}) = Some p" and out: "life p = Exited 1" "serving p = {''a''}"
  proof
    let ?p = "\<lparr>phases = [''b'' \<mapsto> Opening, ''a'' \<mapsto> Serving], sockets = {''/tmp/a'', ''/tmp/x''}, life = Exited 1\<rparr>"
    show "run sample_tls sample_configuration [Open ''a'' True, Listen ''a'' True, Open ''b'' False]
        (started sample_configuration {''/tmp/x''}) = Some ?p" "life ?p = Exited 1" "serving ?p = {''a''}"
      by (auto simp: run_simps serving_def fun_eq_iff)
  qed
  from manager_sockets [OF p] out show ?thesis using p by (intro exI [of _ p]) auto
qed

text \<open>C39. A manager that failed does not come up again by itself: when a process that got no signal stops
  while a section is serving, its socket stays, and in a later run on the same configuration that
  finds the files it left, this section never serves before a signal arrives; as soon as it
  tries to listen, the new process ends as well.\<close>
theorem failed_manager_stays_down:
  assumes "run lib conf es (started conf files) = Some p" and "Signal \<notin> set es" and "n \<in> serving p"
    and "run lib conf es' (started conf (sockets p)) = Some p'" and "Signal \<notin> set es'"
  shows "n \<notin> serving p' \<and>
    (\<forall>ok q. step lib conf (Listen n ok) p' = Some q \<longrightarrow> life q = Exited 1)"
proof -
  have there: "socket conf n \<in> sockets p" using run_owns_sockets [OF assms(1,2)] assms(3) by (auto simp: owns_sockets_def)
  then have "n \<notin> serving p'" "socket conf n \<in> sockets p'"
    using run_owns_sockets [OF assms(4,5)] by (auto simp: owns_sockets_def)
  then show ?thesis by (auto simp: step.simps listen_def Fatalln_def split: life.splits if_splits)
qed

theorem failed_manager_stays_down_witness:
  "\<exists>p p' q. run sample_tls sample_configuration [Open ''a'' True, Listen ''a'' True, Open ''b'' False]
      (started sample_configuration {}) = Some p \<and> life p = Exited 1 \<and>
    run sample_tls sample_configuration [Open ''a'' True] (started sample_configuration (sockets p)) = Some p' \<and>
    step sample_tls sample_configuration (Listen ''a'' True) p' = Some q \<and> life q = Exited 1"
proof -
  obtain p where p: "run sample_tls sample_configuration [Open ''a'' True, Listen ''a'' True, Open ''b'' False]
      (started sample_configuration {}) = Some p" and out: "life p = Exited 1" "''a'' \<in> serving p"
    by (simp add: run_simps serving_def)
  obtain p' q where p': "run sample_tls sample_configuration [Open ''a'' True]
      (started sample_configuration (sockets p)) = Some p'"
    "step sample_tls sample_configuration (Listen ''a'' True) p' = Some q"
    by (simp add: run_simps)
  show ?thesis using failed_manager_stays_down [OF p _ out(2) p'(1)] p p' out by auto
qed

text \<open>C25. The manager comes up: when every section has a client policy and a socket of its own that
  is not there yet, then in every order in which the goroutines proceed without a failure the process
  keeps running, some goroutine can proceed until all sections serve, and all serve
  after exactly two steps for each section.\<close>
theorem manager_comes_up:
  assumes "servable lib conf files" and "run lib conf es (started conf files) = Some p" and "list_all good es"
  shows "life p = Running \<and> length es \<le> 2 * length conf \<and>
    (if length es = 2 * length conf then serving p = fst ` set conf
     else \<exists>e q. good e \<and> step lib conf e p = Some q)"
proof -
  have "coming_up conf files (started conf files)"
    by (auto simp: coming_up_def started_def serving_def dom_def)
  then have up: "coming_up conf files p" and left: "2 * length conf = length es + work conf p"
    using good_run [OF assms(1,2,3)] work_started assms(1) by (auto simp: servable_def)
  have "serving p = fst ` set conf" if "work conf p = 0"
  proof -
    have "steps_left (phases p n) = 0" if "n \<in> fst ` set conf" for n
      using \<open>work conf p = 0\<close> that by (auto simp: work_def)
    then have "phases p n = Some Serving" if "n \<in> fst ` set conf" for n
      using that coming_up_phase [OF up that] by fastforce
    then show ?thesis using up by (auto simp: coming_up_def serving_def dom_def)
  qed
  moreover have "\<exists>e q. good e \<and> step lib conf e p = Some q" if "work conf p \<noteq> 0"
  proof -
    have "\<exists>n. steps_left (phases p n) \<noteq> 0" by (rule ccontr) (use that in \<open>simp add: work_def\<close>)
    then obtain n where "steps_left (phases p n) \<noteq> 0" by blast
    then have "phases p n = Some Opening \<or> phases p n = Some Opened"
      by (cases "phases p n" rule: steps_left.cases) auto
    then show ?thesis
      using coming_up_open [OF assms(1) up] coming_up_listen [OF assms(1) up] good.simps(1,2) by metis
  qed
  ultimately show ?thesis using up left by (auto simp: coming_up_def)
qed

theorem manager_comes_up_witness:
  "\<exists>p. run sample_tls sample_configuration
      [Open ''a'' True, Open ''b'' True, Listen ''b'' True, Listen ''a'' True] (started sample_configuration {}) = Some p \<and>
    serving p = {''a'', ''b''}"
proof -
  let ?es = "[Open ''a'' True, Open ''b'' True, Listen ''b'' True, Listen ''a'' True]"
  obtain p where p: "run sample_tls sample_configuration ?es (started sample_configuration {}) = Some p"
    by (simp add: run_simps)
  have "length ?es = 2 * length sample_configuration" by (simp add: sample_configuration_def)
  with manager_comes_up [OF sample_servable p] p show ?thesis by auto
qed

text \<open>C27. An orderly end: when a signal arrives while no section is on its way to listening, and the
  sockets can be removed, then however servers return and sockets are removed in between, no socket of
  the configuration is left when the process has ended.\<close>
theorem signal_removes_sockets:
  assumes "life p = Running" and "\<forall>n. phases p n \<notin> {Some Opening, Some Opened}"
    and "run lib conf (Signal # es) p = Some p'" and "\<forall>n. Remove n False \<notin> set es" and "life p' = Exited status"
  shows "sockets p' \<inter> socket conf ` fst ` set conf = {}"
proof -
  have "run lib conf es (p\<lparr>life := Cleaning (map fst conf)\<rparr>) = Some p'"
    using assms(1,3) by (simp add: step.simps on_signal_def)
  moreover have "list_all (\<lambda>e. \<forall>n. e \<noteq> Remove n False) es" using assms(4) by (auto simp: list_all_iff)
  moreover have "shutting_down conf (p\<lparr>life := Cleaning (map fst conf)\<rparr>)"
    using assms(2) by (auto simp: shutting_down_def)
  ultimately have "shutting_down conf p'" using orderly.run_preserves by blast
  then show ?thesis using assms(5) by (simp add: shutting_down_def)
qed

theorem signal_removes_sockets_witness:
  "\<exists>p p'. run sample_tls sample_configuration
      [Open ''a'' True, Open ''b'' True, Listen ''b'' True, Listen ''a'' True] (started sample_configuration {}) = Some p \<and>
    run sample_tls sample_configuration [Signal, Remove ''b'' True, ServeReturns ''b'', Remove ''a'' True, Exit] p = Some p' \<and>
    sockets p' \<inter> {''/tmp/a'', ''/tmp/b''} = {}"
proof -
  let ?es = "[Remove ''b'' True, ServeReturns ''b'', Remove ''a'' True, Exit]"
  obtain p where p: "run sample_tls sample_configuration [Open ''a'' True, Open ''b'' True, Listen ''b'' True, Listen ''a'' True]
      (started sample_configuration {}) = Some p" and
    up: "life p = Running" "\<forall>n. phases p n \<notin> {Some Opening, Some Opened}" and
    ab: "phases p ''a'' = Some Serving" "phases p ''b'' = Some Serving"
    by (simp add: run_simps)
  obtain p' where p': "run sample_tls sample_configuration (Signal # ?es) p = Some p'" "life p' = Exited 1"
    using up(1) ab by (simp add: run_simps)
  show ?thesis using signal_removes_sockets [OF up p'(1) _ p'(2)] p p'(1) by auto
qed

text \<open>A section that is still on its way when the signal arrives can listen after its socket was cleaned
  up: the process then ends and leaves the socket.\<close>
lemma late_listen_leaves_socket:
  "\<exists>p. run sample_tls sample_configuration
      [Open ''a'' True, Signal, Remove ''a'' True, Remove ''b'' True, Listen ''a'' True, Exit]
      (started sample_configuration {}) = Some p \<and> life p = Exited 1 \<and> sockets p = {''/tmp/a''}"
  by (simp add: run_simps)

text \<open>Two sections with one socket: whichever listens first, the other ends the process and the
  socket stays.\<close>
lemma shared_socket_ends_process:
  assumes "run lib conf es (started conf files) = Some p" and "Signal \<notin> set es"
    and "n \<in> serving p" and "socket conf m = socket conf n" and "step lib conf (Listen m ok) p = Some q"
  shows "life q = Exited 1 \<and> socket conf n \<in> sockets q"
  using run_owns_sockets [OF assms(1,2)] assms(3-5)
  by (auto simp: owns_sockets_def step.simps listen_def Fatalln_def split: life.splits if_splits)

text \<open>A process whose servers have all returned goes on running without serving anything: no event but
  a signal can happen.\<close>
lemma idle_manager_keeps_running:
  assumes "life p = Running" and "\<forall>n. phases p n \<in> {None, Some Ended}" and "step lib conf e p = Some q"
  shows "e = Signal"
proof -
  have "phases p n \<noteq> Some Opening" "phases p n \<noteq> Some Opened" "phases p n \<noteq> Some Serving" for n
    using assms(2) [rule_format, of n] by auto
  then show ?thesis
    using assms(1,3) by (cases e) (auto simp: step.simps event_defs split: option.splits)
qed

text \<open>What \<^verbatim>\<open>main\<close> starts: the sections of the file, when it can be read and neither the usage nor the
  version was asked for; otherwise the process has ended and touched no socket.\<close>
lemma main_starts_sections:
  "main_process sys opts files =
     (if \<not> showUsage opts \<and> \<not> showVersion opts \<and> (\<exists>conf. Read sys (configFile opts) = Inr conf)
      then (projr (Read sys (configFile opts)), started (projr (Read sys (configFile opts))) files)
      else ([], \<lparr>phases = Map.empty, sockets = files,
        life = Exited (if showUsage opts \<or> showVersion opts then 0
                       else case projl (Read sys (configFile opts)) of Err e \<Rightarrow> 1 | Panics p \<Rightarrow> 2)\<rparr>))"
  by (auto simp: main_process_def Let_def split: sum.splits failure.splits)

end
