(* ===== verification/Spec2Isabelle.thy ===== *)
theory Spec2Isabelle
  imports Isolation Server_Answers Php_Objects Batch_Policies Queries Manager_Process
begin

text \<open>
  A model of the Aerospike client for PHP and its correctness.

  \<^bold>\<open>The program.\<close> The extension (\<^verbatim>\<open>src/lib.rs\<close>, Rust) gives PHP the classes of an Aerospike
  client. A PHP process does not talk to the database: every command becomes one protobuf
  request (\<^verbatim>\<open>asld_kvs.proto\<close>) that goes through \<^verbatim>\<open>src/grpc.rs\<close> over a Unix socket to the
  connection manager (\<^verbatim>\<open>aerospike-connection-manager/kvs.go\<close>, Go), which reads the message, calls
  the Aerospike Go library and writes the answer back. The parts below follow this path: values
  and the other data of a command, the builders of expressions, operations and filters, the
  policies, the commands of the client with their errors, the record sets that stream results
  and remember progress in a shared partition filter, the registry of open connections, and, on
  the other side, the conversions and handlers of the manager and the way from a section of its
  configuration file to a cluster and the socket that serves it.

  \<^bold>\<open>Theories, in the order of the imports.\<close>

  \<^item> \<open>Prelude\<close>: machine words, the effect of a function that PHP calls (thrown exceptions in
    order, then a value or a panic), panics, hash maps as entry lists, byte orders; the locales
    \<open>entry_map\<close> (laws of a map), \<open>enum_codec\<close> (an enum and its wire number) and \<open>code_table\<close> (the
    commands of a switch).
  \<^item> \<open>Result_Codes\<close>: \<^verbatim>\<open>ResultCode\<close>, its texts, \<^verbatim>\<open>AerospikeException\<close> and its construction
    from an error message.
  \<^item> \<open>Values\<close>, \<open>Value_Laws\<close>: \<^verbatim>\<open>PHPValue\<close>, equality, hash, particle type and key bytes,
    \<^verbatim>\<open>from_zval\<close>, the class \<^verbatim>\<open>Value\<close>, and the conversions from and to \<^verbatim>\<open>proto::Value\<close>.
    Round trips, the exact domain of the decoder, fixed points of the wire format.
  \<^item> \<open>Enums\<close>: the enum classes with their wire numbers and decoders, \<^verbatim>\<open>Expiration\<close>,
    \<^verbatim>\<open>Concurrency\<close>, \<^verbatim>\<open>CDTContext\<close>; each decoder interprets \<open>enum_codec\<close>.
  \<^item> \<open>Keys\<close>: \<^verbatim>\<open>Key\<close>, digest and partition id, \<^verbatim>\<open>Bin\<close>, \<^verbatim>\<open>Record\<close>.
  \<^item> \<open>Expressions\<close>, \<open>Manager_Expressions\<close>: every builder of \<^verbatim>\<open>Expression\<close> and the
    manager's \<^verbatim>\<open>toExpression\<close>; every expression made of the supported builders is read, and
    each operator reaches its library function.
  \<^item> \<open>Manager_Values\<close>: \<^verbatim>\<open>toValue\<close>, \<^verbatim>\<open>toListValue\<close> and \<^verbatim>\<open>fromValue\<close>: which values the
    manager can read, and what its answers become in PHP.
  \<^item> \<open>Property_Tables\<close>, \<open>Policies\<close>, \<open>Batch_Policies\<close>: the policy classes, their defaults
    and every getter and setter. The locale \<open>property_bag\<close> states what PHP expects of properties;
    each class interprets it, with its misdirected properties excluded and stated on their own.
  \<^item> \<open>Queries\<close>: \<^verbatim>\<open>Filter\<close> and \<^verbatim>\<open>Statement\<close>.
  \<^item> \<open>Recordsets\<close>: \<^verbatim>\<open>PartitionFilter\<close>, \<^verbatim>\<open>PartitionStatus\<close>, \<^verbatim>\<open>Recordset\<close> over a store of
    shared filters; a step relation for the calls PHP may make, with invariants by rule induction.
  \<^item> \<open>Batch\<close>: single-record operations and batch commands, and the manager's \<^verbatim>\<open>toOp\<close>,
    \<^verbatim>\<open>toBatchRecordIfc\<close>.
  \<^item> \<open>Collections\<close>, \<open>List_Operations\<close>, \<open>Map_Operations\<close>, \<open>Hll_Bitwise_Operations\<close>: the
    classes of the collection operations with their flags, policies and messages.
    \<open>Manager_Collections\<close> has \<^verbatim>\<open>toCdtListOp\<close>, \<^verbatim>\<open>toCdtMapOp\<close>, \<^verbatim>\<open>toCdtHLLOp\<close> and
    \<^verbatim>\<open>toCdtBitwiseOp\<close>, and \<open>Collections_Laws\<close> composes both sides.
  \<^item> \<open>Client\<close>, \<open>Client_Laws\<close>: every command of the class \<^verbatim>\<open>Client\<close>: the request it sends,
    the value it returns, the exceptions it throws. The locale \<open>unit_command\<close> is the contract of
    the commands without a result; each of them interprets it.
  \<^item> \<open>Registry\<close>: \<^verbatim>\<open>CLIENTS\<close>, \<^verbatim>\<open>persist_client\<close>, \<^verbatim>\<open>get_persisted_client\<close> and
    \<^verbatim>\<open>Client::connect\<close> with the version check.
  \<^item> \<open>Php_Values\<close>: how a value is handed to PHP and printed: \<^verbatim>\<open>set_zval\<close>, \<^verbatim>\<open>as_string\<close>, the
    classes \<^verbatim>\<open>GeoJSON\<close>, \<^verbatim>\<open>Json\<close>, \<^verbatim>\<open>BLOB\<close>, \<^verbatim>\<open>HLL\<close>, \<^verbatim>\<open>Infinity\<close> and \<^verbatim>\<open>Wildcard\<close>. What PHP reads
    back of a value it was given, and when handing it over panics.
  \<^item> \<open>Php_Objects\<close>: the arguments that are objects: \<^verbatim>\<open>FromZval\<close> of every class that is no value, and the
    \<^verbatim>\<open>From\<close> conversions that make an object of a message. The locale \<open>php_class\<close> is the contract of a
    reader, \<open>php_message\<close> that of an object made of a message; the 40 and 21 classes interpret them.
  \<^item> \<open>Grpc\<close>: \<^verbatim>\<open>BlockingClient\<close> of \<^verbatim>\<open>src/grpc.rs\<close>: connecting and one method per RPC, and the
    service of these methods that the commands of the client run on.
  \<^item> \<open>Manager_Policies\<close>, \<open>Manager_Records\<close>: the manager's conversions of policies, keys,
    bins, filters, statements, partition filters and privileges into types of the Go library,
    and of records, batch records, roles, users, UDFs and errors back into messages. What a
    property of a policy becomes in the library, and which messages can be read.
  \<^item> \<open>Manager_Server\<close>: the handlers of \<^verbatim>\<open>kvs.go\<close> over a client of the Go library, the loops of
    scans and queries, the recovery of a panic, and \<open>connected\<close>, the service of a client whose
    manager runs these handlers.
  \<^item> \<open>End_To_End\<close>: the commands of the client on \<open>connected\<close>: the library call that each makes and
    what PHP sees of its result; a put is got back; a scan is resumed where it stopped; a query
    with any filter.
  \<^item> \<open>Server_Answers\<close>: the commands that answer with a list or a value (functions, users, roles,
    \<^verbatim>\<open>udfExecute\<close>) on \<open>connected\<close>.
  \<^item> \<open>Batches\<close>: batches from the PHP objects to the calls of the Go library and back.
  \<^item> \<open>Sessions\<close>: an abstract store, a map from keys to bins, and the refinement: any sequence of
    puts, gets, batches of reads, deletes and questions for existence on \<open>connected\<close> gives the answers
    of the store when the library keeps its records (\<open>keeps_records\<close>) and the values are scalars
    or lists of these: maps, whose entries come back in any order, and JSON, which does not come
    back, are not stored.
  \<^item> \<open>Isolation\<close>: the records that a command touches. Every command on records stays within those of
    its keys when the library keeps records apart (\<open>keeps_apart\<close>), whatever it answers.
  \<^item> \<open>Manager_Flags\<close>: \<^verbatim>\<open>common/flags\<close> and \<^verbatim>\<open>common/client\<close>: the texts of the configuration. Seeds
    (\<^verbatim>\<open>host:tls-name:port\<close> with the six regular expressions), the list of TLS protocols and the
    interval it selects, authentication modes, and secrets from the environment, base64 or files.
    The locale \<open>text_flag\<close> is the contract of a flag that prints what it was set to.
  \<^item> \<open>Manager_Config\<close>: \<^verbatim>\<open>common/config/conf.go\<close>, \<^verbatim>\<open>common/client/config.go\<close>, \<^verbatim>\<open>aerospike_flags.go\<close> and
    \<^verbatim>\<open>launchServer\<close> of \<^verbatim>\<open>main.go\<close>: the keys of a section in the order they are read, the client policy,
    the hosts and the TLS configuration made of them, and the cluster opened with these.
  \<^item> \<open>Manager_Process\<close>: \<^verbatim>\<open>main\<close>, \<^verbatim>\<open>cleanUp\<close> and the goroutines of \<^verbatim>\<open>main.go\<close> as events on the state of the
    process (the phase of each section, the sockets on disk, whether it cleans up or has ended), in
    any order. The locale \<open>run_invariant\<close> carries an invariant of events to runs: which sockets exist, that the
    manager comes up, what a failure and a signal leave behind.
  \<^item> This theory: several clients of one manager, whose commands are served in any order.

  \<^bold>\<open>Correspondence.\<close> A class that wraps a protobuf message is the record or datatype of the
  message; a method \<^verbatim>\<open>C::f\<close> is the definition \<open>C_f\<close>, a constructor \<open>C_construct\<close>. Integers are words
  of their width. \<^verbatim>\<open>throw_object\<close> records an exception and returns, so a function can throw and
  still return a value; a panic ends it. A \<^verbatim>\<open>PhpResult\<close> is a sum inside the effect. State that the
  code shares is passed on: partition filters live in a store indexed by their address, because a
  record set and the caller of a scan hold the same object; the connections are an entry list; the
  service is a function from a request and a world to a response and the next world. A call of the
  Go library is a term with the function and its arguments, so that a property can say which
  function is reached with which arguments.

  \<^bold>\<open>Parameters.\<close> Code outside the repository is a parameter with hypotheses: \<open>externs\<close> (the RIPEMD
  digest, hexadecimal printing, the key queries of PHP arrays, the equality of floats),
  \<open>php_externs\<close> (printing of floats and quoted strings, the keys of PHP arrays),
  \<open>go_externs\<close> and \<open>go_library\<close> (printing of a library value, the constructor of keys and the
  names of privileges), \<open>float_fmt\<close> (printing of floats), \<open>transport\<close> and
  \<open>KvsClient\<close> (the tokio runtime, the channel and the generated stub), \<open>aero_client\<close> (the calls of the
  Go library on a world), \<open>go_server\<close> (its version, the texts of panics and errors, whether a message could be
  sent), \<open>host_system\<close> and \<open>manager_system\<close> (files and the environment, the TOML parser, durations),
  \<open>tls_library\<close> (the \<^verbatim>\<open>x509\<close> and \<^verbatim>\<open>tls\<close> packages), the \<open>connector\<close> and version comparison. The laws of the client alone hold for any
  \<open>service\<close>; the theorems of \<open>End_To_End\<close> take the service made of the handlers. Every property
  with hypotheses has a witness with concrete functions.

  \<^bold>\<open>Bounds and fuel.\<close> Reading a record set to its end takes fuel, the number of calls; a property
  with fuel asks for more calls than there are messages in the stream and proves the result then.
  The stream of a record set is the finite list of what it will deliver, so a stream that never
  ends is not modelled. All other loops are structural. Partition statuses are the 4096 of \<^verbatim>\<open>PARTITIONS\<close>; an index out of
  range is a panic.

  \<^bold>\<open>Not modelled.\<close> The inside of tokio, tonic and the generated stub; the Go library, the TOML
  parser and the \<^verbatim>\<open>x509\<close> and \<^verbatim>\<open>tls\<close> packages. The glue of \<^verbatim>\<open>ext-php-rs\<close> without logic: the
  registration of the module, \<^verbatim>\<open>phpinfo\<close>, the text of \<^verbatim>\<open>AeroPHPError\<close> and the trace of a dropped
  client. Of the manager, the health and reflection services, the build information and the
  loggers; other processes that make or remove socket files while it runs; an empty socket path,
  which Linux takes as an abstract socket without a file; the help texts of the
  flags. The texts of the configuration are taken as ASCII, for which
  the character classes of the regular expressions and the case conversion are those of the code.
  Build and packaging files.
\<close>

section \<open>Properties\<close>

text \<open>C2. Clients that work on different records do not see each other. Several clients send commands
  on records (put, add, append, prepend, touch, delete, get, get\_header, exists, functions and
  batches of every kind) with any policies, keys and values, and the manager serves them one
  after the other in any order. If no record is used by two clients, each client gets exactly
  the answers and exceptions that it would get alone, and its records end as they would have.
  It is assumed of the library that a call for a key reads and changes the record of this key
  only and answers from it, and a batch the records of its keys; a call may refuse or fail.
  Records are told apart by the whole library key, and the commands of a batch carry their
  keys. So the property is about client and manager: nothing is kept between two commands and
  no handler calls the library for another key.\<close>
theorem clients_do_not_interfere:
  assumes "keeps_apart c view" and "\<forall>(i, a) \<in> set cmds. keyed a"
    and "\<forall>(i, a) \<in> set cmds. \<forall>(j, b) \<in> set cmds. i \<noteq> j \<longrightarrow> touched sv a \<inter> touched sv b = {}"
  shows "of_client i (fst (run_clients x (connected sv c) cmds w)) =
      fst (run_alone x (connected sv c) (of_client i cmds) w) \<and>
    (\<forall>cmd \<in> set (of_client i cmds). \<forall>key \<in> touched sv cmd.
      view (snd (run_clients x (connected sv c) cmds w)) key =
      view (snd (run_alone x (connected sv c) (of_client i cmds) w)) key)"
proof -
  let ?K = "\<Union>cmd \<in> set (of_client i cmds). touched sv cmd"
  have "\<forall>(j, cmd) \<in> set cmds. keyed cmd \<and> (if j = i then touched sv cmd \<subseteq> ?K else touched sv cmd \<inter> ?K = {})"
    using assms(2,3) by (force simp: of_client_def)
  from client_alone [OF assms(1) this, of w w x] show ?thesis by blast
qed

theorem clients_do_not_interfere_witness:
  "let k = Key_construct ''test'' ''s'' (PInt 1); l = Key_construct ''test'' ''s'' (PInt 2);
       cmds = [(1 :: nat, Do_put WritePolicy_default k [\<lparr>bin_name = ''a'', bin_value = Some (V_I 4)\<rparr>]),
               (2, Do_delete WritePolicy_default l), (2, Do_exists ReadPolicy_default l),
               (1, Do_get ReadPolicy_default k None)]
   in of_client 1 (fst (run_clients externs0 (connected sample_server memory_cluster) cmds Map.empty)) =
      fst (run_alone externs0 (connected sample_server memory_cluster)
        [Do_put WritePolicy_default k [\<lparr>bin_name = ''a'', bin_value = Some (V_I 4)\<rparr>],
         Do_get ReadPolicy_default k None] Map.empty)"
proof -
  let ?k = "Key_construct ''test'' ''s'' (PInt 1)" and ?l = "Key_construct ''test'' ''s'' (PInt 2)"
  let ?bs = "[\<lparr>bin_name = ''a'', bin_value = Some (V_I 4)\<rparr>]"
  let ?cmds = "[(1 :: nat, Do_put WritePolicy_default ?k ?bs), (2, Do_delete WritePolicy_default ?l),
      (2, Do_exists ReadPolicy_default ?l), (1, Do_get ReadPolicy_default ?k None)]"
  obtain key key2 where key: "record_of sample_server ?k = Some key" "record_of sample_server ?l = Some key2" "key \<noteq> key2"
    by (simp add: record_of_def toKey_constructed sample_server_def sample_library_def)
  have "\<forall>(i, a) \<in> set ?cmds. keyed a" by simp
  moreover have "\<forall>(i, a) \<in> set ?cmds. \<forall>(j, b) \<in> set ?cmds. i \<noteq> j \<longrightarrow>
      touched sample_server a \<inter> touched sample_server b = {}"
    using key by (simp add: single_touched)
  ultimately show ?thesis
    using clients_do_not_interfere [OF memory_keeps_apart, of ?cmds sample_server 1 externs0 Map.empty]
    by (simp add: Let_def)
qed

end
